(* ===== verification/Prelude.thy ===== *)
theory Prelude
  imports Complex_Main "HOL-Library.AList" "HOL-Library.Sublist"
begin

text \<open>
  The shared vocabulary of the development: JavaScript strings as lists of code units, the
  string methods the service calls (\<open>trim\<close>, \<open>toLowerCase\<close>, \<open>split\<close>, \<open>indexOf\<close>, \<open>includes\<close>,
  \<open>slice\<close>, \<open>join\<close>), decimal numerals of template literals, the result type of code that may
  throw, and the lemma collections the component theories rely on.

  A string is a \<open>char list\<close>: one character per UTF-16 code unit, restricted to the code units
  U+0000 to U+00FF.  White space is what \<open>trim\<close> and \<open>\s\<close> recognise in that range.
\<close>

section \<open>Lemma collections\<close>

named_theorems result_simps \<open>computation rules of results, i.e. of code that may throw\<close>
named_theorems string_simps \<open>facts about the string methods\<close>

section \<open>Code units\<close>

abbreviation code :: "char \<Rightarrow> nat" where "code c \<equiv> of_char c"

definition is_digit :: "char \<Rightarrow> bool" where
  "is_digit c = (48 \<le> code c \<and> code c \<le> 57)"

definition is_upper :: "char \<Rightarrow> bool" where
  "is_upper c = (65 \<le> code c \<and> code c \<le> 90)"

definition is_lower :: "char \<Rightarrow> bool" where
  "is_lower c = (97 \<le> code c \<and> code c \<le> 122)"

definition is_alnum :: "char \<Rightarrow> bool" where
  "is_alnum c = (is_digit c \<or> is_upper c \<or> is_lower c)"

definition is_lower_hex :: "char \<Rightarrow> bool" where
  "is_lower_hex c = (is_digit c \<or> 97 \<le> code c \<and> code c \<le> 102)"

definition is_ws :: "char \<Rightarrow> bool" where
  "is_ws c = (9 \<le> code c \<and> code c \<le> 13 \<or> code c = 32 \<or> code c = 160)"

definition is_control :: "char \<Rightarrow> bool" where
  "is_control c = (code c \<le> 31 \<or> code c = 127)"

definition to_lower_char :: "char \<Rightarrow> char" where
  "to_lower_char c = (if is_upper c \<or> (192 \<le> code c \<and> code c \<le> 222 \<and> code c \<noteq> 215)
     then char_of (code c + 32) else c)"

definition to_lower :: "string \<Rightarrow> string" where
  "to_lower s = map to_lower_char s"

section \<open>String methods\<close>

definition trim_start :: "string \<Rightarrow> string" where
  "trim_start s = dropWhile is_ws s"

definition trim :: "string \<Rightarrow> string" where
  "trim s = rev (dropWhile is_ws (rev (dropWhile is_ws s)))"

abbreviation starts_with :: "string \<Rightarrow> string \<Rightarrow> bool" where
  "starts_with p s \<equiv> prefix p s"

abbreviation ends_with :: "string \<Rightarrow> string \<Rightarrow> bool" where
  "ends_with p s \<equiv> suffix p s"

text \<open>\<open>s.split(c)\<close> for a separator of one character: never empty, and \<open>"".split(c)\<close> is \<open>[""]\<close>.\<close>

fun split_on :: "char \<Rightarrow> string \<Rightarrow> string list" where
  "split_on c [] = [[]]"
| "split_on c (x # xs) =
    (if x = c then [] # split_on c xs
     else (case split_on c xs of [] \<Rightarrow> [[x]] | w # ws \<Rightarrow> (x # w) # ws))"

fun join_with :: "string \<Rightarrow> string list \<Rightarrow> string" where
  "join_with sep [] = []"
| "join_with sep [w] = w"
| "join_with sep (w # v # ws) = w @ sep @ join_with sep (v # ws)"

fun index_of :: "char \<Rightarrow> string \<Rightarrow> nat option" where
  "index_of c [] = None"
| "index_of c (x # xs) = (if x = c then Some 0 else map_option Suc (index_of c xs))"

definition includes_char :: "char \<Rightarrow> string \<Rightarrow> bool" where
  "includes_char c s = (c \<in> set s)"

text \<open>\<open>[...new Set(xs)]\<close>: the first occurrence of every element, in order.\<close>

fun distinct_set :: "'a list \<Rightarrow> 'a list" where
  "distinct_set [] = []"
| "distinct_set (x # xs) = x # filter (\<lambda>y. y \<noteq> x) (distinct_set xs)"

section \<open>Numerals\<close>

definition digit_char :: "nat \<Rightarrow> char" where
  "digit_char n = char_of (48 + n)"

fun decimal :: "nat \<Rightarrow> string" where
  "decimal n = (if n < 10 then [digit_char n] else decimal (n div 10) @ [digit_char (n mod 10)])"

declare decimal.simps [simp del]

definition decimal_value :: "string \<Rightarrow> nat" where
  "decimal_value s = foldl (\<lambda>n c. 10 * n + (code c - 48)) 0 s"

definition hex_digit_value :: "char \<Rightarrow> nat" where
  "hex_digit_value c = (if is_digit c then code c - 48 else code c - 87)"

definition hex_value :: "string \<Rightarrow> nat" where
  "hex_value s = foldl (\<lambda>n c. 16 * n + hex_digit_value c) 0 s"

section \<open>Facts about strings\<close>

lemma is_digit_numeral [string_simps]: "is_digit (digit_char n)" if "n < 10"
  using that by (simp add: is_digit_def digit_char_def)

lemma code_digit_char [string_simps]: "code (digit_char n) = 48 + n" if "n < 10"
  using that by (simp add: digit_char_def)

lemma decimal_digits: "list_all is_digit (decimal n)"
proof (induction n rule: decimal.induct)
  case (1 n)
  then show ?case
    by (subst decimal.simps) (auto simp: list_all_append is_digit_numeral)
qed

lemma decimal_not_Nil [simp]: "decimal n \<noteq> []"
  by (subst decimal.simps) simp

lemma decimal_value_snoc: "decimal_value (s @ [c]) = 10 * decimal_value s + (code c - 48)"
  by (simp add: decimal_value_def)

lemma decimal_value_decimal [simp]: "decimal_value (decimal n) = n"
proof (induction n rule: decimal.induct)
  case (1 n)
  show ?case
  proof (cases "n < 10")
    case True
    then show ?thesis
      by (subst decimal.simps) (simp add: decimal_value_def code_digit_char)
  next
    case False
    have "decimal_value (decimal n) = 10 * decimal_value (decimal (n div 10)) + (code (digit_char (n mod 10)) - 48)"
      using False by (subst decimal.simps) (simp add: decimal_value_snoc)
    also have "\<dots> = 10 * (n div 10) + n mod 10"
      using 1 False by (simp add: code_digit_char)
    finally show ?thesis by simp
  qed
qed

lemma decimal_inject [simp]: "decimal m = decimal n \<longleftrightarrow> m = n"
  by (metis decimal_value_decimal)

lemma split_on_not_Nil [simp]: "split_on c s \<noteq> []"
  by (induction s) (auto split: list.splits)

lemma split_on_absent [string_simps]: "c \<notin> set s \<Longrightarrow> split_on c s = [s]"
  by (induction s) auto

lemma split_on_append [string_simps]:
  "c \<notin> set s \<Longrightarrow> split_on c (s @ c # t) = s # split_on c t"
  by (induction s) auto

lemma join_split [simp]: "join_with [c] (split_on c s) = s"
proof (induction s)
  case (Cons x xs)
  then show ?case
    by (cases "split_on c xs"; cases "tl (split_on c xs)") auto
qed simp

lemma split_join:
  "ws \<noteq> [] \<Longrightarrow> \<forall>w\<in>set ws. c \<notin> set w \<Longrightarrow> split_on c (join_with [c] ws) = ws"
  by (induction "[c]" ws rule: join_with.induct) (auto simp: split_on_append split_on_absent)

lemma split_on_set: "w \<in> set (split_on c s) \<Longrightarrow> c \<notin> set w \<and> set w \<subseteq> set s"
proof (induction s arbitrary: w)
  case (Cons x xs)
  then show ?case
    by (auto split: if_splits list.splits) fastforce+
qed simp

lemma set_distinct_set [simp]: "set (distinct_set xs) = set xs"
  by (induction xs) auto

lemma distinct_distinct_set [simp]: "distinct (distinct_set xs)"
  by (induction xs) auto

lemma distinct_set_id [simp]: "distinct xs \<Longrightarrow> distinct_set xs = xs"
  by (induction xs) (auto intro: filter_True)

lemma distinct_set_Nil_iff [simp]: "distinct_set xs = [] \<longleftrightarrow> xs = []"
  by (cases xs) auto

lemma dropWhile_idem [simp]: "dropWhile P (dropWhile P xs) = dropWhile P xs"
  by (induction xs) auto

lemma hd_rev_dropWhile_rev:
  "xs \<noteq> [] \<Longrightarrow> \<not> P (hd xs) \<Longrightarrow> dropWhile P (rev (dropWhile P (rev xs))) = rev (dropWhile P (rev xs))"
proof (induction xs rule: rev_induct)
  case (snoc x xs)
  then show ?case
    by (cases xs) (auto simp: dropWhile_append)
qed simp

lemma trim_idem [simp]: "trim (trim s) = trim s"
proof (cases "dropWhile is_ws s")
  case Nil
  then have *: "trim s = []" by (simp only: trim_def Nil rev.simps dropWhile.simps)
  show ?thesis by (simp only: *) (simp add: trim_def)
next
  case (Cons c t)
  then have "\<not> is_ws (hd (dropWhile is_ws s))"
    by (metis hd_dropWhile list.distinct(1))
  with Cons have "dropWhile is_ws (trim s) = trim s"
    unfolding trim_def by (metis hd_rev_dropWhile_rev list.distinct(1))
  then show ?thesis
    by (simp add: trim_def)
qed

lemma trim_Nil [simp]: "trim [] = []"
  by (simp add: trim_def)

lemma trim_no_ws [string_simps]: "list_all (\<lambda>c. \<not> is_ws c) s \<Longrightarrow> trim s = s"
proof -
  assume "list_all (\<lambda>c. \<not> is_ws c) s"
  then have "\<And>xs. set xs = set s \<Longrightarrow> dropWhile is_ws xs = xs"
    by (auto simp: dropWhile_eq_self_iff list_all_iff dest: hd_in_set)
  then show ?thesis by (simp add: trim_def)
qed

lemma set_trim_subset: "set (trim s) \<subseteq> set s"
  by (metis (no_types, lifting) set_dropWhileD set_rev subsetI trim_def)

lemma length_trim_le: "length (trim s) \<le> length s"
  unfolding trim_def by (metis length_dropWhile_le length_rev le_trans)

lemma trim_hd:
  assumes "trim s = s" "s \<noteq> []" shows "\<not> is_ws (hd s)"
proof
  assume "is_ws (hd s)"
  then have "length (dropWhile is_ws s) < length s"
    using assms(2) by (cases s) (auto simp: length_dropWhile_le le_imp_less_Suc)
  moreover have "length (trim s) \<le> length (dropWhile is_ws s)"
    unfolding trim_def by (metis length_dropWhile_le length_rev)
  ultimately show False using assms(1) by simp
qed

lemma trim_not_blank:
  assumes "c \<in> set s" "\<not> is_ws c" shows "trim s \<noteq> []"
proof -
  have ne: "dropWhile is_ws s \<noteq> []" using assms by auto
  then have "\<not> is_ws (hd (dropWhile is_ws s))" "hd (dropWhile is_ws s) \<in> set (rev (dropWhile is_ws s))"
    by (simp_all add: hd_dropWhile)
  then have "dropWhile is_ws (rev (dropWhile is_ws s)) \<noteq> []"
    unfolding dropWhile_eq_Nil_conv by blast
  then show ?thesis by (simp add: trim_def)
qed

lemma trim_append_not_blank: "trim s = s \<Longrightarrow> s \<noteq> [] \<Longrightarrow> trim (s @ t) \<noteq> []"
  by (rule trim_not_blank [of "hd s"]) (auto simp: trim_hd)

lemma length_filter_cover:
  assumes "\<And>x. P x \<Longrightarrow> Q x \<or> R x"
  shows "length (filter P xs) \<le> length (filter Q xs) + length (filter R xs)"
proof (induction xs)
  case (Cons x xs)
  then show ?case using assms [of x] by (cases "P x") auto
qed simp

section \<open>Results of code that may throw\<close>

text \<open>
  \<open>Inl e\<close> is the exception \<open>e\<close>, \<open>Inr x\<close> the returned value; \<open>bindr\<close> runs one call after another
  and stops at the first exception, \<open>mapr\<close> is \<open>Array.map\<close> with a callback that may throw.
\<close>

definition bindr :: "'e + 'a \<Rightarrow> ('a \<Rightarrow> 'e + 'b) \<Rightarrow> 'e + 'b" where
  "bindr r f = (case r of Inl e \<Rightarrow> Inl e | Inr x \<Rightarrow> f x)"

fun mapr :: "('a \<Rightarrow> 'e + 'b) \<Rightarrow> 'a list \<Rightarrow> 'e + 'b list" where
  "mapr f [] = Inr []"
| "mapr f (x # xs) = bindr (f x) (\<lambda>y. bindr (mapr f xs) (\<lambda>ys. Inr (y # ys)))"

definition try_catch :: "'e + 'a \<Rightarrow> ('e \<Rightarrow> 'd + 'a) \<Rightarrow> 'd + 'a" where
  "try_catch r h = (case r of Inl e \<Rightarrow> h e | Inr x \<Rightarrow> Inr x)"

lemma bindr_Inl [simp, result_simps]: "bindr (Inl e) f = Inl e"
  and bindr_Inr [simp, result_simps]: "bindr (Inr x) f = f x"
  by (simp_all add: bindr_def)

lemma bindr_eq_Inr [result_simps]: "bindr r f = Inr y \<longleftrightarrow> (\<exists>x. r = Inr x \<and> f x = Inr y)"
  by (cases r) auto

lemma bindr_eq_Inl: "bindr r f = Inl e \<longleftrightarrow> r = Inl e \<or> (\<exists>x. r = Inr x \<and> f x = Inl e)"
  by (cases r) auto

lemma bindr_assoc: "bindr (bindr r f) g = bindr r (\<lambda>x. bindr (f x) g)"
  by (cases r) auto

lemma bindr_cong [fundef_cong]:
  "r = r' \<Longrightarrow> (\<And>x. r' = Inr x \<Longrightarrow> f x = f' x) \<Longrightarrow> bindr r f = bindr r' f'"
  by (cases r') auto

lemma if_Inl_eq_Inr [result_simps]: "(if b then Inl e else r) = Inr y \<longleftrightarrow> \<not> b \<and> r = Inr y"
  and if_Inr_eq_Inr [result_simps]: "(if b then r else Inl e) = Inr y \<longleftrightarrow> b \<and> r = Inr y"
  by auto

lemma try_catch_simps [simp, result_simps]:
  "try_catch (Inl e) h = h e" "try_catch (Inr x) h = Inr x"
  by (simp_all add: try_catch_def)

lemma mapr_Inr_map: "(\<And>x. x \<in> set xs \<Longrightarrow> f x = Inr (g x)) \<Longrightarrow> mapr f xs = Inr (map g xs)"
  by (induction xs) auto

lemma mapr_eq_Inr_iff: "mapr f xs = Inr ys \<longleftrightarrow> list_all2 (\<lambda>x y. f x = Inr y) xs ys"
  by (induction xs arbitrary: ys) (auto simp: bindr_eq_Inr list_all2_Cons1)

lemma mapr_length: "mapr f xs = Inr ys \<Longrightarrow> length ys = length xs"
  by (metis list_all2_lengthD mapr_eq_Inr_iff)

section \<open>Finite maps in insertion order\<close>

text \<open>
  A JavaScript object or \<open>Map\<close> used as a table is an association list: \<open>AList.update\<close> is
  \<open>o[k] = v\<close> (the place of an existing key is kept, a new key is appended), \<open>AList.delete\<close> is
  \<open>delete o[k]\<close>, and \<open>map_of\<close> is the read \<open>o[k]\<close>.
\<close>

lemma alist_lookup_update [simp]: "map_of (AList.update k v al) = (map_of al)(k \<mapsto> v)"
  by (rule update_conv')

lemma alist_lookup_delete [simp]: "map_of (AList.delete k al) = (map_of al)(k := None)"
  by (rule delete_conv')

lemma map_of_filter_snd:
  "distinct (map fst al) \<Longrightarrow>
   map_of (filter (\<lambda>kv. P (snd kv)) al) k = (case map_of al k of Some v \<Rightarrow> if P v then Some v else None | None \<Rightarrow> None)"
proof (induction al)
  case (Cons kv al)
  then show ?case
    by (cases kv) (force simp: map_of_eq_None_iff image_iff split: option.splits)
qed simp

lemma distinct_fst_filter [simp]: "distinct (map fst al) \<Longrightarrow> distinct (map fst (filter P al))"
  by (rule distinct_map_filter)

end
