(* ===== verification/Js_Values.thy ===== *)
theory Js_Values
  imports Prelude
begin

text \<open>
  The values that cross the component boundaries: the service's exceptions
  (\<open>shared/errors.ts\<close> and the error classes derived from it), the JavaScript values that
  \<open>JSON.parse\<close> can produce, and the accessors of \<open>shared/json.ts\<close>.
  A read that may give \<open>undefined\<close> is an \<open>option\<close>.
\<close>

section \<open>Exceptions\<close>

datatype error_code =
    Bad_request | Unauthorized | Forbidden | Not_found | Invalid_grant | Invalid_client
  | Invalid_scope | Invalid_target | Unsupported_grant_type | Unsupported_response_type
  | Rate_limited | Server_error

datatype jwt_failure =
    Jwt_oversized | Jwt_malformed | Jwt_invalid_header | Jwt_invalid_signature | Jwt_invalid_payload

datatype access_token_failure =
    Missing_authorization_header | Invalid_authorization_header | Jwt_failure jwt_failure
  | Unknown_key_id | Issuer_mismatch | Audience_mismatch | Token_expired | Token_not_yet_valid
  | Token_issued_in_future | Missing_required_claim | Invalid_scope_claim
  | Invalid_email_verified_claim | Invalid_numeric_date | Insufficient_scope

datatype js_error =
    ServiceError error_code string nat
  | AccessTokenValidationError access_token_failure nat
  | JwtValidationError jwt_failure
  | McpProtocolError int string
  | McpAuthChallengeError "string list" error_code string nat
  | PlainError string

type_synonym 'a outcome = "js_error + 'a"

definition badRequest :: "string \<Rightarrow> js_error" where
  "badRequest message = ServiceError Bad_request message 400"

definition unauthorized :: "string \<Rightarrow> js_error" where
  "unauthorized message = ServiceError Unauthorized message 401"

definition forbidden :: "string \<Rightarrow> js_error" where
  "forbidden message = ServiceError Forbidden message 403"

definition accessTokenError :: "access_token_failure \<Rightarrow> nat \<Rightarrow> js_error" where
  "accessTokenError reason status = AccessTokenValidationError reason status"

text \<open>\<open>error instanceof ServiceError\<close> with the fields the handlers read: code, message, status.\<close>

fun as_service_error :: "js_error \<Rightarrow> (error_code \<times> string \<times> nat) option" where
  "as_service_error (ServiceError c m s) = Some (c, m, s)"
| "as_service_error (AccessTokenValidationError r s) =
     Some (if s = 403 then Forbidden else Unauthorized, if s = 403 then ''insufficient scope'' else ''invalid token'', s)"
| "as_service_error (JwtValidationError r) = Some (Unauthorized, ''invalid token'', 401)"
| "as_service_error (McpAuthChallengeError ss c m s) = Some (c, m, s)"
| "as_service_error (McpProtocolError n m) = None"
| "as_service_error (PlainError m) = None"

text \<open>\<open>accessTokenFailureReason\<close>; \<open>None\<close> is \<open>"unknown_error"\<close>.\<close>

definition accessTokenFailureReason :: "js_error \<Rightarrow> access_token_failure option" where
  "accessTokenFailureReason e = (case e of
     AccessTokenValidationError reason status \<Rightarrow> Some reason
   | _ \<Rightarrow> (case as_service_error e of
       Some (c, m, status) \<Rightarrow> if status = 403 then Some Insufficient_scope else None
     | None \<Rightarrow> None))"

section \<open>JSON values\<close>

datatype js_number = Finite rat | Infinite bool

datatype json =
    JNull | JBool bool | JNum js_number | JStr string | JArr "json list" | JObj "(string \<times> json) list"

type_synonym js_object = "(string \<times> json) list"

abbreviation JInt :: "int \<Rightarrow> json" where "JInt n \<equiv> JNum (Finite (of_int n))"

definition max_safe_integer :: int where "max_safe_integer = 9007199254740991"

fun is_integer :: "js_number \<Rightarrow> bool" where
  "is_integer (Finite r) = (of_int \<lfloor>r\<rfloor> = r)"
| "is_integer (Infinite s) = False"

fun is_safe_integer :: "js_number \<Rightarrow> bool" where
  "is_safe_integer (Finite r) = (of_int \<lfloor>r\<rfloor> = r \<and> \<bar>\<lfloor>r\<rfloor>\<bar> \<le> max_safe_integer)"
| "is_safe_integer (Infinite s) = False"

fun integer_value :: "js_number \<Rightarrow> int" where
  "integer_value (Finite r) = \<lfloor>r\<rfloor>"
| "integer_value (Infinite s) = 0"

text \<open>
  A read \<open>record[key]\<close> of a parsed object: its own entries.  The keys the code reads are literals,
  none of which names a member of \<open>Object.prototype\<close>; \<open>schema-validation.ts\<close>, which reads by a
  key of the request, is modelled with the prototype members written out.
\<close>

abbreviation field :: "js_object \<Rightarrow> string \<Rightarrow> json option" where
  "field record key \<equiv> map_of record key"

fun json_object :: "json option \<Rightarrow> js_object option" where
  "json_object (Some (JObj kvs)) = Some kvs"
| "json_object _ = None"

fun json_string :: "json option \<Rightarrow> string option" where
  "json_string (Some (JStr s)) = Some s"
| "json_string _ = None"

definition asRecord :: "json option \<Rightarrow> string \<Rightarrow> js_object outcome" where
  "asRecord value name = (case json_object value of
     None \<Rightarrow> Inl (badRequest (name @ '' must be an object''))
   | Some kvs \<Rightarrow> Inr kvs)"

definition optionalString :: "js_object \<Rightarrow> string \<Rightarrow> string option outcome" where
  "optionalString record key = (case field record key of
     None \<Rightarrow> Inr None
   | Some value \<Rightarrow> (case json_string (Some value) of
       None \<Rightarrow> Inl (badRequest (key @ '' must be a string''))
     | Some s \<Rightarrow> Inr (Some s)))"

definition requiredString :: "js_object \<Rightarrow> string \<Rightarrow> string outcome" where
  "requiredString record key = bindr (optionalString record key) (\<lambda>value.
     case value of
       None \<Rightarrow> Inl (badRequest (key @ '' is required''))
     | Some s \<Rightarrow> if s = [] then Inl (badRequest (key @ '' is required'')) else Inr s)"

section \<open>Facts\<close>

lemma is_integer_of_int [simp]: "is_integer (Finite (of_int n))"
  by simp

lemma is_safe_integer_of_int [simp]: "is_safe_integer (Finite (of_int n)) \<longleftrightarrow> \<bar>n\<bar> \<le> max_safe_integer"
  by simp

lemma integer_value_of_int [simp]: "integer_value (Finite (of_int n)) = n"
  by simp

lemma is_safe_integerE:
  assumes "is_safe_integer x"
  obtains n where "x = Finite (of_int n)" "\<bar>n\<bar> \<le> max_safe_integer" "integer_value x = n"
  using assms by (cases x) (metis integer_value.simps(1) is_safe_integer.simps(1), simp)

lemma json_object_eq_Some [simp]: "json_object v = Some kvs \<longleftrightarrow> v = Some (JObj kvs)"
  by (cases v rule: json_object.cases) auto

lemma json_string_eq_Some [simp]: "json_string v = Some s \<longleftrightarrow> v = Some (JStr s)"
  by (cases v rule: json_string.cases) auto

lemma asRecord_eq_Inr [result_simps]: "asRecord v name = Inr kvs \<longleftrightarrow> v = Some (JObj kvs)"
  by (auto simp: asRecord_def split: option.splits)

lemma optionalString_eq_Inr [result_simps]:
  "optionalString record key = Inr r \<longleftrightarrow>
     (case r of None \<Rightarrow> field record key = None | Some s \<Rightarrow> field record key = Some (JStr s))"
  by (auto simp: optionalString_def split: option.splits)

lemma requiredString_eq_Inr [result_simps]:
  "requiredString record key = Inr s \<longleftrightarrow> field record key = Some (JStr s) \<and> s \<noteq> []"
  by (auto simp: requiredString_def bindr_eq_Inr optionalString_eq_Inr if_Inl_eq_Inr split: option.splits)

end
