(* ===== verification/Doubles.thy ===== *)
theory Doubles
  imports Js_Values "HOL-Library.Log_Nat"
begin

text \<open>
  IEEE double arithmetic as the service's sliding-window counter uses it.  The exact rational
  result of an operation is rounded to the nearest multiple of the unit in the last place, ties to
  even, subnormal results included.  Results beyond the largest double do not occur in the modelled
  code.  The locale lists what the clients rely on; the interpretation proves it for the rounding.
\<close>

section \<open>Rounding\<close>

definition round_half_even :: "rat \<Rightarrow> int" where
  "round_half_even x = (let f = \<lfloor>x\<rfloor>; d = x - of_int f in
     if d < 1 / 2 then f else if 1 / 2 < d then f + 1 else if even f then f else f + 1)"

text \<open>The exponent of the unit in the last place of a non-negative value; \<open>2 ^ -1074\<close> is the least double.\<close>

definition ulp_exponent :: "rat \<Rightarrow> int" where
  "ulp_exponent x = max (int (floorlog 2 (nat \<lfloor>x * 2 ^ 1074\<rfloor>)) - 1127) (- 1074)"

definition round_nonneg :: "rat \<Rightarrow> rat" where
  "round_nonneg x = (let u = 2 powi (ulp_exponent x) in of_int (round_half_even (x / u)) * u)"

definition double_round :: "rat \<Rightarrow> rat" where
  "double_round x = (if x < 0 then - round_nonneg (- x) else round_nonneg x)"

section \<open>What the arithmetic of the service relies on\<close>

lemma safe_less:
  assumes "n \<le> max_safe_integer" shows "of_int n < (2 ^ 53 :: rat)"
proof -
  have "of_int n \<le> (of_int max_safe_integer :: rat)"
    using assms by (simp only: of_int_le_iff)
  then show ?thesis by (simp add: max_safe_integer_def)
qed

locale rounding =
  fixes fl :: "rat \<Rightarrow> rat"
  assumes fl_mono: "x \<le> y \<Longrightarrow> fl x \<le> fl y"
    and fl_int: "\<bar>n\<bar> \<le> max_safe_integer \<Longrightarrow> fl (of_int n) = of_int n"
    and fl_error: "1 / 2 ^ 53 \<le> x \<Longrightarrow> fl x \<le> x + x / 2 ^ 53"
begin

lemma fl_zero: "fl 0 = 0"
  using fl_int [of 0] by (simp add: max_safe_integer_def)

lemma fl_nonneg: "0 \<le> x \<Longrightarrow> 0 \<le> fl x"
  using fl_mono [of 0 x] by (simp add: fl_zero)

text \<open>The quotient of two safe integers keeps its integer part when it is rounded.\<close>

lemma floor_fl_div:
  assumes "0 \<le> a" "a \<le> max_safe_integer" "0 < b" "b \<le> max_safe_integer"
  shows "\<lfloor>fl (of_int a / of_int b)\<rfloor> = a div b"
proof (cases "a = 0")
  case True
  then show ?thesis by (simp add: fl_zero)
next
  case False
  define q where "q = a div b"
  have "a = q * b + a mod b" "0 \<le> a mod b" "a mod b < b"
    using assms(3) by (simp_all add: q_def)
  moreover have "(q + 1) * b = q * b + b" "0 \<le> q"
    using assms by (simp_all add: distrib_right q_def pos_imp_zdiv_nonneg_iff)
  ultimately have q: "q * b \<le> a" "a < (q + 1) * b" "0 \<le> q"
    by linarith+
  have "q * 1 \<le> q * b"
    using assms(3) q(3) by (intro mult_left_mono) auto
  then have "q \<le> a"
    using q(1) by simp
  let ?x = "of_int a / of_int b :: rat"
  have lower: "of_int q \<le> fl ?x"
  proof -
    have "of_int (q * b) \<le> (of_int a :: rat)" using q(1) by (simp only: of_int_le_iff)
    then have "of_int q \<le> ?x" using assms(3) by (simp add: pos_le_divide_eq)
    then show ?thesis
      using fl_mono [of "of_int q" ?x] fl_int [of q] q(3) \<open>q \<le> a\<close> assms(2) by simp
  qed
  have "fl ?x < of_int q + 1"
  proof -
    have "of_int a < (2 ^ 53 :: rat)"
      by (rule safe_less [OF assms(2)])
    then have step: "?x / 2 ^ 53 < 1 / of_int b"
      using assms(3) by (simp add: divide_simps)
    have "of_int (a + 1) \<le> (of_int ((q + 1) * b) :: rat)"
      using q(2) by (simp only: of_int_le_iff)
    then have "?x + 1 / of_int b \<le> of_int q + 1"
      using assms(3) by (simp add: divide_simps algebra_simps)
    moreover have "fl ?x \<le> ?x + ?x / 2 ^ 53"
    proof (rule fl_error)
      have "of_int b \<le> (2 ^ 53 :: rat)"
        using safe_less [OF assms(4)] by simp
      moreover have "1 \<le> (of_int a :: rat)" using False assms(1) by simp
      ultimately have "of_int b * 1 \<le> (2 ^ 53 * of_int a :: rat)"
        using assms(3) by (intro mult_mono) auto
      then show "1 / 2 ^ 53 \<le> ?x" using assms(3) by (simp add: divide_simps)
    qed
    ultimately show ?thesis using step by linarith
  qed
  with lower show ?thesis
    unfolding q_def [symmetric] by (simp add: floor_unique)
qed

lemma fl_add_ge: "0 \<le> w \<Longrightarrow> 0 \<le> n \<Longrightarrow> n \<le> max_safe_integer \<Longrightarrow> of_int n \<le> fl (of_int n + w)"
  using fl_mono [of "of_int n" "of_int n + w"] fl_int [of n] by simp

end

section \<open>The rounding of doubles has these properties\<close>

lemma round_half_even_bounds:
  "\<lfloor>x\<rfloor> \<le> round_half_even x" "round_half_even x \<le> \<lfloor>x\<rfloor> + 1" "\<bar>of_int (round_half_even x) - x\<bar> \<le> 1 / 2"
proof -
  have "of_int \<lfloor>x\<rfloor> \<le> x" "x < of_int \<lfloor>x\<rfloor> + 1" by linarith+
  then show "\<bar>of_int (round_half_even x) - x\<bar> \<le> 1 / 2"
    by (simp only: round_half_even_def Let_def abs_le_iff of_int_add of_int_1 split: if_split) linarith
qed (auto simp: round_half_even_def Let_def)

lemma round_half_even_mono:
  assumes "x \<le> y" shows "round_half_even x \<le> round_half_even y"
proof (cases "\<lfloor>x\<rfloor> = \<lfloor>y\<rfloor>")
  case True
  then show ?thesis using assms by (auto simp: round_half_even_def Let_def)
next
  case False
  then have "\<lfloor>x\<rfloor> + 1 \<le> \<lfloor>y\<rfloor>" using floor_mono [OF assms] by linarith
  then show ?thesis
    using round_half_even_bounds(2) [of x] round_half_even_bounds(1) [of y] by linarith
qed

lemma round_half_even_int [simp]: "round_half_even (of_int n) = n"
  by (simp add: round_half_even_def Let_def)

lemma powi_add_nat: "(2 :: rat) powi (k + int n) = 2 powi k * 2 ^ n"
  by (simp add: power_int_add)

lemma ulp_upper:
  assumes "0 \<le> x" shows "x < 2 powi (ulp_exponent x + 53)"
proof -
  define n where "n = nat \<lfloor>x * 2 ^ 1074\<rfloor>"
  have "n < 2 ^ floorlog 2 n"
    using floorlog_bounds [of n 2] by (cases "n = 0") (auto simp: floorlog_def)
  then have "int n < 2 ^ floorlog 2 n" by (metis of_nat_less_iff of_nat_numeral of_nat_power)
  then have "\<lfloor>x * 2 ^ 1074\<rfloor> < 2 ^ floorlog 2 n"
    using assms by (simp add: n_def)
  then have "x * 2 ^ 1074 < of_int (2 ^ floorlog 2 n)" by (simp only: floor_less_iff)
  then have "x * 2 ^ 1074 < 2 ^ floorlog 2 n" by simp
  also have "\<dots> = 2 powi (int (floorlog 2 n) - 1074) * 2 ^ 1074"
    using powi_add_nat [of "int (floorlog 2 n) - 1074" 1074] by simp
  finally have "x < 2 powi (int (floorlog 2 n) - 1074)"
    by (simp only: mult_less_cancel_right) simp
  also have "\<dots> \<le> 2 powi (ulp_exponent x + 53)"
    by (intro power_int_increasing) (auto simp: ulp_exponent_def n_def)
  finally show ?thesis .
qed

lemma ulp_lower:
  assumes "0 \<le> x" "- 1074 < ulp_exponent x" shows "2 powi (ulp_exponent x + 52) \<le> x"
proof -
  define n where "n = nat \<lfloor>x * 2 ^ 1074\<rfloor>"
  have u: "ulp_exponent x = int (floorlog 2 n) - 1127" and big: "53 < floorlog 2 n"
    using assms(2) by (auto simp: ulp_exponent_def n_def max_def split: if_splits)
  then have "n > 0" by (cases "n = 0") (auto simp: floorlog_def)
  then have "2 ^ (floorlog 2 n - 1) \<le> n"
    using floorlog_bounds [of n 2] by simp
  then have "(2 ^ (floorlog 2 n - 1) :: int) \<le> int n" by (metis of_nat_le_iff of_nat_numeral of_nat_power)
  then have "2 ^ (floorlog 2 n - 1) \<le> \<lfloor>x * 2 ^ 1074\<rfloor>"
    using assms by (simp add: n_def)
  then have "of_int (2 ^ (floorlog 2 n - 1)) \<le> x * 2 ^ 1074" by (simp only: le_floor_iff)
  then have "2 ^ (floorlog 2 n - 1) \<le> x * 2 ^ 1074" by simp
  moreover have "2 powi (ulp_exponent x + 52) * 2 ^ 1074 = (2 :: rat) ^ (floorlog 2 n - 1)"
    using powi_add_nat [of "ulp_exponent x + 52" 1074] big u
    by (simp add: power_int_def nat_diff_distrib)
  ultimately have "2 powi (ulp_exponent x + 52) * 2 ^ 1074 \<le> x * 2 ^ 1074" by simp
  then show ?thesis
    by (simp only: mult_le_cancel_right) simp
qed

lemma ulp_mono: "0 \<le> x \<Longrightarrow> x \<le> y \<Longrightarrow> ulp_exponent x \<le> ulp_exponent y"
  unfolding ulp_exponent_def
  by (intro max.mono diff_mono of_nat_mono floorlog_mono nat_mono floor_mono mult_right_mono) auto

lemma round_nonneg_le:
  assumes "x \<le> of_int m * 2 powi (ulp_exponent x)"
  shows "round_nonneg x \<le> of_int m * 2 powi (ulp_exponent x)"
proof -
  have "round_half_even (x / 2 powi (ulp_exponent x)) \<le> round_half_even (of_int m)"
    using assms by (intro round_half_even_mono) (simp add: divide_le_eq)
  then show ?thesis
    by (simp add: round_nonneg_def Let_def mult_right_mono)
qed

lemma round_nonneg_ge:
  assumes "of_int m * 2 powi (ulp_exponent x) \<le> x"
  shows "of_int m * 2 powi (ulp_exponent x) \<le> round_nonneg x"
proof -
  have "round_half_even (of_int m) \<le> round_half_even (x / 2 powi (ulp_exponent x))"
    using assms by (intro round_half_even_mono) (simp add: le_divide_eq)
  then show ?thesis
    by (simp add: round_nonneg_def Let_def mult_right_mono)
qed

lemma round_nonneg_mono:
  assumes "0 \<le> x" "x \<le> y" shows "round_nonneg x \<le> round_nonneg y"
proof (cases "ulp_exponent x = ulp_exponent y")
  case True
  then show ?thesis
    using assms(2) by (simp add: round_nonneg_def Let_def round_half_even_mono divide_right_mono)
next
  case False
  then have less: "ulp_exponent x < ulp_exponent y"
    using ulp_mono [OF assms] by simp
  moreover have "- 1074 \<le> ulp_exponent x" by (simp add: ulp_exponent_def)
  ultimately have y: "2 powi (ulp_exponent y + 52) \<le> y"
    using assms by (intro ulp_lower) auto
  define B where "B = (2 :: rat) powi (ulp_exponent y + 52)"
  have "x < 2 powi (ulp_exponent x + 53)" by (rule ulp_upper [OF assms(1)])
  also have "\<dots> \<le> B" unfolding B_def using less by (intro power_int_increasing) auto
  finally have "x \<le> B" by simp
  moreover have B_x: "B = of_int (2 ^ nat (ulp_exponent y + 52 - ulp_exponent x)) * 2 powi (ulp_exponent x)"
    using less powi_add_nat [of "ulp_exponent x" "nat (ulp_exponent y + 52 - ulp_exponent x)"]
    by (simp add: B_def)
  ultimately have "round_nonneg x \<le> B"
    using round_nonneg_le [of x] by metis
  moreover have B_y: "B = of_int (2 ^ 52) * 2 powi (ulp_exponent y)"
    using powi_add_nat [of "ulp_exponent y" 52] by (simp add: B_def)
  then have "B \<le> round_nonneg y"
    using y round_nonneg_ge [of "2 ^ 52" y] unfolding B_def [symmetric] by simp
  ultimately show ?thesis by simp
qed

lemma round_nonneg_zero [simp]: "round_nonneg 0 = 0"
  using round_half_even_int [of 0] by (simp add: round_nonneg_def Let_def)

lemma round_nonneg_nonneg: "0 \<le> x \<Longrightarrow> 0 \<le> round_nonneg x"
  using round_nonneg_mono [of 0 x] by simp

lemma round_nonneg_int:
  assumes "0 \<le> n" "n \<le> max_safe_integer" shows "round_nonneg (of_int n) = of_int n"
proof -
  have "ulp_exponent (of_int n) \<le> 0"
  proof (rule ccontr)
    assume pos: "\<not> ulp_exponent (of_int n) \<le> 0"
    then have "2 powi (ulp_exponent (of_int n) + 52) \<le> (of_int n :: rat)"
      using assms by (intro ulp_lower) auto
    moreover have "(2 :: rat) powi 53 \<le> 2 powi (ulp_exponent (of_int n) + 52)"
      using pos by (intro power_int_increasing) auto
    ultimately have "(2 :: rat) ^ 53 \<le> of_int n" by simp
    then show False
      using safe_less [OF assms(2)] by linarith
  qed
  then have one: "2 powi (ulp_exponent (of_int n)) * of_int (2 ^ nat (- ulp_exponent (of_int n))) = (1 :: rat)"
    using powi_add_nat [of "ulp_exponent (of_int n)" "nat (- ulp_exponent (of_int n))"] by simp
  define m where "m = n * 2 ^ nat (- ulp_exponent (of_int n))"
  have m: "of_int m * (2 :: rat) powi (ulp_exponent (of_int n)) = of_int n"
    unfolding m_def using one by (simp only: of_int_mult mult.assoc) (simp add: mult.commute)
  show ?thesis
    using round_nonneg_le [of "of_int n" m, unfolded m, OF order_refl]
      round_nonneg_ge [of m "of_int n", unfolded m, OF order_refl] by (rule order_antisym)
qed

lemma round_nonneg_error:
  assumes "1 / 2 ^ 53 \<le> x" shows "round_nonneg x \<le> x + x / 2 ^ 53"
proof -
  define u where "u = (2 :: rat) powi (ulp_exponent x)"
  have "0 \<le> x"
    by (rule order_trans [OF _ assms]) simp
  then have pos: "0 < u" "0 \<le> x"
    by (auto simp: u_def)
  have "of_int (round_half_even (x / u)) \<le> x / u + 1 / 2"
    using round_half_even_bounds(3) [of "x / u"] by linarith
  then have "of_int (round_half_even (x / u)) * u \<le> (x / u + 1 / 2) * u"
    using pos by (intro mult_right_mono) auto
  then have "round_nonneg x \<le> x + u / 2"
    using pos by (simp add: round_nonneg_def Let_def u_def [symmetric] algebra_simps)
  moreover have "u * 2 ^ 52 \<le> x"
  proof (cases "ulp_exponent x = - 1074")
    case True
    have "u * 2 ^ 52 = 2 powi (ulp_exponent x + int 52)"
      by (simp only: u_def powi_add_nat)
    also have "\<dots> \<le> 2 powi (- 53)"
      using True by (intro power_int_increasing) linarith+
    also have "\<dots> = 1 / 2 ^ 53" by simp
    finally show ?thesis using assms by (rule order_trans)
  next
    case False
    then have "- 1074 < ulp_exponent x" by (auto simp: ulp_exponent_def)
    from ulp_lower [OF pos(2) this] show ?thesis
      using powi_add_nat [of "ulp_exponent x" 52] by (simp add: u_def)
  qed
  then have "u / 2 \<le> x / 2 ^ 53" by (simp add: divide_simps)
  ultimately show ?thesis by linarith
qed

interpretation double: rounding double_round
proof unfold_locales
  show "double_round x \<le> double_round y" if "x \<le> y" for x y
    using that round_nonneg_mono [of x y] round_nonneg_mono [of "- y" "- x"]
      round_nonneg_nonneg [of "- x"] round_nonneg_nonneg [of y]
    by (auto simp: double_round_def)
  show "double_round (of_int n) = of_int n" if "\<bar>n\<bar> \<le> max_safe_integer" for n
    using that round_nonneg_int [of n] round_nonneg_int [of "- n"]
    by (auto simp: double_round_def)
  show "double_round x \<le> x + x / 2 ^ 53" if "1 / 2 ^ 53 \<le> x" for x
  proof -
    have "0 \<le> x" by (rule order_trans [OF _ that]) simp
    then show ?thesis
      using round_nonneg_error [OF that] by (simp add: double_round_def)
  qed
qed

end
