(* ===== verification/Rate_Limit.thy ===== *)
theory Rate_Limit
  imports Doubles
begin

text \<open>
  \<open>auth/storage/rate-limit-algorithm.ts\<close> and \<open>auth/storage/rate-limit-store.ts\<close>: the
  sliding-window counters and the table of counters kept in the store file, keyed by the hash of
  the rate-limited subject.  Times and counts are safe integers, on which the integer operations of
  the source are exact; its two divisions, the product and the sum are rounded to doubles.
  The run of a table is a step relation whose ghost log holds the admitted requests.
\<close>

section \<open>Data\<close>

record rate_limit_policy =
  windowSeconds :: int
  maxRequests :: int

record rate_limit_record =
  rl_windowStart :: int
  rl_previousCount :: int
  rl_currentCount :: int
  rl_expiresAt :: int

type_synonym rate_limit_table = "(string \<times> rate_limit_record) list"

section \<open>Operations\<close>

definition countersForWindow :: "rate_limit_record option \<Rightarrow> int \<Rightarrow> int \<Rightarrow> int \<Rightarrow> int \<times> int" where
  "countersForWindow existing windowStart window now = (case existing of
     None \<Rightarrow> (0, 0)
   | Some r \<Rightarrow>
       if rl_expiresAt r \<le> now then (0, 0)
       else if rl_windowStart r = windowStart then (rl_previousCount r, rl_currentCount r)
       else if rl_windowStart r = windowStart - window then (rl_currentCount r, 0)
       else (0, 0))"

definition rate_limited_error :: js_error where
  "rate_limited_error = ServiceError Rate_limited ''rate limit exceeded'' 429"

definition nextRateLimitRecord ::
  "rate_limit_record option \<Rightarrow> rate_limit_policy \<Rightarrow> int \<Rightarrow> rate_limit_record outcome" where
  "nextRateLimitRecord existing policy now =
    (let window = windowSeconds policy;
         windowStart = \<lfloor>double_round (of_int now / of_int window)\<rfloor> * window;
         (previousCount, currentCount) = countersForWindow existing windowStart window now;
         elapsed = now - windowStart;
         weightedPrevious = double_round (of_int previousCount * double_round (of_int (window - elapsed) / of_int window))
     in if double_round (of_int currentCount + weightedPrevious) \<ge> of_int (maxRequests policy)
        then Inl rate_limited_error
        else Inr \<lparr> rl_windowStart = windowStart, rl_previousCount = previousCount,
                   rl_currentCount = currentCount + 1, rl_expiresAt = windowStart + window * 2 \<rparr>)"

definition pruneExpiredRateLimits :: "rate_limit_table \<Rightarrow> int \<Rightarrow> rate_limit_table" where
  "pruneExpiredRateLimits table now = filter (\<lambda>(key, r). \<not> rl_expiresAt r \<le> now) table"

text \<open>\<open>DiskRateLimitStore.hit\<close>; an exception leaves the stored table as it was.\<close>

definition hit :: "string \<Rightarrow> rate_limit_policy \<Rightarrow> int \<Rightarrow> rate_limit_table \<Rightarrow> rate_limit_table outcome" where
  "hit keyHash policy now table =
    (let pruned = pruneExpiredRateLimits table now in
     bindr (nextRateLimitRecord (map_of pruned keyHash) policy now) (\<lambda>r.
       Inr (AList.update keyHash r pruned)))"

section \<open>One request\<close>

definition policy_ok :: "rate_limit_policy \<Rightarrow> bool" where
  "policy_ok p = (0 < windowSeconds p \<and> windowSeconds p \<le> max_safe_integer \<and>
                  0 < maxRequests p \<and> maxRequests p \<le> max_safe_integer)"

definition time_ok :: "int \<Rightarrow> bool" where
  "time_ok now = (0 \<le> now \<and> now \<le> max_safe_integer)"

definition window_of :: "rate_limit_policy \<Rightarrow> int \<Rightarrow> int" where
  "window_of p t = t div windowSeconds p * windowSeconds p"

lemma window_of_bounds:
  assumes "policy_ok p" shows "window_of p t \<le> t" "t < window_of p t + windowSeconds p"
proof -
  have "0 < windowSeconds p" using assms by (simp add: policy_ok_def)
  then have "t = window_of p t + t mod windowSeconds p" "0 \<le> t mod windowSeconds p"
    "t mod windowSeconds p < windowSeconds p"
    by (simp_all add: window_of_def)
  then show "window_of p t \<le> t" "t < window_of p t + windowSeconds p" by linarith+
qed

lemma window_of_mono: "policy_ok p \<Longrightarrow> s \<le> t \<Longrightarrow> window_of p s \<le> window_of p t"
  by (simp add: window_of_def policy_ok_def zdiv_mono1 mult_right_mono)

text \<open>The window the code computes with a rounded quotient is the exact one.\<close>

lemma code_window:
  "policy_ok p \<Longrightarrow> time_ok now \<Longrightarrow>
   \<lfloor>double_round (of_int now / of_int (windowSeconds p))\<rfloor> * windowSeconds p = window_of p now"
  by (simp add: double.floor_fl_div policy_ok_def time_ok_def window_of_def)

definition record_ok :: "rate_limit_policy \<Rightarrow> rate_limit_record \<Rightarrow> bool" where
  "record_ok p r = (rl_expiresAt r = rl_windowStart r + 2 * windowSeconds p \<and>
     0 \<le> rl_previousCount r \<and> 0 < rl_currentCount r \<and> rl_currentCount r \<le> maxRequests p)"

lemma counters_nonneg:
  "(\<And>r. e = Some r \<Longrightarrow> record_ok p r) \<Longrightarrow> countersForWindow e w win now = (prev, cur) \<Longrightarrow>
   0 \<le> prev \<and> 0 \<le> cur \<and> cur \<le> maxRequests p \<or> 0 \<le> prev \<and> cur = 0"
  by (cases e) (auto simp: countersForWindow_def record_ok_def split: if_splits)

lemma next_record:
  assumes "policy_ok p" "time_ok now" "\<And>r. e = Some r \<Longrightarrow> record_ok p r"
    and "nextRateLimitRecord e p now = Inr r'"
  shows "record_ok p r'" "rl_windowStart r' = window_of p now"
    "rl_currentCount r' = snd (countersForWindow e (window_of p now) (windowSeconds p) now) + 1"
    "rl_previousCount r' = fst (countersForWindow e (window_of p now) (windowSeconds p) now)"
proof -
  obtain prev cur where c: "countersForWindow e (window_of p now) (windowSeconds p) now = (prev, cur)"
    by (cases "countersForWindow e (window_of p now) (windowSeconds p) now")
  let ?frac = "of_int (windowSeconds p - (now - window_of p now)) / of_int (windowSeconds p) :: rat"
  let ?w = "double_round (of_int prev * double_round ?frac)"
  have r': "\<not> of_int (maxRequests p) \<le> double_round (of_int cur + ?w)"
    "r' = \<lparr> rl_windowStart = window_of p now, rl_previousCount = prev, rl_currentCount = cur + 1,
            rl_expiresAt = window_of p now + windowSeconds p * 2 \<rparr>"
    using assms(4) unfolding nextRateLimitRecord_def Let_def code_window [OF assms(1,2)] c
    by (simp_all split: if_splits)
  show "rl_windowStart r' = window_of p now"
    "rl_currentCount r' = snd (countersForWindow e (window_of p now) (windowSeconds p) now) + 1"
    "rl_previousCount r' = fst (countersForWindow e (window_of p now) (windowSeconds p) now)"
    using r'(2) c by simp_all
  have prev: "0 \<le> prev" and cur: "0 \<le> cur" "cur \<le> max_safe_integer"
    using counters_nonneg [OF assms(3) c] assms(1) by (auto simp: policy_ok_def max_safe_integer_def)
  have "0 \<le> ?frac"
    using window_of_bounds [OF assms(1), of now] assms(1) by (intro divide_nonneg_nonneg) (auto simp: policy_ok_def)
  then have "0 \<le> ?w"
    using prev by (intro double.fl_nonneg mult_nonneg_nonneg) auto
  then have "of_int cur \<le> double_round (of_int cur + ?w)"
    using cur by (intro double.fl_add_ge)
  then have "cur < maxRequests p"
    using r'(1) by (meson not_le of_int_less_iff order.strict_trans1)
  then show "record_ok p r'"
    using r'(2) prev cur by (simp add: record_ok_def)
qed

section \<open>Runs of the table\<close>

record rate_world =
  rate_table :: rate_limit_table
  rate_log :: "(string \<times> int) list"
  rate_clock :: int

definition initial_rate_world :: rate_world where
  "initial_rate_world = \<lparr> rate_table = [], rate_log = [], rate_clock = 0 \<rparr>"

text \<open>
  \<open>policies\<close> gives the policy a subject is limited by: the key that is hashed names the bucket.
  Requests arrive in clock order, for any subjects.
\<close>

inductive rate_step :: "(string \<Rightarrow> rate_limit_policy) \<Rightarrow> rate_world \<Rightarrow> rate_world \<Rightarrow> bool"
  for policies where
  admitted: "rate_clock s \<le> now \<Longrightarrow> time_ok now \<Longrightarrow> hit h (policies h) now (rate_table s) = Inr table' \<Longrightarrow>
    rate_step policies s \<lparr> rate_table = table', rate_log = (h, now) # rate_log s, rate_clock = now \<rparr>"
| rejected: "rate_clock s \<le> now \<Longrightarrow> time_ok now \<Longrightarrow> hit h (policies h) now (rate_table s) = Inl e \<Longrightarrow>
    rate_step policies s (s \<lparr> rate_clock := now \<rparr>)"

inductive rate_reachable :: "(string \<Rightarrow> rate_limit_policy) \<Rightarrow> rate_world \<Rightarrow> bool" for policies where
  initial: "rate_reachable policies initial_rate_world"
| step: "rate_reachable policies s \<Longrightarrow> rate_step policies s s' \<Longrightarrow> rate_reachable policies s'"

definition admitted_times :: "string \<Rightarrow> (string \<times> int) list \<Rightarrow> int list" where
  "admitted_times h entries = map snd (filter (\<lambda>e. fst e = h) entries)"

definition admitted_in :: "string \<Rightarrow> (int \<Rightarrow> bool) \<Rightarrow> (string \<times> int) list \<Rightarrow> int" where
  "admitted_in h P entries = int (length (filter P (admitted_times h entries)))"

definition subject_inv :: "(string \<Rightarrow> rate_limit_policy) \<Rightarrow> rate_world \<Rightarrow> string \<Rightarrow> bool" where
  "subject_inv policies s h = (let p = policies h; times = admitted_times h (rate_log s) in
     (\<forall>t\<in>set times. t \<le> rate_clock s) \<and>
     (\<forall>w. admitted_in h (\<lambda>t. window_of p t = w) (rate_log s) \<le> maxRequests p) \<and>
     (case map_of (rate_table s) h of
        None \<Rightarrow> (\<forall>t\<in>set times. window_of p t + 2 * windowSeconds p \<le> rate_clock s)
      | Some r \<Rightarrow> record_ok p r \<and> (\<forall>t\<in>set times. window_of p t \<le> rl_windowStart r) \<and>
          admitted_in h (\<lambda>t. window_of p t = rl_windowStart r) (rate_log s) = rl_currentCount r))"

definition rate_inv :: "(string \<Rightarrow> rate_limit_policy) \<Rightarrow> rate_world \<Rightarrow> bool" where
  "rate_inv policies s = (distinct (map fst (rate_table s)) \<and> (\<forall>h. subject_inv policies s h))"

lemma lookup_pruned:
  "distinct (map fst table) \<Longrightarrow> map_of (pruneExpiredRateLimits table now) h =
     (case map_of table h of None \<Rightarrow> None | Some r \<Rightarrow> if rl_expiresAt r \<le> now then None else Some r)"
  unfolding pruneExpiredRateLimits_def
  using map_of_filter_snd [of table "\<lambda>r. \<not> rl_expiresAt r \<le> now" h]
  by (simp add: case_prod_beta' split: option.splits)

lemma admitted_times_Cons:
  "admitted_times h ((k, t) # entries) = (if k = h then t # admitted_times h entries else admitted_times h entries)"
  by (simp add: admitted_times_def)

lemma admitted_in_Cons:
  "admitted_in h P ((k, t) # entries) = (if k = h \<and> P t then 1 else 0) + admitted_in h P entries"
  by (simp add: admitted_in_def admitted_times_Cons)

lemma admitted_in_none: "(\<And>t. t \<in> set (admitted_times h entries) \<Longrightarrow> \<not> P t) \<Longrightarrow> admitted_in h P entries = 0"
  by (simp add: admitted_in_def filter_empty_conv)

text \<open>Pruning an expired record, or only letting time pass, keeps the invariant of a subject.\<close>

lemma subject_inv_prune:
  assumes "subject_inv policies s h" "policy_ok (policies h)" "rate_clock s \<le> now"
    and "distinct (map fst (rate_table s))"
    and "map_of table' h = map_of (rate_table s) h \<or> map_of table' h = map_of (pruneExpiredRateLimits (rate_table s) now) h"
    and "admitted_times h entries' = admitted_times h (rate_log s)"
  shows "subject_inv policies \<lparr> rate_table = table', rate_log = entries', rate_clock = now \<rparr> h"
  using assms(1,3,5) unfolding lookup_pruned [OF assms(4)]
  by (auto simp: subject_inv_def Let_def record_ok_def admitted_in_def assms(6) split: option.splits if_splits)

lemma subject_inv_admit:
  assumes inv: "subject_inv policies s h" and ok: "policy_ok (policies h)" "time_ok now" "rate_clock s \<le> now"
    and distinct: "distinct (map fst (rate_table s))"
    and hit: "hit h (policies h) now (rate_table s) = Inr table'"
  shows "subject_inv policies \<lparr> rate_table = table', rate_log = (h, now) # rate_log s, rate_clock = now \<rparr> h"
proof -
  let ?p = "policies h" and ?e = "map_of (pruneExpiredRateLimits (rate_table s) now) h"
  let ?times = "admitted_times h (rate_log s)" and ?w = "window_of (policies h) now"
  obtain r' where accepted: "nextRateLimitRecord ?e ?p now = Inr r'"
    and table': "table' = AList.update h r' (pruneExpiredRateLimits (rate_table s) now)"
    using hit by (auto simp: hit_def Let_def bindr_eq_Inr)
  have e: "record_ok ?p r" if "?e = Some r" for r
    using that inv by (auto simp: lookup_pruned [OF distinct] subject_inv_def Let_def split: option.splits if_splits)
  note r' = next_record [OF ok(1,2) e accepted]
  have past: "\<forall>t\<in>set ?times. t \<le> now"
    using inv ok(3) by (auto simp: subject_inv_def Let_def)
  have count: "admitted_in h (\<lambda>t. window_of ?p t = ?w) (rate_log s) =
      snd (countersForWindow ?e ?w (windowSeconds ?p) now)"
  proof (cases "\<exists>r. ?e = Some r \<and> rl_windowStart r = ?w")
    case True
    then show ?thesis
      using inv by (auto simp: lookup_pruned [OF distinct] subject_inv_def Let_def countersForWindow_def
          split: option.splits if_splits)
  next
    case False
    have "window_of ?p t \<noteq> ?w" if t: "t \<in> set ?times" for t
    proof
      assume w: "window_of ?p t = ?w"
      have "now < ?w + 2 * windowSeconds ?p"
        using window_of_bounds [OF ok(1), of now] ok(1) by (simp add: policy_ok_def)
      moreover have "window_of ?p t \<le> rl_windowStart r" "record_ok ?p r" if "map_of (rate_table s) h = Some r" for r
        using inv t that by (auto simp: subject_inv_def Let_def)
      moreover have "window_of ?p t + 2 * windowSeconds ?p \<le> now" if "map_of (rate_table s) h = None"
        using inv t that ok(3) by (fastforce simp: subject_inv_def Let_def)
      moreover have "rl_windowStart r \<le> ?w" if "map_of (rate_table s) h = Some r" for r
      proof -
        have "0 < admitted_in h (\<lambda>t. window_of ?p t = rl_windowStart r) (rate_log s)"
          using inv that by (auto simp: subject_inv_def Let_def record_ok_def)
        then obtain u where "u \<in> set ?times" "window_of ?p u = rl_windowStart r"
          by (metis (mono_tags, lifting) admitted_in_none less_irrefl)
        then show ?thesis
          using past window_of_mono [OF ok(1), of u now] by auto
      qed
      ultimately show False
        using False w by (fastforce simp: lookup_pruned [OF distinct] record_ok_def split: option.splits if_splits)
    qed
    then have "admitted_in h (\<lambda>t. window_of ?p t = ?w) (rate_log s) = 0"
      by (intro admitted_in_none) auto
    with False show ?thesis
      by (auto simp: countersForWindow_def split: option.splits)
  qed
  have "admitted_in h (\<lambda>t. window_of ?p t = w) ((h, now) # rate_log s) \<le> maxRequests ?p" for w
    using inv r' count by (auto simp: admitted_in_Cons subject_inv_def Let_def record_ok_def)
  then show ?thesis
    using r' count past window_of_mono [OF ok(1)]
    by (auto simp: subject_inv_def Let_def table' admitted_times_Cons admitted_in_Cons)
qed

lemma hit_keys: "hit h p now table = Inr table' \<Longrightarrow> distinct (map fst table) \<Longrightarrow> distinct (map fst table')"
  by (auto simp: hit_def Let_def bindr_eq_Inr pruneExpiredRateLimits_def intro: distinct_update)

lemma hit_other: "hit k p now table = Inr table' \<Longrightarrow> h \<noteq> k \<Longrightarrow>
    map_of table' h = map_of (pruneExpiredRateLimits table now) h"
  by (auto simp: hit_def Let_def bindr_eq_Inr)

lemma rate_step_inv:
  assumes "rate_step policies s s'" "rate_inv policies s" "\<And>h. policy_ok (policies h)"
  shows "rate_inv policies s'"
  using assms(1)
proof (cases rule: rate_step.cases)
  case (admitted now k table')
  have "subject_inv policies s' h" for h
  proof (cases "h = k")
    case True
    then show ?thesis
      using admitted assms subject_inv_admit by (simp add: rate_inv_def)
  next
    case False
    then have "map_of table' h = map_of (pruneExpiredRateLimits (rate_table s) now) h"
      using hit_other [OF admitted(4)] by blast
    moreover have "admitted_times h ((k, now) # rate_log s) = admitted_times h (rate_log s)"
      using False by (simp add: admitted_times_Cons)
    ultimately show ?thesis
      using admitted assms subject_inv_prune [of policies s h now table'] by (simp add: rate_inv_def)
  qed
  then show ?thesis
    using admitted assms(2) hit_keys by (simp add: rate_inv_def)
next
  case (rejected now h e)
  have "subject_inv policies s' k" for k
    using rejected assms subject_inv_prune [of policies s k now "rate_table s" "rate_log s"]
    by (cases s) (simp add: rate_inv_def)
  then show ?thesis
    using rejected assms(2) by (simp add: rate_inv_def)
qed

lemma rate_reachable_inv:
  assumes "rate_reachable policies s" "\<And>h. policy_ok (policies h)"
  shows "rate_inv policies s"
  using assms(1)
proof induction
  case initial
  then show ?case
    using assms(2) by (auto simp: rate_inv_def subject_inv_def initial_rate_world_def admitted_times_def
        admitted_in_def policy_ok_def Let_def order.strict_iff_order)
next
  case (step s s')
  then show ?case using rate_step_inv assms(2) by blast
qed

section \<open>Properties\<close>

text \<open>C19: whatever subjects hit the table in whatever order, no subject is admitted more than
  \<open>maxRequests\<close> times in one fixed window, nor more than twice that in any span of
  \<open>windowSeconds\<close> seconds; the rounded arithmetic does not weaken the bound.\<close>

theorem rate_limit_bounds_admissions:
  assumes "rate_reachable policies s" "\<And>h. policy_ok (policies h)"
  shows "admitted_in h (\<lambda>t. window_of (policies h) t = w) (rate_log s) \<le> maxRequests (policies h) \<and>
    admitted_in h (\<lambda>t. t0 \<le> t \<and> t < t0 + windowSeconds (policies h)) (rate_log s) \<le> 2 * maxRequests (policies h)"
proof -
  let ?p = "policies h"
  have bound: "admitted_in h (\<lambda>t. window_of ?p t = w) (rate_log s) \<le> maxRequests ?p" for w
    using rate_reachable_inv [OF assms] by (simp add: rate_inv_def subject_inv_def Let_def)
  have span: "window_of ?p t = window_of ?p t0 \<or> window_of ?p t = window_of ?p (t0 + windowSeconds ?p)"
    if "t0 \<le> t" "t < t0 + windowSeconds ?p" for t
  proof -
    have pos: "0 < windowSeconds ?p" using assms(2) [of h] by (simp add: policy_ok_def)
    then have "t0 div windowSeconds ?p \<le> t div windowSeconds ?p"
      "t div windowSeconds ?p \<le> (t0 + windowSeconds ?p) div windowSeconds ?p"
      "(t0 + windowSeconds ?p) div windowSeconds ?p = t0 div windowSeconds ?p + 1"
      using that zdiv_mono1 [of t0 t "windowSeconds ?p"] zdiv_mono1 [of t "t0 + windowSeconds ?p" "windowSeconds ?p"]
      by auto
    then have "t div windowSeconds ?p = t0 div windowSeconds ?p \<or>
        t div windowSeconds ?p = (t0 + windowSeconds ?p) div windowSeconds ?p"
      by linarith
    then show ?thesis by (auto simp: window_of_def)
  qed
  have "length (filter (\<lambda>t. t0 \<le> t \<and> t < t0 + windowSeconds ?p) ts) \<le>
      length (filter (\<lambda>t. window_of ?p t = window_of ?p t0) ts) +
      length (filter (\<lambda>t. window_of ?p t = window_of ?p (t0 + windowSeconds ?p)) ts)" for ts
    by (rule length_filter_cover) (use span in blast)
  then have "admitted_in h (\<lambda>t. t0 \<le> t \<and> t < t0 + windowSeconds ?p) (rate_log s) \<le>
      admitted_in h (\<lambda>t. window_of ?p t = window_of ?p t0) (rate_log s) +
      admitted_in h (\<lambda>t. window_of ?p t = window_of ?p (t0 + windowSeconds ?p)) (rate_log s)"
    unfolding admitted_in_def of_nat_add [symmetric] of_nat_le_iff .
  then show ?thesis
    using bound [of w] bound [of "window_of ?p t0"] bound [of "window_of ?p (t0 + windowSeconds ?p)"] by linarith
qed

text \<open>One request is admitted and a second one in the same window is not, under a limit of one.\<close>

definition single_request_policy :: rate_limit_policy where
  "single_request_policy = \<lparr> windowSeconds = 60, maxRequests = 1 \<rparr>"

lemma single_request_policy_ok: "policy_ok single_request_policy"
  by (simp add: single_request_policy_def policy_ok_def max_safe_integer_def)

lemma first_hit:
  "hit ''h'' single_request_policy 120 [] = Inr [(''h'',
     \<lparr> rl_windowStart = 120, rl_previousCount = 0, rl_currentCount = 1, rl_expiresAt = 240 \<rparr>)]"
proof -
  have w: "\<lfloor>double_round (of_int 120 / of_int 60)\<rfloor> * 60 = (120 :: int)"
    using code_window [OF single_request_policy_ok, of 120]
    by (simp add: single_request_policy_def time_ok_def max_safe_integer_def window_of_def)
  show ?thesis
    using w double.fl_zero
    by (simp add: hit_def Let_def nextRateLimitRecord_def pruneExpiredRateLimits_def countersForWindow_def
        single_request_policy_def)
qed

theorem rate_limit_bounds_admissions_witness:
  "rate_reachable (\<lambda>h. single_request_policy) \<lparr> rate_table = [(''h'',
     \<lparr> rl_windowStart = 120, rl_previousCount = 0, rl_currentCount = 1, rl_expiresAt = 240 \<rparr>)],
     rate_log = [(''h'', 120)], rate_clock = 120 \<rparr> \<and>
   admitted_in ''h'' (\<lambda>t. window_of single_request_policy t = 120) [(''h'', 120)] \<le> 1"
proof -
  have "rate_step (\<lambda>h. single_request_policy) initial_rate_world
      \<lparr> rate_table = [(''h'', \<lparr> rl_windowStart = 120, rl_previousCount = 0, rl_currentCount = 1, rl_expiresAt = 240 \<rparr>)],
        rate_log = (''h'', 120) # rate_log initial_rate_world, rate_clock = 120 \<rparr>"
    using first_hit by (intro rate_step.admitted) (auto simp: initial_rate_world_def time_ok_def max_safe_integer_def)
  then have r: "rate_reachable (\<lambda>h. single_request_policy) \<lparr> rate_table = [(''h'',
     \<lparr> rl_windowStart = 120, rl_previousCount = 0, rl_currentCount = 1, rl_expiresAt = 240 \<rparr>)],
     rate_log = [(''h'', 120)], rate_clock = 120 \<rparr>"
    by (auto simp: initial_rate_world_def intro: rate_reachable.intros)
  show ?thesis
    using rate_limit_bounds_admissions [OF r single_request_policy_ok, of "''h''" 120] r
    by (simp add: single_request_policy_def)
qed

lemma fresh_hit:
  assumes "policy_ok p" "time_ok now" "map_of (pruneExpiredRateLimits table now) h = None"
  shows "hit h p now table = Inr (AList.update h \<lparr> rl_windowStart = window_of p now, rl_previousCount = 0, rl_currentCount = 1,
      rl_expiresAt = window_of p now + windowSeconds p * 2 \<rparr> (pruneExpiredRateLimits table now))"
proof -
  have "\<not> of_int (maxRequests p) \<le> double_round 0"
    using assms(1) by (simp add: double.fl_zero policy_ok_def)
  then show ?thesis
    unfolding hit_def Let_def nextRateLimitRecord_def assms(3)
    by (simp add: countersForWindow_def code_window [OF assms(1,2)] double.fl_zero)
qed

text \<open>C40: a subject without a live record (it never came, or both windows of its last request are
  over) is admitted, so a limited subject recovers after two windows of silence.\<close>

theorem rate_limit_recovers:
  assumes "policy_ok p" "time_ok now" "distinct (map fst table)"
    and "\<forall>r. map_of table h = Some r \<longrightarrow> rl_expiresAt r \<le> now"
  shows "\<exists>table'. hit h p now table = Inr table' \<and>
    map_of table' h = Some \<lparr> rl_windowStart = window_of p now, rl_previousCount = 0, rl_currentCount = 1,
      rl_expiresAt = window_of p now + windowSeconds p * 2 \<rparr>"
proof -
  have "map_of (pruneExpiredRateLimits table now) h = None"
    using assms(4) by (simp add: lookup_pruned [OF assms(3)] split: option.splits)
  then show ?thesis using fresh_hit [OF assms(1,2)] by simp
qed

theorem rate_limit_recovers_witness:
  "\<exists>table'. hit ''h'' single_request_policy 240 [(''h'',
     \<lparr> rl_windowStart = 120, rl_previousCount = 0, rl_currentCount = 1, rl_expiresAt = 240 \<rparr>)] = Inr table'"
  using rate_limit_recovers [OF single_request_policy_ok, of 240 "[(''h'',
     \<lparr> rl_windowStart = 120, rl_previousCount = 0, rl_currentCount = 1, rl_expiresAt = 240 \<rparr>)]" "''h''"]
  by (force simp: time_ok_def max_safe_integer_def)

end
