(* ===== verification/Network_Address.thy ===== *)
theory Network_Address
  imports Js_Values "HOL-Library.Word"
begin

text \<open>
  \<open>shared/network-address.ts\<close>: which host names and IP addresses the service refuses to contact
  when it fetches client metadata.  \<open>isIP\<close> of \<open>node:net\<close> is modelled by the grammar it implements
  (dotted quads without leading zeros; eight groups of hexadecimal digits, one \<open>::\<close>, an optional
  dotted quad at the end and an optional zone).  The IPv4 rules are compared with a table of CIDR
  blocks over 32-bit words.
\<close>

section \<open>The address syntax of \<open>isIP\<close>\<close>

definition is_ipv4_octet :: "string \<Rightarrow> bool" where
  "is_ipv4_octet s = (s \<noteq> [] \<and> length s \<le> 3 \<and> list_all is_digit s \<and>
     (length s > 1 \<longrightarrow> hd s \<noteq> CHR ''0'') \<and> decimal_value s \<le> 255)"

definition is_ipv4 :: "string \<Rightarrow> bool" where
  "is_ipv4 s = (let parts = split_on CHR ''.'' s in length parts = 4 \<and> list_all is_ipv4_octet parts)"

definition is_hex :: "char \<Rightarrow> bool" where
  "is_hex c = (is_lower_hex c \<or> 65 \<le> code c \<and> code c \<le> 70)"

definition is_ipv6_group :: "string \<Rightarrow> bool" where
  "is_ipv6_group s = (s \<noteq> [] \<and> length s \<le> 4 \<and> list_all is_hex s)"

text \<open>The number of 16-bit groups of a colon separated list whose last entry may be a dotted quad.\<close>

fun ipv6_groups :: "string list \<Rightarrow> nat option" where
  "ipv6_groups [] = Some 0"
| "ipv6_groups [g] = (if is_ipv4 g then Some 2 else if is_ipv6_group g then Some 1 else None)"
| "ipv6_groups (g # h # gs) = (if is_ipv6_group g then map_option Suc (ipv6_groups (h # gs)) else None)"

fun split_double_colon :: "string \<Rightarrow> (string \<times> string) option" where
  "split_double_colon (a # b # s) =
     (if a = CHR '':'' \<and> b = CHR '':'' then Some ([], s)
      else map_option (\<lambda>(l, r). (a # l, r)) (split_double_colon (b # s)))"
| "split_double_colon _ = None"

definition ipv6_part :: "string \<Rightarrow> string list" where
  "ipv6_part s = (if s = [] then [] else split_on CHR '':'' s)"

definition is_ipv6_zone_char :: "char \<Rightarrow> bool" where
  "is_ipv6_zone_char c = (is_alnum c \<or> c \<in> {CHR ''-'', CHR ''.'', CHR '':''})"

definition is_ipv6 :: "string \<Rightarrow> bool" where
  "is_ipv6 s =
    (let address = takeWhile (\<lambda>c. c \<noteq> CHR ''%'') s;
         zone = dropWhile (\<lambda>c. c \<noteq> CHR ''%'') s in
     (zone = [] \<or> (length zone > 1 \<and> list_all is_ipv6_zone_char (tl zone))) \<and>
     (case split_double_colon address of
        None \<Rightarrow> ipv6_groups (split_on CHR '':'' address) = Some 8
      | Some (l, r) \<Rightarrow>
          list_all is_ipv6_group (ipv6_part l) \<and>
          (case ipv6_groups (ipv6_part r) of
             None \<Rightarrow> False
           | Some n \<Rightarrow> length (ipv6_part l) + n \<le> 7)))"

definition isIP :: "string \<Rightarrow> nat" where
  "isIP s = (if is_ipv4 s then 4 else if is_ipv6 s then 6 else 0)"

section \<open>The classification\<close>

definition networkHostname :: "string \<Rightarrow> string" where
  "networkHostname hostname =
    (if starts_with ''['' hostname \<and> ends_with '']'' hostname then butlast (tl hostname) else hostname)"

definition isLoopbackHostname :: "string \<Rightarrow> bool" where
  "isLoopbackHostname hostname = (let normalized = to_lower (networkHostname hostname) in
     normalized = ''localhost'' \<or> normalized = ''127.0.0.1'' \<or> normalized = ''::1'' \<or> normalized = ''[::1]'')"

definition nonPublicOctets :: "nat \<Rightarrow> nat \<Rightarrow> nat \<Rightarrow> bool" where
  "nonPublicOctets first second third =
    (if first = 0 \<or> first = 10 \<or> first = 127 then True
     else if first = 100 \<and> second \<ge> 64 \<and> second \<le> 127 then True
     else if first = 172 \<and> second \<ge> 16 \<and> second \<le> 31 then True
     else if first = 192 \<and> second = 0 \<and> (third = 0 \<or> third = 2) then True
     else if first = 192 \<and> second = 88 \<and> third = 99 then True
     else if first = 192 \<and> second = 168 then True
     else if first = 169 \<and> second = 254 then True
     else if first = 198 \<and> (second = 18 \<or> second = 19) then True
     else if first = 198 \<and> second = 51 \<and> third = 100 then True
     else if first = 203 \<and> second = 0 \<and> third = 113 then True
     else first \<ge> 224)"

definition isNonPublicIpv4 :: "string \<Rightarrow> bool" where
  "isNonPublicIpv4 address =
    (if isIP address \<noteq> 4 then False
     else let parts = map decimal_value (split_on CHR ''.'' address) in
       nonPublicOctets (parts ! 0) (parts ! 1) (parts ! 2))"

definition ipv6MappedGroup :: "string \<Rightarrow> nat option" where
  "ipv6MappedGroup value =
    (if value = [] \<or> length value > 4 \<or> \<not> list_all is_lower_hex value then None else Some (hex_value value))"

definition mappedIpv4Address :: "string \<Rightarrow> string option" where
  "mappedIpv4Address value =
    (if \<not> starts_with ''::ffff:'' value then None
     else let tail = drop (length ''::ffff:'') value in
       if isIP tail = 4 then Some tail
       else let groups = split_on CHR '':'' tail in
         if length groups \<noteq> 2 then None
         else (case (ipv6MappedGroup (groups ! 0), ipv6MappedGroup (groups ! 1)) of
             (Some first, Some second) \<Rightarrow>
               Some (decimal (first div 256) @ ''.'' @ decimal (first mod 256) @ ''.'' @
                     decimal (second div 256) @ ''.'' @ decimal (second mod 256))
           | _ \<Rightarrow> None))"

definition isNonPublicIpv6 :: "string \<Rightarrow> bool" where
  "isNonPublicIpv6 address =
    (if isIP address \<noteq> 6 then False
     else let normalized = to_lower address in
       (case mappedIpv4Address normalized of
          Some mapped \<Rightarrow> mapped \<noteq> [] \<and> isNonPublicIpv4 mapped
        | None \<Rightarrow> False) \<or>
       normalized = ''::'' \<or>
       normalized = ''::1'' \<or>
       starts_with ''64:ff9b:1:'' normalized \<or>
       starts_with ''100:'' normalized \<or>
       starts_with ''2001:2:'' normalized \<or>
       starts_with ''2001:10:'' normalized \<or>
       starts_with ''2001:db8:'' normalized \<or>
       starts_with ''2001:0db8:'' normalized \<or>
       starts_with ''2002:'' normalized \<or>
       starts_with ''fc'' normalized \<or>
       starts_with ''fd'' normalized \<or>
       starts_with ''fe80:'' normalized \<or>
       starts_with ''ff'' normalized)"

definition isNonPublicIpAddress :: "string \<Rightarrow> bool" where
  "isNonPublicIpAddress address = (isNonPublicIpv4 address \<or> isNonPublicIpv6 address)"

definition isNonPublicHostname :: "string \<Rightarrow> bool" where
  "isNonPublicHostname hostname = (let normalized = to_lower (networkHostname hostname) in
     normalized = ''localhost'' \<or> isNonPublicIpAddress normalized)"

section \<open>Specification: the special-purpose IPv4 blocks\<close>

text \<open>An address is the 32-bit word of its four octets; a block is a network and a prefix length.\<close>

definition ipv4_word :: "nat \<Rightarrow> nat \<Rightarrow> nat \<Rightarrow> nat \<Rightarrow> 32 word" where
  "ipv4_word a b c d = word_of_nat (16777216 * a + 65536 * b + 256 * c + d)"

definition in_block :: "32 word \<Rightarrow> 32 word \<times> nat \<Rightarrow> bool" where
  "in_block w blk = (drop_bit (32 - snd blk) w = drop_bit (32 - snd blk) (fst blk))"

definition special_blocks :: "(32 word \<times> nat) list" where
  "special_blocks =
    [(ipv4_word 0 0 0 0, 8), (ipv4_word 10 0 0 0, 8), (ipv4_word 127 0 0 0, 8),
     (ipv4_word 100 64 0 0, 10), (ipv4_word 172 16 0 0, 12), (ipv4_word 192 0 0 0, 24),
     (ipv4_word 192 0 2 0, 24), (ipv4_word 192 88 99 0, 24), (ipv4_word 192 168 0 0, 16),
     (ipv4_word 169 254 0 0, 16), (ipv4_word 198 18 0 0, 15), (ipv4_word 198 51 100 0, 24),
     (ipv4_word 203 0 113 0, 24), (ipv4_word 224 0 0 0, 3)]"

definition dotted :: "nat \<Rightarrow> nat \<Rightarrow> nat \<Rightarrow> nat \<Rightarrow> string" where
  "dotted a b c d = decimal a @ ''.'' @ decimal b @ ''.'' @ decimal c @ ''.'' @ decimal d"

section \<open>Canonical numerals\<close>

lemma decimal_of_digits:
  assumes "s \<noteq> []" "list_all is_digit s" "length s > 1 \<longrightarrow> hd s \<noteq> CHR ''0''"
  shows "decimal (decimal_value s) = s \<and> (length s > 1 \<longrightarrow> decimal_value s > 0)"
  using assms
proof (induction s rule: rev_induct)
  case (snoc c s)
  have c: "digit_char (code c - 48) = c" "code c - 48 < 10" "48 \<le> code c"
    using snoc.prems(2) by (auto simp: digit_char_def is_digit_def)
  show ?case
  proof (cases "s = []")
    case True
    then show ?thesis
      using c by (subst decimal.simps) (simp add: decimal_value_def)
  next
    case False
    then have hd: "hd s \<noteq> CHR ''0''" and s: "list_all is_digit s"
      using snoc.prems by auto
    then have IH: "decimal (decimal_value s) = s" "length s > 1 \<longrightarrow> decimal_value s > 0"
      using snoc.IH False by auto
    have pos: "decimal_value s > 0"
    proof (cases "length s > 1")
      case False
      with \<open>s \<noteq> []\<close> obtain x where x: "s = [x]"
        by (cases s) auto
      then have "code x \<noteq> code CHR ''0''" "48 \<le> code x"
        using hd s by (auto simp: is_digit_def simp flip: of_char_eq_iff [where 'a = nat])
      then show ?thesis
        using x by (simp add: decimal_value_def)
    qed (use IH in simp)
    have *: "decimal_value (s @ [c]) = 10 * decimal_value s + (code c - 48)"
      by (simp add: decimal_value_snoc)
    define k where "k = code c - 48"
    have k: "(10 * decimal_value s + k) div 10 = decimal_value s"
      "(10 * decimal_value s + k) mod 10 = k" "\<not> 10 * decimal_value s + k < 10"
      using c(2) pos by (auto simp: k_def [symmetric])
    have "decimal (10 * decimal_value s + k) = s @ [c]"
      using IH(1) c(1) k by (subst decimal.simps) (simp add: k_def [symmetric])
    then have "decimal (decimal_value (s @ [c])) = s @ [c]"
      by (simp only: * k_def)
    then show ?thesis
      using * pos by simp
  qed
qed simp

lemma decimal_length:
  "n < 10 \<Longrightarrow> length (decimal n) = 1" "10 \<le> n \<Longrightarrow> n < 100 \<Longrightarrow> length (decimal n) = 2"
  "100 \<le> n \<Longrightarrow> n < 1000 \<Longrightarrow> length (decimal n) = 3"
proof -
  show 1: "length (decimal n) = 1" if "n < 10" for n
    using that by (subst decimal.simps) simp
  show 2: "length (decimal n) = 2" if "10 \<le> n" "n < 100" for n
    using that 1 [of "n div 10"] by (subst decimal.simps) auto
  show "length (decimal n) = 3" if "100 \<le> n" "n < 1000" for n
    using that 2 [of "n div 10"] by (subst decimal.simps) auto
qed

lemma decimal_hd: "0 < n \<Longrightarrow> hd (decimal n) \<noteq> CHR ''0''"
proof (induction n rule: decimal.induct)
  case (1 n)
  show ?case
  proof (cases "n < 10")
    case True
    then have "code (digit_char n) \<noteq> code CHR ''0''"
      using 1 by (simp add: code_digit_char)
    then show ?thesis
      using True by (subst decimal.simps) auto
  next
    case False
    then show ?thesis
      using 1 by (subst decimal.simps) (simp add: hd_append)
  qed
qed

lemma octet_decimal: "n \<le> 255 \<Longrightarrow> is_ipv4_octet (decimal n)"
  using decimal_length [of n] decimal_hd [of n]
  by (cases "n < 10"; cases "n < 100") (auto simp: is_ipv4_octet_def decimal_digits)

lemma octetE:
  assumes "is_ipv4_octet s" obtains n where "n \<le> 255" "s = decimal n"
  using assms decimal_of_digits [of s] by (force simp: is_ipv4_octet_def)

lemma decimal_no_char: "\<not> is_digit c \<Longrightarrow> c \<notin> set (decimal n)"
  using decimal_digits [of n] by (auto simp: list_all_iff)

lemma not_digits [simp]: "\<not> is_digit CHR ''.''" "\<not> is_digit CHR '':''" "\<not> is_digit CHR ''%''"
  by (simp_all add: is_digit_def)

lemma split_dotted: "split_on CHR ''.'' (dotted a b c d) = [decimal a, decimal b, decimal c, decimal d]"
  by (simp add: dotted_def split_on_append split_on_absent decimal_no_char)

lemma is_ipv4_iff: "is_ipv4 s \<longleftrightarrow> (\<exists>a b c d. a \<le> 255 \<and> b \<le> 255 \<and> c \<le> 255 \<and> d \<le> 255 \<and> s = dotted a b c d)"
proof
  assume s: "is_ipv4 s"
  then obtain p q r t where parts: "split_on CHR ''.'' s = [p, q, r, t]"
    by (auto simp: is_ipv4_def Let_def eval_nat_numeral length_Suc_conv)
  then have "list_all is_ipv4_octet [p, q, r, t]"
    using s by (simp add: is_ipv4_def Let_def)
  then obtain a b c d where "a \<le> 255 \<and> b \<le> 255 \<and> c \<le> 255 \<and> d \<le> 255"
    "p = decimal a" "q = decimal b" "r = decimal c" "t = decimal d"
    by (auto elim!: octetE)
  moreover have "s = join_with ''.'' (split_on CHR ''.'' s)"
    by simp
  ultimately show "\<exists>a b c d. a \<le> 255 \<and> b \<le> 255 \<and> c \<le> 255 \<and> d \<le> 255 \<and> s = dotted a b c d"
    unfolding parts dotted_def by fastforce
qed (auto simp: is_ipv4_def split_dotted octet_decimal)

lemma isIP_eq_4: "isIP s = 4 \<longleftrightarrow> is_ipv4 s"
  by (simp add: isIP_def)

lemma isNonPublicIpv4_dotted:
  "a \<le> 255 \<Longrightarrow> b \<le> 255 \<Longrightarrow> c \<le> 255 \<Longrightarrow> d \<le> 255 \<Longrightarrow>
   isNonPublicIpv4 (dotted a b c d) \<longleftrightarrow> nonPublicOctets a b c"
proof -
  assume "a \<le> 255" "b \<le> 255" "c \<le> 255" "d \<le> 255"
  then have "is_ipv4 (dotted a b c d)"
    by (auto simp: is_ipv4_def split_dotted octet_decimal)
  then show ?thesis
    by (simp add: isNonPublicIpv4_def isIP_eq_4 split_dotted)
qed

section \<open>The octet rules and the block table agree\<close>

definition ipv4_nat :: "nat \<Rightarrow> nat \<Rightarrow> nat \<Rightarrow> nat \<Rightarrow> nat" where
  "ipv4_nat a b c d = 16777216 * a + 65536 * b + 256 * c + d"

lemma unat_ipv4_word:
  assumes "a \<le> 255" "b \<le> 255" "c \<le> 255" "d \<le> 255"
  shows "unat (ipv4_word a b c d) = ipv4_nat a b c d"
proof -
  have "ipv4_nat a b c d < 2 ^ 32"
    using assms by (simp add: ipv4_nat_def)
  then have "unat (word_of_nat (ipv4_nat a b c d) :: 32 word) = ipv4_nat a b c d"
    by (simp only: unsigned_of_nat) (simp add: take_bit_nat_eq_self)
  then show ?thesis
    by (simp only: ipv4_word_def ipv4_nat_def)
qed

lemma in_block_ipv4:
  assumes "a \<le> 255" "b \<le> 255" "c \<le> 255" "d \<le> 255" "x \<le> 255" "y \<le> 255" "z \<le> 255" "w \<le> 255"
  shows "in_block (ipv4_word a b c d) (ipv4_word x y z w, n) \<longleftrightarrow>
    ipv4_nat a b c d div 2 ^ (32 - n) = ipv4_nat x y z w div 2 ^ (32 - n)"
  unfolding in_block_def word_unat_eq_iff unat_drop_bit_eq
  using assms by (simp add: drop_bit_eq_div unat_ipv4_word)

lemma octet_div:
  assumes "b \<le> 255" "c \<le> 255" "d \<le> 255"
  shows "ipv4_nat a b c d div 16777216 = a"
    "ipv4_nat a b c d div 65536 = 256 * a + b"
    "ipv4_nat a b c d div 256 = 65536 * a + 256 * b + c"
    "ipv4_nat a b c d div 4194304 = 4 * a + b div 64"
    "ipv4_nat a b c d div 1048576 = 16 * a + b div 16"
    "ipv4_nat a b c d div 131072 = 128 * a + b div 2"
    "ipv4_nat a b c d div 536870912 = a div 32"
  using assms unfolding ipv4_nat_def by linarith+

lemma digit_sum:
  assumes "q < m" "y < (m :: nat)" shows "m * a + q = m * x + y \<longleftrightarrow> a = x \<and> q = y"
proof -
  have "(m * a + q) div m = a" "(m * x + y) div m = x"
    using assms by auto
  then show ?thesis by (metis add_left_cancel)
qed

lemma base_65536:
  assumes "b \<le> (255 :: nat)" "c \<le> 255" "y \<le> 255" "z \<le> 255"
  shows "65536 * a + 256 * b + c = 65536 * x + 256 * y + z \<longleftrightarrow> a = x \<and> b = y \<and> c = z"
  using assms digit_sum [of c 256 z "256 * a + b" "256 * x + y"] digit_sum [of b 256 y a x] by simp

lemma octet_scaled:
  assumes "b \<le> (255 :: nat)"
  shows "4 * a + b div 64 = 401 \<longleftrightarrow> a = 100 \<and> 64 \<le> b \<and> b \<le> 127"
    "16 * a + b div 16 = 2753 \<longleftrightarrow> a = 172 \<and> 16 \<le> b \<and> b \<le> 31"
    "128 * a + b div 2 = 25353 \<longleftrightarrow> a = 198 \<and> (b = 18 \<or> b = 19)"
    "256 * a + b = 49320 \<longleftrightarrow> a = 192 \<and> b = 168"
    "256 * a + b = 43518 \<longleftrightarrow> a = 169 \<and> b = 254"
proof -
  have "b div 64 = 1 \<longleftrightarrow> 64 \<le> b \<and> b \<le> 127" "b div 16 = 1 \<longleftrightarrow> 16 \<le> b \<and> b \<le> 31"
    "b div 2 = 9 \<longleftrightarrow> b = 18 \<or> b = 19"
    by auto
  then show "4 * a + b div 64 = 401 \<longleftrightarrow> a = 100 \<and> 64 \<le> b \<and> b \<le> 127"
    "16 * a + b div 16 = 2753 \<longleftrightarrow> a = 172 \<and> 16 \<le> b \<and> b \<le> 31"
    "128 * a + b div 2 = 25353 \<longleftrightarrow> a = 198 \<and> (b = 18 \<or> b = 19)"
    "256 * a + b = 49320 \<longleftrightarrow> a = 192 \<and> b = 168"
    "256 * a + b = 43518 \<longleftrightarrow> a = 169 \<and> b = 254"
    using assms digit_sum [of "b div 64" 4 1 a 100] digit_sum [of "b div 16" 16 1 a 172]
      digit_sum [of "b div 2" 128 9 a 198] digit_sum [of b 256 168 a 192] digit_sum [of b 256 254 a 169]
    by simp_all
qed

lemma if_True_disj: "(if P then True else Q) \<longleftrightarrow> P \<or> Q"
  by simp

lemma nonPublicOctets_blocks:
  assumes "a \<le> 255" "b \<le> 255" "c \<le> 255" "d \<le> 255"
  shows "nonPublicOctets a b c \<longleftrightarrow> list_ex (in_block (ipv4_word a b c d)) special_blocks"
proof -
  note block = in_block_ipv4 [OF assms]
  have top: "a div 32 = 7 \<longleftrightarrow> 224 \<le> a"
    using assms(1) by auto
  have "list_ex (in_block (ipv4_word a b c d)) special_blocks \<longleftrightarrow>
    a = 0 \<or> a = 10 \<or> a = 127 \<or> (a = 100 \<and> 64 \<le> b \<and> b \<le> 127) \<or> (a = 172 \<and> 16 \<le> b \<and> b \<le> 31) \<or>
    (a = 192 \<and> b = 0 \<and> c = 0) \<or> (a = 192 \<and> b = 0 \<and> c = 2) \<or> (a = 192 \<and> b = 88 \<and> c = 99) \<or>
    (a = 192 \<and> b = 168) \<or> (a = 169 \<and> b = 254) \<or> (a = 198 \<and> (b = 18 \<or> b = 19)) \<or>
    (a = 198 \<and> b = 51 \<and> c = 100) \<or> (a = 203 \<and> b = 0 \<and> c = 113) \<or> 224 \<le> a"
    using assms base_65536 [of b c 0 0 a 192] base_65536 [of b c 0 2 a 192] base_65536 [of b c 88 99 a 192]
      base_65536 [of b c 51 100 a 198] base_65536 [of b c 0 113 a 203]
      octet_scaled [of b a]
    by (simp add: special_blocks_def block octet_div top)
  then show ?thesis
    by (simp only: nonPublicOctets_def if_True_disj conj_disj_distribL disj_assoc)
qed

section \<open>IPv4 addresses mapped into IPv6\<close>

lemma dotted_chars: "set (dotted a b c d) \<subseteq> {x. is_digit x} \<union> {CHR ''.''}"
proof -
  have "\<And>n. set (decimal n) \<subseteq> {x. is_digit x}"
    using decimal_digits by (auto simp: list_all_iff)
  then show ?thesis
    by (auto simp: dotted_def)
qed

lemma to_lower_id: "list_all (\<lambda>c. \<not> is_upper c \<and> code c < 192) s \<Longrightarrow> to_lower s = s"
  by (induction s) (auto simp: to_lower_def to_lower_char_def)

lemma to_lower_dotted [simp]: "to_lower (dotted a b c d) = dotted a b c d"
  using dotted_chars [of a b c d]
  by (intro to_lower_id) (auto simp: list_all_iff is_digit_def is_upper_def dest!: subsetD)

lemma split_double_colon_None: "CHR '':'' \<notin> set s \<Longrightarrow> split_double_colon s = None"
  by (induction s rule: split_double_colon.induct) auto

lemma not_ipv4_colon: "CHR '':'' \<in> set s \<Longrightarrow> \<not> is_ipv4 s"
  using dotted_chars by (fastforce simp: is_ipv4_iff)

lemma is_ipv6_double_colon:
  assumes "CHR ''%'' \<notin> set s" "ipv6_groups (split_on CHR '':'' s) = Some n" "n \<le> 7" "s \<noteq> []"
  shows "isIP ('':'' @ '':'' @ s) = 6"
proof -
  have no_zone: "takeWhile (\<lambda>c. c \<noteq> CHR ''%'') s = s" "dropWhile (\<lambda>c. c \<noteq> CHR ''%'') s = []"
    using assms(1) by (auto simp: takeWhile_eq_all_conv)
  then have "is_ipv6 ('':'' @ '':'' @ s)"
    using assms by (simp add: is_ipv6_def Let_def ipv6_part_def no_zone del: takeWhile_eq_all_conv dropWhile_eq_Nil_conv)
  then show ?thesis
    by (simp add: isIP_def not_ipv4_colon)
qed

lemma isNonPublicIpv6_mapped:
  assumes "isIP (''::ffff:'' @ t) = 6" "to_lower t = t" "mappedIpv4Address (''::ffff:'' @ t) = Some m" "m \<noteq> []"
  shows "isNonPublicIpAddress (''::ffff:'' @ t) \<longleftrightarrow> isNonPublicIpv4 m"
proof -
  have "to_lower (''::ffff:'' @ t) = ''::ffff:'' @ t"
    using assms(2) by (simp add: to_lower_def to_lower_char_def is_upper_def)
  then show ?thesis
    using assms by (simp add: isNonPublicIpAddress_def isNonPublicIpv4_def isNonPublicIpv6_def Let_def)
qed

lemma mapped_dotted:
  assumes "a \<le> 255" "b \<le> 255" "c \<le> 255" "d \<le> 255"
  shows "isNonPublicIpAddress (''::ffff:'' @ dotted a b c d) \<longleftrightarrow> isNonPublicIpv4 (dotted a b c d)"
proof (rule isNonPublicIpv6_mapped)
  have ip: "is_ipv4 (dotted a b c d)"
    using assms by (auto simp: is_ipv4_iff)
  have chars: "CHR '':'' \<notin> set (dotted a b c d)" "CHR ''%'' \<notin> set (dotted a b c d)"
    using dotted_chars [of a b c d] by auto
  have "split_on CHR '':'' (''ffff:'' @ dotted a b c d) = [''ffff'', dotted a b c d]"
    using chars by (simp add: split_on_absent)
  then have "isIP ('':'' @ '':'' @ (''ffff:'' @ dotted a b c d)) = 6"
    using ip chars
    by (intro is_ipv6_double_colon [where n = 3])
      (simp_all add: is_ipv6_group_def is_hex_def is_lower_hex_def)
  then show "isIP (''::ffff:'' @ dotted a b c d) = 6"
    by simp
  show "mappedIpv4Address (''::ffff:'' @ dotted a b c d) = Some (dotted a b c d)"
    using ip by (simp add: mappedIpv4Address_def isIP_eq_4)
  show "to_lower (dotted a b c d) = dotted a b c d" "dotted a b c d \<noteq> []"
    by (rule to_lower_dotted, simp add: dotted_def)
qed

text \<open>Two lower-case hexadecimal groups of one to four digits and the octets they stand for.\<close>

lemma hex_value_less: "list_all is_lower_hex s \<Longrightarrow> hex_value s < 16 ^ length s"
proof (induction s rule: rev_induct)
  case (snoc c s)
  have "hex_digit_value c < 16"
    using snoc.prems by (auto simp: hex_digit_value_def is_lower_hex_def is_digit_def)
  moreover have "hex_value (s @ [c]) = 16 * hex_value s + hex_digit_value c"
    by (simp add: hex_value_def)
  ultimately show ?case
    using snoc by simp
qed (simp add: hex_value_def)

lemma ipv6MappedGroup_less:
  assumes "ipv6MappedGroup g = Some m" shows "m < 65536"
proof -
  have "hex_value g < 16 ^ length g" "length g \<le> 4" "m = hex_value g"
    using assms hex_value_less [of g] by (auto simp: ipv6MappedGroup_def split: if_splits)
  moreover have "16 ^ length g \<le> (16 ^ 4 :: nat)"
    using \<open>length g \<le> 4\<close> by (intro power_increasing) auto
  ultimately show ?thesis by simp
qed

lemma mapped_groups:
  assumes "ipv6MappedGroup g = Some m" "ipv6MappedGroup h = Some n"
  shows "isNonPublicIpAddress (''::ffff:'' @ g @ '':'' @ h) \<longleftrightarrow>
    isNonPublicIpv4 (dotted (m div 256) (m mod 256) (n div 256) (n mod 256))"
proof (rule isNonPublicIpv6_mapped)
  have gh: "g \<noteq> []" "h \<noteq> []" "length g \<le> 4" "length h \<le> 4" "list_all is_lower_hex g" "list_all is_lower_hex h"
    using assms by (auto simp: ipv6MappedGroup_def split: if_splits)
  then have groups: "is_ipv6_group g" "is_ipv6_group h"
    by (auto simp: is_ipv6_group_def is_hex_def list_all_iff)
  have chars: "CHR '':'' \<notin> set g" "CHR '':'' \<notin> set h" "CHR ''%'' \<notin> set (g @ h)" "CHR ''.'' \<notin> set h"
    using gh(5,6) by (auto simp: list_all_iff is_lower_hex_def)
  have not4: "\<not> is_ipv4 h"
    using chars(4) by (auto simp: is_ipv4_def split_on_absent)
  have "split_on CHR '':'' (''ffff:'' @ g @ '':'' @ h) = [''ffff'', g, h]"
    using chars by (simp add: split_on_absent split_on_append)
  then have "isIP ('':'' @ '':'' @ (''ffff:'' @ g @ '':'' @ h)) = 6"
    using groups not4 chars
    by (intro is_ipv6_double_colon [where n = 3])
      (simp_all add: is_ipv6_group_def is_hex_def is_lower_hex_def)
  then show "isIP (''::ffff:'' @ g @ '':'' @ h) = 6"
    by simp
  show "to_lower (g @ '':'' @ h) = g @ '':'' @ h"
    using gh(5,6) by (intro to_lower_id) (auto simp: list_all_iff is_lower_hex_def is_digit_def is_upper_def)
  have "isIP (g @ '':'' @ h) \<noteq> 4"
    by (simp add: isIP_eq_4 not_ipv4_colon)
  then show "mappedIpv4Address (''::ffff:'' @ g @ '':'' @ h) =
      Some (dotted (m div 256) (m mod 256) (n div 256) (n mod 256))"
    using assms chars by (simp add: mappedIpv4Address_def split_on_append split_on_absent dotted_def)
qed (simp add: dotted_def)

section \<open>Properties\<close>

text \<open>C36: an IPv4 literal is refused exactly when its address lies in one of the fourteen
  special-purpose blocks; the literal is a dotted quad of canonical octets, and the same verdict is
  given for the address written as an IPv4-mapped IPv6 literal.\<close>

theorem ipv4_refused_iff_special_block:
  assumes "isIP s = 4"
  shows "\<exists>a b c d. a \<le> 255 \<and> b \<le> 255 \<and> c \<le> 255 \<and> d \<le> 255 \<and> s = dotted a b c d \<and>
    isNonPublicIpAddress s = list_ex (in_block (ipv4_word a b c d)) special_blocks \<and>
    isNonPublicIpAddress (''::ffff:'' @ s) = isNonPublicIpAddress s"
proof -
  obtain a b c d where *: "a \<le> 255" "b \<le> 255" "c \<le> 255" "d \<le> 255" and s: "s = dotted a b c d"
    using assms by (auto simp: isIP_eq_4 is_ipv4_iff)
  have "isNonPublicIpAddress s \<longleftrightarrow> isNonPublicIpv4 s"
    using assms by (simp add: isNonPublicIpAddress_def isNonPublicIpv6_def)
  then show ?thesis
    using * s by (metis isNonPublicIpv4_dotted nonPublicOctets_blocks mapped_dotted)
qed

text \<open>The hypothesis holds of the cloud metadata address, which is in the link-local block.\<close>

theorem ipv4_refused_iff_special_block_witness:
  "isNonPublicIpAddress ''169.254.169.254'' \<and> isNonPublicIpAddress ''::ffff:169.254.169.254''"
proof -
  have "isIP ''169.254.169.254'' = 4" "isNonPublicIpv4 ''169.254.169.254''"
    by code_simp+
  then show ?thesis
    using ipv4_refused_iff_special_block [of "''169.254.169.254''"] by (auto simp: isNonPublicIpAddress_def)
qed

text \<open>An IPv4 address hidden in two hexadecimal groups after \<open>::ffff:\<close> gets the verdict of
  its four octets, so no spelling of a mapped address avoids the block table.\<close>

theorem mapped_hex_refused_iff_special_block:
  assumes "ipv6MappedGroup g = Some m" "ipv6MappedGroup h = Some n"
  shows "isNonPublicIpAddress (''::ffff:'' @ g @ '':'' @ h) \<longleftrightarrow>
    list_ex (in_block (ipv4_word (m div 256) (m mod 256) (n div 256) (n mod 256))) special_blocks"
proof -
  have "m div 256 \<le> 255" "m mod 256 \<le> 255" "n div 256 \<le> 255" "n mod 256 \<le> 255"
    using ipv6MappedGroup_less [OF assms(1)] ipv6MappedGroup_less [OF assms(2)] by auto
  then show ?thesis
    using mapped_groups [OF assms] by (simp only: isNonPublicIpv4_dotted nonPublicOctets_blocks [of _ _ _ "n mod 256"])
qed

theorem mapped_hex_refused_iff_special_block_witness:
  "isNonPublicIpAddress ''::ffff:a9fe:a9fe''"
proof -
  have "ipv6MappedGroup ''a9fe'' = Some 43518"
    by (simp add: ipv6MappedGroup_def hex_value_def hex_digit_value_def is_digit_def is_lower_hex_def)
  moreover have "list_ex (in_block (ipv4_word (43518 div 256) (43518 mod 256) (43518 div 256) (43518 mod 256))) special_blocks"
    using nonPublicOctets_blocks [of 169 254 169 254] by (simp add: nonPublicOctets_def)
  ultimately show ?thesis
    using mapped_hex_refused_iff_special_block [of "''a9fe''" 43518 "''a9fe''" 43518] by simp
qed

end
