(* ===== verification/Media_Type.thy ===== *)
theory Media_Type
  imports Js_Values
begin

text \<open>
  \<open>shared/media-type.ts\<close>: media types and media ranges of the \<open>Content-Type\<close> and \<open>Accept\<close>
  headers.  A quality is a numeral with at most three decimals, read in thousandths.
\<close>

section \<open>Operations\<close>

definition mediaType :: "string \<Rightarrow> string" where
  "mediaType value = to_lower (trim (hd (split_on CHR '';'' value)))"

record media_type_parts =
  type_part :: string
  subtype_part :: string

definition mediaTypeParts :: "string \<Rightarrow> media_type_parts option" where
  "mediaTypeParts value = (case index_of CHR ''/'' value of
     None \<Rightarrow> None
   | Some separator \<Rightarrow>
       if separator = 0 \<or> separator = length value - 1 then None
       else let type = to_lower (trim (take separator value));
                subtype = to_lower (trim (drop (separator + 1) value)) in
         if type = [] \<or> subtype = [] then None
         else if type = ''*'' \<and> subtype \<noteq> ''*'' then None
         else if includes_char CHR ''*'' type \<and> type \<noteq> ''*'' then None
         else if includes_char CHR ''*'' subtype \<and> subtype \<noteq> ''*'' then None
         else Some \<lparr> type_part = type, subtype_part = subtype \<rparr>)"

definition quote_char :: char where "quote_char = char_of (34 :: nat)"

definition unquote :: "string \<Rightarrow> string" where
  "unquote value = (if value \<noteq> [] \<and> hd value = quote_char \<and> last value = quote_char
     then butlast (tl value) else value)"

fun mediaTypeParameter_loop :: "string \<Rightarrow> string option \<Rightarrow> string list \<Rightarrow> string option" where
  "mediaTypeParameter_loop normalized matched [] = matched"
| "mediaTypeParameter_loop normalized matched (part # parts) =
    (case index_of CHR ''='' part of
       None \<Rightarrow> mediaTypeParameter_loop normalized matched parts
     | Some separator \<Rightarrow>
         let key = to_lower (trim (take separator part)) in
         if key \<noteq> normalized then mediaTypeParameter_loop normalized matched parts
         else if matched \<noteq> None then Some []
         else mediaTypeParameter_loop normalized
           (Some (to_lower (unquote (trim (drop (separator + 1) part))))) parts)"

definition mediaTypeParameter :: "string \<Rightarrow> string \<Rightarrow> string option" where
  "mediaTypeParameter value name =
    mediaTypeParameter_loop (to_lower name) None (tl (split_on CHR '';'' value))"

text \<open>\<open>/^(?:0(?:\.[0-9]{0,3})?|1(?:\.0{0,3})?)$/\<close> and \<open>Number(quality)\<close> in thousandths.\<close>

definition is_quality :: "string \<Rightarrow> bool" where
  "is_quality s = (case s of
     [] \<Rightarrow> False
   | c # r \<Rightarrow> (c = CHR ''0'' \<or> c = CHR ''1'') \<and>
       (case r of
          [] \<Rightarrow> True
        | d # fraction \<Rightarrow> d = CHR ''.'' \<and> length fraction \<le> 3 \<and>
            list_all (if c = CHR ''0'' then is_digit else (\<lambda>x. x = CHR ''0'')) fraction))"

definition quality_thousandths :: "string \<Rightarrow> nat" where
  "quality_thousandths s =
    1000 * decimal_value (take 1 s) + decimal_value (take 3 (drop 2 s @ ''000''))"

definition mediaRangeAccepted :: "string \<Rightarrow> bool" where
  "mediaRangeAccepted value = (case mediaTypeParameter value ''q'' of
     None \<Rightarrow> True
   | Some quality \<Rightarrow> if \<not> is_quality quality then False else quality_thousandths quality > 0)"

definition acceptsMediaType :: "string \<Rightarrow> string \<Rightarrow> bool" where
  "acceptsMediaType value expected = (case mediaTypeParts expected of
     None \<Rightarrow> False
   | Some normalized \<Rightarrow> list_ex (\<lambda>range.
       case mediaTypeParts (mediaType range) of
         None \<Rightarrow> False
       | Some accepted \<Rightarrow>
           if \<not> mediaRangeAccepted range then False
           else (type_part accepted = ''*'' \<or> type_part accepted = type_part normalized) \<and>
                (subtype_part accepted = ''*'' \<or> subtype_part accepted = subtype_part normalized))
       (split_on CHR '','' value))"

definition contentTypeUsesUtf8 :: "string \<Rightarrow> bool" where
  "contentTypeUsesUtf8 value = (let charset = mediaTypeParameter value ''charset'' in
     charset = None \<or> charset = Some ''utf-8'')"

section \<open>Letter case\<close>

lemma to_lower_char_idem [simp]: "to_lower_char (to_lower_char c) = to_lower_char c"
proof (cases "is_upper c \<or> (192 \<le> code c \<and> code c \<le> 222 \<and> code c \<noteq> 215)")
  case True
  then have "code c + 32 < 256" by (auto simp: is_upper_def)
  then have "code (char_of (code c + 32)) = code c + 32" by simp
  then show ?thesis
    using True by (auto simp: to_lower_char_def is_upper_def)
qed (auto simp: to_lower_char_def)

lemma to_lower_idem [simp]: "to_lower (to_lower s) = to_lower s"
  by (simp add: to_lower_def)

lemma to_lower_eq_low:
  assumes "code c < 65 \<or> 90 < code c \<and> code c < 97 \<or> 122 < code c \<and> code c < 192 \<or> code c = 215 \<or> code c = 247"
  shows "to_lower_char d = c \<longleftrightarrow> d = c"
proof (cases "is_upper d \<or> (192 \<le> code d \<and> code d \<le> 222 \<and> code d \<noteq> 215)")
  case True
  then have "code d + 32 < 256" by (auto simp: is_upper_def)
  then have *: "code (to_lower_char d) = code d + 32"
    using True by (simp add: to_lower_char_def)
  show ?thesis
    using True assms * by (auto simp: is_upper_def)
next
  case False
  then show ?thesis by (auto simp: to_lower_char_def)
qed

lemma is_ws_to_lower [simp]: "is_ws (to_lower_char c) \<longleftrightarrow> is_ws c"
proof (cases "is_upper c \<or> (192 \<le> code c \<and> code c \<le> 222 \<and> code c \<noteq> 215)")
  case True
  then have "code c + 32 < 256" by (auto simp: is_upper_def)
  then show ?thesis
    using True by (auto simp: to_lower_char_def is_ws_def is_upper_def)
qed (auto simp: to_lower_char_def)

lemma trim_to_lower: "trim (to_lower s) = to_lower (trim s)"
  by (simp add: trim_def to_lower_def dropWhile_map comp_def rev_map)

lemma split_on_to_lower:
  assumes "\<And>d. to_lower_char d = c \<longleftrightarrow> d = c"
  shows "split_on c (to_lower s) = map to_lower (split_on c s)"
  using assms by (induction s) (auto simp: to_lower_def split: list.splits)

lemma index_of_to_lower:
  assumes "\<And>d. to_lower_char d = c \<longleftrightarrow> d = c"
  shows "index_of c (to_lower s) = index_of c s"
  using assms by (induction s) (auto simp: to_lower_def)

lemma take_to_lower: "take n (to_lower s) = to_lower (take n s)"
  and drop_to_lower: "drop n (to_lower s) = to_lower (drop n s)"
  and length_to_lower [simp]: "length (to_lower s) = length s"
  and to_lower_Nil [simp]: "to_lower s = [] \<longleftrightarrow> s = []" "to_lower [] = []"
  and to_lower_append: "to_lower (s @ t) = to_lower s @ to_lower t"
  by (simp_all add: to_lower_def take_map drop_map)

lemma separators_lower:
  "to_lower_char d = CHR '';'' \<longleftrightarrow> d = CHR '';''" "to_lower_char d = CHR '','' \<longleftrightarrow> d = CHR '',''"
  "to_lower_char d = CHR ''='' \<longleftrightarrow> d = CHR ''=''" "to_lower_char d = CHR ''/'' \<longleftrightarrow> d = CHR ''/''"
  "to_lower_char d = quote_char \<longleftrightarrow> d = quote_char"
  by (rule to_lower_eq_low; simp add: quote_char_def)+

lemma unquote_to_lower: "unquote (to_lower s) = to_lower (unquote s)"
  by (cases "s = []")
    (auto simp: unquote_def to_lower_def separators_lower hd_map last_map map_butlast map_tl)

lemma mediaType_to_lower: "mediaType (to_lower v) = mediaType v"
  by (simp add: mediaType_def split_on_to_lower separators_lower trim_to_lower hd_map)

lemma mediaTypeParts_to_lower: "mediaTypeParts (to_lower v) = mediaTypeParts v"
  by (cases "index_of CHR ''/'' v")
    (auto simp: mediaTypeParts_def index_of_to_lower separators_lower take_to_lower drop_to_lower
      trim_to_lower Let_def)

lemma mediaTypeParameter_loop_to_lower:
  "mediaTypeParameter_loop n m (map to_lower ps) = mediaTypeParameter_loop n m ps"
  by (induction n m ps rule: mediaTypeParameter_loop.induct)
    (auto simp: index_of_to_lower separators_lower take_to_lower drop_to_lower trim_to_lower
       unquote_to_lower Let_def split: option.splits)

lemma mediaTypeParameter_to_lower: "mediaTypeParameter (to_lower v) n = mediaTypeParameter v n"
  by (simp add: mediaTypeParameter_def split_on_to_lower separators_lower map_tl [symmetric]
      mediaTypeParameter_loop_to_lower)

section \<open>Properties\<close>

lemma split_on_append_any: "split_on c (s @ c # t) = split_on c s @ split_on c t"
proof (induction s)
  case (Cons x s)
  then show ?case
    by (auto split: list.splits)
qed simp

text \<open>An \<open>Accept\<close> header is a union of its ranges (a client may send them in one header or
  several joined by commas, in any order) and its verdict does not depend on letter case, neither
  of the header nor of the expected type.\<close>

theorem acceptsMediaType_union_caseless:
  "acceptsMediaType (v @ '','' @ w) e = (acceptsMediaType v e \<or> acceptsMediaType w e) \<and>
   acceptsMediaType (to_lower v) e = acceptsMediaType v e \<and>
   acceptsMediaType v (to_lower e) = acceptsMediaType v e"
proof (intro conjI)
  show "acceptsMediaType (v @ '','' @ w) e = (acceptsMediaType v e \<or> acceptsMediaType w e)"
    by (simp add: acceptsMediaType_def split_on_append_any split: option.splits)
  show "acceptsMediaType (to_lower v) e = acceptsMediaType v e"
    by (simp add: acceptsMediaType_def split_on_to_lower separators_lower list_ex_iff mediaType_to_lower
        mediaRangeAccepted_def mediaTypeParameter_to_lower cong: option.case_cong)
  show "acceptsMediaType v (to_lower e) = acceptsMediaType v e"
    by (simp add: acceptsMediaType_def mediaTypeParts_to_lower)
qed

end
