(* ===== verification/Json_Text.thy ===== *)
theory Json_Text
  imports Doubles
begin

text \<open>
  \<open>JSON.stringify\<close> and \<open>JSON.parse\<close>, as the service uses them: stored rows, token headers and
  payloads, user profiles and configuration values.  The printer covers strings, booleans, objects,
  arrays and integers; the modelled code stringifies no other number (a fraction prints as the empty
  text here).  The parser is the full grammar; a number is read exactly and rounded to a double, and
  a \<open>\u\<close> escape above U+00FF is outside the character range of the model and rejected.
  The parser recurses on a fuel that its caller takes from the length of the text.
\<close>

section \<open>Printing\<close>

definition backslash :: char where "backslash = char_of (92 :: nat)"
definition dquote :: char where "dquote = char_of (34 :: nat)"

definition hex_char :: "nat \<Rightarrow> char" where
  "hex_char n = (if n < 10 then char_of (48 + n) else char_of (87 + n))"

definition escape_char :: "char \<Rightarrow> string" where
  "escape_char c =
    (if c = dquote then [backslash, dquote]
     else if c = backslash then [backslash, backslash]
     else if code c = 8 then [backslash, CHR ''b'']
     else if code c = 9 then [backslash, CHR ''t'']
     else if code c = 10 then [backslash, CHR ''n'']
     else if code c = 12 then [backslash, CHR ''f'']
     else if code c = 13 then [backslash, CHR ''r'']
     else if code c < 32 then [backslash, CHR ''u'', CHR ''0'', CHR ''0'', hex_char (code c div 16), hex_char (code c mod 16)]
     else [c])"

definition string_text :: "string \<Rightarrow> string" where
  "string_text s = dquote # concat (map escape_char s) @ [dquote]"

definition int_text :: "int \<Rightarrow> string" where
  "int_text n = (if n < 0 then CHR ''-'' # decimal (nat (- n)) else decimal (nat n))"

fun json_text :: "json \<Rightarrow> string"
  and elements_text :: "json list \<Rightarrow> string"
  and members_text :: "(string \<times> json) list \<Rightarrow> string" where
  "json_text JNull = ''null''"
| "json_text (JBool b) = (if b then ''true'' else ''false'')"
| "json_text (JNum n) = (case n of
     Finite r \<Rightarrow> if is_integer n then int_text \<lfloor>r\<rfloor> else []
   | Infinite s \<Rightarrow> ''null'')"
| "json_text (JStr s) = string_text s"
| "json_text (JArr vs) = (case vs of [] \<Rightarrow> ''[]'' | v # ws \<Rightarrow> CHR ''['' # json_text v @ elements_text ws)"
| "json_text (JObj kvs) = (case kvs of [] \<Rightarrow> ''{}''
     | (k, v) # ls \<Rightarrow> CHR ''{'' # string_text k @ CHR '':'' # json_text v @ members_text ls)"
| "elements_text [] = '']''"
| "elements_text (v # vs) = CHR '','' # json_text v @ elements_text vs"
| "members_text [] = ''}''"
| "members_text ((k, v) # kvs) = CHR '','' # string_text k @ CHR '':'' # json_text v @ members_text kvs"

section \<open>Parsing\<close>

definition is_json_ws :: "char \<Rightarrow> bool" where
  "is_json_ws c = (code c = 32 \<or> code c = 9 \<or> code c = 10 \<or> code c = 13)"

abbreviation skip_ws :: "string \<Rightarrow> string" where "skip_ws s \<equiv> dropWhile is_json_ws s"

definition is_hex_char :: "char \<Rightarrow> bool" where
  "is_hex_char c = (is_lower_hex c \<or> 65 \<le> code c \<and> code c \<le> 70)"

definition hex_char_value :: "char \<Rightarrow> nat" where
  "hex_char_value c = (if is_digit c then code c - 48 else if code c \<ge> 97 then code c - 87 else code c - 55)"

definition unescape_simple :: "char \<Rightarrow> char option" where
  "unescape_simple c =
    (if c = dquote \<or> c = backslash \<or> c = CHR ''/'' then Some c
     else if c = CHR ''b'' then Some (char_of (8 :: nat))
     else if c = CHR ''t'' then Some (char_of (9 :: nat))
     else if c = CHR ''n'' then Some (char_of (10 :: nat))
     else if c = CHR ''f'' then Some (char_of (12 :: nat))
     else if c = CHR ''r'' then Some (char_of (13 :: nat))
     else None)"

text \<open>The characters of a string literal after its opening quote.\<close>

fun parse_chars :: "string \<Rightarrow> (string \<times> string) option" where
  "parse_chars [] = None"
| "parse_chars (c # s) =
    (if c = dquote then Some ([], s)
     else if code c < 32 then None
     else if c \<noteq> backslash then map_option (\<lambda>(t, r). (c # t, r)) (parse_chars s)
     else (case s of
         [] \<Rightarrow> None
       | e # s' \<Rightarrow>
           if e = CHR ''u'' then
             (case s' of
                a # b # x # y # s'' \<Rightarrow>
                  if a = CHR ''0'' \<and> b = CHR ''0'' \<and> is_hex_char x \<and> is_hex_char y
                  then map_option (\<lambda>(t, r). (char_of (16 * hex_char_value x + hex_char_value y) # t, r)) (parse_chars s'')
                  else None
              | _ \<Rightarrow> None)
           else (case unescape_simple e of
               None \<Rightarrow> None
             | Some u \<Rightarrow> map_option (\<lambda>(t, r). (u # t, r)) (parse_chars s'))))"

definition double_limit :: rat where "double_limit = 2 ^ 1024 - 2 ^ 970"

definition to_number :: "rat \<Rightarrow> js_number" where
  "to_number r = (if double_limit \<le> \<bar>r\<bar> then Infinite (r < 0) else Finite (double_round r))"

text \<open>\<open>-? (0 | [1-9][0-9]*) (\. [0-9]+)? ([eE] [+-]? [0-9]+)?\<close>; the integer part is the longest run of digits.\<close>

definition parse_fraction :: "string \<Rightarrow> (rat \<times> string) option" where
  "parse_fraction s = (case s of
     c # t \<Rightarrow>
       if c = CHR ''.'' then
         let ds = takeWhile is_digit t in
         if ds = [] then None
         else Some (of_nat (decimal_value ds) / 10 ^ length ds, dropWhile is_digit t)
       else Some (0, s)
   | [] \<Rightarrow> Some (0, s))"

definition parse_exponent :: "string \<Rightarrow> (int \<times> string) option" where
  "parse_exponent s = (case s of
     c # t \<Rightarrow>
       if c = CHR ''e'' \<or> c = CHR ''E'' then
         let negative = (t \<noteq> [] \<and> hd t = CHR ''-'');
             u = (if t \<noteq> [] \<and> (hd t = CHR ''-'' \<or> hd t = CHR ''+'') then tl t else t);
             ds = takeWhile is_digit u in
         if ds = [] then None
         else Some (if negative then - int (decimal_value ds) else int (decimal_value ds), dropWhile is_digit u)
       else Some (0, s)
   | [] \<Rightarrow> Some (0, s))"

definition parse_number :: "string \<Rightarrow> (js_number \<times> string) option" where
  "parse_number s =
    (let negative = (s \<noteq> [] \<and> hd s = CHR ''-''); u = (if negative then tl s else s);
         ds = takeWhile is_digit u in
     if ds = [] \<or> (length ds > 1 \<and> hd ds = CHR ''0'') then None
     else (case parse_fraction (dropWhile is_digit u) of
         None \<Rightarrow> None
       | Some (fraction, s1) \<Rightarrow>
           (case parse_exponent s1 of
              None \<Rightarrow> None
            | Some (e, s2) \<Rightarrow>
                let m = (of_nat (decimal_value ds) + fraction) * 10 powi e in
                Some (to_number (if negative then - m else m), s2))))"

definition expect :: "char \<Rightarrow> string \<Rightarrow> string option" where
  "expect c s = (case skip_ws s of [] \<Rightarrow> None | d # r \<Rightarrow> if d = c then Some r else None)"

definition parse_key :: "string \<Rightarrow> (string \<times> string) option" where
  "parse_key s = (case expect dquote s of
     None \<Rightarrow> None
   | Some r \<Rightarrow> (case parse_chars r of
       None \<Rightarrow> None
     | Some (k, r') \<Rightarrow> map_option (\<lambda>r''. (k, r'')) (expect CHR '':'' r')))"

fun parse_value :: "nat \<Rightarrow> string \<Rightarrow> (json \<times> string) option"
  and parse_elements :: "nat \<Rightarrow> json list \<Rightarrow> string \<Rightarrow> (json \<times> string) option"
  and parse_members :: "nat \<Rightarrow> (string \<times> json) list \<Rightarrow> string \<Rightarrow> (json \<times> string) option" where
  "parse_value 0 s = None"
| "parse_value (Suc n) s = (let t = skip_ws s in
    if t = [] then None
    else if hd t = dquote then map_option (\<lambda>(x, r). (JStr x, r)) (parse_chars (tl t))
    else if hd t = CHR ''['' then
      (case expect CHR '']'' (tl t) of
         Some r \<Rightarrow> Some (JArr [], r)
       | None \<Rightarrow> (case parse_value n (tl t) of
           None \<Rightarrow> None
         | Some (v, r) \<Rightarrow> parse_elements n [v] r))
    else if hd t = CHR ''{'' then
      (case expect CHR ''}'' (tl t) of
         Some r \<Rightarrow> Some (JObj [], r)
       | None \<Rightarrow> (case parse_key (tl t) of
           None \<Rightarrow> None
         | Some (k, r) \<Rightarrow> (case parse_value n r of
             None \<Rightarrow> None
           | Some (v, r') \<Rightarrow> parse_members n [(k, v)] r')))
    else if starts_with ''true'' t then Some (JBool True, drop 4 t)
    else if starts_with ''false'' t then Some (JBool False, drop 5 t)
    else if starts_with ''null'' t then Some (JNull, drop 4 t)
    else map_option (\<lambda>(x, r). (JNum x, r)) (parse_number t))"
| "parse_elements 0 acc s = None"
| "parse_elements (Suc n) acc s = (let t = skip_ws s in
    if t = [] then None
    else if hd t = CHR '']'' then Some (JArr acc, tl t)
    else if hd t = CHR '','' then (case parse_value n (tl t) of
         None \<Rightarrow> None
       | Some (v, r) \<Rightarrow> parse_elements n (acc @ [v]) r)
    else None)"
| "parse_members 0 acc s = None"
| "parse_members (Suc n) acc s = (let t = skip_ws s in
    if t = [] then None
    else if hd t = CHR ''}'' then Some (JObj acc, tl t)
    else if hd t = CHR '','' then (case parse_key (tl t) of
         None \<Rightarrow> None
       | Some (k, r) \<Rightarrow> (case parse_value n r of
           None \<Rightarrow> None
         | Some (v, r') \<Rightarrow> parse_members n (AList.update k v acc) r'))
    else None)"

text \<open>The whole text is one value between white space; every call consumes a character or follows one that did.\<close>

definition json_parse :: "string \<Rightarrow> json option" where
  "json_parse s = (case parse_value (2 * length s + 1) s of
     None \<Rightarrow> None
   | Some (v, r) \<Rightarrow> if skip_ws r = [] then Some v else None)"

section \<open>Round trip\<close>

text \<open>The values the service prints: integers in the safe range, objects with distinct keys.\<close>

fun printable :: "json \<Rightarrow> bool" where
  "printable JNull = True"
| "printable (JBool b) = True"
| "printable (JNum n) = is_safe_integer n"
| "printable (JStr s) = True"
| "printable (JArr vs) = (\<forall>v\<in>set vs. printable v)"
| "printable (JObj kvs) = (distinct (map fst kvs) \<and> (\<forall>kv\<in>set kvs. printable (snd kv)))"

lemma quote_codes [simp]: "code dquote = 34" "code backslash = 92"
  by (simp_all add: dquote_def backslash_def)

lemma eq_dquote: "c = dquote \<longleftrightarrow> code c = 34" "dquote = c \<longleftrightarrow> code c = 34"
  and eq_backslash: "c = backslash \<longleftrightarrow> code c = 92" "backslash = c \<longleftrightarrow> code c = 92"
proof -
  show "c = dquote \<longleftrightarrow> code c = 34" "dquote = c \<longleftrightarrow> code c = 34"
    "c = backslash \<longleftrightarrow> code c = 92" "backslash = c \<longleftrightarrow> code c = 92"
    by (metis quote_codes of_char_eq_iff)+
qed

lemma hex_char_value_hex_char:
  "n < 16 \<Longrightarrow> hex_char_value (hex_char n) = n \<and> is_hex_char (hex_char n)"
  by (auto simp: hex_char_def hex_char_value_def is_hex_char_def is_lower_hex_def is_digit_def)

lemma parse_escape_char:
  "parse_chars (escape_char c @ s) = map_option (\<lambda>(t, r). (c # t, r)) (parse_chars s)"
proof (cases "code c < 32 \<and> \<not> (code c = 8 \<or> code c = 9 \<or> code c = 10 \<or> code c = 12 \<or> code c = 13)")
  case True
  then have "escape_char c = [backslash, CHR ''u'', CHR ''0'', CHR ''0'', hex_char (code c div 16), hex_char (code c mod 16)]"
    by (auto simp: escape_char_def)
  moreover have "code c div 16 < 16" "code c mod 16 < 16"
    using True by auto
  moreover have "backslash \<noteq> dquote" "\<not> code backslash < 32"
    by (auto simp: eq_dquote eq_backslash)
  ultimately show ?thesis
    by (simp add: hex_char_value_hex_char)
next
  case False
  have b: "backslash \<noteq> dquote" "\<not> code backslash < 32"
    by (auto simp: eq_dquote)
  have u: "dquote \<noteq> CHR ''u''" "backslash \<noteq> CHR ''u''"
    by (auto simp: eq_dquote eq_backslash)
  have simple: "unescape_simple dquote = Some dquote" "unescape_simple backslash = Some backslash"
    "unescape_simple CHR ''b'' = Some (char_of (8 :: nat))" "unescape_simple CHR ''t'' = Some (char_of (9 :: nat))"
    "unescape_simple CHR ''n'' = Some (char_of (10 :: nat))" "unescape_simple CHR ''f'' = Some (char_of (12 :: nat))"
    "unescape_simple CHR ''r'' = Some (char_of (13 :: nat))"
    by (simp_all add: unescape_simple_def eq_dquote eq_backslash)
  have e: "escape_char c = [backslash, x]"
    if "code c = n" "(n, x) \<in> {(8, CHR ''b''), (9, CHR ''t''), (10, CHR ''n''), (12, CHR ''f''), (13, CHR ''r'')}" for n x
    using that by (auto simp: escape_char_def eq_dquote eq_backslash)
  have step: "parse_chars ([backslash, x] @ s) = map_option (\<lambda>(t, r). (y # t, r)) (parse_chars s)"
    if "unescape_simple x = Some y" "x \<noteq> CHR ''u''" for x y
    using that b by simp
  have c: "c = char_of n" if "code c = n" for n :: nat
    by (simp flip: that)
  consider "c = dquote" | "c = backslash" | "code c = 8" | "code c = 9" | "code c = 10" | "code c = 12" | "code c = 13"
    | "c \<noteq> dquote" "c \<noteq> backslash" "32 \<le> code c"
    using False by fastforce
  then show ?thesis
  proof cases
    case 1
    then have "escape_char c = [backslash, dquote]" by (simp add: escape_char_def)
    then show ?thesis using step [OF simple(1) u(1)] 1 by simp
  next
    case 2
    then have "escape_char c = [backslash, backslash]" using b by (simp add: escape_char_def)
    then show ?thesis using step [OF simple(2) u(2)] 2 by simp
  next
    case 3
    then show ?thesis using step [OF simple(3)] e [OF 3] c [OF 3] by simp
  next
    case 4
    then show ?thesis using step [OF simple(4)] e [OF 4] c [OF 4] by simp
  next
    case 5
    then show ?thesis using step [OF simple(5)] e [OF 5] c [OF 5] by simp
  next
    case 6
    then show ?thesis using step [OF simple(6)] e [OF 6] c [OF 6] by simp
  next
    case 7
    then show ?thesis using step [OF simple(7)] e [OF 7] c [OF 7] by simp
  next
    case 8
    then have "escape_char c = [c]" by (simp add: escape_char_def)
    then show ?thesis using 8 by simp
  qed
qed

lemma parse_string_text: "parse_chars (concat (map escape_char x) @ dquote # r) = Some (x, r)"
  by (induction x) (simp_all add: parse_escape_char)

lemma takeWhile_digits: "list_all is_digit ds \<Longrightarrow> \<not> (r \<noteq> [] \<and> is_digit (hd r)) \<Longrightarrow>
    takeWhile is_digit (ds @ r) = ds \<and> dropWhile is_digit (ds @ r) = r"
  by (induction ds) (cases r, auto)

definition number_boundary :: "string \<Rightarrow> bool" where
  "number_boundary r = (r = [] \<or> \<not> (is_digit (hd r) \<or> hd r \<in> {CHR ''.'', CHR ''e'', CHR ''E''}))"

lemma decimal_hd_digit: "is_digit (hd (decimal n))"
  using decimal_digits [of n] by (cases "decimal n") auto

lemma decimal_no_leading_zero: "length (decimal n) > 1 \<Longrightarrow> hd (decimal n) \<noteq> CHR ''0''"
proof (induction n rule: decimal.induct)
  case (1 n)
  show ?case
  proof (cases "n < 100")
    case True
    have "n div 10 < 10" "n div 10 \<noteq> 0" "\<not> n < 10"
      using True 1 by (auto simp: decimal.simps [of n] split: if_splits)
    then have "decimal n = [digit_char (n div 10), digit_char (n mod 10)]" "code (digit_char (n div 10)) \<noteq> code CHR ''0''"
      by (simp_all add: decimal.simps [of n] decimal.simps [of "n div 10"] code_digit_char)
    then show ?thesis by auto
  next
    case False
    then have "length (decimal (n div 10)) > 1"
      by (simp add: decimal.simps [of "n div 10"])
    then show ?thesis
      using 1 False by (simp add: decimal.simps [of n] hd_append)
  qed
qed

lemma to_number_int:
  assumes "\<bar>n\<bar> \<le> max_safe_integer" shows "to_number (of_int n) = Finite (of_int n)"
proof -
  have "\<bar>n\<bar> < 2 ^ 1024 - 2 ^ 970"
    using assms by (simp add: max_safe_integer_def)
  then have "(of_int \<bar>n\<bar> :: rat) < of_int (2 ^ 1024 - 2 ^ 970)"
    by (simp only: of_int_less_iff)
  then have "\<not> double_limit \<le> \<bar>of_int n :: rat\<bar>"
    by (simp add: double_limit_def)
  then show ?thesis
    using assms by (simp add: to_number_def double.fl_int)
qed

lemma parse_number_int:
  assumes "number_boundary r" "\<bar>n\<bar> \<le> max_safe_integer"
  shows "parse_number (int_text n @ r) = Some (Finite (of_int n), r)"
proof -
  have frac: "parse_fraction r = Some (0, r)" "parse_exponent r = Some (0, r)"
    using assms(1) by (auto simp: parse_fraction_def parse_exponent_def number_boundary_def split: list.splits)
  note num = to_number_int
  have nodigit: "\<not> (r \<noteq> [] \<and> is_digit (hd r))"
    using assms(1) by (auto simp: number_boundary_def)
  have zero: "\<not> (decimal m = [] \<or> (length (decimal m) > 1 \<and> hd (decimal m) = CHR ''0''))" for m
    using decimal_no_leading_zero by auto
  have digits: "takeWhile is_digit (decimal m @ r) = decimal m" "dropWhile is_digit (decimal m @ r) = r" for m
    using takeWhile_digits [OF decimal_digits nodigit] by auto
  have minus: "hd (decimal m @ r) \<noteq> CHR ''-''" for m
    using decimal_hd_digit [of m] by (auto simp: hd_append is_digit_def)
  show ?thesis
  proof (cases "n < 0")
    case True
    then have "parse_number (int_text n @ r) = Some (to_number (- of_nat (nat (- n))), r)"
      using frac digits zero by (simp add: parse_number_def int_text_def Let_def)
    also have "- of_nat (nat (- n)) = (of_int n :: rat)"
      using True by (simp add: of_nat_nat)
    finally show ?thesis
      using num assms(2) by simp
  next
    case False
    then have "parse_number (int_text n @ r) = Some (to_number (of_nat (nat n)), r)"
      using frac digits zero minus by (simp add: parse_number_def int_text_def Let_def)
    also have "of_nat (nat n) = (of_int n :: rat)"
      using False by (simp add: of_nat_nat)
    finally show ?thesis
      using num assms(2) by simp
  qed
qed

lemma json_text_head:
  assumes "printable v"
  obtains c cs where "json_text v = c # cs" "\<not> is_json_ws c" "c \<noteq> CHR '']''" "c \<noteq> CHR ''}''" "c \<noteq> CHR '',''" "c \<noteq> CHR '':''"
proof (cases v)
  case (JNum n)
  then obtain m where m: "n = Finite (of_int m)"
    using assms by (auto elim: is_safe_integerE)
  show ?thesis
  proof (cases "int_text m")
    case Nil
    then show ?thesis by (simp add: int_text_def split: if_splits)
  next
    case (Cons c cs)
    then have "c = CHR ''-'' \<or> is_digit c"
      using decimal_hd_digit [of "nat m"] by (auto simp: int_text_def split: if_splits)
    then have "\<not> is_json_ws c" "c \<noteq> CHR '']''" "c \<noteq> CHR ''}''" "c \<noteq> CHR '',''" "c \<noteq> CHR '':''"
      by (auto simp: is_json_ws_def is_digit_def)
    then show ?thesis
      using that [of c cs] Cons JNum m by simp
  qed
next
  case (JStr s)
  then show ?thesis
    by (intro that [of dquote "concat (map escape_char s) @ [dquote]"])
      (auto simp: string_text_def is_json_ws_def eq_dquote)
next
  case (JArr vs)
  show ?thesis
    by (rule that [of "CHR ''[''" "tl (json_text v)"]) (auto simp: JArr is_json_ws_def split: list.splits)
next
  case (JObj kvs)
  show ?thesis
    by (rule that [of "CHR ''{''" "tl (json_text v)"]) (auto simp: JObj is_json_ws_def split: list.splits)
next
  case (JBool b)
  then show ?thesis
    by (cases b) (auto simp: is_json_ws_def intro: that)
qed (auto simp: is_json_ws_def intro: that)

lemma expect_other: "\<not> is_json_ws c \<Longrightarrow> c \<noteq> d \<Longrightarrow> expect d (c # s) = None"
  and expect_same: "\<not> is_json_ws c \<Longrightarrow> expect c (c # s) = Some s"
  by (simp_all add: expect_def)

lemma parse_key_text: "parse_key (string_text k @ CHR '':'' # s) = Some (k, s)"
  by (simp add: parse_key_def string_text_def parse_string_text expect_same is_json_ws_def)

lemma update_fresh: "k \<notin> fst ` set al \<Longrightarrow> AList.update k v al = al @ [(k, v)]"
  by (induction al) auto

lemma number_boundary_simps [simp]:
  "number_boundary []" "number_boundary (CHR '','' # r)" "number_boundary (CHR '']'' # r)" "number_boundary (CHR ''}'' # r)"
  by (auto simp: number_boundary_def is_digit_def)

lemma elements_boundary: "number_boundary (elements_text vs @ r)"
  by (cases vs) auto

lemma members_boundary: "number_boundary (members_text kvs @ r)"
  by (cases kvs) auto

lemma json_ws_simps [simp]:
  "\<not> is_json_ws CHR '',''" "\<not> is_json_ws CHR '']''" "\<not> is_json_ws CHR ''}''" "\<not> is_json_ws CHR ''[''" "\<not> is_json_ws CHR ''{''"
  "\<not> is_json_ws CHR ''t''" "\<not> is_json_ws CHR ''f''" "\<not> is_json_ws CHR ''n''" "\<not> is_json_ws CHR '':''" "\<not> is_json_ws dquote"
  by (auto simp: is_json_ws_def)

lemma dquote_neq [simp]:
  "dquote \<noteq> CHR ''[''" "dquote \<noteq> CHR ''{''" "CHR ''['' \<noteq> dquote" "CHR ''{'' \<noteq> dquote"
  "CHR ''t'' \<noteq> dquote" "CHR ''f'' \<noteq> dquote" "CHR ''n'' \<noteq> dquote" "CHR ''-'' \<noteq> dquote"
  by (auto simp: eq_dquote)

lemma parse_text:
  "printable v \<Longrightarrow> number_boundary r \<Longrightarrow> length (json_text v) \<le> n \<Longrightarrow>
     parse_value n (json_text v @ r) = Some (v, r)"
  "\<forall>v\<in>set vs. printable v \<Longrightarrow> length (elements_text vs) \<le> n \<Longrightarrow>
     parse_elements n vacc (elements_text vs @ r) = Some (JArr (vacc @ vs), r)"
  "\<forall>kv\<in>set kvs. printable (snd kv) \<Longrightarrow> distinct (map fst (macc @ kvs)) \<Longrightarrow> length (members_text kvs) \<le> n \<Longrightarrow>
     parse_members n macc (members_text kvs @ r) = Some (JObj (macc @ kvs), r)"
proof (induction v and vs and kvs arbitrary: r n and r n vacc and r n macc
    rule: json_text_elements_text_members_text.induct)
  case 1
  then show ?case by (cases n) (auto simp: Let_def)
next
  case (2 b)
  then show ?case by (cases n; cases b) (auto simp: Let_def)
next
  case (3 x)
  obtain m where m: "x = Finite (of_int m)" "\<bar>m\<bar> \<le> max_safe_integer"
    using "3.prems" by (auto elim: is_safe_integerE)
  obtain c cs where c: "int_text m = c # cs"
    by (cases "int_text m") (auto simp: int_text_def split: if_splits)
  have "c = CHR ''-'' \<or> is_digit c"
    using c decimal_hd_digit [of "nat m"] by (auto simp: int_text_def split: if_splits)
  then have *: "\<not> is_json_ws c" "c \<noteq> dquote" "c \<noteq> CHR ''[''" "c \<noteq> CHR ''{''" "c \<noteq> CHR ''t''" "c \<noteq> CHR ''f''" "c \<noteq> CHR ''n''"
    by (auto simp: is_json_ws_def is_digit_def eq_dquote)
  show ?case
    using "3.prems" m * c parse_number_int [OF "3.prems"(2) m(2)] by (cases n) (simp_all add: Let_def)
next
  case (4 s)
  then show ?case
    by (cases n) (auto simp: Let_def string_text_def parse_string_text)
next
  case (5 vs)
  show ?case
  proof (cases vs)
    case Nil
    then show ?thesis using "5.prems" by (cases n) (auto simp: Let_def expect_same)
  next
    case (Cons v ws)
    obtain m where n: "n = Suc m" using "5.prems" Cons by (cases n) auto
    obtain c cs where c: "json_text v = c # cs" "\<not> is_json_ws c" "c \<noteq> CHR '']''"
      by (rule json_text_head [of v]) (use "5.prems" Cons in auto)
    have "parse_value m (json_text v @ elements_text ws @ r) = Some (v, elements_text ws @ r)"
      using "5.prems" Cons n elements_boundary by (intro "5.IH"(1)) auto
    moreover have "parse_elements m [v] (elements_text ws @ r) = Some (JArr ([v] @ ws), r)"
      using "5.prems" Cons n by (intro "5.IH"(2)) auto
    ultimately show ?thesis
      using Cons n c by (simp add: Let_def expect_other)
  qed
next
  case (6 kvs)
  show ?case
  proof (cases kvs)
    case Nil
    then show ?thesis using "6.prems" by (cases n) (auto simp: Let_def expect_same)
  next
    case (Cons kv ls)
    obtain k v where kv: "kv = (k, v)" by (cases kv)
    obtain m where n: "n = Suc m" using "6.prems" Cons kv by (cases n) auto
    have "parse_value m (json_text v @ members_text ls @ r) = Some (v, members_text ls @ r)"
      using "6.prems" Cons kv n members_boundary by (intro "6.IH"(1)) auto
    moreover have "parse_members m [(k, v)] (members_text ls @ r) = Some (JObj ([(k, v)] @ ls), r)"
      using "6.prems" Cons kv n by (intro "6.IH"(2)) auto
    moreover have "expect CHR ''}'' (string_text k @ CHR '':'' # json_text v @ members_text ls @ r) = None"
      by (simp add: string_text_def expect_other eq_dquote)
    ultimately show ?thesis
      using Cons kv n by (simp add: Let_def parse_key_text)
  qed
next
  case 7
  then show ?case by (cases n) (auto simp: Let_def)
next
  case (8 v vs)
  obtain m where n: "n = Suc m" using "8.prems" by (cases n) auto
  have "parse_value m (json_text v @ elements_text vs @ r) = Some (v, elements_text vs @ r)"
    using "8.prems" n elements_boundary by (intro "8.IH"(1)) auto
  moreover have "parse_elements m (vacc @ [v]) (elements_text vs @ r) = Some (JArr ((vacc @ [v]) @ vs), r)"
    using "8.prems" n by (intro "8.IH"(2)) auto
  ultimately show ?case
    using n by (simp add: Let_def)
next
  case 9
  then show ?case by (cases n) (auto simp: Let_def)
next
  case (10 k v kvs)
  obtain m where n: "n = Suc m" using "10.prems" by (cases n) auto
  have "parse_value m (json_text v @ members_text kvs @ r) = Some (v, members_text kvs @ r)"
    using "10.prems" n members_boundary by (intro "10.IH"(1)) auto
  moreover have "parse_members m (macc @ [(k, v)]) (members_text kvs @ r) = Some (JObj ((macc @ [(k, v)]) @ kvs), r)"
    using "10.prems" n by (intro "10.IH"(2)) auto
  moreover have "AList.update k v macc = macc @ [(k, v)]"
    using "10.prems"(2) by (intro update_fresh) auto
  ultimately show ?case
    using n by (simp add: Let_def parse_key_text)
qed

lemma json_parse_text [simp]: "printable v \<Longrightarrow> json_parse (json_text v) = Some v"
  using parse_text(1) [of v "[]" "2 * length (json_text v) + 1"] by (simp add: json_parse_def)

end
