(* ===== verification/User_Profile.thy ===== *)
theory User_Profile
  imports Json_Text
begin

text \<open>
  \<open>auth/user-profile.ts\<close>: the profile of the signed-in user, read from upstream claims, from token
  claims and from the stored rows, always through \<open>validateUserProfile\<close>.
\<close>

section \<open>Data and operations\<close>

record user_profile =
  up_sub :: string
  up_given_name :: string
  up_family_name :: string
  up_name :: string
  up_preferred_username :: string
  up_email :: string
  up_email_verified :: bool

definition is_line_break :: "char \<Rightarrow> bool" where
  "is_line_break c = (code c = 10 \<or> code c = 13)"

definition optionalProfileClaim :: "json option \<Rightarrow> string \<Rightarrow> string option outcome" where
  "optionalProfileClaim value name =
    (if value = None \<or> value = Some JNull then Inr None
     else (case json_string value of
         None \<Rightarrow> Inl (PlainError (name @ '' must be a string''))
       | Some s \<Rightarrow>
           let trimmed = trim s in
           if trimmed = [] then Inr None
           else if length trimmed > 256 then Inl (PlainError (name @ '' must be at most 256 characters''))
           else if list_ex is_line_break trimmed then Inl (PlainError (name @ '' cannot contain line breaks''))
           else Inr (Some trimmed)))"

definition requiredProfileClaim :: "json option \<Rightarrow> string \<Rightarrow> string outcome" where
  "requiredProfileClaim value name = bindr (optionalProfileClaim value name) (\<lambda>parsed.
     case parsed of None \<Rightarrow> Inl (PlainError (name @ '' is required'')) | Some s \<Rightarrow> Inr s)"

text \<open>\<open>/^[^\s@]+@[^\s@]+\.[^\s@]+$/\<close>: one at sign, no white space, an inner dot in the domain.\<close>

definition is_email :: "string \<Rightarrow> bool" where
  "is_email s = (list_all (\<lambda>c. \<not> is_ws c) s \<and>
     (case split_on CHR ''@'' s of
        [l, d] \<Rightarrow> l \<noteq> [] \<and> CHR ''.'' \<in> set (butlast (tl d))
      | _ \<Rightarrow> False))"

definition emailClaim :: "json option \<Rightarrow> string outcome" where
  "emailClaim value = bindr (optionalProfileClaim value ''email'') (\<lambda>email. case email of
     None \<Rightarrow> Inl (PlainError ''email is required'')
   | Some e \<Rightarrow> if \<not> is_email e then Inl (PlainError ''email must be an email address'') else Inr e)"

definition booleanClaim :: "json option \<Rightarrow> bool outcome" where
  "booleanClaim value = (case value of
     None \<Rightarrow> Inl (PlainError ''email_verified is required'')
   | Some JNull \<Rightarrow> Inl (PlainError ''email_verified is required'')
   | Some (JBool b) \<Rightarrow> Inr b
   | Some v \<Rightarrow> if v = JStr ''true'' then Inr True else if v = JStr ''false'' then Inr False
       else Inl (PlainError ''email_verified must be true or false''))"

definition or_default :: "string option \<Rightarrow> string \<Rightarrow> string" where
  "or_default x d = (case x of None \<Rightarrow> d | Some s \<Rightarrow> s)"

definition validateUserProfile :: "json option \<Rightarrow> user_profile outcome" where
  "validateUserProfile value = (case json_object value of
     None \<Rightarrow> Inl (PlainError ''user profile is malformed'')
   | Some record \<Rightarrow>
       bindr (optionalProfileClaim (field record ''given_name'') ''given_name'') (\<lambda>given.
       bindr (optionalProfileClaim (field record ''family_name'') ''family_name'') (\<lambda>family.
       bindr (emailClaim (field record ''email'')) (\<lambda>email.
       bindr (requiredProfileClaim (field record ''sub'') ''sub'') (\<lambda>sub.
       bindr (optionalProfileClaim (field record ''name'') ''name'') (\<lambda>name.
       bindr (optionalProfileClaim (field record ''preferred_username'') ''preferred_username'') (\<lambda>preferred.
       bindr (booleanClaim (field record ''email_verified'')) (\<lambda>verified.
         let givenName = or_default given ''Authenticated''; familyName = or_default family ''User'' in
         Inr \<lparr> up_sub = sub, up_given_name = givenName, up_family_name = familyName,
               up_name = or_default name (trim (givenName @ '' '' @ familyName)),
               up_preferred_username = or_default preferred email, up_email = email,
               up_email_verified = verified \<rparr>))))))))"

text \<open>A profile object handed to \<open>validateUserProfile\<close>, with its properties in declaration order.\<close>

definition profile_json :: "user_profile \<Rightarrow> json" where
  "profile_json u = JObj
    [(''sub'', JStr (up_sub u)), (''given_name'', JStr (up_given_name u)), (''family_name'', JStr (up_family_name u)),
     (''name'', JStr (up_name u)), (''preferred_username'', JStr (up_preferred_username u)),
     (''email'', JStr (up_email u)), (''email_verified'', JBool (up_email_verified u))]"

definition userProfileFromJson :: "string \<Rightarrow> user_profile outcome" where
  "userProfileFromJson value = (case json_parse value of
     None \<Rightarrow> Inl (PlainError ''user profile is malformed'')
   | Some v \<Rightarrow> try_catch (validateUserProfile (Some v)) (\<lambda>e. Inl (PlainError ''user profile is malformed'')))"

definition userProfileJson :: "user_profile \<Rightarrow> string outcome" where
  "userProfileJson user = bindr (validateUserProfile (Some (profile_json user))) (\<lambda>u. Inr (json_text (profile_json u)))"

definition userProfileFromUpstream :: "json option \<Rightarrow> user_profile outcome" where
  "userProfileFromUpstream value = validateUserProfile value"

definition userProfileFromClaims :: "user_profile \<Rightarrow> user_profile outcome" where
  "userProfileFromClaims claims = validateUserProfile (Some (profile_json claims))"

section \<open>Well-formed profiles\<close>

definition claim_ok :: "string \<Rightarrow> bool" where
  "claim_ok s = (s \<noteq> [] \<and> trim s = s \<and> length s \<le> 256 \<and> \<not> list_ex is_line_break s)"

definition profile_ok :: "user_profile \<Rightarrow> bool" where
  "profile_ok u = (claim_ok (up_sub u) \<and> claim_ok (up_given_name u) \<and> claim_ok (up_family_name u) \<and>
     claim_ok (up_name u) \<and> claim_ok (up_preferred_username u) \<and> claim_ok (up_email u) \<and> is_email (up_email u))"

lemma optionalProfileClaim_ok:
  "optionalProfileClaim v n = Inr (Some s) \<Longrightarrow> claim_ok s"
  by (auto simp: optionalProfileClaim_def claim_ok_def Let_def split: if_splits option.splits)

lemma optionalProfileClaim_claim [simp]:
  "claim_ok s \<Longrightarrow> optionalProfileClaim (Some (JStr s)) n = Inr (Some s)"
  by (simp add: optionalProfileClaim_def claim_ok_def)

lemma requiredProfileClaim_ok: "requiredProfileClaim v n = Inr s \<Longrightarrow> claim_ok s"
  unfolding requiredProfileClaim_def bindr_eq_Inr
  by (auto split: option.splits dest: optionalProfileClaim_ok)

lemma emailClaim_ok: "emailClaim v = Inr s \<Longrightarrow> claim_ok s \<and> is_email s"
  unfolding emailClaim_def bindr_eq_Inr
  by (auto split: option.splits if_splits dest: optionalProfileClaim_ok)

lemma or_default_ok: "optionalProfileClaim v n = Inr x \<Longrightarrow> claim_ok d \<Longrightarrow> claim_ok (or_default x d)"
  by (cases x) (auto simp: or_default_def dest: optionalProfileClaim_ok)

lemma default_claims_ok: "claim_ok ''Authenticated''" "claim_ok ''User''"
  by code_simp+

text \<open>
  An accepted profile satisfies every rule except, when the name was made up from the two given
  names, the length limit of the name.
\<close>

lemma validateUserProfile_ok:
  assumes "validateUserProfile v = Inr u"
  shows "claim_ok (up_sub u)" "claim_ok (up_given_name u)" "claim_ok (up_family_name u)"
    "claim_ok (up_preferred_username u)" "claim_ok (up_email u) \<and> is_email (up_email u)"
    "claim_ok (up_name u) \<or> up_name u = trim (up_given_name u @ '' '' @ up_family_name u)"
proof -
  obtain kvs given family email sub name preferred verified where
    "optionalProfileClaim (field kvs ''given_name'') ''given_name'' = Inr given"
    "optionalProfileClaim (field kvs ''family_name'') ''family_name'' = Inr family"
    and e: "emailClaim (field kvs ''email'') = Inr email"
    and s: "requiredProfileClaim (field kvs ''sub'') ''sub'' = Inr sub"
    and n: "optionalProfileClaim (field kvs ''name'') ''name'' = Inr name"
    and p: "optionalProfileClaim (field kvs ''preferred_username'') ''preferred_username'' = Inr preferred"
    and u: "u = \<lparr> up_sub = sub, up_given_name = or_default given ''Authenticated'', up_family_name = or_default family ''User'',
          up_name = or_default name (trim (or_default given ''Authenticated'' @ '' '' @ or_default family ''User'')),
          up_preferred_username = or_default preferred email, up_email = email, up_email_verified = verified \<rparr>"
    using assms unfolding validateUserProfile_def Let_def
    by (auto simp: bindr_eq_Inr split: option.splits)
  then have "claim_ok (or_default given ''Authenticated'')" "claim_ok (or_default family ''User'')"
    using or_default_ok default_claims_ok by blast+
  moreover have "claim_ok (or_default preferred email)"
    using or_default_ok [OF p] emailClaim_ok [OF e] by blast
  ultimately show "claim_ok (up_sub u)" "claim_ok (up_given_name u)" "claim_ok (up_family_name u)"
    "claim_ok (up_preferred_username u)" "claim_ok (up_email u) \<and> is_email (up_email u)"
    "claim_ok (up_name u) \<or> up_name u = trim (up_given_name u @ '' '' @ up_family_name u)"
    using requiredProfileClaim_ok [OF s] emailClaim_ok [OF e] n
    by (cases name; simp add: u or_default_def optionalProfileClaim_ok)+
qed

lemma validate_profile_json [simp]:
  assumes "profile_ok u" shows "validateUserProfile (Some (profile_json u)) = Inr u"
  using assms
  by (simp add: profile_ok_def validateUserProfile_def profile_json_def emailClaim_def requiredProfileClaim_def
      booleanClaim_def or_default_def)

lemma profile_json_printable [simp]: "printable (profile_json u)"
  by (simp add: profile_json_def)

lemma userProfileJson_ok: "profile_ok u \<Longrightarrow> userProfileJson u = Inr (json_text (profile_json u))"
  by (simp add: userProfileJson_def)

lemma userProfileFromJson_ok: "profile_ok u \<Longrightarrow> userProfileFromJson (json_text (profile_json u)) = Inr u"
  by (simp add: userProfileFromJson_def)

lemma profile_text_not_blank: "trim (json_text (profile_json u)) \<noteq> []"
proof -
  have "hd (json_text (profile_json u)) = CHR ''{''" by (simp add: profile_json_def)
  moreover have "\<not> is_ws CHR ''{''" by code_simp
  ultimately show ?thesis
    by (cases "json_text (profile_json u)") (auto simp: trim_def profile_json_def)
qed

section \<open>Properties\<close>

text \<open>C39: a profile the upstream provider delivers with a name of its own (or with given names
  short enough to make one up) satisfies all rules, is printed into a row, and is read back from
  the row as the same profile.\<close>

theorem user_profile_round_trip:
  assumes "userProfileFromUpstream v = Inr u" "length (up_given_name u) + length (up_family_name u) \<le> 255"
  shows "profile_ok u \<and> (\<exists>t. userProfileJson u = Inr t \<and> userProfileFromJson t = Inr u) \<and> userProfileFromClaims u = Inr u"
proof -
  have v: "validateUserProfile v = Inr u"
    using assms(1) by (simp add: userProfileFromUpstream_def)
  note ok = validateUserProfile_ok [OF v]
  have "claim_ok (up_name u)"
  proof (cases "claim_ok (up_name u)")
    case False
    then have n: "up_name u = trim (up_given_name u @ '' '' @ up_family_name u)"
      using ok(6) by blast
    have "trim (up_given_name u @ '' '' @ up_family_name u) \<noteq> []"
      using ok(2) by (intro trim_append_not_blank) (auto simp: claim_ok_def)
    moreover have "\<not> list_ex is_line_break (trim (up_given_name u @ '' '' @ up_family_name u))"
      using set_trim_subset [of "up_given_name u @ '' '' @ up_family_name u"] ok(2,3)
      by (auto simp: claim_ok_def list_ex_iff is_line_break_def)
    ultimately show ?thesis
      using assms(2) length_trim_le [of "up_given_name u @ '' '' @ up_family_name u"]
      by (simp add: n claim_ok_def)
  qed simp
  then have "profile_ok u"
    using ok by (simp add: profile_ok_def)
  then show ?thesis
    by (simp add: userProfileJson_ok userProfileFromJson_ok userProfileFromClaims_def)
qed

text \<open>The hypotheses hold of claims without names, for which both default names are used.\<close>

definition sample_claims :: json where
  "sample_claims = JObj [(''sub'', JStr ''u1''), (''email'', JStr ''a@b.io''), (''email_verified'', JStr ''true'')]"

definition sample_profile :: user_profile where
  "sample_profile = \<lparr> up_sub = ''u1'', up_given_name = ''Authenticated'', up_family_name = ''User'',
     up_name = ''Authenticated User'', up_preferred_username = ''a@b.io'', up_email = ''a@b.io'', up_email_verified = True \<rparr>"

lemma sample_claims_valid: "userProfileFromUpstream (Some sample_claims) = Inr sample_profile"
  by code_simp

theorem user_profile_round_trip_witness: "profile_ok sample_profile"
  using user_profile_round_trip [OF sample_claims_valid] by (simp add: sample_profile_def)

definition long_names_claims :: "nat \<Rightarrow> json" where
  "long_names_claims n = JObj [(''sub'', JStr ''u1''), (''email'', JStr ''a@b.io''), (''email_verified'', JBool True),
     (''given_name'', JStr (replicate n CHR ''g'')), (''family_name'', JStr (replicate n CHR ''f''))]"

lemma replicate_claim:
  assumes "\<not> is_ws c" "\<not> is_line_break c" "0 < n" "n \<le> 256" shows "claim_ok (replicate n c)"
  using assms by (auto simp: claim_ok_def list_ex_iff trim_no_ws list_all_iff)

text \<open>Two long given names make up a name that the same validation rejects, so a profile
  accepted from the upstream provider cannot be written to the store.\<close>

theorem made_up_name_not_storable:
  "\<exists>u. userProfileFromUpstream (Some (long_names_claims 200)) = Inr u \<and>
    userProfileJson u = Inl (PlainError ''name must be at most 256 characters'')"
proof -
  let ?g = "replicate 200 CHR ''g''" and ?f = "replicate 200 CHR ''f''"
  let ?n = "?g @ '' '' @ ?f"
  have letters: "\<not> is_ws CHR ''g''" "\<not> is_line_break CHR ''g''" "\<not> is_ws CHR ''f''" "\<not> is_line_break CHR ''f''"
    by code_simp+
  have claims: "claim_ok ?g" "claim_ok ?f" "claim_ok ''u1''" "claim_ok ''a@b.io''" "is_email ''a@b.io''"
    using letters by (auto intro: replicate_claim) (code_simp+)
  have "dropWhile is_ws ?n = ?n" "dropWhile is_ws (rev ?n) = rev ?n"
    using letters by (auto simp: dropWhile_eq_self_iff hd_append)
  then have n: "trim ?n = ?n"
    by (simp add: trim_def del: rev_append)
  define u where "u = \<lparr> up_sub = ''u1'', up_given_name = ?g, up_family_name = ?f, up_name = ?n,
    up_preferred_username = ''a@b.io'', up_email = ''a@b.io'', up_email_verified = True \<rparr>"
  have "userProfileFromUpstream (Some (long_names_claims 200)) = Inr u"
    using claims n by (simp add: userProfileFromUpstream_def validateUserProfile_def long_names_claims_def emailClaim_def
        requiredProfileClaim_def booleanClaim_def or_default_def u_def Let_def optionalProfileClaim_def [of None])
  moreover have "userProfileJson u = Inl (PlainError ''name must be at most 256 characters'')"
    using claims n by (simp add: userProfileJson_def validateUserProfile_def profile_json_def emailClaim_def
        requiredProfileClaim_def u_def optionalProfileClaim_def [of "Some (JStr (?g @ CHR '' '' # ?f))"])
  ultimately show ?thesis by blast
qed

end
