(* ===== verification/OAuth_Params.thy ===== *)
theory OAuth_Params
  imports Js_Values
begin

text \<open>
  The request parameters of the OAuth endpoints: scopes (\<open>auth/scopes.ts\<close>), PKCE
  (\<open>auth/pkce.ts\<close>), nonce, state, \<open>id_token_hint\<close> and display names, the parameter list itself
  (\<open>auth/oauth-parameters.ts\<close>), redirect URIs, the \<open>Authorization\<close> header, and the error body the
  endpoints write (\<open>auth/oauth-errors.ts\<close>).  A regular expression of the form \<open>/^[class]{m,n}$/\<close>
  is a length test and a test of every character.  The URL parser of the platform is an argument
  \<open>parse_url\<close> (\<open>None\<close> when \<open>new URL\<close> throws).
\<close>

section \<open>Character classes\<close>

definition is_base64url_char :: "char \<Rightarrow> bool" where
  "is_base64url_char c = (is_alnum c \<or> c = CHR ''_'' \<or> c = CHR ''-'')"

definition is_scope_char :: "char \<Rightarrow> bool" where
  "is_scope_char c = (is_alnum c \<or> c \<in> {CHR '':'', CHR ''_'', CHR ''.'', CHR ''/'', CHR ''-''})"

definition is_unreserved :: "char \<Rightarrow> bool" where
  "is_unreserved c = (is_alnum c \<or> c \<in> {CHR ''.'', CHR ''_'', CHR ''~'', CHR ''-''})"

definition is_hash :: "string \<Rightarrow> bool" where
  "is_hash s = (length s = 43 \<and> list_all is_base64url_char s)"

section \<open>Scopes\<close>

definition authSessionScopes :: "string list" where "authSessionScopes = [''openid'']"

definition defaultScopes :: "string list" where "defaultScopes = [''openid'', ''profile'', ''email'']"

definition mcpProtectedResourceScopes :: "string list" where
  "mcpProtectedResourceScopes = distinct_set (authSessionScopes @ defaultScopes)"

definition is_scope :: "string \<Rightarrow> bool" where
  "is_scope s = (s \<noteq> [] \<and> list_all is_scope_char s)"

definition is_scope_list :: "string \<Rightarrow> bool" where
  "is_scope_list s = list_all is_scope (split_on CHR '' '' s)"

definition invalid_scope_error :: "string \<Rightarrow> js_error" where
  "invalid_scope_error m = ServiceError Invalid_scope m 400"

definition parseScopes :: "string option \<Rightarrow> string list outcome" where
  "parseScopes input = (case input of
     None \<Rightarrow> Inr defaultScopes
   | Some s \<Rightarrow> if \<not> is_scope_list s then Inl (invalid_scope_error ''scope is invalid'')
       else Inr (distinct_set (split_on CHR '' '' s)))"

definition assertAllowedScopes :: "string list \<Rightarrow> string list \<Rightarrow> unit outcome" where
  "assertAllowedScopes requested allowed =
    (let denied = filter (\<lambda>scope. \<not> List.member allowed scope) requested in
     if length denied > 0 then Inl (invalid_scope_error ''requested scope is not allowed'') else Inr ())"

definition hasScopes :: "string list \<Rightarrow> string list \<Rightarrow> bool" where
  "hasScopes actual required = list_all (\<lambda>scope. List.member actual scope) required"

section \<open>PKCE\<close>

definition is_pkce_value :: "string \<Rightarrow> bool" where
  "is_pkce_value s = (43 \<le> length s \<and> length s \<le> 128 \<and> list_all is_unreserved s)"

datatype pkce_policy = Pkce_required | Pkce_optional

text \<open>The result holds the challenge when the method \<open>S256\<close> is in force.\<close>

definition pkceInput :: "pkce_policy \<Rightarrow> string option \<Rightarrow> string option \<Rightarrow> string option outcome" where
  "pkceInput policy challenge method =
    (if (challenge = None \<or> challenge = Some []) \<and> policy = Pkce_required
       then Inl (ServiceError Bad_request ''code_challenge is required'' 400)
     else if challenge = None \<or> challenge = Some [] then Inr None
     else if \<not> is_pkce_value (the challenge) then Inl (ServiceError Bad_request ''invalid code_challenge'' 400)
     else if method \<noteq> Some ''S256'' then Inl (ServiceError Bad_request ''code_challenge_method must be S256'' 400)
     else Inr challenge)"

definition invalid_grant_error :: js_error where
  "invalid_grant_error = ServiceError Invalid_grant ''invalid grant'' 400"

definition pkceVerifier :: "string option \<Rightarrow> string outcome" where
  "pkceVerifier value = (case value of
     None \<Rightarrow> Inl invalid_grant_error
   | Some v \<Rightarrow> if v = [] \<or> \<not> is_pkce_value v then Inl invalid_grant_error else Inr v)"

section \<open>Nonce, state, hint, names\<close>

definition isOidcNonce :: "string \<Rightarrow> bool" where
  "isOidcNonce s = (8 \<le> length s \<and> length s \<le> 256 \<and> list_all is_unreserved s)"

definition oidcNonce :: "string option \<Rightarrow> string option outcome" where
  "oidcNonce value = (case value of
     None \<Rightarrow> Inr None
   | Some v \<Rightarrow> if \<not> isOidcNonce v then Inl (ServiceError Bad_request ''invalid nonce'' 400) else Inr (Some v))"

definition oauthState :: "string option \<Rightarrow> string outcome" where
  "oauthState value =
    (if value = None \<or> value = Some [] then Inl (ServiceError Bad_request ''state is required'' 400)
     else let v = the value in
       if length v > 512 \<or> list_ex is_control v then Inl (ServiceError Bad_request ''state is invalid'' 400)
       else Inr v)"

definition isCompactJwt :: "string \<Rightarrow> bool" where
  "isCompactJwt value =
    (if length value = 0 \<or> length value > 4096 then False
     else let parts = split_on CHR ''.'' value in
       length parts = 3 \<and> list_all (\<lambda>part. length part > 0 \<and> list_all is_base64url_char part) parts)"

definition idTokenHint :: "string option \<Rightarrow> unit outcome" where
  "idTokenHint value = (case value of
     None \<Rightarrow> Inr ()
   | Some v \<Rightarrow> if \<not> isCompactJwt v then Inl (ServiceError Bad_request ''invalid id_token_hint'' 400) else Inr ())"

definition isDisplayName :: "string \<Rightarrow> bool" where
  "isDisplayName value = (trim value = value \<and> length value > 0 \<and> length value \<le> 128 \<and>
     \<not> list_ex (\<lambda>c. code c \<le> 31 \<or> 127 \<le> code c \<and> code c \<le> 159) value)"

section \<open>The parameter list\<close>

type_synonym params = "(string \<times> string) list"

definition getAll :: "params \<Rightarrow> string \<Rightarrow> string list" where
  "getAll params key = map snd (filter (\<lambda>kv. fst kv = key) params)"

definition get_param :: "params \<Rightarrow> string \<Rightarrow> string option" where
  "get_param params key = map_of params key"

definition duplicate_parameter_error :: js_error where
  "duplicate_parameter_error = ServiceError Bad_request ''duplicate oauth parameter'' 400"

fun assertAllowedKeys :: "params \<Rightarrow> string list \<Rightarrow> string list \<Rightarrow> unit outcome" where
  "assertAllowedKeys params allowed [] = Inr ()"
| "assertAllowedKeys params allowed (key # keys) =
    (if \<not> List.member allowed key then Inl (ServiceError Bad_request ''unsupported oauth parameter'' 400)
     else if length (getAll params key) > 1 then Inl duplicate_parameter_error
     else assertAllowedKeys params allowed keys)"

definition assertAllowedParameters :: "params \<Rightarrow> string list \<Rightarrow> unit outcome" where
  "assertAllowedParameters params allowed = assertAllowedKeys params allowed (distinct_set (map fst params))"

definition optionalParameter :: "params \<Rightarrow> string \<Rightarrow> string option outcome" where
  "optionalParameter params key = (case getAll params key of
     [] \<Rightarrow> Inr None
   | [v] \<Rightarrow> Inr (Some v)
   | _ \<Rightarrow> Inl duplicate_parameter_error)"

definition requiredParameter :: "params \<Rightarrow> string \<Rightarrow> string outcome" where
  "requiredParameter params key = bindr (optionalParameter params key) (\<lambda>value.
     if value = None \<or> value = Some [] then Inl (ServiceError Bad_request (key @ '' is required'') 400)
     else Inr (the value))"

section \<open>Authorization header\<close>

definition is_token_char :: "char \<Rightarrow> bool" where
  "is_token_char c = (is_alnum c \<or> List.member ''!#$%&*+-.^_`|~'' c \<or> code c = 39)"

text \<open>
  \<open>/^([token]+)[ \t]+(.+)$/\<close>: the scheme is the longest run of token characters; the separator takes
  as many blanks as it can while one character is left for the credentials, and \<open>.\<close> is no line
  terminator.  Since the credentials are trimmed, the split point among blanks does not matter, except
  that a value of blanks only has no credentials left.
\<close>

definition authorizationCredentials :: "string option \<Rightarrow> string \<Rightarrow> string option" where
  "authorizationCredentials header scheme = (case header of
     None \<Rightarrow> None
   | Some h \<Rightarrow>
       let received = takeWhile is_token_char h;
           rest = dropWhile is_token_char h in
       if received = [] \<or> rest = [] then None
       else if \<not> (hd rest = CHR '' '' \<or> code (hd rest) = 9) then None
       else if list_ex (\<lambda>c. code c = 10 \<or> code c = 13) rest then None
       else if tl rest = [] then None
       else if to_lower received \<noteq> to_lower scheme then None
       else let credentials = trim rest in
         if credentials = [] then None else Some credentials)"

definition readAuthorizationCredentials :: "string option \<Rightarrow> string \<Rightarrow> js_error \<Rightarrow> string outcome" where
  "readAuthorizationCredentials header scheme error = (case authorizationCredentials header scheme of
     None \<Rightarrow> Inl error
   | Some credentials \<Rightarrow> Inr credentials)"

text \<open>\<open>rawHeaders\<close> alternates names and values.\<close>

fun count_authorization :: "string list \<Rightarrow> nat" where
  "count_authorization (name # value # rest) =
     (if to_lower name = ''authorization'' then 1 else 0) + count_authorization rest"
| "count_authorization [name] = (if to_lower name = ''authorization'' then 1 else 0)"
| "count_authorization [] = 0"

definition duplicateRawAuthorizationHeader :: "string list \<Rightarrow> bool" where
  "duplicateRawAuthorizationHeader rawHeaders = (count_authorization rawHeaders > 1)"

definition validateSingleAuthorizationHeader :: "string list \<Rightarrow> unit outcome" where
  "validateSingleAuthorizationHeader rawHeaders =
    (if duplicateRawAuthorizationHeader rawHeaders
     then Inl (ServiceError Bad_request ''duplicate authorization header'' 400) else Inr ())"

section \<open>URLs and redirect URIs\<close>

record url =
  url_protocol :: string
  url_username :: string
  url_password :: string
  url_hostname :: string
  url_pathname :: string
  url_search :: string
  url_hash :: string
  url_href :: string
  url_origin :: string

type_synonym url_parser = "string \<Rightarrow> url option"

definition newURL :: "url_parser \<Rightarrow> string \<Rightarrow> url outcome" where
  "newURL parse_url value = (case parse_url value of
     None \<Rightarrow> Inl (PlainError ''Invalid URL'') | Some u \<Rightarrow> Inr u)"

definition parseRedirectUri :: "url_parser \<Rightarrow> string \<Rightarrow> string \<Rightarrow> url outcome" where
  "parseRedirectUri parse_url value key =
    (if value \<noteq> trim value then Inl (PlainError (key @ '' cannot include surrounding whitespace''))
     else if includes_char CHR ''*'' value then Inl (PlainError (key @ '' cannot contain wildcards''))
     else bindr (newURL parse_url value) (\<lambda>url.
       if url_protocol url \<noteq> ''https:'' \<and> url_protocol url \<noteq> ''http:'' then Inl (PlainError (key @ '' must use http or https''))
       else if url_username url \<noteq> [] \<or> url_password url \<noteq> [] then Inl (PlainError (key @ '' cannot include credentials''))
       else if url_hash url \<noteq> [] then Inl (PlainError (key @ '' cannot include fragments''))
       else Inr url))"

definition isLoopbackRedirectHostname :: "string \<Rightarrow> bool" where
  "isLoopbackRedirectHostname hostname =
    (let normalized = (if starts_with ''['' hostname \<and> ends_with '']'' hostname
       then to_lower (butlast (tl hostname)) else to_lower hostname) in
     normalized = ''localhost'' \<or> normalized = ''127.0.0.1'' \<or> normalized = ''::1'')"

definition productionRedirectUriAllowed :: "url \<Rightarrow> bool" where
  "productionRedirectUriAllowed url =
    (if url_protocol url = ''https:'' then True
     else url_protocol url = ''http:'' \<and> isLoopbackRedirectHostname (url_hostname url))"

section \<open>Error bodies\<close>

fun error_code_text :: "error_code \<Rightarrow> string" where
  "error_code_text Bad_request = ''bad_request''"
| "error_code_text Unauthorized = ''unauthorized''"
| "error_code_text Forbidden = ''forbidden''"
| "error_code_text Not_found = ''not_found''"
| "error_code_text Invalid_grant = ''invalid_grant''"
| "error_code_text Invalid_client = ''invalid_client''"
| "error_code_text Invalid_scope = ''invalid_scope''"
| "error_code_text Invalid_target = ''invalid_target''"
| "error_code_text Unsupported_grant_type = ''unsupported_grant_type''"
| "error_code_text Unsupported_response_type = ''unsupported_response_type''"
| "error_code_text Rate_limited = ''rate_limited''"
| "error_code_text Server_error = ''server_error''"

fun oauthErrorDescription :: "error_code \<Rightarrow> string" where
  "oauthErrorDescription Invalid_client = ''client authentication failed''"
| "oauthErrorDescription Invalid_grant = ''grant is invalid''"
| "oauthErrorDescription Invalid_scope = ''scope is invalid''"
| "oauthErrorDescription Invalid_target = ''resource target is invalid''"
| "oauthErrorDescription Unsupported_grant_type = ''grant type is unsupported''"
| "oauthErrorDescription Unsupported_response_type = ''response type is unsupported''"
| "oauthErrorDescription Unauthorized = ''authorization required''"
| "oauthErrorDescription Forbidden = ''access denied''"
| "oauthErrorDescription Rate_limited = ''rate limit exceeded''"
| "oauthErrorDescription Server_error = ''server error''"
| "oauthErrorDescription Not_found = ''resource not found''"
| "oauthErrorDescription Bad_request = ''invalid request''"

record oauth_error_response =
  response_status :: nat
  response_error :: string
  response_description :: string

definition writeOAuthError :: "js_error \<Rightarrow> oauth_error_response" where
  "writeOAuthError error = (case as_service_error error of
     Some (c, message, status) \<Rightarrow>
       \<lparr> response_status = status, response_error = error_code_text c, response_description = oauthErrorDescription c \<rparr>
   | None \<Rightarrow>
       \<lparr> response_status = 500, response_error = error_code_text Server_error,
         response_description = oauthErrorDescription Server_error \<rparr>)"

end
