(* ===== verification/Store_Records.thy ===== *)
theory Store_Records
  imports User_Profile OAuth_Params Rate_Limit
begin

text \<open>
  The records of the OAuth store and the inputs of its operations
  (\<open>auth/storage/store-records.ts\<close>, \<open>auth/storage/store-inputs.ts\<close>, \<open>auth/storage/oauth-store.ts\<close>),
  and the generic argument for operations that may succeed at most once per key.
  An optional field is an \<open>option\<close>; the only code challenge method, \<open>S256\<close>, is a flag.  Times are
  safe integers in seconds.
\<close>

section \<open>Records\<close>

record auth_code_record =
  ac_codeHash :: string
  ac_clientId :: string
  ac_redirectUri :: string
  ac_resource :: string
  ac_scopes :: "string list"
  ac_nonce :: "string option"
  ac_codeChallenge :: "string option"
  ac_methodS256 :: bool
  ac_user :: user_profile
  ac_expiresAt :: int
  ac_consumedAt :: "int option"
  ac_authTime :: int
  ac_createdAt :: int

record refresh_token_record =
  rt_tokenHash :: string
  rt_familyId :: string
  rt_clientId :: string
  rt_user :: user_profile
  rt_resource :: string
  rt_scopes :: "string list"
  rt_expiresAt :: int
  rt_authTime :: int
  rt_rotatedFromHash :: "string option"
  rt_revokedAt :: "int option"
  rt_createdAt :: int
  rt_lastUsedAt :: "int option"

record upstream_state_record =
  us_stateHash :: string
  us_clientId :: string
  us_redirectUri :: string
  us_resource :: string
  us_scopes :: "string list"
  us_clientState :: string
  us_codeVerifier :: string
  us_upstreamNonce :: string
  us_nonce :: "string option"
  us_codeChallenge :: "string option"
  us_methodS256 :: bool
  us_expiresAt :: int
  us_createdAt :: int

record mcp_session_record =
  ms_sessionIdHash :: string
  ms_clientId :: string
  ms_protocolVersion :: string
  ms_createdAt :: int
  ms_lastSeenAt :: int
  ms_expiresAt :: int
  ms_requestIdHashes :: "string list"
  ms_initializedAt :: "int option"
  ms_terminatedAt :: "int option"

record store_state =
  authorizationCodes :: "(string \<times> auth_code_record) list"
  refreshTokens :: "(string \<times> refresh_token_record) list"
  upstreamStates :: "(string \<times> upstream_state_record) list"
  mcpSessions :: "(string \<times> mcp_session_record) list"
  rateLimits :: rate_limit_table

definition emptyStoreState :: store_state where
  "emptyStoreState = \<lparr> authorizationCodes = [], refreshTokens = [], upstreamStates = [], mcpSessions = [], rateLimits = [] \<rparr>"

section \<open>Inputs\<close>

record auth_code_input =
  ci_clientId :: string
  ci_redirectUri :: string
  ci_resource :: string
  ci_scopes :: "string list"
  ci_nonce :: "string option"
  ci_codeChallenge :: "string option"
  ci_methodS256 :: bool
  ci_user :: user_profile
  ci_ttlSeconds :: int

record auth_code_expectation =
  ce_clientId :: string
  ce_redirectUri :: string
  ce_resource :: "string option"
  ce_allowedResources :: "string list option"
  ce_allowedScopes :: "string list option"

record refresh_token_input =
  ri_clientId :: string
  ri_user :: user_profile
  ri_resource :: string
  ri_scopes :: "string list"
  ri_authTime :: int
  ri_ttlSeconds :: int

record upstream_state_input =
  ui_clientId :: string
  ui_redirectUri :: string
  ui_resource :: string
  ui_scopes :: "string list"
  ui_clientState :: string
  ui_codeVerifier :: string
  ui_upstreamNonce :: string
  ui_nonce :: "string option"
  ui_codeChallenge :: "string option"
  ui_methodS256 :: bool
  ui_ttlSeconds :: int

section \<open>Reading optional fields\<close>

text \<open>A time stamp used as a condition holds when it is present and not zero; a text when it is not empty.\<close>

definition truthy_time :: "int option \<Rightarrow> bool" where
  "truthy_time t = (case t of None \<Rightarrow> False | Some n \<Rightarrow> n \<noteq> 0)"

definition nonempty_text :: "string option \<Rightarrow> string option" where
  "nonempty_text s = (case s of Some t \<Rightarrow> if t = [] then None else Some t | None \<Rightarrow> None)"

definition isExpired :: "int \<Rightarrow> int \<Rightarrow> bool" where
  "isExpired expiresAt now = (expiresAt \<le> now)"

lemma truthy_time_simps [simp]: "\<not> truthy_time None" "truthy_time (Some n) \<longleftrightarrow> n \<noteq> 0"
  by (simp_all add: truthy_time_def)

lemma nonempty_text_simps [simp]:
  "nonempty_text None = None" "nonempty_text (Some []) = None" "nonempty_text (Some (c # s)) = Some (c # s)"
  by (simp_all add: nonempty_text_def)

lemma nonempty_text_eq_Some: "nonempty_text s = Some t \<longleftrightarrow> s = Some t \<and> t \<noteq> []"
  by (auto simp: nonempty_text_def split: option.splits)

section \<open>Operations that succeed at most once per key\<close>

text \<open>
  A machine whose events may win a key.  Winning needs the key unspent and spends it, and spending
  is final; then no run wins a key twice.  The store's authorization codes, refresh tokens, upstream
  states and request identifiers, and the replay cache of client assertions, are instances.
\<close>

inductive machine_run :: "('e \<Rightarrow> 's \<Rightarrow> 's \<Rightarrow> bool) \<Rightarrow> 's \<Rightarrow> 'e list \<Rightarrow> 's \<Rightarrow> bool"
  for fire where
  stop: "machine_run fire s [] s"
| next_event: "fire e s t \<Longrightarrow> machine_run fire t es u \<Longrightarrow> machine_run fire s (e # es) u"

inductive_cases machine_run_NilE: "machine_run fire s [] u"
inductive_cases machine_run_ConsE: "machine_run fire s (e # es) u"

lemma machine_run_invariant:
  assumes "machine_run fire s es u" "good s" "\<And>e s t. fire e s t \<Longrightarrow> good s \<Longrightarrow> good t"
  shows "good u"
  using assms(1,2) by induction (auto intro: assms(3))

locale one_shot =
  fixes fire :: "'e \<Rightarrow> 's \<Rightarrow> 's \<Rightarrow> bool"
    and good :: "'s \<Rightarrow> bool"
    and wins :: "'k \<Rightarrow> 'e \<Rightarrow> bool"
    and spent :: "'k \<Rightarrow> 's \<Rightarrow> bool"
  assumes inv_fire: "fire e s t \<Longrightarrow> good s \<Longrightarrow> good t"
    and win_unspent: "fire e s t \<Longrightarrow> good s \<Longrightarrow> wins k e \<Longrightarrow> \<not> spent k s"
    and win_spends: "fire e s t \<Longrightarrow> good s \<Longrightarrow> wins k e \<Longrightarrow> spent k t"
    and spent_final: "fire e s t \<Longrightarrow> good s \<Longrightarrow> spent k s \<Longrightarrow> spent k t"
begin

lemma spent_never_wins:
  "machine_run fire s es u \<Longrightarrow> good s \<Longrightarrow> spent k s \<Longrightarrow> filter (wins k) es = []"
proof (induction es arbitrary: s)
  case (Cons e es)
  then obtain t where t: "fire e s t" "machine_run fire t es u"
    by (auto elim: machine_run_ConsE)
  then show ?case
    using Cons win_unspent inv_fire spent_final by fastforce
qed simp

lemma at_most_one_win:
  "machine_run fire s es u \<Longrightarrow> good s \<Longrightarrow> length (filter (wins k) es) \<le> 1"
proof (induction es arbitrary: s)
  case (Cons e es)
  then obtain t where t: "fire e s t" "machine_run fire t es u"
    by (auto elim: machine_run_ConsE)
  show ?case
  proof (cases "wins k e")
    case True
    then have "spent k t" using t(1) Cons.prems(2) win_spends by blast
    then have "filter (wins k) es = []"
      using spent_never_wins t inv_fire Cons.prems(2) by blast
    with True show ?thesis by simp
  next
    case False
    then show ?thesis using Cons.IH t inv_fire Cons.prems(2) by auto
  qed
qed simp

end

end
