(* ===== verification/Disk_Store.thy ===== *)
theory Disk_Store
  imports Store_Records
begin

text \<open>
  \<open>auth/storage/disk-store.ts\<close>: the operations of the file store, each the callback of one
  \<open>StoreFile.update\<close>.  An operation maps the state it reads to its result and the state that is
  written; when it throws, nothing is written.  Updates of one path are serialised, so a run of the
  store is a sequence of operations (\<open>disk_step\<close>).  SHA-256 (in base64url) is the argument
  \<open>sha\<close>; random tokens and the time are arguments of the operation that draws them.
\<close>

section \<open>Authorization codes\<close>

definition createAuthorizationCode ::
  "(string \<Rightarrow> string) \<Rightarrow> string \<Rightarrow> int \<Rightarrow> auth_code_input \<Rightarrow> store_state \<Rightarrow> store_state" where
  "createAuthorizationCode sha token createdAt input st =
    (let r = \<lparr> ac_codeHash = sha token, ac_clientId = ci_clientId input, ac_redirectUri = ci_redirectUri input,
           ac_resource = ci_resource input, ac_scopes = ci_scopes input, ac_nonce = nonempty_text (ci_nonce input),
           ac_codeChallenge = nonempty_text (ci_codeChallenge input), ac_methodS256 = ci_methodS256 input,
           ac_user = ci_user input, ac_expiresAt = createdAt + ci_ttlSeconds input, ac_consumedAt = None,
           ac_authTime = createdAt, ac_createdAt = createdAt \<rparr>
     in st \<lparr> authorizationCodes := AList.update (ac_codeHash r) r (authorizationCodes st) \<rparr>)"

definition codeChallengeMet :: "(string \<Rightarrow> string) \<Rightarrow> string option \<Rightarrow> string option \<Rightarrow> unit outcome" where
  "codeChallengeMet sha challenge verifier =
    (if challenge = None \<or> challenge = Some [] then Inr ()
     else bindr (pkceVerifier verifier) (\<lambda>checked.
       if sha checked \<noteq> the challenge then Inl invalid_grant_error else Inr ()))"

definition consumeAuthorizationCode ::
  "(string \<Rightarrow> string) \<Rightarrow> string \<Rightarrow> string option \<Rightarrow> auth_code_expectation \<Rightarrow> int \<Rightarrow> store_state \<Rightarrow>
     (auth_code_record \<times> store_state) outcome" where
  "consumeAuthorizationCode sha token verifier expected now st =
    (case map_of (authorizationCodes st) (sha token) of
       None \<Rightarrow> Inl invalid_grant_error
     | Some r \<Rightarrow>
         if truthy_time (ac_consumedAt r) \<or> isExpired (ac_expiresAt r) now then Inl invalid_grant_error
         else if ac_clientId r \<noteq> ce_clientId expected \<or> ac_redirectUri r \<noteq> ce_redirectUri expected then Inl invalid_grant_error
         else if ce_resource expected \<noteq> None \<and> ac_resource r \<noteq> the (ce_resource expected) then Inl invalid_grant_error
         else if ce_allowedResources expected \<noteq> None \<and> \<not> List.member (the (ce_allowedResources expected)) (ac_resource r)
           then Inl invalid_grant_error
         else if ce_allowedScopes expected \<noteq> None \<and>
             list_ex (\<lambda>scope. \<not> List.member (the (ce_allowedScopes expected)) scope) (ac_scopes r)
           then Inl invalid_grant_error
         else bindr (codeChallengeMet sha (ac_codeChallenge r) verifier) (\<lambda>_.
           let r' = r \<lparr> ac_consumedAt := Some now \<rparr> in
           Inr (r', st \<lparr> authorizationCodes := AList.update (sha token) r' (authorizationCodes st) \<rparr>)))"

section \<open>Refresh tokens\<close>

definition createRefreshToken ::
  "(string \<Rightarrow> string) \<Rightarrow> string \<Rightarrow> int \<Rightarrow> string \<Rightarrow> refresh_token_input \<Rightarrow> store_state \<Rightarrow> store_state" where
  "createRefreshToken sha token createdAt family input st =
    (let r = \<lparr> rt_tokenHash = sha token, rt_familyId = family, rt_clientId = ri_clientId input, rt_user = ri_user input,
           rt_resource = ri_resource input, rt_scopes = ri_scopes input, rt_expiresAt = createdAt + ri_ttlSeconds input,
           rt_authTime = ri_authTime input, rt_rotatedFromHash = None, rt_revokedAt = None, rt_createdAt = createdAt,
           rt_lastUsedAt = None \<rparr>
     in st \<lparr> refreshTokens := AList.update (rt_tokenHash r) r (refreshTokens st) \<rparr>)"

definition revokeFamily :: "string \<Rightarrow> int \<Rightarrow> (string \<times> refresh_token_record) list \<Rightarrow> (string \<times> refresh_token_record) list" where
  "revokeFamily family now tokens =
    map (\<lambda>(h, r). (h, if rt_familyId r = family then r \<lparr> rt_revokedAt := Some now \<rparr> else r)) tokens"

definition is_rotated :: "string \<Rightarrow> (string \<times> refresh_token_record) list \<Rightarrow> bool" where
  "is_rotated h tokens = list_ex (\<lambda>(k, r). rt_rotatedFromHash r = Some h) tokens"

text \<open>\<open>Reused\<close> is the result of an update that revoked the family; the caller then throws.\<close>

datatype rotation = Reused | Rotated refresh_token_record string

definition rotateInStore ::
  "(string \<Rightarrow> string) \<Rightarrow> string \<Rightarrow> string \<Rightarrow> int \<Rightarrow> string option \<Rightarrow> string list option \<Rightarrow> int \<Rightarrow> string \<Rightarrow> store_state \<Rightarrow>
     (rotation \<times> store_state) outcome" where
  "rotateInStore sha token cid ttlSeconds expectedResource allowedResources now newToken st =
    (let oldHash = sha token in
     case map_of (refreshTokens st) oldHash of
       None \<Rightarrow> Inl invalid_grant_error
     | Some old \<Rightarrow>
         if truthy_time (rt_revokedAt old) \<or> isExpired (rt_expiresAt old) now then Inl invalid_grant_error
         else if rt_clientId old \<noteq> cid then Inl invalid_grant_error
         else if expectedResource \<noteq> None \<and> rt_resource old \<noteq> the expectedResource then Inl invalid_grant_error
         else if allowedResources \<noteq> None \<and> \<not> List.member (the allowedResources) (rt_resource old) then Inl invalid_grant_error
         else if is_rotated oldHash (refreshTokens st) then
           Inr (Reused, st \<lparr> refreshTokens := revokeFamily (rt_familyId old) now (refreshTokens st) \<rparr>)
         else
           let new = \<lparr> rt_tokenHash = sha newToken, rt_familyId = rt_familyId old, rt_clientId = rt_clientId old,
                 rt_user = rt_user old, rt_resource = rt_resource old, rt_scopes = rt_scopes old,
                 rt_expiresAt = now + ttlSeconds, rt_authTime = rt_authTime old, rt_rotatedFromHash = Some oldHash,
                 rt_revokedAt = None, rt_createdAt = now, rt_lastUsedAt = None \<rparr>;
               used = old \<lparr> rt_lastUsedAt := Some now \<rparr> in
           Inr (Rotated used newToken, st \<lparr> refreshTokens :=
             AList.update (rt_tokenHash new) new (AList.update oldHash used (refreshTokens st)) \<rparr>))"

section \<open>Upstream authorization states\<close>

definition pruneExpiredUpstreamStates ::
  "(string \<times> upstream_state_record) list \<Rightarrow> int \<Rightarrow> (string \<times> upstream_state_record) list" where
  "pruneExpiredUpstreamStates records now = filter (\<lambda>(h, r). \<not> isExpired (us_expiresAt r) now) records"

definition createUpstreamAuthorizationState ::
  "(string \<Rightarrow> string) \<Rightarrow> string \<Rightarrow> int \<Rightarrow> upstream_state_input \<Rightarrow> store_state \<Rightarrow> store_state" where
  "createUpstreamAuthorizationState sha token createdAt input st =
    (let r = \<lparr> us_stateHash = sha token, us_clientId = ui_clientId input, us_redirectUri = ui_redirectUri input,
           us_resource = ui_resource input, us_scopes = ui_scopes input, us_clientState = ui_clientState input,
           us_codeVerifier = ui_codeVerifier input, us_upstreamNonce = ui_upstreamNonce input,
           us_nonce = nonempty_text (ui_nonce input), us_codeChallenge = nonempty_text (ui_codeChallenge input),
           us_methodS256 = ui_methodS256 input, us_expiresAt = createdAt + ui_ttlSeconds input, us_createdAt = createdAt \<rparr>
     in st \<lparr> upstreamStates := AList.update (us_stateHash r) r (pruneExpiredUpstreamStates (upstreamStates st) createdAt) \<rparr>)"

definition consumeUpstreamAuthorizationState ::
  "(string \<Rightarrow> string) \<Rightarrow> string \<Rightarrow> int \<Rightarrow> store_state \<Rightarrow> (upstream_state_record \<times> store_state) outcome" where
  "consumeUpstreamAuthorizationState sha token now st =
    (let pruned = pruneExpiredUpstreamStates (upstreamStates st) now in
     case map_of pruned (sha token) of
       None \<Rightarrow> Inl invalid_grant_error
     | Some r \<Rightarrow>
         if isExpired (us_expiresAt r) now then Inl invalid_grant_error
         else Inr (r, st \<lparr> upstreamStates := AList.delete (sha token) pruned \<rparr>))"

section \<open>MCP sessions\<close>

definition maxMcpRequestIds :: nat where "maxMcpRequestIds = 4096"

definition session_not_found :: js_error where
  "session_not_found = ServiceError Not_found ''mcp session not found'' 404"

definition saveMcpSession :: "mcp_session_record \<Rightarrow> store_state \<Rightarrow> store_state" where
  "saveMcpSession r st = st \<lparr> mcpSessions := AList.update (ms_sessionIdHash r) r (mcpSessions st) \<rparr>"

definition live_session :: "string \<Rightarrow> int \<Rightarrow> store_state \<Rightarrow> mcp_session_record outcome" where
  "live_session sid now st = (case map_of (mcpSessions st) sid of
     None \<Rightarrow> Inl session_not_found
   | Some r \<Rightarrow> if truthy_time (ms_terminatedAt r) \<or> isExpired (ms_expiresAt r) now then Inl session_not_found else Inr r)"

definition touchMcpSession ::
  "string \<Rightarrow> string option \<Rightarrow> bool \<Rightarrow> int \<Rightarrow> store_state \<Rightarrow> (bool \<times> store_state) outcome" where
  "touchMcpSession sid protocolVersion markInitialized now st = bindr (live_session sid now st) (\<lambda>r.
     if protocolVersion \<noteq> None \<and> ms_protocolVersion r \<noteq> the protocolVersion
     then Inl (ServiceError Bad_request ''unsupported protocol version'' 400)
     else let r1 = r \<lparr> ms_lastSeenAt := now \<rparr>;
              r2 = (if markInitialized \<and> \<not> truthy_time (ms_initializedAt r1) then r1 \<lparr> ms_initializedAt := Some now \<rparr> else r1) in
       Inr (ms_initializedAt r2 \<noteq> None, st \<lparr> mcpSessions := AList.update sid r2 (mcpSessions st) \<rparr>))"

definition reserveMcpRequestId :: "string \<Rightarrow> string \<Rightarrow> int \<Rightarrow> store_state \<Rightarrow> (bool \<times> store_state) outcome" where
  "reserveMcpRequestId sid rid now st = bindr (live_session sid now st) (\<lambda>r.
     let r1 = r \<lparr> ms_lastSeenAt := now \<rparr> in
     if List.member (ms_requestIdHashes r1) rid
     then Inr (False, st \<lparr> mcpSessions := AList.update sid r1 (mcpSessions st) \<rparr>)
     else if maxMcpRequestIds \<le> length (ms_requestIdHashes r1) then Inl (ServiceError Rate_limited ''too many mcp request ids'' 429)
     else let r2 = r1 \<lparr> ms_requestIdHashes := ms_requestIdHashes r1 @ [rid] \<rparr> in
       Inr (True, st \<lparr> mcpSessions := AList.update sid r2 (mcpSessions st) \<rparr>))"

definition terminateMcpSession :: "string \<Rightarrow> int \<Rightarrow> store_state \<Rightarrow> store_state outcome" where
  "terminateMcpSession sid now st = bindr (live_session sid now st) (\<lambda>r.
     Inr (st \<lparr> mcpSessions := AList.update sid (r \<lparr> ms_terminatedAt := Some now, ms_lastSeenAt := now \<rparr>) (mcpSessions st) \<rparr>))"

definition hitInStore :: "(string \<Rightarrow> string) \<Rightarrow> string \<Rightarrow> rate_limit_policy \<Rightarrow> int \<Rightarrow> store_state \<Rightarrow> store_state outcome" where
  "hitInStore sha key policy now st =
    bindr (hit (sha key) policy now (rateLimits st)) (\<lambda>table. Inr (st \<lparr> rateLimits := table \<rparr>))"

section \<open>Operations as events\<close>

datatype disk_event =
    CreateCode string auth_code_input
  | ConsumeCode string "string option" auth_code_expectation
  | CreateRefresh string string refresh_token_input
  | Rotate string string int "string option" "string list option" string
  | CreateState string upstream_state_input
  | ConsumeState string
  | SaveSession mcp_session_record
  | Touch string "string option" bool
  | Reserve string string
  | Terminate string
  | Hit string rate_limit_policy

datatype disk_result =
    Done | Threw js_error | Code auth_code_record | Rotation rotation | State upstream_state_record | Flag bool

definition with_result :: "('a \<Rightarrow> disk_result) \<Rightarrow> store_state \<Rightarrow> ('a \<times> store_state) outcome \<Rightarrow> disk_result \<times> store_state" where
  "with_result f st r = (case r of Inl e \<Rightarrow> (Threw e, st) | Inr (x, st') \<Rightarrow> (f x, st'))"

definition without_result :: "store_state \<Rightarrow> store_state outcome \<Rightarrow> disk_result \<times> store_state" where
  "without_result st r = (case r of Inl e \<Rightarrow> (Threw e, st) | Inr st' \<Rightarrow> (Done, st'))"

fun disk_apply :: "(string \<Rightarrow> string) \<Rightarrow> disk_event \<Rightarrow> int \<Rightarrow> store_state \<Rightarrow> disk_result \<times> store_state" where
  "disk_apply sha (CreateCode t i) now st = (Done, createAuthorizationCode sha t now i st)"
| "disk_apply sha (ConsumeCode t v x) now st = with_result Code st (consumeAuthorizationCode sha t v x now st)"
| "disk_apply sha (CreateRefresh t f i) now st = (Done, createRefreshToken sha t now f i st)"
| "disk_apply sha (Rotate t c ttl er ar n) now st = with_result Rotation st (rotateInStore sha t c ttl er ar now n st)"
| "disk_apply sha (CreateState t i) now st = (Done, createUpstreamAuthorizationState sha t now i st)"
| "disk_apply sha (ConsumeState t) now st = with_result State st (consumeUpstreamAuthorizationState sha t now st)"
| "disk_apply sha (SaveSession r) now st = (Done, saveMcpSession r st)"
| "disk_apply sha (Touch sid v m) now st = with_result Flag st (touchMcpSession sid v m now st)"
| "disk_apply sha (Reserve sid rid) now st = with_result Flag st (reserveMcpRequestId sid rid now st)"
| "disk_apply sha (Terminate sid) now st = without_result st (terminateMcpSession sid now st)"
| "disk_apply sha (Hit key p) now st = without_result st (hitInStore sha key p now st)"

end
