(* ===== verification/Disk_Runs.thy ===== *)
theory Disk_Runs
  imports Disk_Store
begin

text \<open>
  Runs of the file store: any sequence of operations by any callers, in clock order, with fresh
  random tokens.  The four interpretations of \<open>one_shot\<close> show that an authorization code, a refresh
  token, an upstream state and a request identifier are each accepted at most once; the rest of the
  theory is about token families.
\<close>

section \<open>The step relation\<close>

record disk_world =
  dw_store :: store_state
  dw_issued :: "string list"
  dw_families :: "string list"
  dw_clock :: int

definition initial_disk_world :: disk_world where
  "initial_disk_world = \<lparr> dw_store = emptyStoreState, dw_issued = [], dw_families = [], dw_clock = 0 \<rparr>"

fun new_keys :: "(string \<Rightarrow> string) \<Rightarrow> disk_event \<Rightarrow> string list" where
  "new_keys sha (CreateCode t i) = [sha t]"
| "new_keys sha (CreateRefresh t f i) = [sha t]"
| "new_keys sha (Rotate t c ttl er ar n) = [sha n]"
| "new_keys sha (CreateState t i) = [sha t]"
| "new_keys sha (SaveSession r) = [ms_sessionIdHash r]"
| "new_keys sha _ = []"

fun new_families :: "disk_event \<Rightarrow> string list" where
  "new_families (CreateRefresh t f i) = [f]"
| "new_families _ = []"

text \<open>A session is saved as the initialize request builds it.\<close>

fun event_ok :: "disk_event \<Rightarrow> bool" where
  "event_ok (SaveSession r) = (ms_requestIdHashes r = [] \<and> ms_initializedAt r = None \<and> ms_terminatedAt r = None)"
| "event_ok _ = True"

inductive disk_step :: "(string \<Rightarrow> string) \<Rightarrow> disk_event \<times> disk_result \<Rightarrow> disk_world \<Rightarrow> disk_world \<Rightarrow> bool"
  for sha where
  operation: "dw_clock w \<le> now \<Longrightarrow> 0 < now \<Longrightarrow> event_ok e \<Longrightarrow>
    set (new_keys sha e) \<inter> set (dw_issued w) = {} \<Longrightarrow> set (new_families e) \<inter> set (dw_families w) = {} \<Longrightarrow>
    disk_apply sha e now (dw_store w) = (res, st') \<Longrightarrow>
    disk_step sha (e, res) w \<lparr> dw_store = st', dw_issued = new_keys sha e @ dw_issued w,
      dw_families = new_families e @ dw_families w, dw_clock = now \<rparr>"

inductive_cases disk_stepE: "disk_step sha x w w'"

lemma disk_step_apply:
  assumes "disk_step sha (e, res) w w'"
  obtains now where "disk_apply sha e now (dw_store w) = (res, dw_store w')" "0 < now" "dw_clock w \<le> now" "dw_clock w' = now"
    "event_ok e" "set (new_keys sha e) \<inter> set (dw_issued w) = {}" "set (new_families e) \<inter> set (dw_families w) = {}"
    "dw_issued w' = new_keys sha e @ dw_issued w" "dw_families w' = new_families e @ dw_families w"
  using assms by (auto elim!: disk_stepE)

section \<open>What an operation does to each table\<close>

lemmas disk_operation_defs =
  createAuthorizationCode_def consumeAuthorizationCode_def createRefreshToken_def rotateInStore_def
  createUpstreamAuthorizationState_def consumeUpstreamAuthorizationState_def saveMcpSession_def
  touchMcpSession_def reserveMcpRequestId_def terminateMcpSession_def hitInStore_def with_result_def without_result_def

definition consumable :: "(string \<Rightarrow> string) \<Rightarrow> string option \<Rightarrow> auth_code_expectation \<Rightarrow> int \<Rightarrow> auth_code_record \<Rightarrow> bool" where
  "consumable sha verifier x now r = (\<not> truthy_time (ac_consumedAt r) \<and> now < ac_expiresAt r \<and>
     ac_clientId r = ce_clientId x \<and> ac_redirectUri r = ce_redirectUri x \<and>
     (\<forall>q. ce_resource x = Some q \<longrightarrow> ac_resource r = q) \<and>
     (\<forall>qs. ce_allowedResources x = Some qs \<longrightarrow> ac_resource r \<in> set qs) \<and>
     (\<forall>qs. ce_allowedScopes x = Some qs \<longrightarrow> set (ac_scopes r) \<subseteq> set qs) \<and>
     (\<forall>ch. ac_codeChallenge r = Some ch \<longrightarrow> ch \<noteq> [] \<longrightarrow> (\<exists>v. verifier = Some v \<and> is_pkce_value v \<and> sha v = ch)))"

lemma pkce_value_not_Nil: "\<not> is_pkce_value []"
  by (simp add: is_pkce_value_def)

lemma codeChallengeMet_iff:
  "codeChallengeMet sha ch verifier = Inr u \<longleftrightarrow>
     (\<forall>c. ch = Some c \<longrightarrow> c \<noteq> [] \<longrightarrow> (\<exists>v. verifier = Some v \<and> is_pkce_value v \<and> sha v = c))"
  using pkce_value_not_Nil
  by (cases ch; cases verifier) (auto simp: codeChallengeMet_def pkceVerifier_def)

lemma codeChallengeMet_error: "codeChallengeMet sha ch verifier = Inl e \<Longrightarrow> e = invalid_grant_error"
  by (auto simp: codeChallengeMet_def bindr_eq_Inl pkceVerifier_def split: if_splits option.splits)

lemma consume_eq:
  "consumeAuthorizationCode sha t v x now st =
    (case map_of (authorizationCodes st) (sha t) of
       None \<Rightarrow> Inl invalid_grant_error
     | Some r \<Rightarrow> if consumable sha v x now r
         then Inr (r \<lparr> ac_consumedAt := Some now \<rparr>,
                   st \<lparr> authorizationCodes := AList.update (sha t) (r \<lparr> ac_consumedAt := Some now \<rparr>) (authorizationCodes st) \<rparr>)
         else Inl invalid_grant_error)"
proof (cases "map_of (authorizationCodes st) (sha t)")
  case (Some r)
  show ?thesis
  proof (cases "consumable sha v x now r")
    case True
    then have "codeChallengeMet sha (ac_codeChallenge r) v = Inr ()"
      by (simp add: codeChallengeMet_iff consumable_def)
    moreover have "\<not> (truthy_time (ac_consumedAt r) \<or> isExpired (ac_expiresAt r) now)"
      "\<not> (ac_clientId r \<noteq> ce_clientId x \<or> ac_redirectUri r \<noteq> ce_redirectUri x)"
      "\<not> (ce_resource x \<noteq> None \<and> ac_resource r \<noteq> the (ce_resource x))"
      "\<not> (ce_allowedResources x \<noteq> None \<and> \<not> List.member (the (ce_allowedResources x)) (ac_resource r))"
      "\<not> (ce_allowedScopes x \<noteq> None \<and> list_ex (\<lambda>scope. \<not> List.member (the (ce_allowedScopes x)) scope) (ac_scopes r))"
      using True by (cases "ce_resource x"; cases "ce_allowedResources x"; cases "ce_allowedScopes x";
          auto simp: consumable_def isExpired_def list_ex_iff)+
    ultimately show ?thesis
      using True Some by (simp only: consumeAuthorizationCode_def option.case if_False if_True bindr_Inr Let_def)
  next
    case False
    have if_error: "(if b then E else y) = E \<longleftrightarrow> (\<not> b \<longrightarrow> y = E)" for b and E y :: "(auth_code_record \<times> store_state) outcome"
      by simp
    have "consumeAuthorizationCode sha t v x now st = Inl invalid_grant_error"
      unfolding consumeAuthorizationCode_def Some option.case if_error
    proof (intro impI)
      assume "\<not> (truthy_time (ac_consumedAt r) \<or> isExpired (ac_expiresAt r) now)"
        "\<not> (ac_clientId r \<noteq> ce_clientId x \<or> ac_redirectUri r \<noteq> ce_redirectUri x)"
        "\<not> (ce_resource x \<noteq> None \<and> ac_resource r \<noteq> the (ce_resource x))"
        "\<not> (ce_allowedResources x \<noteq> None \<and> \<not> List.member (the (ce_allowedResources x)) (ac_resource r))"
        "\<not> (ce_allowedScopes x \<noteq> None \<and> list_ex (\<lambda>scope. \<not> List.member (the (ce_allowedScopes x)) scope) (ac_scopes r))"
      then have "codeChallengeMet sha (ac_codeChallenge r) v \<noteq> Inr ()"
        using False unfolding codeChallengeMet_iff consumable_def isExpired_def
        by (cases "ce_resource x"; cases "ce_allowedResources x"; cases "ce_allowedScopes x") (auto simp: list_ex_iff)
      then have "codeChallengeMet sha (ac_codeChallenge r) v = Inl invalid_grant_error"
        using codeChallengeMet_error by (cases "codeChallengeMet sha (ac_codeChallenge r) v") auto
      then show "bindr (codeChallengeMet sha (ac_codeChallenge r) v) (\<lambda>_. let r' = r \<lparr> ac_consumedAt := Some now \<rparr> in
          Inr (r', st \<lparr> authorizationCodes := AList.update (sha t) r' (authorizationCodes st) \<rparr>)) = Inl invalid_grant_error"
        by simp
    qed
    with False Some show ?thesis by simp
  qed
qed (simp add: consumeAuthorizationCode_def)

lemma apply_codes:
  assumes "disk_apply sha e now st = (res, st')"
  shows "map_of (authorizationCodes st') h =
    (case e of
       CreateCode t i \<Rightarrow> if h = sha t then map_of (authorizationCodes (createAuthorizationCode sha t now i st)) h
         else map_of (authorizationCodes st) h
     | ConsumeCode t v x \<Rightarrow> (case res of Code r \<Rightarrow> if h = sha t then Some r else map_of (authorizationCodes st) h
         | _ \<Rightarrow> map_of (authorizationCodes st) h)
     | _ \<Rightarrow> map_of (authorizationCodes st) h)"
  using assms
  by (cases e) (auto simp: consume_eq createAuthorizationCode_def createRefreshToken_def rotateInStore_def
      createUpstreamAuthorizationState_def consumeUpstreamAuthorizationState_def saveMcpSession_def
      touchMcpSession_def reserveMcpRequestId_def terminateMcpSession_def hitInStore_def with_result_def without_result_def
      bindr_def Let_def split: if_splits sum.splits option.splits)

definition rotatable :: "string \<Rightarrow> string option \<Rightarrow> string list option \<Rightarrow> int \<Rightarrow> refresh_token_record \<Rightarrow> bool" where
  "rotatable cid er ar now r = (\<not> truthy_time (rt_revokedAt r) \<and> now < rt_expiresAt r \<and> rt_clientId r = cid \<and>
     (\<forall>q. er = Some q \<longrightarrow> rt_resource r = q) \<and> (\<forall>qs. ar = Some qs \<longrightarrow> rt_resource r \<in> set qs))"

definition successor :: "(string \<Rightarrow> string) \<Rightarrow> string \<Rightarrow> int \<Rightarrow> int \<Rightarrow> string \<Rightarrow> refresh_token_record \<Rightarrow> refresh_token_record" where
  "successor sha t ttl now n old = \<lparr> rt_tokenHash = sha n, rt_familyId = rt_familyId old, rt_clientId = rt_clientId old,
     rt_user = rt_user old, rt_resource = rt_resource old, rt_scopes = rt_scopes old, rt_expiresAt = now + ttl,
     rt_authTime = rt_authTime old, rt_rotatedFromHash = Some (sha t), rt_revokedAt = None, rt_createdAt = now,
     rt_lastUsedAt = None \<rparr>"

lemma rotate_eq:
  "rotateInStore sha t cid ttl er ar now n st =
    (case map_of (refreshTokens st) (sha t) of
       None \<Rightarrow> Inl invalid_grant_error
     | Some old \<Rightarrow>
         if \<not> rotatable cid er ar now old then Inl invalid_grant_error
         else if is_rotated (sha t) (refreshTokens st)
         then Inr (Reused, st \<lparr> refreshTokens := revokeFamily (rt_familyId old) now (refreshTokens st) \<rparr>)
         else Inr (Rotated (old \<lparr> rt_lastUsedAt := Some now \<rparr>) n, st \<lparr> refreshTokens :=
           AList.update (sha n) (successor sha t ttl now n old)
             (AList.update (sha t) (old \<lparr> rt_lastUsedAt := Some now \<rparr>) (refreshTokens st)) \<rparr>))"
  by (cases er; cases ar; cases "map_of (refreshTokens st) (sha t)")
    (auto simp: rotateInStore_def Let_def rotatable_def successor_def isExpired_def)

lemma map_of_revokeFamily:
  "map_of (revokeFamily f now ts) h =
    map_option (\<lambda>r. if rt_familyId r = f then r \<lparr> rt_revokedAt := Some now \<rparr> else r) (map_of ts h)"
  by (simp add: revokeFamily_def map_of_map)

lemma keys_revokeFamily [simp]: "map fst (revokeFamily f now ts) = map fst ts"
  by (simp add: revokeFamily_def comp_def case_prod_beta')

lemma apply_refresh:
  assumes "disk_apply sha e now st = (res, st')"
  shows "map_of (refreshTokens st') h =
    (case e of
       CreateRefresh t f i \<Rightarrow> if h = sha t then map_of (refreshTokens (createRefreshToken sha t now f i st)) h
         else map_of (refreshTokens st) h
     | Rotate t cid ttl er ar n \<Rightarrow> (case res of
           Rotation (Rotated u m) \<Rightarrow>
             if h = sha n then Some (successor sha t ttl now n (the (map_of (refreshTokens st) (sha t))))
             else if h = sha t then Some u else map_of (refreshTokens st) h
         | Rotation Reused \<Rightarrow> map_option (\<lambda>r. if rt_familyId r = rt_familyId (the (map_of (refreshTokens st) (sha t)))
               then r \<lparr> rt_revokedAt := Some now \<rparr> else r) (map_of (refreshTokens st) h)
         | _ \<Rightarrow> map_of (refreshTokens st) h)
     | _ \<Rightarrow> map_of (refreshTokens st) h)"
  using assms
  by (cases e) (auto simp: consume_eq rotate_eq createAuthorizationCode_def createRefreshToken_def
      createUpstreamAuthorizationState_def consumeUpstreamAuthorizationState_def saveMcpSession_def map_of_revokeFamily
      touchMcpSession_def reserveMcpRequestId_def terminateMcpSession_def hitInStore_def with_result_def without_result_def
      bindr_def Let_def split: if_splits sum.splits option.splits)

lemma apply_rotation:
  assumes "disk_apply sha (Rotate t cid ttl er ar n) now st = (Rotation x, st')"
  obtains old where "map_of (refreshTokens st) (sha t) = Some old" "rotatable cid er ar now old"
    "x = (if is_rotated (sha t) (refreshTokens st) then Reused else Rotated (old \<lparr> rt_lastUsedAt := Some now \<rparr>) n)"
  using assms by (auto simp: rotate_eq with_result_def split: if_splits option.splits)

lemma apply_code:
  assumes "disk_apply sha (ConsumeCode t v x) now st = (Code r, st')"
  obtains old where "map_of (authorizationCodes st) (sha t) = Some old" "consumable sha v x now old"
    "r = old \<lparr> ac_consumedAt := Some now \<rparr>"
  using assms by (auto simp: consume_eq with_result_def split: if_splits option.splits)

lemma lookup_pruned_states:
  "distinct (map fst us) \<Longrightarrow> map_of (pruneExpiredUpstreamStates us now) h =
     (case map_of us h of None \<Rightarrow> None | Some r \<Rightarrow> if us_expiresAt r \<le> now then None else Some r)"
  unfolding pruneExpiredUpstreamStates_def isExpired_def
  using map_of_filter_snd [of us "\<lambda>r. \<not> us_expiresAt r \<le> now" h]
  by (simp add: case_prod_beta' split: option.splits)

lemma apply_states:
  assumes "disk_apply sha e now st = (res, st')" "distinct (map fst (upstreamStates st))"
  shows "map_of (upstreamStates st') h = map_of (upstreamStates st) h \<or> map_of (upstreamStates st') h = None \<or>
      (\<exists>t i. e = CreateState t i \<and> h = sha t)"
    and "e = ConsumeState t \<Longrightarrow> res = State r \<Longrightarrow>
      map_of (upstreamStates st) (sha t) = Some r \<and> now < us_expiresAt r \<and> map_of (upstreamStates st') (sha t) = None"
    and "distinct (map fst (upstreamStates st'))"
proof -
  have keys: "distinct (map fst (pruneExpiredUpstreamStates (upstreamStates st) now))"
    using assms(2) by (simp add: pruneExpiredUpstreamStates_def)
  note look = lookup_pruned_states [OF assms(2), of now]
  show "map_of (upstreamStates st') h = map_of (upstreamStates st) h \<or> map_of (upstreamStates st') h = None \<or>
      (\<exists>t i. e = CreateState t i \<and> h = sha t)"
    using assms(1)
    by (cases e) (auto simp: consume_eq rotate_eq createAuthorizationCode_def createRefreshToken_def look
      createUpstreamAuthorizationState_def consumeUpstreamAuthorizationState_def saveMcpSession_def
      touchMcpSession_def reserveMcpRequestId_def terminateMcpSession_def hitInStore_def with_result_def without_result_def
      bindr_def Let_def split: if_splits sum.splits option.splits)
  show "e = ConsumeState t \<Longrightarrow> res = State r \<Longrightarrow>
      map_of (upstreamStates st) (sha t) = Some r \<and> now < us_expiresAt r \<and> map_of (upstreamStates st') (sha t) = None"
    using assms(1) by (auto simp: consumeUpstreamAuthorizationState_def with_result_def Let_def look split: if_splits sum.splits option.splits)
  show "distinct (map fst (upstreamStates st'))"
    using assms keys
    by (cases e) (auto simp: consume_eq rotate_eq createAuthorizationCode_def createRefreshToken_def
      createUpstreamAuthorizationState_def consumeUpstreamAuthorizationState_def saveMcpSession_def
      touchMcpSession_def reserveMcpRequestId_def terminateMcpSession_def hitInStore_def with_result_def without_result_def
      bindr_def Let_def distinct_update distinct_delete split: if_splits sum.splits option.splits)
qed

text \<open>Every operation keeps a session's past: its identifiers only grow, termination stays.\<close>

definition session_grows :: "mcp_session_record option \<Rightarrow> mcp_session_record option \<Rightarrow> bool" where
  "session_grows x y = (\<forall>r. x = Some r \<longrightarrow> (\<exists>r'. y = Some r' \<and> set (ms_requestIdHashes r) \<subseteq> set (ms_requestIdHashes r') \<and>
     (truthy_time (ms_terminatedAt r) \<longrightarrow> r' = r) \<and> ms_protocolVersion r' = ms_protocolVersion r \<and> ms_clientId r' = ms_clientId r \<and>
     ms_expiresAt r' = ms_expiresAt r))"

lemma live_session_eq_Inr:
  "live_session sid now st = Inr r \<longleftrightarrow>
     map_of (mcpSessions st) sid = Some r \<and> \<not> truthy_time (ms_terminatedAt r) \<and> now < ms_expiresAt r"
  by (auto simp: live_session_def isExpired_def split: option.splits)

lemma apply_sessions:
  assumes "disk_apply sha e now st = (res, st')" "\<And>r. e = SaveSession r \<Longrightarrow> sid \<noteq> ms_sessionIdHash r"
  shows "session_grows (map_of (mcpSessions st) sid) (map_of (mcpSessions st') sid)"
    and "map_of (mcpSessions st) sid = None \<Longrightarrow> map_of (mcpSessions st') sid = None"
proof -
  show "session_grows (map_of (mcpSessions st) sid) (map_of (mcpSessions st') sid)"
    using assms
    by (cases e) (auto simp: consume_eq rotate_eq createAuthorizationCode_def createRefreshToken_def session_grows_def
      createUpstreamAuthorizationState_def consumeUpstreamAuthorizationState_def saveMcpSession_def live_session_eq_Inr bindr_eq_Inr
      touchMcpSession_def reserveMcpRequestId_def terminateMcpSession_def hitInStore_def with_result_def without_result_def
      Let_def split: if_splits sum.splits option.splits)
  show "map_of (mcpSessions st) sid = None \<Longrightarrow> map_of (mcpSessions st') sid = None"
    using assms
    by (cases e) (auto simp: consume_eq rotate_eq createAuthorizationCode_def createRefreshToken_def
      createUpstreamAuthorizationState_def consumeUpstreamAuthorizationState_def saveMcpSession_def live_session_eq_Inr bindr_eq_Inr
      touchMcpSession_def reserveMcpRequestId_def terminateMcpSession_def hitInStore_def with_result_def without_result_def
      Let_def split: if_splits sum.splits option.splits)
qed

lemma apply_reserve:
  assumes "disk_apply sha (Reserve sid rid) now st = (Flag b, st')"
  obtains r where "map_of (mcpSessions st) sid = Some r" "b \<longleftrightarrow> rid \<notin> set (ms_requestIdHashes r)"
    "map_of (mcpSessions st') sid = Some (r \<lparr> ms_lastSeenAt := now, ms_requestIdHashes :=
       ms_requestIdHashes r @ (if b then [rid] else []) \<rparr>)" "length (ms_requestIdHashes r) < maxMcpRequestIds \<or> \<not> b"
  using assms
  by (auto simp: reserveMcpRequestId_def with_result_def bindr_eq_Inr live_session_eq_Inr Let_def split: if_splits sum.splits)

section \<open>The invariant of a run\<close>

definition keys_in :: "(string \<times> 'a) list \<Rightarrow> string list \<Rightarrow> bool" where
  "keys_in table ks = (\<forall>h. map_of table h \<noteq> None \<longrightarrow> h \<in> set ks)"

lemma keys_inI: "(\<And>h r. map_of table h = Some r \<Longrightarrow> h \<in> set ks) \<Longrightarrow> keys_in table ks"
  unfolding keys_in_def by blast

lemma keys_inD: "keys_in table ks \<Longrightarrow> map_of table h = Some r \<Longrightarrow> h \<in> set ks"
  unfolding keys_in_def by blast

lemma keys_in_fresh: "keys_in table ks \<Longrightarrow> h \<notin> set ks \<Longrightarrow> map_of table h = None"
  unfolding keys_in_def by blast

definition disk_good :: "disk_world \<Rightarrow> bool" where
  "disk_good w = (
     keys_in (authorizationCodes (dw_store w)) (dw_issued w) \<and> keys_in (refreshTokens (dw_store w)) (dw_issued w) \<and>
     keys_in (upstreamStates (dw_store w)) (dw_issued w) \<and> keys_in (mcpSessions (dw_store w)) (dw_issued w) \<and>
     (\<forall>h r. map_of (refreshTokens (dw_store w)) h = Some r \<longrightarrow> rt_familyId r \<in> set (dw_families w)) \<and>
     distinct (map fst (upstreamStates (dw_store w))) \<and> distinct (map fst (refreshTokens (dw_store w))))"

lemma disk_good_initial: "disk_good initial_disk_world"
  by (simp add: disk_good_def keys_in_def initial_disk_world_def emptyStoreState_def)

lemma apply_refresh_keys:
  assumes "disk_apply sha e now st = (res, st')" "distinct (map fst (refreshTokens st))"
  shows "distinct (map fst (refreshTokens st'))"
  using assms
  by (cases e) (auto simp: consume_eq rotate_eq createAuthorizationCode_def createRefreshToken_def
      createUpstreamAuthorizationState_def consumeUpstreamAuthorizationState_def saveMcpSession_def
      touchMcpSession_def reserveMcpRequestId_def terminateMcpSession_def hitInStore_def with_result_def without_result_def
      bindr_def Let_def distinct_update split: if_splits sum.splits option.splits)

lemma apply_code_keys:
  assumes "disk_apply sha e now st = (res, st')" "map_of (authorizationCodes st') h = Some r"
  shows "(\<exists>od. map_of (authorizationCodes st) h = Some od) \<or> h \<in> set (new_keys sha e)"
proof (cases e)
  case (ConsumeCode t v x)
  show ?thesis
  proof (cases "\<exists>u. res = Code u \<and> h = sha t")
    case True
    then show ?thesis using assms(1) ConsumeCode apply_code by metis
  next
    case False
    then show ?thesis
      using assms(2) ConsumeCode unfolding apply_codes [OF assms(1)] by (cases res) auto
  qed
qed (use assms(2) in \<open>unfold apply_codes [OF assms(1)], auto split: if_splits\<close>)

lemma apply_refresh_new:
  assumes "disk_apply sha e now st = (res, st')" "map_of (refreshTokens st') h = Some r"
  shows "(\<exists>od. map_of (refreshTokens st) h = Some od \<and> rt_familyId r = rt_familyId od \<and> rt_rotatedFromHash r = rt_rotatedFromHash od \<and>
        rt_clientId r = rt_clientId od \<and> rt_user r = rt_user od \<and> rt_resource r = rt_resource od \<and> rt_scopes r = rt_scopes od \<and>
        rt_authTime r = rt_authTime od \<and> (truthy_time (rt_revokedAt od) \<longrightarrow> rt_revokedAt r \<noteq> None)) \<or>
      (\<exists>t f i. e = CreateRefresh t f i \<and> h = sha t \<and> rt_familyId r = f \<and> rt_rotatedFromHash r = None) \<or>
      (\<exists>t cid ttl er ar n od. e = Rotate t cid ttl er ar n \<and> h = sha n \<and> map_of (refreshTokens st) (sha t) = Some od \<and>
        rotatable cid er ar now od \<and> \<not> is_rotated (sha t) (refreshTokens st) \<and>
        r = successor sha t ttl now n od \<and> res = Rotation (Rotated (od \<lparr> rt_lastUsedAt := Some now \<rparr>) n))"
proof (cases "map_of (refreshTokens st') h = map_of (refreshTokens st) h")
  case True
  with assms(2) have "map_of (refreshTokens st) h = Some r" by simp
  then show ?thesis by (intro disjI1 exI [of _ r]) (auto simp: truthy_time_def split: option.splits)
next
  case False
  note look = apply_refresh [OF assms(1), of h]
  show ?thesis
  proof (cases e)
    case (CreateRefresh t f i)
    then show ?thesis
      using False look assms(2) by (auto simp: createRefreshToken_def Let_def split: if_splits)
  next
    case (Rotate t cid ttl er ar n)
    then obtain x where x: "res = Rotation x"
      using False look by (auto split: disk_result.splits)
    obtain od where od: "map_of (refreshTokens st) (sha t) = Some od" "rotatable cid er ar now od"
      "x = (if is_rotated (sha t) (refreshTokens st) then Reused else Rotated (od \<lparr> rt_lastUsedAt := Some now \<rparr>) n)"
      using assms(1) Rotate x apply_rotation by metis
    show ?thesis
    proof (cases "is_rotated (sha t) (refreshTokens st)")
      case True
      with od(3) x have "res = Rotation Reused" by simp
      with look Rotate assms(2) obtain r0 where "map_of (refreshTokens st) h = Some r0"
        "r = (if rt_familyId r0 = rt_familyId od then r0 \<lparr> rt_revokedAt := Some now \<rparr> else r0)"
        using od(1) by (cases "map_of (refreshTokens st) h") auto
      then show ?thesis by (intro disjI1 exI [of _ r0]) (auto simp: truthy_time_def split: option.splits)
    next
      case False
      with od(3) x have res: "res = Rotation (Rotated (od \<lparr> rt_lastUsedAt := Some now \<rparr>) n)" by simp
      show ?thesis
      proof (cases "h = sha n")
        case True
        then have "r = successor sha t ttl now n od"
          using look Rotate assms(2) od(1) res by simp
        then show ?thesis using True Rotate res od False \<open>\<not> is_rotated (sha t) (refreshTokens st)\<close> by blast
      next
        case False
        then have "h = sha t" "r = od \<lparr> rt_lastUsedAt := Some now \<rparr>"
          using look Rotate assms(2) res \<open>map_of (refreshTokens st') h \<noteq> map_of (refreshTokens st) h\<close>
          by (auto split: if_splits)
        then show ?thesis using od(1) by (intro disjI1 exI [of _ od]) (auto simp: truthy_time_def split: option.splits)
      qed
    qed
  qed (use False look in auto)
qed

lemma disk_good_step:
  assumes "disk_step sha x w w'" "disk_good w" shows "disk_good w'"
proof -
  obtain e res where [simp]: "x = (e, res)" by (cases x)
  define st' where "st' = dw_store w'"
  obtain now where ap: "disk_apply sha e now (dw_store w) = (res, st')"
    and w': "dw_issued w' = new_keys sha e @ dw_issued w" "dw_families w' = new_families e @ dw_families w"
    using assms(1) by (auto simp: st'_def elim!: disk_step_apply)
  have good: "disk_good w" by (rule assms(2))
  have "keys_in (authorizationCodes st') (new_keys sha e @ dw_issued w)"
  proof (rule keys_inI)
    fix h r assume "map_of (authorizationCodes st') h = Some r"
    then show "h \<in> set (new_keys sha e @ dw_issued w)"
      using apply_code_keys [OF ap] good by (auto simp: disk_good_def dest: keys_inD)
  qed
  moreover have refresh: "h \<in> set (new_keys sha e @ dw_issued w) \<and> rt_familyId r \<in> set (new_families e @ dw_families w)"
    if "map_of (refreshTokens st') h = Some r" for h r
    using apply_refresh_new [OF ap that]
  proof (elim disjE exE conjE)
    fix od assume "map_of (refreshTokens (dw_store w)) h = Some od" "rt_familyId r = rt_familyId od"
    then show ?thesis using good by (auto simp: disk_good_def dest: keys_inD)
  qed (use good in \<open>auto simp: disk_good_def successor_def\<close>)
  moreover have "keys_in (upstreamStates st') (new_keys sha e @ dw_issued w)"
  proof (rule keys_inI)
    fix h r assume "map_of (upstreamStates st') h = Some r"
    then show "h \<in> set (new_keys sha e @ dw_issued w)"
      using apply_states(1) [OF ap, of h] good by (auto simp: disk_good_def dest: keys_inD)
  qed
  moreover have "keys_in (mcpSessions st') (new_keys sha e @ dw_issued w)"
  proof (rule keys_inI)
    fix h r assume r: "map_of (mcpSessions st') h = Some r"
    show "h \<in> set (new_keys sha e @ dw_issued w)"
    proof (cases "\<exists>r. e = SaveSession r \<and> h = ms_sessionIdHash r")
      case False
      then have "map_of (mcpSessions (dw_store w)) h \<noteq> None"
        using apply_sessions(2) [OF ap, of h] r by auto
      then show ?thesis using good by (auto simp: disk_good_def dest: keys_inD)
    qed auto
  qed
  moreover have "distinct (map fst (upstreamStates st'))" "distinct (map fst (refreshTokens st'))"
    using apply_states(3) [OF ap] apply_refresh_keys [OF ap] good by (auto simp: disk_good_def)
  ultimately show ?thesis
    unfolding w' disk_good_def st'_def [symmetric] by (auto intro: keys_inI)
qed

lemma is_rotated_iff:
  "distinct (map fst ts) \<Longrightarrow> is_rotated h ts \<longleftrightarrow> (\<exists>k r. map_of ts k = Some r \<and> rt_rotatedFromHash r = Some h)"
  by (auto simp: is_rotated_def list_ex_iff)

section \<open>Single use\<close>

fun code_won :: "(string \<Rightarrow> string) \<Rightarrow> string \<Rightarrow> disk_event \<times> disk_result \<Rightarrow> bool" where
  "code_won sha h (ConsumeCode t v x, Code r) = (sha t = h)"
| "code_won sha h _ = False"

fun refresh_won :: "(string \<Rightarrow> string) \<Rightarrow> string \<Rightarrow> disk_event \<times> disk_result \<Rightarrow> bool" where
  "refresh_won sha h (Rotate t c ttl er ar n, Rotation (Rotated u m)) = (sha t = h)"
| "refresh_won sha h _ = False"

fun state_won :: "(string \<Rightarrow> string) \<Rightarrow> string \<Rightarrow> disk_event \<times> disk_result \<Rightarrow> bool" where
  "state_won sha h (ConsumeState t, State r) = (sha t = h)"
| "state_won sha h _ = False"

fun request_won :: "string \<times> string \<Rightarrow> disk_event \<times> disk_result \<Rightarrow> bool" where
  "request_won k (Reserve sid rid, Flag True) = (k = (sid, rid))"
| "request_won k _ = False"

lemma code_wonE:
  assumes "code_won sha h x" obtains t v y r where "x = (ConsumeCode t v y, Code r)" "sha t = h"
  using assms by (cases "(sha, h, x)" rule: code_won.cases) auto

lemma refresh_wonE:
  assumes "refresh_won sha h x" obtains t c ttl er ar n u m where "x = (Rotate t c ttl er ar n, Rotation (Rotated u m))" "sha t = h"
  using assms by (cases "(sha, h, x)" rule: refresh_won.cases) auto

lemma state_wonE:
  assumes "state_won sha h x" obtains t r where "x = (ConsumeState t, State r)" "sha t = h"
  using assms by (cases "(sha, h, x)" rule: state_won.cases) auto

lemma request_wonE:
  assumes "request_won k x" obtains sid rid where "x = (Reserve sid rid, Flag True)" "k = (sid, rid)"
  using assms by (cases "(k, x)" rule: request_won.cases) auto

definition code_spent :: "string \<Rightarrow> disk_world \<Rightarrow> bool" where
  "code_spent h w = (case map_of (authorizationCodes (dw_store w)) h of None \<Rightarrow> False | Some r \<Rightarrow> truthy_time (ac_consumedAt r))"

definition refresh_spent :: "string \<Rightarrow> disk_world \<Rightarrow> bool" where
  "refresh_spent h w = is_rotated h (refreshTokens (dw_store w))"

definition state_spent :: "string \<Rightarrow> disk_world \<Rightarrow> bool" where
  "state_spent h w = (h \<in> set (dw_issued w) \<and> map_of (upstreamStates (dw_store w)) h = None)"

definition request_spent :: "string \<times> string \<Rightarrow> disk_world \<Rightarrow> bool" where
  "request_spent k w = (case map_of (mcpSessions (dw_store w)) (fst k) of None \<Rightarrow> False
     | Some r \<Rightarrow> snd k \<in> set (ms_requestIdHashes r))"

lemma codes_code_spent_final:
  assumes "disk_step sha x w w'" "disk_good w" "code_spent h w" shows "code_spent h w'"
proof -
  obtain e res where x: "x = (e, res)" by (cases x)
  with assms(1) obtain now where ap: "disk_apply sha e now (dw_store w) = (res, dw_store w')"
    and fresh: "set (new_keys sha e) \<inter> set (dw_issued w) = {}"
    by (auto elim: disk_step_apply)
  obtain r where r: "map_of (authorizationCodes (dw_store w)) h = Some r" "truthy_time (ac_consumedAt r)"
    using assms(3) by (auto simp: code_spent_def split: option.splits)
  then have "h \<in> set (dw_issued w)" using assms(2) by (auto simp: disk_good_def dest: keys_inD)
  then have "h \<notin> set (new_keys sha e)" using fresh by auto
  moreover have "sha t \<noteq> h" if "e = ConsumeCode t v y" "res = Code s" for t v y s
    using apply_code [OF ap [unfolded that]] r by (metis consumable_def option.inject)
  ultimately have "map_of (authorizationCodes (dw_store w')) h = Some r"
    unfolding apply_codes [OF ap] using r(1) by (cases e; cases res) auto
  then show ?thesis using r(2) by (simp add: code_spent_def)
qed

interpretation disk_codes: one_shot "disk_step sha" disk_good "code_won sha" code_spent for sha
proof unfold_locales
  fix x w w' h
  assume st: "disk_step sha x w w'" and good: "disk_good w"
  show "disk_good w'" using st good by (rule disk_good_step)
  show "code_spent h w'" if "code_spent h w" using st good that by (rule codes_code_spent_final)
  show "\<not> code_spent h w" "code_spent h w'" if won: "code_won sha h x"
  proof -
    obtain t v y r where e: "x = (ConsumeCode t v y, Code r)" "sha t = h" by (rule code_wonE [OF won])
    obtain now where ap: "disk_apply sha (ConsumeCode t v y) now (dw_store w) = (Code r, dw_store w')" and "0 < now"
      using st e by (auto elim: disk_step_apply)
    obtain od where "map_of (authorizationCodes (dw_store w)) (sha t) = Some od" "consumable sha v y now od"
      "r = od \<lparr> ac_consumedAt := Some now \<rparr>"
      by (rule apply_code [OF ap])
    then show "\<not> code_spent h w" "code_spent h w'"
      using e \<open>0 < now\<close> apply_codes [OF ap, of h] by (auto simp: code_spent_def consumable_def)
  qed
qed

lemma apply_refresh_keeps:
  assumes "disk_apply sha e now st = (res, st')" "map_of (refreshTokens st) h = Some r" "h \<notin> set (new_keys sha e)" "0 < now"
  shows "\<exists>r'. map_of (refreshTokens st') h = Some r' \<and> rt_rotatedFromHash r' = rt_rotatedFromHash r \<and>
    rt_familyId r' = rt_familyId r \<and> (truthy_time (rt_revokedAt r) \<longrightarrow> truthy_time (rt_revokedAt r'))"
proof (cases "\<exists>t cid ttl er ar n x. e = Rotate t cid ttl er ar n \<and> res = Rotation x")
  case True
  then obtain t cid ttl er ar n x where e: "e = Rotate t cid ttl er ar n" "res = Rotation x" by blast
  obtain od where od: "map_of (refreshTokens st) (sha t) = Some od"
    "x = (if is_rotated (sha t) (refreshTokens st) then Reused else Rotated (od \<lparr> rt_lastUsedAt := Some now \<rparr>) n)"
    by (rule apply_rotation [OF assms(1) [unfolded e]])
  note look = apply_refresh [OF assms(1), of h, unfolded e]
  show ?thesis
  proof (cases x)
    case Reused
    then show ?thesis using look assms(2,4) by auto
  next
    case (Rotated u m)
    with od have u: "u = od \<lparr> rt_lastUsedAt := Some now \<rparr>" by (auto split: if_splits)
    have "h \<noteq> sha n" using assms(3) e by simp
    with look Rotated have "map_of (refreshTokens st') h = (if h = sha t then Some u else Some r)" using assms(2) by simp
    then show ?thesis using u od(1) assms(2) by (cases "h = sha t") auto
  qed
next
  case False
  then have "map_of (refreshTokens st') h = Some r"
    unfolding apply_refresh [OF assms(1)] using assms(2,3) by (cases e; cases res) auto
  then show ?thesis by blast
qed

interpretation disk_refresh: one_shot "disk_step sha" disk_good "refresh_won sha" refresh_spent for sha
proof unfold_locales
  fix x w w' h
  assume st: "disk_step sha x w w'" and good: "disk_good w"
  show good': "disk_good w'" using st good by (rule disk_good_step)
  have keys: "distinct (map fst (refreshTokens (dw_store w)))" "distinct (map fst (refreshTokens (dw_store w')))"
    using good good' by (auto simp: disk_good_def)
  obtain e res where x: "x = (e, res)" by (cases x)
  with st obtain now where ap: "disk_apply sha e now (dw_store w) = (res, dw_store w')"
    and fresh: "set (new_keys sha e) \<inter> set (dw_issued w) = {}" and "0 < now"
    by (auto elim: disk_step_apply)
  show "\<not> refresh_spent h w" "refresh_spent h w'" if won: "refresh_won sha h x"
  proof -
    obtain t c ttl er ar n u m where e: "x = (Rotate t c ttl er ar n, Rotation (Rotated u m))" "sha t = h"
      by (rule refresh_wonE [OF won])
    then have ap': "disk_apply sha (Rotate t c ttl er ar n) now (dw_store w) = (Rotation (Rotated u m), dw_store w')"
      using ap x by simp
    obtain od where od: "map_of (refreshTokens (dw_store w)) (sha t) = Some od"
      "Rotated u m = (if is_rotated (sha t) (refreshTokens (dw_store w)) then Reused else Rotated (od \<lparr> rt_lastUsedAt := Some now \<rparr>) n)"
      by (rule apply_rotation [OF ap'])
    then show "\<not> refresh_spent h w" using e by (auto simp: refresh_spent_def split: if_splits)
    have "map_of (refreshTokens (dw_store w')) (sha n) = Some (successor sha t ttl now n od)"
      using apply_refresh [OF ap', of "sha n"] od(1) by simp
    then show "refresh_spent h w'"
      using e unfolding refresh_spent_def is_rotated_iff [OF keys(2)]
      by (intro exI [of _ "sha n"] exI [of _ "successor sha t ttl now n od"]) (simp add: successor_def)
  qed
  show "refresh_spent h w'" if spent: "refresh_spent h w"
  proof -
    obtain k r where r: "map_of (refreshTokens (dw_store w)) k = Some r" "rt_rotatedFromHash r = Some h"
      using spent unfolding refresh_spent_def is_rotated_iff [OF keys(1)] by blast
    then have "k \<notin> set (new_keys sha e)" using good fresh by (auto simp: disk_good_def dest: keys_inD)
    from apply_refresh_keeps [OF ap r(1) this \<open>0 < now\<close>] r(2) show ?thesis
      unfolding refresh_spent_def is_rotated_iff [OF keys(2)] by auto
  qed
qed

interpretation disk_states: one_shot "disk_step sha" disk_good "state_won sha" state_spent for sha
proof unfold_locales
  fix x w w' h
  assume st: "disk_step sha x w w'" and good: "disk_good w"
  show "disk_good w'" using st good by (rule disk_good_step)
  have keys: "distinct (map fst (upstreamStates (dw_store w)))"
    using good by (auto simp: disk_good_def)
  obtain e res where x: "x = (e, res)" by (cases x)
  with st obtain now where ap: "disk_apply sha e now (dw_store w) = (res, dw_store w')"
    and fresh: "set (new_keys sha e) \<inter> set (dw_issued w) = {}" "dw_issued w' = new_keys sha e @ dw_issued w"
    by (auto elim: disk_step_apply)
  show "\<not> state_spent h w" "state_spent h w'" if won: "state_won sha h x"
  proof -
    obtain t r where e: "x = (ConsumeState t, State r)" "sha t = h" by (rule state_wonE [OF won])
    with apply_states(2) [OF ap keys] x have "map_of (upstreamStates (dw_store w)) h = Some r"
      "map_of (upstreamStates (dw_store w')) h = None" by auto
    moreover from this have "h \<in> set (dw_issued w)" using good by (auto simp: disk_good_def dest: keys_inD)
    ultimately show "\<not> state_spent h w" "state_spent h w'" using fresh by (auto simp: state_spent_def)
  qed
  show "state_spent h w'" if "state_spent h w"
  proof -
    have h: "h \<in> set (dw_issued w)" "map_of (upstreamStates (dw_store w)) h = None" using that by (auto simp: state_spent_def)
    then have "\<not> (\<exists>t i. e = CreateState t i \<and> h = sha t)" using fresh by auto
    then show ?thesis using apply_states(1) [OF ap keys, of h] h fresh by (auto simp: state_spent_def)
  qed
qed

interpretation disk_requests: one_shot "disk_step sha" disk_good request_won request_spent for sha
proof unfold_locales
  fix x w w' k
  assume st: "disk_step sha x w w'" and good: "disk_good w"
  show "disk_good w'" using st good by (rule disk_good_step)
  obtain e res where x: "x = (e, res)" by (cases x)
  with st obtain now where ap: "disk_apply sha e now (dw_store w) = (res, dw_store w')"
    and fresh: "set (new_keys sha e) \<inter> set (dw_issued w) = {}"
    by (auto elim: disk_step_apply)
  show "\<not> request_spent k w" "request_spent k w'" if won: "request_won k x"
  proof -
    obtain sid rid where e: "x = (Reserve sid rid, Flag True)" "k = (sid, rid)" by (rule request_wonE [OF won])
    then have "disk_apply sha (Reserve sid rid) now (dw_store w) = (Flag True, dw_store w')" using ap x by simp
    then show "\<not> request_spent k w" "request_spent k w'"
      by (rule apply_reserve, use e in \<open>auto simp: request_spent_def\<close>)+
  qed
  show "request_spent k w'" if spent: "request_spent k w"
  proof -
    obtain r where r: "map_of (mcpSessions (dw_store w)) (fst k) = Some r" "snd k \<in> set (ms_requestIdHashes r)"
      using spent by (auto simp: request_spent_def split: option.splits)
    then have "fst k \<in> set (dw_issued w)" using good by (auto simp: disk_good_def dest: keys_inD)
    then have "fst k \<noteq> ms_sessionIdHash s" if "e = SaveSession s" for s using fresh that by auto
    from apply_sessions(1) [OF ap this] r show ?thesis by (auto simp: session_grows_def request_spent_def)
  qed
qed

end
