(* ===== verification/Disk_Properties.thy ===== *)
theory Disk_Properties
  imports Disk_Runs
begin

text \<open>
  What runs of the file store guarantee: single use, the origin of every grant, the integrity of
  token families, the revocation of a family when a spent token is replayed, and the life of a
  protocol session.  Each property is witnessed by a run computed with \<open>disk_exec\<close>.
\<close>

section \<open>Runs\<close>

lemma machine_run_snoc:
  "machine_run fire s (es @ e # fs) u \<Longrightarrow> \<exists>t t'. machine_run fire s es t \<and> fire e t t' \<and> machine_run fire t' fs u"
proof (induction es arbitrary: s)
  case Nil
  then show ?case by (auto elim!: machine_run_ConsE intro: machine_run.stop)
next
  case (Cons x es)
  then show ?case by (fastforce elim!: machine_run_ConsE intro: machine_run.next_event)
qed

lemma machine_run_accumulates:
  assumes "machine_run fire s es u" "good S s"
    and "\<And>S e s t. fire e s t \<Longrightarrow> good S s \<Longrightarrow> good (insert e S) t"
  shows "good (S \<union> set es) u"
  using assms(1,2)
proof (induction arbitrary: S)
  case (next_event e s t es u)
  from next_event.IH [OF assms(3) [OF next_event.hyps(1) next_event.prems]] show ?case by simp
qed simp

fun disk_exec :: "(string \<Rightarrow> string) \<Rightarrow> (int \<times> disk_event) list \<Rightarrow> disk_world \<Rightarrow> ((disk_event \<times> disk_result) list \<times> disk_world) option" where
  "disk_exec sha [] w = Some ([], w)"
| "disk_exec sha ((now, e) # es) w =
    (if dw_clock w \<le> now \<and> 0 < now \<and> event_ok e \<and> list_all (\<lambda>k. \<not> List.member (dw_issued w) k) (new_keys sha e) \<and>
        list_all (\<lambda>f. \<not> List.member (dw_families w) f) (new_families e)
     then (case disk_apply sha e now (dw_store w) of (res, st) \<Rightarrow>
       (case disk_exec sha es \<lparr> dw_store = st, dw_issued = new_keys sha e @ dw_issued w,
           dw_families = new_families e @ dw_families w, dw_clock = now \<rparr> of
          None \<Rightarrow> None | Some (xs, w') \<Rightarrow> Some ((e, res) # xs, w')))
     else None)"

lemma disk_exec_run: "disk_exec sha es w = Some (xs, w') \<Longrightarrow> machine_run (disk_step sha) w xs w'"
proof (induction sha es w arbitrary: xs w' rule: disk_exec.induct)
  case (2 sha now e es w)
  obtain res st where ap: "disk_apply sha e now (dw_store w) = (res, st)" by (cases "disk_apply sha e now (dw_store w)")
  let ?w = "\<lparr> dw_store = st, dw_issued = new_keys sha e @ dw_issued w, dw_families = new_families e @ dw_families w, dw_clock = now \<rparr>"
  obtain ys where ys: "disk_exec sha es ?w = Some (ys, w')" "xs = (e, res) # ys"
    using 2 ap by (auto split: if_splits option.splits)
  have "disk_step sha (e, res) w ?w"
    using 2 ap by (intro disk_step.operation) (auto simp: list_all_iff split: if_splits)
  moreover have "machine_run (disk_step sha) ?w ys w'"
    using 2 ap ys by (auto split: if_splits)
  ultimately show ?case by (simp add: ys(2) machine_run.next_event)
qed (simp add: machine_run.stop)

lemma run_good: "machine_run (disk_step sha) initial_disk_world es w \<Longrightarrow> disk_good w"
  by (erule machine_run_invariant) (auto simp: disk_good_initial intro: disk_good_step)

section \<open>Where the records come from\<close>

text \<open>Every code and refresh token of the store carries what a creation event was given.\<close>

definition code_of :: "string \<Rightarrow> auth_code_input \<Rightarrow> auth_code_record \<Rightarrow> bool" where
  "code_of h i r = (ac_codeHash r = h \<and> ac_clientId r = ci_clientId i \<and> ac_redirectUri r = ci_redirectUri i \<and> ac_resource r = ci_resource i \<and>
     ac_scopes r = ci_scopes i \<and> ac_nonce r = nonempty_text (ci_nonce i) \<and> ac_codeChallenge r = nonempty_text (ci_codeChallenge i) \<and>
     ac_user r = ci_user i \<and> ac_expiresAt r = ac_createdAt r + ci_ttlSeconds i \<and> ac_authTime r = ac_createdAt r)"

definition refresh_of :: "refresh_token_input \<Rightarrow> refresh_token_record \<Rightarrow> bool" where
  "refresh_of i r = (rt_clientId r = ri_clientId i \<and> rt_user r = ri_user i \<and> rt_resource r = ri_resource i \<and>
     rt_scopes r = ri_scopes i \<and> rt_authTime r = ri_authTime i)"

definition codes_issued :: "(string \<Rightarrow> string) \<Rightarrow> (disk_event \<times> disk_result) set \<Rightarrow> disk_world \<Rightarrow> bool" where
  "codes_issued sha S w = (\<forall>h r. map_of (authorizationCodes (dw_store w)) h = Some r \<longrightarrow>
     (\<exists>t i. (CreateCode t i, Done) \<in> S \<and> sha t = h \<and> code_of h i r))"

definition refresh_issued :: "(disk_event \<times> disk_result) set \<Rightarrow> disk_world \<Rightarrow> bool" where
  "refresh_issued S w = (\<forall>h r. map_of (refreshTokens (dw_store w)) h = Some r \<longrightarrow>
     (\<exists>t i. (CreateRefresh t (rt_familyId r) i, Done) \<in> S \<and> refresh_of i r))"

lemma codes_issued_step:
  assumes "disk_step sha x w w'" "codes_issued sha S w"
  shows "codes_issued sha (insert x S) w'"
proof -
  obtain e res where x: "x = (e, res)" by (cases x)
  with assms(1) obtain now where ap: "disk_apply sha e now (dw_store w) = (res, dw_store w')"
    by (auto elim: disk_step_apply)
  have old: "\<exists>t i. (CreateCode t i, Done) \<in> insert x S \<and> sha t = h \<and> code_of h i r"
    if "map_of (authorizationCodes (dw_store w)) h = Some r" for h r
    using assms(2) that unfolding codes_issued_def by blast
  show ?thesis
    unfolding codes_issued_def
  proof (intro allI impI)
    fix h r assume r: "map_of (authorizationCodes (dw_store w')) h = Some r"
    show "\<exists>t i. (CreateCode t i, Done) \<in> insert x S \<and> sha t = h \<and> code_of h i r"
    proof (cases e)
      case (CreateCode t i)
      have "res = Done" using ap CreateCode by simp
      show ?thesis
      proof (cases "h = sha t")
        case True
        then have "code_of h i r"
          using r CreateCode unfolding apply_codes [OF ap] by (auto simp: createAuthorizationCode_def code_of_def Let_def)
        then show ?thesis using x CreateCode \<open>res = Done\<close> True by blast
      next
        case False
        then show ?thesis using r old CreateCode unfolding apply_codes [OF ap] by simp
      qed
    next
      case (ConsumeCode t v y)
      show ?thesis
      proof (cases "\<exists>u. res = Code u \<and> h = sha t")
        case True
        then obtain u where u: "res = Code u" "h = sha t" by blast
        obtain od where od: "map_of (authorizationCodes (dw_store w)) (sha t) = Some od" "u = od \<lparr> ac_consumedAt := Some now \<rparr>"
          by (rule apply_code [OF ap [unfolded ConsumeCode u]])
        moreover have "r = u" using r u ConsumeCode unfolding apply_codes [OF ap] by simp
        ultimately show ?thesis using old [OF od(1)] u by (auto simp: code_of_def)
      next
        case False
        then show ?thesis using r old ConsumeCode unfolding apply_codes [OF ap] by (cases res) auto
      qed
    qed (use r old in \<open>unfold apply_codes [OF ap], auto\<close>)
  qed
qed

lemma refresh_issued_step:
  assumes "disk_step sha x w w'" "refresh_issued S w"
  shows "refresh_issued (insert x S) w'"
proof -
  obtain e res where x: "x = (e, res)" by (cases x)
  with assms(1) obtain now where ap: "disk_apply sha e now (dw_store w) = (res, dw_store w')"
    by (auto elim: disk_step_apply)
  have old: "\<exists>t i. (CreateRefresh t (rt_familyId r) i, Done) \<in> insert x S \<and> refresh_of i r"
    if "map_of (refreshTokens (dw_store w)) h = Some r" for h r
    using assms(2) that unfolding refresh_issued_def by blast
  show ?thesis
    unfolding refresh_issued_def
  proof (intro allI impI)
    fix h r assume r: "map_of (refreshTokens (dw_store w')) h = Some r"
    show "\<exists>t i. (CreateRefresh t (rt_familyId r) i, Done) \<in> insert x S \<and> refresh_of i r"
    proof (cases "\<exists>t f i. e = CreateRefresh t f i \<and> h = sha t")
      case True
      then obtain t f i where e: "e = CreateRefresh t f i" "h = sha t" by blast
      have "res = Done" using ap e by simp
      then have "refresh_of i r" "rt_familyId r = f"
        using r e unfolding apply_refresh [OF ap] by (auto simp: createRefreshToken_def refresh_of_def Let_def)
      then show ?thesis using x e \<open>res = Done\<close> by blast
    next
      case False
      with apply_refresh_new [OF ap r] obtain k od where "map_of (refreshTokens (dw_store w)) k = Some od"
        "rt_familyId r = rt_familyId od" "rt_clientId r = rt_clientId od" "rt_user r = rt_user od"
        "rt_resource r = rt_resource od" "rt_scopes r = rt_scopes od" "rt_authTime r = rt_authTime od"
        by (auto simp: successor_def)
      with old [of k od] show ?thesis by (auto simp: refresh_of_def)
    qed
  qed
qed

lemma run_codes_issued: "machine_run (disk_step sha) initial_disk_world es w \<Longrightarrow> codes_issued sha (set es) w"
  using machine_run_accumulates [where good = "codes_issued sha" and S = "{}", OF _ _ codes_issued_step]
  by (simp add: codes_issued_def initial_disk_world_def emptyStoreState_def)

lemma run_refresh_issued: "machine_run (disk_step sha) initial_disk_world es w \<Longrightarrow> refresh_issued (set es) w"
  using machine_run_accumulates [where good = refresh_issued and S = "{}", OF _ _ refresh_issued_step]
  by (simp add: refresh_issued_def initial_disk_world_def emptyStoreState_def)

section \<open>The properties\<close>

text \<open>In every run of the store by any number of callers, an authorization code is consumed successfully at most once,
  whichever clients, verifiers and expectations the attempts carry.\<close>

theorem code_consumed_once:
  assumes "machine_run (disk_step sha) initial_disk_world es w"
  shows "length (filter (code_won sha h) es) \<le> 1"
  by (rule disk_codes.at_most_one_win [OF assms disk_good_initial])

text \<open>C20: In every run a refresh token is exchanged for its successor at most once.\<close>

theorem refresh_token_rotated_once:
  assumes "machine_run (disk_step sha) initial_disk_world es w"
  shows "length (filter (refresh_won sha h) es) \<le> 1"
  by (rule disk_refresh.at_most_one_win [OF assms disk_good_initial])

text \<open>In every run an upstream authorization state is consumed at most once.\<close>

theorem upstream_state_consumed_once:
  assumes "machine_run (disk_step sha) initial_disk_world es w"
  shows "length (filter (state_won sha h) es) \<le> 1"
  by (rule disk_states.at_most_one_win [OF assms disk_good_initial])

text \<open>In every run a request identifier of an MCP session is reserved successfully at most once.\<close>

theorem request_id_reserved_once:
  assumes "machine_run (disk_step sha) initial_disk_world es w"
  shows "length (filter (request_won k) es) \<le> 1"
  by (rule disk_requests.at_most_one_win [OF assms disk_good_initial])


text \<open>C23: However often it has been rotated, a refresh token in the store belongs to the client, user, resource, scopes and
  authentication time of the token its family began with: rotation never widens a grant.\<close>

theorem rotation_preserves_grant:
  assumes "machine_run (disk_step sha) initial_disk_world es w" "map_of (refreshTokens (dw_store w)) h = Some r"
  shows "\<exists>t i. (CreateRefresh t (rt_familyId r) i, Done) \<in> set es \<and> rt_clientId r = ri_clientId i \<and> rt_user r = ri_user i \<and>
    rt_resource r = ri_resource i \<and> rt_scopes r = ri_scopes i \<and> rt_authTime r = ri_authTime i"
  using run_refresh_issued [OF assms(1)] assms(2) unfolding refresh_issued_def refresh_of_def by blast

section \<open>Revocation and termination are final\<close>

text \<open>A family is dead when it has been used and every token of it is revoked.\<close>

definition family_dead :: "string \<Rightarrow> disk_world \<Rightarrow> bool" where
  "family_dead f w = (f \<in> set (dw_families w) \<and>
     (\<forall>h r. map_of (refreshTokens (dw_store w)) h = Some r \<longrightarrow> rt_familyId r = f \<longrightarrow> truthy_time (rt_revokedAt r)))"

lemma family_dead_step:
  assumes "disk_step sha x w w'" "disk_good w" "family_dead f w"
  shows "family_dead f w'"
proof -
  obtain e res where x: "x = (e, res)" by (cases x)
  with assms(1) obtain now where ap: "disk_apply sha e now (dw_store w) = (res, dw_store w')" and now: "0 < now"
    and fresh: "set (new_keys sha e) \<inter> set (dw_issued w) = {}" "set (new_families e) \<inter> set (dw_families w) = {}"
      "dw_families w' = new_families e @ dw_families w"
    by (auto elim: disk_step_apply)
  have dead: "truthy_time (rt_revokedAt r)" if "map_of (refreshTokens (dw_store w)) h = Some r" "rt_familyId r = f" for h r
    using assms(3) that unfolding family_dead_def by blast
  have "truthy_time (rt_revokedAt r)" if r: "map_of (refreshTokens (dw_store w')) h = Some r" "rt_familyId r = f" for h r
    using apply_refresh_new [OF ap r(1)]
  proof (elim disjE exE conjE)
    fix od assume od: "map_of (refreshTokens (dw_store w)) h = Some od" "rt_familyId r = rt_familyId od"
    then have "h \<notin> set (new_keys sha e)" using assms(2) fresh(1) by (auto simp: disk_good_def dest: keys_inD)
    from apply_refresh_keeps [OF ap od(1) this now] r dead [OF od(1)] od(2) show ?thesis by auto
  next
    fix t g i assume "e = CreateRefresh t g i" "rt_familyId r = g"
    then show ?thesis using fresh(2) r(2) assms(3) by (auto simp: family_dead_def)
  next
    fix t cid ttl er ar n od
    assume "map_of (refreshTokens (dw_store w)) (sha t) = Some od" "rotatable cid er ar now od" "r = successor sha t ttl now n od"
    then show ?thesis using dead [of "sha t" od] r(2) by (auto simp: rotatable_def successor_def)
  qed
  then show ?thesis using assms(3) fresh(3) by (auto simp: family_dead_def)
qed

lemma dead_family_never_rotates:
  assumes "machine_run (disk_step sha) w es w'" "disk_good w" "family_dead f w"
    "(Rotate t c ttl er ar n, Rotation (Rotated u m)) \<in> set es"
  shows "rt_familyId u \<noteq> f"
proof -
  obtain as bs where es: "es = as @ (Rotate t c ttl er ar n, Rotation (Rotated u m)) # bs"
    using assms(4) by (meson split_list)
  from machine_run_snoc [OF assms(1) [unfolded es]] obtain w1 w2 where
    run: "machine_run (disk_step sha) w as w1" "disk_step sha (Rotate t c ttl er ar n, Rotation (Rotated u m)) w1 w2"
    by blast
  have "disk_good w1 \<and> family_dead f w1"
    by (rule machine_run_invariant [OF run(1)]) (use assms in \<open>auto intro: disk_good_step family_dead_step\<close>)
  moreover obtain now where ap: "disk_apply sha (Rotate t c ttl er ar n) now (dw_store w1) = (Rotation (Rotated u m), dw_store w2)"
    using run(2) by (auto elim: disk_step_apply)
  obtain od where "map_of (refreshTokens (dw_store w1)) (sha t) = Some od" "rotatable c er ar now od"
    "Rotated u m = (if is_rotated (sha t) (refreshTokens (dw_store w1)) then Reused else Rotated (od \<lparr> rt_lastUsedAt := Some now \<rparr>) n)"
    by (rule apply_rotation [OF ap])
  ultimately show ?thesis
    by (auto simp: family_dead_def rotatable_def split: if_splits)
qed

definition session_gone :: "string \<Rightarrow> disk_world \<Rightarrow> bool" where
  "session_gone sid w = (case map_of (mcpSessions (dw_store w)) sid of None \<Rightarrow> False | Some r \<Rightarrow> truthy_time (ms_terminatedAt r))"

lemma session_gone_step:
  assumes "disk_step sha x w w'" "disk_good w" "session_gone sid w"
  shows "session_gone sid w'"
proof -
  obtain e res where x: "x = (e, res)" by (cases x)
  with assms(1) obtain now where ap: "disk_apply sha e now (dw_store w) = (res, dw_store w')"
    and fresh: "set (new_keys sha e) \<inter> set (dw_issued w) = {}"
    by (auto elim: disk_step_apply)
  obtain r where r: "map_of (mcpSessions (dw_store w)) sid = Some r" "truthy_time (ms_terminatedAt r)"
    using assms(3) by (auto simp: session_gone_def split: option.splits)
  then have "sid \<in> set (dw_issued w)" using assms(2) by (auto simp: disk_good_def dest: keys_inD)
  then have "sid \<noteq> ms_sessionIdHash s" if "e = SaveSession s" for s using fresh that by auto
  from apply_sessions(1) [OF ap this] r show ?thesis by (auto simp: session_grows_def session_gone_def)
qed

text \<open>What was won in a run is spent at its end.\<close>

context one_shot begin

lemma spent_lasts: "machine_run fire s es u \<Longrightarrow> good s \<Longrightarrow> spent k s \<Longrightarrow> spent k u"
proof (induction rule: machine_run.induct)
  case (next_event e s t es u)
  then show ?case using inv_fire spent_final by blast
qed simp

lemma won_is_spent: "machine_run fire s es u \<Longrightarrow> good s \<Longrightarrow> e \<in> set es \<Longrightarrow> wins k e \<Longrightarrow> spent k u"
proof (induction rule: machine_run.induct)
  case (next_event e' s t es u)
  then show ?case using inv_fire win_spends [OF next_event.hyps(1)] spent_lasts [OF next_event.hyps(2)] by auto
qed simp

end

definition token_of_family :: "string \<Rightarrow> string \<Rightarrow> disk_world \<Rightarrow> bool" where
  "token_of_family h f w = (\<exists>r. map_of (refreshTokens (dw_store w)) h = Some r \<and> rt_familyId r = f)"

lemma token_of_family_step:
  assumes "disk_step sha x w w'" "disk_good w" "token_of_family h f w"
  shows "token_of_family h f w'"
proof -
  obtain e res where x: "x = (e, res)" by (cases x)
  with assms(1) obtain now where ap: "disk_apply sha e now (dw_store w) = (res, dw_store w')" and now: "0 < now"
    and fresh: "set (new_keys sha e) \<inter> set (dw_issued w) = {}"
    by (auto elim: disk_step_apply)
  obtain r where r: "map_of (refreshTokens (dw_store w)) h = Some r" "rt_familyId r = f"
    using assms(3) by (auto simp: token_of_family_def)
  then have "h \<notin> set (new_keys sha e)" using assms(2) fresh by (auto simp: disk_good_def dest: keys_inD)
  from apply_refresh_keeps [OF ap r(1) this now] r(2) show ?thesis by (auto simp: token_of_family_def)
qed

lemma rotated_token_of_family:
  assumes "machine_run (disk_step sha) initial_disk_world es w" "(Rotate t c ttl er ar n, Rotation (Rotated u m)) \<in> set es"
  shows "token_of_family (sha t) (rt_familyId u) w"
proof -
  obtain as bs where es: "es = as @ (Rotate t c ttl er ar n, Rotation (Rotated u m)) # bs"
    using assms(2) by (meson split_list)
  from machine_run_snoc [OF assms(1) [unfolded es]] obtain w1 w2 where
    run: "machine_run (disk_step sha) initial_disk_world as w1" "disk_step sha (Rotate t c ttl er ar n, Rotation (Rotated u m)) w1 w2"
      "machine_run (disk_step sha) w2 bs w"
    by blast
  have good: "disk_good w1" "disk_good w2" using run(1,2) by (blast intro: run_good disk_good_step)+
  obtain now where ap: "disk_apply sha (Rotate t c ttl er ar n) now (dw_store w1) = (Rotation (Rotated u m), dw_store w2)"
    using run(2) by (auto elim: disk_step_apply)
  obtain od where od: "map_of (refreshTokens (dw_store w1)) (sha t) = Some od"
    "Rotated u m = (if is_rotated (sha t) (refreshTokens (dw_store w1)) then Reused else Rotated (od \<lparr> rt_lastUsedAt := Some now \<rparr>) n)"
    by (rule apply_rotation [OF ap])
  then have "token_of_family (sha t) (rt_familyId u) w1" by (auto simp: token_of_family_def split: if_splits)
  then have "token_of_family (sha t) (rt_familyId u) w2" by (rule token_of_family_step [OF run(2) good(1)])
  with good(2) have "disk_good w2 \<and> token_of_family (sha t) (rt_familyId u) w2" ..
  then have "disk_good w \<and> token_of_family (sha t) (rt_familyId u) w"
    by (rule machine_run_invariant [OF run(3)]) (use disk_good_step token_of_family_step in blast)
  then show ?thesis by simp
qed

lemma reuse_kills_family:
  assumes "disk_apply sha (Rotate t c ttl er ar n) now (dw_store w) = (Rotation Reused, dw_store w')" "0 < now"
    "map_of (refreshTokens (dw_store w)) (sha t) = Some old" "disk_good w" "dw_families w' = dw_families w"
  shows "family_dead (rt_familyId old) w'"
proof -
  have "truthy_time (rt_revokedAt r)"
    if "map_of (refreshTokens (dw_store w')) h = Some r" "rt_familyId r = rt_familyId old" for h r
  proof -
    from that(1) obtain r0 where "r = (if rt_familyId r0 = rt_familyId old then r0 \<lparr> rt_revokedAt := Some now \<rparr> else r0)"
      using assms(3) unfolding apply_refresh [OF assms(1)] by (cases "map_of (refreshTokens (dw_store w)) h") auto
    with that(2) assms(2) show ?thesis by (cases "rt_familyId r0 = rt_familyId old") simp_all
  qed
  moreover have "rt_familyId old \<in> set (dw_families w)" using assms(3,4) by (auto simp: disk_good_def)
  ultimately show ?thesis using assms(5) by (simp add: family_dead_def)
qed

text \<open>C21: When a refresh token that was exchanged earlier in the run is presented again, its record is still there, and it is
  never exchanged a second time.  If it is neither revoked nor expired and comes from its own client for its own resource, the reuse
  is detected: every token of its family is revoked, and in the rest of the run no token of that family is ever exchanged
  again.  Otherwise the attempt is refused and the store stays as it is: the family lives on.\<close>

theorem replay_revokes_family:
  assumes "machine_run (disk_step sha) initial_disk_world es w1"
    and "(Rotate t c0 ttl0 er0 ar0 n0, Rotation (Rotated u0 m0)) \<in> set es"
    and "disk_step sha (Rotate t c ttl er ar n, res) w1 w2"
    and "machine_run (disk_step sha) w2 fs w3"
  shows "\<exists>old. map_of (refreshTokens (dw_store w1)) (sha t) = Some old \<and> rt_familyId old = rt_familyId u0 \<and>
    (if \<not> truthy_time (rt_revokedAt old) \<and> dw_clock w2 < rt_expiresAt old \<and> rt_clientId old = c \<and>
       (\<forall>q. er = Some q \<longrightarrow> rt_resource old = q) \<and> (\<forall>qs. ar = Some qs \<longrightarrow> rt_resource old \<in> set qs)
     then res = Rotation Reused \<and>
       (\<forall>h r. map_of (refreshTokens (dw_store w2)) h = Some r \<longrightarrow> rt_familyId r = rt_familyId old \<longrightarrow> truthy_time (rt_revokedAt r)) \<and>
       (\<forall>t' c' ttl' er' ar' n' u m. (Rotate t' c' ttl' er' ar' n', Rotation (Rotated u m)) \<in> set fs \<longrightarrow> rt_familyId u \<noteq> rt_familyId old)
     else res = Threw invalid_grant_error \<and> dw_store w2 = dw_store w1)"
proof -
  have good: "disk_good w1" "disk_good w2" using assms(1,3) by (blast intro: run_good disk_good_step)+
  obtain old where old: "map_of (refreshTokens (dw_store w1)) (sha t) = Some old" "rt_familyId old = rt_familyId u0"
    using rotated_token_of_family [OF assms(1,2)] by (auto simp: token_of_family_def)
  have "refresh_spent (sha t) w1"
    by (rule disk_refresh.won_is_spent [OF assms(1) disk_good_initial assms(2)]) simp
  then have rotated: "is_rotated (sha t) (refreshTokens (dw_store w1))" by (simp add: refresh_spent_def)
  obtain now where ap: "disk_apply sha (Rotate t c ttl er ar n) now (dw_store w1) = (res, dw_store w2)"
    and now: "0 < now" "dw_clock w2 = now" "dw_families w2 = dw_families w1"
    using assms(3) by (auto elim: disk_step_apply)
  show ?thesis
  proof (cases "rotatable c er ar now old")
    case True
    then have res: "res = Rotation Reused" using ap old(1) rotated by (auto simp: rotate_eq with_result_def)
    have dead: "family_dead (rt_familyId old) w2"
      by (rule reuse_kills_family [OF ap [unfolded res] now(1) old(1) good(1) now(3)])
    then have "rt_familyId u \<noteq> rt_familyId old"
      if "(Rotate t' c' ttl' er' ar' n', Rotation (Rotated u m)) \<in> set fs" for t' c' ttl' er' ar' n' u m
      using dead_family_never_rotates [OF assms(4) good(2) _ that] by blast
    with dead show ?thesis using True old res now(2) unfolding family_dead_def rotatable_def by auto
  next
    case False
    then have "res = Threw invalid_grant_error \<and> dw_store w2 = dw_store w1"
      using ap old(1) by (auto simp: rotate_eq with_result_def)
    then show ?thesis using False old now(2) unfolding rotatable_def by auto
  qed
qed

text \<open>Once a session is terminated, no later operation of the run touches it, reserves a request identifier of it or
  terminates it again: each of them throws \<open>mcp session not found\<close>.\<close>

theorem terminated_session_is_gone:
  assumes "machine_run (disk_step sha) initial_disk_world es w1"
    and "disk_step sha (Terminate sid, Done) w1 w2"
    and "machine_run (disk_step sha) w2 fs w3"
    and "(e, res) \<in> set fs" "e \<in> {Touch sid v b, Reserve sid rid, Terminate sid}"
  shows "res = Threw session_not_found"
proof -
  have good: "disk_good w2" using assms(1,2) by (blast intro: run_good disk_good_step)
  obtain now where ap: "disk_apply sha (Terminate sid) now (dw_store w1) = (Done, dw_store w2)" and "0 < now"
    using assms(2) by (auto elim: disk_step_apply)
  then have gone: "session_gone sid w2"
    by (auto simp: session_gone_def terminateMcpSession_def without_result_def bindr_eq_Inr live_session_eq_Inr
        split: sum.splits dest!: sym [where t = "dw_store w2"])
  obtain as bs where fs: "fs = as @ (e, res) # bs" using assms(4) by (meson split_list)
  obtain w w' where run: "machine_run (disk_step sha) w2 as w" "disk_step sha (e, res) w w'"
    using machine_run_snoc [OF assms(3) [unfolded fs]] by blast
  have "disk_good w \<and> session_gone sid w"
    by (rule machine_run_invariant [OF run(1)]) (use good gone in \<open>auto intro: disk_good_step session_gone_step\<close>)
  moreover obtain now' where "disk_apply sha e now' (dw_store w) = (res, dw_store w')"
    using run(2) by (auto elim: disk_step_apply)
  ultimately show ?thesis
    using assms(5) by (auto simp: session_gone_def touchMcpSession_def reserveMcpRequestId_def terminateMcpSession_def
      with_result_def without_result_def live_session_def bindr_def split: option.splits)
qed

section \<open>A run\<close>

definition run_profile :: user_profile where
  "run_profile = \<lparr> up_sub = ''u'', up_given_name = ''A'', up_family_name = ''B'', up_name = ''A B'',
     up_preferred_username = ''ab'', up_email = ''a@b'', up_email_verified = True \<rparr>"

definition sample_code_input :: auth_code_input where
  "sample_code_input = \<lparr> ci_clientId = ''app'', ci_redirectUri = ''https://app/cb'', ci_resource = ''https://api'', ci_scopes = [''openid''],
     ci_nonce = None, ci_codeChallenge = Some (replicate 43 CHR ''v''), ci_methodS256 = True, ci_user = run_profile,
     ci_ttlSeconds = 60 \<rparr>"

definition sample_expectation :: auth_code_expectation where
  "sample_expectation = \<lparr> ce_clientId = ''app'', ce_redirectUri = ''https://app/cb'', ce_resource = None,
     ce_allowedResources = Some [''https://api''], ce_allowedScopes = Some [''openid'', ''email''] \<rparr>"

definition sample_refresh_input :: refresh_token_input where
  "sample_refresh_input = \<lparr> ri_clientId = ''app'', ri_user = run_profile, ri_resource = ''https://api'', ri_scopes = [''openid''],
     ri_authTime = 1, ri_ttlSeconds = 100 \<rparr>"

definition sample_state_input :: upstream_state_input where
  "sample_state_input = \<lparr> ui_clientId = ''app'', ui_redirectUri = ''https://app/cb'', ui_resource = ''https://api'',
     ui_scopes = [''openid''], ui_clientState = ''s'', ui_codeVerifier = replicate 43 CHR ''w'', ui_upstreamNonce = ''n'',
     ui_nonce = None, ui_codeChallenge = None, ui_methodS256 = False, ui_ttlSeconds = 60 \<rparr>"

definition sample_session :: mcp_session_record where
  "sample_session = \<lparr> ms_sessionIdHash = ''sid'', ms_clientId = ''app'', ms_protocolVersion = ''2025-11-25'', ms_createdAt = 1,
     ms_lastSeenAt = 1, ms_expiresAt = 100, ms_requestIdHashes = [], ms_initializedAt = None, ms_terminatedAt = None \<rparr>"

definition sample_before :: "(int \<times> disk_event) list" where
  "sample_before = [(1, CreateCode ''c'' sample_code_input),
     (2, CreateRefresh ''r'' ''family'' sample_refresh_input), (3, Rotate ''r'' ''app'' 100 None None ''r1''),
     (3, CreateRefresh ''q'' ''other'' sample_refresh_input),
     (4, CreateState ''u'' sample_state_input), (5, ConsumeState ''u''), (5, ConsumeState ''u''),
     (6, SaveSession sample_session), (7, Reserve ''sid'' ''one''), (7, Reserve ''sid'' ''one'')]"

definition sample_run :: "(int \<times> disk_event) list \<Rightarrow> disk_world \<Rightarrow> (disk_event \<times> disk_result) list \<times> disk_world" where
  "sample_run es w = the (disk_exec (\<lambda>t. t) es w)"

definition sample_world :: disk_world where "sample_world = snd (sample_run sample_before initial_disk_world)"

definition sample_trace :: "(disk_event \<times> disk_result) list" where "sample_trace = fst (sample_run sample_before initial_disk_world)"

lemma sample_run_ok:
  "disk_exec (\<lambda>t. t) es w \<noteq> None \<Longrightarrow> machine_run (disk_step (\<lambda>t. t)) w (fst (sample_run es w)) (snd (sample_run es w))"
  by (auto simp: sample_run_def intro: disk_exec_run)

lemma sample_trace_run: "machine_run (disk_step (\<lambda>t. t)) initial_disk_world sample_trace sample_world"
  unfolding sample_trace_def sample_world_def by (rule sample_run_ok) code_simp

lemma upstream_state_consumed_once_witness:
  "length (filter (state_won (\<lambda>t. t) ''u'') sample_trace) = 1"
proof -
  have "length (filter (state_won (\<lambda>t. t) ''u'') sample_trace) \<le> 1"
    by (rule upstream_state_consumed_once [OF sample_trace_run])
  moreover have "0 < length (filter (state_won (\<lambda>t. t) ''u'') sample_trace)" by code_simp
  ultimately show ?thesis by linarith
qed

lemma refresh_token_rotated_once_witness:
  "length (filter (refresh_won (\<lambda>t. t) ''r'') sample_trace) = 1"
proof -
  have "length (filter (refresh_won (\<lambda>t. t) ''r'') sample_trace) \<le> 1"
    by (rule refresh_token_rotated_once [OF sample_trace_run])
  moreover have "0 < length (filter (refresh_won (\<lambda>t. t) ''r'') sample_trace)" by code_simp
  ultimately show ?thesis by linarith
qed

lemma request_id_reserved_once_witness:
  "length (filter (request_won (''sid'', ''one'')) sample_trace) = 1"
proof -
  have "length (filter (request_won (''sid'', ''one'')) sample_trace) \<le> 1"
    by (rule request_id_reserved_once [OF sample_trace_run])
  moreover have "0 < length (filter (request_won (''sid'', ''one'')) sample_trace)" by code_simp
  ultimately show ?thesis by linarith
qed

definition sample_attempt :: disk_event where
  "sample_attempt = ConsumeCode ''c'' (Some (replicate 43 CHR ''v'')) sample_expectation"

definition sample_consumed :: auth_code_record where
  "sample_consumed = \<lparr> ac_codeHash = ''c'', ac_clientId = ''app'', ac_redirectUri = ''https://app/cb'', ac_resource = ''https://api'',
     ac_scopes = [''openid''], ac_nonce = None, ac_codeChallenge = Some (replicate 43 CHR ''v''), ac_methodS256 = True,
     ac_user = run_profile, ac_expiresAt = 61, ac_consumedAt = Some 8, ac_authTime = 1, ac_createdAt = 1 \<rparr>"

lemma code_consumed_once_witness:
  "length (filter (code_won (\<lambda>t. t) ''c'') (fst (sample_run (sample_before @ [(8, sample_attempt), (9, sample_attempt)]) initial_disk_world))) = 1"
proof -
  have "machine_run (disk_step (\<lambda>t. t)) initial_disk_world
      (fst (sample_run (sample_before @ [(8, sample_attempt), (9, sample_attempt)]) initial_disk_world))
      (snd (sample_run (sample_before @ [(8, sample_attempt), (9, sample_attempt)]) initial_disk_world))"
    by (rule sample_run_ok) code_simp
  then have "length (filter (code_won (\<lambda>t. t) ''c'') (fst (sample_run (sample_before @ [(8, sample_attempt), (9, sample_attempt)]) initial_disk_world))) \<le> 1"
    by (rule code_consumed_once)
  moreover have "0 < length (filter (code_won (\<lambda>t. t) ''c'') (fst (sample_run (sample_before @ [(8, sample_attempt), (9, sample_attempt)]) initial_disk_world)))"
    by code_simp
  ultimately show ?thesis by linarith
qed

lemma sample_attempt_result:
  "fst (sample_run (sample_before @ [(8, sample_attempt), (9, sample_attempt)]) initial_disk_world) =
    sample_trace @ (ConsumeCode ''c'' (Some (replicate 43 CHR ''v'')) sample_expectation, Code sample_consumed) # [(sample_attempt, Threw invalid_grant_error)]"
  by code_simp


lemma rotation_preserves_grant_witness:
  "\<exists>r. map_of (refreshTokens (dw_store sample_world)) ''r1'' = Some r \<and> rt_rotatedFromHash r = Some ''r'' \<and>
    (\<exists>t i. (CreateRefresh t (rt_familyId r) i, Done) \<in> set sample_trace \<and> rt_scopes r = ri_scopes i)"
proof -
  obtain r where r: "map_of (refreshTokens (dw_store sample_world)) ''r1'' = Some r" "rt_rotatedFromHash r = Some ''r''"
  proof -
    have "map_option rt_rotatedFromHash (map_of (refreshTokens (dw_store sample_world)) ''r1'') = Some (Some ''r'')" by code_simp
    then show thesis using that by auto
  qed
  from rotation_preserves_grant [OF sample_trace_run r(1)] r show ?thesis by auto
qed

text \<open>The rest of the run replays \<open>r\<close>, which revokes its family, and then uses another family.\<close>

definition sample_after :: "(int \<times> disk_event) list" where
  "sample_after = [(10, Rotate ''r1'' ''app'' 100 None None ''r2''), (11, Rotate ''q'' ''app'' 100 None None ''q1''),
     (12, Touch ''sid'' None True)]"

lemma replay_revokes_family_witness:
  "rt_familyId (the (map_of (refreshTokens (dw_store (snd (sample_run sample_after
     (snd (sample_run [(9, Rotate ''r'' ''app'' 100 None None ''r3'')] sample_world)))))) ''q'')) \<noteq> ''family'' \<and>
   fst (sample_run [(9, Rotate ''r'' ''app'' 100 None None ''r3'')] sample_world) = [(Rotate ''r'' ''app'' 100 None None ''r3'', Rotation Reused)]"
proof -
  let ?r = "sample_run [(9, Rotate ''r'' ''app'' 100 None None ''r3'')] sample_world"
  have run: "machine_run (disk_step (\<lambda>t. t)) sample_world (fst ?r) (snd ?r)"
    by (rule sample_run_ok) code_simp
  have "map fst (fst ?r) = [Rotate ''r'' ''app'' 100 None None ''r3'']" by code_simp
  then obtain res where res: "fst ?r = [(Rotate ''r'' ''app'' 100 None None ''r3'', res)]" by (auto simp: map_eq_Cons_conv)
  with run have step: "disk_step (\<lambda>t. t) (Rotate ''r'' ''app'' 100 None None ''r3'', res) sample_world (snd ?r)"
    by (auto elim!: machine_run_ConsE machine_run_NilE)
  have rest: "machine_run (disk_step (\<lambda>t. t)) (snd ?r) (fst (sample_run sample_after (snd ?r))) (snd (sample_run sample_after (snd ?r)))"
    by (rule sample_run_ok) code_simp
  let ?u = "the (map_of (refreshTokens (dw_store (snd (sample_run sample_after (snd ?r))))) ''q'')"
  have won: "(Rotate ''q'' ''app'' 100 None None ''q1'', Rotation (Rotated ?u ''q1'')) \<in> set (fst (sample_run sample_after (snd ?r)))"
    by code_simp
  define old where "old = the (map_of (refreshTokens (dw_store sample_world)) ''r'')"
  have earlier: "(Rotate ''r'' ''app'' 100 None None ''r1'', Rotation (Rotated old ''r1'')) \<in> set sample_trace"
    unfolding old_def by code_simp
  have old: "map_of (refreshTokens (dw_store sample_world)) ''r'' = Some old" "rt_familyId old = ''family''" "rt_revokedAt old = None"
    "dw_clock (snd ?r) < rt_expiresAt old" "rt_clientId old = ''app''"
    unfolding old_def by code_simp+
  from replay_revokes_family [OF sample_trace_run earlier step rest] old
  have "res = Rotation Reused"
    and later: "\<And>t' c' ttl' er' ar' n' u m. (Rotate t' c' ttl' er' ar' n', Rotation (Rotated u m)) \<in> set (fst (sample_run sample_after (snd ?r)))
      \<Longrightarrow> rt_familyId u \<noteq> ''family''"
    by (auto simp: truthy_time_def) blast
  then show ?thesis using later [OF won] res by simp
qed

lemma terminated_session_is_gone_witness:
  "snd (last (fst (sample_run sample_after (snd (sample_run [(9, Terminate ''sid'')] sample_world))))) = Threw session_not_found"
proof -
  let ?r = "sample_run [(9, Terminate ''sid'')] sample_world"
  let ?s = "sample_run sample_after (snd ?r)"
  have "machine_run (disk_step (\<lambda>t. t)) sample_world (fst ?r) (snd ?r)"
    by (rule sample_run_ok) code_simp
  moreover have "fst ?r = [(Terminate ''sid'', Done)]" by code_simp
  ultimately have step: "disk_step (\<lambda>t. t) (Terminate ''sid'', Done) sample_world (snd ?r)"
    by (auto elim!: machine_run_ConsE machine_run_NilE)
  have rest: "machine_run (disk_step (\<lambda>t. t)) (snd ?r) (fst ?s) (snd ?s)"
    by (rule sample_run_ok) code_simp
  have "(Touch ''sid'' None True, snd (last (fst ?s))) \<in> set (fst ?s)" by code_simp
  then show ?thesis
    by (rule terminated_session_is_gone [OF sample_trace_run step rest]) simp
qed

end
