(* ===== verification/Store_Codec.thy ===== *)
theory Store_Codec
  imports Disk_Store Json_Text
begin

text \<open>
  The rows of the store file: \<open>auth/storage/store-row-primitives.ts\<close>, \<open>store-row-time.ts\<close>, the five
  \<open>*-row.ts\<close> modules and \<open>store-codec.ts\<close>.  A row is a parsed JSON object; reading one checks every
  field, writing one leaves out absent fields.  The locale \<open>row_codec\<close> is what \<open>normalizeMap\<close> and
  \<open>serializeMap\<close> rely on, and each record type is an instance of it.
\<close>

section \<open>Primitives\<close>

definition malformed :: js_error where "malformed = PlainError ''store file is malformed''"

definition row_object :: "json option \<Rightarrow> string list \<Rightarrow> js_object outcome" where
  "row_object value allowedKeys = (case json_object value of
     None \<Rightarrow> Inl malformed
   | Some record \<Rightarrow> if list_ex (\<lambda>(key, v). \<not> List.member allowedKeys key) record then Inl malformed else Inr record)"

definition optionalText :: "js_object \<Rightarrow> string \<Rightarrow> string option outcome" where
  "optionalText record key = (case field record key of
     None \<Rightarrow> Inr None
   | Some (JStr v) \<Rightarrow> if trim v = [] then Inl malformed else Inr (Some v)
   | _ \<Rightarrow> Inl malformed)"

definition row_text :: "js_object \<Rightarrow> string \<Rightarrow> string outcome" where
  "row_text record key = (case field record key of
     Some (JStr v) \<Rightarrow> if trim v = [] then Inl malformed else Inr v
   | _ \<Rightarrow> Inl malformed)"

definition row_hash :: "js_object \<Rightarrow> string \<Rightarrow> string outcome" where
  "row_hash record key = bindr (row_text record key) (\<lambda>value. if \<not> is_hash value then Inl malformed else Inr value)"

definition optionalHash :: "js_object \<Rightarrow> string \<Rightarrow> string option outcome" where
  "optionalHash record key = bindr (optionalText record key) (\<lambda>value. case value of
     None \<Rightarrow> Inr None | Some v \<Rightarrow> if \<not> is_hash v then Inl malformed else Inr (Some v))"

definition row_seconds :: "js_object \<Rightarrow> string \<Rightarrow> int outcome" where
  "row_seconds record key = (case field record key of
     Some (JNum n) \<Rightarrow> if \<not> is_safe_integer n \<or> integer_value n < 0 then Inl malformed else Inr (integer_value n)
   | _ \<Rightarrow> Inl malformed)"

definition optionalSeconds :: "js_object \<Rightarrow> string \<Rightarrow> int option outcome" where
  "optionalSeconds record key = (case field record key of
     None \<Rightarrow> Inr None
   | Some (JNum n) \<Rightarrow> if \<not> is_safe_integer n \<or> integer_value n < 0 then Inl malformed else Inr (Some (integer_value n))
   | _ \<Rightarrow> Inl malformed)"

definition string_entries :: "(string \<Rightarrow> bool) \<Rightarrow> json option \<Rightarrow> string list outcome" where
  "string_entries good parsed = (case parsed of
     Some (JArr vs) \<Rightarrow> mapr (\<lambda>v. case v of JStr s \<Rightarrow> if good s then Inr s else Inl malformed | _ \<Rightarrow> Inl malformed) vs
   | _ \<Rightarrow> Inl malformed)"

definition row_scopes :: "js_object \<Rightarrow> string list outcome" where
  "row_scopes record = bindr (row_text record ''scopes_json'') (\<lambda>value.
     string_entries (\<lambda>s. trim s \<noteq> []) (json_parse value))"

definition methodS256 :: "js_object \<Rightarrow> string \<Rightarrow> bool outcome" where
  "methodS256 record key = (case field record key of
     None \<Rightarrow> Inr False
   | Some v \<Rightarrow> if v \<noteq> JStr ''S256'' then Inl malformed else Inr True)"

definition compactRow :: "(string \<times> json option) list \<Rightarrow> js_object" where
  "compactRow record = map (\<lambda>(k, v). (k, the v)) (filter (\<lambda>(k, v). v \<noteq> None) record)"

definition scopesJson :: "string list \<Rightarrow> string" where
  "scopesJson values = json_text (JArr (map JStr values))"

definition authTime :: "js_object \<Rightarrow> int \<Rightarrow> int outcome" where
  "authTime record createdAt = bindr (row_seconds record ''auth_time'') (\<lambda>value.
     if value > createdAt then Inl malformed else Inr value)"

definition orderedSeconds :: "js_object \<Rightarrow> string \<Rightarrow> int \<Rightarrow> int outcome" where
  "orderedSeconds record key least = bindr (row_seconds record key) (\<lambda>value.
     if value < least then Inl malformed else Inr value)"

definition optionalOrderedSeconds :: "js_object \<Rightarrow> string \<Rightarrow> int \<Rightarrow> int option outcome" where
  "optionalOrderedSeconds record key least = bindr (optionalSeconds record key) (\<lambda>value. case value of
     None \<Rightarrow> Inr None | Some v \<Rightarrow> if v < least then Inl malformed else Inr (Some v))"

definition row_nonce :: "js_object \<Rightarrow> string \<Rightarrow> string outcome" where
  "row_nonce record key = bindr (row_text record key) (\<lambda>value. if \<not> isOidcNonce value then Inl malformed else Inr value)"

definition optionalNonce :: "js_object \<Rightarrow> string \<Rightarrow> string option outcome" where
  "optionalNonce record key = bindr (optionalText record key) (\<lambda>value. case value of
     None \<Rightarrow> Inr None | Some v \<Rightarrow> if \<not> isOidcNonce v then Inl malformed else Inr (Some v))"

abbreviation opt_text :: "string option \<Rightarrow> json option" where "opt_text \<equiv> map_option JStr"
abbreviation opt_int :: "int option \<Rightarrow> json option" where "opt_int \<equiv> map_option JInt"
abbreviation method_text :: "bool \<Rightarrow> json option" where "method_text b \<equiv> (if b then Some (JStr ''S256'') else None)"

section \<open>Authorization codes\<close>

definition authorizationCodeKeys :: "string list" where
  "authorizationCodeKeys = [''code_hash'', ''client_id'', ''redirect_uri'', ''resource'', ''scopes_json'', ''nonce'',
     ''code_challenge'', ''code_challenge_method'', ''user_json'', ''expires_at'', ''consumed_at'', ''auth_time'', ''created_at'']"

definition authorizationCodeFromDisk :: "json option \<Rightarrow> auth_code_record outcome" where
  "authorizationCodeFromDisk value =
    bindr (row_object value authorizationCodeKeys) (\<lambda>record.
    bindr (row_seconds record ''created_at'') (\<lambda>createdAt.
    bindr (row_hash record ''code_hash'') (\<lambda>codeHash.
    bindr (row_text record ''client_id'') (\<lambda>clientId.
    bindr (row_text record ''redirect_uri'') (\<lambda>redirectUri.
    bindr (row_text record ''resource'') (\<lambda>resource.
    bindr (row_scopes record) (\<lambda>scopes.
    bindr (optionalNonce record ''nonce'') (\<lambda>nonce.
    bindr (optionalHash record ''code_challenge'') (\<lambda>challenge.
    bindr (methodS256 record ''code_challenge_method'') (\<lambda>method.
    bindr (row_text record ''user_json'') (\<lambda>userText.
    bindr (userProfileFromJson userText) (\<lambda>user.
    bindr (orderedSeconds record ''expires_at'' createdAt) (\<lambda>expiresAt.
    bindr (optionalOrderedSeconds record ''consumed_at'' createdAt) (\<lambda>consumedAt.
    bindr (authTime record createdAt) (\<lambda>authenticated.
      Inr \<lparr> ac_codeHash = codeHash, ac_clientId = clientId, ac_redirectUri = redirectUri, ac_resource = resource,
        ac_scopes = scopes, ac_nonce = nonce, ac_codeChallenge = challenge, ac_methodS256 = method, ac_user = user,
        ac_expiresAt = expiresAt, ac_consumedAt = consumedAt, ac_authTime = authenticated, ac_createdAt = createdAt \<rparr>)))))))))))))))"

definition authorizationCodeToDisk :: "auth_code_record \<Rightarrow> js_object outcome" where
  "authorizationCodeToDisk r = bindr (userProfileJson (ac_user r)) (\<lambda>user. Inr (compactRow
     [(''code_hash'', Some (JStr (ac_codeHash r))), (''client_id'', Some (JStr (ac_clientId r))),
      (''redirect_uri'', Some (JStr (ac_redirectUri r))), (''resource'', Some (JStr (ac_resource r))),
      (''scopes_json'', Some (JStr (scopesJson (ac_scopes r)))), (''nonce'', opt_text (ac_nonce r)),
      (''code_challenge'', opt_text (ac_codeChallenge r)), (''code_challenge_method'', method_text (ac_methodS256 r)),
      (''user_json'', Some (JStr user)), (''expires_at'', Some (JInt (ac_expiresAt r))),
      (''consumed_at'', opt_int (ac_consumedAt r)), (''auth_time'', Some (JInt (ac_authTime r))),
      (''created_at'', Some (JInt (ac_createdAt r)))]))"

section \<open>Refresh tokens\<close>

definition refreshTokenKeys :: "string list" where
  "refreshTokenKeys = [''token_hash'', ''family_id'', ''client_id'', ''user_json'', ''resource'', ''scopes_json'', ''expires_at'',
     ''auth_time'', ''rotated_from_hash'', ''revoked_at'', ''created_at'', ''last_used_at'']"

definition refreshTokenFromDisk :: "json option \<Rightarrow> refresh_token_record outcome" where
  "refreshTokenFromDisk value =
    bindr (row_object value refreshTokenKeys) (\<lambda>record.
    bindr (row_seconds record ''created_at'') (\<lambda>createdAt.
    bindr (row_hash record ''token_hash'') (\<lambda>tokenHash.
    bindr (row_text record ''family_id'') (\<lambda>familyId.
    bindr (row_text record ''client_id'') (\<lambda>clientId.
    bindr (row_text record ''user_json'') (\<lambda>userText.
    bindr (userProfileFromJson userText) (\<lambda>user.
    bindr (row_text record ''resource'') (\<lambda>resource.
    bindr (row_scopes record) (\<lambda>scopes.
    bindr (orderedSeconds record ''expires_at'' createdAt) (\<lambda>expiresAt.
    bindr (authTime record createdAt) (\<lambda>authenticated.
    bindr (optionalHash record ''rotated_from_hash'') (\<lambda>rotatedFrom.
    bindr (optionalOrderedSeconds record ''revoked_at'' createdAt) (\<lambda>revokedAt.
    bindr (optionalOrderedSeconds record ''last_used_at'' createdAt) (\<lambda>lastUsedAt.
      Inr \<lparr> rt_tokenHash = tokenHash, rt_familyId = familyId, rt_clientId = clientId, rt_user = user, rt_resource = resource,
        rt_scopes = scopes, rt_expiresAt = expiresAt, rt_authTime = authenticated, rt_rotatedFromHash = rotatedFrom,
        rt_revokedAt = revokedAt, rt_createdAt = createdAt, rt_lastUsedAt = lastUsedAt \<rparr>))))))))))))))"

definition refreshTokenToDisk :: "refresh_token_record \<Rightarrow> js_object outcome" where
  "refreshTokenToDisk r = bindr (userProfileJson (rt_user r)) (\<lambda>user. Inr (compactRow
     [(''token_hash'', Some (JStr (rt_tokenHash r))), (''family_id'', Some (JStr (rt_familyId r))),
      (''client_id'', Some (JStr (rt_clientId r))), (''user_json'', Some (JStr user)),
      (''resource'', Some (JStr (rt_resource r))), (''scopes_json'', Some (JStr (scopesJson (rt_scopes r)))),
      (''expires_at'', Some (JInt (rt_expiresAt r))), (''auth_time'', Some (JInt (rt_authTime r))),
      (''rotated_from_hash'', opt_text (rt_rotatedFromHash r)), (''revoked_at'', opt_int (rt_revokedAt r)),
      (''created_at'', Some (JInt (rt_createdAt r))), (''last_used_at'', opt_int (rt_lastUsedAt r))]))"

section \<open>Upstream authorization states\<close>

definition upstreamStateKeys :: "string list" where
  "upstreamStateKeys = [''state_hash'', ''client_id'', ''redirect_uri'', ''resource'', ''scopes_json'', ''client_state'',
     ''code_verifier'', ''upstream_nonce'', ''nonce'', ''code_challenge'', ''code_challenge_method'', ''expires_at'', ''created_at'']"

definition upstreamAuthorizationStateFromDisk :: "json option \<Rightarrow> upstream_state_record outcome" where
  "upstreamAuthorizationStateFromDisk value =
    bindr (row_object value upstreamStateKeys) (\<lambda>record.
    bindr (row_seconds record ''created_at'') (\<lambda>createdAt.
    bindr (row_hash record ''state_hash'') (\<lambda>stateHash.
    bindr (row_text record ''client_id'') (\<lambda>clientId.
    bindr (row_text record ''redirect_uri'') (\<lambda>redirectUri.
    bindr (row_text record ''resource'') (\<lambda>resource.
    bindr (row_scopes record) (\<lambda>scopes.
    bindr (row_text record ''client_state'') (\<lambda>clientState.
    bindr (row_text record ''code_verifier'') (\<lambda>codeVerifier.
    bindr (row_nonce record ''upstream_nonce'') (\<lambda>upstreamNonce.
    bindr (optionalNonce record ''nonce'') (\<lambda>nonce.
    bindr (optionalHash record ''code_challenge'') (\<lambda>challenge.
    bindr (methodS256 record ''code_challenge_method'') (\<lambda>method.
    bindr (orderedSeconds record ''expires_at'' createdAt) (\<lambda>expiresAt.
      Inr \<lparr> us_stateHash = stateHash, us_clientId = clientId, us_redirectUri = redirectUri, us_resource = resource,
        us_scopes = scopes, us_clientState = clientState, us_codeVerifier = codeVerifier, us_upstreamNonce = upstreamNonce,
        us_nonce = nonce, us_codeChallenge = challenge, us_methodS256 = method, us_expiresAt = expiresAt,
        us_createdAt = createdAt \<rparr>))))))))))))))"

definition upstreamAuthorizationStateToDisk :: "upstream_state_record \<Rightarrow> js_object outcome" where
  "upstreamAuthorizationStateToDisk r = Inr (compactRow
     [(''state_hash'', Some (JStr (us_stateHash r))), (''client_id'', Some (JStr (us_clientId r))),
      (''redirect_uri'', Some (JStr (us_redirectUri r))), (''resource'', Some (JStr (us_resource r))),
      (''scopes_json'', Some (JStr (scopesJson (us_scopes r)))), (''client_state'', Some (JStr (us_clientState r))),
      (''code_verifier'', Some (JStr (us_codeVerifier r))), (''upstream_nonce'', Some (JStr (us_upstreamNonce r))),
      (''nonce'', opt_text (us_nonce r)), (''code_challenge'', opt_text (us_codeChallenge r)),
      (''code_challenge_method'', method_text (us_methodS256 r)), (''expires_at'', Some (JInt (us_expiresAt r))),
      (''created_at'', Some (JInt (us_createdAt r)))])"

section \<open>MCP sessions\<close>

definition mcpSessionKeys :: "string list" where
  "mcpSessionKeys = [''session_id_hash'', ''client_id'', ''protocol_version'', ''created_at'', ''last_seen_at'', ''expires_at'',
     ''request_id_hashes_json'', ''initialized_at'', ''terminated_at'']"

definition requestIdHashes :: "js_object \<Rightarrow> string list outcome" where
  "requestIdHashes record = (case field record ''request_id_hashes_json'' of
     None \<Rightarrow> Inr []
   | Some (JStr value) \<Rightarrow> string_entries is_hash (json_parse value)
   | _ \<Rightarrow> Inl malformed)"

definition mcpSessionFromDisk :: "json option \<Rightarrow> mcp_session_record outcome" where
  "mcpSessionFromDisk value =
    bindr (row_object value mcpSessionKeys) (\<lambda>record.
    bindr (row_seconds record ''created_at'') (\<lambda>createdAt.
    bindr (row_hash record ''session_id_hash'') (\<lambda>sessionIdHash.
    bindr (row_text record ''client_id'') (\<lambda>clientId.
    bindr (row_text record ''protocol_version'') (\<lambda>protocolVersion.
    bindr (orderedSeconds record ''last_seen_at'' createdAt) (\<lambda>lastSeenAt.
    bindr (orderedSeconds record ''expires_at'' createdAt) (\<lambda>expiresAt.
    bindr (requestIdHashes record) (\<lambda>hashes.
    bindr (optionalOrderedSeconds record ''initialized_at'' createdAt) (\<lambda>initializedAt.
    bindr (optionalOrderedSeconds record ''terminated_at'' createdAt) (\<lambda>terminatedAt.
      Inr \<lparr> ms_sessionIdHash = sessionIdHash, ms_clientId = clientId, ms_protocolVersion = protocolVersion,
        ms_createdAt = createdAt, ms_lastSeenAt = lastSeenAt, ms_expiresAt = expiresAt, ms_requestIdHashes = hashes,
        ms_initializedAt = initializedAt, ms_terminatedAt = terminatedAt \<rparr>))))))))))"

definition mcpSessionToDisk :: "mcp_session_record \<Rightarrow> js_object outcome" where
  "mcpSessionToDisk r = Inr (compactRow
     [(''session_id_hash'', Some (JStr (ms_sessionIdHash r))), (''client_id'', Some (JStr (ms_clientId r))),
      (''protocol_version'', Some (JStr (ms_protocolVersion r))), (''created_at'', Some (JInt (ms_createdAt r))),
      (''last_seen_at'', Some (JInt (ms_lastSeenAt r))), (''expires_at'', Some (JInt (ms_expiresAt r))),
      (''request_id_hashes_json'', if length (ms_requestIdHashes r) > 0
         then Some (JStr (json_text (JArr (map JStr (ms_requestIdHashes r))))) else None),
      (''initialized_at'', opt_int (ms_initializedAt r)), (''terminated_at'', opt_int (ms_terminatedAt r))])"

section \<open>Rate-limit counters\<close>

definition rateLimitKeys :: "string list" where
  "rateLimitKeys = [''window_start'', ''previous_count'', ''current_count'', ''expires_at'']"

definition rateLimitFromDisk :: "json option \<Rightarrow> rate_limit_record outcome" where
  "rateLimitFromDisk value =
    bindr (row_object value rateLimitKeys) (\<lambda>record.
    bindr (row_seconds record ''window_start'') (\<lambda>windowStart.
    bindr (row_seconds record ''previous_count'') (\<lambda>previousCount.
    bindr (row_seconds record ''current_count'') (\<lambda>currentCount.
    bindr (row_seconds record ''expires_at'') (\<lambda>expiresAt.
      Inr \<lparr> rl_windowStart = windowStart, rl_previousCount = previousCount, rl_currentCount = currentCount,
        rl_expiresAt = expiresAt \<rparr>)))))"

definition rateLimitToDisk :: "rate_limit_record \<Rightarrow> js_object outcome" where
  "rateLimitToDisk r = Inr
     [(''window_start'', JInt (rl_windowStart r)), (''previous_count'', JInt (rl_previousCount r)),
      (''current_count'', JInt (rl_currentCount r)), (''expires_at'', JInt (rl_expiresAt r))]"

section \<open>The store\<close>

definition mapKey :: "string \<Rightarrow> string outcome" where
  "mapKey value = (if \<not> is_hash value then Inl malformed else Inr value)"

definition normalizeMap :: "(json option \<Rightarrow> 'r outcome) \<Rightarrow> json option \<Rightarrow> (string \<times> 'r) list outcome" where
  "normalizeMap from_row value = (if value = None then Inr [] else (case json_object value of
     None \<Rightarrow> Inl malformed
   | Some entries \<Rightarrow> mapr (\<lambda>(key, entry). bindr (mapKey key) (\<lambda>k. bindr (from_row (Some entry)) (\<lambda>r. Inr (k, r)))) entries))"

definition serializeMap :: "('r \<Rightarrow> js_object outcome) \<Rightarrow> (string \<times> 'r) list \<Rightarrow> json outcome" where
  "serializeMap to_row value = bindr (mapr (\<lambda>(key, entry).
     bindr (mapKey key) (\<lambda>k. bindr (to_row entry) (\<lambda>r. Inr (k, JObj r)))) value) (\<lambda>entries. Inr (JObj entries))"

definition storeKeys :: "string list" where
  "storeKeys = [''authorizationCodes'', ''refreshTokens'', ''upstreamAuthorizationStates'', ''mcpSessions'', ''rateLimits'']"

definition normalizeStore :: "json option \<Rightarrow> store_state outcome" where
  "normalizeStore value =
    bindr (row_object value storeKeys) (\<lambda>record.
    bindr (normalizeMap authorizationCodeFromDisk (field record ''authorizationCodes'')) (\<lambda>codes.
    bindr (normalizeMap refreshTokenFromDisk (field record ''refreshTokens'')) (\<lambda>tokens.
    bindr (normalizeMap upstreamAuthorizationStateFromDisk (field record ''upstreamAuthorizationStates'')) (\<lambda>states.
    bindr (normalizeMap mcpSessionFromDisk (field record ''mcpSessions'')) (\<lambda>sessions.
    bindr (normalizeMap rateLimitFromDisk (field record ''rateLimits'')) (\<lambda>limits.
      Inr \<lparr> authorizationCodes = codes, refreshTokens = tokens, upstreamStates = states, mcpSessions = sessions,
        rateLimits = limits \<rparr>))))))"

definition serializeStore :: "store_state \<Rightarrow> json outcome" where
  "serializeStore st =
    bindr (serializeMap authorizationCodeToDisk (authorizationCodes st)) (\<lambda>codes.
    bindr (serializeMap refreshTokenToDisk (refreshTokens st)) (\<lambda>tokens.
    bindr (serializeMap upstreamAuthorizationStateToDisk (upstreamStates st)) (\<lambda>states.
    bindr (serializeMap mcpSessionToDisk (mcpSessions st)) (\<lambda>sessions.
    bindr (serializeMap rateLimitToDisk (rateLimits st)) (\<lambda>limits.
      Inr (JObj [(''authorizationCodes'', codes), (''refreshTokens'', tokens), (''upstreamAuthorizationStates'', states),
        (''mcpSessions'', sessions), (''rateLimits'', limits)]))))))"

section \<open>The laws of a row\<close>

lemma set_alist_update: "set (AList.update k v al) \<subseteq> insert (k, v) (set al)"
  by (induction al) auto

text \<open>A record that its \<open>ok\<close> accepts is written, and the row is read back as the same record.\<close>

locale row_codec =
  fixes from_disk :: "json option \<Rightarrow> 'r outcome"
    and to_disk :: "'r \<Rightarrow> js_object outcome"
    and ok :: "'r \<Rightarrow> bool"
  assumes written: "ok r \<Longrightarrow> \<exists>row. to_disk r = Inr row \<and> printable (JObj row) \<and> from_disk (Some (JObj row)) = Inr r"
begin

definition table_ok :: "(string \<times> 'r) list \<Rightarrow> bool" where
  "table_ok t = (distinct (map fst t) \<and> (\<forall>(h, r)\<in>set t. is_hash h \<and> ok r))"

lemma table_okD: "table_ok t \<Longrightarrow> map_of t h = Some r \<Longrightarrow> is_hash h \<and> ok r"
  unfolding table_ok_def by (auto dest!: map_of_SomeD)

lemma table_ok_update: "table_ok t \<Longrightarrow> is_hash h \<Longrightarrow> ok r \<Longrightarrow> table_ok (AList.update h r t)"
  unfolding table_ok_def by (auto simp: distinct_update dest!: set_mp [OF set_alist_update])

lemma table_ok_filter: "table_ok t \<Longrightarrow> table_ok (filter P t)"
  unfolding table_ok_def by auto

lemma table_ok_delete: "table_ok t \<Longrightarrow> table_ok (AList.delete h t)"
  unfolding AList.delete_eq by (rule table_ok_filter)

lemma table_ok_map:
  "table_ok t \<Longrightarrow> (\<And>h r. ok r \<Longrightarrow> ok (f r)) \<Longrightarrow> table_ok (map (\<lambda>(h, r). (h, f r)) t)"
  unfolding table_ok_def by (auto simp: comp_def case_prod_beta')

lemma table_round_trip:
  assumes "table_ok t"
  shows "\<exists>v. serializeMap to_disk t = Inr v \<and> printable v \<and> normalizeMap from_disk (Some v) = Inr t"
proof -
  have "\<exists>kvs. mapr (\<lambda>(key, entry). bindr (mapKey key) (\<lambda>k. bindr (to_disk entry) (\<lambda>r. Inr (k, JObj r)))) t = Inr kvs \<and>
      map fst kvs = map fst t \<and> (\<forall>kv\<in>set kvs. printable (snd kv)) \<and>
      mapr (\<lambda>(key, entry). bindr (mapKey key) (\<lambda>k. bindr (from_disk (Some entry)) (\<lambda>r. Inr (k, r)))) kvs = Inr t"
    using assms
  proof (induction t)
    case (Cons kv t)
    obtain k r where kv: "kv = (k, r)" by (cases kv)
    have ok: "is_hash k" "ok r" "table_ok t" using Cons.prems kv by (auto simp: table_ok_def)
    obtain row where "to_disk r = Inr row" "printable (JObj row)" "from_disk (Some (JObj row)) = Inr r"
      using written [OF ok(2)] by blast
    moreover obtain kvs where "mapr (\<lambda>(key, entry). bindr (mapKey key) (\<lambda>k. bindr (to_disk entry) (\<lambda>r. Inr (k, JObj r)))) t = Inr kvs"
      "map fst kvs = map fst t" "\<forall>kv\<in>set kvs. printable (snd kv)"
      "mapr (\<lambda>(key, entry). bindr (mapKey key) (\<lambda>k. bindr (from_disk (Some entry)) (\<lambda>r. Inr (k, r)))) kvs = Inr t"
      using Cons.IH [OF ok(3)] by blast
    ultimately show ?case
      using ok(1) kv by (intro exI [of _ "(k, JObj row) # kvs"]) (simp add: mapKey_def)
  qed simp
  with assms show ?thesis
    by (fastforce simp: serializeMap_def normalizeMap_def table_ok_def)
qed

end

section \<open>Fields\<close>

lemma field_compactRow:
  "distinct (map fst kvs) \<Longrightarrow> field (compactRow kvs) k = (case map_of kvs k of None \<Rightarrow> None | Some v \<Rightarrow> v)"
proof (induction kvs)
  case (Cons kv kvs)
  then show ?case
    by (cases kv; cases "snd kv") (auto simp: compactRow_def map_of_eq_None_iff image_iff split: option.splits)
qed (simp add: compactRow_def)

lemma keys_compactRow: "set (map fst (compactRow kvs)) \<subseteq> set (map fst kvs)"
  by (auto simp: compactRow_def image_iff) force

lemma distinct_compactRow: "distinct (map fst kvs) \<Longrightarrow> distinct (map fst (compactRow kvs))"
  by (simp add: compactRow_def comp_def case_prod_beta' distinct_map_filter)

lemma printable_compactRow:
  "distinct (map fst kvs) \<Longrightarrow> list_all (\<lambda>(k, v). case v of None \<Rightarrow> True | Some w \<Rightarrow> printable w) kvs \<Longrightarrow> printable (JObj (compactRow kvs))"
  using distinct_compactRow [of kvs] by (fastforce simp: compactRow_def list_all_iff split: option.splits)

lemma row_object_compactRow:
  "list_all (\<lambda>(k, v). k \<in> set keys) kvs \<Longrightarrow> row_object (Some (JObj (compactRow kvs))) keys = Inr (compactRow kvs)"
  using keys_compactRow [of kvs] by (fastforce simp: row_object_def list_ex_iff list_all_iff)

definition blank :: "string \<Rightarrow> bool" where "blank s = (trim s = [])"

definition seconds_ok :: "int \<Rightarrow> bool" where "seconds_ok n = (0 \<le> n \<and> n \<le> max_safe_integer)"

lemma hash_not_blank: "is_hash s \<Longrightarrow> trim s \<noteq> []"
proof -
  assume s: "is_hash s"
  then have "s \<noteq> []" "\<not> is_ws (hd s)" by (cases s; auto simp: is_hash_def is_base64url_char_def is_alnum_def is_digit_def is_upper_def is_lower_def is_ws_def)+
  then show ?thesis by (intro trim_not_blank [of "hd s"]) auto
qed

lemma nonce_not_blank: "isOidcNonce s \<Longrightarrow> trim s \<noteq> []"
proof -
  assume s: "isOidcNonce s"
  then have "s \<noteq> []" "\<not> is_ws (hd s)" by (cases s; auto simp: isOidcNonce_def is_unreserved_def is_alnum_def is_digit_def is_upper_def is_lower_def is_ws_def)+
  then show ?thesis by (intro trim_not_blank [of "hd s"]) auto
qed

lemma field_reads:
  "field rec k = Some (JStr s) \<Longrightarrow> \<not> blank s \<Longrightarrow> row_text rec k = Inr s"
  "field rec k = Some (JStr s) \<Longrightarrow> is_hash s \<Longrightarrow> row_hash rec k = Inr s"
  "field rec k = Some (JStr s) \<Longrightarrow> isOidcNonce s \<Longrightarrow> row_nonce rec k = Inr s"
  "field rec k = opt_text x \<Longrightarrow> pred_option is_hash x \<Longrightarrow> optionalHash rec k = Inr x"
  "field rec k = opt_text x \<Longrightarrow> pred_option isOidcNonce x \<Longrightarrow> optionalNonce rec k = Inr x"
  "field rec k = Some (JInt n) \<Longrightarrow> seconds_ok n \<Longrightarrow> row_seconds rec k = Inr n"
  "field rec k = Some (JInt n) \<Longrightarrow> seconds_ok n \<Longrightarrow> m \<le> n \<Longrightarrow> orderedSeconds rec k m = Inr n"
  "field rec ''auth_time'' = Some (JInt n) \<Longrightarrow> seconds_ok n \<Longrightarrow> n \<le> m \<Longrightarrow> authTime rec m = Inr n"
  "field rec k = opt_int y \<Longrightarrow> pred_option seconds_ok y \<Longrightarrow> pred_option (\<lambda>n. m \<le> n) y \<Longrightarrow> optionalOrderedSeconds rec k m = Inr y"
  "field rec k = method_text b \<Longrightarrow> methodS256 rec k = Inr b"
  by (auto simp: row_text_def row_hash_def row_nonce_def optionalHash_def optionalNonce_def optionalText_def row_seconds_def
      orderedSeconds_def authTime_def optionalOrderedSeconds_def optionalSeconds_def methodS256_def blank_def seconds_ok_def
      hash_not_blank nonce_not_blank split: option.splits)

lemma string_entries_map:
  "list_all good ss \<Longrightarrow> string_entries good (Some (JArr (map JStr ss))) = Inr ss"
proof -
  assume "list_all good ss"
  then have "mapr (\<lambda>v. case v of JStr s \<Rightarrow> if good s then Inr s else Inl malformed | _ \<Rightarrow> Inl malformed) (map JStr ss) = Inr ss"
    by (induction ss) auto
  then show ?thesis by (simp add: string_entries_def)
qed

lemma bracket_not_blank: "\<not> blank (CHR ''['' # s)"
  unfolding blank_def by (rule trim_not_blank [of "CHR ''[''"]) (simp, code_simp)

lemma array_text_not_blank: "\<not> blank (json_text (JArr vs))"
  by (cases vs) (simp_all add: bracket_not_blank del: json_text.simps(4))

lemma profile_text_read: "profile_ok u \<Longrightarrow> \<not> blank (json_text (profile_json u))"
  by (simp add: blank_def profile_text_not_blank del: json_text.simps)

lemma row_scopes_read:
  "field rec ''scopes_json'' = Some (JStr (scopesJson ss)) \<Longrightarrow> list_all (\<lambda>s. \<not> blank s) ss \<Longrightarrow> row_scopes rec = Inr ss"
  using field_reads(1) [of rec "''scopes_json''" "scopesJson ss"] array_text_not_blank [of "map JStr ss"]
  by (simp add: row_scopes_def scopesJson_def string_entries_map blank_def del: json_text.simps)

section \<open>Storable records\<close>

abbreviation texts_ok :: "string list \<Rightarrow> bool" where "texts_ok \<equiv> list_all (\<lambda>s. \<not> blank s)"
abbreviation since :: "int \<Rightarrow> int option \<Rightarrow> bool" where
  "since m t \<equiv> pred_option (\<lambda>n. seconds_ok n \<and> m \<le> n) t"

definition code_storable :: "auth_code_record \<Rightarrow> bool" where
  "code_storable r = (is_hash (ac_codeHash r) \<and> texts_ok [ac_clientId r, ac_redirectUri r, ac_resource r] \<and> texts_ok (ac_scopes r) \<and>
     pred_option isOidcNonce (ac_nonce r) \<and> pred_option is_hash (ac_codeChallenge r) \<and> profile_ok (ac_user r) \<and>
     seconds_ok (ac_createdAt r) \<and> seconds_ok (ac_expiresAt r) \<and> ac_createdAt r \<le> ac_expiresAt r \<and>
     since (ac_createdAt r) (ac_consumedAt r) \<and> seconds_ok (ac_authTime r) \<and> ac_authTime r \<le> ac_createdAt r)"

definition refresh_storable :: "refresh_token_record \<Rightarrow> bool" where
  "refresh_storable r = (is_hash (rt_tokenHash r) \<and> texts_ok [rt_familyId r, rt_clientId r, rt_resource r] \<and> texts_ok (rt_scopes r) \<and>
     profile_ok (rt_user r) \<and> pred_option is_hash (rt_rotatedFromHash r) \<and>
     seconds_ok (rt_createdAt r) \<and> seconds_ok (rt_expiresAt r) \<and> rt_createdAt r \<le> rt_expiresAt r \<and>
     since (rt_createdAt r) (rt_revokedAt r) \<and> since (rt_createdAt r) (rt_lastUsedAt r) \<and>
     seconds_ok (rt_authTime r) \<and> rt_authTime r \<le> rt_createdAt r)"

definition state_storable :: "upstream_state_record \<Rightarrow> bool" where
  "state_storable r = (is_hash (us_stateHash r) \<and>
     texts_ok [us_clientId r, us_redirectUri r, us_resource r, us_clientState r, us_codeVerifier r] \<and> texts_ok (us_scopes r) \<and>
     isOidcNonce (us_upstreamNonce r) \<and> pred_option isOidcNonce (us_nonce r) \<and> pred_option is_hash (us_codeChallenge r) \<and>
     seconds_ok (us_createdAt r) \<and> seconds_ok (us_expiresAt r) \<and> us_createdAt r \<le> us_expiresAt r)"

definition session_storable :: "mcp_session_record \<Rightarrow> bool" where
  "session_storable r = (is_hash (ms_sessionIdHash r) \<and> texts_ok [ms_clientId r, ms_protocolVersion r] \<and>
     list_all is_hash (ms_requestIdHashes r) \<and> seconds_ok (ms_createdAt r) \<and> seconds_ok (ms_lastSeenAt r) \<and>
     ms_createdAt r \<le> ms_lastSeenAt r \<and> seconds_ok (ms_expiresAt r) \<and> ms_createdAt r \<le> ms_expiresAt r \<and>
     since (ms_createdAt r) (ms_initializedAt r) \<and> since (ms_createdAt r) (ms_terminatedAt r))"

definition limit_storable :: "rate_limit_record \<Rightarrow> bool" where
  "limit_storable r = (seconds_ok (rl_windowStart r) \<and> seconds_ok (rl_previousCount r) \<and> seconds_ok (rl_currentCount r) \<and>
     seconds_ok (rl_expiresAt r))"

lemma option_conj_pred:
  "pred_option (\<lambda>x. P x \<and> Q x) t \<longleftrightarrow> pred_option P t \<and> pred_option Q t"
  by (cases t) auto

lemma seconds_printable: "seconds_ok n \<Longrightarrow> printable (JInt n)"
  by (simp add: seconds_ok_def max_safe_integer_def)

lemmas row_reads = row_object_compactRow field_reads row_scopes_read bindr_Inr

interpretation codes: row_codec authorizationCodeFromDisk authorizationCodeToDisk code_storable
proof
  fix r assume r: "code_storable r"
  let ?user = "json_text (profile_json (ac_user r))"
  define kvs where "kvs =
     [(''code_hash'', Some (JStr (ac_codeHash r))), (''client_id'', Some (JStr (ac_clientId r))),
      (''redirect_uri'', Some (JStr (ac_redirectUri r))), (''resource'', Some (JStr (ac_resource r))),
      (''scopes_json'', Some (JStr (scopesJson (ac_scopes r)))), (''nonce'', opt_text (ac_nonce r)),
      (''code_challenge'', opt_text (ac_codeChallenge r)), (''code_challenge_method'', method_text (ac_methodS256 r)),
      (''user_json'', Some (JStr ?user)), (''expires_at'', Some (JInt (ac_expiresAt r))),
      (''consumed_at'', opt_int (ac_consumedAt r)), (''auth_time'', Some (JInt (ac_authTime r))),
      (''created_at'', Some (JInt (ac_createdAt r)))]"
  have ok: "profile_ok (ac_user r)" using r by (simp add: code_storable_def)
  then have row: "authorizationCodeToDisk r = Inr (compactRow kvs)"
    by (simp add: authorizationCodeToDisk_def userProfileJson_ok kvs_def)
  have keys: "distinct (map fst kvs)" by (simp add: kvs_def)
  note look = field_compactRow [OF keys]
  have "list_all (\<lambda>(k, v). k \<in> set authorizationCodeKeys) kvs"
    by (simp add: kvs_def authorizationCodeKeys_def)
  moreover have "field (compactRow kvs) ''code_hash'' = Some (JStr (ac_codeHash r))"
     "field (compactRow kvs) ''client_id'' = Some (JStr (ac_clientId r))"
     "field (compactRow kvs) ''redirect_uri'' = Some (JStr (ac_redirectUri r))" 
     "field (compactRow kvs) ''resource'' = Some (JStr (ac_resource r))"
     "field (compactRow kvs) ''scopes_json'' = Some (JStr (scopesJson (ac_scopes r)))" 
     "field (compactRow kvs) ''nonce'' = opt_text (ac_nonce r)"
     "field (compactRow kvs) ''code_challenge'' = opt_text (ac_codeChallenge r)"
     "field (compactRow kvs) ''code_challenge_method'' = method_text (ac_methodS256 r)"
     "field (compactRow kvs) ''user_json'' = Some (JStr ?user)" 
     "field (compactRow kvs) ''expires_at'' = Some (JInt (ac_expiresAt r))"
     "field (compactRow kvs) ''consumed_at'' = opt_int (ac_consumedAt r)"
     "field (compactRow kvs) ''auth_time'' = Some (JInt (ac_authTime r))"
     "field (compactRow kvs) ''created_at'' = Some (JInt (ac_createdAt r))"
    unfolding look by (simp_all add: kvs_def)
  ultimately have "authorizationCodeFromDisk (Some (JObj (compactRow kvs))) = Inr r"
    using r ok unfolding authorizationCodeFromDisk_def code_storable_def option_conj_pred
    by (simp add: row_reads profile_text_read userProfileFromJson_ok del: json_text.simps)
  moreover have "printable (JObj (compactRow kvs))"
    using r by (intro printable_compactRow keys)
      (auto simp: kvs_def code_storable_def option_conj_pred seconds_printable simp del: printable.simps(3) split: option.splits)
  ultimately show "\<exists>row. authorizationCodeToDisk r = Inr row \<and> printable (JObj row) \<and> authorizationCodeFromDisk (Some (JObj row)) = Inr r"
    using row by blast
qed

interpretation refresh: row_codec refreshTokenFromDisk refreshTokenToDisk refresh_storable
proof
  fix r assume r: "refresh_storable r"
  let ?user = "json_text (profile_json (rt_user r))"
  define kvs where "kvs =
     [(''token_hash'', Some (JStr (rt_tokenHash r))), (''family_id'', Some (JStr (rt_familyId r))),
      (''client_id'', Some (JStr (rt_clientId r))), (''user_json'', Some (JStr ?user)),
      (''resource'', Some (JStr (rt_resource r))), (''scopes_json'', Some (JStr (scopesJson (rt_scopes r)))),
      (''expires_at'', Some (JInt (rt_expiresAt r))), (''auth_time'', Some (JInt (rt_authTime r))),
      (''rotated_from_hash'', opt_text (rt_rotatedFromHash r)), (''revoked_at'', opt_int (rt_revokedAt r)),
      (''created_at'', Some (JInt (rt_createdAt r))), (''last_used_at'', opt_int (rt_lastUsedAt r))]"
  have ok: "profile_ok (rt_user r)" using r by (simp add: refresh_storable_def)
  then have row: "refreshTokenToDisk r = Inr (compactRow kvs)"
    by (simp add: refreshTokenToDisk_def userProfileJson_ok kvs_def)
  have keys: "distinct (map fst kvs)" by (simp add: kvs_def)
  note look = field_compactRow [OF keys]
  have "list_all (\<lambda>(k, v). k \<in> set refreshTokenKeys) kvs"
    by (simp add: kvs_def refreshTokenKeys_def)
  moreover have
     "field (compactRow kvs) ''token_hash'' = (Some (JStr (rt_tokenHash r)))"
     "field (compactRow kvs) ''family_id'' = (Some (JStr (rt_familyId r)))"
     "field (compactRow kvs) ''client_id'' = (Some (JStr (rt_clientId r)))"
     "field (compactRow kvs) ''user_json'' = (Some (JStr ?user))"
     "field (compactRow kvs) ''resource'' = (Some (JStr (rt_resource r)))"
     "field (compactRow kvs) ''scopes_json'' = (Some (JStr (scopesJson (rt_scopes r))))"
     "field (compactRow kvs) ''expires_at'' = (Some (JInt (rt_expiresAt r)))"
     "field (compactRow kvs) ''auth_time'' = (Some (JInt (rt_authTime r)))"
     "field (compactRow kvs) ''rotated_from_hash'' = (opt_text (rt_rotatedFromHash r))"
     "field (compactRow kvs) ''revoked_at'' = (opt_int (rt_revokedAt r))"
     "field (compactRow kvs) ''created_at'' = (Some (JInt (rt_createdAt r)))"
     "field (compactRow kvs) ''last_used_at'' = (opt_int (rt_lastUsedAt r))"
    unfolding look by (simp_all add: kvs_def)
  ultimately have "refreshTokenFromDisk (Some (JObj (compactRow kvs))) = Inr r"
    using r ok unfolding refreshTokenFromDisk_def refresh_storable_def option_conj_pred
    by (simp add: row_reads profile_text_read userProfileFromJson_ok del: json_text.simps)
  moreover have "printable (JObj (compactRow kvs))"
    using r by (intro printable_compactRow keys)
      (auto simp: kvs_def refresh_storable_def option_conj_pred seconds_printable simp del: printable.simps(3) split: option.splits)
  ultimately show "\<exists>row. refreshTokenToDisk r = Inr row \<and> printable (JObj row) \<and> refreshTokenFromDisk (Some (JObj row)) = Inr r"
    using row by blast
qed

interpretation upstream: row_codec upstreamAuthorizationStateFromDisk upstreamAuthorizationStateToDisk state_storable
proof
  fix r assume r: "state_storable r"
  define kvs where "kvs =
     [(''state_hash'', Some (JStr (us_stateHash r))), (''client_id'', Some (JStr (us_clientId r))),
      (''redirect_uri'', Some (JStr (us_redirectUri r))), (''resource'', Some (JStr (us_resource r))),
      (''scopes_json'', Some (JStr (scopesJson (us_scopes r)))), (''client_state'', Some (JStr (us_clientState r))),
      (''code_verifier'', Some (JStr (us_codeVerifier r))), (''upstream_nonce'', Some (JStr (us_upstreamNonce r))),
      (''nonce'', opt_text (us_nonce r)), (''code_challenge'', opt_text (us_codeChallenge r)),
      (''code_challenge_method'', method_text (us_methodS256 r)), (''expires_at'', Some (JInt (us_expiresAt r))),
      (''created_at'', Some (JInt (us_createdAt r)))]"
  have row: "upstreamAuthorizationStateToDisk r = Inr (compactRow kvs)"
    by (simp add: upstreamAuthorizationStateToDisk_def kvs_def)
  have keys: "distinct (map fst kvs)" by (simp add: kvs_def)
  note look = field_compactRow [OF keys]
  have "list_all (\<lambda>(k, v). k \<in> set upstreamStateKeys) kvs"
    by (simp add: kvs_def upstreamStateKeys_def)
  moreover have
     "field (compactRow kvs) ''state_hash'' = (Some (JStr (us_stateHash r)))"
     "field (compactRow kvs) ''client_id'' = (Some (JStr (us_clientId r)))"
     "field (compactRow kvs) ''redirect_uri'' = (Some (JStr (us_redirectUri r)))"
     "field (compactRow kvs) ''resource'' = (Some (JStr (us_resource r)))"
     "field (compactRow kvs) ''scopes_json'' = (Some (JStr (scopesJson (us_scopes r))))"
     "field (compactRow kvs) ''client_state'' = (Some (JStr (us_clientState r)))"
     "field (compactRow kvs) ''code_verifier'' = (Some (JStr (us_codeVerifier r)))"
     "field (compactRow kvs) ''upstream_nonce'' = (Some (JStr (us_upstreamNonce r)))"
     "field (compactRow kvs) ''nonce'' = (opt_text (us_nonce r))"
     "field (compactRow kvs) ''code_challenge'' = (opt_text (us_codeChallenge r))"
     "field (compactRow kvs) ''code_challenge_method'' = (method_text (us_methodS256 r))"
     "field (compactRow kvs) ''expires_at'' = (Some (JInt (us_expiresAt r)))"
     "field (compactRow kvs) ''created_at'' = (Some (JInt (us_createdAt r)))"
    unfolding look by (simp_all add: kvs_def)
  ultimately have "upstreamAuthorizationStateFromDisk (Some (JObj (compactRow kvs))) = Inr r"
    using r unfolding upstreamAuthorizationStateFromDisk_def state_storable_def option_conj_pred
    by (simp add: row_reads del: json_text.simps)
  moreover have "printable (JObj (compactRow kvs))"
    using r by (intro printable_compactRow keys)
      (auto simp: kvs_def state_storable_def option_conj_pred seconds_printable simp del: printable.simps(3) split: option.splits)
  ultimately show "\<exists>row. upstreamAuthorizationStateToDisk r = Inr row \<and> printable (JObj row) \<and> upstreamAuthorizationStateFromDisk (Some (JObj row)) = Inr r"
    using row by blast
qed

lemma requestIdHashes_read:
  "field rec ''request_id_hashes_json'' = (if length ss > 0 then Some (JStr (json_text (JArr (map JStr ss)))) else None) \<Longrightarrow>
    list_all is_hash ss \<Longrightarrow> requestIdHashes rec = Inr ss"
  by (cases ss) (simp_all add: requestIdHashes_def string_entries_map del: json_text.simps list.simps(9) flip: list.simps(9))

interpretation sessions: row_codec mcpSessionFromDisk mcpSessionToDisk session_storable
proof
  fix r assume r: "session_storable r"
  define kvs where "kvs =
     [(''session_id_hash'', Some (JStr (ms_sessionIdHash r))), (''client_id'', Some (JStr (ms_clientId r))),
      (''protocol_version'', Some (JStr (ms_protocolVersion r))), (''created_at'', Some (JInt (ms_createdAt r))),
      (''last_seen_at'', Some (JInt (ms_lastSeenAt r))), (''expires_at'', Some (JInt (ms_expiresAt r))),
      (''request_id_hashes_json'', if length (ms_requestIdHashes r) > 0
         then Some (JStr (json_text (JArr (map JStr (ms_requestIdHashes r))))) else None),
      (''initialized_at'', opt_int (ms_initializedAt r)), (''terminated_at'', opt_int (ms_terminatedAt r))]"
  have row: "mcpSessionToDisk r = Inr (compactRow kvs)"
    by (simp add: mcpSessionToDisk_def kvs_def)
  have keys: "distinct (map fst kvs)" by (simp add: kvs_def)
  note look = field_compactRow [OF keys]
  have "list_all (\<lambda>(k, v). k \<in> set mcpSessionKeys) kvs"
    by (simp add: kvs_def mcpSessionKeys_def)
  moreover have
     "field (compactRow kvs) ''session_id_hash'' = (Some (JStr (ms_sessionIdHash r)))"
     "field (compactRow kvs) ''client_id'' = (Some (JStr (ms_clientId r)))"
     "field (compactRow kvs) ''protocol_version'' = (Some (JStr (ms_protocolVersion r)))"
     "field (compactRow kvs) ''created_at'' = (Some (JInt (ms_createdAt r)))"
     "field (compactRow kvs) ''last_seen_at'' = (Some (JInt (ms_lastSeenAt r)))"
     "field (compactRow kvs) ''expires_at'' = (Some (JInt (ms_expiresAt r)))"
     "field (compactRow kvs) ''request_id_hashes_json'' = (if length (ms_requestIdHashes r) > 0 then Some (JStr (json_text (JArr (map JStr (ms_requestIdHashes r))))) else None)"
     "field (compactRow kvs) ''initialized_at'' = (opt_int (ms_initializedAt r))"
     "field (compactRow kvs) ''terminated_at'' = (opt_int (ms_terminatedAt r))"
    unfolding look by (simp_all add: kvs_def)
  ultimately have "mcpSessionFromDisk (Some (JObj (compactRow kvs))) = Inr r"
    using r unfolding mcpSessionFromDisk_def session_storable_def option_conj_pred
    by (simp add: row_reads requestIdHashes_read del: json_text.simps)
  moreover have "printable (JObj (compactRow kvs))"
    using r by (intro printable_compactRow keys)
      (auto simp: kvs_def session_storable_def option_conj_pred seconds_printable simp del: printable.simps(3) split: option.splits)
  ultimately show "\<exists>row. mcpSessionToDisk r = Inr row \<and> printable (JObj row) \<and> mcpSessionFromDisk (Some (JObj row)) = Inr r"
    using row by blast
qed

interpretation limits: row_codec rateLimitFromDisk rateLimitToDisk limit_storable
proof
  fix r assume r: "limit_storable r"
  then have "rateLimitFromDisk (Some (JObj [(''window_start'', JInt (rl_windowStart r)), (''previous_count'', JInt (rl_previousCount r)),
      (''current_count'', JInt (rl_currentCount r)), (''expires_at'', JInt (rl_expiresAt r))])) = Inr r"
    by (simp add: rateLimitFromDisk_def row_object_def rateLimitKeys_def limit_storable_def field_reads)
  then show "\<exists>row. rateLimitToDisk r = Inr row \<and> printable (JObj row) \<and> rateLimitFromDisk (Some (JObj row)) = Inr r"
    using r by (auto simp: rateLimitToDisk_def limit_storable_def seconds_ok_def)
qed

end
