(* ===== verification/Store_File.thy ===== *)
theory Store_File
  imports Store_Codec Disk_Runs
begin

text \<open>
  \<open>auth/storage/store-file.ts\<close> and \<open>store-path.ts\<close>: reading, checking and replacing the store file,
  and the proof that the file implements the state machine of \<open>Disk_Store\<close>.  The content of the file
  is the JSON value that \<open>JSON.parse\<close> gives back (the text is \<open>JSON.stringify\<close> of it, indented), or
  text that is not JSON.  A failed callback, and a state that cannot be serialised, leave the file as
  it was; the new content replaces the old one by \<open>rename\<close>.
\<close>

section \<open>The file\<close>

datatype store_text = Garbage | Content json

text \<open>What \<open>open\<close> finds: nothing, a symbolic link (\<open>O_NOFOLLOW\<close>), or an entry that may be a regular file with its mode.\<close>

datatype path_entry = Missing | Symlink | Entry bool nat store_text

definition assertSecureFileMode :: "nat \<Rightarrow> unit outcome" where
  "assertSecureFileMode mode = (if mode mod 64 \<noteq> 0 then Inl (PlainError ''store file permissions must be owner-only'') else Inr ())"

definition parseStoreJson :: "store_text \<Rightarrow> json outcome" where
  "parseStoreJson t = (case t of Garbage \<Rightarrow> Inl (PlainError ''store file is malformed'') | Content v \<Rightarrow> Inr v)"

definition readStore :: "path_entry \<Rightarrow> store_state outcome" where
  "readStore f = (case f of
     Missing \<Rightarrow> Inr emptyStoreState
   | Symlink \<Rightarrow> Inl (PlainError ''store file cannot be a symlink'')
   | Entry isFile mode content \<Rightarrow>
       if \<not> isFile then Inl (PlainError ''store path must be a regular file'')
       else bindr (assertSecureFileMode mode) (\<lambda>_.
         bindr (parseStoreJson content) (\<lambda>v. normalizeStore (Some v))))"

definition writeStore :: "store_state \<Rightarrow> path_entry outcome" where
  "writeStore st = bindr (serializeStore st) (\<lambda>v. Inr (Entry True 384 (Content v)))"

definition updateStore :: "(store_state \<Rightarrow> ('a \<times> store_state) outcome) \<Rightarrow> path_entry \<Rightarrow> 'a outcome \<times> path_entry" where
  "updateStore fn f =
    (case bindr (readStore f) (\<lambda>st. bindr (fn st) (\<lambda>(result, st'). bindr (writeStore st') (\<lambda>f'. Inr (result, f')))) of
       Inl e \<Rightarrow> (Inl e, f)
     | Inr (result, f') \<Rightarrow> (Inr result, f'))"

definition resolveStorePath :: "(string \<Rightarrow> string) \<Rightarrow> string \<Rightarrow> string outcome" where
  "resolveStorePath resolve path =
    (if trim path = [] then Inl (PlainError ''store path is required'')
     else if path \<noteq> trim path then Inl (PlainError ''store path cannot include surrounding whitespace'')
     else if List.member (concat (map (split_on CHR ''/'') (split_on backslash path))) ''..''
       then Inl (PlainError ''store path cannot traverse upward'')
     else if \<not> ends_with ''.json'' path then Inl (PlainError ''store path must end with .json'')
     else Inr (resolve path))"

section \<open>Operations on the file\<close>

definition file_apply :: "(string \<Rightarrow> string) \<Rightarrow> disk_event \<Rightarrow> int \<Rightarrow> path_entry \<Rightarrow> disk_result \<times> path_entry" where
  "file_apply sha e now f =
    (case updateStore (\<lambda>st. case disk_apply sha e now st of (Threw err, _) \<Rightarrow> Inl err | (res, st') \<Rightarrow> Inr (res, st')) f of
       (Inl err, f') \<Rightarrow> (Threw err, f')
     | (Inr res, f') \<Rightarrow> (res, f'))"

fun file_run :: "(string \<Rightarrow> string) \<Rightarrow> (int \<times> disk_event) list \<Rightarrow> path_entry \<Rightarrow> disk_result list \<times> path_entry" where
  "file_run sha [] f = ([], f)"
| "file_run sha ((now, e) # es) f =
    (case file_apply sha e now f of (res, f1) \<Rightarrow> case file_run sha es f1 of (rs, f2) \<Rightarrow> (res # rs, f2))"

fun state_run :: "(string \<Rightarrow> string) \<Rightarrow> (int \<times> disk_event) list \<Rightarrow> store_state \<Rightarrow> disk_result list \<times> store_state" where
  "state_run sha [] st = ([], st)"
| "state_run sha ((now, e) # es) st =
    (case disk_apply sha e now st of (res, st1) \<Rightarrow> case state_run sha es st1 of (rs, st2) \<Rightarrow> (res # rs, st2))"

section \<open>Storable states\<close>

definition store_storable :: "int \<Rightarrow> store_state \<Rightarrow> bool" where
  "store_storable now st = (codes.table_ok (authorizationCodes st) \<and> refresh.table_ok (refreshTokens st) \<and>
     upstream.table_ok (upstreamStates st) \<and> sessions.table_ok (mcpSessions st) \<and> limits.table_ok (rateLimits st) \<and>
     (\<forall>h r. map_of (authorizationCodes st) h = Some r \<longrightarrow> ac_createdAt r \<le> now) \<and>
     (\<forall>h r. map_of (refreshTokens st) h = Some r \<longrightarrow> rt_createdAt r \<le> now) \<and>
     (\<forall>h r. map_of (mcpSessions st) h = Some r \<longrightarrow> ms_createdAt r \<le> now))"

lemma serialized_store_readable:
  assumes "store_storable now st"
  shows "\<exists>v. serializeStore st = Inr v \<and> printable v \<and> normalizeStore (Some v) = Inr st"
proof -
  from assms have t: "codes.table_ok (authorizationCodes st)" "refresh.table_ok (refreshTokens st)"
     "upstream.table_ok (upstreamStates st)" "sessions.table_ok (mcpSessions st)" "limits.table_ok (rateLimits st)"
    by (simp_all add: store_storable_def)
  from codes.table_round_trip [OF t(1)] refresh.table_round_trip [OF t(2)] upstream.table_round_trip [OF t(3)]
    sessions.table_round_trip [OF t(4)] limits.table_round_trip [OF t(5)]
  show ?thesis
    by (elim exE conjE) (simp add: serializeStore_def normalizeStore_def row_object_def storeKeys_def)
qed

lemma empty_storable: "store_storable now emptyStoreState"
  by (simp add: store_storable_def emptyStoreState_def codes.table_ok_def refresh.table_ok_def upstream.table_ok_def
      sessions.table_ok_def limits.table_ok_def)

fun event_storable :: "int \<Rightarrow> disk_event \<Rightarrow> bool" where
  "event_storable now (CreateCode t i) = (texts_ok [ci_clientId i, ci_redirectUri i, ci_resource i] \<and> texts_ok (ci_scopes i) \<and>
     pred_option isOidcNonce (nonempty_text (ci_nonce i)) \<and> pred_option is_hash (nonempty_text (ci_codeChallenge i)) \<and>
     profile_ok (ci_user i) \<and> 0 \<le> ci_ttlSeconds i \<and> seconds_ok (now + ci_ttlSeconds i))"
| "event_storable now (CreateRefresh t f i) = (texts_ok [f, ri_clientId i, ri_resource i] \<and> texts_ok (ri_scopes i) \<and>
     profile_ok (ri_user i) \<and> seconds_ok (ri_authTime i) \<and> ri_authTime i \<le> now \<and> 0 \<le> ri_ttlSeconds i \<and> seconds_ok (now + ri_ttlSeconds i))"
| "event_storable now (Rotate t c ttl er ar n) = (0 \<le> ttl \<and> seconds_ok (now + ttl))"
| "event_storable now (CreateState t i) = (
     texts_ok [ui_clientId i, ui_redirectUri i, ui_resource i, ui_clientState i, ui_codeVerifier i] \<and> texts_ok (ui_scopes i) \<and>
     isOidcNonce (ui_upstreamNonce i) \<and> pred_option isOidcNonce (nonempty_text (ui_nonce i)) \<and>
     pred_option is_hash (nonempty_text (ui_codeChallenge i)) \<and> 0 \<le> ui_ttlSeconds i \<and> seconds_ok (now + ui_ttlSeconds i))"
| "event_storable now (SaveSession r) = (session_storable r \<and> ms_createdAt r \<le> now)"
| "event_storable now (Reserve sid rid) = is_hash rid"
| "event_storable now (Hit key p) = (policy_ok p \<and> seconds_ok (now + 2 * windowSeconds p))"
| "event_storable now _ = True"

lemma rate_record_storable:
  assumes "policy_ok p" "seconds_ok now" "seconds_ok (now + 2 * windowSeconds p)" "\<And>r. e = Some r \<Longrightarrow> limit_storable r"
    and "nextRateLimitRecord e p now = Inr r'"
  shows "limit_storable r'"
proof -
  have time: "time_ok now" using assms(2) by (simp add: seconds_ok_def time_ok_def)
  obtain prev cur where c: "countersForWindow e (window_of p now) (windowSeconds p) now = (prev, cur)"
    by (cases "countersForWindow e (window_of p now) (windowSeconds p) now")
  have counts: "seconds_ok prev" "seconds_ok cur"
    using assms(4) c by (cases e; auto simp: countersForWindow_def limit_storable_def seconds_ok_def max_safe_integer_def split: if_splits)+
  let ?frac = "of_int (windowSeconds p - (now - window_of p now)) / of_int (windowSeconds p) :: rat"
  let ?w = "double_round (of_int prev * double_round ?frac)"
  have r': "\<not> of_int (maxRequests p) \<le> double_round (of_int cur + ?w)"
    "r' = \<lparr> rl_windowStart = window_of p now, rl_previousCount = prev, rl_currentCount = cur + 1,
            rl_expiresAt = window_of p now + windowSeconds p * 2 \<rparr>"
    using assms(5) unfolding nextRateLimitRecord_def Let_def code_window [OF assms(1) time] c
    by (simp_all split: if_splits)
  note wb = window_of_bounds [OF assms(1), of now]
  have "0 \<le> ?frac"
    using wb assms(1) by (intro divide_nonneg_nonneg) (auto simp: policy_ok_def)
  then have "0 \<le> ?w"
    using counts by (intro double.fl_nonneg mult_nonneg_nonneg) (auto simp: seconds_ok_def)
  then have "of_int cur \<le> double_round (of_int cur + ?w)"
    using counts by (intro double.fl_add_ge) (auto simp: seconds_ok_def)
  then have "cur < maxRequests p"
    using r'(1) by (meson not_le of_int_less_iff order.strict_trans1)
  moreover have "0 \<le> window_of p now"
    using assms(1,2) unfolding window_of_def policy_ok_def seconds_ok_def
    by (intro mult_nonneg_nonneg pos_imp_zdiv_nonneg_iff [THEN iffD2]) auto
  ultimately show ?thesis
    using assms(1-3) counts wb unfolding r'(2) by (auto simp: limit_storable_def seconds_ok_def policy_ok_def)
qed

section \<open>Every operation keeps the state storable\<close>

lemma since_now: "seconds_ok now \<Longrightarrow> created \<le> now \<Longrightarrow> since created (Some now)"
  by simp

lemma store_storable_later: "store_storable now st \<Longrightarrow> now \<le> later \<Longrightarrow> store_storable later st"
  unfolding store_storable_def by (meson order.trans)

lemma storable_createCode:
  assumes "store_storable now st" "seconds_ok now" "event_storable now (CreateCode t i)" "is_hash (sha t)"
  shows "store_storable now (createAuthorizationCode sha t now i st)"
proof -
  let ?st = "createAuthorizationCode sha t now i st"
  obtain r where r: "authorizationCodes ?st = AList.update (sha t) r (authorizationCodes st)" "code_storable r" "ac_createdAt r = now"
    "refreshTokens ?st = refreshTokens st" "upstreamStates ?st = upstreamStates st" "mcpSessions ?st = mcpSessions st"
    "rateLimits ?st = rateLimits st"
    using assms(2-4) by (auto simp: createAuthorizationCode_def code_storable_def Let_def)
  then show ?thesis
    using assms(1,4) by (auto simp: store_storable_def codes.table_ok_update)
qed

lemma storable_consumeCode:
  assumes "store_storable now st" "seconds_ok now" "is_hash (sha t)"
    "consumeAuthorizationCode sha t v x now st = Inr (r, st')"
  shows "store_storable now st'"
proof -
  from assms(4) obtain od where od: "map_of (authorizationCodes st) (sha t) = Some od" "r = od \<lparr> ac_consumedAt := Some now \<rparr>"
    "st' = st \<lparr> authorizationCodes := AList.update (sha t) r (authorizationCodes st) \<rparr>"
    unfolding consume_eq by (auto split: option.splits if_splits)
  then have "code_storable od" "ac_createdAt od \<le> now"
    using assms(1) codes.table_okD [OF _ od(1)] by (auto simp: store_storable_def)
  then have "code_storable r" "ac_createdAt r \<le> now"
    using od(2) assms(2) by (auto simp: code_storable_def)
  then show ?thesis
    using assms(1,3) od(3) by (auto simp: store_storable_def codes.table_ok_update)
qed

lemma storable_createRefresh:
  assumes "store_storable now st" "seconds_ok now" "event_storable now (CreateRefresh t f i)" "is_hash (sha t)"
  shows "store_storable now (createRefreshToken sha t now f i st)"
proof -
  let ?st = "createRefreshToken sha t now f i st"
  obtain r where r: "refreshTokens ?st = AList.update (sha t) r (refreshTokens st)" "refresh_storable r" "rt_createdAt r = now"
    "authorizationCodes ?st = authorizationCodes st" "upstreamStates ?st = upstreamStates st" "mcpSessions ?st = mcpSessions st"
    "rateLimits ?st = rateLimits st"
    using assms(2-4) by (auto simp: createRefreshToken_def refresh_storable_def Let_def)
  then show ?thesis
    using assms(1,4) by (auto simp: store_storable_def refresh.table_ok_update)
qed

lemma revoked_table_ok:
  assumes "refresh.table_ok ts" "seconds_ok now" "\<And>h r. map_of ts h = Some r \<Longrightarrow> rt_createdAt r \<le> now"
  shows "refresh.table_ok (revokeFamily f now ts)"
proof -
  have "refresh_storable (if rt_familyId r = f then r \<lparr> rt_revokedAt := Some now \<rparr> else r)" if "(h, r) \<in> set ts" for h r
  proof -
    have "map_of ts h = Some r" "refresh_storable r" using assms(1) that by (auto simp: refresh.table_ok_def)
    then show ?thesis using assms(2) assms(3) [of h r] by (auto simp: refresh_storable_def)
  qed
  then show ?thesis
    using assms(1) by (fastforce simp: refresh.table_ok_def revokeFamily_def comp_def case_prod_beta')
qed

lemma storable_rotate:
  assumes "store_storable now st" "seconds_ok now" "event_storable now (Rotate t c ttl er ar n)" "\<And>x. is_hash (sha x)"
    "rotateInStore sha t c ttl er ar now n st = Inr (x, st')"
  shows "store_storable now st'"
proof -
  from assms(5) obtain od where od: "map_of (refreshTokens st) (sha t) = Some od"
    and st': "st' = st \<lparr> refreshTokens := (if is_rotated (sha t) (refreshTokens st) then revokeFamily (rt_familyId od) now (refreshTokens st)
      else AList.update (sha n) (successor sha t ttl now n od)
             (AList.update (sha t) (od \<lparr> rt_lastUsedAt := Some now \<rparr>) (refreshTokens st))) \<rparr>"
    unfolding rotate_eq by (auto split: option.splits if_splits)
  have table: "refresh.table_ok (refreshTokens st)" and created: "\<And>h r. map_of (refreshTokens st) h = Some r \<Longrightarrow> rt_createdAt r \<le> now"
    using assms(1) by (auto simp: store_storable_def)
  have ok: "refresh_storable od" using refresh.table_okD [OF table od] by simp
  with assms(2-4) created [OF od] have new: "refresh_storable (successor sha t ttl now n od)" "refresh_storable (od \<lparr> rt_lastUsedAt := Some now \<rparr>)"
    by (auto simp: refresh_storable_def successor_def)
  have "refresh.table_ok (refreshTokens st')"
    using new assms(4) st' table revoked_table_ok [OF table assms(2) created] by (auto intro: refresh.table_ok_update)
  moreover have "rt_createdAt r \<le> now" if "map_of (refreshTokens st') h = Some r" for h r
    using that created st' od by (fastforce simp: map_of_revokeFamily successor_def split: if_splits)
  ultimately show ?thesis using assms(1) st' by (auto simp: store_storable_def)
qed

lemma storable_createState:
  assumes "store_storable now st" "seconds_ok now" "event_storable now (CreateState t i)" "is_hash (sha t)"
  shows "store_storable now (createUpstreamAuthorizationState sha t now i st)"
proof -
  let ?st = "createUpstreamAuthorizationState sha t now i st"
  obtain r where r: "upstreamStates ?st = AList.update (sha t) r (pruneExpiredUpstreamStates (upstreamStates st) now)" "state_storable r"
    "authorizationCodes ?st = authorizationCodes st" "refreshTokens ?st = refreshTokens st" "mcpSessions ?st = mcpSessions st"
    "rateLimits ?st = rateLimits st"
    using assms(2-4) by (auto simp: createUpstreamAuthorizationState_def state_storable_def Let_def)
  then show ?thesis
    using assms(1,4)
    by (auto simp: store_storable_def pruneExpiredUpstreamStates_def intro!: upstream.table_ok_update upstream.table_ok_filter)
qed

lemma storable_consumeState:
  assumes "store_storable now st" "consumeUpstreamAuthorizationState sha t now st = Inr (r, st')"
  shows "store_storable now st'"
  using assms
  by (auto simp: store_storable_def consumeUpstreamAuthorizationState_def pruneExpiredUpstreamStates_def Let_def
      intro!: upstream.table_ok_delete upstream.table_ok_filter split: option.splits if_splits)

lemma storable_session_update:
  assumes "store_storable now st" "is_hash sid" "session_storable r" "ms_createdAt r \<le> now"
  shows "store_storable now (st \<lparr> mcpSessions := AList.update sid r (mcpSessions st) \<rparr>)"
  using assms by (auto simp: store_storable_def sessions.table_ok_update)

lemma live_session_storable:
  assumes "store_storable now st" "live_session sid now st = Inr r" "seconds_ok now"
  shows "is_hash sid" "session_storable (r \<lparr> ms_lastSeenAt := now \<rparr>)" "ms_createdAt r \<le> now" "session_storable r"
proof -
  from assms(2) have r: "map_of (mcpSessions st) sid = Some r" by (simp add: live_session_eq_Inr)
  then show "is_hash sid" "ms_createdAt r \<le> now" "session_storable r"
    using assms(1) sessions.table_okD [OF _ r] by (auto simp: store_storable_def)
  then show "session_storable (r \<lparr> ms_lastSeenAt := now \<rparr>)" using assms(3) by (simp add: session_storable_def)
qed

lemma storable_touch:
  assumes "store_storable now st" "seconds_ok now" "touchMcpSession sid v m now st = Inr (b, st')"
  shows "store_storable now st'"
proof -
  from assms(3) obtain r where r: "live_session sid now st = Inr r" and
    st': "st' = st \<lparr> mcpSessions := AList.update sid (if m \<and> \<not> truthy_time (ms_initializedAt r)
        then r \<lparr> ms_lastSeenAt := now, ms_initializedAt := Some now \<rparr> else r \<lparr> ms_lastSeenAt := now \<rparr>) (mcpSessions st) \<rparr>"
    unfolding touchMcpSession_def bindr_eq_Inr by (auto simp: Let_def split: if_splits)
  note live = live_session_storable [OF assms(1) r assms(2)]
  show ?thesis unfolding st'
    by (rule storable_session_update) (use assms live in \<open>auto simp: session_storable_def\<close>)
qed

lemma storable_reserve:
  assumes "store_storable now st" "seconds_ok now" "event_storable now (Reserve sid rid)" "reserveMcpRequestId sid rid now st = Inr (b, st')"
  shows "store_storable now st'"
proof -
  from assms(4) obtain r where r: "live_session sid now st = Inr r" and
    st': "st' = st \<lparr> mcpSessions := AList.update sid (r \<lparr> ms_lastSeenAt := now, ms_requestIdHashes :=
       ms_requestIdHashes r @ (if b then [rid] else []) \<rparr>) (mcpSessions st) \<rparr>"
    unfolding reserveMcpRequestId_def bindr_eq_Inr by (auto simp: Let_def split: if_splits)
  note live = live_session_storable [OF assms(1) r assms(2)]
  show ?thesis unfolding st'
    by (rule storable_session_update) (use assms live in \<open>auto simp: session_storable_def\<close>)
qed

lemma storable_terminate:
  assumes "store_storable now st" "seconds_ok now" "terminateMcpSession sid now st = Inr st'"
  shows "store_storable now st'"
proof -
  from assms(3) obtain r where r: "live_session sid now st = Inr r" and
    st': "st' = st \<lparr> mcpSessions := AList.update sid (r \<lparr> ms_terminatedAt := Some now, ms_lastSeenAt := now \<rparr>) (mcpSessions st) \<rparr>"
    unfolding terminateMcpSession_def bindr_eq_Inr by auto
  note live = live_session_storable [OF assms(1) r assms(2)]
  show ?thesis unfolding st'
    by (rule storable_session_update) (use assms live in \<open>auto simp: session_storable_def\<close>)
qed

lemma storable_hit:
  assumes "store_storable now st" "seconds_ok now" "event_storable now (Hit key p)" "is_hash (sha key)" "hitInStore sha key p now st = Inr st'"
  shows "store_storable now st'"
proof -
  have table: "limits.table_ok (rateLimits st)" using assms(1) by (simp add: store_storable_def)
  then have pruned: "limits.table_ok (pruneExpiredRateLimits (rateLimits st) now)"
    unfolding pruneExpiredRateLimits_def by (rule limits.table_ok_filter)
  from assms(5) obtain r where r: "nextRateLimitRecord (map_of (pruneExpiredRateLimits (rateLimits st) now) (sha key)) p now = Inr r"
    "st' = st \<lparr> rateLimits := AList.update (sha key) r (pruneExpiredRateLimits (rateLimits st) now) \<rparr>"
    unfolding hitInStore_def hit_def Let_def bindr_eq_Inr by auto
  have "limit_storable r"
    by (rule rate_record_storable [OF _ _ _ _ r(1)]) (use assms(2,3) limits.table_okD [OF pruned] in auto)
  then show ?thesis
    using assms(1,4) r(2) pruned by (auto simp: store_storable_def limits.table_ok_update)
qed

lemma disk_apply_storable:
  assumes "store_storable now st" "seconds_ok now" "event_storable now e" "\<And>x. is_hash (sha x)" "disk_apply sha e now st = (res, st')"
  shows "store_storable now st'"
proof (cases e)
  case (SaveSession r)
  then show ?thesis using assms by (auto simp: saveMcpSession_def session_storable_def intro!: storable_session_update)
qed (use assms in \<open>auto simp: with_result_def without_result_def simp del: event_storable.simps split: sum.splits
    intro: storable_createCode storable_createRefresh storable_createState storable_consumeCode storable_rotate storable_consumeState
      storable_touch storable_reserve storable_terminate storable_hit\<close>)

section \<open>The file implements the state machine\<close>

lemma disk_apply_threw: "disk_apply sha e now st = (Threw err, st') \<Longrightarrow> st' = st"
  by (cases e) (auto simp: with_result_def without_result_def split: sum.splits)

lemma writeStore_readable:
  assumes "store_storable now st"
  obtains f where "writeStore st = Inr f" "readStore f = Inr st"
  using serialized_store_readable [OF assms]
  by (auto simp: writeStore_def readStore_def assertSecureFileMode_def parseStoreJson_def)

lemma file_apply_refines:
  assumes "readStore f = Inr st" "store_storable now st" "seconds_ok now" "event_storable now e" "\<And>x. is_hash (sha x)"
    and "disk_apply sha e now st = (res, st')"
  shows "\<exists>f'. file_apply sha e now f = (res, f') \<and> readStore f' = Inr st'"
proof (cases "\<exists>err. res = Threw err")
  case True
  then obtain err where "res = Threw err" by blast
  with assms(1,6) disk_apply_threw [of sha e now st err st'] show ?thesis
    by (simp add: file_apply_def updateStore_def)
next
  case False
  obtain f' where f': "writeStore st' = Inr f'" "readStore f' = Inr st'"
    using disk_apply_storable [OF assms(2-6)] by (rule writeStore_readable)
  have "file_apply sha e now f = (res, f')"
    using assms(1,6) f'(1) False by (cases res) (simp_all add: file_apply_def updateStore_def)
  with f'(2) show ?thesis by blast
qed

lemma unreadable_store_stays: "readStore f = Inl err \<Longrightarrow> file_apply sha e now f = (Threw err, f)"
  by (simp add: file_apply_def updateStore_def)

lemma bricked_store:
  "fst r = Done \<Longrightarrow> readStore (snd r) = Inl malformed \<Longrightarrow>
    \<exists>f. r = (Done, f) \<and> (\<forall>sha e now. file_apply sha e now f = (Threw malformed, f))"
  by (cases r) (simp add: unreadable_store_stays)

lemma field_errors:
  "field rec k = Some (JStr s) \<Longrightarrow> blank s \<Longrightarrow> row_text rec k = Inl malformed"
  "field rec k = Some (JStr s) \<Longrightarrow> \<not> is_hash s \<Longrightarrow> optionalHash rec k = Inl malformed"
  by (auto simp: row_text_def optionalHash_def optionalText_def blank_def)

text \<open>The two fields of a state row that the authorization endpoint does not check as strictly as the row reader does.\<close>

lemma state_row_rejected:
  assumes "state_storable (r \<lparr> us_clientState := ''s'', us_codeChallenge := None \<rparr>)"
    and "blank (us_clientState r) \<or> (\<exists>ch. us_codeChallenge r = Some ch \<and> \<not> is_hash ch)"
  shows "\<exists>row. upstreamAuthorizationStateToDisk r = Inr row \<and> upstreamAuthorizationStateFromDisk (Some (JObj row)) = Inl malformed"
proof -
  define kvs where "kvs =
     [(''state_hash'', Some (JStr (us_stateHash r))), (''client_id'', Some (JStr (us_clientId r))),
      (''redirect_uri'', Some (JStr (us_redirectUri r))), (''resource'', Some (JStr (us_resource r))),
      (''scopes_json'', Some (JStr (scopesJson (us_scopes r)))), (''client_state'', Some (JStr (us_clientState r))),
      (''code_verifier'', Some (JStr (us_codeVerifier r))), (''upstream_nonce'', Some (JStr (us_upstreamNonce r))),
      (''nonce'', opt_text (us_nonce r)), (''code_challenge'', opt_text (us_codeChallenge r)),
      (''code_challenge_method'', method_text (us_methodS256 r)), (''expires_at'', Some (JInt (us_expiresAt r))),
      (''created_at'', Some (JInt (us_createdAt r)))]"
  have row: "upstreamAuthorizationStateToDisk r = Inr (compactRow kvs)"
    by (simp add: upstreamAuthorizationStateToDisk_def kvs_def)
  have keys: "distinct (map fst kvs)" by (simp add: kvs_def)
  note look = field_compactRow [OF keys]
  have "list_all (\<lambda>(k, v). k \<in> set upstreamStateKeys) kvs"
    by (simp add: kvs_def upstreamStateKeys_def)
  moreover have "field (compactRow kvs) ''state_hash'' = Some (JStr (us_stateHash r))"
     "field (compactRow kvs) ''client_id'' = Some (JStr (us_clientId r))"
     "field (compactRow kvs) ''redirect_uri'' = Some (JStr (us_redirectUri r))"
     "field (compactRow kvs) ''resource'' = Some (JStr (us_resource r))"
     "field (compactRow kvs) ''scopes_json'' = Some (JStr (scopesJson (us_scopes r)))"
     "field (compactRow kvs) ''client_state'' = Some (JStr (us_clientState r))"
     "field (compactRow kvs) ''code_verifier'' = Some (JStr (us_codeVerifier r))"
     "field (compactRow kvs) ''upstream_nonce'' = Some (JStr (us_upstreamNonce r))"
     "field (compactRow kvs) ''nonce'' = opt_text (us_nonce r)"
     "field (compactRow kvs) ''code_challenge'' = opt_text (us_codeChallenge r)"
     "field (compactRow kvs) ''created_at'' = Some (JInt (us_createdAt r))"
    unfolding look by (simp_all add: kvs_def)
  ultimately have "upstreamAuthorizationStateFromDisk (Some (JObj (compactRow kvs))) = Inl malformed"
    using assms unfolding upstreamAuthorizationStateFromDisk_def state_storable_def
    by (cases "blank (us_clientState r)") (auto simp: row_reads field_errors simp del: json_text.simps)
  with row show ?thesis by blast
qed

lemma rejected_state_bricks:
  assumes "is_hash (sha t)" "0 \<le> now"
    and "map_of (upstreamStates (createUpstreamAuthorizationState sha t now i emptyStoreState)) (sha t) = Some r"
    and "upstreamAuthorizationStateToDisk r = Inr row" "upstreamAuthorizationStateFromDisk (Some (JObj row)) = Inl malformed"
  shows "\<exists>f. file_apply sha (CreateState t i) now Missing = (Done, f) \<and>
    (\<forall>sha e now. file_apply sha e now f = (Threw malformed, f))"
proof (rule bricked_store)
  let ?st = "emptyStoreState \<lparr> upstreamStates := [(sha t, r)] \<rparr>"
  let ?v = "JObj [(''authorizationCodes'', JObj []), (''refreshTokens'', JObj []), (''upstreamAuthorizationStates'', JObj [(sha t, JObj row)]),
        (''mcpSessions'', JObj []), (''rateLimits'', JObj [])]"
  have "createUpstreamAuthorizationState sha t now i emptyStoreState = ?st"
    using assms(3) by (auto simp: createUpstreamAuthorizationState_def emptyStoreState_def pruneExpiredUpstreamStates_def Let_def)
  moreover have "serializeStore ?st = Inr ?v"
    using assms(1,4) by (simp add: serializeStore_def serializeMap_def emptyStoreState_def mapKey_def)
  ultimately have "file_apply sha (CreateState t i) now Missing = (Done, Entry True 384 (Content ?v))"
    by (simp add: file_apply_def updateStore_def readStore_def writeStore_def)
  moreover have "normalizeStore (Some ?v) = Inl malformed"
    using assms(1,5) by (simp add: normalizeStore_def normalizeMap_def mapKey_def row_object_def storeKeys_def)
  ultimately show "fst (file_apply sha (CreateState t i) now Missing) = Done"
    "readStore (snd (file_apply sha (CreateState t i) now Missing)) = Inl malformed"
    by (simp_all add: readStore_def assertSecureFileMode_def parseStoreJson_def)
qed

definition events_storable :: "(int \<times> disk_event) list \<Rightarrow> bool" where
  "events_storable es = (sorted (map fst es) \<and> (\<forall>(now, e)\<in>set es. seconds_ok now \<and> event_storable now e))"

lemma file_run_refines:
  assumes "\<And>x. is_hash (sha x)" "events_storable es" "readStore f = Inr st" "store_storable t st" "\<forall>x\<in>set (map fst es). t \<le> x"
  shows "fst (file_run sha es f) = fst (state_run sha es st) \<and> readStore (snd (file_run sha es f)) = Inr (snd (state_run sha es st))"
  using assms(2-5)
proof (induction es arbitrary: f st t)
  case (Cons ne es)
  obtain now e where ne: "ne = (now, e)" by (cases ne)
  obtain res st' where ap: "disk_apply sha e now st = (res, st')" by (cases "disk_apply sha e now st")
  have now: "seconds_ok now" "event_storable now e" "store_storable now st"
    using Cons.prems ne store_storable_later by (auto simp: events_storable_def)
  obtain f' where f': "file_apply sha e now f = (res, f')" "readStore f' = Inr st'"
    using file_apply_refines [OF Cons.prems(2) now(3,1,2) assms(1) ap] by blast
  have "store_storable now st'" by (rule disk_apply_storable [OF now(3,1,2) assms(1) ap])
  moreover have "events_storable es" "\<forall>x\<in>set (map fst es). now \<le> x"
    using Cons.prems(1) ne by (auto simp: events_storable_def)
  ultimately have "fst (file_run sha es f') = fst (state_run sha es st') \<and> readStore (snd (file_run sha es f')) = Inr (snd (state_run sha es st'))"
    using Cons.IH [OF _ f'(2)] by blast
  then show ?case using ne ap f'(1) by (simp add: case_prod_beta')
qed simp

section \<open>Samples\<close>

lemma pred_option_computes [code]: "pred_option P None = True" "pred_option P (Some x) = P x"
  by simp_all

text \<open>A hash function for the samples: it keeps texts that look like hashes.\<close>

definition sample_sha :: "string \<Rightarrow> string" where
  "sample_sha t = (if is_hash t then t else replicate 43 CHR ''A'')"

lemma sample_sha_hash: "is_hash (sample_sha t)"
proof -
  have "is_hash (replicate 43 CHR ''A'')" by code_simp
  then show ?thesis by (simp add: sample_sha_def)
qed

definition sample_key :: "char \<Rightarrow> string" where "sample_key c = replicate 43 c"

definition file_profile :: user_profile where
  "file_profile = \<lparr> up_sub = ''u'', up_given_name = ''A'', up_family_name = ''B'', up_name = ''A B'',
     up_preferred_username = ''ab'', up_email = ''a@b.io'', up_email_verified = True \<rparr>"

definition file_code_input :: auth_code_input where
  "file_code_input = \<lparr> ci_clientId = ''app'', ci_redirectUri = ''https://app/cb'', ci_resource = ''https://api'', ci_scopes = [''openid''],
     ci_nonce = None, ci_codeChallenge = Some (sample_key CHR ''v''), ci_methodS256 = True, ci_user = file_profile,
     ci_ttlSeconds = 60 \<rparr>"

definition file_refresh_input :: refresh_token_input where
  "file_refresh_input = \<lparr> ri_clientId = ''app'', ri_user = file_profile, ri_resource = ''https://api'', ri_scopes = [''openid''],
     ri_authTime = 1, ri_ttlSeconds = 100 \<rparr>"

definition file_state_input :: upstream_state_input where
  "file_state_input = \<lparr> ui_clientId = ''app'', ui_redirectUri = ''https://app/cb'', ui_resource = ''https://api'',
     ui_scopes = [''openid''], ui_clientState = ''s'', ui_codeVerifier = sample_key CHR ''w'', ui_upstreamNonce = sample_key CHR ''n'',
     ui_nonce = None, ui_codeChallenge = None, ui_methodS256 = False, ui_ttlSeconds = 60 \<rparr>"

definition file_session :: mcp_session_record where
  "file_session = \<lparr> ms_sessionIdHash = sample_key CHR ''s'', ms_clientId = ''app'', ms_protocolVersion = ''2025-11-25'', ms_createdAt = 1,
     ms_lastSeenAt = 1, ms_expiresAt = 100, ms_requestIdHashes = [], ms_initializedAt = None, ms_terminatedAt = None \<rparr>"

definition file_events :: "(int \<times> disk_event) list" where
  "file_events = [(1, CreateCode (sample_key CHR ''c'') file_code_input), (2, CreateRefresh (sample_key CHR ''r'') ''family'' file_refresh_input),
     (3, CreateState (sample_key CHR ''u'') file_state_input), (4, Rotate (sample_key CHR ''r'') ''app'' 100 None None (sample_key CHR ''q'')),
     (5, SaveSession file_session), (6, Reserve (sample_key CHR ''s'') (sample_key CHR ''i'')),
     (7, Rotate (sample_key CHR ''r'') ''app'' 100 None None (sample_key CHR ''p''))]"

section \<open>Properties\<close>

text \<open>C9: A sequence of store operations in clock order whose inputs are all storable (\<open>events_storable\<close>: the texts, hashes,
  nonces, profiles and times that the row parsers accept), run against a file that does not exist yet, gives the same results as the state
  machine, and the file can be read back after it as the state of the machine.  The condition on the inputs is needed: some that
  the endpoints accept are not storable, and the file written for one cannot be read back.\<close>

theorem store_file_implements_store:
  assumes "\<And>x. is_hash (sha x)" "events_storable es"
  shows "fst (file_run sha es Missing) = fst (state_run sha es emptyStoreState) \<and>
    readStore (snd (file_run sha es Missing)) = Inr (snd (state_run sha es emptyStoreState))"
proof (cases es)
  case (Cons ne rest)
  then have "\<forall>x\<in>set (map fst es). fst ne \<le> x" using assms(2) by (auto simp: events_storable_def)
  then show ?thesis
    by (intro file_run_refines [OF assms(1,2) _ empty_storable]) (simp_all add: readStore_def)
qed (simp add: readStore_def)

lemma store_file_implements_store_witness:
  "fst (file_run sample_sha file_events Missing) = fst (state_run sample_sha file_events emptyStoreState) \<and>
    last (fst (state_run sample_sha file_events emptyStoreState)) = Rotation Reused"
proof -
  have "events_storable file_events" by code_simp
  moreover have "last (fst (state_run sample_sha file_events emptyStoreState)) = Rotation Reused" by code_simp
  ultimately show ?thesis
    using store_file_implements_store [of sample_sha file_events] sample_sha_hash by blast
qed

lemma sample_input_bricks:
  assumes "i = file_state_input \<lparr> ui_clientState := cs, ui_codeChallenge := ch, ui_methodS256 := m \<rparr>"
    and "blank cs \<or> (\<exists>c. nonempty_text ch = Some c \<and> \<not> is_hash c)"
  shows "\<exists>f. file_apply sample_sha (CreateState (sample_key CHR ''u'') i) 3 Missing = (Done, f) \<and>
    (\<forall>sha e now. file_apply sha e now f = (Threw malformed, f))"
proof -
  define r where "r = the (map_of (upstreamStates (createUpstreamAuthorizationState sample_sha (sample_key CHR ''u'') 3 file_state_input
    emptyStoreState)) (sample_sha (sample_key CHR ''u'')))"
  let ?r = "r \<lparr> us_clientState := cs, us_codeChallenge := nonempty_text ch, us_methodS256 := m \<rparr>"
  have "state_storable (r \<lparr> us_clientState := ''s'', us_codeChallenge := None, us_methodS256 := m \<rparr>)"
    unfolding r_def by (cases m; simp only:) code_simp+
  then have "state_storable (?r \<lparr> us_clientState := ''s'', us_codeChallenge := None \<rparr>)"
    by (simp add: state_storable_def)
  from state_row_rejected [OF this] assms(2) obtain row where
    "upstreamAuthorizationStateToDisk ?r = Inr row" "upstreamAuthorizationStateFromDisk (Some (JObj row)) = Inl malformed"
    by auto
  then show ?thesis
    by (intro rejected_state_bricks [of sample_sha _ 3 i ?r row])
      (auto simp: sample_sha_hash assms(1) r_def createUpstreamAuthorizationState_def file_state_input_def Let_def)
qed

text \<open>C38: An authorization request whose \<open>state\<close> is a space passes validation, and the row written for it makes the whole store
  file unreadable: every later operation of every user throws.\<close>

theorem blank_state_bricks_store:
  "oauthState (Some '' '') = Inr '' '' \<and>
   (\<exists>f. file_apply sample_sha (CreateState (sample_key CHR ''u'') (file_state_input \<lparr> ui_clientState := '' '' \<rparr>)) 3 Missing = (Done, f) \<and>
     (\<forall>sha e now. file_apply sha e now f = (Threw malformed, f)))"
proof (intro conjI sample_input_bricks)
  show "oauthState (Some '' '') = Inr '' ''" by code_simp
  show "file_state_input \<lparr> ui_clientState := '' '' \<rparr> =
    file_state_input \<lparr> ui_clientState := '' '', ui_codeChallenge := None, ui_methodS256 := False \<rparr>"
    by (simp add: file_state_input_def)
  show "blank '' '' \<or> (\<exists>c. nonempty_text None = Some c \<and> \<not> is_hash c)" by (rule disjI1) code_simp
qed

text \<open>A code challenge of 44 characters passes the PKCE check of the authorization endpoint, and the row written for it makes
  the whole store file unreadable.\<close>

theorem long_challenge_bricks_store:
  "pkceInput Pkce_required (Some (replicate 44 CHR ''a'')) (Some ''S256'') = Inr (Some (replicate 44 CHR ''a'')) \<and>
   (\<exists>f. file_apply sample_sha (CreateState (sample_key CHR ''u'') (file_state_input \<lparr> ui_codeChallenge := Some (replicate 44 CHR ''a''),
       ui_methodS256 := True \<rparr>)) 3 Missing = (Done, f) \<and>
     (\<forall>sha e now. file_apply sha e now f = (Threw malformed, f)))"
proof (intro conjI sample_input_bricks)
  show "pkceInput Pkce_required (Some (replicate 44 CHR ''a'')) (Some ''S256'') = Inr (Some (replicate 44 CHR ''a''))" by code_simp
  show "file_state_input \<lparr> ui_codeChallenge := Some (replicate 44 CHR ''a''), ui_methodS256 := True \<rparr> =
    file_state_input \<lparr> ui_clientState := ''s'', ui_codeChallenge := Some (replicate 44 CHR ''a''), ui_methodS256 := True \<rparr>"
    by (simp add: file_state_input_def)
  have "nonempty_text (Some (replicate 44 CHR ''a'')) = Some (replicate 44 CHR ''a'')" "\<not> is_hash (replicate 44 CHR ''a'')" by code_simp+
  then show "blank ''s'' \<or> (\<exists>c. nonempty_text (Some (replicate 44 CHR ''a'')) = Some c \<and> \<not> is_hash c)" by blast
qed

end
