(* ===== verification/Encoding.thy ===== *)
theory Encoding
  imports Json_Text OAuth_Params
begin

text \<open>
  \<open>shared/base64url.ts\<close> and the parts of \<open>Buffer\<close> it uses: UTF-8 of the model's characters, base64url
  of octets, and their inverses.  A text that decodes to characters above U+00FF is outside the
  range of the model (\<open>None\<close>, as for text that is no JSON).
\<close>

section \<open>UTF-8\<close>

definition utf8_char :: "char \<Rightarrow> nat list" where
  "utf8_char c = (if code c < 128 then [code c] else [192 + code c div 64, 128 + code c mod 64])"

definition utf8 :: "string \<Rightarrow> nat list" where
  "utf8 s = concat (map utf8_char s)"

fun utf8_text :: "nat list \<Rightarrow> string option" where
  "utf8_text [] = Some []"
| "utf8_text (b # bs) =
    (if b < 128 then map_option (\<lambda>s. char_of b # s) (utf8_text bs)
     else (case bs of [] \<Rightarrow> None | d # ds \<Rightarrow>
       if (b = 194 \<or> b = 195) \<and> 128 \<le> d \<and> d < 192
       then map_option (\<lambda>s. char_of ((b - 192) * 64 + (d - 128)) # s) (utf8_text ds) else None))"

lemma code_less_256: "code c < (256 :: nat)"
  by (cases c) simp

lemma utf8_text_char: "utf8_text (utf8_char c @ bs) = map_option (\<lambda>s. c # s) (utf8_text bs)"
proof (cases "code c < (128 :: nat)")
  case False
  define n :: nat where "n = code c"
  have n: "128 \<le> n" "n < 256" using False code_less_256 [of c] by (simp_all add: n_def)
  then have "n div 64 = 2 \<or> n div 64 = 3" by linarith
  moreover have "(n div 64) * 64 + n mod 64 = n" by simp
  moreover have "n mod 64 < 64" by simp
  moreover have "utf8_char c = [192 + n div 64, 128 + n mod 64]" using False by (simp add: utf8_char_def n_def)
  moreover have "char_of n = c" by (simp add: n_def)
  ultimately show ?thesis by (auto simp: mult.commute)
qed (simp add: utf8_char_def)

lemma utf8_round_trip [simp]: "utf8_text (utf8 s) = Some s"
  by (induction s) (simp_all add: utf8_def utf8_text_char)

lemma utf8_bytes:
  assumes "b \<in> set (utf8 s)" shows "b < 256"
proof -
  obtain c where "b \<in> set (utf8_char c)" using assms by (auto simp: utf8_def)
  moreover have "code c div 64 < 64" using code_less_256 [of c] by linarith
  ultimately show ?thesis by (auto simp: utf8_char_def split: if_splits)
qed

lemma utf8_length: "length (utf8 s) \<le> 2 * length s"
  by (induction s) (auto simp: utf8_def utf8_char_def)

section \<open>Base64url\<close>

definition base64_char :: "nat \<Rightarrow> char" where
  "base64_char n = (if n < 26 then char_of (65 + n) else if n < 52 then char_of (71 + n)
     else if n < 62 then char_of (n - 4) else if n = 62 then CHR ''-'' else CHR ''_'')"

definition base64_value :: "char \<Rightarrow> nat" where
  "base64_value c = (if is_upper c then code c - 65 else if is_lower c then code c - 71
     else if is_digit c then code c + 4 else if c = CHR ''-'' then 62 else 63)"

fun base64url :: "nat list \<Rightarrow> string" where
  "base64url [] = []"
| "base64url [a] = [base64_char (a div 4), base64_char (a mod 4 * 16)]"
| "base64url [a, b] = [base64_char (a div 4), base64_char (a mod 4 * 16 + b div 16), base64_char (b mod 16 * 4)]"
| "base64url (a # b # c # bs) = base64_char (a div 4) # base64_char (a mod 4 * 16 + b div 16)
     # base64_char (b mod 16 * 4 + c div 64) # base64_char (c mod 64) # base64url bs"

text \<open>\<open>Buffer.from(input, "base64url")\<close> of a text in the alphabet; a single last character carries no octet.\<close>

fun base64_octets :: "string \<Rightarrow> nat list" where
  "base64_octets (w # x # y # z # s) =
    (base64_value w * 4 + base64_value x div 16) # (base64_value x mod 16 * 16 + base64_value y div 4)
      # (base64_value y mod 4 * 64 + base64_value z) # base64_octets s"
| "base64_octets [w, x, y] = [base64_value w * 4 + base64_value x div 16, base64_value x mod 16 * 16 + base64_value y div 4]"
| "base64_octets [w, x] = [base64_value w * 4 + base64_value x div 16]"
| "base64_octets _ = []"

definition encodeBase64Url :: "string \<Rightarrow> string" where
  "encodeBase64Url input = base64url (utf8 input)"

definition decodeBase64Url :: "string \<Rightarrow> nat list outcome" where
  "decodeBase64Url input = (if \<not> list_all is_base64url_char input then Inl (PlainError ''invalid_base64url'')
     else Inr (base64_octets input))"

definition encodeJsonBase64Url :: "json \<Rightarrow> string" where
  "encodeJsonBase64Url value = encodeBase64Url (json_text value)"

definition decodeJsonBase64Url :: "string \<Rightarrow> json outcome" where
  "decodeJsonBase64Url input = bindr (decodeBase64Url input) (\<lambda>bytes.
     case utf8_text bytes of None \<Rightarrow> Inl (PlainError ''SyntaxError'') | Some s \<Rightarrow>
       (case json_parse s of None \<Rightarrow> Inl (PlainError ''SyntaxError'') | Some v \<Rightarrow> Inr v))"

lemma base64_char_code:
  "n < 64 \<Longrightarrow> code (base64_char n) = (if n < 26 then 65 + n else if n < 52 then 71 + n else if n < 62 then n - 4 else if n = 62 then 45 else 95)"
  by (simp add: base64_char_def)

lemma base64_char_ok: "n < 64 \<Longrightarrow> is_base64url_char (base64_char n)"
  by (auto simp: is_base64url_char_def is_alnum_def is_digit_def is_upper_def is_lower_def base64_char_def)

lemma base64_value_char [simp]: "n < 64 \<Longrightarrow> base64_value (base64_char n) = n"
  by (auto simp: base64_value_def is_digit_def is_upper_def is_lower_def base64_char_def)

lemma base64_parts:
  fixes a b c :: nat assumes "a < 256" "b < 256" "c < 256"
  shows "a div 4 < 64" "a mod 4 * 16 < 64" "a mod 4 * 16 + b div 16 < 64" "b mod 16 * 4 < 64" "b mod 16 * 4 + c div 64 < 64"
    "c mod 64 < 64" "a div 4 * 4 + (a mod 4 * 16 + b div 16) div 16 = a" "a div 4 * 4 + (a mod 4 * 16) div 16 = a"
    "(a mod 4 * 16 + b div 16) mod 16 * 16 + (b mod 16 * 4 + c div 64) div 4 = b"
    "(a mod 4 * 16 + b div 16) mod 16 * 16 + (b mod 16 * 4) div 4 = b"
    "(b mod 16 * 4 + c div 64) mod 4 * 64 + c mod 64 = c"
proof -
  have small: "a mod 4 < 4" "b div 16 < 16" "b mod 16 < 16" "c div 64 < 4" "a div 4 < 64"
    using assms by auto
  then show "a div 4 < 64" "a mod 4 * 16 < 64" "a mod 4 * 16 + b div 16 < 64" "b mod 16 * 4 < 64" "b mod 16 * 4 + c div 64 < 64"
    "c mod 64 < 64" by linarith+
  have "(a mod 4 * 16 + b div 16) div 16 = a mod 4" "(a mod 4 * 16 + b div 16) mod 16 = b div 16"
    "(b mod 16 * 4 + c div 64) div 4 = b mod 16" "(b mod 16 * 4 + c div 64) mod 4 = c div 64"
    using small by simp_all
  then show "a div 4 * 4 + (a mod 4 * 16 + b div 16) div 16 = a" "a div 4 * 4 + (a mod 4 * 16) div 16 = a"
    "(a mod 4 * 16 + b div 16) mod 16 * 16 + (b mod 16 * 4 + c div 64) div 4 = b"
    "(a mod 4 * 16 + b div 16) mod 16 * 16 + (b mod 16 * 4) div 4 = b"
    "(b mod 16 * 4 + c div 64) mod 4 * 64 + c mod 64 = c"
    by simp_all
qed

lemma base64_round_trip: "\<forall>b\<in>set bs. b < 256 \<Longrightarrow> base64_octets (base64url bs) = bs"
proof (induction bs rule: base64url.induct)
  case (2 a)
  then show ?case using base64_parts [of a 0 0] by simp
next
  case (3 a b)
  then show ?case using base64_parts [of a b 0] by simp
next
  case (4 a b c bs)
  then show ?case using base64_parts [of a b c] by simp
qed simp

lemma base64_alphabet: "\<forall>b\<in>set bs. b < 256 \<Longrightarrow> list_all is_base64url_char (base64url bs)"
proof (induction bs rule: base64url.induct)
  case (2 a)
  then show ?case using base64_parts [of a 0 0] by (simp add: base64_char_ok)
next
  case (3 a b)
  then show ?case using base64_parts [of a b 0] by (simp add: base64_char_ok)
next
  case (4 a b c bs)
  then show ?case using base64_parts [of a b c] by (simp add: base64_char_ok)
qed simp

lemma encoded_alphabet: "list_all is_base64url_char (encodeBase64Url s)"
  unfolding encodeBase64Url_def by (rule base64_alphabet) (auto dest: utf8_bytes)

lemma encoded_no_dot: "CHR ''.'' \<notin> set (encodeBase64Url s)"
  using encoded_alphabet [of s] by (auto simp: list_all_iff is_base64url_char_def is_alnum_def is_digit_def is_upper_def is_lower_def)

lemma encoded_Nil_iff [simp]: "encodeBase64Url s = [] \<longleftrightarrow> s = []"
proof -
  have "base64url bs = [] \<longleftrightarrow> bs = []" for bs by (cases bs rule: base64url.cases) auto
  moreover have "utf8 s = [] \<longleftrightarrow> s = []" by (cases s) (auto simp: utf8_def utf8_char_def)
  ultimately show ?thesis by (simp add: encodeBase64Url_def)
qed

lemma json_base64_round_trip: "printable v \<Longrightarrow> decodeJsonBase64Url (encodeJsonBase64Url v) = Inr v"
  using encoded_alphabet [of "json_text v"] utf8_bytes [of _ "json_text v"]
  by (auto simp: decodeJsonBase64Url_def decodeBase64Url_def encodeJsonBase64Url_def encodeBase64Url_def base64_round_trip
      simp del: json_text.simps)

lemma json_text_not_Nil: "printable v \<Longrightarrow> json_text v \<noteq> []"
proof
  assume v: "printable v" "json_text v = []"
  have "json_parse [] = None" by code_simp
  with v json_parse_text [OF v(1)] show False by simp
qed

end
