(* ===== verification/Config.thy ===== *)
theory Config
  imports OAuth_Params Network_Address Rate_Limit Json_Text
begin

text \<open>
  \<open>shared/config.ts\<close>, \<open>shared/rate-limit-config.ts\<close>, \<open>shared/upstream-oidc-config.ts\<close> and
  \<open>shared/mcp-resource.ts\<close>: the service configuration read from the environment.  The environment
  is a finite map of strings; \<open>new URL\<close> and \<open>path.resolve\<close> of the working directory are arguments.
\<close>

section \<open>Data\<close>

type_synonym env = "(string \<times> string) list"

datatype store_backend = Backend_file | Backend_dynamodb
datatype upstream_auth_method = Upstream_post | Upstream_basic

record dynamodb_config =
  dc_tableName :: string
  dc_region :: string
  dc_endpoint :: "string option"

record upstream_config =
  uc_issuer :: string
  uc_discoveryUrl :: string
  uc_authorizationUrl :: string
  uc_tokenUrl :: string
  uc_userinfoUrl :: string
  uc_clientId :: string
  uc_clientSecret :: string
  uc_redirectUri :: string
  uc_scopes :: "string list"
  uc_tokenEndpointAuthMethod :: upstream_auth_method

type_synonym rate_limit_policies = "(string \<times> rate_limit_policy) list"

record service_config =
  issuer :: string
  mcpResource :: string
  actionsAudience :: string
  widgetDomain :: string
  oauthStoreBackend :: store_backend
  oauthStorePath :: string
  oauthDynamoDb :: dynamodb_config
  allowedOrigins :: "string list"
  accessTokenTtlSeconds :: int
  idTokenTtlSeconds :: int
  authorizationCodeTtlSeconds :: int
  refreshTokenTtlSeconds :: int
  rateLimitWindowSeconds :: int
  rateLimitMaxRequests :: int
  rateLimitPolicies :: rate_limit_policies
  mcpListPageSize :: int
  mcpSseMaxConnections :: int
  upstreamOidc :: upstream_config
  production :: bool

section \<open>Number(text)\<close>

text \<open>
  \<open>Number\<close> of a string: white space around it is ignored, the empty text is 0, radix prefixes and
  \<open>Infinity\<close> are read, and everything else is a decimal literal or \<open>NaN\<close> (\<open>None\<close>).
\<close>

definition radix_value :: "nat \<Rightarrow> string \<Rightarrow> rat option" where
  "radix_value b s = (if s \<noteq> [] \<and> list_all (\<lambda>c. is_hex_char c \<and> hex_char_value c < b) s
     then Some (of_nat (foldl (\<lambda>n c. b * n + hex_char_value c) 0 s)) else None)"

definition decimal_literal :: "string \<Rightarrow> rat option" where
  "decimal_literal s =
    (let ds = takeWhile is_digit s; r = dropWhile is_digit s;
         dot = (r \<noteq> [] \<and> hd r = CHR ''.'');
         r1 = (if dot then tl r else r);
         fs = (if dot then takeWhile is_digit r1 else []);
         r2 = (if dot then dropWhile is_digit r1 else r) in
     if ds = [] \<and> fs = [] then None
     else (case parse_exponent r2 of
         Some (e, []) \<Rightarrow> Some ((of_nat (decimal_value ds) + of_nat (decimal_value fs) / 10 ^ length fs) * 10 powi e)
       | _ \<Rightarrow> None))"

definition js_Number :: "string \<Rightarrow> js_number option" where
  "js_Number text =
    (let s = trim text in
     if s = [] then Some (Finite 0)
     else if starts_with ''0x'' s \<or> starts_with ''0X'' s then map_option to_number (radix_value 16 (drop 2 s))
     else if starts_with ''0o'' s \<or> starts_with ''0O'' s then map_option to_number (radix_value 8 (drop 2 s))
     else if starts_with ''0b'' s \<or> starts_with ''0B'' s then map_option to_number (radix_value 2 (drop 2 s))
     else let negative = (hd s = CHR ''-''); u = (if hd s = CHR ''-'' \<or> hd s = CHR ''+'' then tl s else s) in
       if u = ''Infinity'' then Some (Infinite negative)
       else map_option (\<lambda>r. to_number (if negative then - r else r)) (decimal_literal u))"

section \<open>Readers\<close>

definition fail :: "string \<Rightarrow> 'a outcome" where
  "fail message = Inl (PlainError message)"

definition require :: "bool \<Rightarrow> string \<Rightarrow> unit outcome" where
  "require ok message = (if ok then Inr () else fail message)"

definition strip_slash :: "string \<Rightarrow> string" where
  "strip_slash s = (if s \<noteq> [] \<and> last s = CHR ''/'' then butlast s else s)"

definition env_or :: "env \<Rightarrow> string \<Rightarrow> string \<Rightarrow> string" where
  "env_or env key fallback = (case map_of env key of Some v \<Rightarrow> v | None \<Rightarrow> fallback)"

definition assertMcpResourceUrl :: "url_parser \<Rightarrow> string \<Rightarrow> string \<Rightarrow> unit outcome" where
  "assertMcpResourceUrl parse_url resource key = bindr (newURL parse_url resource) (\<lambda>url.
     require (url_pathname url = ''/mcp'') (key @ '' must end with /mcp''))"

definition protectedResourceMetadataUrl :: "url_parser \<Rightarrow> string \<Rightarrow> string outcome" where
  "protectedResourceMetadataUrl parse_url resource = bindr (newURL parse_url resource) (\<lambda>url.
     Inr (url_origin url @ ''/.well-known/oauth-protected-resource'' @ (if url_pathname url = ''/'' then [] else url_pathname url)))"

definition readOAuthStoreBackend :: "env \<Rightarrow> bool \<Rightarrow> store_backend outcome" where
  "readOAuthStoreBackend env live =
    (let value = env_or env ''OAUTH_STORE_BACKEND'' (if live then [] else ''file'') in
     if value = ''file'' then
       (if live then fail ''OAUTH_STORE_BACKEND must be dynamodb in production'' else Inr Backend_file)
     else if value = ''dynamodb'' then Inr Backend_dynamodb
     else if live \<and> value = [] then fail ''OAUTH_STORE_BACKEND is required''
     else fail ''OAUTH_STORE_BACKEND must be file or dynamodb'')"

definition readOAuthStorePath :: "string \<Rightarrow> env \<Rightarrow> store_backend \<Rightarrow> bool \<Rightarrow> string outcome" where
  "readOAuthStorePath default_path env backend live =
    (if backend \<noteq> Backend_file then
       (if env_or env ''OAUTH_STORE_PATH'' [] \<noteq> [] then fail ''OAUTH_STORE_PATH requires file store backend'' else Inr [])
     else let value = env_or env ''OAUTH_STORE_PATH'' default_path in
       if value = [] then fail ''OAUTH_STORE_PATH is required''
       else if live \<and> value \<noteq> [] then fail ''OAUTH_STORE_PATH is local-development only''
       else Inr value)"

definition readText :: "env \<Rightarrow> string \<Rightarrow> string \<Rightarrow> bool \<Rightarrow> string outcome" where
  "readText env key fallback live =
    (let value = (case map_of env key of Some v \<Rightarrow> trim v | None \<Rightarrow> if live then [] else fallback) in
     if value = [] then fail (key @ '' is required'')
     else if list_ex (\<lambda>c. code c = 10 \<or> code c = 13) value then fail (key @ '' cannot contain line breaks'')
     else Inr value)"

definition readHttpUrl :: "url_parser \<Rightarrow> env \<Rightarrow> string \<Rightarrow> string \<Rightarrow> bool \<Rightarrow> string outcome" where
  "readHttpUrl parse_url env key fallback live =
    (let value = env_or env key (if live then [] else fallback) in
     if value = [] then fail (key @ '' is required'')
     else bindr (newURL parse_url value) (\<lambda>url.
       if url_protocol url \<noteq> ''http:'' \<and> url_protocol url \<noteq> ''https:'' then fail (key @ '' must use http or https'')
       else if live \<and> url_protocol url \<noteq> ''https:'' then fail (key @ '' must use https in production'')
       else if url_username url \<noteq> [] \<or> url_password url \<noteq> [] \<or> url_search url \<noteq> [] \<or> url_hash url \<noteq> []
         then fail (key @ '' contains unsupported URL parts'')
       else if live \<and> isNonPublicHostname (url_hostname url) then fail (key @ '' must use a public host in production'')
       else Inr (strip_slash (url_href url))))"

definition is_dynamodb_name :: "string \<Rightarrow> bool" where
  "is_dynamodb_name s = (3 \<le> length s \<and> length s \<le> 255 \<and>
     list_all (\<lambda>c. is_alnum c \<or> c \<in> {CHR ''_'', CHR ''.'', CHR ''-''}) s)"

text \<open>\<open>/^[a-z]{2}(-[a-z]+)+-[0-9]+$/\<close>: at least three words, the middle ones lower case, the last digits.\<close>

definition is_aws_region :: "string \<Rightarrow> bool" where
  "is_aws_region s = (let words = split_on CHR ''-'' s in
     length words \<ge> 3 \<and> length (hd words) = 2 \<and>
     list_all (\<lambda>w. w \<noteq> [] \<and> list_all is_lower w) (butlast words) \<and>
     last words \<noteq> [] \<and> list_all is_digit (last words))"

definition readDynamoDbName :: "env \<Rightarrow> string \<Rightarrow> bool \<Rightarrow> string outcome" where
  "readDynamoDbName env key live = bindr (readText env key [] live) (\<lambda>value.
     if \<not> is_dynamodb_name value then fail (key @ '' contains invalid characters'') else Inr value)"

definition readAwsRegion :: "env \<Rightarrow> string \<Rightarrow> string \<Rightarrow> bool \<Rightarrow> string outcome" where
  "readAwsRegion env key fallback live = bindr (readText env key fallback live) (\<lambda>value.
     if \<not> is_aws_region value then fail (key @ '' contains invalid characters'') else Inr value)"

definition readDynamoDbStoreConfig :: "url_parser \<Rightarrow> env \<Rightarrow> store_backend \<Rightarrow> bool \<Rightarrow> dynamodb_config outcome" where
  "readDynamoDbStoreConfig parse_url env backend live =
    (if backend \<noteq> Backend_dynamodb then Inr \<lparr> dc_tableName = [], dc_region = [], dc_endpoint = None \<rparr>
     else bindr (readDynamoDbName env ''OAUTH_DYNAMODB_TABLE_NAME'' live) (\<lambda>tableName.
       bindr (readAwsRegion env ''OAUTH_DYNAMODB_REGION''
           (env_or env ''AWS_REGION'' (env_or env ''AWS_DEFAULT_REGION'' [])) live) (\<lambda>region.
       let endpoint = (case map_of env ''OAUTH_DYNAMODB_ENDPOINT'' of None \<Rightarrow> [] | Some v \<Rightarrow> trim v) in
       if live \<and> endpoint \<noteq> [] then fail ''OAUTH_DYNAMODB_ENDPOINT is local-development only''
       else if endpoint \<noteq> [] then
         bindr (readHttpUrl parse_url [(''OAUTH_DYNAMODB_ENDPOINT'', endpoint)] ''OAUTH_DYNAMODB_ENDPOINT'' endpoint False)
           (\<lambda>e. Inr \<lparr> dc_tableName = tableName, dc_region = region, dc_endpoint = Some e \<rparr>)
       else Inr \<lparr> dc_tableName = tableName, dc_region = region, dc_endpoint = None \<rparr>)))"

text \<open>\<open>value.split(/\s+/)\<close>, trimmed, empty items dropped: the maximal runs of non-white characters.\<close>

fun words_acc :: "string \<Rightarrow> string \<Rightarrow> string list" where
  "words_acc acc [] = (if acc = [] then [] else [rev acc])"
| "words_acc acc (c # s) = (if is_ws c then (if acc = [] then words_acc [] s else rev acc # words_acc [] s)
     else words_acc (c # acc) s)"

definition parseList :: "string \<Rightarrow> string list" where
  "parseList value = words_acc [] value"

definition readIssuerUrl :: "url_parser \<Rightarrow> env \<Rightarrow> bool \<Rightarrow> string outcome" where
  "readIssuerUrl parse_url env live =
    bindr (readHttpUrl parse_url env ''PUBLIC_ISSUER_URL'' ''http://localhost:4000'' live) (\<lambda>value.
    bindr (newURL parse_url value) (\<lambda>url.
    bindr (require (url_pathname url = ''/'') ''PUBLIC_ISSUER_URL must not include a path'') (\<lambda>_. Inr value)))"

definition readOriginUrl :: "url_parser \<Rightarrow> env \<Rightarrow> string \<Rightarrow> string \<Rightarrow> bool \<Rightarrow> string outcome" where
  "readOriginUrl parse_url env key fallback live =
    bindr (readHttpUrl parse_url env key fallback live) (\<lambda>value.
    bindr (newURL parse_url value) (\<lambda>url.
    bindr (require (url_origin url = value) (key @ '' must be an origin'')) (\<lambda>_. Inr (url_origin url))))"

definition normalizeOrigin :: "url_parser \<Rightarrow> bool \<Rightarrow> string \<Rightarrow> string outcome" where
  "normalizeOrigin parse_url live value =
    (if includes_char CHR ''*'' value then fail ''ALLOWED_ORIGINS cannot contain wildcards''
     else bindr (newURL parse_url value) (\<lambda>url.
       if url_protocol url \<noteq> ''http:'' \<and> url_protocol url \<noteq> ''https:'' then fail ''ALLOWED_ORIGINS must use http or https''
       else if live \<and> url_protocol url \<noteq> ''https:'' then fail ''ALLOWED_ORIGINS must use https in production''
       else if url_origin url \<noteq> strip_slash (url_href url) then fail ''ALLOWED_ORIGINS entries must be origins''
       else if live \<and> isNonPublicHostname (url_hostname url) then fail ''ALLOWED_ORIGINS entries must use public hosts in production''
       else Inr (url_origin url)))"

definition readAllowedOrigins :: "url_parser \<Rightarrow> env \<Rightarrow> bool \<Rightarrow> string list outcome" where
  "readAllowedOrigins parse_url env live =
    (let value = env_or env ''ALLOWED_ORIGINS''
       (if live then [] else ''https://chatgpt.com https://chat.openai.com http://localhost:4000'') in
     if value = [] then fail ''ALLOWED_ORIGINS is required''
     else mapr (normalizeOrigin parse_url live) (parseList value))"

definition readNumber :: "env \<Rightarrow> string \<Rightarrow> int \<Rightarrow> bool \<Rightarrow> int option \<Rightarrow> int outcome" where
  "readNumber env key fallback live maximum = (case map_of env key of
     None \<Rightarrow> if live then fail (key @ '' is required'') else Inr fallback
   | Some value \<Rightarrow>
       if live \<and> trim value = [] then fail (key @ '' is required'')
       else (case js_Number value of
           None \<Rightarrow> fail (key @ '' must be a positive safe integer'')
         | Some n \<Rightarrow>
             if \<not> is_safe_integer n \<or> integer_value n \<le> 0 then fail (key @ '' must be a positive safe integer'')
             else if maximum \<noteq> None \<and> the maximum < integer_value n then fail (key @ '' must be at most '' @ decimal (nat (the maximum)))
             else Inr (integer_value n)))"

section \<open>Rate-limit policies\<close>

definition rateLimitBuckets :: "string list" where
  "rateLimitBuckets = [''oauth-authorize'', ''oauth-token'', ''oauth-userinfo'', ''mcp-tool'', ''mcp-resource'']"

definition policyObject :: "json option \<Rightarrow> string \<Rightarrow> js_object outcome" where
  "policyObject value name =
    (let parsed = (case json_string value of Some s \<Rightarrow> json_parse s | None \<Rightarrow> value) in
     if json_string value \<noteq> None \<and> parsed = None then fail (name @ '' must be valid JSON'')
     else (case json_object parsed of
         None \<Rightarrow> fail (name @ '' must be a JSON object'')
       | Some kvs \<Rightarrow> Inr kvs))"

definition optionalPositiveInteger :: "json option \<Rightarrow> string \<Rightarrow> int option outcome" where
  "optionalPositiveInteger value name = (case value of
     None \<Rightarrow> Inr None
   | Some (JNum n) \<Rightarrow> if \<not> is_safe_integer n \<or> integer_value n \<le> 0
       then fail (name @ '' must be a positive safe integer'') else Inr (Some (integer_value n))
   | _ \<Rightarrow> fail (name @ '' must be a positive safe integer''))"

definition or_int :: "int option \<Rightarrow> int \<Rightarrow> int" where
  "or_int x d = (case x of None \<Rightarrow> d | Some n \<Rightarrow> n)"

fun rateLimitOverrides :: "rate_limit_policy \<Rightarrow> js_object \<Rightarrow> rate_limit_policies \<Rightarrow> rate_limit_policies outcome" where
  "rateLimitOverrides defaults [] policies = Inr policies"
| "rateLimitOverrides defaults ((bucket, policyValue) # entries) policies =
    (if \<not> List.member rateLimitBuckets bucket then fail ''RATE_LIMIT_POLICIES_JSON contains unknown bucket''
     else bindr (policyObject (Some policyValue) (''RATE_LIMIT_POLICIES_JSON.'' @ bucket)) (\<lambda>policy.
       bindr (optionalPositiveInteger (field policy ''windowSeconds'') (''RATE_LIMIT_POLICIES_JSON.'' @ bucket @ ''.windowSeconds'')) (\<lambda>w.
       bindr (optionalPositiveInteger (field policy ''maxRequests'') (''RATE_LIMIT_POLICIES_JSON.'' @ bucket @ ''.maxRequests'')) (\<lambda>m.
         rateLimitOverrides defaults entries (AList.update bucket
           \<lparr> windowSeconds = or_int w (windowSeconds defaults), maxRequests = or_int m (maxRequests defaults) \<rparr> policies)))))"

definition readRateLimitPolicies :: "env \<Rightarrow> rate_limit_policy \<Rightarrow> rate_limit_policies outcome" where
  "readRateLimitPolicies env defaults =
    (let policies = map (\<lambda>bucket. (bucket, defaults)) rateLimitBuckets in
     case map_of env ''RATE_LIMIT_POLICIES_JSON'' of
       None \<Rightarrow> Inr policies
     | Some value \<Rightarrow> bindr (policyObject (Some (JStr value)) ''RATE_LIMIT_POLICIES_JSON'') (\<lambda>parsed.
         rateLimitOverrides defaults parsed policies))"

section \<open>The configuration\<close>

definition readUpstreamDiscoveryUrl :: "url_parser \<Rightarrow> env \<Rightarrow> string \<Rightarrow> bool \<Rightarrow> string outcome" where
  "readUpstreamDiscoveryUrl parse_url env issuerInput live =
    (let value = env_or env ''UPSTREAM_OIDC_DISCOVERY_URL'' (issuerInput @ ''/.well-known/openid-configuration'') in
     readHttpUrl parse_url [(''UPSTREAM_OIDC_DISCOVERY_URL'', value)] ''UPSTREAM_OIDC_DISCOVERY_URL'' value live)"

definition readUpstreamTokenAuthMethod :: "env \<Rightarrow> upstream_auth_method outcome" where
  "readUpstreamTokenAuthMethod env =
    (let value = env_or env ''UPSTREAM_OIDC_TOKEN_AUTH_METHOD'' ''client_secret_post'' in
     if value = ''client_secret_post'' then Inr Upstream_post
     else if value = ''client_secret_basic'' then Inr Upstream_basic
     else fail ''UPSTREAM_OIDC_TOKEN_AUTH_METHOD must be client_secret_post or client_secret_basic'')"

definition readUpstreamOidcConfig :: "url_parser \<Rightarrow> env \<Rightarrow> string \<Rightarrow> bool \<Rightarrow> upstream_config outcome" where
  "readUpstreamOidcConfig parse_url env serviceIssuer live =
    (let localIssuer = ''http://127.0.0.1:4100'';
         scopes = parseList (env_or env ''UPSTREAM_OIDC_SCOPES'' ''openid profile email'') in
     if \<not> List.member scopes ''openid'' then fail ''UPSTREAM_OIDC_SCOPES must include openid''
     else bindr (readHttpUrl parse_url env ''UPSTREAM_OIDC_ISSUER_URL'' localIssuer live) (\<lambda>upstreamIssuer.
       bindr (readUpstreamDiscoveryUrl parse_url env upstreamIssuer live) (\<lambda>discoveryUrl.
       bindr (readHttpUrl parse_url env ''UPSTREAM_OIDC_AUTHORIZATION_URL'' (localIssuer @ ''/oauth2/authorize'') live) (\<lambda>authorizationUrl.
       bindr (readHttpUrl parse_url env ''UPSTREAM_OIDC_TOKEN_URL'' (localIssuer @ ''/oauth2/token'') live) (\<lambda>tokenUrl.
       bindr (readHttpUrl parse_url env ''UPSTREAM_OIDC_USERINFO_URL'' (localIssuer @ ''/oauth2/userInfo'') live) (\<lambda>userinfoUrl.
       bindr (readText env ''UPSTREAM_OIDC_CLIENT_ID'' ''local-upstream-client'' live) (\<lambda>clientId.
       bindr (readText env ''UPSTREAM_OIDC_CLIENT_SECRET'' ''local-upstream-secret'' live) (\<lambda>clientSecret.
       bindr (readHttpUrl parse_url env ''UPSTREAM_OIDC_REDIRECT_URI'' (serviceIssuer @ ''/oauth/callback'') live) (\<lambda>redirectUri.
       bindr (readUpstreamTokenAuthMethod env) (\<lambda>authMethod.
         Inr \<lparr> uc_issuer = upstreamIssuer, uc_discoveryUrl = discoveryUrl, uc_authorizationUrl = authorizationUrl,
               uc_tokenUrl = tokenUrl, uc_userinfoUrl = userinfoUrl, uc_clientId = clientId, uc_clientSecret = clientSecret,
               uc_redirectUri = redirectUri, uc_scopes = scopes, uc_tokenEndpointAuthMethod = authMethod \<rparr>))))))))))"

definition readConfig :: "url_parser \<Rightarrow> string \<Rightarrow> env \<Rightarrow> service_config outcome" where
  "readConfig parse_url default_path env =
    (let live = (map_of env ''NODE_ENV'' = Some ''production'') in
     bindr (readIssuerUrl parse_url env live) (\<lambda>iss.
     bindr (readHttpUrl parse_url env ''MCP_RESOURCE_URL'' (iss @ ''/mcp'') live) (\<lambda>resource.
     bindr (assertMcpResourceUrl parse_url resource ''MCP_RESOURCE_URL'') (\<lambda>_.
     bindr (readHttpUrl parse_url env ''ACTIONS_AUDIENCE'' (iss @ ''/actions'') live) (\<lambda>audience.
     bindr (readOriginUrl parse_url env ''WIDGET_DOMAIN'' iss live) (\<lambda>widget.
     bindr (readOAuthStoreBackend env live) (\<lambda>backend.
     bindr (readOAuthStorePath default_path env backend live) (\<lambda>path.
     bindr (readDynamoDbStoreConfig parse_url env backend live) (\<lambda>dynamo.
     bindr (readNumber env ''RATE_LIMIT_WINDOW_SECONDS'' 60 live None) (\<lambda>window.
     bindr (readNumber env ''RATE_LIMIT_MAX_REQUESTS'' 120 live None) (\<lambda>requests.
     bindr (readAllowedOrigins parse_url env live) (\<lambda>origins.
     bindr (readNumber env ''ACCESS_TOKEN_TTL_SECONDS'' 900 live None) (\<lambda>accessTtl.
     bindr (readNumber env ''ID_TOKEN_TTL_SECONDS'' 300 live None) (\<lambda>idTtl.
     bindr (readNumber env ''AUTHORIZATION_CODE_TTL_SECONDS'' 300 live None) (\<lambda>codeTtl.
     bindr (readNumber env ''REFRESH_TOKEN_TTL_SECONDS'' 2592000 live None) (\<lambda>refreshTtl.
     bindr (readRateLimitPolicies env \<lparr> windowSeconds = window, maxRequests = requests \<rparr>) (\<lambda>policies.
     bindr (readNumber env ''MCP_LIST_PAGE_SIZE'' 128 live (Some 256)) (\<lambda>pageSize.
     bindr (readNumber env ''MCP_SSE_MAX_CONNECTIONS'' 1024 live None) (\<lambda>sse.
     bindr (readUpstreamOidcConfig parse_url env iss live) (\<lambda>upstream.
       Inr \<lparr> issuer = iss, mcpResource = resource, actionsAudience = audience, widgetDomain = widget,
             oauthStoreBackend = backend, oauthStorePath = path, oauthDynamoDb = dynamo, allowedOrigins = origins,
             accessTokenTtlSeconds = accessTtl, idTokenTtlSeconds = idTtl, authorizationCodeTtlSeconds = codeTtl,
             refreshTokenTtlSeconds = refreshTtl, rateLimitWindowSeconds = window, rateLimitMaxRequests = requests,
             rateLimitPolicies = policies, mcpListPageSize = pageSize, mcpSseMaxConnections = sse,
             upstreamOidc = upstream, production = live \<rparr>))))))))))))))))))))"

section \<open>What an accepted configuration guarantees\<close>

text \<open>A configured URL is the printed form of a parsed one without credentials, query and fragment.\<close>

definition clean_url :: "url_parser \<Rightarrow> bool \<Rightarrow> string \<Rightarrow> bool" where
  "clean_url parse_url live s = (\<exists>raw u. parse_url raw = Some u \<and> s = strip_slash (url_href u) \<and>
     url_protocol u \<in> {''http:'', ''https:''} \<and> url_username u = [] \<and> url_password u = [] \<and> url_search u = [] \<and> url_hash u = [] \<and>
     (live \<longrightarrow> url_protocol u = ''https:'' \<and> \<not> isNonPublicHostname (url_hostname u)))"

definition positive_safe :: "int \<Rightarrow> bool" where
  "positive_safe n = (0 < n \<and> n \<le> max_safe_integer)"

lemma newURL_eq_Inr [result_simps]: "newURL parse_url s = Inr u \<longleftrightarrow> parse_url s = Some u"
  by (auto simp: newURL_def split: option.splits)

lemma fail_neq_Inr [simp]: "fail m \<noteq> Inr x"
  by (simp add: fail_def)

lemma require_eq_Inr [simp]: "require b m = Inr x \<longleftrightarrow> b"
  by (simp add: require_def)

lemma readHttpUrl_clean: "readHttpUrl parse_url env key fb live = Inr s \<Longrightarrow> clean_url parse_url live s"
  unfolding readHttpUrl_def clean_url_def Let_def
  by (auto simp: bindr_eq_Inr newURL_eq_Inr split: if_splits)

lemma readNumber_positive:
  assumes "readNumber env key fb live m = Inr n" "positive_safe fb" shows "positive_safe n"
  using assms by (auto simp: readNumber_def positive_safe_def split: option.splits if_splits elim: is_safe_integerE)

lemma readNumber_maximum: "readNumber env key fb live (Some m) = Inr n \<Longrightarrow> fb \<le> m \<Longrightarrow> n \<le> m"
  by (auto simp: readNumber_def split: option.splits if_splits)

lemma optionalPositiveInteger_positive:
  "optionalPositiveInteger v name = Inr (Some n) \<Longrightarrow> positive_safe n"
  by (auto simp: optionalPositiveInteger_def positive_safe_def split: option.splits json.splits if_splits elim: is_safe_integerE)

lemma or_int_positive: "optionalPositiveInteger v name = Inr x \<Longrightarrow> positive_safe d \<Longrightarrow> positive_safe (or_int x d)"
  by (cases x) (auto simp: or_int_def dest: optionalPositiveInteger_positive)

lemma policy_ok_positive: "policy_ok p \<longleftrightarrow> positive_safe (windowSeconds p) \<and> positive_safe (maxRequests p)"
  by (auto simp: policy_ok_def positive_safe_def)

definition policies_ok :: "rate_limit_policies \<Rightarrow> bool" where
  "policies_ok ps = (\<forall>b\<in>set rateLimitBuckets. \<exists>p. map_of ps b = Some p \<and> policy_ok p)"

lemma policies_ok_update: "policies_ok ps \<Longrightarrow> policy_ok p \<Longrightarrow> policies_ok (AList.update b p ps)"
  by (auto simp: policies_ok_def)

lemma rateLimitOverrides_ok:
  "rateLimitOverrides d es ps = Inr qs \<Longrightarrow> policies_ok ps \<Longrightarrow> policy_ok d \<Longrightarrow> policies_ok qs"
proof (induction d es ps rule: rateLimitOverrides.induct)
  case (2 d b v es ps)
  then obtain policy w m where
    w: "optionalPositiveInteger (field policy ''windowSeconds'') (''RATE_LIMIT_POLICIES_JSON.'' @ b @ ''.windowSeconds'') = Inr w"
    and m: "optionalPositiveInteger (field policy ''maxRequests'') (''RATE_LIMIT_POLICIES_JSON.'' @ b @ ''.maxRequests'') = Inr m"
    and parsed: "List.member rateLimitBuckets b" "policyObject (Some v) (''RATE_LIMIT_POLICIES_JSON.'' @ b) = Inr policy"
    and rest: "rateLimitOverrides d es (AList.update b \<lparr> windowSeconds = or_int w (windowSeconds d),
        maxRequests = or_int m (maxRequests d) \<rparr> ps) = Inr qs"
    by (auto simp: bindr_eq_Inr split: if_splits)
  moreover have "policy_ok \<lparr> windowSeconds = or_int w (windowSeconds d), maxRequests = or_int m (maxRequests d) \<rparr>"
    using or_int_positive [OF w] or_int_positive [OF m] 2(4) by (simp add: policy_ok_positive)
  ultimately show ?case
    using 2(1,3,4) policies_ok_update by blast
qed simp

lemma readRateLimitPolicies_ok:
  assumes "readRateLimitPolicies env d = Inr ps" "policy_ok d" shows "policies_ok ps"
proof -
  have "policies_ok (map (\<lambda>bucket. (bucket, d)) rateLimitBuckets)"
    using assms(2) by (simp add: policies_ok_def rateLimitBuckets_def)
  then show ?thesis
    using assms by (auto simp: readRateLimitPolicies_def Let_def bindr_eq_Inr split: option.splits intro: rateLimitOverrides_ok)
qed

lemma readOAuthStoreBackend_live: "readOAuthStoreBackend env True = Inr b \<Longrightarrow> b = Backend_dynamodb"
  by (auto simp: readOAuthStoreBackend_def Let_def split: if_splits)

lemma readDynamoDbStoreConfig_live:
  "readDynamoDbStoreConfig parse_url env Backend_dynamodb True = Inr d \<Longrightarrow>
   dc_endpoint d = None \<and> is_dynamodb_name (dc_tableName d) \<and> is_aws_region (dc_region d)"
  by (auto simp: readDynamoDbStoreConfig_def readDynamoDbName_def readAwsRegion_def bindr_eq_Inr Let_def split: if_splits)

lemma normalizeOrigin_live:
  "normalizeOrigin parse_url True v = Inr s \<Longrightarrow>
   \<exists>u. parse_url v = Some u \<and> s = url_origin u \<and> url_protocol u = ''https:'' \<and> \<not> isNonPublicHostname (url_hostname u)"
  by (auto simp: normalizeOrigin_def bindr_eq_Inr newURL_eq_Inr split: if_splits)

lemma readAllowedOrigins_live:
  assumes "readAllowedOrigins parse_url env True = Inr os" "s \<in> set os"
  shows "\<exists>v u. parse_url v = Some u \<and> s = url_origin u \<and> url_protocol u = ''https:'' \<and> \<not> isNonPublicHostname (url_hostname u)"
proof -
  obtain vs where "list_all2 (\<lambda>v s. normalizeOrigin parse_url True v = Inr s) vs os"
    using assms(1) by (auto simp: readAllowedOrigins_def Let_def mapr_eq_Inr_iff split: if_splits)
  then obtain v where "normalizeOrigin parse_url True v = Inr s"
    using assms(2) by (auto simp: list_all2_conv_all_nth in_set_conv_nth)
  then show ?thesis using normalizeOrigin_live by blast
qed

lemma readConfigE:
  assumes "readConfig parse_url default_path env = Inr c"
  obtains
    "readIssuerUrl parse_url env (production c) = Inr (issuer c)"
    "readHttpUrl parse_url env ''MCP_RESOURCE_URL'' (issuer c @ ''/mcp'') (production c) = Inr (mcpResource c)"
    "readHttpUrl parse_url env ''ACTIONS_AUDIENCE'' (issuer c @ ''/actions'') (production c) = Inr (actionsAudience c)"
    "readOriginUrl parse_url env ''WIDGET_DOMAIN'' (issuer c) (production c) = Inr (widgetDomain c)"
    "readOAuthStoreBackend env (production c) = Inr (oauthStoreBackend c)"
    "readDynamoDbStoreConfig parse_url env (oauthStoreBackend c) (production c) = Inr (oauthDynamoDb c)"
    "readNumber env ''RATE_LIMIT_WINDOW_SECONDS'' 60 (production c) None = Inr (rateLimitWindowSeconds c)"
    "readNumber env ''RATE_LIMIT_MAX_REQUESTS'' 120 (production c) None = Inr (rateLimitMaxRequests c)"
    "readAllowedOrigins parse_url env (production c) = Inr (allowedOrigins c)"
    "readNumber env ''ACCESS_TOKEN_TTL_SECONDS'' 900 (production c) None = Inr (accessTokenTtlSeconds c)"
    "readNumber env ''ID_TOKEN_TTL_SECONDS'' 300 (production c) None = Inr (idTokenTtlSeconds c)"
    "readNumber env ''AUTHORIZATION_CODE_TTL_SECONDS'' 300 (production c) None = Inr (authorizationCodeTtlSeconds c)"
    "readNumber env ''REFRESH_TOKEN_TTL_SECONDS'' 2592000 (production c) None = Inr (refreshTokenTtlSeconds c)"
    "readRateLimitPolicies env \<lparr> windowSeconds = rateLimitWindowSeconds c, maxRequests = rateLimitMaxRequests c \<rparr> = Inr (rateLimitPolicies c)"
    "readNumber env ''MCP_LIST_PAGE_SIZE'' 128 (production c) (Some 256) = Inr (mcpListPageSize c)"
    "readNumber env ''MCP_SSE_MAX_CONNECTIONS'' 1024 (production c) None = Inr (mcpSseMaxConnections c)"
    "readUpstreamOidcConfig parse_url env (issuer c) (production c) = Inr (upstreamOidc c)"
    "production c = (map_of env ''NODE_ENV'' = Some ''production'')"
  using assms unfolding readConfig_def Let_def bindr_eq_Inr
  by - (elim exE conjE, drule Inr_inject [THEN sym], rule that; simp only: service_config.select_convs)

text \<open>A setting that stands in the environment itself, not for a default.\<close>

definition explicit_url :: "url_parser \<Rightarrow> env \<Rightarrow> string \<times> string \<Rightarrow> bool" where
  "explicit_url parse_url env setting = (case setting of (key, s) \<Rightarrow>
     \<exists>v u. map_of env key = Some v \<and> parse_url v = Some u \<and> s = strip_slash (url_href u))"

definition explicit_number :: "env \<Rightarrow> string \<times> int \<Rightarrow> bool" where
  "explicit_number env setting = (case setting of (key, n) \<Rightarrow>
     \<exists>v x. map_of env key = Some v \<and> js_Number v = Some x \<and> n = integer_value x)"

definition explicit_text :: "env \<Rightarrow> string \<times> string \<Rightarrow> bool" where
  "explicit_text env setting = (case setting of (key, s) \<Rightarrow> s \<noteq> [] \<and> map_option trim (map_of env key) = Some s)"

lemma readHttpUrl_explicit: "readHttpUrl parse_url env key fb True = Inr s \<Longrightarrow> explicit_url parse_url env (key, s)"
  by (auto simp: readHttpUrl_def explicit_url_def env_or_def Let_def bindr_eq_Inr newURL_eq_Inr split: option.splits if_splits)

lemma readNumber_explicit: "readNumber env key fb True m = Inr n \<Longrightarrow> explicit_number env (key, n)"
  by (auto simp: readNumber_def explicit_number_def split: option.splits if_splits)

lemma readText_explicit: "readText env key fb True = Inr s \<Longrightarrow> explicit_text env (key, s)"
  by (auto simp: readText_def explicit_text_def Let_def split: option.splits if_splits)

lemma readOriginUrl_value: "readOriginUrl parse_url env key fb live = Inr s \<Longrightarrow> readHttpUrl parse_url env key fb live = Inr s"
  by (auto simp: readOriginUrl_def bindr_eq_Inr)

lemma readIssuerUrl_value:
  "readIssuerUrl parse_url env live = Inr s \<Longrightarrow> readHttpUrl parse_url env ''PUBLIC_ISSUER_URL'' ''http://localhost:4000'' live = Inr s"
  by (auto simp: readIssuerUrl_def bindr_eq_Inr)

lemma readUpstreamOidcConfig_explicit:
  assumes "readUpstreamOidcConfig parse_url env iss True = Inr u"
  shows "list_all (explicit_url parse_url env) [(''UPSTREAM_OIDC_ISSUER_URL'', uc_issuer u),
      (''UPSTREAM_OIDC_AUTHORIZATION_URL'', uc_authorizationUrl u), (''UPSTREAM_OIDC_TOKEN_URL'', uc_tokenUrl u),
      (''UPSTREAM_OIDC_USERINFO_URL'', uc_userinfoUrl u), (''UPSTREAM_OIDC_REDIRECT_URI'', uc_redirectUri u)]"
    "list_all (explicit_text env) [(''UPSTREAM_OIDC_CLIENT_ID'', uc_clientId u), (''UPSTREAM_OIDC_CLIENT_SECRET'', uc_clientSecret u)]"
  using assms unfolding readUpstreamOidcConfig_def Let_def
  by (auto simp: bindr_eq_Inr split: if_splits intro: readHttpUrl_explicit readText_explicit)

lemma readDynamoDbStoreConfig_explicit:
  assumes "readDynamoDbStoreConfig parse_url env Backend_dynamodb True = Inr d"
  shows "list_all (explicit_text env) [(''OAUTH_DYNAMODB_TABLE_NAME'', dc_tableName d), (''OAUTH_DYNAMODB_REGION'', dc_region d)]"
  using assms
  by (auto simp: readDynamoDbStoreConfig_def readDynamoDbName_def readAwsRegion_def bindr_eq_Inr Let_def split: if_splits
      intro: readText_explicit)

lemma readAllowedOrigins_explicit:
  "readAllowedOrigins parse_url env True = Inr os \<Longrightarrow>
   \<exists>v. map_of env ''ALLOWED_ORIGINS'' = Some v \<and> list_all2 (\<lambda>v s. normalizeOrigin parse_url True v = Inr s) (parseList v) os"
  by (auto simp: readAllowedOrigins_def env_or_def Let_def mapr_eq_Inr_iff split: if_splits option.splits)

lemma readOAuthStoreBackend_explicit:
  "readOAuthStoreBackend env True = Inr b \<Longrightarrow> map_of env ''OAUTH_STORE_BACKEND'' = Some ''dynamodb''"
  by (auto simp: readOAuthStoreBackend_def env_or_def Let_def split: if_splits option.splits)

lemma readUpstreamOidcConfig_clean:
  "readUpstreamOidcConfig parse_url env iss live = Inr u \<Longrightarrow>
   list_all (clean_url parse_url live) [uc_issuer u, uc_discoveryUrl u, uc_authorizationUrl u, uc_tokenUrl u, uc_userinfoUrl u, uc_redirectUri u]"
  unfolding readUpstreamOidcConfig_def Let_def readUpstreamDiscoveryUrl_def
  by (auto simp: bindr_eq_Inr split: if_splits dest!: readHttpUrl_clean)

section \<open>Properties\<close>

text \<open>C31: an accepted configuration has positive lifetimes and limits, a page size of at most 256, an
  admissible rate-limit policy for every bucket, and clean URLs.  In production every one of these URLs is https
  on a public host, and so is every allowed origin; the store is DynamoDB without an endpoint override; and
  the store, the lifetimes and limits, the credentials and all of the URLs but that of the upstream's discovery document
  stand in the environment themselves: no default is used for them.  (The discovery URL, the upstream's scopes and
  authentication method and the rate-limit overrides do have defaults in production.)\<close>

theorem accepted_config_guarantees:
  assumes "readConfig parse_url default_path env = Inr c"
  shows "list_all positive_safe [accessTokenTtlSeconds c, idTokenTtlSeconds c, authorizationCodeTtlSeconds c,
      refreshTokenTtlSeconds c, rateLimitWindowSeconds c, rateLimitMaxRequests c, mcpListPageSize c, mcpSseMaxConnections c] \<and>
    mcpListPageSize c \<le> 256 \<and> policies_ok (rateLimitPolicies c) \<and>
    list_all (clean_url parse_url (production c)) [issuer c, mcpResource c, actionsAudience c, widgetDomain c,
      uc_issuer (upstreamOidc c), uc_discoveryUrl (upstreamOidc c), uc_authorizationUrl (upstreamOidc c),
      uc_tokenUrl (upstreamOidc c), uc_userinfoUrl (upstreamOidc c), uc_redirectUri (upstreamOidc c)] \<and>
    production c = (map_of env ''NODE_ENV'' = Some ''production'') \<and>
    (production c \<longrightarrow>
      oauthStoreBackend c = Backend_dynamodb \<and> dc_endpoint (oauthDynamoDb c) = None \<and>
      (\<forall>s\<in>set (allowedOrigins c). \<exists>v u. parse_url v = Some u \<and> s = url_origin u \<and>
        url_protocol u = ''https:'' \<and> \<not> isNonPublicHostname (url_hostname u)) \<and>
      list_all (explicit_url parse_url env) [(''PUBLIC_ISSUER_URL'', issuer c), (''MCP_RESOURCE_URL'', mcpResource c),
        (''ACTIONS_AUDIENCE'', actionsAudience c), (''WIDGET_DOMAIN'', widgetDomain c),
        (''UPSTREAM_OIDC_ISSUER_URL'', uc_issuer (upstreamOidc c)),
        (''UPSTREAM_OIDC_AUTHORIZATION_URL'', uc_authorizationUrl (upstreamOidc c)),
        (''UPSTREAM_OIDC_TOKEN_URL'', uc_tokenUrl (upstreamOidc c)), (''UPSTREAM_OIDC_USERINFO_URL'', uc_userinfoUrl (upstreamOidc c)),
        (''UPSTREAM_OIDC_REDIRECT_URI'', uc_redirectUri (upstreamOidc c))] \<and>
      list_all (explicit_number env) [(''ACCESS_TOKEN_TTL_SECONDS'', accessTokenTtlSeconds c),
        (''ID_TOKEN_TTL_SECONDS'', idTokenTtlSeconds c), (''AUTHORIZATION_CODE_TTL_SECONDS'', authorizationCodeTtlSeconds c),
        (''REFRESH_TOKEN_TTL_SECONDS'', refreshTokenTtlSeconds c), (''RATE_LIMIT_WINDOW_SECONDS'', rateLimitWindowSeconds c),
        (''RATE_LIMIT_MAX_REQUESTS'', rateLimitMaxRequests c), (''MCP_LIST_PAGE_SIZE'', mcpListPageSize c),
        (''MCP_SSE_MAX_CONNECTIONS'', mcpSseMaxConnections c)] \<and>
      list_all (explicit_text env) [(''UPSTREAM_OIDC_CLIENT_ID'', uc_clientId (upstreamOidc c)),
        (''UPSTREAM_OIDC_CLIENT_SECRET'', uc_clientSecret (upstreamOidc c)),
        (''OAUTH_DYNAMODB_TABLE_NAME'', dc_tableName (oauthDynamoDb c)), (''OAUTH_DYNAMODB_REGION'', dc_region (oauthDynamoDb c))] \<and>
      map_of env ''OAUTH_STORE_BACKEND'' = Some ''dynamodb'' \<and>
      (\<exists>v. map_of env ''ALLOWED_ORIGINS'' = Some v \<and>
        list_all2 (\<lambda>v s. normalizeOrigin parse_url True v = Inr s) (parseList v) (allowedOrigins c)))"
  using assms
proof (rule readConfigE)
  assume c: "readIssuerUrl parse_url env (production c) = Inr (issuer c)"
    "readHttpUrl parse_url env ''MCP_RESOURCE_URL'' (issuer c @ ''/mcp'') (production c) = Inr (mcpResource c)"
    "readHttpUrl parse_url env ''ACTIONS_AUDIENCE'' (issuer c @ ''/actions'') (production c) = Inr (actionsAudience c)"
    "readOriginUrl parse_url env ''WIDGET_DOMAIN'' (issuer c) (production c) = Inr (widgetDomain c)"
    "readOAuthStoreBackend env (production c) = Inr (oauthStoreBackend c)"
    "readDynamoDbStoreConfig parse_url env (oauthStoreBackend c) (production c) = Inr (oauthDynamoDb c)"
    "readAllowedOrigins parse_url env (production c) = Inr (allowedOrigins c)"
    "readRateLimitPolicies env \<lparr> windowSeconds = rateLimitWindowSeconds c, maxRequests = rateLimitMaxRequests c \<rparr> = Inr (rateLimitPolicies c)"
    "readUpstreamOidcConfig parse_url env (issuer c) (production c) = Inr (upstreamOidc c)"
    "production c = (map_of env ''NODE_ENV'' = Some ''production'')"
  assume n: "readNumber env ''RATE_LIMIT_WINDOW_SECONDS'' 60 (production c) None = Inr (rateLimitWindowSeconds c)"
    "readNumber env ''RATE_LIMIT_MAX_REQUESTS'' 120 (production c) None = Inr (rateLimitMaxRequests c)"
    "readNumber env ''ACCESS_TOKEN_TTL_SECONDS'' 900 (production c) None = Inr (accessTokenTtlSeconds c)"
    "readNumber env ''ID_TOKEN_TTL_SECONDS'' 300 (production c) None = Inr (idTokenTtlSeconds c)"
    "readNumber env ''AUTHORIZATION_CODE_TTL_SECONDS'' 300 (production c) None = Inr (authorizationCodeTtlSeconds c)"
    "readNumber env ''REFRESH_TOKEN_TTL_SECONDS'' 2592000 (production c) None = Inr (refreshTokenTtlSeconds c)"
    "readNumber env ''MCP_LIST_PAGE_SIZE'' 128 (production c) (Some 256) = Inr (mcpListPageSize c)"
    "readNumber env ''MCP_SSE_MAX_CONNECTIONS'' 1024 (production c) None = Inr (mcpSseMaxConnections c)"
  have safe: "positive_safe 60" "positive_safe 120" "positive_safe 900" "positive_safe 300" "positive_safe 2592000" "positive_safe 128"
    "positive_safe 1024"
    by (simp_all add: positive_safe_def max_safe_integer_def)
  note positive = n [THEN readNumber_positive]
  note urls = readIssuerUrl_value [OF c(1)] c(2,3) readOriginUrl_value [OF c(4)]
  have given: "dc_endpoint (oauthDynamoDb c) = None"
    "list_all (explicit_url parse_url env) [(''PUBLIC_ISSUER_URL'', issuer c), (''MCP_RESOURCE_URL'', mcpResource c),
        (''ACTIONS_AUDIENCE'', actionsAudience c), (''WIDGET_DOMAIN'', widgetDomain c)]"
    "list_all (explicit_url parse_url env) [(''UPSTREAM_OIDC_ISSUER_URL'', uc_issuer (upstreamOidc c)),
        (''UPSTREAM_OIDC_AUTHORIZATION_URL'', uc_authorizationUrl (upstreamOidc c)),
        (''UPSTREAM_OIDC_TOKEN_URL'', uc_tokenUrl (upstreamOidc c)), (''UPSTREAM_OIDC_USERINFO_URL'', uc_userinfoUrl (upstreamOidc c)),
        (''UPSTREAM_OIDC_REDIRECT_URI'', uc_redirectUri (upstreamOidc c))]"
    "list_all (explicit_number env) [(''ACCESS_TOKEN_TTL_SECONDS'', accessTokenTtlSeconds c),
        (''ID_TOKEN_TTL_SECONDS'', idTokenTtlSeconds c), (''AUTHORIZATION_CODE_TTL_SECONDS'', authorizationCodeTtlSeconds c),
        (''REFRESH_TOKEN_TTL_SECONDS'', refreshTokenTtlSeconds c), (''RATE_LIMIT_WINDOW_SECONDS'', rateLimitWindowSeconds c),
        (''RATE_LIMIT_MAX_REQUESTS'', rateLimitMaxRequests c), (''MCP_LIST_PAGE_SIZE'', mcpListPageSize c),
        (''MCP_SSE_MAX_CONNECTIONS'', mcpSseMaxConnections c)]"
    "list_all (explicit_text env) [(''UPSTREAM_OIDC_CLIENT_ID'', uc_clientId (upstreamOidc c)),
        (''UPSTREAM_OIDC_CLIENT_SECRET'', uc_clientSecret (upstreamOidc c))]"
    "list_all (explicit_text env) [(''OAUTH_DYNAMODB_TABLE_NAME'', dc_tableName (oauthDynamoDb c)), (''OAUTH_DYNAMODB_REGION'', dc_region (oauthDynamoDb c))]"
    "map_of env ''OAUTH_STORE_BACKEND'' = Some ''dynamodb''"
    "\<exists>v. map_of env ''ALLOWED_ORIGINS'' = Some v \<and> list_all2 (\<lambda>v s. normalizeOrigin parse_url True v = Inr s) (parseList v) (allowedOrigins c)"
    if live: "production c"
  proof -
    have dynamo: "readDynamoDbStoreConfig parse_url env Backend_dynamodb True = Inr (oauthDynamoDb c)"
      using c(5,6) live readOAuthStoreBackend_live [of env "oauthStoreBackend c"] by simp
    show "dc_endpoint (oauthDynamoDb c) = None" using readDynamoDbStoreConfig_live [OF dynamo] by simp
    show "list_all (explicit_text env) [(''OAUTH_DYNAMODB_TABLE_NAME'', dc_tableName (oauthDynamoDb c)), (''OAUTH_DYNAMODB_REGION'', dc_region (oauthDynamoDb c))]"
      by (rule readDynamoDbStoreConfig_explicit [OF dynamo])
  qed (use urls [unfolded eqTrueI [OF live], THEN readHttpUrl_explicit] n [unfolded eqTrueI [OF live], THEN readNumber_explicit]
      readUpstreamOidcConfig_explicit [OF c(9) [unfolded eqTrueI [OF live]]] readOAuthStoreBackend_explicit [OF c(5) [unfolded eqTrueI [OF live]]]
      readAllowedOrigins_explicit [OF c(7) [unfolded eqTrueI [OF live]]] in simp_all)
  have "policies_ok (rateLimitPolicies c)"
    using readRateLimitPolicies_ok [OF c(8)] positive(1,2) safe by (simp add: policy_ok_positive)
  moreover have "mcpListPageSize c \<le> 256"
    using readNumber_maximum [OF n(7)] by simp
  moreover have "oauthStoreBackend c = Backend_dynamodb" if "production c"
    using that c(5) readOAuthStoreBackend_live by simp
  moreover have "\<forall>s\<in>set (allowedOrigins c). \<exists>v u. parse_url v = Some u \<and> s = url_origin u \<and>
      url_protocol u = ''https:'' \<and> \<not> isNonPublicHostname (url_hostname u)" if "production c"
    using that c(7) readAllowedOrigins_live by simp
  moreover note given
  ultimately show ?thesis
    using positive safe urls [THEN readHttpUrl_clean] readUpstreamOidcConfig_clean [OF c(9)] c(10) given by simp
qed

text \<open>The defaults of local development are accepted; the URL parser of the example splits off a path.\<close>

definition sample_url_parser :: url_parser where
  "sample_url_parser s = Some \<lparr> url_protocol = (if starts_with ''https:'' s then ''https:'' else ''http:''),
     url_username = [], url_password = [], url_hostname = ''localhost'',
     url_pathname = (if ends_with ''/mcp'' s then ''/mcp'' else ''/''), url_search = [], url_hash = [],
     url_href = s, url_origin = s \<rparr>"

lemma sample_config_accepted: "case readConfig sample_url_parser ''/var/store.json'' [] of Inr c \<Rightarrow> \<not> production c | Inl e \<Rightarrow> False"
  by code_simp

text \<open>An environment of production; every URL of the example has one public host.\<close>

definition public_url_parser :: url_parser where
  "public_url_parser s = Some \<lparr> url_protocol = ''https:'', url_username = [], url_password = [], url_hostname = ''id.example.com'',
     url_pathname = (if ends_with ''/mcp'' s then ''/mcp'' else ''/''), url_search = [], url_hash = [], url_href = s, url_origin = s \<rparr>"

definition production_env :: env where
  "production_env = [(''NODE_ENV'', ''production''), (''PUBLIC_ISSUER_URL'', ''https://id.example.com''),
     (''MCP_RESOURCE_URL'', ''https://id.example.com/mcp''), (''ACTIONS_AUDIENCE'', ''https://id.example.com/actions''),
     (''WIDGET_DOMAIN'', ''https://id.example.com''), (''OAUTH_STORE_BACKEND'', ''dynamodb''),
     (''OAUTH_DYNAMODB_TABLE_NAME'', ''oauth''), (''OAUTH_DYNAMODB_REGION'', ''eu-west-1''),
     (''RATE_LIMIT_WINDOW_SECONDS'', ''60''), (''RATE_LIMIT_MAX_REQUESTS'', ''100''), (''ALLOWED_ORIGINS'', ''https://id.example.com''),
     (''ACCESS_TOKEN_TTL_SECONDS'', ''600''), (''ID_TOKEN_TTL_SECONDS'', ''300''), (''AUTHORIZATION_CODE_TTL_SECONDS'', ''60''),
     (''REFRESH_TOKEN_TTL_SECONDS'', ''86400''), (''MCP_LIST_PAGE_SIZE'', ''64''), (''MCP_SSE_MAX_CONNECTIONS'', ''100''),
     (''UPSTREAM_OIDC_ISSUER_URL'', ''https://id.example.com''), (''UPSTREAM_OIDC_AUTHORIZATION_URL'', ''https://id.example.com/a''),
     (''UPSTREAM_OIDC_TOKEN_URL'', ''https://id.example.com/t''), (''UPSTREAM_OIDC_USERINFO_URL'', ''https://id.example.com/u''),
     (''UPSTREAM_OIDC_CLIENT_ID'', ''client''), (''UPSTREAM_OIDC_CLIENT_SECRET'', ''secret''),
     (''UPSTREAM_OIDC_REDIRECT_URI'', ''https://id.example.com/c'')]"

lemma js_Number_digits:
  assumes "list_all is_digit s" "s \<noteq> []" "int (decimal_value s) \<le> max_safe_integer"
  shows "js_Number s = Some (Finite (of_nat (decimal_value s)))"
proof -
  have ws: "trim s = s"
    using assms(1) by (intro trim_no_ws) (auto simp: list_all_iff is_digit_def is_ws_def)
  have take: "takeWhile is_digit s = s" "dropWhile is_digit s = []"
    using assms(1) by (simp_all add: list_all_iff)
  obtain c t where s: "s = c # t" using assms(2) by (cases s) auto
  have c: "c \<noteq> CHR ''-''" "c \<noteq> CHR ''+''" "c \<noteq> CHR ''I''" using assms(1) s by (auto simp: is_digit_def)
  have x: "\<not> starts_with [CHR ''0'', d] s" if "\<not> is_digit d" for d
    using assms(1) that unfolding s by (cases t) auto
  have nd: "\<not> is_digit CHR ''x''" "\<not> is_digit CHR ''X''" "\<not> is_digit CHR ''o''" "\<not> is_digit CHR ''O''" "\<not> is_digit CHR ''b''" "\<not> is_digit CHR ''B''"
    by code_simp+
  have "decimal_literal s = Some (of_nat (decimal_value s))"
    using assms(2) by (simp add: decimal_literal_def take parse_exponent_def decimal_value_def [of "[]"])
  moreover have "to_number (of_nat (decimal_value s)) = Finite (of_nat (decimal_value s))"
    using to_number_int [of "int (decimal_value s)"] assms(3) by simp
  moreover have "hd s = c" "s \<noteq> ''Infinity''" using s c(3) by auto
  ultimately show ?thesis
    using c assms(2) x [OF nd(1)] x [OF nd(2)] x [OF nd(3)] x [OF nd(4)] x [OF nd(5)] x [OF nd(6)]
    unfolding js_Number_def Let_def ws by (simp only: if_False simp_thms option.map refl)
qed

lemma readNumber_digits:
  assumes "map_of env key = Some s" "list_all is_digit s \<and> s \<noteq> [] \<and> int (decimal_value s) = n"
    "0 < n" "n \<le> max_safe_integer" "maximum = None \<or> n \<le> the maximum"
  shows "readNumber env key fb True maximum = Inr n"
proof -
  have "trim s = s"
    using assms(2) by (intro trim_no_ws) (auto simp: list_all_iff is_digit_def is_ws_def)
  moreover have "js_Number s = Some (Finite (of_int n))"
    using js_Number_digits [of s] assms(2,4) by (metis of_int_of_nat_eq)
  moreover have "is_safe_integer (Finite (of_int n))" "integer_value (Finite (of_int n)) = n"
    using assms(3,4) by simp_all
  ultimately show ?thesis
    using assms by (auto simp: readNumber_def)
qed

lemma production_numbers:
  "readNumber production_env ''RATE_LIMIT_WINDOW_SECONDS'' a True None = Inr 60"
  "readNumber production_env ''RATE_LIMIT_MAX_REQUESTS'' a True None = Inr 100"
  "readNumber production_env ''ACCESS_TOKEN_TTL_SECONDS'' a True None = Inr 600"
  "readNumber production_env ''ID_TOKEN_TTL_SECONDS'' a True None = Inr 300"
  "readNumber production_env ''AUTHORIZATION_CODE_TTL_SECONDS'' a True None = Inr 60"
  "readNumber production_env ''REFRESH_TOKEN_TTL_SECONDS'' a True None = Inr 86400"
  "readNumber production_env ''MCP_LIST_PAGE_SIZE'' a True (Some 256) = Inr 64"
  "readNumber production_env ''MCP_SSE_MAX_CONNECTIONS'' a True None = Inr 100"
proof -
  have settings: "map_of production_env ''RATE_LIMIT_WINDOW_SECONDS'' = Some ''60''"
    "map_of production_env ''RATE_LIMIT_MAX_REQUESTS'' = Some ''100''"
    "map_of production_env ''ACCESS_TOKEN_TTL_SECONDS'' = Some ''600''"
    "map_of production_env ''ID_TOKEN_TTL_SECONDS'' = Some ''300''"
    "map_of production_env ''AUTHORIZATION_CODE_TTL_SECONDS'' = Some ''60''"
    "map_of production_env ''REFRESH_TOKEN_TTL_SECONDS'' = Some ''86400''"
    "map_of production_env ''MCP_LIST_PAGE_SIZE'' = Some ''64''"
    "map_of production_env ''MCP_SSE_MAX_CONNECTIONS'' = Some ''100''"
    by code_simp+
  have "list_all is_digit s \<and> s \<noteq> [] \<and> int (decimal_value s) = n \<and> 0 < n \<and> n \<le> max_safe_integer"
    if "(s, n) \<in> {(''60'', 60), (''100'', 100), (''600'', 600), (''300'', 300), (''86400'', 86400), (''64'', 64)}" for s n
    using that by (auto simp: is_digit_def decimal_value_def max_safe_integer_def)
  then have digits: "map_of production_env key = Some s \<Longrightarrow>
      (s, n) \<in> {(''60'', 60), (''100'', 100), (''600'', 600), (''300'', 300), (''86400'', 86400), (''64'', 64)} \<Longrightarrow>
      m = None \<or> n \<le> the m \<Longrightarrow> readNumber production_env key a True m = Inr n" for key s n m
    using readNumber_digits [of production_env key s n m a] by blast
  show "readNumber production_env ''RATE_LIMIT_WINDOW_SECONDS'' a True None = Inr 60" by (rule digits [OF settings(1)]) simp_all
  show "readNumber production_env ''RATE_LIMIT_MAX_REQUESTS'' a True None = Inr 100" by (rule digits [OF settings(2)]) simp_all
  show "readNumber production_env ''ACCESS_TOKEN_TTL_SECONDS'' a True None = Inr 600" by (rule digits [OF settings(3)]) simp_all
  show "readNumber production_env ''ID_TOKEN_TTL_SECONDS'' a True None = Inr 300" by (rule digits [OF settings(4)]) simp_all
  show "readNumber production_env ''AUTHORIZATION_CODE_TTL_SECONDS'' a True None = Inr 60" by (rule digits [OF settings(5)]) simp_all
  show "readNumber production_env ''REFRESH_TOKEN_TTL_SECONDS'' a True None = Inr 86400" by (rule digits [OF settings(6)]) simp_all
  show "readNumber production_env ''MCP_LIST_PAGE_SIZE'' a True (Some 256) = Inr 64" by (rule digits [OF settings(7)]) simp_all
  show "readNumber production_env ''MCP_SSE_MAX_CONNECTIONS'' a True None = Inr 100" by (rule digits [OF settings(8)]) simp_all
qed

lemma production_settings:
  "(map_of production_env ''NODE_ENV'' = Some ''production'') = True"
  "readIssuerUrl public_url_parser production_env True = Inr ''https://id.example.com''"
  "readHttpUrl public_url_parser production_env ''MCP_RESOURCE_URL'' a True = Inr ''https://id.example.com/mcp''"
  "assertMcpResourceUrl public_url_parser ''https://id.example.com/mcp'' ''MCP_RESOURCE_URL'' = Inr ()"
  "readHttpUrl public_url_parser production_env ''ACTIONS_AUDIENCE'' a True = Inr ''https://id.example.com/actions''"
  "readOriginUrl public_url_parser production_env ''WIDGET_DOMAIN'' a True = Inr ''https://id.example.com''"
  "readOAuthStoreBackend production_env True = Inr Backend_dynamodb"
  "readOAuthStorePath [] production_env Backend_dynamodb True = Inr []"
  "readDynamoDbStoreConfig public_url_parser production_env Backend_dynamodb True =
     Inr \<lparr> dc_tableName = ''oauth'', dc_region = ''eu-west-1'', dc_endpoint = None \<rparr>"
  "readAllowedOrigins public_url_parser production_env True = Inr [''https://id.example.com'']"
  "readRateLimitPolicies production_env d = Inr (map (\<lambda>bucket. (bucket, d)) rateLimitBuckets)"
  by code_simp+

lemma production_upstream: "\<exists>u. readUpstreamOidcConfig public_url_parser production_env ''https://id.example.com'' True = Inr u"
proof -
  have "case readUpstreamOidcConfig public_url_parser production_env ''https://id.example.com'' True of Inr u \<Rightarrow> True | Inl e \<Rightarrow> False"
    by code_simp
  then show ?thesis by (auto split: sum.splits)
qed

lemma production_config_accepted:
  "\<exists>c. readConfig public_url_parser [] production_env = Inr c \<and> production c \<and> accessTokenTtlSeconds c = 600"
proof -
  obtain u where "readUpstreamOidcConfig public_url_parser production_env ''https://id.example.com'' True = Inr u"
    using production_upstream by blast
  then show ?thesis unfolding readConfig_def Let_def production_settings(1)
    by (simp only: production_settings production_numbers bindr_Inr) simp
qed

theorem accepted_config_guarantees_witness:
  "\<exists>c. readConfig public_url_parser [] production_env = Inr c \<and> oauthStoreBackend c = Backend_dynamodb \<and>
     explicit_number production_env (''ACCESS_TOKEN_TTL_SECONDS'', 600)"
proof -
  obtain c where c: "readConfig public_url_parser [] production_env = Inr c" "production c" "accessTokenTtlSeconds c = 600"
    using production_config_accepted by blast
  with accepted_config_guarantees [OF c(1)] show ?thesis by auto
qed

end
