(* ===== verification/Tokens.thy ===== *)
theory Tokens
  imports Encoding Config User_Profile
begin

text \<open>
  \<open>auth/tokens\<close>: signing and verification of JWTs (\<open>jwt.ts\<close>), the key set (\<open>signing-keys.ts\<close>), access
  and id tokens, the token response, and the bearer check (\<open>auth/bearer.ts\<close>).  The cryptographic
  functions of \<open>node:crypto\<close> are fields of a record of parameters; a key is a value of an unknown
  type.  Random identifiers and the time are arguments.
\<close>

section \<open>Cryptography\<close>

record ('s, 'p) crypto =
  cr_createPrivateKey :: "string \<Rightarrow> 's option"
  cr_createPublicKey :: "string \<Rightarrow> 'p option"
  cr_publicOf :: "'s \<Rightarrow> 'p"
  cr_rsaBits :: "'p \<Rightarrow> nat option"
  cr_keyDigest :: "'p \<Rightarrow> string"
  cr_sha256 :: "string \<Rightarrow> string"
  cr_sign :: "'s \<Rightarrow> string \<Rightarrow> string"
  cr_verify :: "'p \<Rightarrow> string \<Rightarrow> string \<Rightarrow> bool"

record 'p verification_key =
  vk_kid :: string
  vk_publicKey :: 'p

record ('s, 'p) signing_key =
  sk_kid :: string
  sk_publicKey :: 'p
  sk_privateKey :: 's

record ('s, 'p) key_set =
  ks_active :: "('s, 'p) signing_key"
  ks_verificationKeys :: "'p verification_key list"

definition as_verification_key :: "('s, 'p) signing_key \<Rightarrow> 'p verification_key" where
  "as_verification_key k = \<lparr> vk_kid = sk_kid k, vk_publicKey = sk_publicKey k \<rparr>"

section \<open>The key set\<close>

definition is_key_id :: "string \<Rightarrow> bool" where
  "is_key_id s = (1 \<le> length s \<and> length s \<le> 128 \<and>
     list_all (\<lambda>c. is_alnum c \<or> c = CHR ''.'' \<or> c = CHR ''_'' \<or> c = CHR ''-'') s)"

definition validatedKeyId :: "string \<Rightarrow> string \<Rightarrow> string outcome" where
  "validatedKeyId value name = (if \<not> is_key_id value then fail (name @ '' must use 1-128 safe key id characters'') else Inr value)"

definition assertRsaKey :: "('s, 'p) crypto \<Rightarrow> 'p \<Rightarrow> string \<Rightarrow> unit outcome" where
  "assertRsaKey cr key name = (case cr_rsaBits cr key of
     None \<Rightarrow> fail (name @ '' must be RSA'')
   | Some bits \<Rightarrow> if bits < 2048 then fail (name @ '' must be at least 2048-bit RSA'') else Inr ())"

definition keyId :: "('s, 'p) crypto \<Rightarrow> 'p \<Rightarrow> string" where
  "keyId cr publicKey = take 24 (cr_keyDigest cr publicKey)"

text \<open>\<open>env.K\<close> used as a condition: absent and empty count as false.\<close>

definition env_text :: "env \<Rightarrow> string \<Rightarrow> string option" where
  "env_text env key = (case map_of env key of Some v \<Rightarrow> if v = [] then None else Some v | None \<Rightarrow> None)"

definition privateKeyPemValue :: "(string \<Rightarrow> string outcome) \<Rightarrow> env \<Rightarrow> string option outcome" where
  "privateKeyPemValue readFile env = (case env_text env ''OAUTH_PRIVATE_KEY_PEM'' of
     Some pem \<Rightarrow> Inr (Some pem)
   | None \<Rightarrow> (case env_text env ''OAUTH_PRIVATE_KEY_PEM_FILE'' of
       None \<Rightarrow> Inr None
     | Some path \<Rightarrow> bindr (readFile path) (\<lambda>pem. Inr (Some pem))))"

definition previousKey :: "('s, 'p) crypto \<Rightarrow> json \<Rightarrow> 'p verification_key outcome" where
  "previousKey cr value = (case json_object (Some value) of
     None \<Rightarrow> fail ''previous signing key must be an object''
   | Some record \<Rightarrow> (case json_string (field record ''kid'') of
       None \<Rightarrow> fail ''previous signing key kid is required''
     | Some kid \<Rightarrow> if trim kid = [] then fail ''previous signing key kid is required''
       else (case json_string (field record ''publicKeyPem'') of
           None \<Rightarrow> fail ''previous signing key publicKeyPem is required''
         | Some pem \<Rightarrow> if trim pem = [] then fail ''previous signing key publicKeyPem is required''
           else (case cr_createPublicKey cr pem of
               None \<Rightarrow> fail ''invalid public key''
             | Some key \<Rightarrow> bindr (assertRsaKey cr key ''previous signing key publicKeyPem'') (\<lambda>_.
                 bindr (validatedKeyId kid ''previous signing key kid'') (\<lambda>checked.
                   Inr \<lparr> vk_kid = checked, vk_publicKey = key \<rparr>))))))"

definition previousKeys :: "('s, 'p) crypto \<Rightarrow> string option \<Rightarrow> 'p verification_key list outcome" where
  "previousKeys cr value = (case value of
     None \<Rightarrow> Inr []
   | Some v \<Rightarrow> if trim v = [] then Inr [] else (case json_parse v of
       None \<Rightarrow> fail ''OAUTH_PREVIOUS_PUBLIC_KEYS_JSON must be valid JSON''
     | Some (JArr entries) \<Rightarrow> mapr (previousKey cr) entries
     | Some _ \<Rightarrow> fail ''OAUTH_PREVIOUS_PUBLIC_KEYS_JSON must be an array''))"

definition rejectDuplicateKids :: "'p verification_key list \<Rightarrow> unit outcome" where
  "rejectDuplicateKids keys = (if length (distinct_set (map vk_kid keys)) \<noteq> length keys
     then fail ''signing key ids must be unique'' else Inr ())"

definition activeKeyId :: "('s, 'p) crypto \<Rightarrow> service_config \<Rightarrow> env \<Rightarrow> 'p \<Rightarrow> string outcome" where
  "activeKeyId cr config env publicKey =
    (if trim (case map_of env ''OAUTH_KEY_ID'' of None \<Rightarrow> [] | Some v \<Rightarrow> v) = []
     then if production config then fail ''OAUTH_KEY_ID is required'' else Inr (keyId cr publicKey)
     else validatedKeyId (the (map_of env ''OAUTH_KEY_ID'')) ''OAUTH_KEY_ID'')"

definition or_empty :: "string option \<Rightarrow> string" where
  "or_empty x = (case x of None \<Rightarrow> [] | Some s \<Rightarrow> s)"

definition pemSource :: "('s, 'p) crypto \<Rightarrow> env \<Rightarrow> string \<Rightarrow> string" where
  "pemSource cr env pem = ''pem:'' @ cr_sha256 cr pem @ '':'' @ or_empty (map_of env ''OAUTH_KEY_ID'') @ '':'' @
     cr_sha256 cr (or_empty (map_of env ''OAUTH_PREVIOUS_PUBLIC_KEYS_JSON''))"

definition loadKeySet :: "('s, 'p) crypto \<Rightarrow> service_config \<Rightarrow> env \<Rightarrow> string \<Rightarrow> ('s, 'p) key_set outcome" where
  "loadKeySet cr config env pem = (case cr_createPrivateKey cr pem of
     None \<Rightarrow> fail ''invalid private key''
   | Some privateKey \<Rightarrow>
       let publicKey = cr_publicOf cr privateKey in
       bindr (assertRsaKey cr publicKey ''OAUTH_PRIVATE_KEY_PEM'') (\<lambda>_.
       bindr (activeKeyId cr config env publicKey) (\<lambda>kid.
       bindr (previousKeys cr (map_of env ''OAUTH_PREVIOUS_PUBLIC_KEYS_JSON'')) (\<lambda>previous.
         let active = \<lparr> sk_kid = kid, sk_publicKey = publicKey, sk_privateKey = privateKey \<rparr>;
             keys = as_verification_key active # previous in
         bindr (rejectDuplicateKids keys) (\<lambda>_. Inr \<lparr> ks_active = active, ks_verificationKeys = keys \<rparr>)))))"

definition localKeySet :: "('s, 'p) crypto \<Rightarrow> 's \<Rightarrow> ('s, 'p) key_set" where
  "localKeySet cr pair =
    (let active = \<lparr> sk_kid = keyId cr (cr_publicOf cr pair), sk_publicKey = cr_publicOf cr pair, sk_privateKey = pair \<rparr>
     in \<lparr> ks_active = active, ks_verificationKeys = [as_verification_key active] \<rparr>)"

text \<open>The result and the module variable \<open>cached\<close> afterwards; \<open>pair\<close> is what \<open>generateKeyPairSync\<close> would give.\<close>

definition getKeySet ::
  "('s, 'p) crypto \<Rightarrow> (string \<Rightarrow> string outcome) \<Rightarrow> service_config \<Rightarrow> env \<Rightarrow> 's \<Rightarrow> (string \<times> ('s, 'p) key_set) option \<Rightarrow>
     ('s, 'p) key_set outcome \<times> (string \<times> ('s, 'p) key_set) option" where
  "getKeySet cr readFile config env pair cached = (case privateKeyPemValue readFile env of
     Inl e \<Rightarrow> (Inl e, cached)
   | Inr pemValue \<Rightarrow>
     if pemValue \<noteq> None \<and> pemValue \<noteq> Some [] then
       let source = pemSource cr env (the pemValue) in
       if map_option fst cached = Some source then (Inr (snd (the cached)), cached)
       else (case loadKeySet cr config env (the pemValue) of
           Inl e \<Rightarrow> (Inl e, cached)
         | Inr keySet \<Rightarrow> (Inr keySet, Some (source, keySet)))
     else if production config then (fail ''OAUTH_PRIVATE_KEY_PEM is required'', cached)
     else if map_option fst cached = Some ''local'' then (Inr (snd (the cached)), cached)
     else let keySet = localKeySet cr pair in (Inr keySet, Some (''local'', keySet)))"

section \<open>JWTs\<close>

definition maxJwtLength :: nat where "maxJwtLength = 8192"

definition jwt_header :: "string \<Rightarrow> json" where
  "jwt_header kid = JObj [(''alg'', JStr ''RS256''), (''kid'', JStr kid), (''typ'', JStr ''JWT'')]"

definition signJwt :: "('s, 'p) crypto \<Rightarrow> json \<Rightarrow> string \<Rightarrow> 's \<Rightarrow> string" where
  "signJwt cr payload kid privateKey =
    (let signingInput = encodeJsonBase64Url (jwt_header kid) @ ''.'' @ encodeJsonBase64Url payload in
     signingInput @ ''.'' @ cr_sign cr privateKey signingInput)"

definition jwtParts :: "string \<Rightarrow> (string \<times> string \<times> string) outcome" where
  "jwtParts token =
    (if length token > maxJwtLength then Inl (JwtValidationError Jwt_oversized)
     else (case split_on CHR ''.'' token of
         [h, p, s] \<Rightarrow> if h = [] \<or> p = [] \<or> s = [] then Inl (JwtValidationError Jwt_malformed) else Inr (h, p, s)
       | _ \<Rightarrow> Inl (JwtValidationError Jwt_malformed)))"

definition decodeJwtJson :: "string \<Rightarrow> jwt_failure \<Rightarrow> json outcome" where
  "decodeJwtJson input reason = try_catch (decodeJsonBase64Url input) (\<lambda>_. Inl (JwtValidationError reason))"

definition jwtHeaderKid :: "json \<Rightarrow> string option" where
  "jwtHeaderKid value = (case json_object (Some value) of
     None \<Rightarrow> None
   | Some record \<Rightarrow>
       (case json_string (field record ''kid'') of
          None \<Rightarrow> None
        | Some kid \<Rightarrow>
            if field record ''alg'' = Some (JStr ''RS256'') \<and> is_key_id kid \<and>
              (field record ''typ'' = None \<or> field record ''typ'' = Some (JStr ''JWT'')) \<and> field record ''crit'' = None
            then Some kid else None))"

definition verifyJwt :: "('s, 'p) crypto \<Rightarrow> string \<Rightarrow> 'p \<Rightarrow> js_object outcome" where
  "verifyJwt cr token publicKey =
    bindr (jwtParts token) (\<lambda>(encodedHeader, encodedPayload, signature).
    bindr (decodeJwtJson encodedHeader Jwt_invalid_header) (\<lambda>header.
      if jwtHeaderKid header = None then Inl (JwtValidationError Jwt_invalid_header)
      else if \<not> cr_verify cr publicKey (encodedHeader @ ''.'' @ encodedPayload) signature
      then Inl (JwtValidationError Jwt_invalid_signature)
      else bindr (decodeJwtJson encodedPayload Jwt_invalid_payload) (\<lambda>payload.
        case json_object (Some payload) of
          None \<Rightarrow> Inl (JwtValidationError Jwt_invalid_payload)
        | Some record \<Rightarrow> Inr record)))"

definition jwtKid :: "string \<Rightarrow> string outcome" where
  "jwtKid token =
    bindr (jwtParts token) (\<lambda>(encodedHeader, encodedPayload, signature).
    bindr (decodeJwtJson encodedHeader Jwt_invalid_header) (\<lambda>header.
      case jwtHeaderKid header of None \<Rightarrow> Inl (JwtValidationError Jwt_invalid_header) | Some kid \<Rightarrow> Inr kid))"

section \<open>Access tokens\<close>

record access_token_claims =
  cl_iss :: string
  cl_sub :: string
  cl_aud :: string
  cl_exp :: int
  cl_iat :: int
  cl_nbf :: int
  cl_jti :: string
  cl_client_id :: string
  cl_scope :: string
  cl_name :: string
  cl_given_name :: string
  cl_family_name :: string
  cl_preferred_username :: string
  cl_email :: string
  cl_email_verified :: bool

record access_token_input =
  ai_user :: user_profile
  ai_clientId :: string
  ai_audience :: string
  ai_scopes :: "string list"

definition claims_object :: "access_token_claims \<Rightarrow> js_object" where
  "claims_object c = [(''iss'', JStr (cl_iss c)), (''sub'', JStr (cl_sub c)), (''aud'', JStr (cl_aud c)), (''exp'', JInt (cl_exp c)),
     (''iat'', JInt (cl_iat c)), (''nbf'', JInt (cl_nbf c)), (''jti'', JStr (cl_jti c)), (''client_id'', JStr (cl_client_id c)),
     (''scope'', JStr (cl_scope c)), (''name'', JStr (cl_name c)), (''given_name'', JStr (cl_given_name c)),
     (''family_name'', JStr (cl_family_name c)), (''preferred_username'', JStr (cl_preferred_username c)),
     (''email'', JStr (cl_email c)), (''email_verified'', JBool (cl_email_verified c))]"

definition access_claims_of :: "service_config \<Rightarrow> int \<Rightarrow> string \<Rightarrow> access_token_input \<Rightarrow> access_token_claims" where
  "access_claims_of config now jti input = \<lparr> cl_iss = issuer config, cl_sub = up_sub (ai_user input), cl_aud = ai_audience input,
     cl_exp = now + accessTokenTtlSeconds config, cl_iat = now, cl_nbf = now, cl_jti = jti, cl_client_id = ai_clientId input,
     cl_scope = join_with '' '' (ai_scopes input), cl_name = up_name (ai_user input), cl_given_name = up_given_name (ai_user input),
     cl_family_name = up_family_name (ai_user input), cl_preferred_username = up_preferred_username (ai_user input),
     cl_email = up_email (ai_user input), cl_email_verified = up_email_verified (ai_user input) \<rparr>"

definition issueAccessToken ::
  "('s, 'p) crypto \<Rightarrow> service_config \<Rightarrow> ('s, 'p) signing_key \<Rightarrow> int \<Rightarrow> string \<Rightarrow> access_token_input \<Rightarrow> string" where
  "issueAccessToken cr config key now jti input =
     signJwt cr (JObj (claims_object (access_claims_of config now jti input))) (sk_kid key) (sk_privateKey key)"

definition nonEmptyString :: "json option \<Rightarrow> bool" where
  "nonEmptyString value = (case json_string value of None \<Rightarrow> False | Some s \<Rightarrow> trim s = s \<and> s \<noteq> [])"

definition isNumericDate :: "json option \<Rightarrow> bool" where
  "isNumericDate value = (case value of Some (JNum n) \<Rightarrow> is_safe_integer n \<and> integer_value n \<ge> 0 | _ \<Rightarrow> False)"

definition validScopeString :: "json option \<Rightarrow> bool" where
  "validScopeString value = (case json_string value of None \<Rightarrow> False | Some s \<Rightarrow> trim s = s \<and> is_scope_list s)"

definition claim_text :: "js_object \<Rightarrow> string \<Rightarrow> string" where
  "claim_text payload key = (case json_string (field payload key) of None \<Rightarrow> [] | Some s \<Rightarrow> s)"

definition claim_date :: "js_object \<Rightarrow> string \<Rightarrow> int" where
  "claim_date payload key = (case field payload key of Some (JNum n) \<Rightarrow> integer_value n | _ \<Rightarrow> 0)"

definition requiredClaims :: "string list" where
  "requiredClaims = [''iss'', ''sub'', ''aud'', ''jti'', ''client_id'', ''scope'', ''name'', ''given_name'', ''family_name'',
     ''preferred_username'', ''email'']"

definition accessClaims :: "js_object \<Rightarrow> access_token_claims outcome" where
  "accessClaims payload =
    (if \<not> list_all (\<lambda>key. nonEmptyString (field payload key)) requiredClaims then Inl (accessTokenError Missing_required_claim 401)
     else if \<not> validScopeString (field payload ''scope'') then Inl (accessTokenError Invalid_scope_claim 401)
     else (case field payload ''email_verified'' of
       Some (JBool verified) \<Rightarrow>
         if \<not> isNumericDate (field payload ''exp'') \<or> \<not> isNumericDate (field payload ''iat'') \<or> \<not> isNumericDate (field payload ''nbf'')
         then Inl (accessTokenError Invalid_numeric_date 401)
         else Inr \<lparr> cl_iss = claim_text payload ''iss'', cl_sub = claim_text payload ''sub'', cl_aud = claim_text payload ''aud'',
           cl_exp = claim_date payload ''exp'', cl_iat = claim_date payload ''iat'', cl_nbf = claim_date payload ''nbf'',
           cl_jti = claim_text payload ''jti'', cl_client_id = claim_text payload ''client_id'', cl_scope = claim_text payload ''scope'',
           cl_name = claim_text payload ''name'', cl_given_name = claim_text payload ''given_name'',
           cl_family_name = claim_text payload ''family_name'',
           cl_preferred_username = claim_text payload ''preferred_username'', cl_email = claim_text payload ''email'',
           cl_email_verified = verified \<rparr>
     | _ \<Rightarrow> Inl (accessTokenError Invalid_email_verified_claim 401)))"

definition jwtAccessTokenError :: "js_error \<Rightarrow> js_error" where
  "jwtAccessTokenError e = (case e of
     JwtValidationError reason \<Rightarrow> accessTokenError (Jwt_failure reason) 401
   | _ \<Rightarrow> if as_service_error e \<noteq> None then e else accessTokenError (Jwt_failure Jwt_malformed) 401)"

definition readKid :: "string \<Rightarrow> string outcome" where
  "readKid token = try_catch (jwtKid token) (\<lambda>e. Inl (jwtAccessTokenError e))"

definition readPayload :: "('s, 'p) crypto \<Rightarrow> string \<Rightarrow> 'p \<Rightarrow> js_object outcome" where
  "readPayload cr token publicKey = try_catch (verifyJwt cr token publicKey) (\<lambda>e. Inl (jwtAccessTokenError e))"

definition verifyAccessToken ::
  "('s, 'p) crypto \<Rightarrow> service_config \<Rightarrow> 'p verification_key list \<Rightarrow> int \<Rightarrow> string \<Rightarrow> string \<Rightarrow> string list \<Rightarrow> access_token_claims outcome" where
  "verifyAccessToken cr config keys now token audience requiredScopes =
    bindr (readKid token) (\<lambda>kid.
      case find (\<lambda>candidate. vk_kid candidate = kid) keys of
        None \<Rightarrow> Inl (accessTokenError Unknown_key_id 401)
      | Some key \<Rightarrow> bindr (readPayload cr token (vk_publicKey key)) (\<lambda>payload.
          bindr (accessClaims payload) (\<lambda>claims.
            if cl_iss claims \<noteq> issuer config then Inl (accessTokenError Issuer_mismatch 401)
            else if cl_aud claims \<noteq> audience then Inl (accessTokenError Audience_mismatch 401)
            else if cl_exp claims \<le> now then Inl (accessTokenError Token_expired 401)
            else if cl_nbf claims > now then Inl (accessTokenError Token_not_yet_valid 401)
            else if cl_iat claims > now then Inl (accessTokenError Token_issued_in_future 401)
            else if \<not> hasScopes (words_acc [] (cl_scope claims)) requiredScopes
            then Inl (accessTokenError Insufficient_scope 403)
            else Inr claims)))"

section \<open>Id tokens and the token response\<close>

definition id_claims_json :: "service_config \<Rightarrow> int \<Rightarrow> user_profile \<Rightarrow> string \<Rightarrow> int \<Rightarrow> string option \<Rightarrow> json" where
  "id_claims_json config now user clientId authenticated nonce = JObj ([(''iss'', JStr (issuer config)), (''sub'', JStr (up_sub user)),
     (''aud'', JStr clientId), (''exp'', JInt (now + idTokenTtlSeconds config)), (''iat'', JInt now), (''auth_time'', JInt authenticated),
     (''name'', JStr (up_name user)), (''given_name'', JStr (up_given_name user)), (''family_name'', JStr (up_family_name user)),
     (''preferred_username'', JStr (up_preferred_username user)), (''email'', JStr (up_email user)),
     (''email_verified'', JBool (up_email_verified user))] @
     (case nonce of None \<Rightarrow> [] | Some n \<Rightarrow> if n = [] then [] else [(''nonce'', JStr n)]))"

definition issueIdToken ::
  "('s, 'p) crypto \<Rightarrow> service_config \<Rightarrow> ('s, 'p) signing_key \<Rightarrow> int \<Rightarrow> user_profile \<Rightarrow> string \<Rightarrow> int \<Rightarrow> string option \<Rightarrow> string" where
  "issueIdToken cr config key now user clientId authenticated nonce =
     signJwt cr (id_claims_json config now user clientId authenticated nonce) (sk_kid key) (sk_privateKey key)"

record token_response =
  tr_access_token :: string
  tr_expires_in :: int
  tr_refresh_token :: string
  tr_id_token :: "string option"
  tr_scope :: string

record token_response_input =
  ti_clientId :: string
  ti_resource :: string
  ti_scopes :: "string list"
  ti_refreshToken :: string
  ti_authTime :: int
  ti_user :: user_profile
  ti_nonce :: "string option"

definition issueTokenResponse ::
  "('s, 'p) crypto \<Rightarrow> service_config \<Rightarrow> ('s, 'p) signing_key \<Rightarrow> int \<Rightarrow> string \<Rightarrow> token_response_input \<Rightarrow> token_response" where
  "issueTokenResponse cr config key now jti input =
    \<lparr> tr_access_token = issueAccessToken cr config key now jti \<lparr> ai_user = ti_user input, ai_clientId = ti_clientId input,
        ai_audience = ti_resource input, ai_scopes = ti_scopes input \<rparr>,
      tr_expires_in = accessTokenTtlSeconds config, tr_refresh_token = ti_refreshToken input,
      tr_id_token = (if List.member (ti_scopes input) ''openid''
        then Some (issueIdToken cr config key now (ti_user input) (ti_clientId input) (ti_authTime input) (ti_nonce input)) else None),
      tr_scope = join_with '' '' (ti_scopes input) \<rparr>"

section \<open>Bearer credentials\<close>

definition readBearer :: "string option \<Rightarrow> string outcome" where
  "readBearer header =
    (if header = None \<or> header = Some [] then Inl (accessTokenError Missing_authorization_header 401)
     else (case authorizationCredentials header ''Bearer'' of
         None \<Rightarrow> Inl (accessTokenError Invalid_authorization_header 401)
       | Some credentials \<Rightarrow> Inr credentials))"

definition verifyBearer ::
  "('s, 'p) crypto \<Rightarrow> service_config \<Rightarrow> 'p verification_key list \<Rightarrow> int \<Rightarrow> string option \<Rightarrow> string \<Rightarrow> string list \<Rightarrow> access_token_claims outcome" where
  "verifyBearer cr config keys now header audience scopes =
     bindr (readBearer header) (\<lambda>token. verifyAccessToken cr config keys now token audience scopes)"

definition verifyPresentedBearer ::
  "('s, 'p) crypto \<Rightarrow> service_config \<Rightarrow> 'p verification_key list \<Rightarrow> int \<Rightarrow> string option \<Rightarrow> string \<Rightarrow> unit outcome" where
  "verifyPresentedBearer cr config keys now header audience =
    (if header = None \<or> header = Some [] then Inr ()
     else bindr (readBearer header) (\<lambda>token. bindr (verifyAccessToken cr config keys now token audience []) (\<lambda>_. Inr ())))"

text \<open>The loop over the audiences, with the errors kept so far.\<close>

fun try_audiences ::
  "(string \<Rightarrow> access_token_claims outcome) \<Rightarrow> string list \<Rightarrow> js_error option \<Rightarrow> js_error option \<Rightarrow> access_token_claims outcome" where
  "try_audiences check [] scopeError tokenError = (case scopeError of
     Some e \<Rightarrow> Inl e
   | None \<Rightarrow> Inl (case tokenError of Some e \<Rightarrow> e | None \<Rightarrow> accessTokenError Audience_mismatch 401))"
| "try_audiences check (audience # audiences) scopeError tokenError = (case check audience of
     Inr claims \<Rightarrow> Inr claims
   | Inl e \<Rightarrow> (case as_service_error e of
       Some (c, m, status) \<Rightarrow>
         if status = 403 then try_audiences check audiences (Some e) tokenError
         else if status = 401 then try_audiences check audiences scopeError (case tokenError of Some t \<Rightarrow> Some t | None \<Rightarrow> Some e)
         else Inl e
     | None \<Rightarrow> Inl e))"

definition verifyBearerAnyAudience ::
  "('s, 'p) crypto \<Rightarrow> service_config \<Rightarrow> 'p verification_key list \<Rightarrow> int \<Rightarrow> string option \<Rightarrow> string list \<Rightarrow> string list \<Rightarrow> access_token_claims outcome" where
  "verifyBearerAnyAudience cr config keys now header audiences scopes =
     bindr (readBearer header) (\<lambda>token. try_audiences (\<lambda>audience. verifyAccessToken cr config keys now token audience scopes) audiences None None)"

end
