(* ===== verification/Http.thy ===== *)
theory Http
  imports Encoding Media_Type Tokens
begin

text \<open>
  \<open>shared/http.ts\<close>, \<open>shared/access-token-query.ts\<close>, \<open>shared/diagnostics.ts\<close> and the writer of
  \<open>auth/oauth-errors.ts\<close>: requests as the handlers read them and responses as they write them.  The
  body arrives in chunks of octets; the query of \<open>new URL(req.url, base)\<close> is a field of the request
  (\<open>None\<close> when the constructor throws), and \<open>URLSearchParams\<close> of a body is the argument
  \<open>parse_query\<close>.  What a handler logs is a list of diagnostic fields, redacted by \<open>redactFields\<close>.
\<close>

section \<open>Requests and responses\<close>

record http_request =
  hr_query :: "params option"
  hr_rawHeaders :: "string list"
  hr_headers :: "(string \<times> string) list"
  hr_body :: "nat list list"
  hr_remoteAddress :: "string option"

datatype http_response =
    Json_response nat "(string \<times> string) list" json
  | No_content nat "(string \<times> string) list"
  | Redirect string

definition header :: "http_request \<Rightarrow> string \<Rightarrow> string option" where
  "header req name = map_of (hr_headers req) name"

definition header_text :: "http_request \<Rightarrow> string \<Rightarrow> string" where
  "header_text req name = (case header req name of None \<Rightarrow> [] | Some v \<Rightarrow> v)"

section \<open>Reading\<close>

fun readChunks :: "nat \<Rightarrow> nat list \<Rightarrow> nat list list \<Rightarrow> nat list outcome" where
  "readChunks limit received [] = Inr received"
| "readChunks limit received (chunk # chunks) =
    (if length received + length chunk > limit then Inl (ServiceError Bad_request ''request body too large'' 413)
     else readChunks limit (received @ chunk) chunks)"

definition readBody :: "http_request \<Rightarrow> nat \<Rightarrow> string outcome" where
  "readBody req limit = bindr (readChunks limit [] (hr_body req)) (\<lambda>bytes.
     case utf8_text bytes of None \<Rightarrow> Inl (ServiceError Bad_request ''invalid utf-8'' 400) | Some s \<Rightarrow> Inr s)"

definition readJsonBody :: "http_request \<Rightarrow> nat \<Rightarrow> json outcome" where
  "readJsonBody req limit = bindr (readBody req limit) (\<lambda>s.
     case json_parse s of None \<Rightarrow> Inl (ServiceError Bad_request ''invalid json'' 400) | Some v \<Rightarrow> Inr v)"

definition readForm :: "(string \<Rightarrow> params) \<Rightarrow> http_request \<Rightarrow> params outcome" where
  "readForm parse_query req =
    (if mediaType (header_text req ''content-type'') \<noteq> ''application/x-www-form-urlencoded''
     then Inl (ServiceError Bad_request ''unsupported content type'' 415)
     else bindr (readBody req 32768) (\<lambda>s. Inr (parse_query s)))"

definition requestSubject :: "http_request \<Rightarrow> string" where
  "requestSubject req =
    (let address = (case hr_remoteAddress req of None \<Rightarrow> ''unknown'' | Some a \<Rightarrow> a) in
     if starts_with ''::ffff:'' address then drop 7 address else address)"

definition requestQuery :: "http_request \<Rightarrow> params outcome" where
  "requestQuery req = (case hr_query req of None \<Rightarrow> Inl (PlainError ''Invalid URL'') | Some ps \<Rightarrow> Inr ps)"

definition rejectAccessTokenQuery :: "http_request \<Rightarrow> unit outcome" where
  "rejectAccessTokenQuery req = bindr (requestQuery req) (\<lambda>ps.
     if List.member (map fst ps) ''access_token''
     then Inl (ServiceError Bad_request ''access tokens must use the authorization header'' 400) else Inr ())"

section \<open>Writing\<close>

definition writeJson :: "nat \<Rightarrow> json \<Rightarrow> (string \<times> string) list \<Rightarrow> http_response" where
  "writeJson status body headers = Json_response status ((''content-type'', ''application/json; charset=utf-8'') # headers) body"

definition writeNoContent :: "nat \<Rightarrow> (string \<times> string) list \<Rightarrow> http_response" where
  "writeNoContent status headers = No_content status headers"

definition writeRedirect :: "string \<Rightarrow> http_response" where
  "writeRedirect location = Redirect location"

definition error_body :: "string \<Rightarrow> string \<Rightarrow> json" where
  "error_body error description = JObj [(''error'', JStr error), (''error_description'', JStr description)]"

definition writeError :: "js_error \<Rightarrow> http_response" where
  "writeError error = (case as_service_error error of
     Some (c, message, status) \<Rightarrow> writeJson status (error_body (error_code_text c) message) []
   | None \<Rightarrow> writeJson 500 (error_body ''server_error'' ''internal server error'') [])"

definition noStore :: "(string \<times> string) list" where
  "noStore = [(''cache-control'', ''no-store''), (''pragma'', ''no-cache'')]"

definition oauthErrorResponse :: "js_error \<Rightarrow> (string \<times> string) list \<Rightarrow> http_response" where
  "oauthErrorResponse error headers = (let e = writeOAuthError error in
     writeJson (response_status e) (error_body (response_error e) (response_description e)) (noStore @ headers))"

definition response_status_of :: "http_response \<Rightarrow> nat" where
  "response_status_of r = (case r of Json_response s h b \<Rightarrow> s | No_content s h \<Rightarrow> s | Redirect l \<Rightarrow> 302)"

section \<open>Diagnostics\<close>

definition exactSecretKeys :: "string list" where
  "exactSecretKeys = [''authcode'', ''authorizationcode'', ''codechallenge'', ''codeverifier'', ''oauthcode'', ''nonce'', ''sessionid'', ''state'']"

definition secretFragments :: "string list" where
  "secretFragments = [''apikey'', ''authorization'', ''cookie'', ''password'', ''privatekey'', ''secret'', ''signingkey'', ''token'']"

definition isSecretKey :: "string \<Rightarrow> bool" where
  "isSecretKey key =
    (let normalized = filter (\<lambda>c. is_lower c \<or> is_digit c) (to_lower key) in
     List.member exactSecretKeys normalized \<or> list_ex (\<lambda>fragment. sublist fragment normalized) secretFragments)"

definition redacted :: "(string \<Rightarrow> string) \<Rightarrow> json \<Rightarrow> json" where
  "redacted sha value = (case json_string (Some value) of
     None \<Rightarrow> JStr ''[redacted]''
   | Some s \<Rightarrow> if s = [] then JStr ''[redacted]'' else JStr (''[redacted:'' @ take 12 (sha s) @ '']''))"

fun redactValue :: "(string \<Rightarrow> string) \<Rightarrow> string \<Rightarrow> json \<Rightarrow> json"
  and redactFields :: "(string \<Rightarrow> string) \<Rightarrow> js_object \<Rightarrow> js_object"
  and redactEntries :: "(string \<Rightarrow> string) \<Rightarrow> string \<Rightarrow> json list \<Rightarrow> json list" where
  "redactValue sha key value =
    (if isSecretKey key then redacted sha value
     else (case value of
        JObj kvs \<Rightarrow> JObj (redactFields sha kvs)
      | JArr entries \<Rightarrow> JArr (redactEntries sha key entries)
      | _ \<Rightarrow> value))"
| "redactFields sha [] = []"
| "redactFields sha ((key, value) # kvs) = (key, redactValue sha key value) # redactFields sha kvs"
| "redactEntries sha key [] = []"
| "redactEntries sha key (v # vs) = redactValue sha key v # redactEntries sha key vs"

declare redactValue.simps [simp del]

text \<open>The texts a value holds below secret keys.\<close>

fun texts :: "json \<Rightarrow> string set" where
  "texts (JStr s) = {s}"
| "texts (JArr vs) = (\<Union>v\<in>set vs. texts v)"
| "texts (JObj kvs) = (\<Union>f\<in>set kvs. texts (snd f))"
| "texts _ = {}"

fun open_texts :: "string \<Rightarrow> json \<Rightarrow> string set" where
  "open_texts key (JStr s) = (if isSecretKey key then {} else {s})"
| "open_texts key (JArr vs) = (if isSecretKey key then {} else (\<Union>v\<in>set vs. open_texts key v))"
| "open_texts key (JObj kvs) = (if isSecretKey key then {} else (\<Union>f\<in>set kvs. open_texts (fst f) (snd f)))"
| "open_texts key _ = {}"

definition is_marker :: "(string \<Rightarrow> string) \<Rightarrow> string \<Rightarrow> bool" where
  "is_marker sha t = (t = ''[redacted]'' \<or> (\<exists>s. t = ''[redacted:'' @ take 12 (sha s) @ '']''))"

lemma texts_redacted: "t \<in> texts (redacted sha v) \<Longrightarrow> is_marker sha t"
  by (auto simp: redacted_def is_marker_def split: option.splits if_splits)

lemma redact_texts:
  "t \<in> texts (redactValue sha key v) \<Longrightarrow> is_marker sha t \<or> t \<in> open_texts key v"
  "f \<in> set (redactFields sha kvs) \<Longrightarrow> t \<in> texts (snd f) \<Longrightarrow>
     is_marker sha t \<or> (\<exists>g\<in>set kvs. t \<in> open_texts (fst g) (snd g))"
  "w \<in> set (redactEntries sha key vs) \<Longrightarrow> t \<in> texts w \<Longrightarrow> is_marker sha t \<or> (\<exists>v\<in>set vs. t \<in> open_texts key v)"
proof (induction sha key v and sha kvs and sha key vs arbitrary: t and t f and t w
    rule: redactValue_redactFields_redactEntries.induct)
  case (1 sha key v)
  show ?case
  proof (cases "isSecretKey key")
    case True
    then show ?thesis using 1(3) texts_redacted by (auto simp: redactValue.simps)
  next
    case False
    then show ?thesis using 1 by (cases v) (auto simp: redactValue.simps)
  qed
next
  case (3 sha key v kvs)
  show ?case
  proof (cases "f = (key, redactValue sha key v)")
    case True
    then show ?thesis using 3(1) [of t] 3(4) by auto
  next
    case False
    then have "f \<in> set (redactFields sha kvs)" using 3(3) by simp
    then show ?thesis using 3(2) [of f t] 3(4) by auto
  qed
qed auto

text \<open>C34: no text of a logged value leaves the service when it stands below a key that names a secret: what
  is written is a text that stood below harmless keys only, or a marker with a truncated digest.\<close>

theorem diagnostics_hide_secrets:
  assumes "t \<in> texts (JObj (redactFields sha kvs))"
  shows "is_marker sha t \<or> t \<in> (\<Union>f\<in>set kvs. open_texts (fst f) (snd f))"
  using assms redact_texts(2) by fastforce

definition sample_fields :: js_object where
  "sample_fields = [(''endpoint'', JStr ''oauth.token''), (''Access-Token'', JStr ''abc''), (''client'', JObj [(''client_secret'', JStr ''xyz'')])]"

theorem diagnostics_hide_secrets_witness:
  "''oauth.token'' \<in> texts (JObj (redactFields (\<lambda>s. s) sample_fields)) \<and>
   (is_marker (\<lambda>s. s) ''oauth.token'' \<or> ''oauth.token'' \<in> (\<Union>f\<in>set sample_fields. open_texts (fst f) (snd f)))"
proof -
  have "\<not> isSecretKey ''endpoint''" by code_simp
  then have "''oauth.token'' \<in> texts (JObj (redactFields (\<lambda>s. s) sample_fields))"
    by (simp add: sample_fields_def redactValue.simps)
  from this diagnostics_hide_secrets [OF this] show ?thesis by (intro conjI)
qed

section \<open>Bounds of a body\<close>

lemma readChunks_bound: "readChunks limit received chunks = Inr bytes \<Longrightarrow> length received \<le> limit \<Longrightarrow> length bytes \<le> limit"
  by (induction chunks arbitrary: received) (auto split: if_splits)

lemma readChunks_all: "length received + length (concat chunks) \<le> limit \<Longrightarrow> readChunks limit received chunks = Inr (received @ concat chunks)"
  by (induction chunks arbitrary: received) auto

lemma readChunks_too_large:
  "length received \<le> limit \<Longrightarrow> limit < length received + length (concat chunks) \<Longrightarrow>
   readChunks limit received chunks = Inl (ServiceError Bad_request ''request body too large'' 413)"
  by (induction chunks arbitrary: received) auto

end
