(* ===== verification/Clients.thy ===== *)
theory Clients
  imports Config Media_Type
begin

text \<open>
  The OAuth clients: the registry parsed from \<open>OAUTH_CLIENTS_JSON\<close> (\<open>auth/client-registry.ts\<close>,
  \<open>auth/clients.ts\<close>), clients described by a metadata document at their identifier URL
  (\<open>auth/client-metadata-parser.ts\<close>, \<open>auth/client-metadata-network.ts\<close>, the header rules of
  \<open>auth/client-metadata-fetch.ts\<close>), and the resource a client may ask for
  (\<open>auth/oauth-resource.ts\<close>).  \<open>new URL\<close>, SHA-256 and the DNS answer are arguments.
\<close>

section \<open>Data\<close>

datatype token_auth_method = Client_secret_post | Client_secret_basic | No_client_auth | Private_key_jwt

record oauth_client =
  clientId :: string
  clientSecretHash :: "string option"
  displayName :: string
  redirectUris :: "string list"
  allowedScopes :: "string list"
  allowedResources :: "string list"
  tokenEndpointAuthMethod :: token_auth_method
  jwksUri :: "string option"
  pkcePolicy :: pkce_policy
  clientClass :: string

definition invalid_client_error :: js_error where
  "invalid_client_error = ServiceError Invalid_client ''invalid client'' 401"

section \<open>The registry\<close>

definition clientKeys :: "string list" where
  "clientKeys = [''clientId'', ''clientSecretHash'', ''displayName'', ''redirectUris'', ''allowedScopes'',
     ''allowedResources'', ''tokenEndpointAuthMethod'', ''pkcePolicy'', ''clientClass'']"

definition is_identifier :: "string \<Rightarrow> bool" where
  "is_identifier s = (s \<noteq> [] \<and> list_all (\<lambda>c. is_alnum c \<or> c \<in> {CHR ''.'', CHR ''_'', CHR '':'', CHR ''-''}) s)"

definition objectRecord :: "json option \<Rightarrow> string \<Rightarrow> string list \<Rightarrow> js_object outcome" where
  "objectRecord value name allowedKeys = (case json_object value of
     None \<Rightarrow> fail (name @ '' must be an object'')
   | Some kvs \<Rightarrow> if list_ex (\<lambda>kv. \<not> List.member allowedKeys (fst kv)) kvs
       then fail (name @ '' contains unsupported fields'') else Inr kvs)"

definition readString :: "js_object \<Rightarrow> string \<Rightarrow> string outcome" where
  "readString record key = (case json_string (field record key) of
     None \<Rightarrow> fail (key @ '' must be a non-empty string'')
   | Some s \<Rightarrow> if trim s = [] then fail (key @ '' must be a non-empty string'') else Inr s)"

text \<open>The strings of an array, \<open>None\<close> when it is no array or has a blank or other entry.\<close>

fun nonblank_strings :: "json list \<Rightarrow> string list option" where
  "nonblank_strings [] = Some []"
| "nonblank_strings (JStr s # vs) = (if trim s = [] then None else map_option (Cons s) (nonblank_strings vs))"
| "nonblank_strings (v # vs) = None"

fun string_array :: "json option \<Rightarrow> string list option" where
  "string_array (Some (JArr vs)) = (if vs = [] then None else nonblank_strings vs)"
| "string_array _ = None"

definition rejectDuplicates :: "string list \<Rightarrow> string \<Rightarrow> string list outcome" where
  "rejectDuplicates values key =
    (if length (distinct_set values) \<noteq> length values then fail (key @ '' contains duplicates'') else Inr values)"

definition readStringArray :: "js_object \<Rightarrow> string \<Rightarrow> string list outcome" where
  "readStringArray record key = (case string_array (field record key) of
     None \<Rightarrow> fail (key @ '' must be a non-empty string array'')
   | Some values \<Rightarrow> rejectDuplicates values key)"

definition clientIdentifier :: "string \<Rightarrow> string \<Rightarrow> string outcome" where
  "clientIdentifier value key = (if \<not> is_identifier value then fail (key @ '' contains invalid characters'') else Inr value)"

definition secretHash :: "string \<Rightarrow> string outcome" where
  "secretHash value = (if \<not> is_hash value then fail ''clientSecretHash must be a SHA-256 base64url hash'' else Inr value)"

definition parseDisplayName :: "string \<Rightarrow> string outcome" where
  "parseDisplayName value = (if \<not> isDisplayName value then fail ''displayName contains invalid characters'' else Inr value)"

definition parseHttpUrl :: "url_parser \<Rightarrow> string \<Rightarrow> string \<Rightarrow> bool \<Rightarrow> url outcome" where
  "parseHttpUrl parse_url value key live =
    (if value \<noteq> trim value then fail (key @ '' cannot include surrounding whitespace'')
     else if includes_char CHR ''*'' value then fail (key @ '' cannot contain wildcards'')
     else bindr (newURL parse_url value) (\<lambda>url.
       if url_protocol url \<noteq> ''https:'' \<and> url_protocol url \<noteq> ''http:'' then fail (key @ '' must use http or https'')
       else if live \<and> url_protocol url \<noteq> ''https:'' then fail (key @ '' must use https in production'')
       else if url_username url \<noteq> [] \<or> url_password url \<noteq> [] then fail (key @ '' cannot include credentials'')
       else if url_hash url \<noteq> [] then fail (key @ '' cannot include fragments'')
       else Inr url))"

definition parseRedirectUrl :: "url_parser \<Rightarrow> bool \<Rightarrow> string \<Rightarrow> string outcome" where
  "parseRedirectUrl parse_url live value = bindr (parseRedirectUri parse_url value ''redirectUris'') (\<lambda>url.
     if live \<and> \<not> productionRedirectUriAllowed url
     then fail ''redirectUris must use https or localhost http in production'' else Inr value)"

definition redirectUrls :: "url_parser \<Rightarrow> string list \<Rightarrow> bool \<Rightarrow> string list outcome" where
  "redirectUrls parse_url values live =
    bindr (mapr (parseRedirectUrl parse_url live) values) (\<lambda>vs. rejectDuplicates vs ''redirectUris'')"

definition resourceUrls :: "url_parser \<Rightarrow> string list \<Rightarrow> bool \<Rightarrow> string list outcome" where
  "resourceUrls parse_url values live =
    bindr (mapr (\<lambda>value. bindr (parseHttpUrl parse_url value ''allowedResources'' live)
        (\<lambda>url. Inr (strip_slash (url_href url)))) values)
      (\<lambda>vs. rejectDuplicates vs ''allowedResources'')"

definition registryScopes :: "string list \<Rightarrow> string list outcome" where
  "registryScopes values = mapr (\<lambda>value. if \<not> is_scope value then fail ''allowedScopes contains invalid characters'' else Inr value) values"

definition validateProductionPkce :: "string \<Rightarrow> token_auth_method \<Rightarrow> pkce_policy \<Rightarrow> unit outcome" where
  "validateProductionPkce class method policy =
    (if policy = Pkce_required then Inr ()
     else if class = ''gpt-actions'' \<and> (method = Client_secret_post \<or> method = Client_secret_basic) then Inr ()
     else fail ''PKCE is required for this production client'')"

definition registryAuthMethod :: "string \<Rightarrow> token_auth_method outcome" where
  "registryAuthMethod value =
    (if value = ''client_secret_post'' then Inr Client_secret_post
     else if value = ''client_secret_basic'' then Inr Client_secret_basic
     else fail ''tokenEndpointAuthMethod is not supported'')"

definition registryPkcePolicy :: "string \<Rightarrow> pkce_policy outcome" where
  "registryPkcePolicy value =
    (if value = ''required'' then Inr Pkce_required else if value = ''optional'' then Inr Pkce_optional
     else fail ''pkcePolicy is not supported'')"

definition parseClient :: "url_parser \<Rightarrow> bool \<Rightarrow> nat \<times> json \<Rightarrow> oauth_client outcome" where
  "parseClient parse_url live entry =
    bindr (objectRecord (Some (snd entry)) (''client '' @ decimal (fst entry)) clientKeys) (\<lambda>record.
    bindr (bindr (readString record ''tokenEndpointAuthMethod'') registryAuthMethod) (\<lambda>method.
    bindr (bindr (readString record ''pkcePolicy'') registryPkcePolicy) (\<lambda>policy.
    bindr (bindr (readString record ''clientClass'') (\<lambda>v. clientIdentifier v ''clientClass'')) (\<lambda>class.
    bindr (if live then validateProductionPkce class method policy else Inr ()) (\<lambda>_.
    bindr (bindr (readString record ''clientId'') (\<lambda>v. clientIdentifier v ''clientId'')) (\<lambda>cid.
    bindr (bindr (readString record ''clientSecretHash'') secretHash) (\<lambda>secret.
    bindr (bindr (readString record ''displayName'') parseDisplayName) (\<lambda>display.
    bindr (bindr (readStringArray record ''redirectUris'') (\<lambda>vs. redirectUrls parse_url vs live)) (\<lambda>redirects.
    bindr (bindr (readStringArray record ''allowedScopes'') registryScopes) (\<lambda>scopes.
    bindr (bindr (readStringArray record ''allowedResources'') (\<lambda>vs. resourceUrls parse_url vs live)) (\<lambda>resources.
      Inr \<lparr> clientId = cid, clientSecretHash = Some secret, displayName = display, redirectUris = redirects,
            allowedScopes = scopes, allowedResources = resources, tokenEndpointAuthMethod = method, jwksUri = None,
            pkcePolicy = policy, clientClass = class \<rparr>)))))))))))"

definition parseClientJson :: "url_parser \<Rightarrow> string \<Rightarrow> bool \<Rightarrow> oauth_client list outcome" where
  "parseClientJson parse_url value live = (case json_parse value of
     None \<Rightarrow> fail ''OAUTH_CLIENTS_JSON must be valid JSON''
   | Some (JArr entries) \<Rightarrow>
       if entries = [] then fail ''OAUTH_CLIENTS_JSON must be a non-empty array''
       else bindr (mapr (parseClient parse_url live) (enumerate 0 entries)) (\<lambda>clients.
         bindr (rejectDuplicates (map clientId clients) ''clientId'') (\<lambda>_. Inr clients))
   | Some _ \<Rightarrow> fail ''OAUTH_CLIENTS_JSON must be a non-empty array'')"

definition localClient :: "(string \<Rightarrow> string) \<Rightarrow> string \<Rightarrow> string \<Rightarrow> string \<Rightarrow> string list \<Rightarrow> string list \<Rightarrow>
    string list \<Rightarrow> string \<Rightarrow> pkce_policy \<Rightarrow> oauth_client" where
  "localClient sha256 cid secret display redirects scopes resources class policy =
    \<lparr> clientId = cid, clientSecretHash = Some (sha256 secret), displayName = display, redirectUris = redirects,
      allowedScopes = scopes, allowedResources = resources, tokenEndpointAuthMethod = Client_secret_post,
      jwksUri = None, pkcePolicy = policy, clientClass = class \<rparr>"

definition localClients :: "(string \<Rightarrow> string) \<Rightarrow> service_config \<Rightarrow> oauth_client list" where
  "localClients sha256 config =
    [localClient sha256 ''local-test'' ''local-test-secret'' ''Local Test'' [''http://localhost:4000/test/callback''] defaultScopes
       [actionsAudience config, mcpResource config] ''local-test'' Pkce_optional,
     localClient sha256 ''gpt-actions'' ''gpt-actions-secret'' ''GPT Actions''
       [''https://chat.openai.com/aip/g-local/oauth/callback'', ''https://chatgpt.com/aip/g-local/oauth/callback'']
       defaultScopes [actionsAudience config] ''gpt-actions'' Pkce_optional,
     localClient sha256 ''gpt-apps-mcp'' ''gpt-apps-secret'' ''GPT Apps MCP''
       [''https://chatgpt.com/connector/oauth/local-callback'', ''https://chatgpt.com/connector_platform_oauth_redirect'']
       defaultScopes [mcpResource config] ''gpt-apps-mcp'' Pkce_required]"

definition loadClients :: "url_parser \<Rightarrow> (string \<Rightarrow> string) \<Rightarrow> service_config \<Rightarrow> env \<Rightarrow> oauth_client list outcome" where
  "loadClients parse_url sha256 config env =
    (if env_or env ''OAUTH_CLIENTS_JSON'' [] \<noteq> [] then parseClientJson parse_url (env_or env ''OAUTH_CLIENTS_JSON'' []) (production config)
     else if production config then fail ''OAUTH_CLIENTS_JSON is required''
     else Inr (localClients sha256 config))"

section \<open>Checks against a client\<close>

definition findClient :: "oauth_client list \<Rightarrow> string \<Rightarrow> oauth_client outcome" where
  "findClient clients cid = (case find (\<lambda>c. clientId c = cid) clients of
     None \<Rightarrow> Inl invalid_client_error | Some c \<Rightarrow> Inr c)"

text \<open>\<open>constantTimeEqualString\<close> returns whether the texts are equal; its timing is not modelled.\<close>

definition assertClientSecret :: "(string \<Rightarrow> string) \<Rightarrow> oauth_client \<Rightarrow> string option \<Rightarrow> unit outcome" where
  "assertClientSecret sha256 client secret =
    (if secret = None \<or> secret = Some [] \<or> clientSecretHash client = None \<or> clientSecretHash client = Some []
       then Inl invalid_client_error
     else if sha256 (the secret) \<noteq> the (clientSecretHash client) then Inl invalid_client_error
     else Inr ())"

definition assertClientAuthMethod :: "oauth_client \<Rightarrow> token_auth_method \<Rightarrow> unit outcome" where
  "assertClientAuthMethod client method =
    (if tokenEndpointAuthMethod client \<noteq> method then Inl invalid_client_error else Inr ())"

definition assertRedirectUri :: "oauth_client \<Rightarrow> string \<Rightarrow> unit outcome" where
  "assertRedirectUri client uri = (if \<not> List.member (redirectUris client) uri
     then Inl (ServiceError Bad_request ''redirect_uri is not registered'' 400) else Inr ())"

definition assertResource :: "oauth_client \<Rightarrow> string \<Rightarrow> unit outcome" where
  "assertResource client resource = (if \<not> List.member (allowedResources client) resource
     then Inl (ServiceError Invalid_target ''resource is not allowed'' 400) else Inr ())"

section \<open>The requested resource\<close>

definition invalidTarget :: "string \<Rightarrow> js_error" where
  "invalidTarget message = ServiceError Invalid_target message 400"

definition canonicalResource :: "url_parser \<Rightarrow> string \<Rightarrow> string outcome" where
  "canonicalResource parse_url resource = (case parse_url resource of
     None \<Rightarrow> Inl (invalidTarget ''resource is invalid'')
   | Some url \<Rightarrow>
       if url_protocol url \<noteq> ''https:'' \<and> url_protocol url \<noteq> ''http:'' then Inl (invalidTarget ''resource is invalid'')
       else if url_username url \<noteq> [] \<or> url_password url \<noteq> [] \<or> url_hash url \<noteq> [] then Inl (invalidTarget ''resource is invalid'')
       else if includes_char CHR ''*'' resource then Inl (invalidTarget ''resource is invalid'')
       else Inr (strip_slash (url_href url)))"

text \<open>\<open>allowedResources.find(...)\<close> with a callback that throws for an entry it cannot parse.\<close>

fun findAllowedResource :: "url_parser \<Rightarrow> string \<Rightarrow> string list \<Rightarrow> string option outcome" where
  "findAllowedResource parse_url canonical [] = Inr None"
| "findAllowedResource parse_url canonical (r # rs) = bindr (canonicalResource parse_url r) (\<lambda>c.
     if c = canonical then Inr (Some r) else findAllowedResource parse_url canonical rs)"

definition resolveAllowedResource :: "url_parser \<Rightarrow> oauth_client \<Rightarrow> string \<Rightarrow> string outcome" where
  "resolveAllowedResource parse_url client resource =
    bindr (canonicalResource parse_url resource) (\<lambda>canonical.
    bindr (findAllowedResource parse_url canonical (allowedResources client)) (\<lambda>allowed.
      if allowed = None \<or> allowed = Some [] then Inl (invalidTarget ''resource is not allowed'') else Inr (the allowed)))"

definition defaultActionsResource :: "oauth_client \<Rightarrow> string option" where
  "defaultActionsResource client =
    (if clientClass client \<noteq> ''gpt-actions'' \<or> length (allowedResources client) \<noteq> 1 then None
     else Some (hd (allowedResources client)))"

definition resolveGrantResource :: "oauth_client \<Rightarrow> string option \<Rightarrow> string outcome" where
  "resolveGrantResource client resource = (case resource of
     Some r \<Rightarrow> if r = [] then Inl (invalidTarget ''resource is required'') else Inr r
   | None \<Rightarrow> (case defaultActionsResource client of
       Some d \<Rightarrow> if d = [] then Inl (invalidTarget ''resource is required'') else Inr d
     | None \<Rightarrow> Inl (invalidTarget ''resource is required'')))"

definition resolveOAuthGrantResource :: "url_parser \<Rightarrow> oauth_client \<Rightarrow> string option \<Rightarrow> string outcome" where
  "resolveOAuthGrantResource parse_url client resource =
    bindr (resolveGrantResource client resource) (resolveAllowedResource parse_url client)"

definition resolveOAuthAuthorizationResource :: "url_parser \<Rightarrow> oauth_client \<Rightarrow> string option \<Rightarrow> string outcome" where
  "resolveOAuthAuthorizationResource parse_url client resource =
    bindr (resolveGrantResource client resource) (resolveAllowedResource parse_url client)"

section \<open>Client metadata documents\<close>

definition parseClientIdUrl :: "url_parser \<Rightarrow> string \<Rightarrow> bool \<Rightarrow> url outcome" where
  "parseClientIdUrl parse_url value live = (case parse_url value of
     None \<Rightarrow> Inl invalid_client_error
   | Some url \<Rightarrow>
       if url_username url \<noteq> [] \<or> url_password url \<noteq> [] \<or> url_search url \<noteq> [] \<or> url_hash url \<noteq> [] then Inl invalid_client_error
       else if url_pathname url = ''/'' then Inl invalid_client_error
       else if includes_char CHR ''*'' value then Inl invalid_client_error
       else if live then (if url_protocol url \<noteq> ''https:'' then Inl invalid_client_error else Inr url)
       else if url_protocol url = ''https:'' then Inr url
       else if url_protocol url = ''http:'' \<and> isLoopbackHostname (url_hostname url) then Inr url
       else Inl invalid_client_error)"

record network_address =
  na_address :: string
  na_family :: nat

text \<open>\<open>lookup\<close> is the answer of the name service, \<open>None\<close> when it fails.\<close>

definition resolveMetadataNetworkAddress ::
  "(string \<Rightarrow> network_address list option) \<Rightarrow> url \<Rightarrow> bool \<Rightarrow> network_address option outcome" where
  "resolveMetadataNetworkAddress lookup url live =
    (if \<not> live then Inr None
     else let hostname = networkHostname (url_hostname url) in
       if isLoopbackHostname hostname then Inl invalid_client_error
       else let literal = isIP hostname in
         (case (if literal \<noteq> 0 then Some [\<lparr> na_address = hostname, na_family = literal \<rparr>] else lookup hostname) of
            None \<Rightarrow> Inl invalid_client_error
          | Some addresses \<Rightarrow>
              if addresses = [] \<or> list_ex (\<lambda>a. isNonPublicIpAddress (na_address a)) addresses then Inl invalid_client_error
              else let first = hd addresses in
                if na_family first \<noteq> 4 \<and> na_family first \<noteq> 6 then Inl invalid_client_error
                else Inr (Some first)))"

definition metadataString :: "js_object \<Rightarrow> string \<Rightarrow> string outcome" where
  "metadataString record key = (case json_string (field record key) of
     None \<Rightarrow> Inl invalid_client_error
   | Some s \<Rightarrow> if trim s = [] then Inl invalid_client_error else Inr s)"

definition requiredDisplayName :: "js_object \<Rightarrow> string \<Rightarrow> string outcome" where
  "requiredDisplayName record key = (case json_string (field record key) of
     None \<Rightarrow> Inl invalid_client_error
   | Some s \<Rightarrow> if \<not> isDisplayName s then Inl invalid_client_error else Inr s)"

definition validateOptionalString :: "js_object \<Rightarrow> string \<Rightarrow> unit outcome" where
  "validateOptionalString record key = (case field record key of
     None \<Rightarrow> Inr ()
   | Some v \<Rightarrow> (case json_string (Some v) of
       None \<Rightarrow> Inl invalid_client_error
     | Some s \<Rightarrow> if trim s = [] then Inl invalid_client_error else Inr ()))"

definition requiredStringArray :: "json option \<Rightarrow> string list outcome" where
  "requiredStringArray value = (case string_array value of
     None \<Rightarrow> Inl invalid_client_error | Some values \<Rightarrow> Inr values)"

definition validateIncludes :: "js_object \<Rightarrow> string \<Rightarrow> string \<Rightarrow> unit outcome" where
  "validateIncludes record key member = (case field record key of
     None \<Rightarrow> Inr ()
   | Some v \<Rightarrow> bindr (requiredStringArray (Some v)) (\<lambda>values.
       if \<not> List.member values member then Inl invalid_client_error else Inr ()))"

definition validRedirectUri :: "url_parser \<Rightarrow> bool \<Rightarrow> string \<Rightarrow> string outcome" where
  "validRedirectUri parse_url live value = (case parseRedirectUri parse_url value ''redirect_uris'' of
     Inl e \<Rightarrow> Inl invalid_client_error
   | Inr url \<Rightarrow> if live \<and> \<not> productionRedirectUriAllowed url then Inl invalid_client_error else Inr value)"

definition rejectDuplicateUris :: "string list \<Rightarrow> string list outcome" where
  "rejectDuplicateUris values =
    (if length (distinct_set values) \<noteq> length values then Inl invalid_client_error else Inr values)"

definition validatedJwksUri :: "url_parser \<Rightarrow> service_config \<Rightarrow> string \<Rightarrow> js_object \<Rightarrow> string outcome" where
  "validatedJwksUri parse_url config cid record =
    bindr (metadataString record ''jwks_uri'') (\<lambda>uri.
    bindr (parseClientIdUrl parse_url cid (production config)) (\<lambda>clientUrl.
    bindr (parseClientIdUrl parse_url uri (production config)) (\<lambda>jwksUrl.
      if url_origin jwksUrl \<noteq> url_origin clientUrl then Inl invalid_client_error else Inr (url_href jwksUrl))))"

definition tokenEndpointAuth ::
  "url_parser \<Rightarrow> service_config \<Rightarrow> string \<Rightarrow> js_object \<Rightarrow> (token_auth_method \<times> string option) outcome" where
  "tokenEndpointAuth parse_url config cid record =
    (let value = field record ''token_endpoint_auth_method'' in
     if value = None \<or> value = Some (JStr ''none'') then Inr (No_client_auth, None)
     else if value = Some (JStr ''private_key_jwt'') then
       bindr (validatedJwksUri parse_url config cid record) (\<lambda>uri. Inr (Private_key_jwt, Some uri))
     else Inl invalid_client_error)"

definition parseMetadataClient :: "url_parser \<Rightarrow> service_config \<Rightarrow> string \<Rightarrow> json option \<Rightarrow> oauth_client outcome" where
  "parseMetadataClient parse_url config cid body = (case json_object body of
     None \<Rightarrow> Inl invalid_client_error
   | Some record \<Rightarrow>
       bindr (metadataString record ''client_id'') (\<lambda>documentId.
       if documentId \<noteq> cid then Inl invalid_client_error
       else bindr (requiredDisplayName record ''client_name'') (\<lambda>display.
       bindr (bindr (requiredStringArray (field record ''redirect_uris'')) (mapr (validRedirectUri parse_url (production config)))) (\<lambda>redirects.
       bindr (validateOptionalString record ''client_uri'') (\<lambda>_.
       bindr (validateOptionalString record ''logo_uri'') (\<lambda>_.
       bindr (validateIncludes record ''grant_types'' ''authorization_code'') (\<lambda>_.
       bindr (validateIncludes record ''response_types'' ''code'') (\<lambda>_.
       bindr (tokenEndpointAuth parse_url config cid record) (\<lambda>auth.
       bindr (rejectDuplicateUris redirects) (\<lambda>uris.
         Inr \<lparr> clientId = cid, clientSecretHash = None, displayName = display, redirectUris = uris,
               allowedScopes = defaultScopes, allowedResources = [mcpResource config],
               tokenEndpointAuthMethod = fst auth, jwksUri = (if snd auth = Some [] then None else snd auth),
               pkcePolicy = Pkce_required, clientClass = ''client-id-metadata-document'' \<rparr>))))))))))"

text \<open>The lifetime a metadata response may be cached for; \<open>None\<close> is an absent header.\<close>

definition cacheSeconds :: "string option \<Rightarrow> int" where
  "cacheSeconds value =
    (if value = None \<or> value = Some [] then 300
     else let directives = map (\<lambda>d. to_lower (trim d)) (split_on CHR '','' (the value)) in
       if List.member directives ''no-store'' then 0
       else (case find (starts_with ''max-age='') directives of
           None \<Rightarrow> 300
         | Some maxAge \<Rightarrow> (case js_Number (drop (length ''max-age='') maxAge) of
             None \<Rightarrow> 300
           | Some n \<Rightarrow> if \<not> is_safe_integer n \<or> integer_value n < 0 then 300 else min (integer_value n) 3600)))"

definition validContentLength :: "string \<Rightarrow> bool" where
  "validContentLength value = (value \<noteq> [] \<and> list_all is_digit value \<and> decimal_value value \<le> 32768)"

definition validStatus :: "nat option \<Rightarrow> bool" where
  "validStatus status = (case status of None \<Rightarrow> False | Some s \<Rightarrow> 200 \<le> s \<and> s < 300)"

record metadata_response =
  mr_status :: "nat option"
  mr_contentType :: "string list"
  mr_contentLength :: "string list"
  mr_cacheControl :: "string option"
  mr_body :: string

text \<open>A header that may occur once: \<open>Inr None\<close> when it is absent, an error when it is repeated.\<close>

fun singletonHeader :: "string list \<Rightarrow> string option outcome" where
  "singletonHeader [] = Inr None"
| "singletonHeader [v] = Inr (Some v)"
| "singletonHeader _ = Inl invalid_client_error"

text \<open>
  \<open>fetchMetadataDocument\<close> on a received response, the body given as the text of its bytes;
  the length bound is checked on the bytes.
\<close>

definition fetchMetadataDocument :: "(string \<Rightarrow> string option) \<Rightarrow> metadata_response \<Rightarrow> (json \<times> int) outcome" where
  "fetchMetadataDocument decode_utf8 response =
    (if \<not> validStatus (mr_status response) then Inl invalid_client_error
     else bindr (singletonHeader (mr_contentType response)) (\<lambda>contentType.
       if contentType \<noteq> None \<and> mediaType (the contentType) \<noteq> ''application/json'' then Inl invalid_client_error
       else bindr (singletonHeader (mr_contentLength response)) (\<lambda>contentLength.
         if contentLength \<noteq> None \<and> \<not> validContentLength (the contentLength) then Inl invalid_client_error
         else if length (mr_body response) > 32768 then Inl invalid_client_error
         else (case decode_utf8 (mr_body response) of
             None \<Rightarrow> Inl invalid_client_error
           | Some text \<Rightarrow> (case json_parse text of
               None \<Rightarrow> Inl invalid_client_error
             | Some body \<Rightarrow> Inr (body, cacheSeconds (mr_cacheControl response)))))))"

definition isUrlClientId :: "url_parser \<Rightarrow> string \<Rightarrow> bool" where
  "isUrlClientId parse_url value = (case parse_url value of
     None \<Rightarrow> False | Some url \<Rightarrow> url_protocol url = ''https:'' \<or> url_protocol url = ''http:'')"

section \<open>What an accepted client guarantees\<close>

text \<open>A redirect URI that production accepts: a clean URL that is https, or http to a loopback host.\<close>

definition safe_redirect :: "url_parser \<Rightarrow> bool \<Rightarrow> string \<Rightarrow> bool" where
  "safe_redirect parse_url live v = (trim v = v \<and> CHR ''*'' \<notin> set v \<and>
     (\<exists>u. parse_url v = Some u \<and> url_protocol u \<in> {''https:'', ''http:''} \<and> url_username u = [] \<and> url_password u = [] \<and>
        url_hash u = [] \<and> (live \<longrightarrow> productionRedirectUriAllowed u)))"

definition registered_ok :: "url_parser \<Rightarrow> bool \<Rightarrow> oauth_client \<Rightarrow> bool" where
  "registered_ok parse_url live c = (is_identifier (clientId c) \<and> isDisplayName (displayName c) \<and>
     (\<exists>h. clientSecretHash c = Some h \<and> is_hash h) \<and>
     tokenEndpointAuthMethod c \<in> {Client_secret_post, Client_secret_basic} \<and>
     redirectUris c \<noteq> [] \<and> distinct (redirectUris c) \<and> (\<forall>v\<in>set (redirectUris c). safe_redirect parse_url live v) \<and>
     allowedScopes c \<noteq> [] \<and> (\<forall>v\<in>set (allowedScopes c). is_scope v) \<and>
     allowedResources c \<noteq> [] \<and> distinct (allowedResources c) \<and>
     (live \<longrightarrow> pkcePolicy c = Pkce_required \<or> clientClass c = ''gpt-actions''))"

lemma length_distinct_set: "length (distinct_set xs) = length xs \<longleftrightarrow> distinct xs"
proof
  assume *: "length (distinct_set xs) = length xs"
  have "card (set xs) = length (distinct_set xs)"
    using distinct_card [OF distinct_distinct_set, of xs] by simp
  with * show "distinct xs" by (simp add: card_distinct)
qed simp

lemma rejectDuplicates_eq_Inr [result_simps]: "rejectDuplicates vs k = Inr ws \<longleftrightarrow> distinct vs \<and> ws = vs"
  by (auto simp: rejectDuplicates_def length_distinct_set)

lemma rejectDuplicateUris_eq_Inr [result_simps]: "rejectDuplicateUris vs = Inr ws \<longleftrightarrow> distinct vs \<and> ws = vs"
  by (auto simp: rejectDuplicateUris_def length_distinct_set)

lemma parseRedirectUri_safe:
  "parseRedirectUri parse_url v k = Inr u \<Longrightarrow> live \<longrightarrow> productionRedirectUriAllowed u \<Longrightarrow> safe_redirect parse_url live v"
  by (auto simp: parseRedirectUri_def safe_redirect_def includes_char_def bindr_eq_Inr newURL_eq_Inr split: if_splits)

lemma mapr_same:
  assumes "mapr f xs = Inr ys" "\<And>x y. f x = Inr y \<Longrightarrow> y = x \<and> P x"
  shows "ys = xs \<and> (\<forall>x\<in>set xs. P x)"
  using assms(1) by (induction xs arbitrary: ys) (auto simp: bindr_eq_Inr dest: assms(2))

lemma mapr_all:
  assumes "mapr f xs = Inr ys" "\<And>x y. f x = Inr y \<Longrightarrow> P y" shows "\<forall>y\<in>set ys. P y"
  using assms(1) by (induction xs arbitrary: ys) (auto simp: bindr_eq_Inr dest: assms(2))

lemma redirectUrls_safe:
  assumes "redirectUrls parse_url vs live = Inr ws"
  shows "ws = vs \<and> distinct vs \<and> (\<forall>v\<in>set vs. safe_redirect parse_url live v)"
proof -
  obtain us where us: "mapr (parseRedirectUrl parse_url live) vs = Inr us" "rejectDuplicates us ''redirectUris'' = Inr ws"
    using assms by (auto simp: redirectUrls_def bindr_eq_Inr)
  have "us = vs \<and> (\<forall>v\<in>set vs. safe_redirect parse_url live v)"
    by (rule mapr_same [OF us(1)]) (auto simp: parseRedirectUrl_def bindr_eq_Inr split: if_splits intro: parseRedirectUri_safe)
  then show ?thesis
    using us(2) by (simp add: rejectDuplicates_eq_Inr)
qed

lemma registryScopes_ok: "registryScopes vs = Inr ws \<Longrightarrow> ws = vs \<and> (\<forall>v\<in>set vs. is_scope v)"
  unfolding registryScopes_def by (rule mapr_same) (auto split: if_splits)

lemma nonblank_strings_nonempty: "nonblank_strings vs = Some ws \<Longrightarrow> length ws = length vs"
  by (induction vs arbitrary: ws rule: nonblank_strings.induct) (auto split: if_splits)

lemma string_array_nonempty: "string_array v = Some ws \<Longrightarrow> ws \<noteq> []"
  by (cases v rule: string_array.cases) (auto split: if_splits dest: nonblank_strings_nonempty)

lemma readStringArray_nonempty: "readStringArray kvs k = Inr ws \<Longrightarrow> ws \<noteq> []"
  by (auto simp: readStringArray_def rejectDuplicates_eq_Inr split: option.splits dest: string_array_nonempty)

lemma resourceUrls_distinct:
  "resourceUrls parse_url vs live = Inr ws \<Longrightarrow> distinct ws \<and> length ws = length vs"
  by (auto simp: resourceUrls_def bindr_eq_Inr rejectDuplicates_eq_Inr dest: mapr_length)

lemma parseClient_ok:
  assumes "parseClient parse_url live entry = Inr c" shows "registered_ok parse_url live c"
proof -
  obtain kvs m0 auth pol cls u i0 cid s0 secret d0 display u0 uris sc0 scopes r0 resources where
    auth: "registryAuthMethod m0 = Inr auth"
    and cls: "(if live then validateProductionPkce cls auth pol else Inr ()) = Inr u"
    and cid: "clientIdentifier i0 ''clientId'' = Inr cid"
    and secret: "secretHash s0 = Inr secret"
    and display: "parseDisplayName d0 = Inr display"
    and uris: "readStringArray kvs ''redirectUris'' = Inr u0" "redirectUrls parse_url u0 live = Inr uris"
    and scopes: "readStringArray kvs ''allowedScopes'' = Inr sc0" "registryScopes sc0 = Inr scopes"
    and resources: "readStringArray kvs ''allowedResources'' = Inr r0" "resourceUrls parse_url r0 live = Inr resources"
    and c: "c = \<lparr> clientId = cid, clientSecretHash = Some secret, displayName = display, redirectUris = uris,
      allowedScopes = scopes, allowedResources = resources, tokenEndpointAuthMethod = auth, jwksUri = None,
      pkcePolicy = pol, clientClass = cls \<rparr>"
    using assms unfolding parseClient_def bindr_eq_Inr
    by - (elim exE conjE, drule Inr_inject [THEN sym], rule that; assumption)
  have "auth \<in> {Client_secret_post, Client_secret_basic}"
    using auth by (auto simp: registryAuthMethod_def split: if_splits)
  moreover have "live \<longrightarrow> pol = Pkce_required \<or> cls = ''gpt-actions''"
    using cls by (auto simp: validateProductionPkce_def split: if_splits)
  moreover have "is_identifier cid" "is_hash secret" "isDisplayName display"
    using cid secret display by (auto simp: clientIdentifier_def secretHash_def parseDisplayName_def split: if_splits)
  moreover have "uris \<noteq> [] \<and> distinct uris \<and> (\<forall>v\<in>set uris. safe_redirect parse_url live v)"
    using redirectUrls_safe [OF uris(2)] readStringArray_nonempty [OF uris(1)] by blast
  moreover have "scopes \<noteq> [] \<and> (\<forall>v\<in>set scopes. is_scope v)"
    using registryScopes_ok [OF scopes(2)] readStringArray_nonempty [OF scopes(1)] by blast
  moreover have "resources \<noteq> [] \<and> distinct resources"
    using resourceUrls_distinct [OF resources(2)] readStringArray_nonempty [OF resources(1)] by auto
  ultimately show ?thesis
    by (simp add: c registered_ok_def)
qed

section \<open>Properties\<close>

text \<open>the registry is accepted only when its clients have distinct identifiers and each is well
  formed; in production every client but a GPT action must use PKCE, and redirects go to https or to
  the loopback host.\<close>

theorem registry_clients_ok:
  assumes "parseClientJson parse_url text live = Inr clients"
  shows "clients \<noteq> [] \<and> distinct (map clientId clients) \<and> (\<forall>c\<in>set clients. registered_ok parse_url live c)"
proof -
  obtain entries where e: "entries \<noteq> []" "mapr (parseClient parse_url live) (enumerate 0 entries) = Inr clients"
    and d: "distinct (map clientId clients)"
    using assms unfolding parseClientJson_def
    by (cases "json_parse text"; cases "the (json_parse text)")
      (auto simp: bindr_eq_Inr rejectDuplicates_eq_Inr split: if_splits)
  have "length clients = length entries"
    using mapr_length [OF e(2)] by simp
  moreover have "\<forall>c\<in>set clients. registered_ok parse_url live c"
    by (rule mapr_all [OF e(2)]) (rule parseClient_ok)
  ultimately show ?thesis
    using e(1) d by auto
qed

definition sample_entries :: "json list" where
  "sample_entries = [JObj [(''clientId'', JStr ''gpt''), (''clientSecretHash'', JStr (replicate 43 CHR ''a'')),
     (''displayName'', JStr ''GPT''), (''redirectUris'', JArr [JStr ''https://chatgpt.com/cb'']),
     (''allowedScopes'', JArr [JStr ''openid'']), (''allowedResources'', JArr [JStr ''https://api.example/mcp'']),
     (''tokenEndpointAuthMethod'', JStr ''client_secret_post''), (''pkcePolicy'', JStr ''required''), (''clientClass'', JStr ''gpt'')]]"

lemma sample_registry_accepted:
  "\<exists>clients. parseClientJson sample_url_parser (json_text (JArr sample_entries)) True = Inr clients"
proof -
  have "printable (JArr sample_entries)" "sample_entries \<noteq> []" by (simp_all add: sample_entries_def)
  moreover have "case bindr (mapr (parseClient sample_url_parser True) (enumerate 0 sample_entries))
      (\<lambda>clients. bindr (rejectDuplicates (map clientId clients) ''clientId'') (\<lambda>_. Inr clients)) of Inr cs \<Rightarrow> True | Inl e \<Rightarrow> False"
    by code_simp
  ultimately show ?thesis
    by (auto simp: parseClientJson_def simp del: json_text.simps split: sum.splits)
qed

theorem registry_clients_ok_witness:
  "\<exists>clients. parseClientJson sample_url_parser (json_text (JArr sample_entries)) True = Inr clients \<and> clients \<noteq> []"
  using sample_registry_accepted registry_clients_ok [of sample_url_parser "json_text (JArr sample_entries)" True] by blast

text \<open>C30: a client described by a metadata document has the identifier it was fetched for and the class of such
  clients, must use PKCE, has no shared secret, may reach nothing but the MCP resource with the default scopes,
  has safe redirect addresses, and its signing keys live at the origin of its identifier.\<close>

theorem metadata_client_confined:
  assumes "parseMetadataClient parse_url config cid body = Inr c"
  shows "clientId c = cid \<and> pkcePolicy c = Pkce_required \<and> clientSecretHash c = None \<and>
    allowedResources c = [mcpResource config] \<and> allowedScopes c = defaultScopes \<and> clientClass c = ''client-id-metadata-document'' \<and>
    tokenEndpointAuthMethod c \<in> {No_client_auth, Private_key_jwt} \<and>
    (\<forall>v\<in>set (redirectUris c). safe_redirect parse_url (production config) v) \<and>
    (\<forall>uri. jwksUri c = Some uri \<longrightarrow> (\<exists>raw u w. parse_url raw = Some u \<and> url_href u = uri \<and>
       parse_url cid = Some w \<and> url_origin u = url_origin w \<and> (production config \<longrightarrow> url_protocol u = ''https:'')))"
proof -
  obtain kvs redirects auth uris where
    redirects: "mapr (validRedirectUri parse_url (production config)) uris = Inr redirects" "distinct redirects"
    and auth: "tokenEndpointAuth parse_url config cid kvs = Inr auth"
    and c: "clientId c = cid" "pkcePolicy c = Pkce_required" "clientSecretHash c = None" "allowedResources c = [mcpResource config]"
      "allowedScopes c = defaultScopes" "tokenEndpointAuthMethod c = fst auth" "redirectUris c = redirects"
      "jwksUri c = (if snd auth = Some [] then None else snd auth)" "clientClass c = ''client-id-metadata-document''"
    using assms by (auto simp: parseMetadataClient_def bindr_eq_Inr rejectDuplicateUris_eq_Inr split: option.splits if_splits)
  have "redirects = uris \<and> (\<forall>v\<in>set uris. safe_redirect parse_url (production config) v)"
    by (rule mapr_same [OF redirects(1)])
      (auto simp: validRedirectUri_def split: sum.splits if_splits intro: parseRedirectUri_safe)
  moreover have "fst auth \<in> {No_client_auth, Private_key_jwt}"
    using auth by (auto simp: tokenEndpointAuth_def bindr_eq_Inr Let_def split: if_splits)
  moreover have "\<exists>raw u w. parse_url raw = Some u \<and> url_href u = uri \<and> parse_url cid = Some w \<and>
      url_origin u = url_origin w \<and> (production config \<longrightarrow> url_protocol u = ''https:'')" if "jwksUri c = Some uri" for uri
  proof -
    have "snd auth = Some uri" using that c(8) by (auto split: if_splits)
    then have "validatedJwksUri parse_url config cid kvs = Inr uri"
      using auth by (auto simp: tokenEndpointAuth_def bindr_eq_Inr Let_def split: if_splits)
    then show ?thesis
      by (auto simp: validatedJwksUri_def bindr_eq_Inr parseClientIdUrl_def split: if_splits option.splits)
  qed
  ultimately show ?thesis
    using c by auto
qed

definition sample_metadata :: json where
  "sample_metadata = JObj [(''client_id'', JStr ''https://app.example/c''), (''client_name'', JStr ''App''),
     (''redirect_uris'', JArr [JStr ''https://app.example/cb''])]"

theorem metadata_client_confined_witness:
  "\<exists>config c. parseMetadataClient sample_url_parser config ''https://app.example/c'' (Some sample_metadata) = Inr c \<and>
     clientId c = ''https://app.example/c''"
proof -
  obtain config where config: "readConfig sample_url_parser ''/var/store.json'' [] = Inr config"
    using sample_config_accepted by (auto split: sum.splits)
  have "trim ''https://app.example/cb'' = ''https://app.example/cb''" "trim ''https://app.example/c'' = ''https://app.example/c''"
    "isDisplayName ''App''"
    by code_simp+
  then obtain c where "parseMetadataClient sample_url_parser config ''https://app.example/c'' (Some sample_metadata) = Inr c"
    by (simp add: parseMetadataClient_def sample_metadata_def metadataString_def requiredDisplayName_def requiredStringArray_def
        validRedirectUri_def parseRedirectUri_def includes_char_def newURL_def sample_url_parser_def productionRedirectUriAllowed_def
        validateOptionalString_def validateIncludes_def tokenEndpointAuth_def rejectDuplicateUris_def)
  then show ?thesis
    using metadata_client_confined [of sample_url_parser config "''https://app.example/c''" "Some sample_metadata" c] by blast
qed

text \<open>the address a production metadata fetch is pinned to was in the answer of the name service
  (or is the literal), is not special-purpose, and no other address of the answer is.\<close>

theorem metadata_fetch_address_public:
  assumes "resolveMetadataNetworkAddress lookup url True = Inr a"
  shows "\<exists>n. a = Some n \<and> \<not> isNonPublicIpAddress (na_address n) \<and> \<not> isLoopbackHostname (networkHostname (url_hostname url)) \<and>
    na_family n \<in> {4, 6} \<and>
    (isIP (networkHostname (url_hostname url)) = 0 \<longrightarrow> (\<exists>as. lookup (networkHostname (url_hostname url)) = Some as \<and> n \<in> set as \<and>
       (\<forall>b\<in>set as. \<not> isNonPublicIpAddress (na_address b)))) \<and>
    (isIP (networkHostname (url_hostname url)) \<noteq> 0 \<longrightarrow> na_address n = networkHostname (url_hostname url))"
  using assms
  by (auto simp: resolveMetadataNetworkAddress_def Let_def list_ex_iff neq_Nil_conv split: if_splits option.splits)

theorem metadata_fetch_address_public_witness:
  "\<not> isNonPublicIpAddress ''93.184.216.34''"
proof -
  let ?u = "\<lparr> url_protocol = ''https:'', url_username = [], url_password = [], url_hostname = ''93.184.216.34'',
     url_pathname = ''/c'', url_search = [], url_hash = [], url_href = [], url_origin = [] \<rparr>"
  have "isIP ''93.184.216.34'' = 4" "\<not> isNonPublicIpAddress ''93.184.216.34''" "\<not> isLoopbackHostname ''93.184.216.34''"
    "networkHostname ''93.184.216.34'' = ''93.184.216.34''"
    by code_simp+
  then have "resolveMetadataNetworkAddress (\<lambda>h. None) ?u True = Inr (Some \<lparr> na_address = ''93.184.216.34'', na_family = 4 \<rparr>)"
    by (simp add: resolveMetadataNetworkAddress_def)
  from metadata_fetch_address_public [OF this] show ?thesis by auto
qed

text \<open>A granted resource is one of the client's own, and names the same URL as the requested
  one; a client without a default must name one.\<close>

theorem granted_resource_allowed:
  assumes "resolveOAuthGrantResource parse_url client requested = Inr r"
  shows "r \<in> set (allowedResources client) \<and>
    (\<forall>q. requested = Some q \<longrightarrow> (\<exists>c. canonicalResource parse_url q = Inr c \<and> canonicalResource parse_url r = Inr c)) \<and>
    (requested = None \<longrightarrow> clientClass client = ''gpt-actions'' \<and> allowedResources client = [r])"
proof -
  have found: "findAllowedResource parse_url c rs = Inr (Some x) \<Longrightarrow> x \<in> set rs \<and> canonicalResource parse_url x = Inr c" for c rs x
    by (induction rs) (auto simp: bindr_eq_Inr split: if_splits)
  obtain q where q: "resolveGrantResource client requested = Inr q" "resolveAllowedResource parse_url client q = Inr r"
    using assms by (auto simp: resolveOAuthGrantResource_def bindr_eq_Inr)
  then obtain c where c: "canonicalResource parse_url q = Inr c" "findAllowedResource parse_url c (allowedResources client) = Inr (Some r)"
    by (auto simp: resolveAllowedResource_def bindr_eq_Inr split: if_splits)
  have "requested = None \<Longrightarrow> clientClass client = ''gpt-actions'' \<and> length (allowedResources client) = 1"
    using q(1) by (auto simp: resolveGrantResource_def defaultActionsResource_def split: option.splits if_splits)
  moreover have "requested = Some p \<Longrightarrow> p = q" for p
    using q(1) by (auto simp: resolveGrantResource_def split: if_splits)
  ultimately show ?thesis
    using found [OF c(2)] c(1) by (auto simp: length_Suc_conv)
qed

definition sample_client :: oauth_client where
  "sample_client = \<lparr> clientId = ''gpt'', clientSecretHash = Some (replicate 43 CHR ''a''), displayName = ''GPT'',
     redirectUris = [''https://chatgpt.com/cb''], allowedScopes = [''openid'', ''email''], allowedResources = [''https://api.example/mcp''],
     tokenEndpointAuthMethod = Client_secret_post, jwksUri = None, pkcePolicy = Pkce_required, clientClass = ''gpt'' \<rparr>"

theorem granted_resource_allowed_witness:
  "''https://api.example/mcp'' \<in> set (allowedResources sample_client)"
proof -
  have "resolveOAuthGrantResource sample_url_parser sample_client (Some ''https://api.example/mcp'') = Inr ''https://api.example/mcp''"
    by code_simp
  then show ?thesis using granted_resource_allowed by blast
qed

end
