(* ===== verification/Client_Auth.thy ===== *)
theory Client_Auth
  imports Encoding Clients
begin

text \<open>
  How a client presents itself at the token endpoint: Basic credentials
  (\<open>auth/basic-credentials.ts\<close>) with the parts of \<open>Buffer\<close> and \<open>decodeURIComponent\<close> they use, and the
  choice among the authentication methods (\<open>auth/client-auth.ts\<close>).  As for base64url, octets that
  decode to a character above U+00FF are outside the range of the model (\<open>None\<close>).
\<close>

section \<open>Basic credentials\<close>

definition is_base64_char :: "char \<Rightarrow> bool" where
  "is_base64_char c = (is_alnum c \<or> c = CHR ''+'' \<or> c = CHR ''/'')"

text \<open>The text before the padding and the padding of \<open>/^[class]+={m,n}$/\<close>.\<close>

definition unpadded :: "string \<Rightarrow> string" where
  "unpadded value = takeWhile (\<lambda>c. c \<noteq> CHR ''='') value"

definition padding :: "string \<Rightarrow> string" where
  "padding value = dropWhile (\<lambda>c. c \<noteq> CHR ''='') value"

definition matches_base64 :: "nat \<Rightarrow> string \<Rightarrow> bool" where
  "matches_base64 least value = (unpadded value \<noteq> [] \<and> list_all is_base64_char (unpadded value) \<and>
     list_all (\<lambda>c. c = CHR ''='') (padding value) \<and> least \<le> length (padding value) \<and> length (padding value) \<le> 2)"

definition validBase64 :: "string \<Rightarrow> bool" where
  "validBase64 value =
    (if \<not> matches_base64 0 value \<or> length value mod 4 = 1 then False
     else index_of CHR ''='' value = None \<or> (length value mod 4 = 0 \<and> matches_base64 1 value))"

definition padded :: "string \<Rightarrow> string" where
  "padded value = value @ replicate ((length value + 3) div 4 * 4 - length value) CHR ''=''"

text \<open>\<open>Buffer.from(value, "base64")\<close> of a padded text: both alphabets name the same octets.\<close>

definition url_alphabet :: "char \<Rightarrow> char" where
  "url_alphabet c = (if c = CHR ''+'' then CHR ''-'' else if c = CHR ''/'' then CHR ''_'' else c)"

definition base64_bytes :: "string \<Rightarrow> nat list" where
  "base64_bytes value = base64_octets (map url_alphabet (unpadded value))"

definition is_hex :: "char \<Rightarrow> bool" where
  "is_hex c = (is_digit c \<or> 65 \<le> code c \<and> code c \<le> 70 \<or> 97 \<le> code c \<and> code c \<le> 102)"

definition hex_byte :: "char \<Rightarrow> char \<Rightarrow> nat" where
  "hex_byte h l = 16 * hex_digit_value (to_lower_char h) + hex_digit_value (to_lower_char l)"

text \<open>\<open>decodeURIComponent\<close>; \<open>None\<close> is the exception it throws for a malformed escape.\<close>

fun decodeURIComponent :: "string \<Rightarrow> string option" where
  "decodeURIComponent [] = Some []"
| "decodeURIComponent (c # s) =
    (if c \<noteq> CHR ''%'' then map_option (Cons c) (decodeURIComponent s)
     else (case s of
       h # l # rest \<Rightarrow>
         if \<not> (is_hex h \<and> is_hex l) then None
         else let b = hex_byte h l in
           if b < 128 then map_option (Cons (char_of b)) (decodeURIComponent rest)
           else (case rest of
             p # h' # l' # rest' \<Rightarrow>
               if p = CHR ''%'' \<and> is_hex h' \<and> is_hex l' \<and> (b = 194 \<or> b = 195) \<and> 128 \<le> hex_byte h' l' \<and> hex_byte h' l' < 192
               then map_option (Cons (char_of ((b - 192) * 64 + (hex_byte h' l' - 128)))) (decodeURIComponent rest')
               else None
           | _ \<Rightarrow> None)
     | _ \<Rightarrow> None))"

record basic_credentials =
  bc_clientId :: string
  bc_clientSecret :: string

definition decodeBasicCredentials :: "string \<Rightarrow> basic_credentials option" where
  "decodeBasicCredentials credentials =
    (if \<not> validBase64 credentials then None
     else (case utf8_text (base64_bytes (padded credentials)) of
       None \<Rightarrow> None
     | Some decoded \<Rightarrow> (case index_of CHR '':'' decoded of
         None \<Rightarrow> None
       | Some separator \<Rightarrow>
           if separator < 1 then None
           else (case decodeURIComponent (take separator decoded) of
             None \<Rightarrow> None
           | Some cid \<Rightarrow> (case decodeURIComponent (drop (separator + 1) decoded) of
               None \<Rightarrow> None
             | Some secret \<Rightarrow> Some \<lparr> bc_clientId = cid, bc_clientSecret = secret \<rparr>)))))"

section \<open>The authentication method\<close>

record client_credentials =
  cc_clientId :: string
  cc_clientSecret :: "string option"
  cc_clientAssertion :: "string option"
  cc_method :: token_auth_method

definition jwtBearerAssertionType :: string where
  "jwtBearerAssertionType = ''urn:ietf:params:oauth:client-assertion-type:jwt-bearer''"

definition has_param :: "params \<Rightarrow> string \<Rightarrow> bool" where
  "has_param form key = List.member (map fst form) key"

text \<open>\<open>!value\<close> for a text that may be absent.\<close>

definition blank_text :: "string option \<Rightarrow> bool" where
  "blank_text value = (value = None \<or> value = Some [])"

definition readAssertionCredentials :: "params \<Rightarrow> string option \<Rightarrow> client_credentials outcome" where
  "readAssertionCredentials form authorization =
    (if \<not> blank_text authorization \<or> has_param form ''client_secret'' then Inl invalid_client_error
     else if blank_text (get_param form ''client_id'') \<or> get_param form ''client_assertion_type'' \<noteq> Some jwtBearerAssertionType \<or>
         blank_text (get_param form ''client_assertion'') then Inl invalid_client_error
     else Inr \<lparr> cc_clientId = the (get_param form ''client_id''), cc_clientSecret = None,
       cc_clientAssertion = get_param form ''client_assertion'', cc_method = Private_key_jwt \<rparr>)"

definition readBasicCredentials :: "params \<Rightarrow> string \<Rightarrow> client_credentials outcome" where
  "readBasicCredentials form credentials = (case decodeBasicCredentials credentials of
     None \<Rightarrow> Inl invalid_client_error
   | Some decoded \<Rightarrow>
       if \<not> blank_text (get_param form ''client_secret'') then Inl invalid_client_error
       else if \<not> blank_text (get_param form ''client_id'') \<and> the (get_param form ''client_id'') \<noteq> bc_clientId decoded
       then Inl invalid_client_error
       else Inr \<lparr> cc_clientId = bc_clientId decoded, cc_clientSecret = Some (bc_clientSecret decoded),
         cc_clientAssertion = None, cc_method = Client_secret_basic \<rparr>)"

definition readClientCredentials :: "params \<Rightarrow> string option \<Rightarrow> client_credentials outcome" where
  "readClientCredentials form authorization =
    (if has_param form ''client_assertion'' \<or> has_param form ''client_assertion_type''
       then readAssertionCredentials form authorization
     else if \<not> blank_text authorization then
       bindr (readAuthorizationCredentials authorization ''Basic'' invalid_client_error) (readBasicCredentials form)
     else if blank_text (get_param form ''client_id'') then Inl invalid_client_error
     else if \<not> has_param form ''client_secret'' then
       Inr \<lparr> cc_clientId = the (get_param form ''client_id''), cc_clientSecret = None, cc_clientAssertion = None,
         cc_method = No_client_auth \<rparr>
     else Inr \<lparr> cc_clientId = the (get_param form ''client_id''),
         cc_clientSecret = Some (case get_param form ''client_secret'' of None \<Rightarrow> [] | Some s \<Rightarrow> s),
         cc_clientAssertion = None, cc_method = Client_secret_post \<rparr>)"

section \<open>Facts\<close>

lemma has_param_iff: "has_param form key \<longleftrightarrow> get_param form key \<noteq> None"
  by (simp add: has_param_def get_param_def map_of_eq_None_iff)

lemma blank_text_simps [simp]: "blank_text None" "blank_text (Some s) \<longleftrightarrow> s = []"
  by (simp_all add: blank_text_def)

lemma not_blank_textE: "\<not> blank_text v \<Longrightarrow> (\<And>s. v = Some s \<Longrightarrow> s \<noteq> [] \<Longrightarrow> R) \<Longrightarrow> R"
  by (cases v) auto

lemmas credentials_defs = readClientCredentials_def readAssertionCredentials_def readBasicCredentials_def

text \<open>The sources a request may carry credentials in, and the one each method reads.\<close>

definition secret_in_form :: "params \<Rightarrow> bool" where
  "secret_in_form form = (\<not> blank_text (get_param form ''client_secret''))"

definition assertion_in_form :: "params \<Rightarrow> bool" where
  "assertion_in_form form = (has_param form ''client_assertion'' \<or> has_param form ''client_assertion_type'')"

text \<open>a request whose credentials are accepted carries one kind of credentials only: an assertion
  comes with no header and no secret, a header with no assertion and no secret in the form, a secret in
  the form with neither; a client without credentials has none of them; and an identifier in the form
  is the one that is authenticated.\<close>

theorem one_credential_source:
  assumes "readClientCredentials form authorization = Inr c"
  shows "(case cc_method c of
      Private_key_jwt \<Rightarrow> blank_text authorization \<and> \<not> secret_in_form form \<and> cc_clientAssertion c \<noteq> None \<and> cc_clientSecret c = None
    | Client_secret_basic \<Rightarrow> \<not> blank_text authorization \<and> \<not> secret_in_form form \<and> \<not> assertion_in_form form \<and> cc_clientAssertion c = None
    | Client_secret_post \<Rightarrow> blank_text authorization \<and> \<not> assertion_in_form form \<and> cc_clientSecret c = get_param form ''client_secret''
    | No_client_auth \<Rightarrow> blank_text authorization \<and> \<not> secret_in_form form \<and> \<not> assertion_in_form form \<and> cc_clientSecret c = None) \<and>
    (\<not> blank_text (get_param form ''client_id'') \<longrightarrow> get_param form ''client_id'' = Some (cc_clientId c))"
proof (cases "assertion_in_form form")
  case True
  then have "readAssertionCredentials form authorization = Inr c"
    using assms by (simp add: readClientCredentials_def assertion_in_form_def)
  then show ?thesis
    by (auto simp: readAssertionCredentials_def secret_in_form_def has_param_iff split: if_splits elim!: not_blank_textE)
next
  case no_assertion: False
  show ?thesis
  proof (cases "blank_text authorization")
    case True
    then show ?thesis
      using assms no_assertion
      by (auto simp: readClientCredentials_def assertion_in_form_def secret_in_form_def has_param_iff
          split: if_splits elim!: not_blank_textE)
  next
    case False
    then obtain s where "readBasicCredentials form s = Inr c"
      using assms no_assertion by (auto simp: readClientCredentials_def assertion_in_form_def bindr_eq_Inr)
    then show ?thesis
      using False no_assertion
      by (auto simp: readBasicCredentials_def secret_in_form_def split: if_splits option.splits elim!: not_blank_textE)
  qed
qed

section \<open>What a client sends\<close>

text \<open>\<open>encodeURIComponent\<close> as RFC 6749 has a client apply it, octet by octet.\<close>

definition percent_digit :: "nat \<Rightarrow> char" where
  "percent_digit n = (if n < 10 then char_of (48 + n) else char_of (55 + n))"

definition escape_byte :: "nat \<Rightarrow> string" where
  "escape_byte b = [CHR ''%'', percent_digit (b div 16), percent_digit (b mod 16)]"

definition encode_char :: "char \<Rightarrow> string" where
  "encode_char c = (if is_unreserved c then [c] else concat (map escape_byte (utf8_char c)))"

definition encode_component :: "string \<Rightarrow> string" where
  "encode_component s = concat (map encode_char s)"

definition std_alphabet :: "char \<Rightarrow> char" where
  "std_alphabet c = (if c = CHR ''-'' then CHR ''+'' else if c = CHR ''_'' then CHR ''/'' else c)"

definition basic_credentials_text :: "string \<Rightarrow> string \<Rightarrow> string" where
  "basic_credentials_text cid secret =
     padded (map std_alphabet (base64url (utf8 (encode_component cid @ '':'' @ encode_component secret))))"

lemma hex_char_facts:
  assumes "n < 16"
  shows "is_hex (percent_digit n)" "hex_digit_value (to_lower_char (percent_digit n)) = n" "is_unreserved (percent_digit n)"
proof -
  have "n \<in> {0, 1, 2, 3, 4, 5, 6, 7, 8, 9, 10, 11, 12, 13, 14, 15}"
    using assms by (simp, presburger)
  then show "is_hex (percent_digit n)" "hex_digit_value (to_lower_char (percent_digit n)) = n" "is_unreserved (percent_digit n)"
    by (elim insertE emptyE; hypsubst; code_simp)+
qed

lemma hex_byte_escape: "b < 256 \<Longrightarrow> hex_byte (percent_digit (b div 16)) (percent_digit (b mod 16)) = b"
  using hex_char_facts [of "b div 16"] hex_char_facts [of "b mod 16"] by (simp add: hex_byte_def)

lemma decode_two_bytes:
  assumes "b = 194 \<or> b = 195" "128 \<le> d" "d < 192"
  shows "decodeURIComponent (CHR ''%'' # percent_digit (b div 16) # percent_digit (b mod 16) # CHR ''%'' # percent_digit (d div 16) # percent_digit (d mod 16) # s)
    = map_option (Cons (char_of ((b - 192) * 64 + (d - 128)))) (decodeURIComponent s)"
proof -
  have "b < 256" "d < 256" using assms by auto
  then have hex: "is_hex (percent_digit (b div 16))" "is_hex (percent_digit (b mod 16))" "is_hex (percent_digit (d div 16))" "is_hex (percent_digit (d mod 16))"
    by (auto intro!: hex_char_facts)
  have bytes: "hex_byte (percent_digit (b div 16)) (percent_digit (b mod 16)) = b" "hex_byte (percent_digit (d div 16)) (percent_digit (d mod 16)) = d"
    using \<open>b < 256\<close> \<open>d < 256\<close> by (auto intro!: hex_byte_escape)
  have "\<not> b < 128" using assms(1) by auto
  then show ?thesis
    using assms by (simp only: decodeURIComponent.simps(2) list.case hex bytes Let_def) simp
qed

lemma decode_encode_char: "decodeURIComponent (encode_char c @ s) = map_option (Cons c) (decodeURIComponent s)"
proof (cases "is_unreserved c")
  case True
  then have "c \<noteq> CHR ''%''" by (auto simp: is_unreserved_def is_alnum_def is_digit_def is_upper_def is_lower_def)
  then show ?thesis using True by (simp add: encode_char_def)
next
  case False
  define n :: nat where "n = code c"
  have n: "n < 256" and c: "char_of n = c" by (simp_all add: n_def code_less_256)
  show ?thesis
  proof (cases "n < 128")
    case True
    then show ?thesis
      using False n c hex_char_facts [of "n div 16"] hex_char_facts [of "n mod 16"] hex_byte_escape [of n]
      by (simp add: encode_char_def utf8_char_def n_def [symmetric] escape_byte_def)
  next
    case big: False
    define b d where bd: "b = 192 + n div 64" "d = 128 + n mod 64"
    have "n div 64 = 2 \<or> n div 64 = 3" using big n by linarith
    then have b: "b = 194 \<or> b = 195" and d: "128 \<le> d" "d < 192" by (auto simp: bd)
    have val: "char_of ((b - 192) * 64 + (d - 128)) = c" using c by (simp add: bd)
    have "encode_char c = [CHR ''%'', percent_digit (b div 16), percent_digit (b mod 16), CHR ''%'', percent_digit (d div 16), percent_digit (d mod 16)]"
      using False big by (simp only: encode_char_def utf8_char_def n_def [symmetric] bd) (simp add: escape_byte_def)
    then show ?thesis
      using decode_two_bytes [OF b d] val by simp
  qed
qed

lemma decode_encode_component: "decodeURIComponent (encode_component s @ t) = map_option ((@) s) (decodeURIComponent t)"
  by (induction s) (simp_all add: encode_component_def decode_encode_char option.map_comp comp_def option.map_ident)

lemma encode_char_chars: "x \<in> set (encode_char c) \<Longrightarrow> is_unreserved x \<or> x = CHR ''%''"
proof -
  assume x: "x \<in> set (encode_char c)"
  have "b < 256" if "b \<in> set (utf8_char c)" for b
    using that utf8_bytes [of b "[c]"] by (simp add: utf8_def)
  then have "is_unreserved y \<or> y = CHR ''%''" if "b \<in> set (utf8_char c)" "y \<in> set (escape_byte b)" for b y
    using that hex_char_facts(3) [of "b div 16"] hex_char_facts(3) [of "b mod 16"] by (fastforce simp: escape_byte_def)
  then show ?thesis
    using x by (auto simp: encode_char_def split: if_splits)
qed

lemma encode_component_no_colon: "CHR '':'' \<notin> set (encode_component s)"
proof
  assume "CHR '':'' \<in> set (encode_component s)"
  then have "is_unreserved CHR '':'' \<or> CHR '':'' = CHR ''%''"
    by (auto simp: encode_component_def dest: encode_char_chars)
  then show False by (simp add: is_unreserved_def is_alnum_def is_digit_def is_upper_def is_lower_def)
qed

lemma encode_component_Nil: "encode_component s = [] \<longleftrightarrow> s = []"
proof -
  have "encode_char c \<noteq> []" for c by (auto simp: encode_char_def utf8_char_def escape_byte_def)
  then show ?thesis by (cases s) (auto simp: encode_component_def)
qed

lemma index_of_append: "c \<notin> set s \<Longrightarrow> index_of c (s @ c # t) = Some (length s)"
  by (induction s) auto

lemma std_url_alphabet: "is_base64url_char c \<Longrightarrow> url_alphabet (std_alphabet c) = c \<and> is_base64_char (std_alphabet c) \<and> std_alphabet c \<noteq> CHR ''=''"
  by (auto simp: url_alphabet_def std_alphabet_def is_base64url_char_def is_base64_char_def is_alnum_def is_digit_def is_upper_def is_lower_def)

lemma base64url_length: "length (base64url bs) mod 4 \<noteq> 1"
  by (induction bs rule: base64url.induct) (simp_all add: mod_Suc)

lemma padded_length: "length (padded s) mod 4 = 0"
proof -
  have "length s \<le> (length s + 3) div 4 * 4" by linarith
  then show ?thesis by (simp add: padded_def)
qed

lemma padded_base64:
  assumes "list_all is_base64_char s" "s \<noteq> []" "length s mod 4 \<noteq> 1"
  shows "unpadded (padded s) = s" "validBase64 (padded s)" "padded (padded s) = padded s"
proof -
  let ?n = "(length s + 3) div 4 * 4 - length s"
  have no: "CHR ''='' \<notin> set s"
    using assms(1) by (auto simp: list_all_iff is_base64_char_def is_alnum_def is_digit_def is_upper_def is_lower_def)
  then have parts: "takeWhile (\<lambda>c. c \<noteq> CHR ''='') (s @ replicate k CHR ''='') = s"
    "dropWhile (\<lambda>c. c \<noteq> CHR ''='') (s @ replicate k CHR ''='') = replicate k CHR ''=''" for k
    by (cases k; subst takeWhile_append2 dropWhile_append2; auto)+
  show "unpadded (padded s) = s" by (simp add: unpadded_def padded_def parts)
  have n: "?n \<le> 2" using assms(3) by presburger
  have least: "?n = 0 \<or> matches_base64 1 (padded s)" "matches_base64 0 (padded s)"
    using assms(1,2) n by (auto simp: matches_base64_def unpadded_def padding_def padded_def parts list_all_iff)
  have "index_of CHR ''='' s = None" using no by (induction s) auto
  then have "?n = 0 \<Longrightarrow> index_of CHR ''='' (padded s) = None" by (simp add: padded_def)
  then show "validBase64 (padded s)"
    using least padded_length [of s] by (auto simp: validBase64_def)
  have "(length (padded s) + 3) div 4 * 4 - length (padded s) = 0" using padded_length [of s] by presburger
  then show "padded (padded s) = padded s" by (simp add: padded_def)
qed

text \<open>the credentials a client writes into a Basic header, with reserved characters escaped in both
  parts, are read back as the identifier and the secret it has.\<close>

theorem basic_credentials_round_trip:
  assumes "cid \<noteq> []"
  shows "decodeBasicCredentials (basic_credentials_text cid secret) = Some \<lparr> bc_clientId = cid, bc_clientSecret = secret \<rparr>"
proof -
  let ?t = "encode_component cid @ '':'' @ encode_component secret"
  let ?s = "map std_alphabet (base64url (utf8 ?t))"
  have alphabet: "list_all is_base64url_char (base64url (utf8 ?t))"
    by (rule base64_alphabet) (auto dest: utf8_bytes)
  then have inverse: "map url_alphabet ?s = base64url (utf8 ?t)" and chars: "list_all is_base64_char ?s"
    by (auto simp: list_all_iff std_url_alphabet intro: map_idI)
  have "utf8 ?t \<noteq> []" by (simp add: utf8_def utf8_char_def)
  then have "?s \<noteq> []" by (cases "utf8 ?t" rule: base64url.cases) auto
  note pad = padded_base64 [OF chars this] base64url_length [of "utf8 ?t"]
  have "utf8_text (base64_bytes (padded (padded ?s))) = Some ?t"
    using pad by (simp add: base64_bytes_def inverse base64_round_trip utf8_bytes del: append.simps map_map)
  moreover have "index_of CHR '':'' ?t = Some (length (encode_component cid))"
    using index_of_append [OF encode_component_no_colon, of cid "encode_component secret"] by simp
  moreover have "decodeURIComponent (encode_component s) = Some s" for s
    using decode_encode_component [of s "[]"] by simp
  ultimately show ?thesis
    using assms pad by (simp add: decodeBasicCredentials_def basic_credentials_text_def encode_component_Nil Suc_le_eq)
qed

theorem basic_credentials_round_trip_witness:
  "decodeBasicCredentials (basic_credentials_text ''a:b'' ''p%q'') = Some \<lparr> bc_clientId = ''a:b'', bc_clientSecret = ''p%q'' \<rparr>"
  by (rule basic_credentials_round_trip) simp

theorem one_credential_source_witness:
  "\<exists>c. readClientCredentials [(''client_id'', ''gpt''), (''client_secret'', ''s3cret'')] None = Inr c \<and> cc_clientId c = ''gpt''"
proof -
  obtain c where "readClientCredentials [(''client_id'', ''gpt''), (''client_secret'', ''s3cret'')] None = Inr c"
    by (simp add: readClientCredentials_def has_param_def get_param_def)
  then show ?thesis using one_credential_source by (fastforce simp: get_param_def)
qed

end
