(* ===== verification/Expiring_Cache.thy ===== *)
theory Expiring_Cache
  imports Js_Values
begin

text \<open>
  \<open>auth/expiring-cache.ts\<close>: the in-memory caches of client metadata and client keys.  A cache is a
  \<open>Map\<close>, so an association list in insertion order; times are milliseconds.  An operation gives
  its result and the cache afterwards.
\<close>

section \<open>Operations\<close>

record 'v cache_entry =
  en_value :: 'v
  en_expiresAt :: int

type_synonym 'v cache = "(string \<times> 'v cache_entry) list"

definition pruneExpiredCacheEntries :: "'v cache \<Rightarrow> int \<Rightarrow> 'v cache" where
  "pruneExpiredCacheEntries cache now = filter (\<lambda>(key, entry). \<not> en_expiresAt entry \<le> now) cache"

definition readExpiringCache :: "'v cache \<Rightarrow> string \<Rightarrow> int \<Rightarrow> 'v option \<times> 'v cache" where
  "readExpiringCache cache key now =
    (let pruned = pruneExpiredCacheEntries cache now in (map_option en_value (map_of pruned key), pruned))"

text \<open>The loop of \<open>writeExpiringCache\<close>; \<open>[]\<close> is the \<open>break\<close> on an empty cache.\<close>

function evictOldest :: "string \<Rightarrow> nat \<Rightarrow> 'v cache \<Rightarrow> 'v cache" where
  "evictOldest key maxEntries [] = []"
| "evictOldest key maxEntries (oldest # rest) =
    (if map_of (oldest # rest) key = None \<and> maxEntries \<le> length (oldest # rest)
     then evictOldest key maxEntries (AList.delete (fst oldest) (oldest # rest))
     else oldest # rest)"
  by pat_completeness auto
termination
  by (relation "measure (\<lambda>(key, maxEntries, cache). length cache)") (auto simp: less_Suc_eq_le length_delete_le)

definition writeExpiringCache :: "'v cache \<Rightarrow> string \<Rightarrow> 'v \<Rightarrow> int \<Rightarrow> nat \<Rightarrow> int \<Rightarrow> 'v cache" where
  "writeExpiringCache cache key value cacheSeconds maxEntries now =
    (let pruned = pruneExpiredCacheEntries cache now in
     if cacheSeconds \<le> 0 then AList.delete key pruned
     else AList.update key \<lparr> en_value = value, en_expiresAt = now + cacheSeconds * 1000 \<rparr> (evictOldest key maxEntries pruned))"

section \<open>Facts\<close>

definition keys_distinct :: "'v cache \<Rightarrow> bool" where
  "keys_distinct cache = distinct (map fst cache)"

lemma prune_lookup:
  "keys_distinct cache \<Longrightarrow> map_of (pruneExpiredCacheEntries cache now) key =
    (case map_of cache key of Some e \<Rightarrow> if en_expiresAt e \<le> now then None else Some e | None \<Rightarrow> None)"
  using map_of_filter_snd [of cache "\<lambda>e. \<not> en_expiresAt e \<le> now" key]
  by (auto simp: pruneExpiredCacheEntries_def keys_distinct_def split_def split: option.splits)

lemma prune_distinct: "keys_distinct cache \<Longrightarrow> keys_distinct (pruneExpiredCacheEntries cache now)"
  by (simp add: pruneExpiredCacheEntries_def keys_distinct_def)

lemma prune_length: "length (pruneExpiredCacheEntries cache now) \<le> length cache"
  by (simp add: pruneExpiredCacheEntries_def)

lemma delete_distinct: "keys_distinct cache \<Longrightarrow> keys_distinct (AList.delete key cache)"
  by (simp add: keys_distinct_def distinct_delete)

lemma evict_distinct: "keys_distinct cache \<Longrightarrow> keys_distinct (evictOldest key maxEntries cache)"
proof (induction key maxEntries cache rule: evictOldest.induct)
  case (2 key maxEntries oldest rest)
  show ?case
  proof (cases "map_of (oldest # rest) key = None \<and> maxEntries \<le> length (oldest # rest)")
    case True
    then show ?thesis
      using "2.IH" delete_distinct [OF 2(2)] by (simp only: evictOldest.simps if_True simp_thms)
  next
    case False
    then show ?thesis using 2(2) by (simp only: evictOldest.simps if_False)
  qed
qed simp

text \<open>Eviction never invents or changes an entry, keeps the entry of \<open>key\<close>, and leaves room for it.\<close>

lemma evict_subset: "map_of (evictOldest key maxEntries cache) k = Some e \<Longrightarrow> map_of cache k = Some e"
proof (induction key maxEntries cache rule: evictOldest.induct)
  case (2 key maxEntries oldest rest)
  show ?case
  proof (cases "map_of (oldest # rest) key = None \<and> maxEntries \<le> length (oldest # rest)")
    case True
    have "map_of (AList.delete (fst oldest) (oldest # rest)) k = Some e"
      by (rule "2.IH" [OF True]) (use 2(2) True in \<open>simp only: evictOldest.simps if_True simp_thms\<close>)
    then show ?thesis
      by (simp only: alist_lookup_delete fun_upd_apply split: if_splits) simp
  next
    case False
    then show ?thesis using 2(2) by (simp only: evictOldest.simps if_False)
  qed
qed simp

lemma evict_present: "map_of cache key = Some e \<Longrightarrow> evictOldest key maxEntries cache = cache"
  by (cases cache) simp_all

lemma evict_room:
  "map_of cache key = None \<Longrightarrow> length (evictOldest key maxEntries cache) < max 1 maxEntries"
proof (induction key maxEntries cache rule: evictOldest.induct)
  case (2 key maxEntries oldest rest)
  show ?case
  proof (cases "maxEntries \<le> length (oldest # rest)")
    case True
    then have "map_of (oldest # rest) key = None \<and> maxEntries \<le> length (oldest # rest)" using 2(2) by blast
    moreover have "map_of (AList.delete (fst oldest) (oldest # rest)) key = None"
      using 2(2) unfolding alist_lookup_delete by (simp only: fun_upd_apply if_split) simp
    ultimately show ?thesis
      using "2.IH" by (simp only: evictOldest.simps if_True simp_thms)
  next
    case False
    then show ?thesis by (simp del: evictOldest.simps add: evictOldest.simps(2))
  qed
qed simp

lemma length_update: "keys_distinct cache \<Longrightarrow>
  length (AList.update key v cache) = (if map_of cache key = None then length cache + 1 else length cache)"
  by (induction cache) (auto simp: keys_distinct_def split: if_splits)

lemma update_distinct: "keys_distinct cache \<Longrightarrow> keys_distinct (AList.update key v cache)"
  by (simp add: keys_distinct_def distinct_update)

lemma write_lookup:
  assumes "keys_distinct cache"
  shows "map_of (writeExpiringCache cache key v secs maxEntries now) key =
      (if secs \<le> 0 then None else Some \<lparr> en_value = v, en_expiresAt = now + secs * 1000 \<rparr>)"
    and "k \<noteq> key \<Longrightarrow> map_of (writeExpiringCache cache key v secs maxEntries now) k = Some e \<Longrightarrow>
      map_of cache k = Some e \<and> now < en_expiresAt e"
proof -
  show "map_of (writeExpiringCache cache key v secs maxEntries now) key =
      (if secs \<le> 0 then None else Some \<lparr> en_value = v, en_expiresAt = now + secs * 1000 \<rparr>)"
    by (simp add: writeExpiringCache_def Let_def)
  assume k: "k \<noteq> key" "map_of (writeExpiringCache cache key v secs maxEntries now) k = Some e"
  then have "map_of (pruneExpiredCacheEntries cache now) k = Some e"
    by (auto simp: writeExpiringCache_def Let_def split: if_splits dest: evict_subset)
  then show "map_of cache k = Some e \<and> now < en_expiresAt e"
    using assms by (auto simp: prune_lookup split: option.splits if_splits)
qed

lemma write_length:
  assumes "keys_distinct cache" "length cache \<le> max 1 maxEntries"
  shows "length (writeExpiringCache cache key v secs maxEntries now) \<le> max 1 maxEntries"
proof -
  let ?p = "pruneExpiredCacheEntries cache now"
  have p: "length ?p \<le> max 1 maxEntries" using assms(2) prune_length [of cache now] by linarith
  have "length (AList.delete key ?p) \<le> length ?p" by (rule length_delete_le)
  moreover have "length (AList.update key w (evictOldest key maxEntries ?p)) \<le> max 1 maxEntries" for w
  proof (cases "map_of ?p key")
    case None
    have "keys_distinct (evictOldest key maxEntries ?p)" by (rule evict_distinct, rule prune_distinct, rule assms)
    then show ?thesis using evict_room [OF None, of maxEntries] by (simp add: length_update)
  next
    case (Some e)
    then show ?thesis using p prune_distinct [OF assms(1)] by (simp add: evict_present length_update)
  qed
  ultimately show ?thesis
    using p by (auto simp: writeExpiringCache_def Let_def)
qed

lemma write_distinct: "keys_distinct cache \<Longrightarrow> keys_distinct (writeExpiringCache cache key v secs maxEntries now)"
  by (simp add: writeExpiringCache_def Let_def delete_distinct update_distinct evict_distinct prune_distinct)

section \<open>Runs\<close>

datatype 'v cache_op = Read string int | Write string 'v int int

fun cache_step :: "nat \<Rightarrow> 'v cache \<Rightarrow> 'v cache_op \<Rightarrow> 'v cache" where
  "cache_step maxEntries cache (Read key now) = snd (readExpiringCache cache key now)"
| "cache_step maxEntries cache (Write key v secs now) = writeExpiringCache cache key v secs maxEntries now"

definition cache_run :: "nat \<Rightarrow> 'v cache_op list \<Rightarrow> 'v cache" where
  "cache_run maxEntries ops = foldl (cache_step maxEntries) [] ops"

text \<open>The last write under a key.\<close>

fun last_write :: "string \<Rightarrow> 'v cache_op list \<Rightarrow> ('v \<times> int \<times> int) option" where
  "last_write key [] = None"
| "last_write key (Read k now # ops) = last_write key ops"
| "last_write key (Write k v secs now # ops) = (case last_write key ops of
     Some w \<Rightarrow> Some w | None \<Rightarrow> if k = key then Some (v, secs, now) else None)"

lemma last_write_snoc:
  "last_write key (ops @ [a]) = (case a of Read k now \<Rightarrow> last_write key ops
     | Write k v secs now \<Rightarrow> if k = key then Some (v, secs, now) else last_write key ops)"
  by (induction ops rule: last_write.induct) (auto split: cache_op.splits option.splits)

lemma cache_step_distinct: "keys_distinct cache \<Longrightarrow> keys_distinct (cache_step maxEntries cache a)"
  by (cases a) (simp_all add: readExpiringCache_def Let_def prune_distinct write_distinct)

lemma cache_run_distinct: "keys_distinct (cache_run maxEntries ops)"
  unfolding cache_run_def
  by (induction ops rule: rev_induct) (simp_all add: cache_step_distinct, simp add: keys_distinct_def)

lemma cache_run_length: "length (cache_run maxEntries ops) \<le> max 1 maxEntries"
proof (induction ops rule: rev_induct)
  case (snoc a ops)
  have "cache_run maxEntries (ops @ [a]) = cache_step maxEntries (cache_run maxEntries ops) a"
    by (simp add: cache_run_def)
  moreover have "length (cache_step maxEntries (cache_run maxEntries ops) a) \<le> max 1 maxEntries"
  proof (cases a)
    case (Read k now)
    then show ?thesis using snoc prune_length [of "cache_run maxEntries ops" now]
      by (simp add: readExpiringCache_def Let_def)
  next
    case (Write k v secs now)
    then show ?thesis using write_length [OF cache_run_distinct snoc] by simp
  qed
  ultimately show ?case by simp
qed (simp add: cache_run_def)

lemma cache_run_fresh:
  "map_of (cache_run maxEntries ops) key = Some e \<Longrightarrow>
   \<exists>secs now. last_write key ops = Some (en_value e, secs, now) \<and> 0 < secs \<and> en_expiresAt e = now + secs * 1000"
proof (induction ops rule: rev_induct)
  case (snoc a ops)
  let ?c = "cache_run maxEntries ops"
  have step: "map_of (cache_step maxEntries ?c a) key = Some e"
    using snoc.prems by (simp add: cache_run_def)
  show ?case
  proof (cases a)
    case (Read k now)
    then have "map_of ?c key = Some e"
      using step by (auto simp: readExpiringCache_def Let_def prune_lookup cache_run_distinct split: option.splits if_splits)
    then show ?thesis using snoc.IH Read by (simp add: last_write_snoc)
  next
    case (Write k v secs now)
    show ?thesis
    proof (cases "k = key")
      case True
      then show ?thesis
        using step write_lookup(1) [OF cache_run_distinct, of maxEntries ops k v secs maxEntries now] Write
        by (auto simp: last_write_snoc split: if_splits)
    next
      case False
      then have "map_of ?c key = Some e"
        using step write_lookup(2) [OF cache_run_distinct, of key k maxEntries ops v secs maxEntries now e] Write by auto
      then show ?thesis using snoc.IH Write False by (simp add: last_write_snoc)
    qed
  qed
qed (simp add: cache_run_def)

text \<open>a cache never holds more than its maximal number of entries, whatever is read and written
  through it, and what it returns is the value last written under the key, within the time it was
  written for.\<close>

theorem cache_bounded_and_fresh:
  assumes "0 < maxEntries"
  shows "length (cache_run maxEntries ops) \<le> maxEntries \<and>
    (fst (readExpiringCache (cache_run maxEntries ops) key now) = Some v \<longrightarrow>
      (\<exists>secs written. last_write key ops = Some (v, secs, written) \<and> now < written + secs * 1000))"
proof (intro conjI impI)
  show "length (cache_run maxEntries ops) \<le> maxEntries"
    using cache_run_length [of maxEntries ops] assms by simp
  assume read: "fst (readExpiringCache (cache_run maxEntries ops) key now) = Some v"
  obtain e where "map_of (pruneExpiredCacheEntries (cache_run maxEntries ops) now) key = Some e" "en_value e = v"
    using read by (auto simp: readExpiringCache_def Let_def)
  then have "map_of (cache_run maxEntries ops) key = Some e" "now < en_expiresAt e"
    by (auto simp: prune_lookup cache_run_distinct split: option.splits if_splits)
  then show "\<exists>secs written. last_write key ops = Some (v, secs, written) \<and> now < written + secs * 1000"
    using cache_run_fresh [of maxEntries ops key e] \<open>en_value e = v\<close> by fastforce
qed

definition sample_ops :: "nat cache_op list" where
  "sample_ops = [Write ''a'' 1 60 0, Write ''b'' 2 60 1, Write ''a'' 3 60 2, Write ''c'' 4 60 3]"

theorem cache_bounded_and_fresh_witness:
  "length (cache_run 2 sample_ops) \<le> 2 \<and>
   (\<exists>secs written. last_write ''b'' sample_ops = Some (2, secs, written) \<and> 60000 < written + secs * 1000)"
proof
  show "length (cache_run 2 sample_ops) \<le> 2" using cache_bounded_and_fresh [of 2 sample_ops] by simp
  have "fst (readExpiringCache (cache_run 2 sample_ops) ''b'' 60000) = Some 2" by code_simp
  then show "\<exists>secs written. last_write ''b'' sample_ops = Some (2, secs, written) \<and> 60000 < written + secs * 1000"
    using cache_bounded_and_fresh [of 2 sample_ops "''b''" 60000 2] by simp
qed

end
