(* ===== verification/Client_Assertion.thy ===== *)
theory Client_Assertion
  imports Client_Auth Tokens Expiring_Cache Store_Records
begin

text \<open>
  Clients known by a URL: the metadata document behind an identifier
  (\<open>auth/client-id-metadata-document.ts\<close>), the look-up of a client (\<open>auth/client-resolver.ts\<close>), and the
  signed assertion such a client authenticates with (\<open>auth/client-assertion.ts\<close>).  The three module
  variables \<open>metadataCache\<close>, \<open>jwksCache\<close> and \<open>replayCache\<close> are passed explicitly.  What answers over
  the network, the durable cache (\<open>metadataCacheStore\<close>) and the import of a JWK are a record of
  parameters; the instants at which the code reads the clock are arguments, in milliseconds.
\<close>

section \<open>The outside\<close>

record durable_cache =
  dc_read :: "string \<Rightarrow> string \<Rightarrow> (json \<times> int) option outcome"
  dc_write :: "string \<Rightarrow> string \<Rightarrow> json \<Rightarrow> int \<Rightarrow> unit outcome"

record 'p outside =
  xo_parseUrl :: url_parser
  xo_lookup :: "string \<Rightarrow> network_address list option"
  xo_fetch :: "url \<Rightarrow> network_address option \<Rightarrow> metadata_response outcome"
  xo_decodeUtf8 :: "string \<Rightarrow> string option"
  xo_durable :: "durable_cache option"
  xo_importJwk :: "string \<Rightarrow> string \<Rightarrow> 'p option"

definition nul :: char where "nul = CHR 0x00"

definition bool_text :: "bool \<Rightarrow> string" where
  "bool_text b = (if b then ''true'' else ''false'')"

definition fetchDocument :: "'p outside \<Rightarrow> url \<Rightarrow> network_address option \<Rightarrow> (json \<times> int) outcome" where
  "fetchDocument xo url address = bindr (xo_fetch xo url address) (fetchMetadataDocument (xo_decodeUtf8 xo))"

definition readDurable :: "'p outside \<Rightarrow> string \<Rightarrow> string \<Rightarrow> (json \<times> int) option outcome" where
  "readDurable xo namespace key = (case xo_durable xo of None \<Rightarrow> Inr None | Some d \<Rightarrow> dc_read d namespace key)"

definition writeDurableCache :: "'p outside \<Rightarrow> string \<Rightarrow> string \<Rightarrow> json \<Rightarrow> int \<Rightarrow> unit outcome" where
  "writeDurableCache xo namespace key body secs =
    (case xo_durable xo of None \<Rightarrow> Inr () | Some d \<Rightarrow> dc_write d namespace key body secs)"

definition cacheSecondsRemaining :: "int \<Rightarrow> int \<Rightarrow> int" where
  "cacheSecondsRemaining expiresAt now = max 0 (expiresAt - now div 1000)"

section \<open>Metadata documents and the look-up of a client\<close>

definition maximumMetadataCacheEntries :: nat where "maximumMetadataCacheEntries = 64"

definition metadataCacheKey :: "service_config \<Rightarrow> string \<Rightarrow> string" where
  "metadataCacheKey config cid = mcpResource config @ [nul] @ bool_text (production config) @ [nul] @ cid"

definition cachedMetadataClient ::
  "'p outside \<Rightarrow> service_config \<Rightarrow> string \<Rightarrow> string \<Rightarrow> json \<times> int \<Rightarrow> int \<Rightarrow> oauth_client cache \<Rightarrow> oauth_client outcome \<times> oauth_client cache" where
  "cachedMetadataClient xo config cid cacheKey entry later cache =
    (case parseMetadataClient (xo_parseUrl xo) config cid (Some (fst entry)) of
       Inl e \<Rightarrow> (Inl e, cache)
     | Inr client \<Rightarrow> (Inr client, writeExpiringCache cache cacheKey client (cacheSecondsRemaining (snd entry) later)
         maximumMetadataCacheEntries later))"

definition resolveClientIdMetadataDocument ::
  "'p outside \<Rightarrow> service_config \<Rightarrow> string \<Rightarrow> int \<Rightarrow> int \<Rightarrow> oauth_client cache \<Rightarrow> oauth_client outcome \<times> oauth_client cache" where
  "resolveClientIdMetadataDocument xo config cid now later cache =
    (case bindr (parseClientIdUrl (xo_parseUrl xo) cid (production config)) (\<lambda>url.
        bindr (resolveMetadataNetworkAddress (xo_lookup xo) url (production config)) (\<lambda>address. Inr (url, address))) of
       Inl e \<Rightarrow> (Inl e, cache)
     | Inr (url, address) \<Rightarrow>
         let cacheKey = metadataCacheKey config cid; (cached, pruned) = readExpiringCache cache cacheKey now in
         (case cached of Some client \<Rightarrow> (Inr client, pruned) | None \<Rightarrow>
         (case readDurable xo ''client-metadata'' cacheKey of
            Inl e \<Rightarrow> (Inl e, pruned)
          | Inr (Some entry) \<Rightarrow> cachedMetadataClient xo config cid cacheKey entry later pruned
          | Inr None \<Rightarrow>
              (case bindr (fetchDocument xo url address) (\<lambda>(body, secs).
                  bindr (parseMetadataClient (xo_parseUrl xo) config cid (Some body)) (\<lambda>client. Inr (client, body, secs))) of
                 Inl e \<Rightarrow> (Inl e, pruned)
               | Inr (client, body, secs) \<Rightarrow>
                   (bindr (writeDurableCache xo ''client-metadata'' cacheKey body secs) (\<lambda>_. Inr client),
                    writeExpiringCache pruned cacheKey client secs maximumMetadataCacheEntries later)))))"

definition resolveClient ::
  "'p outside \<Rightarrow> service_config \<Rightarrow> oauth_client list \<Rightarrow> string \<Rightarrow> int \<Rightarrow> int \<Rightarrow> oauth_client cache \<Rightarrow> oauth_client outcome \<times> oauth_client cache" where
  "resolveClient xo config clients cid now later cache = (case find (\<lambda>c. clientId c = cid) clients of
     Some client \<Rightarrow> (Inr client, cache)
   | None \<Rightarrow> if \<not> isUrlClientId (xo_parseUrl xo) cid then (Inl invalid_client_error, cache)
       else resolveClientIdMetadataDocument xo config cid now later cache)"

section \<open>The keys of a client\<close>

type_synonym 'p jwks = "(string \<times> 'p) list"

definition maximumClientJwksCacheEntries :: nat where "maximumClientJwksCacheEntries = 64"

definition assertionObject :: "json option \<Rightarrow> js_object outcome" where
  "assertionObject value = (case json_object value of None \<Rightarrow> Inl invalid_client_error | Some kvs \<Rightarrow> Inr kvs)"

definition safeString :: "json option \<Rightarrow> string outcome" where
  "safeString value = (case json_string value of
     None \<Rightarrow> Inl invalid_client_error
   | Some s \<Rightarrow> if 1 \<le> length s \<and> length s \<le> 256 \<and>
         list_all (\<lambda>c. is_alnum c \<or> c = CHR ''.'' \<or> c = CHR ''_'' \<or> c = CHR ''-'') s then Inr s else Inl invalid_client_error)"

definition numericDate :: "json option \<Rightarrow> int outcome" where
  "numericDate value = (case value of
     Some (JNum n) \<Rightarrow> if is_safe_integer n then Inr (integer_value n) else Inl invalid_client_error
   | _ \<Rightarrow> Inl invalid_client_error)"

definition strongClientJwksRsaKey :: "('s, 'p) crypto \<Rightarrow> 'p \<Rightarrow> bool" where
  "strongClientJwksRsaKey cr key = (case cr_rsaBits cr key of None \<Rightarrow> False | Some bits \<Rightarrow> 2048 \<le> bits)"

text \<open>\<open>key_ops\<close> is absent or an array with the text \<open>verify\<close>.\<close>

definition allowsVerify :: "json option \<Rightarrow> bool" where
  "allowsVerify value = (case value of None \<Rightarrow> True | Some (JArr ops) \<Rightarrow> List.member ops (JStr ''verify'') | Some _ \<Rightarrow> False)"

definition parseJwk :: "('s, 'p) crypto \<Rightarrow> 'p outside \<Rightarrow> json \<Rightarrow> (string \<times> 'p) outcome" where
  "parseJwk cr xo value = bindr (assertionObject (Some value)) (\<lambda>record.
     if field record ''kty'' \<noteq> Some (JStr ''RSA'') \<or> json_string (field record ''n'') = None \<or> json_string (field record ''e'') = None
     then Inl invalid_client_error
     else if field record ''use'' \<noteq> None \<and> field record ''use'' \<noteq> Some (JStr ''sig'') then Inl invalid_client_error
     else if field record ''alg'' \<noteq> None \<and> field record ''alg'' \<noteq> Some (JStr ''RS256'') then Inl invalid_client_error
     else if \<not> allowsVerify (field record ''key_ops'') then Inl invalid_client_error
     else bindr (safeString (field record ''kid'')) (\<lambda>kid.
       case xo_importJwk xo (the (json_string (field record ''n''))) (the (json_string (field record ''e''))) of
         None \<Rightarrow> Inl (PlainError ''Invalid JWK'')
       | Some key \<Rightarrow> if \<not> strongClientJwksRsaKey cr key then Inl invalid_client_error else Inr (kid, key)))"

fun parseJwkList :: "('s, 'p) crypto \<Rightarrow> 'p outside \<Rightarrow> 'p jwks \<Rightarrow> json list \<Rightarrow> 'p jwks outcome" where
  "parseJwkList cr xo keys [] = Inr keys"
| "parseJwkList cr xo keys (value # values) = bindr (parseJwk cr xo value) (\<lambda>(kid, key).
     if map_of keys kid \<noteq> None then Inl invalid_client_error
     else parseJwkList cr xo (AList.update kid key keys) values)"

definition parseJwks :: "('s, 'p) crypto \<Rightarrow> 'p outside \<Rightarrow> json \<Rightarrow> 'p jwks outcome" where
  "parseJwks cr xo body = bindr (assertionObject (Some body)) (\<lambda>record.
     case field record ''keys'' of
       Some (JArr values) \<Rightarrow> if values = [] then Inl invalid_client_error else parseJwkList cr xo [] values
     | _ \<Rightarrow> Inl invalid_client_error)"

definition jwksCacheKey :: "service_config \<Rightarrow> string \<Rightarrow> string" where
  "jwksCacheKey config uri = bool_text (production config) @ [nul] @ uri"

definition cachedJwks ::
  "('s, 'p) crypto \<Rightarrow> 'p outside \<Rightarrow> string \<Rightarrow> json \<times> int \<Rightarrow> int \<Rightarrow> 'p jwks cache \<Rightarrow> 'p jwks outcome \<times> 'p jwks cache" where
  "cachedJwks cr xo cacheKey entry later cache = (case parseJwks cr xo (fst entry) of
     Inl e \<Rightarrow> (Inl e, cache)
   | Inr keys \<Rightarrow> (Inr keys, writeExpiringCache cache cacheKey keys (cacheSecondsRemaining (snd entry) later)
       maximumClientJwksCacheEntries later))"

definition clientJwks ::
  "('s, 'p) crypto \<Rightarrow> 'p outside \<Rightarrow> service_config \<Rightarrow> string \<Rightarrow> int \<Rightarrow> int \<Rightarrow> 'p jwks cache \<Rightarrow> 'p jwks outcome \<times> 'p jwks cache" where
  "clientJwks cr xo config uri now later cache =
    (let cacheKey = jwksCacheKey config uri; (cached, pruned) = readExpiringCache cache cacheKey now in
     case cached of Some keys \<Rightarrow> (Inr keys, pruned) | None \<Rightarrow>
     (case readDurable xo ''client-jwks'' cacheKey of
        Inl e \<Rightarrow> (Inl e, pruned)
      | Inr (Some entry) \<Rightarrow> cachedJwks cr xo cacheKey entry later pruned
      | Inr None \<Rightarrow>
          (case bindr (newURL (xo_parseUrl xo) uri) (\<lambda>url.
              bindr (resolveMetadataNetworkAddress (xo_lookup xo) url (production config)) (\<lambda>address.
              bindr (fetchDocument xo url address) (\<lambda>(body, secs).
              bindr (parseJwks cr xo body) (\<lambda>keys. Inr (keys, body, secs))))) of
             Inl e \<Rightarrow> (Inl e, pruned)
           | Inr (keys, body, secs) \<Rightarrow>
               (bindr (writeDurableCache xo ''client-jwks'' cacheKey body secs) (\<lambda>_. Inr keys),
                writeExpiringCache pruned cacheKey keys secs maximumClientJwksCacheEntries later))))"

definition clientAssertionKey ::
  "('s, 'p) crypto \<Rightarrow> 'p outside \<Rightarrow> service_config \<Rightarrow> string \<Rightarrow> string \<Rightarrow> int \<Rightarrow> int \<Rightarrow> 'p jwks cache \<Rightarrow> 'p outcome \<times> 'p jwks cache" where
  "clientAssertionKey cr xo config uri assertion now later cache = (case jwtKid assertion of
     Inl e \<Rightarrow> (Inl e, cache)
   | Inr kid \<Rightarrow> let (keys, cache') = clientJwks cr xo config uri now later cache in
       (bindr keys (\<lambda>ks. case map_of ks kid of None \<Rightarrow> Inl invalid_client_error | Some key \<Rightarrow> Inr key), cache'))"

section \<open>The claims of an assertion\<close>

definition audienceMatches :: "service_config \<Rightarrow> json option \<Rightarrow> bool" where
  "audienceMatches config aud =
    (let accepted = [issuer config, issuer config @ ''/oauth/token''] in
     case aud of
       Some (JStr s) \<Rightarrow> List.member accepted s
     | Some (JArr vs) \<Rightarrow> list_ex (\<lambda>v. case json_string (Some v) of None \<Rightarrow> False | Some s \<Rightarrow> List.member accepted s) vs
     | _ \<Rightarrow> False)"

definition validateIssuedAt :: "int \<Rightarrow> int \<Rightarrow> unit outcome" where
  "validateIssuedAt iat now = (if iat > now + 60 \<or> iat < now - 300 - 60 then Inl invalid_client_error else Inr ())"

type_synonym replay_cache = "(string \<times> int) list"

definition replayKey :: "string \<Rightarrow> string \<Rightarrow> string" where
  "replayKey cid jti = cid @ [nul] @ jti"

definition rejectReplay :: "string \<Rightarrow> string \<Rightarrow> int \<Rightarrow> int \<Rightarrow> replay_cache \<Rightarrow> unit outcome \<times> replay_cache" where
  "rejectReplay cid jti expiry now cache =
    (let live = filter (\<lambda>(key, expiresAt). \<not> expiresAt \<le> now) cache; key = replayKey cid jti in
     if map_of live key \<noteq> None then (Inl invalid_client_error, live)
     else (Inr (), AList.update key (expiry + 60) live))"

definition validateAssertionClaims ::
  "service_config \<Rightarrow> oauth_client \<Rightarrow> js_object \<Rightarrow> int \<Rightarrow> replay_cache \<Rightarrow> unit outcome \<times> replay_cache" where
  "validateAssertionClaims config client claims now cache =
    (case
       if field claims ''iss'' \<noteq> Some (JStr (clientId client)) \<or> field claims ''sub'' \<noteq> Some (JStr (clientId client))
       then Inl invalid_client_error
       else if \<not> audienceMatches config (field claims ''aud'') then Inl invalid_client_error
       else bindr (numericDate (field claims ''exp'')) (\<lambda>expiry.
         if expiry \<le> now - 60 \<or> expiry > now + 300 + 60 then Inl invalid_client_error
         else bindr (if field claims ''nbf'' = None then Inr () else bindr (numericDate (field claims ''nbf'')) (\<lambda>nbf.
             if nbf > now + 60 then Inl invalid_client_error else Inr ())) (\<lambda>_.
           bindr (if field claims ''iat'' = None then Inr () else bindr (numericDate (field claims ''iat'')) (\<lambda>iat.
             validateIssuedAt iat now)) (\<lambda>_.
           bindr (safeString (field claims ''jti'')) (\<lambda>jti. Inr (jti, expiry)))))
     of Inl e \<Rightarrow> (Inl e, cache)
      | Inr (jti, expiry) \<Rightarrow> rejectReplay (clientId client) jti expiry now cache)"

text \<open>\<open>validateAssertionClaims(config, client, verifyJwt(assertion, key))\<close>, which runs without a pause.\<close>

definition checkAssertion ::
  "('s, 'p) crypto \<Rightarrow> service_config \<Rightarrow> oauth_client \<Rightarrow> string \<Rightarrow> 'p \<Rightarrow> int \<Rightarrow> replay_cache \<Rightarrow> unit outcome \<times> replay_cache" where
  "checkAssertion cr config client assertion key now cache = (case verifyJwt cr assertion key of
     Inl e \<Rightarrow> (Inl e, cache)
   | Inr claims \<Rightarrow> validateAssertionClaims config client claims now cache)"

record 'p assertion_caches =
  replayCache :: replay_cache
  jwksCache :: "'p jwks cache"

definition as_invalid_client :: "js_error \<Rightarrow> js_error" where
  "as_invalid_client error = (case as_service_error error of
     Some (Invalid_client, message, status) \<Rightarrow> error | _ \<Rightarrow> invalid_client_error)"

text \<open>\<open>now\<close> and \<open>later\<close> are the instants of the two cache accesses, \<open>check\<close> that of the check.\<close>

definition assertPrivateKeyJwtClientAssertion ::
  "('s, 'p) crypto \<Rightarrow> 'p outside \<Rightarrow> service_config \<Rightarrow> oauth_client \<Rightarrow> string option \<Rightarrow> int \<times> int \<times> int \<Rightarrow> 'p assertion_caches \<Rightarrow>
     unit outcome \<times> 'p assertion_caches" where
  "assertPrivateKeyJwtClientAssertion cr xo config client assertion instants caches =
    (let (now, later, check) = instants in
     if blank_text assertion \<or> blank_text (jwksUri client) then (Inl invalid_client_error, caches)
     else let (key, jwks) = clientAssertionKey cr xo config (the (jwksUri client)) (the assertion) now later (jwksCache caches) in
       (case key of
          Inl e \<Rightarrow> (Inl (as_invalid_client e), caches \<lparr> jwksCache := jwks \<rparr>)
        | Inr k \<Rightarrow> let (r, replay) = checkAssertion cr config client (the assertion) k (check div 1000) (replayCache caches) in
            (try_catch r (\<lambda>e. Inl (as_invalid_client e)), caches \<lparr> jwksCache := jwks, replayCache := replay \<rparr>)))"

end
