(* ===== verification/Grants.thy ===== *)
theory Grants
  imports Client_Assertion Disk_Runs
begin

text \<open>
  The token endpoint's grants: \<open>auth/token.ts\<close>, \<open>auth/tokens/authorization-code.ts\<close> and
  \<open>auth/tokens/refresh-token.ts\<close>, over the interface \<open>OAuthStore\<close> (\<open>auth/storage/oauth-store.ts\<close>).
  A store is a function from an operation, the time and a state to a result and a state, as
  \<open>disk_apply\<close> is for the file store; what the grants need of it are the laws of the locale
  \<open>grant_store\<close>, which the file store satisfies.  Random values and clock readings are arguments.
\<close>

section \<open>Calls that return a result and a state\<close>

definition andThen :: "'a outcome \<times> 's \<Rightarrow> ('a \<Rightarrow> 's \<Rightarrow> 'b outcome \<times> 't) \<Rightarrow> ('s \<Rightarrow> 't) \<Rightarrow> 'b outcome \<times> 't" where
  "andThen r f up = (case r of (Inl e, s) \<Rightarrow> (Inl e, up s) | (Inr x, s) \<Rightarrow> f x s)"

lemma andThen_eq_Inr: "andThen r f up = (Inr y, t) \<longleftrightarrow> (\<exists>x s. r = (Inr x, s) \<and> f x s = (Inr y, t))"
  by (auto simp: andThen_def split: prod.splits sum.splits)

section \<open>The store interface\<close>

type_synonym 's oauth_store = "disk_event \<Rightarrow> int \<Rightarrow> 's \<Rightarrow> disk_result \<times> 's"

definition unexpected_result :: js_error where "unexpected_result = PlainError ''unexpected store result''"

definition storeConsumeCode ::
  "'s oauth_store \<Rightarrow> string \<Rightarrow> string option \<Rightarrow> auth_code_expectation \<Rightarrow> int \<Rightarrow> 's \<Rightarrow> auth_code_record outcome \<times> 's" where
  "storeConsumeCode store authCode verifier expected now st = (case store (ConsumeCode authCode verifier expected) now st of
     (Code r, st') \<Rightarrow> (Inr r, st') | (Threw e, st') \<Rightarrow> (Inl e, st') | (_, st') \<Rightarrow> (Inl unexpected_result, st'))"

definition storeCreate :: "'s oauth_store \<Rightarrow> disk_event \<Rightarrow> string \<Rightarrow> int \<Rightarrow> 's \<Rightarrow> string outcome \<times> 's" where
  "storeCreate store event token now st = (case store event now st of
     (Done, st') \<Rightarrow> (Inr token, st') | (Threw e, st') \<Rightarrow> (Inl e, st') | (_, st') \<Rightarrow> (Inl unexpected_result, st'))"

definition rotateRefreshToken ::
  "'s oauth_store \<Rightarrow> string \<Rightarrow> string \<Rightarrow> int \<Rightarrow> string option \<Rightarrow> string list option \<Rightarrow> string \<Rightarrow> int \<Rightarrow> 's \<Rightarrow>
     (refresh_token_record \<times> string) outcome \<times> 's" where
  "rotateRefreshToken store token cid ttl expectedResource allowed newToken now st =
    (case store (Rotate token cid ttl expectedResource allowed newToken) now st of
       (Rotation Reused, st') \<Rightarrow> (Inl invalid_grant_error, st')
     | (Rotation (Rotated old new), st') \<Rightarrow> (Inr (old, new), st')
     | (Threw e, st') \<Rightarrow> (Inl e, st')
     | (_, st') \<Rightarrow> (Inl unexpected_result, st'))"

section \<open>The two grants\<close>

record token_draws =
  td_refreshToken :: string
  td_family :: string
  td_jti :: string
  td_storeAt :: int
  td_createAt :: int
  td_issueAt :: int
  td_instants :: "int \<times> int \<times> int"

definition requestedResource :: "url_parser \<Rightarrow> oauth_client \<Rightarrow> params \<Rightarrow> string outcome" where
  "requestedResource parse_url client form =
     bindr (optionalParameter form ''resource'') (resolveOAuthGrantResource parse_url client)"

definition authorizationCodeGrant ::
  "url_parser \<Rightarrow> ('k, 'p) crypto \<Rightarrow> 's oauth_store \<Rightarrow> service_config \<Rightarrow> oauth_client \<Rightarrow> params \<Rightarrow> ('k, 'p) signing_key outcome \<Rightarrow>
     token_draws \<Rightarrow> 's \<Rightarrow> token_response outcome \<times> 's" where
  "authorizationCodeGrant parse_url cr store config client form signing draws st =
    (case bindr (requiredParameter form ''code'') (\<lambda>authCode.
        bindr (requiredParameter form ''redirect_uri'') (\<lambda>redirectUri.
        bindr (requestedResource parse_url client form) (\<lambda>resource.
        bindr (optionalParameter form ''code_verifier'') (\<lambda>verifier. Inr (authCode, redirectUri, resource, verifier))))) of
       Inl e \<Rightarrow> (Inl e, st)
     | Inr (authCode, redirectUri, resource, verifier) \<Rightarrow>
         andThen (storeConsumeCode store authCode verifier
             \<lparr> ce_clientId = clientId client, ce_redirectUri = redirectUri, ce_resource = Some resource,
               ce_allowedResources = Some (allowedResources client), ce_allowedScopes = Some (allowedScopes client) \<rparr>
             (td_storeAt draws) st) (\<lambda>record st1.
         andThen (storeCreate store (CreateRefresh (td_refreshToken draws) (td_family draws)
             \<lparr> ri_clientId = clientId client, ri_user = ac_user record, ri_resource = resource, ri_scopes = ac_scopes record,
               ri_authTime = ac_authTime record, ri_ttlSeconds = refreshTokenTtlSeconds config \<rparr>)
             (td_refreshToken draws) (td_createAt draws) st1) (\<lambda>refreshToken st2.
           (bindr signing (\<lambda>key. Inr (issueTokenResponse cr config key (td_issueAt draws) (td_jti draws)
             \<lparr> ti_clientId = clientId client, ti_resource = resource, ti_scopes = ac_scopes record, ti_refreshToken = refreshToken,
               ti_authTime = ac_authTime record, ti_user = ac_user record, ti_nonce = ac_nonce record \<rparr>)), st2)) id) id)"

definition refreshTokenGrant ::
  "url_parser \<Rightarrow> ('k, 'p) crypto \<Rightarrow> 's oauth_store \<Rightarrow> service_config \<Rightarrow> oauth_client \<Rightarrow> params \<Rightarrow> ('k, 'p) signing_key outcome \<Rightarrow>
     token_draws \<Rightarrow> 's \<Rightarrow> token_response outcome \<times> 's" where
  "refreshTokenGrant parse_url cr store config client form signing draws st =
    (case bindr (requiredParameter form ''refresh_token'') (\<lambda>token.
        bindr (requestedResource parse_url client form) (\<lambda>resource. Inr (token, resource))) of
       Inl e \<Rightarrow> (Inl e, st)
     | Inr (token, resource) \<Rightarrow>
         andThen (rotateRefreshToken store token (clientId client) (refreshTokenTtlSeconds config) (Some resource)
             (Some (allowedResources client)) (td_refreshToken draws) (td_storeAt draws) st) (\<lambda>(old, newToken) st1.
           (bindr signing (\<lambda>key. Inr (issueTokenResponse cr config key (td_issueAt draws) (td_jti draws)
             \<lparr> ti_clientId = clientId client, ti_resource = rt_resource old, ti_scopes = rt_scopes old, ti_refreshToken = newToken,
               ti_authTime = rt_authTime old, ti_user = rt_user old, ti_nonce = None \<rparr>)), st1)) id)"

section \<open>The token request\<close>

definition tokenParameters :: "string list" where
  "tokenParameters = [''grant_type'', ''client_id'', ''client_secret'', ''client_assertion_type'', ''client_assertion'', ''code'',
     ''redirect_uri'', ''code_verifier'', ''resource'', ''refresh_token'']"

definition tokenGrantParameters :: "string option \<Rightarrow> string list" where
  "tokenGrantParameters grant =
    (let authParameters = [''client_id'', ''client_secret'', ''client_assertion_type'', ''client_assertion''] in
     if grant = Some ''authorization_code'' then [''grant_type''] @ authParameters @ [''code'', ''redirect_uri'', ''code_verifier'', ''resource'']
     else if grant = Some ''refresh_token'' then [''grant_type''] @ authParameters @ [''refresh_token'', ''resource'']
     else [''grant_type''] @ authParameters)"

record ('s, 'p) auth_state =
  au_store :: 's
  au_metadata :: "oauth_client cache"
  au_assertions :: "'p assertion_caches"

text \<open>The three checks between the look-up of the client and the dispatch on the grant.\<close>

definition authenticateClient ::
  "('k, 'p) crypto \<Rightarrow> 'p outside \<Rightarrow> service_config \<Rightarrow> oauth_client \<Rightarrow> client_credentials \<Rightarrow> int \<times> int \<times> int \<Rightarrow> 'p assertion_caches \<Rightarrow>
     unit outcome \<times> 'p assertion_caches" where
  "authenticateClient cr xo config client credentials instants caches =
    (case bindr (assertClientAuthMethod client (cc_method credentials)) (\<lambda>_.
        if cc_method credentials = Client_secret_post \<or> cc_method credentials = Client_secret_basic
        then assertClientSecret (cr_sha256 cr) client (cc_clientSecret credentials) else Inr ()) of
       Inl e \<Rightarrow> (Inl e, caches)
     | Inr u \<Rightarrow> if cc_method credentials = Private_key_jwt
         then assertPrivateKeyJwtClientAssertion cr xo config client (cc_clientAssertion credentials) instants caches
         else (Inr (), caches))"

definition unsupported_grant_error :: js_error where
  "unsupported_grant_error = ServiceError Unsupported_grant_type ''unsupported grant_type'' 400"

definition dispatchGrant ::
  "url_parser \<Rightarrow> ('k, 'p) crypto \<Rightarrow> 's oauth_store \<Rightarrow> service_config \<Rightarrow> oauth_client \<Rightarrow> string option \<Rightarrow> params \<Rightarrow>
     ('k, 'p) signing_key outcome \<Rightarrow> token_draws \<Rightarrow> 's \<Rightarrow> token_response outcome \<times> 's" where
  "dispatchGrant parse_url cr store config client grant form signing draws st =
    (if grant = Some ''authorization_code'' then authorizationCodeGrant parse_url cr store config client form signing draws st
     else if grant = Some ''refresh_token'' then refreshTokenGrant parse_url cr store config client form signing draws st
     else (Inl unsupported_grant_error, st))"

definition handleTokenGrant ::
  "('k, 'p) crypto \<Rightarrow> 'p outside \<Rightarrow> 's oauth_store \<Rightarrow> service_config \<Rightarrow> oauth_client list \<Rightarrow> params \<Rightarrow> string option \<Rightarrow>
     ('k, 'p) signing_key outcome \<Rightarrow> token_draws \<Rightarrow> ('s, 'p) auth_state \<Rightarrow> token_response outcome \<times> ('s, 'p) auth_state" where
  "handleTokenGrant cr xo store config clients form authorization signing draws s =
    (case bindr (assertAllowedParameters form tokenParameters) (\<lambda>_.
        bindr (optionalParameter form ''grant_type'') (\<lambda>grant.
        bindr (assertAllowedParameters form (tokenGrantParameters grant)) (\<lambda>_.
        bindr (readClientCredentials form authorization) (\<lambda>credentials. Inr (grant, credentials))))) of
       Inl e \<Rightarrow> (Inl e, s)
     | Inr (grant, credentials) \<Rightarrow>
         let (now, later, check) = td_instants draws in
         andThen (resolveClient xo config clients (cc_clientId credentials) now later (au_metadata s)) (\<lambda>client metadata.
         andThen (authenticateClient cr xo config client credentials (td_instants draws) (au_assertions s)) (\<lambda>_ assertions.
         andThen (dispatchGrant (xo_parseUrl xo) cr store config client grant form signing draws (au_store s)) (\<lambda>response st.
           (Inr response, \<lparr> au_store = st, au_metadata = metadata, au_assertions = assertions \<rparr>))
           (\<lambda>st. \<lparr> au_store = st, au_metadata = metadata, au_assertions = assertions \<rparr>))
           (\<lambda>assertions. s \<lparr> au_metadata := metadata, au_assertions := assertions \<rparr>))
           (\<lambda>metadata. s \<lparr> au_metadata := metadata \<rparr>))"

section \<open>What the grants rely on\<close>

text \<open>What a code, respectively a refresh token, must be for a token request of a client.\<close>

definition code_grant_ok :: "(string \<Rightarrow> string) \<Rightarrow> oauth_client \<Rightarrow> params \<Rightarrow> int \<Rightarrow> auth_code_record \<Rightarrow> bool" where
  "code_grant_ok sha client form now r = (ac_clientId r = clientId client \<and> get_param form ''redirect_uri'' = Some (ac_redirectUri r) \<and>
     ac_resource r \<in> set (allowedResources client) \<and> set (ac_scopes r) \<subseteq> set (allowedScopes client) \<and>
     \<not> truthy_time (ac_consumedAt r) \<and> now < ac_expiresAt r \<and>
     (\<forall>ch. ac_codeChallenge r = Some ch \<longrightarrow> ch \<noteq> [] \<longrightarrow>
        (\<exists>v. get_param form ''code_verifier'' = Some v \<and> is_pkce_value v \<and> sha v = ch)))"

definition refresh_grant_ok :: "oauth_client \<Rightarrow> int \<Rightarrow> refresh_token_record \<Rightarrow> bool" where
  "refresh_grant_ok client now r = (rt_clientId r = clientId client \<and> rt_resource r \<in> set (allowedResources client) \<and>
     \<not> truthy_time (rt_revokedAt r) \<and> now < rt_expiresAt r)"

lemma optionalParameter_get: "optionalParameter form key = Inr v \<Longrightarrow> get_param form key = v"
proof -
  have "get_param form key = (case getAll form key of [] \<Rightarrow> None | v # vs \<Rightarrow> Some v)"
    by (induction form) (auto simp: get_param_def getAll_def)
  moreover assume "optionalParameter form key = Inr v"
  ultimately show ?thesis
    by (auto simp: optionalParameter_def split: list.splits)
qed

lemma requiredParameter_get: "requiredParameter form key = Inr v \<Longrightarrow> get_param form key = Some v \<and> v \<noteq> []"
  by (auto simp: requiredParameter_def bindr_eq_Inr dest!: optionalParameter_get split: if_splits)

lemma requestedResource_allowed:
  assumes "requestedResource parse_url client form = Inr r" shows "r \<in> set (allowedResources client)"
proof -
  have found: "findAllowedResource parse_url c rs = Inr (Some x) \<Longrightarrow> x \<in> set rs" for c rs x
    by (induction rs) (auto simp: bindr_eq_Inr split: if_splits)
  show ?thesis
    using assms by (auto simp: requestedResource_def bindr_eq_Inr resolveOAuthGrantResource_def resolveAllowedResource_def
        split: if_splits intro: found)
qed

locale grant_store =
  fixes store :: "'s oauth_store" and sha :: "string \<Rightarrow> string"
    and code_at :: "'s \<Rightarrow> string \<Rightarrow> auth_code_record option"
    and refresh_at :: "'s \<Rightarrow> string \<Rightarrow> refresh_token_record option"
  assumes consume_law: "store (ConsumeCode c v x) now st = (Code r, st') \<Longrightarrow>
      \<exists>r0. code_at st (sha c) = Some r0 \<and> consumable sha v x now r0 \<and> r = r0 \<lparr> ac_consumedAt := Some now \<rparr> \<and> code_at st' (sha c) = Some r"
    and create_law: "store (CreateRefresh t f i) now st = (Done, st') \<Longrightarrow>
      code_at st' = code_at st \<and> (\<exists>r. refresh_at st' (sha t) = Some r \<and> rt_familyId r = f \<and> rt_clientId r = ri_clientId i \<and>
        rt_user r = ri_user i \<and> rt_resource r = ri_resource i \<and> rt_scopes r = ri_scopes i \<and> rt_authTime r = ri_authTime i \<and>
        rt_expiresAt r = now + ri_ttlSeconds i \<and> rt_revokedAt r = None)"
    and rotate_law: "store (Rotate t cid ttl er ar n) now st = (Rotation (Rotated old m), st') \<Longrightarrow> m = n \<and>
      (\<exists>old0. refresh_at st (sha t) = Some old0 \<and> rotatable cid er ar now old0 \<and> old = old0 \<lparr> rt_lastUsedAt := Some now \<rparr> \<and>
        refresh_at st' (sha n) = Some (successor sha t ttl now n old0))"
begin

lemma code_grant:
  assumes "authorizationCodeGrant parse_url cr store config client form signing draws st = (Inr response, st')"
  shows "\<exists>authCode r key. get_param form ''code'' = Some authCode \<and> code_at st (sha authCode) = Some r \<and>
    code_grant_ok sha client form (td_storeAt draws) r \<and> signing = Inr key \<and>
    response = issueTokenResponse cr config key (td_issueAt draws) (td_jti draws)
      \<lparr> ti_clientId = clientId client, ti_resource = ac_resource r, ti_scopes = ac_scopes r, ti_refreshToken = td_refreshToken draws,
        ti_authTime = ac_authTime r, ti_user = ac_user r, ti_nonce = ac_nonce r \<rparr> \<and>
    code_at st' (sha authCode) = Some (r \<lparr> ac_consumedAt := Some (td_storeAt draws) \<rparr>) \<and>
    (\<exists>n. refresh_at st' (sha (td_refreshToken draws)) = Some n \<and> rt_clientId n = clientId client \<and> rt_user n = ac_user r \<and>
       rt_resource n = ac_resource r \<and> rt_scopes n = ac_scopes r \<and> rt_authTime n = ac_authTime r)"
proof -
  obtain authCode uri resource verifier where p: "requiredParameter form ''code'' = Inr authCode" "requiredParameter form ''redirect_uri'' = Inr uri"
      "requestedResource parse_url client form = Inr resource" "optionalParameter form ''code_verifier'' = Inr verifier"
    using assms by (auto simp: authorizationCodeGrant_def bindr_eq_Inr split: sum.splits prod.splits)
  define x where "x = \<lparr> ce_clientId = clientId client, ce_redirectUri = uri, ce_resource = Some resource,
    ce_allowedResources = Some (allowedResources client), ce_allowedScopes = Some (allowedScopes client) \<rparr>"
  obtain r1 st1 t st2 key where consume: "storeConsumeCode store authCode verifier x (td_storeAt draws) st = (Inr r1, st1)"
      and create: "storeCreate store (CreateRefresh (td_refreshToken draws) (td_family draws)
             \<lparr> ri_clientId = clientId client, ri_user = ac_user r1, ri_resource = resource, ri_scopes = ac_scopes r1,
               ri_authTime = ac_authTime r1, ri_ttlSeconds = refreshTokenTtlSeconds config \<rparr>)
             (td_refreshToken draws) (td_createAt draws) st1 = (Inr t, st2)"
      and key: "signing = Inr key" and st': "st' = st2"
      and response: "response = issueTokenResponse cr config key (td_issueAt draws) (td_jti draws)
             \<lparr> ti_clientId = clientId client, ti_resource = resource, ti_scopes = ac_scopes r1, ti_refreshToken = t,
               ti_authTime = ac_authTime r1, ti_user = ac_user r1, ti_nonce = ac_nonce r1 \<rparr>"
    using assms unfolding authorizationCodeGrant_def p bindr_Inr sum.case prod.case andThen_eq_Inr x_def [symmetric]
    by (auto simp: bindr_eq_Inr)
  have "store (ConsumeCode authCode verifier x) (td_storeAt draws) st = (Code r1, st1)"
    using consume by (auto simp: storeConsumeCode_def split: prod.splits disk_result.splits)
  from consume_law [OF this] obtain r where r: "code_at st (sha authCode) = Some r" "consumable sha verifier x (td_storeAt draws) r"
    "r1 = r \<lparr> ac_consumedAt := Some (td_storeAt draws) \<rparr>" "code_at st1 (sha authCode) = Some r1" by blast
  have t: "t = td_refreshToken draws" and "store (CreateRefresh (td_refreshToken draws) (td_family draws)
             \<lparr> ri_clientId = clientId client, ri_user = ac_user r1, ri_resource = resource, ri_scopes = ac_scopes r1,
               ri_authTime = ac_authTime r1, ri_ttlSeconds = refreshTokenTtlSeconds config \<rparr>) (td_createAt draws) st1 = (Done, st2)"
    using create by (auto simp: storeCreate_def split: prod.splits disk_result.splits)
  note created = create_law [OF this(2)]
  have "resource = ac_resource r" using r(2) by (simp add: consumable_def x_def)
  then show ?thesis
    using r key response st' t created p requestedResource_allowed [OF p(3)]
    by (auto simp: code_grant_ok_def consumable_def x_def dest!: requiredParameter_get optionalParameter_get)
qed

lemma refresh_grant:
  assumes "refreshTokenGrant parse_url cr store config client form signing draws st = (Inr response, st')"
  shows "\<exists>token r key. get_param form ''refresh_token'' = Some token \<and> refresh_at st (sha token) = Some r \<and>
    refresh_grant_ok client (td_storeAt draws) r \<and> signing = Inr key \<and>
    response = issueTokenResponse cr config key (td_issueAt draws) (td_jti draws)
      \<lparr> ti_clientId = clientId client, ti_resource = rt_resource r, ti_scopes = rt_scopes r, ti_refreshToken = td_refreshToken draws,
        ti_authTime = rt_authTime r, ti_user = rt_user r, ti_nonce = None \<rparr> \<and>
    refresh_at st' (sha (td_refreshToken draws)) =
      Some (successor sha token (refreshTokenTtlSeconds config) (td_storeAt draws) (td_refreshToken draws) r)"
proof -
  obtain token resource where p: "requiredParameter form ''refresh_token'' = Inr token" "requestedResource parse_url client form = Inr resource"
    using assms by (auto simp: refreshTokenGrant_def bindr_eq_Inr split: sum.splits prod.splits)
  obtain old t key where rotated: "rotateRefreshToken store token (clientId client) (refreshTokenTtlSeconds config) (Some resource)
             (Some (allowedResources client)) (td_refreshToken draws) (td_storeAt draws) st = (Inr (old, t), st')"
      and key: "signing = Inr key"
      and response: "response = issueTokenResponse cr config key (td_issueAt draws) (td_jti draws)
             \<lparr> ti_clientId = clientId client, ti_resource = rt_resource old, ti_scopes = rt_scopes old, ti_refreshToken = t,
               ti_authTime = rt_authTime old, ti_user = rt_user old, ti_nonce = None \<rparr>"
    using assms unfolding refreshTokenGrant_def p bindr_Inr sum.case prod.case andThen_eq_Inr
    by (auto simp: bindr_eq_Inr split: prod.splits)
  have "store (Rotate token (clientId client) (refreshTokenTtlSeconds config) (Some resource)
             (Some (allowedResources client)) (td_refreshToken draws)) (td_storeAt draws) st = (Rotation (Rotated old t), st')"
    using rotated by (auto simp: rotateRefreshToken_def split: prod.splits disk_result.splits rotation.splits)
  note law = rotate_law [OF this]
  then show ?thesis
    using key response p by (auto simp: refresh_grant_ok_def rotatable_def dest!: requiredParameter_get)
qed

end

interpretation disk_grants: grant_store "disk_apply sha" sha
  "\<lambda>st h. map_of (authorizationCodes st) h" "\<lambda>st h. map_of (refreshTokens st) h" for sha
proof unfold_locales
  fix c v x now st r st'
  assume ap: "disk_apply sha (ConsumeCode c v x) now st = (Code r, st')"
  show "\<exists>r0. map_of (authorizationCodes st) (sha c) = Some r0 \<and> consumable sha v x now r0 \<and>
      r = r0 \<lparr> ac_consumedAt := Some now \<rparr> \<and> map_of (authorizationCodes st') (sha c) = Some r"
    using apply_code [OF ap] apply_codes [OF ap, of "sha c"] by auto
next
  fix t f i now st st'
  assume ap: "disk_apply sha (CreateRefresh t f i) now st = (Done, st')"
  have "map_of (authorizationCodes st') = map_of (authorizationCodes st)"
    using apply_codes [OF ap] by (simp add: fun_eq_iff)
  moreover have "map_of (refreshTokens st') (sha t) = map_of (refreshTokens (createRefreshToken sha t now f i st)) (sha t)"
    using apply_refresh [OF ap, of "sha t"] by simp
  ultimately show "(\<lambda>h. map_of (authorizationCodes st') h) = (\<lambda>h. map_of (authorizationCodes st) h) \<and>
      (\<exists>r. map_of (refreshTokens st') (sha t) = Some r \<and> rt_familyId r = f \<and> rt_clientId r = ri_clientId i \<and>
        rt_user r = ri_user i \<and> rt_resource r = ri_resource i \<and> rt_scopes r = ri_scopes i \<and> rt_authTime r = ri_authTime i \<and>
        rt_expiresAt r = now + ri_ttlSeconds i \<and> rt_revokedAt r = None)"
    by (simp add: createRefreshToken_def)
next
  fix t cid ttl er ar n now st old m st'
  assume ap: "disk_apply sha (Rotate t cid ttl er ar n) now st = (Rotation (Rotated old m), st')"
  obtain od where od: "map_of (refreshTokens st) (sha t) = Some od" "rotatable cid er ar now od"
    "Rotated old m = (if is_rotated (sha t) (refreshTokens st) then Reused else Rotated (od \<lparr> rt_lastUsedAt := Some now \<rparr>) n)"
    by (rule apply_rotation [OF ap])
  then have "old = od \<lparr> rt_lastUsedAt := Some now \<rparr>" "m = n" by (auto split: if_splits)
  then show "m = n \<and> (\<exists>old0. map_of (refreshTokens st) (sha t) = Some old0 \<and> rotatable cid er ar now old0 \<and>
      old = old0 \<lparr> rt_lastUsedAt := Some now \<rparr> \<and> map_of (refreshTokens st') (sha n) = Some (successor sha t ttl now n old0))"
    using od apply_refresh [OF ap, of "sha n"] by auto
qed

end
