(* ===== verification/Token_Properties.thy ===== *)
theory Token_Properties
  imports Tokens
begin

text \<open>
  What the tokens guarantee: an issued access token verifies to its claims, an accepted one was signed
  by a key of the key set, is for this issuer and audience, current, and carries the scopes asked
  for; an id token is never taken for an access token; several audiences are tried as a union; the
  cached key set is the one a fresh computation gives.
\<close>

section \<open>Parts of a token\<close>

definition signs_for :: "('s, 'p) crypto \<Rightarrow> ('s, 'p) signing_key \<Rightarrow> bool" where
  "signs_for cr key = (\<forall>text. cr_verify cr (sk_publicKey key) text (cr_sign cr (sk_privateKey key) text) \<and>
     cr_sign cr (sk_privateKey key) text \<noteq> [] \<and> CHR ''.'' \<notin> set (cr_sign cr (sk_privateKey key) text))"

lemma encoded_json:
  "CHR ''.'' \<notin> set (encodeJsonBase64Url v)" "printable v \<Longrightarrow> encodeJsonBase64Url v \<noteq> []"
  by (simp_all add: encodeJsonBase64Url_def encoded_no_dot json_text_not_Nil del: json_text.simps)

lemma jwt_header_printable: "printable (jwt_header kid)"
  by (simp add: jwt_header_def)

lemma jwt_header_kid: "is_key_id kid \<Longrightarrow> jwtHeaderKid (jwt_header kid) = Some kid"
  by (simp add: jwtHeaderKid_def jwt_header_def)

lemma decode_encoded: "printable v \<Longrightarrow> decodeJwtJson (encodeJsonBase64Url v) reason = Inr v"
  by (simp add: decodeJwtJson_def json_base64_round_trip)

lemma split_signed:
  assumes "CHR ''.'' \<notin> set s"
  shows "split_on CHR ''.'' (encodeJsonBase64Url h @ CHR ''.'' # encodeJsonBase64Url p @ CHR ''.'' # s) =
    [encodeJsonBase64Url h, encodeJsonBase64Url p, s]"
  using assms by (simp add: split_on_append split_on_absent encoded_json)

text \<open>Whatever the signature looks like, a token of three parts starts with its own header and payload.\<close>

lemma split_on_no_sep: "length (split_on c s) = 1 \<longleftrightarrow> c \<notin> set s"
proof (induction s)
  case (Cons x s)
  then show ?case by (auto split: list.splits simp: length_Suc_conv)
qed simp

lemma jwtParts_signed:
  assumes "jwtParts (signJwt cr payload kid key) = Inr (h, p, s)"
  shows "h = encodeJsonBase64Url (jwt_header kid)" "p = encodeJsonBase64Url payload"
  using assms by (auto simp: jwtParts_def signJwt_def Let_def split_on_append encoded_json split: if_splits list.splits)

lemma verify_signed:
  assumes "signs_for cr key" "is_key_id (sk_kid key)" "printable (JObj kvs)"
    "length (signJwt cr (JObj kvs) (sk_kid key) (sk_privateKey key)) \<le> maxJwtLength"
  shows "readKid (signJwt cr (JObj kvs) (sk_kid key) (sk_privateKey key)) = Inr (sk_kid key)"
    "readPayload cr (signJwt cr (JObj kvs) (sk_kid key) (sk_privateKey key)) (sk_publicKey key) = Inr kvs"
proof -
  let ?h = "encodeJsonBase64Url (jwt_header (sk_kid key))" and ?p = "encodeJsonBase64Url (JObj kvs)"
  let ?s = "cr_sign cr (sk_privateKey key) (?h @ ''.'' @ ?p)"
  have parts: "jwtParts (signJwt cr (JObj kvs) (sk_kid key) (sk_privateKey key)) = Inr (?h, ?p, ?s)"
    using assms split_signed [of ?s "jwt_header (sk_kid key)" "JObj kvs"] encoded_json(2) [OF assms(3)]
      encoded_json(2) [OF jwt_header_printable]
    by (simp add: jwtParts_def signJwt_def Let_def signs_for_def)
  note header = decode_encoded [OF jwt_header_printable] and payload = decode_encoded [OF assms(3)]
  show "readKid (signJwt cr (JObj kvs) (sk_kid key) (sk_privateKey key)) = Inr (sk_kid key)"
    using assms(2) by (simp add: readKid_def jwtKid_def parts header jwt_header_kid)
  show "readPayload cr (signJwt cr (JObj kvs) (sk_kid key) (sk_privateKey key)) (sk_publicKey key) = Inr kvs"
    using assms(1,2) by (simp add: readPayload_def verifyJwt_def parts header payload jwt_header_kid signs_for_def)
qed

section \<open>Scopes in a claim\<close>

lemma words_acc_word: "list_all (\<lambda>c. \<not> is_ws c) w \<Longrightarrow> words_acc acc (w @ s) = words_acc (rev w @ acc) s"
  by (induction w arbitrary: acc) auto

lemma words_joined:
  "list_all (\<lambda>w. w \<noteq> [] \<and> list_all (\<lambda>c. \<not> is_ws c) w) ws \<Longrightarrow> words_acc [] (join_with '' '' ws) = ws"
proof (induction ws rule: induct_list012)
  case (2 w)
  then show ?case using words_acc_word [of w "[]" "[]"] by simp
next
  case (3 w v ws)
  have "is_ws CHR '' ''" by code_simp
  with 3 words_acc_word [of w "[]" "CHR '' '' # join_with '' '' (v # ws)"] show ?case by simp
qed simp

lemma scope_char_not_ws: "is_scope_char c \<Longrightarrow> \<not> is_ws c"
  by (auto simp: is_scope_char_def is_ws_def is_alnum_def is_digit_def is_upper_def is_lower_def)

lemma scope_no_ws: "is_scope w \<Longrightarrow> w \<noteq> [] \<and> list_all (\<lambda>c. \<not> is_ws c) w"
  by (auto simp: is_scope_def list_all_iff dest: scope_char_not_ws)

lemma scopes_text:
  assumes "list_all is_scope ws" "ws \<noteq> []"
  shows "is_scope_list (join_with '' '' ws)" "trim (join_with '' '' ws) = join_with '' '' ws" "join_with '' '' ws \<noteq> []"
    "words_acc [] (join_with '' '' ws) = ws"
proof -
  have words: "list_all (\<lambda>w. w \<noteq> [] \<and> list_all (\<lambda>c. \<not> is_ws c) w) ws"
    using assms(1) scope_no_ws by (auto simp: list_all_iff)
  then show "words_acc [] (join_with '' '' ws) = ws" by (rule words_joined)
  have "\<forall>w\<in>set ws. CHR '' '' \<notin> set w"
  proof
    fix w assume "w \<in> set ws"
    then have "list_all (\<lambda>c. \<not> is_ws c) w" using words by (auto simp: list_all_iff)
    moreover have "is_ws CHR '' ''" by code_simp
    ultimately show "CHR '' '' \<notin> set w" by (auto simp: list_all_iff)
  qed
  then show "is_scope_list (join_with '' '' ws)"
    using assms by (simp add: is_scope_list_def split_join)
  have ends: "join_with '' '' ws \<noteq> [] \<and> \<not> is_ws (hd (join_with '' '' ws)) \<and> \<not> is_ws (last (join_with '' '' ws))"
    using assms(2) words
  proof (induction ws rule: induct_list012)
    case (2 w)
    then show ?case using hd_in_set [of w] last_in_set [of w] by (auto simp: list_all_iff)
  next
    case (3 w v ws)
    then show ?case by (cases w) auto
  qed simp
  then show "join_with '' '' ws \<noteq> []" by simp
  show "trim (join_with '' '' ws) = join_with '' '' ws"
  proof -
    have "dropWhile is_ws (join_with '' '' ws) = join_with '' '' ws" "dropWhile is_ws (rev (join_with '' '' ws)) = rev (join_with '' '' ws)"
      using ends by (simp_all only: dropWhile_eq_self_iff hd_rev rev_is_Nil_conv) simp_all
    then show ?thesis by (simp only: trim_def rev_rev_ident)
  qed
qed

section \<open>Claims\<close>

definition text_claim :: "string \<Rightarrow> bool" where "text_claim s = (trim s = s \<and> s \<noteq> [])"

definition date_claim :: "int \<Rightarrow> bool" where "date_claim n = (0 \<le> n \<and> n \<le> max_safe_integer)"

lemma claim_ok_text: "claim_ok s \<Longrightarrow> text_claim s"
  by (simp add: claim_ok_def text_claim_def)

definition claims_ok :: "access_token_claims \<Rightarrow> bool" where
  "claims_ok c = (text_claim (cl_iss c) \<and> text_claim (cl_sub c) \<and> text_claim (cl_aud c) \<and> text_claim (cl_jti c) \<and>
     text_claim (cl_client_id c) \<and> text_claim (cl_scope c) \<and> is_scope_list (cl_scope c) \<and> text_claim (cl_name c) \<and>
     text_claim (cl_given_name c) \<and> text_claim (cl_family_name c) \<and> text_claim (cl_preferred_username c) \<and> text_claim (cl_email c) \<and>
     date_claim (cl_exp c) \<and> date_claim (cl_iat c) \<and> date_claim (cl_nbf c))"

lemma claims_printable: "claims_ok c \<Longrightarrow> printable (JObj (claims_object c))"
  by (simp add: claims_object_def claims_ok_def date_claim_def)

lemma claims_fields:
  "field (claims_object c) ''iss'' = Some (JStr (cl_iss c))" "field (claims_object c) ''sub'' = Some (JStr (cl_sub c))"
  "field (claims_object c) ''aud'' = Some (JStr (cl_aud c))" "field (claims_object c) ''exp'' = Some (JInt (cl_exp c))"
  "field (claims_object c) ''iat'' = Some (JInt (cl_iat c))" "field (claims_object c) ''nbf'' = Some (JInt (cl_nbf c))"
  "field (claims_object c) ''jti'' = Some (JStr (cl_jti c))" "field (claims_object c) ''client_id'' = Some (JStr (cl_client_id c))"
  "field (claims_object c) ''scope'' = Some (JStr (cl_scope c))" "field (claims_object c) ''name'' = Some (JStr (cl_name c))"
  "field (claims_object c) ''given_name'' = Some (JStr (cl_given_name c))"
  "field (claims_object c) ''family_name'' = Some (JStr (cl_family_name c))"
  "field (claims_object c) ''preferred_username'' = Some (JStr (cl_preferred_username c))"
  "field (claims_object c) ''email'' = Some (JStr (cl_email c))"
  "field (claims_object c) ''email_verified'' = Some (JBool (cl_email_verified c))"
  unfolding claims_object_def by simp_all

lemma text_claim_read: "text_claim s \<Longrightarrow> nonEmptyString (Some (JStr s))"
  by (simp add: nonEmptyString_def text_claim_def)

lemma date_claim_read: "date_claim n \<Longrightarrow> isNumericDate (Some (JInt n))"
  by (simp add: isNumericDate_def date_claim_def)

lemma accessClaims_object: "claims_ok c \<Longrightarrow> accessClaims (claims_object c) = Inr c"
  unfolding accessClaims_def requiredClaims_def claims_ok_def claim_text_def claim_date_def
  by (simp add: claims_fields text_claim_read date_claim_read validScopeString_def text_claim_def)

definition input_ok :: "access_token_input \<Rightarrow> bool" where
  "input_ok i = (profile_ok (ai_user i) \<and> text_claim (ai_clientId i) \<and> text_claim (ai_audience i) \<and> ai_scopes i \<noteq> [] \<and>
     list_all is_scope (ai_scopes i))"

lemma issued_claims_ok:
  assumes "input_ok i" "text_claim (issuer config)" "text_claim jti" "0 \<le> now" "0 \<le> accessTokenTtlSeconds config"
    "now + accessTokenTtlSeconds config \<le> max_safe_integer"
  shows "claims_ok (access_claims_of config now jti i)"
  using assms scopes_text [of "ai_scopes i"]
  by (auto simp: claims_ok_def access_claims_of_def input_ok_def profile_ok_def claim_ok_text date_claim_def text_claim_def claim_ok_def)

lemma accepted_token:
  assumes "verifyAccessToken cr config keys now token audience required = Inr c"
  obtains key kid payload where "readKid token = Inr kid" "key \<in> set keys" "vk_kid key = kid"
    "readPayload cr token (vk_publicKey key) = Inr payload" "accessClaims payload = Inr c"
    "cl_iss c = issuer config" "cl_aud c = audience" "now < cl_exp c" "cl_nbf c \<le> now" "cl_iat c \<le> now"
    "set required \<subseteq> set (words_acc [] (cl_scope c))"
proof -
  obtain kid where kid: "readKid token = Inr kid"
    using assms unfolding verifyAccessToken_def bindr_eq_Inr by blast
  obtain key where key: "find (\<lambda>candidate. vk_kid candidate = kid) keys = Some key"
    using assms kid by (cases "find (\<lambda>candidate. vk_kid candidate = kid) keys") (auto simp: verifyAccessToken_def)
  then have "key \<in> set keys" "vk_kid key = kid" by (auto simp: find_Some_iff)
  moreover obtain payload where "readPayload cr token (vk_publicKey key) = Inr payload" "accessClaims payload = Inr c"
    "cl_iss c = issuer config" "cl_aud c = audience" "now < cl_exp c" "cl_nbf c \<le> now" "cl_iat c \<le> now"
    "set required \<subseteq> set (words_acc [] (cl_scope c))"
    using assms kid key by (auto simp: verifyAccessToken_def bindr_eq_Inr hasScopes_def list_all_iff split: if_splits)
  ultimately show thesis using kid that by blast
qed

section \<open>Properties\<close>

text \<open>The argument of the round trip, shared with the samples.\<close>

lemma access_token_complete:
  assumes "signs_for cr key" "is_key_id (sk_kid key)"
    and "find (\<lambda>k. vk_kid k = sk_kid key) keys = Some (as_verification_key key)"
    and "input_ok i" "text_claim (issuer config)" "text_claim jti" "0 \<le> now" "now \<le> later" "later < now + accessTokenTtlSeconds config"
    and "now + accessTokenTtlSeconds config \<le> max_safe_integer" "set required \<subseteq> set (ai_scopes i)"
    and "length (issueAccessToken cr config key now jti i) \<le> maxJwtLength"
  shows "verifyAccessToken cr config keys later (issueAccessToken cr config key now jti i) (ai_audience i) required =
    Inr (access_claims_of config now jti i)"
proof -
  let ?c = "access_claims_of config now jti i"
  have ok: "claims_ok ?c" using assms by (intro issued_claims_ok) auto
  from verify_signed [OF assms(1,2) claims_printable [OF ok]] assms(12)
  have "readKid (issueAccessToken cr config key now jti i) = Inr (sk_kid key)"
    "readPayload cr (issueAccessToken cr config key now jti i) (sk_publicKey key) = Inr (claims_object ?c)"
    by (simp_all add: issueAccessToken_def)
  moreover have "accessClaims (claims_object ?c) = Inr ?c" by (rule accessClaims_object [OF ok])
  moreover have "words_acc [] (cl_scope ?c) = ai_scopes i"
    using scopes_text(4) assms(4) by (simp add: access_claims_of_def input_ok_def)
  ultimately show ?thesis
    using assms(3,8,9,11) by (simp add: verifyAccessToken_def as_verification_key_def access_claims_of_def hasScopes_def list_all_iff subset_iff)
qed

text \<open>C32: An access token issued for a resource is accepted there, with the same claims, while its lifetime lasts, for any
  required scopes it was issued with, as long as the signing key is in the key set under its identifier and the token fits the
  length limit.\<close>

theorem access_token_round_trip:
  assumes "signs_for cr key" "is_key_id (sk_kid key)"
    and "find (\<lambda>k. vk_kid k = sk_kid key) keys = Some (as_verification_key key)"
    and "input_ok i" "text_claim (issuer config)" "text_claim jti" "0 \<le> now" "now \<le> later" "later < now + accessTokenTtlSeconds config"
    and "now + accessTokenTtlSeconds config \<le> max_safe_integer" "set required \<subseteq> set (ai_scopes i)"
    and "length (issueAccessToken cr config key now jti i) \<le> maxJwtLength"
  shows "verifyAccessToken cr config keys later (issueAccessToken cr config key now jti i) (ai_audience i) required =
    Inr (access_claims_of config now jti i)"
  by (rule access_token_complete) (fact assms)+

text \<open>C14: Whatever the text, a token that is accepted has a signature that one of the service's keys verifies over its own header
  and payload, names this issuer and the audience asked for, is neither expired nor early, and carries every required scope.\<close>

theorem accepted_token_is_signed_and_current:
  assumes "verifyAccessToken cr config keys now token audience required = Inr c"
  shows "\<exists>key h p s. key \<in> set keys \<and> split_on CHR ''.'' token = [h, p, s] \<and> length token \<le> maxJwtLength \<and>
    cr_verify cr (vk_publicKey key) (h @ ''.'' @ p) s \<and> (\<exists>payload. decodeJsonBase64Url p = Inr (JObj payload) \<and> accessClaims payload = Inr c) \<and>
    cl_iss c = issuer config \<and> cl_aud c = audience \<and> cl_nbf c \<le> now \<and> cl_iat c \<le> now \<and> now < cl_exp c \<and>
    set required \<subseteq> set (words_acc [] (cl_scope c))"
proof -
  obtain key kid payload where t: "key \<in> set keys" "readPayload cr token (vk_publicKey key) = Inr payload" "accessClaims payload = Inr c"
    "cl_iss c = issuer config" "cl_aud c = audience" "now < cl_exp c" "cl_nbf c \<le> now" "cl_iat c \<le> now"
    "set required \<subseteq> set (words_acc [] (cl_scope c))"
    by (rule accepted_token [OF assms])
  obtain h p s where parts: "jwtParts token = Inr (h, p, s)" "cr_verify cr (vk_publicKey key) (h @ ''.'' @ p) s"
    "decodeJwtJson p Jwt_invalid_payload = Inr (JObj payload)"
    using t(2) by (auto simp: readPayload_def try_catch_def verifyJwt_def bindr_eq_Inr split: sum.splits if_splits option.splits)
  then have "decodeJsonBase64Url p = Inr (JObj payload)"
    by (auto simp: decodeJwtJson_def try_catch_def split: sum.splits)
  moreover have "split_on CHR ''.'' token = [h, p, s]" "length token \<le> maxJwtLength"
    using parts(1) by (auto simp: jwtParts_def split: if_splits list.splits)
  ultimately show ?thesis using t parts(2) by blast
qed

text \<open>C33: An id token, although signed by the same key, is never accepted as an access token, for no audience and no scopes.\<close>

theorem id_token_is_no_access_token:
  assumes "date_claim now" "date_claim (now + idTokenTtlSeconds config)" "date_claim authenticated"
  shows "verifyAccessToken cr config keys later (issueIdToken cr config key now user clientId authenticated nonce) audience required \<noteq> Inr c"
proof
  assume ver: "verifyAccessToken cr config keys later (issueIdToken cr config key now user clientId authenticated nonce) audience required = Inr c"
  let ?token = "issueIdToken cr config key now user clientId authenticated nonce"
  let ?claims = "id_claims_json config now user clientId authenticated nonce"
  obtain pub payload where t: "readPayload cr ?token pub = Inr payload" "accessClaims payload = Inr c"
    using ver unfolding verifyAccessToken_def bindr_eq_Inr by (auto simp: bindr_eq_Inr split: option.splits if_splits)
  obtain h p s where parts: "jwtParts ?token = Inr (h, p, s)" "decodeJwtJson p Jwt_invalid_payload = Inr (JObj payload)"
    using t(1) by (auto simp: readPayload_def try_catch_def verifyJwt_def bindr_eq_Inr split: sum.splits if_splits option.splits)
  have "printable ?claims"
    using assms by (cases nonce) (simp_all add: id_claims_json_def date_claim_def)
  moreover have "p = encodeJsonBase64Url ?claims"
    by (rule jwtParts_signed(2) [OF parts(1) [unfolded issueIdToken_def]])
  ultimately have "?claims = JObj payload"
    using parts(2) decode_encoded [of ?claims] by simp
  then have "field payload ''jti'' = None" by (auto simp: id_claims_json_def split: option.splits if_splits)
  with t(2) show False by (simp add: accessClaims_def requiredClaims_def nonEmptyString_def split: if_splits)
qed

lemma jwtParts_error: "jwtParts token = Inl e \<Longrightarrow> \<exists>r. e = JwtValidationError r"
  by (auto simp: jwtParts_def split: if_splits list.splits)

lemma decodeJwtJson_error: "decodeJwtJson input reason = Inl e \<Longrightarrow> e = JwtValidationError reason"
  by (auto simp: decodeJwtJson_def try_catch_def split: sum.splits)

lemma readKid_error: "readKid token = Inl e \<Longrightarrow> \<exists>r. e = AccessTokenValidationError r 401"
  by (auto simp: readKid_def try_catch_def jwtKid_def bindr_eq_Inl jwtAccessTokenError_def accessTokenError_def
      dest!: jwtParts_error decodeJwtJson_error split: sum.splits option.splits)

lemma readPayload_error: "readPayload cr token key = Inl e \<Longrightarrow> \<exists>r. e = AccessTokenValidationError r 401"
  by (auto simp: readPayload_def try_catch_def verifyJwt_def bindr_eq_Inl jwtAccessTokenError_def accessTokenError_def
      dest!: jwtParts_error decodeJwtJson_error split: sum.splits option.splits if_splits)

lemma accessClaims_error: "accessClaims payload = Inl e \<Longrightarrow> \<exists>r. e = AccessTokenValidationError r 401"
  by (auto simp: accessClaims_def accessTokenError_def split: if_splits option.splits json.splits)

lemma verifyAccessToken_error:
  assumes "verifyAccessToken cr config keys now token audience required = Inl e"
  shows "\<exists>r. e = AccessTokenValidationError r 401 \<or> e = AccessTokenValidationError r 403"
proof (cases "readKid token")
  case (Inl d)
  with assms readKid_error [OF Inl] show ?thesis by (auto simp: verifyAccessToken_def)
next
  case (Inr kid)
  show ?thesis
  proof (cases "find (\<lambda>candidate. vk_kid candidate = kid) keys")
    case None
    with assms Inr show ?thesis by (auto simp: verifyAccessToken_def accessTokenError_def)
  next
    case (Some key)
    show ?thesis
    proof (cases "readPayload cr token (vk_publicKey key)")
      case (Inl d)
      with assms Inr Some readPayload_error [OF Inl] show ?thesis by (auto simp: verifyAccessToken_def)
    next
      case payload: (Inr payload)
      show ?thesis
      proof (cases "accessClaims payload")
        case (Inl d)
        with assms Inr Some payload accessClaims_error [OF Inl] show ?thesis by (auto simp: verifyAccessToken_def)
      next
        case (Inr claims)
        with assms \<open>readKid token = Inr kid\<close> Some payload show ?thesis
          by (simp add: verifyAccessToken_def accessTokenError_def split: if_splits) blast+
      qed
    qed
  qed
qed

lemma verifyAccessToken_claims_unique:
  assumes "verifyAccessToken cr config keys now token a required = Inr c" "verifyAccessToken cr config keys now token b required = Inr d"
  shows "c = d"
  using assms by (auto simp: verifyAccessToken_def bindr_eq_Inr split: option.splits if_splits)

lemma try_audiences_Inr:
  assumes "\<And>a e. check a = Inl e \<Longrightarrow> \<exists>r. e = AccessTokenValidationError r 401 \<or> e = AccessTokenValidationError r 403"
    and "\<And>a b c d. check a = Inr c \<Longrightarrow> check b = Inr d \<Longrightarrow> c = d"
  shows "try_audiences check audiences se te = Inr c \<longleftrightarrow> (\<exists>a\<in>set audiences. check a = Inr c)"
proof (induction audiences arbitrary: se te)
  case (Cons a audiences)
  show ?case
  proof (cases "check a")
    case (Inl e)
    with assms(1) [OF Inl] obtain r where "e = AccessTokenValidationError r 401 \<or> e = AccessTokenValidationError r 403" by blast
    with Inl Cons.IH show ?thesis by auto
  next
    case (Inr d)
    then have "try_audiences check (a # audiences) se te = Inr c \<longleftrightarrow> d = c" by simp
    moreover have "d = c" if "check x = Inr c" for x using Inr that by (rule assms(2))
    ultimately show ?thesis using Inr by (metis list.set_intros(1))
  qed
qed (simp split: option.splits)

text \<open>A bearer token is accepted for a list of audiences exactly when the header carries a token that is accepted, with the
  same claims, for one of them: one audience's refusal never hides another's acceptance.\<close>

theorem any_audience_is_union:
  "verifyBearerAnyAudience cr config keys now header audiences scopes = Inr c \<longleftrightarrow>
    (\<exists>token. readBearer header = Inr token \<and> (\<exists>a\<in>set audiences. verifyAccessToken cr config keys now token a scopes = Inr c))"
proof -
  have "try_audiences (\<lambda>audience. verifyAccessToken cr config keys now token audience scopes) audiences None None = Inr c \<longleftrightarrow>
      (\<exists>a\<in>set audiences. verifyAccessToken cr config keys now token a scopes = Inr c)" for token
  proof (rule try_audiences_Inr)
    fix a e assume "verifyAccessToken cr config keys now token a scopes = Inl e"
    then show "\<exists>r. e = AccessTokenValidationError r 401 \<or> e = AccessTokenValidationError r 403" by (rule verifyAccessToken_error)
  next
    fix a b c d
    assume "verifyAccessToken cr config keys now token a scopes = Inr c" "verifyAccessToken cr config keys now token b scopes = Inr d"
    then show "c = d" by (rule verifyAccessToken_claims_unique)
  qed
  then show ?thesis unfolding verifyBearerAnyAudience_def bindr_eq_Inr by blast
qed

section \<open>The cached key set\<close>

text \<open>What a fresh computation gives.\<close>

definition freshKeySet ::
  "('s, 'p) crypto \<Rightarrow> (string \<Rightarrow> string outcome) \<Rightarrow> service_config \<Rightarrow> env \<Rightarrow> 's \<Rightarrow> ('s, 'p) key_set outcome" where
  "freshKeySet cr readFile config env pair = fst (getKeySet cr readFile config env pair None)"

text \<open>The calls of a process: its configuration and the pair it would generate are fixed, its environment may change.\<close>

fun keySetCalls ::
  "('s, 'p) crypto \<Rightarrow> (string \<Rightarrow> string outcome) \<Rightarrow> service_config \<Rightarrow> 's \<Rightarrow> env list \<Rightarrow> (string \<times> ('s, 'p) key_set) option \<Rightarrow>
     (string \<times> ('s, 'p) key_set) option" where
  "keySetCalls cr readFile config pair [] cached = cached"
| "keySetCalls cr readFile config pair (env # envs) cached =
     keySetCalls cr readFile config pair envs (snd (getKeySet cr readFile config env pair cached))"

definition cache_good :: "('s, 'p) crypto \<Rightarrow> service_config \<Rightarrow> 's \<Rightarrow> (string \<times> ('s, 'p) key_set) option \<Rightarrow> bool" where
  "cache_good cr config pair cached = (case cached of None \<Rightarrow> True | Some (source, keySet) \<Rightarrow>
     (source = ''local'' \<and> keySet = localKeySet cr pair) \<or>
     (\<exists>env pem. source = pemSource cr env pem \<and> loadKeySet cr config env pem = Inr keySet))"

lemma pemSource_not_local: "pemSource cr env pem \<noteq> ''local''" "''local'' \<noteq> pemSource cr env pem"
  by (simp_all add: pemSource_def)

text \<open>The source text determines the key material: hashes have no colon, and equal hashes come from equal texts.\<close>

lemma before_colon:
  assumes "a @ CHR '':'' # x = b @ CHR '':'' # y" "CHR '':'' \<notin> set a" "CHR '':'' \<notin> set b" shows "a = b \<and> x = y"
  using assms by (induction a arbitrary: b) (case_tac b, auto)+

lemma after_last_colon:
  assumes "x @ CHR '':'' # a = y @ CHR '':'' # b" "CHR '':'' \<notin> set a" "CHR '':'' \<notin> set b" shows "x = y \<and> a = b"
proof -
  have "rev a @ CHR '':'' # rev x = rev b @ CHR '':'' # rev y"
    using arg_cong [OF assms(1), of rev] by simp
  from before_colon [OF this] assms(2,3) show ?thesis by simp
qed

definition collision_free :: "(string \<Rightarrow> string) \<Rightarrow> bool" where
  "collision_free sha = (inj sha \<and> (\<forall>s. CHR '':'' \<notin> set (sha s)))"

lemma pemSource_inject:
  assumes "collision_free (cr_sha256 cr)" "pemSource cr env pem = pemSource cr env' pem'"
  shows "pem = pem'" "or_empty (map_of env ''OAUTH_KEY_ID'') = or_empty (map_of env' ''OAUTH_KEY_ID'')"
    "or_empty (map_of env ''OAUTH_PREVIOUS_PUBLIC_KEYS_JSON'') = or_empty (map_of env' ''OAUTH_PREVIOUS_PUBLIC_KEYS_JSON'')"
proof -
  let ?k = "\<lambda>e. or_empty (map_of e ''OAUTH_KEY_ID'')" and ?j = "\<lambda>e. or_empty (map_of e ''OAUTH_PREVIOUS_PUBLIC_KEYS_JSON'')"
  have c: "inj (cr_sha256 cr)" "\<And>s. CHR '':'' \<notin> set (cr_sha256 cr s)" using assms(1) by (auto simp: collision_free_def)
  have eq: "cr_sha256 cr pem @ CHR '':'' # (?k env @ CHR '':'' # cr_sha256 cr (?j env)) =
      cr_sha256 cr pem' @ CHR '':'' # (?k env' @ CHR '':'' # cr_sha256 cr (?j env'))"
    using assms(2) by (simp add: pemSource_def)
  from before_colon [OF eq c(2) c(2)]
  have one: "cr_sha256 cr pem = cr_sha256 cr pem'" and rest: "?k env @ CHR '':'' # cr_sha256 cr (?j env) = ?k env' @ CHR '':'' # cr_sha256 cr (?j env')"
    by auto
  from after_last_colon [OF rest c(2) c(2)] one c(1) show "pem = pem'" "?k env = ?k env'" "?j env = ?j env'"
    by (auto dest: injD)
qed

lemma loadKeySet_source:
  assumes "or_empty (map_of env ''OAUTH_KEY_ID'') = or_empty (map_of env' ''OAUTH_KEY_ID'')"
    "or_empty (map_of env ''OAUTH_PREVIOUS_PUBLIC_KEYS_JSON'') = or_empty (map_of env' ''OAUTH_PREVIOUS_PUBLIC_KEYS_JSON'')"
  shows "loadKeySet cr config env pem = loadKeySet cr config env' pem"
proof -
  have "activeKeyId cr config env = activeKeyId cr config env'"
    using assms(1) by (intro ext) (auto simp: activeKeyId_def or_empty_def split: option.splits)
  moreover have "previousKeys cr (map_of env ''OAUTH_PREVIOUS_PUBLIC_KEYS_JSON'') = previousKeys cr (map_of env' ''OAUTH_PREVIOUS_PUBLIC_KEYS_JSON'')"
    using assms(2) by (auto simp: previousKeys_def or_empty_def split: option.splits)
  ultimately show ?thesis unfolding loadKeySet_def by (simp only:)
qed

lemma getKeySet_cached:
  assumes "collision_free (cr_sha256 cr)" "cache_good cr config pair cached"
  shows "fst (getKeySet cr readFile config env pair cached) = freshKeySet cr readFile config env pair"
    and "cache_good cr config pair (snd (getKeySet cr readFile config env pair cached))"
proof -
  note defs = freshKeySet_def getKeySet_def Let_def
  show "fst (getKeySet cr readFile config env pair cached) = freshKeySet cr readFile config env pair"
  proof (cases "privateKeyPemValue readFile env")
    case (Inr v)
    show ?thesis
    proof (cases "v \<noteq> None \<and> v \<noteq> Some []")
      case True
      then obtain pem where v: "v = Some pem" by auto
      show ?thesis
      proof (cases "map_option fst cached = Some (pemSource cr env pem)")
        case hit: True
        then obtain keySet where c: "cached = Some (pemSource cr env pem, keySet)" by (cases cached) auto
        then obtain env' pem' where e: "pemSource cr env pem = pemSource cr env' pem'" "loadKeySet cr config env' pem' = Inr keySet"
          using assms(2) by (auto simp: cache_good_def pemSource_not_local)
        have "loadKeySet cr config env pem = Inr keySet"
          using loadKeySet_source [OF pemSource_inject(2,3) [OF assms(1) e(1)]] pemSource_inject(1) [OF assms(1) e(1)] e(2) by metis
        with Inr v True c show ?thesis by (simp add: defs)
      qed (use Inr v True in \<open>simp add: defs split: sum.splits\<close>)
    next
      case False
      then show ?thesis
        using Inr assms(2) by (cases cached) (auto simp: defs cache_good_def pemSource_not_local)
    qed
  qed (simp add: defs)
  show "cache_good cr config pair (snd (getKeySet cr readFile config env pair cached))"
    using assms(2) by (auto simp: getKeySet_def Let_def cache_good_def split: sum.splits)
qed

text \<open>Whatever calls came before, with whatever environments, a call returns the key set a fresh computation would: the module
  cache never hands out keys of another configuration (the hash that names a configuration being free of collisions).\<close>

theorem key_set_cache_transparent:
  assumes "collision_free (cr_sha256 cr)"
  shows "fst (getKeySet cr readFile config env pair (keySetCalls cr readFile config pair envs None)) = freshKeySet cr readFile config env pair"
proof -
  have "cache_good cr config pair (keySetCalls cr readFile config pair envs cached)" if "cache_good cr config pair cached" for cached
    using that by (induction envs arbitrary: cached) (auto intro: getKeySet_cached(2) [OF assms])
  then show ?thesis by (intro getKeySet_cached(1) [OF assms]) (simp add: cache_good_def)
qed

section \<open>Witnesses\<close>

text \<open>A signature scheme for the samples: the signature of any text is the key itself.\<close>

definition sample_crypto :: "(string, string) crypto" where
  "sample_crypto = \<lparr> cr_createPrivateKey = Some, cr_createPublicKey = Some, cr_publicOf = (\<lambda>s. s), cr_rsaBits = (\<lambda>k. Some 2048),
     cr_keyDigest = encodeBase64Url, cr_sha256 = encodeBase64Url, cr_sign = (\<lambda>k text. k), cr_verify = (\<lambda>k text s. s = k) \<rparr>"

definition token_key :: "(string, string) signing_key" where
  "token_key = \<lparr> sk_kid = ''k1'', sk_publicKey = ''key'', sk_privateKey = ''key'' \<rparr>"

definition token_config :: service_config where
  "token_config = \<lparr> issuer = ''https://id.example'', mcpResource = ''https://api/mcp'', actionsAudience = ''https://api/actions'',
     widgetDomain = [], oauthStoreBackend = Backend_file, oauthStorePath = [],
     oauthDynamoDb = \<lparr> dc_tableName = [], dc_region = [], dc_endpoint = None \<rparr>, allowedOrigins = [],
     accessTokenTtlSeconds = 300, idTokenTtlSeconds = 300, authorizationCodeTtlSeconds = 60, refreshTokenTtlSeconds = 1000,
     rateLimitWindowSeconds = 60, rateLimitMaxRequests = 10, rateLimitPolicies = [], mcpListPageSize = 10, mcpSseMaxConnections = 5,
     upstreamOidc = \<lparr> uc_issuer = [], uc_discoveryUrl = [], uc_authorizationUrl = [], uc_tokenUrl = [], uc_userinfoUrl = [],
       uc_clientId = [], uc_clientSecret = [], uc_redirectUri = [], uc_scopes = [], uc_tokenEndpointAuthMethod = Upstream_post \<rparr>,
     production = False \<rparr>"

definition token_input :: access_token_input where
  "token_input = \<lparr> ai_user = sample_profile, ai_clientId = ''app'', ai_audience = ''https://api/mcp'', ai_scopes = [''openid'', ''email''] \<rparr>"

lemma length_base64url: "length (base64url bs) \<le> 2 * length bs"
  by (induction bs rule: base64url.induct) auto

lemma length_encoded: "length (encodeJsonBase64Url v) \<le> 4 * length (json_text v)"
  using length_base64url [of "utf8 (json_text v)"] utf8_length [of "json_text v"]
  by (simp add: encodeJsonBase64Url_def encodeBase64Url_def del: json_text.simps)

lemma token_sample:
  "signs_for sample_crypto token_key" "is_key_id (sk_kid token_key)"
  "find (\<lambda>k. vk_kid k = sk_kid token_key) [as_verification_key token_key] = Some (as_verification_key token_key)"
  "input_ok token_input" "text_claim (issuer token_config)" "text_claim ''j''"
  "length (issueAccessToken sample_crypto token_config token_key 1000 ''j'' token_input) \<le> maxJwtLength"
proof -
  show "signs_for sample_crypto token_key" by (simp add: signs_for_def sample_crypto_def token_key_def)
  show "is_key_id (sk_kid token_key)" "text_claim (issuer token_config)" "text_claim ''j''" by code_simp+
  show "find (\<lambda>k. vk_kid k = sk_kid token_key) [as_verification_key token_key] = Some (as_verification_key token_key)"
    by (simp add: as_verification_key_def)
  show "input_ok token_input" by code_simp
  let ?h = "jwt_header (sk_kid token_key)" and ?p = "JObj (claims_object (access_claims_of token_config 1000 ''j'' token_input))"
  have "length (json_text ?h) < 100" "length (json_text ?p) < 1000" by code_simp+
  then have "length (encodeJsonBase64Url ?h) < 400" "length (encodeJsonBase64Url ?p) < 4000"
    using length_encoded [of ?h] length_encoded [of ?p] by linarith+
  moreover have "length (issueAccessToken sample_crypto token_config token_key 1000 ''j'' token_input) =
      length (encodeJsonBase64Url ?h) + length (encodeJsonBase64Url ?p) + 5"
    by (simp add: issueAccessToken_def signJwt_def Let_def sample_crypto_def token_key_def)
  ultimately show "length (issueAccessToken sample_crypto token_config token_key 1000 ''j'' token_input) \<le> maxJwtLength"
    by (simp add: maxJwtLength_def)
qed

lemma access_token_round_trip_witness:
  "verifyAccessToken sample_crypto token_config [as_verification_key token_key] 1299
     (issueAccessToken sample_crypto token_config token_key 1000 ''j'' token_input) ''https://api/mcp'' [''email''] =
   Inr (access_claims_of token_config 1000 ''j'' token_input)"
  using access_token_round_trip [OF token_sample(1-6) _ _ _ _ _ token_sample(7), of 1299 "[''email'']"]
  by (simp add: token_config_def token_input_def max_safe_integer_def)

lemma accepted_token_is_signed_and_current_witness:
  "\<exists>h p s. split_on CHR ''.'' (issueAccessToken sample_crypto token_config token_key 1000 ''j'' token_input) = [h, p, s] \<and> s = ''key''"
proof -
  have "verifyAccessToken sample_crypto token_config [as_verification_key token_key] 1299
     (issueAccessToken sample_crypto token_config token_key 1000 ''j'' token_input) (ai_audience token_input) [] =
   Inr (access_claims_of token_config 1000 ''j'' token_input)"
    using access_token_complete [OF token_sample(1-6) _ _ _ _ _ token_sample(7), of 1299 "[]"]
    by (simp add: token_config_def token_input_def max_safe_integer_def)
  from accepted_token_is_signed_and_current [OF this] show ?thesis
    by (auto simp: sample_crypto_def as_verification_key_def token_key_def)
qed

lemma id_token_is_no_access_token_witness:
  "\<forall>audience c. verifyAccessToken sample_crypto token_config [as_verification_key token_key] 1001
     (issueIdToken sample_crypto token_config token_key 1000 sample_profile ''app'' 900 None) audience [] \<noteq> Inr c"
proof (intro allI)
  fix audience c
  have "date_claim 1000" "date_claim (1000 + idTokenTtlSeconds token_config)" "date_claim 900"
    by (simp_all add: date_claim_def token_config_def max_safe_integer_def)
  then show "verifyAccessToken sample_crypto token_config [as_verification_key token_key] 1001
     (issueIdToken sample_crypto token_config token_key 1000 sample_profile ''app'' 900 None) audience [] \<noteq> Inr c"
    by (rule id_token_is_no_access_token)
qed

lemma encodeBase64Url_inj: "inj encodeBase64Url"
proof (rule injI)
  fix s t :: string assume "encodeBase64Url s = encodeBase64Url t"
  then have "utf8 s = utf8 t"
    unfolding encodeBase64Url_def using base64_round_trip utf8_bytes by metis
  then have "utf8_text (utf8 s) = utf8_text (utf8 t)" by simp
  then show "s = t" by simp
qed

lemma encoded_no_colon: "CHR '':'' \<notin> set (encodeBase64Url s)"
  using encoded_alphabet [of s] by (auto simp: list_all_iff is_base64url_char_def is_alnum_def is_digit_def is_upper_def is_lower_def)

lemma sample_collision_free: "collision_free (cr_sha256 sample_crypto)"
  by (simp add: collision_free_def sample_crypto_def encodeBase64Url_inj encoded_no_colon)

lemma key_set_cache_transparent_witness:
  "fst (getKeySet sample_crypto (\<lambda>p. Inl (PlainError p)) token_config [(''OAUTH_PRIVATE_KEY_PEM'', ''a'')] ''l''
     (keySetCalls sample_crypto (\<lambda>p. Inl (PlainError p)) token_config ''l'' [[], [(''OAUTH_PRIVATE_KEY_PEM'', ''b'')]] None)) =
   freshKeySet sample_crypto (\<lambda>p. Inl (PlainError p)) token_config [(''OAUTH_PRIVATE_KEY_PEM'', ''a'')] ''l''"
  by (rule key_set_cache_transparent [OF sample_collision_free])

end
