(* ===== verification/Upstream_Oidc.thy ===== *)
theory Upstream_Oidc
  imports Client_Auth Token_Properties
begin

text \<open>
  Login at the upstream OpenID provider: its metadata and keys (\<open>auth/upstream-oidc-metadata.ts\<close>),
  the verification of its tokens (\<open>auth/upstream-oidc-jwt.ts\<close>), their claims
  (\<open>auth/upstream-oidc-claims.ts\<close>) and the exchange of a code for a user profile
  (\<open>auth/upstream-oidc-client.ts\<close>).  \<open>fetch\<close>, the import of a JWK, the verification of a signature
  (\<open>None\<close> when it throws) and the digest of an algorithm's hash are parameters.
\<close>

section \<open>The outside\<close>

datatype jws_algorithm = RS256 | RS384 | RS512 | PS256 | PS384 | PS512 | ES256 | ES384 | ES512

definition implementedAlgorithms :: "(string \<times> jws_algorithm) list" where
  "implementedAlgorithms = [(''RS256'', RS256), (''RS384'', RS384), (''RS512'', RS512), (''PS256'', PS256), (''PS384'', PS384),
     (''PS512'', PS512), (''ES256'', ES256), (''ES384'', ES384), (''ES512'', ES512)]"

datatype sha2 = Sha256 | Sha384 | Sha512

fun hashByAlgorithm :: "jws_algorithm \<Rightarrow> sha2" where
  "hashByAlgorithm RS256 = Sha256" | "hashByAlgorithm RS384 = Sha384" | "hashByAlgorithm RS512 = Sha512"
| "hashByAlgorithm PS256 = Sha256" | "hashByAlgorithm PS384 = Sha384" | "hashByAlgorithm PS512 = Sha512"
| "hashByAlgorithm ES256 = Sha256" | "hashByAlgorithm ES384 = Sha384" | "hashByAlgorithm ES512 = Sha512"

datatype signature_scheme = Pkcs1 | Pss nat | Ieee_p1363

fun schemeOf :: "jws_algorithm \<Rightarrow> signature_scheme" where
  "schemeOf PS256 = Pss 32" | "schemeOf PS384 = Pss 48" | "schemeOf PS512 = Pss 64"
| "schemeOf RS256 = Pkcs1" | "schemeOf RS384 = Pkcs1" | "schemeOf RS512 = Pkcs1"
| "schemeOf ES256 = Ieee_p1363" | "schemeOf ES384 = Ieee_p1363" | "schemeOf ES512 = Ieee_p1363"

record upstream_request =
  uq_url :: string
  uq_headers :: "(string \<times> string) list"
  uq_form :: "params option"

record upstream_response =
  ur_ok :: bool
  ur_contentType :: "string option"
  ur_body :: string

record 'k upstream =
  up_fetch :: "upstream_request \<Rightarrow> upstream_response outcome"
  up_parseUrl :: url_parser
  up_importKey :: "js_object \<Rightarrow> 'k option"
  up_verify :: "'k \<Rightarrow> sha2 \<Rightarrow> signature_scheme \<Rightarrow> string \<Rightarrow> string \<Rightarrow> bool option"
  up_digest :: "sha2 \<Rightarrow> string \<Rightarrow> nat list"

definition invalidGrant :: "string \<Rightarrow> js_error" where
  "invalidGrant message = ServiceError Invalid_grant message 400"

section \<open>Tokens of the provider\<close>

definition algorithm_of :: "json \<Rightarrow> jws_algorithm option" where
  "algorithm_of value = (case value of JStr s \<Rightarrow> map_of implementedAlgorithms s | _ \<Rightarrow> None)"

definition supportedAlgorithms :: "json option \<Rightarrow> jws_algorithm list outcome" where
  "supportedAlgorithms values = (case values of
     Some (JArr vs) \<Rightarrow> let result = List.map_filter algorithm_of vs in
       if result = [] then Inl (invalidGrant ''upstream signing algorithms are unsupported'') else Inr result
   | _ \<Rightarrow> Inl (invalidGrant ''upstream discovery response is invalid''))"

definition upstreamJwtParts :: "string \<Rightarrow> (string \<times> string \<times> string) outcome" where
  "upstreamJwtParts token =
    (if length token > 16384 then Inl (invalidGrant ''upstream token is invalid'')
     else (case split_on CHR ''.'' token of
         [h, p, s] \<Rightarrow> if h = [] \<or> p = [] \<or> s = [] then Inl (invalidGrant ''upstream token is invalid'') else Inr (h, p, s)
       | _ \<Rightarrow> Inl (invalidGrant ''upstream token is invalid'')))"

definition upstreamDecodeJson :: "string \<Rightarrow> json outcome" where
  "upstreamDecodeJson input = try_catch (decodeJsonBase64Url input) (\<lambda>_. Inl (invalidGrant ''upstream token is invalid''))"

definition safeKeyId :: "json option \<Rightarrow> bool" where
  "safeKeyId value = (case json_string value of
     None \<Rightarrow> False | Some s \<Rightarrow> 0 < length s \<and> length s \<le> 256 \<and> \<not> list_ex is_control s)"

definition upstreamJwtHeader :: "json \<Rightarrow> jws_algorithm list \<Rightarrow> (jws_algorithm \<times> string) outcome" where
  "upstreamJwtHeader value allowed = (case json_object (Some value) of
     None \<Rightarrow> Inl (invalidGrant ''upstream token header is invalid'')
   | Some record \<Rightarrow>
       if list_ex (\<lambda>key. field record key \<noteq> None) [''crit'', ''jku'', ''jwk'', ''x5u'', ''x5c'']
       then Inl (invalidGrant ''upstream token header is invalid'')
       else if field record ''typ'' \<noteq> None \<and> field record ''typ'' \<noteq> Some (JStr ''JWT'')
       then Inl (invalidGrant ''upstream token header is invalid'')
       else (case Option.bind (field record ''alg'') algorithm_of of
           None \<Rightarrow> Inl (invalidGrant ''upstream token algorithm is unsupported'')
         | Some alg \<Rightarrow> if \<not> List.member allowed alg then Inl (invalidGrant ''upstream token algorithm is unsupported'')
             else if \<not> safeKeyId (field record ''kid'') then Inl (invalidGrant ''upstream token key id is invalid'')
             else Inr (alg, the (json_string (field record ''kid'')))))"

definition keyMatchesAlgorithm :: "js_object \<Rightarrow> jws_algorithm \<Rightarrow> bool" where
  "keyMatchesAlgorithm key alg =
    (case schemeOf alg of Ieee_p1363 \<Rightarrow> field key ''kty'' = Some (JStr ''EC'') | _ \<Rightarrow> field key ''kty'' = Some (JStr ''RSA''))"

definition keyAllowsSignature :: "js_object \<Rightarrow> bool" where
  "keyAllowsSignature key =
    (if field key ''use'' \<noteq> None \<and> field key ''use'' \<noteq> Some (JStr ''sig'') then False
     else (case field key ''key_ops'' of None \<Rightarrow> True | Some (JArr ops) \<Rightarrow> List.member ops (JStr ''verify'') | Some _ \<Rightarrow> False))"

definition key_candidates :: "js_object list \<Rightarrow> jws_algorithm \<Rightarrow> string \<Rightarrow> js_object list" where
  "key_candidates jwks alg kid =
     filter (\<lambda>key. field key ''kid'' = Some (JStr kid) \<and> keyMatchesAlgorithm key alg \<and> keyAllowsSignature key) jwks"

definition selectKey :: "'k upstream \<Rightarrow> js_object list \<Rightarrow> jws_algorithm \<times> string \<Rightarrow> 'k outcome" where
  "selectKey up jwks header = (case header of (alg, kid) \<Rightarrow>
     (case key_candidates jwks alg kid of
        [key] \<Rightarrow> (case json_string (field key ''alg'') of
            Some a \<Rightarrow> if map_of implementedAlgorithms a \<noteq> Some alg then Inl (invalidGrant ''upstream signing key algorithm is invalid'')
              else (case up_importKey up key of None \<Rightarrow> Inl (invalidGrant ''upstream signing key is invalid'') | Some k \<Rightarrow> Inr k)
          | None \<Rightarrow> (case up_importKey up key of None \<Rightarrow> Inl (invalidGrant ''upstream signing key is invalid'') | Some k \<Rightarrow> Inr k))
      | _ \<Rightarrow> Inl (invalidGrant ''upstream signing key is unavailable'')))"

definition verifySignature :: "'k upstream \<Rightarrow> 'k \<Rightarrow> jws_algorithm \<Rightarrow> string \<Rightarrow> string \<Rightarrow> bool outcome" where
  "verifySignature up key alg signingInput signature =
    (case up_verify up key (hashByAlgorithm alg) (schemeOf alg) signingInput signature of
       None \<Rightarrow> Inl (invalidGrant ''upstream token signature is invalid'') | Some b \<Rightarrow> Inr b)"

definition upstreamVerifyJwt ::
  "'k upstream \<Rightarrow> string \<Rightarrow> js_object list \<Rightarrow> jws_algorithm list \<Rightarrow> (jws_algorithm \<times> js_object) outcome" where
  "upstreamVerifyJwt up token jwks allowed =
    bindr (upstreamJwtParts token) (\<lambda>(encodedHeader, encodedPayload, signature).
    bindr (bindr (upstreamDecodeJson encodedHeader) (\<lambda>value. upstreamJwtHeader value allowed)) (\<lambda>header.
    bindr (selectKey up jwks header) (\<lambda>key.
    bindr (verifySignature up key (fst header) (encodedHeader @ ''.'' @ encodedPayload) signature) (\<lambda>valid.
      if \<not> valid then Inl (invalidGrant ''upstream token signature is invalid'')
      else bindr (upstreamDecodeJson encodedPayload) (\<lambda>payload.
        case json_object (Some payload) of
          None \<Rightarrow> Inl (invalidGrant ''upstream token payload is invalid'')
        | Some record \<Rightarrow> Inr (fst header, record))))))"

section \<open>Claims\<close>

definition audienceIsOnlyClient :: "json option \<Rightarrow> string \<Rightarrow> bool" where
  "audienceIsOnlyClient value cid = (case value of
     Some (JStr s) \<Rightarrow> s = cid | Some (JArr [v]) \<Rightarrow> v = JStr cid | _ \<Rightarrow> False)"

definition seconds :: "json option \<Rightarrow> int outcome" where
  "seconds value = (case value of
     Some (JNum n) \<Rightarrow> if is_safe_integer n then Inr (integer_value n) else Inl (invalidGrant ''upstream token time claim is invalid'')
   | _ \<Rightarrow> Inl (invalidGrant ''upstream token time claim is invalid''))"

definition subject :: "json option \<Rightarrow> string \<Rightarrow> string outcome" where
  "subject value message = (case json_string value of
     None \<Rightarrow> Inl (invalidGrant message)
   | Some s \<Rightarrow> if trim s = [] \<or> length s > 256 \<or> list_ex (\<lambda>c. code c = 10 \<or> code c = 13) s
       then Inl (invalidGrant message) else Inr s)"

definition accessTokenHash :: "'k upstream \<Rightarrow> string \<Rightarrow> jws_algorithm \<Rightarrow> string" where
  "accessTokenHash up accessToken alg =
    (let digest = up_digest up (hashByAlgorithm alg) accessToken in base64url (take (length digest div 2) digest))"

definition validateUpstreamIdToken ::
  "'k upstream \<Rightarrow> service_config \<Rightarrow> js_object \<Rightarrow> jws_algorithm \<Rightarrow> string \<Rightarrow> string \<Rightarrow> int \<Rightarrow> string outcome" where
  "validateUpstreamIdToken up config payload alg upstreamNonce accessToken now =
    (if field payload ''iss'' \<noteq> Some (JStr (uc_issuer (upstreamOidc config)))
     then Inl (invalidGrant ''upstream ID token issuer is invalid'')
     else if \<not> audienceIsOnlyClient (field payload ''aud'') (uc_clientId (upstreamOidc config))
     then Inl (invalidGrant ''upstream ID token audience is invalid'')
     else bindr (seconds (field payload ''exp'')) (\<lambda>expiry.
       if expiry \<le> now - 60 then Inl (invalidGrant ''upstream ID token is expired'')
       else bindr (seconds (field payload ''iat'')) (\<lambda>iat.
         if iat > now + 60 then Inl (invalidGrant ''upstream ID token issued-at is invalid'')
         else bindr (if field payload ''nbf'' = None then Inr () else bindr (seconds (field payload ''nbf'')) (\<lambda>nbf.
             if nbf > now + 60 then Inl (invalidGrant ''upstream ID token not-before is invalid'') else Inr ())) (\<lambda>_.
           if field payload ''nonce'' \<noteq> Some (JStr upstreamNonce) then Inl (invalidGrant ''upstream ID token nonce is invalid'')
           else if field payload ''at_hash'' \<noteq> None \<and> field payload ''at_hash'' \<noteq> Some (JStr (accessTokenHash up accessToken alg))
           then Inl (invalidGrant ''upstream ID token access-token hash is invalid'')
           else subject (field payload ''sub'') ''upstream ID token subject is invalid''))))"

definition validateUpstreamUserinfo :: "service_config \<Rightarrow> js_object \<Rightarrow> string \<Rightarrow> bool \<Rightarrow> user_profile outcome" where
  "validateUpstreamUserinfo config payload idTokenSubject isSigned =
    bindr (if isSigned then
        (if field payload ''iss'' \<noteq> Some (JStr (uc_issuer (upstreamOidc config)))
         then Inl (invalidGrant ''upstream userinfo issuer is invalid'')
         else if \<not> audienceIsOnlyClient (field payload ''aud'') (uc_clientId (upstreamOidc config))
         then Inl (invalidGrant ''upstream userinfo audience is invalid'') else Inr ())
      else Inr ()) (\<lambda>_.
    bindr (subject (field payload ''sub'') ''upstream userinfo subject is invalid'') (\<lambda>s.
      if s \<noteq> idTokenSubject then Inl (invalidGrant ''upstream userinfo subject mismatch'')
      else try_catch (userProfileFromUpstream (Some (JObj payload))) (\<lambda>_. Inl (invalidGrant ''upstream userinfo response is invalid''))))"

section \<open>Metadata\<close>

record provider_metadata =
  pm_issuer :: string
  pm_jwksUri :: string
  pm_idTokenAlgorithms :: "jws_algorithm list"
  pm_userinfoAlgorithms :: "jws_algorithm list"

definition metadataObject :: "upstream_response \<Rightarrow> string \<Rightarrow> js_object outcome" where
  "metadataObject response message = (case json_parse (ur_body response) of
     Some (JObj kvs) \<Rightarrow> Inr kvs | _ \<Rightarrow> Inl (invalidGrant message))"

definition fetchJsonObject :: "'k upstream \<Rightarrow> string \<Rightarrow> js_object outcome" where
  "fetchJsonObject up url =
    bindr (up_fetch up \<lparr> uq_url = url, uq_headers = [(''accept'', ''application/json'')], uq_form = None \<rparr>) (\<lambda>response.
    bindr (metadataObject response ''upstream metadata response is invalid'') (\<lambda>payload.
      if \<not> ur_ok response then Inl (invalidGrant ''upstream metadata request failed'') else Inr payload))"

definition upstreamRequiredString :: "js_object \<Rightarrow> string \<Rightarrow> string outcome" where
  "upstreamRequiredString payload key = (case json_string (field payload key) of
     None \<Rightarrow> Inl (invalidGrant ''upstream discovery response is invalid'')
   | Some s \<Rightarrow> if trim s = [] then Inl (invalidGrant ''upstream discovery response is invalid'') else Inr s)"

definition assertEndpoint :: "js_object \<Rightarrow> string \<Rightarrow> string \<Rightarrow> unit outcome" where
  "assertEndpoint payload key expected = bindr (upstreamRequiredString payload key) (\<lambda>value.
     if value \<noteq> expected then Inl (invalidGrant (''upstream '' @ key @ '' is invalid'')) else Inr ())"

definition upstreamUrl :: "url_parser \<Rightarrow> string \<Rightarrow> string \<Rightarrow> bool \<Rightarrow> string outcome" where
  "upstreamUrl parse_url value key live = bindr (newURL parse_url value) (\<lambda>url.
     if url_protocol url \<noteq> ''http:'' \<and> url_protocol url \<noteq> ''https:'' then Inl (invalidGrant (''upstream '' @ key @ '' is invalid''))
     else if live \<and> url_protocol url \<noteq> ''https:'' then Inl (invalidGrant (''upstream '' @ key @ '' must use https''))
     else if url_username url \<noteq> [] \<or> url_password url \<noteq> [] \<or> url_hash url \<noteq> []
     then Inl (invalidGrant (''upstream '' @ key @ '' is invalid''))
     else Inr (strip_slash (url_href url)))"

definition optionalAlgorithms :: "json option \<Rightarrow> jws_algorithm list outcome" where
  "optionalAlgorithms value = (case value of
     None \<Rightarrow> Inr []
   | Some (JArr vs) \<Rightarrow> Inr (concat (map (\<lambda>v. case supportedAlgorithms (Some (JArr [v])) of Inl e \<Rightarrow> [] | Inr algs \<Rightarrow> algs)
       (filter (\<lambda>v. json_string (Some v) \<noteq> None \<and> v \<noteq> JStr ''none'') vs)))
   | Some _ \<Rightarrow> Inl (invalidGrant ''upstream discovery response is invalid''))"

definition fetchUpstreamProviderMetadata :: "'k upstream \<Rightarrow> service_config \<Rightarrow> provider_metadata outcome" where
  "fetchUpstreamProviderMetadata up config =
    (let uc = upstreamOidc config in
     bindr (fetchJsonObject up (uc_discoveryUrl uc)) (\<lambda>payload.
     bindr (upstreamRequiredString payload ''issuer'') (\<lambda>iss.
       if iss \<noteq> uc_issuer uc then Inl (invalidGrant ''upstream discovery issuer is invalid'')
       else
       bindr (assertEndpoint payload ''authorization_endpoint'' (uc_authorizationUrl uc)) (\<lambda>_.
       bindr (assertEndpoint payload ''token_endpoint'' (uc_tokenUrl uc)) (\<lambda>_.
       bindr (assertEndpoint payload ''userinfo_endpoint'' (uc_userinfoUrl uc)) (\<lambda>_.
       bindr (bindr (upstreamRequiredString payload ''jwks_uri'') (\<lambda>uri. upstreamUrl (up_parseUrl up) uri ''jwks_uri'' (production config))) (\<lambda>uri.
       bindr (supportedAlgorithms (field payload ''id_token_signing_alg_values_supported'')) (\<lambda>idAlgs.
       bindr (optionalAlgorithms (field payload ''userinfo_signing_alg_values_supported'')) (\<lambda>infoAlgs.
         Inr \<lparr> pm_issuer = iss, pm_jwksUri = uri, pm_idTokenAlgorithms = idAlgs, pm_userinfoAlgorithms = infoAlgs \<rparr>)))))))))"

definition fetchUpstreamJwks :: "'k upstream \<Rightarrow> provider_metadata \<Rightarrow> bool \<Rightarrow> js_object list outcome" where
  "fetchUpstreamJwks up metadata live =
    bindr (upstreamUrl (up_parseUrl up) (pm_jwksUri metadata) ''jwks_uri'' live) (\<lambda>_.
    bindr (fetchJsonObject up (pm_jwksUri metadata)) (\<lambda>payload.
      case field payload ''keys'' of
        Some (JArr vs) \<Rightarrow> Inr (List.map_filter (\<lambda>v. json_object (Some v)) vs)
      | _ \<Rightarrow> Inl (invalidGrant ''upstream JWKS response is invalid'')))"

section \<open>The exchange of a code\<close>

record upstream_tokens =
  ut_accessToken :: string
  ut_tokenType :: string
  ut_idToken :: string

definition upstreamTokenRequest :: "upstream_config \<Rightarrow> string \<Rightarrow> string \<Rightarrow> upstream_request" where
  "upstreamTokenRequest uc upstreamCode codeVerifier =
    (let body = [(''grant_type'', ''authorization_code''), (''code'', upstreamCode), (''redirect_uri'', uc_redirectUri uc),
           (''code_verifier'', codeVerifier)];
         headers = [(''content-type'', ''application/x-www-form-urlencoded''), (''accept'', ''application/json'')] in
     if uc_tokenEndpointAuthMethod uc = Upstream_post
     then \<lparr> uq_url = uc_tokenUrl uc, uq_headers = headers,
            uq_form = Some (body @ [(''client_id'', uc_clientId uc), (''client_secret'', uc_clientSecret uc)]) \<rparr>
     else \<lparr> uq_url = uc_tokenUrl uc, uq_headers = headers @ [(''authorization'', ''Basic '' @
              padded (map std_alphabet (base64url (utf8 (uc_clientId uc @ '':'' @ uc_clientSecret uc)))))],
            uq_form = Some body \<rparr>)"

definition nonBlankText :: "json option \<Rightarrow> string outcome" where
  "nonBlankText value = (case json_string value of
     None \<Rightarrow> Inl (invalidGrant ''upstream token response is invalid'')
   | Some s \<Rightarrow> if trim s = [] then Inl (invalidGrant ''upstream token response is invalid'') else Inr s)"

definition tokenRequest :: "'k upstream \<Rightarrow> upstream_config \<Rightarrow> string \<Rightarrow> string \<Rightarrow> upstream_tokens outcome" where
  "tokenRequest up uc upstreamCode codeVerifier =
    bindr (up_fetch up (upstreamTokenRequest uc upstreamCode codeVerifier)) (\<lambda>response.
    bindr (metadataObject response ''upstream response is invalid'') (\<lambda>payload.
      if \<not> ur_ok response then Inl (invalidGrant ''upstream token exchange failed'')
      else bindr (nonBlankText (field payload ''access_token'')) (\<lambda>accessToken.
        case json_string (field payload ''token_type'') of
          None \<Rightarrow> Inl (invalidGrant ''upstream token response is invalid'')
        | Some tokenType \<Rightarrow>
            if to_lower tokenType \<noteq> ''bearer'' then Inl (invalidGrant ''upstream token response is invalid'')
            else bindr (nonBlankText (field payload ''id_token'')) (\<lambda>idToken.
              Inr \<lparr> ut_accessToken = accessToken, ut_tokenType = tokenType, ut_idToken = idToken \<rparr>))))"

definition upstreamIsCompactJwt :: "string \<Rightarrow> bool" where
  "upstreamIsCompactJwt value =
    (let parts = split_on CHR ''.'' value in
     length parts = 3 \<and> list_all (\<lambda>part. part \<noteq> [] \<and> list_all is_base64url_char part) parts)"

definition userinfoRequest ::
  "'k upstream \<Rightarrow> service_config \<Rightarrow> provider_metadata \<Rightarrow> js_object list \<Rightarrow> string \<Rightarrow> string \<Rightarrow> user_profile outcome" where
  "userinfoRequest up config metadata jwks accessToken idTokenSubject =
    bindr (up_fetch up \<lparr> uq_url = uc_userinfoUrl (upstreamOidc config),
        uq_headers = [(''authorization'', ''Bearer '' @ accessToken), (''accept'', ''application/json, application/jwt'')],
        uq_form = None \<rparr>) (\<lambda>response.
      if \<not> ur_ok response then Inl (invalidGrant ''upstream userinfo request failed'')
      else if to_lower (trim (hd (split_on CHR '';'' (case ur_contentType response of None \<Rightarrow> [] | Some t \<Rightarrow> t)))) = ''application/jwt'' \<or>
          upstreamIsCompactJwt (trim (ur_body response)) then
        (if pm_userinfoAlgorithms metadata = [] then Inl (invalidGrant ''upstream signed userinfo is unsupported'')
         else bindr (upstreamVerifyJwt up (trim (ur_body response)) jwks (pm_userinfoAlgorithms metadata)) (\<lambda>(alg, payload).
           validateUpstreamUserinfo config payload idTokenSubject True))
      else bindr (metadataObject response ''upstream userinfo response is invalid'') (\<lambda>payload.
        validateUpstreamUserinfo config payload idTokenSubject False))"

definition exchangeUpstreamCode ::
  "'k upstream \<Rightarrow> service_config \<Rightarrow> string \<Rightarrow> string \<Rightarrow> string \<Rightarrow> int \<Rightarrow> user_profile outcome" where
  "exchangeUpstreamCode up config upstreamCode codeVerifier upstreamNonce now =
    bindr (fetchUpstreamProviderMetadata up config) (\<lambda>metadata.
    bindr (fetchUpstreamJwks up metadata (production config)) (\<lambda>jwks.
    bindr (tokenRequest up (upstreamOidc config) upstreamCode codeVerifier) (\<lambda>tokens.
    bindr (upstreamVerifyJwt up (ut_idToken tokens) jwks (pm_idTokenAlgorithms metadata)) (\<lambda>(alg, payload).
    bindr (validateUpstreamIdToken up config payload alg upstreamNonce (ut_accessToken tokens) now) (\<lambda>sub.
      userinfoRequest up config metadata jwks (ut_accessToken tokens) sub)))))"

section \<open>What an accepted login guarantees\<close>

lemma subject_eq_Inr: "subject v m = Inr s \<longleftrightarrow> v = Some (JStr s) \<and> trim s \<noteq> [] \<and> length s \<le> 256 \<and> \<not> list_ex (\<lambda>c. code c = 10 \<or> code c = 13) s"
  by (auto simp: subject_def split: option.splits if_splits)

lemma validateUpstreamIdToken_ok:
  assumes "validateUpstreamIdToken up config payload alg upstreamNonce accessToken now = Inr s"
  shows "field payload ''iss'' = Some (JStr (uc_issuer (upstreamOidc config)))"
    and "audienceIsOnlyClient (field payload ''aud'') (uc_clientId (upstreamOidc config))"
    and "field payload ''nonce'' = Some (JStr upstreamNonce)" and "field payload ''sub'' = Some (JStr s)"
    and "\<exists>expiry. seconds (field payload ''exp'') = Inr expiry \<and> now - 60 < expiry"
    and "\<exists>iat. seconds (field payload ''iat'') = Inr iat \<and> iat \<le> now + 60"
    and "field payload ''at_hash'' = None \<or> field payload ''at_hash'' = Some (JStr (accessTokenHash up accessToken alg))"
proof -
  obtain expiry iat where e: "seconds (field payload ''exp'') = Inr expiry" "now - 60 < expiry" "seconds (field payload ''iat'') = Inr iat" "iat \<le> now + 60"
    and rest: "field payload ''iss'' = Some (JStr (uc_issuer (upstreamOidc config)))"
      "audienceIsOnlyClient (field payload ''aud'') (uc_clientId (upstreamOidc config))"
      "field payload ''nonce'' = Some (JStr upstreamNonce)"
      "field payload ''at_hash'' = None \<or> field payload ''at_hash'' = Some (JStr (accessTokenHash up accessToken alg))"
      "subject (field payload ''sub'') ''upstream ID token subject is invalid'' = Inr s"
    using assms unfolding validateUpstreamIdToken_def if_Inl_eq_Inr bindr_eq_Inr not_not not_le not_less
    by (elim exE conjE, intro that) (assumption | blast)+
  then show "field payload ''iss'' = Some (JStr (uc_issuer (upstreamOidc config)))"
    "audienceIsOnlyClient (field payload ''aud'') (uc_clientId (upstreamOidc config))"
    "field payload ''nonce'' = Some (JStr upstreamNonce)" "field payload ''sub'' = Some (JStr s)"
    "\<exists>expiry. seconds (field payload ''exp'') = Inr expiry \<and> now - 60 < expiry"
    "\<exists>iat. seconds (field payload ''iat'') = Inr iat \<and> iat \<le> now + 60"
    "field payload ''at_hash'' = None \<or> field payload ''at_hash'' = Some (JStr (accessTokenHash up accessToken alg))"
    by (auto simp: subject_eq_Inr)
qed

lemma profile_sub:
  assumes "userProfileFromUpstream (Some (JObj payload)) = Inr p" "field payload ''sub'' = Some (JStr s)" shows "up_sub p = trim s"
proof -
  obtain sub where "requiredProfileClaim (field payload ''sub'') ''sub'' = Inr sub" "up_sub p = sub"
    using assms(1) by (auto simp: userProfileFromUpstream_def validateUserProfile_def bindr_eq_Inr Let_def)
  then show ?thesis
    using assms(2) by (auto simp: requiredProfileClaim_def optionalProfileClaim_def bindr_eq_Inr Let_def split: if_splits option.splits)
qed

lemma validateUpstreamUserinfo_ok:
  assumes "validateUpstreamUserinfo config payload idTokenSubject isSigned = Inr p"
  shows "field payload ''sub'' = Some (JStr idTokenSubject) \<and> up_sub p = trim idTokenSubject"
proof -
  have sub: "field payload ''sub'' = Some (JStr idTokenSubject)"
    and "try_catch (userProfileFromUpstream (Some (JObj payload))) (\<lambda>_. Inl (invalidGrant ''upstream userinfo response is invalid'')) = Inr p"
    using assms by (auto simp: validateUpstreamUserinfo_def bindr_eq_Inr subject_eq_Inr split: if_splits)
  then have "userProfileFromUpstream (Some (JObj payload)) = Inr p"
    by (auto simp: try_catch_def split: sum.splits)
  with sub show ?thesis using profile_sub by blast
qed

text \<open>A token accepted by \<open>upstreamVerifyJwt\<close>: its signature verifies under the only key of the set that
  fits, with an algorithm that is allowed.\<close>

definition signed_by_provider ::
  "'k upstream \<Rightarrow> js_object list \<Rightarrow> jws_algorithm list \<Rightarrow> string \<Rightarrow> jws_algorithm \<Rightarrow> js_object \<Rightarrow> bool" where
  "signed_by_provider up jwks allowed token alg payload = (alg \<in> set allowed \<and>
     (\<exists>h p s kid key k. split_on CHR ''.'' token = [h, p, s] \<and> key_candidates jwks alg kid = [key] \<and> up_importKey up key = Some k \<and>
        up_verify up k (hashByAlgorithm alg) (schemeOf alg) (h @ ''.'' @ p) s = Some True \<and>
        decodeJsonBase64Url p = Inr (JObj payload)))"

lemma selectKey_ok:
  assumes "selectKey up jwks (alg, kid) = Inr k"
  shows "\<exists>key. key_candidates jwks alg kid = [key] \<and> up_importKey up key = Some k"
  using assms by (auto simp: selectKey_def split: list.splits option.splits if_splits)

lemma upstreamJwtHeader_ok: "upstreamJwtHeader value allowed = Inr (alg, kid) \<Longrightarrow> alg \<in> set allowed"
  by (auto simp: upstreamJwtHeader_def split: option.splits if_splits)

lemma upstreamVerifyJwt_ok:
  assumes "upstreamVerifyJwt up token jwks allowed = Inr (alg, payload)"
  shows "signed_by_provider up jwks allowed token alg payload"
proof -
  obtain h p s hv kid k v where parts: "upstreamJwtParts token = Inr (h, p, s)"
    and header: "upstreamJwtHeader hv allowed = Inr (alg, kid)" and key: "selectKey up jwks (alg, kid) = Inr k"
    and valid: "verifySignature up k alg (h @ ''.'' @ p) s = Inr True" and payload: "upstreamDecodeJson p = Inr v" "json_object (Some v) = Some payload"
    using assms by (auto simp: upstreamVerifyJwt_def bindr_eq_Inr split: if_splits option.splits)
  have "split_on CHR ''.'' token = [h, p, s]"
    using parts by (auto simp: upstreamJwtParts_def split: if_splits list.splits)
  moreover have "up_verify up k (hashByAlgorithm alg) (schemeOf alg) (h @ ''.'' @ p) s = Some True"
    using valid by (auto simp: verifySignature_def split: option.splits)
  moreover have "decodeJsonBase64Url p = Inr (JObj payload)"
    using payload by (auto simp: upstreamDecodeJson_def try_catch_def split: sum.splits)
  ultimately show ?thesis
    using upstreamJwtHeader_ok [OF header] selectKey_ok [OF key] by (auto simp: signed_by_provider_def)
qed

text \<open>C5: a login succeeds only with an id token of the configured provider: signed, with an algorithm the
  provider announces, by the one key of its key set that fits, issued for this service alone, unexpired,
  with the nonce of this very login and, when it binds an access token, bound to the one that is then
  used; and the profile is that of the same subject.\<close>

theorem upstream_login_sound:
  assumes "exchangeUpstreamCode up config upstreamCode codeVerifier upstreamNonce now = Inr profile"
  shows "\<exists>metadata jwks tokens alg payload s expiry. fetchUpstreamProviderMetadata up config = Inr metadata \<and>
    fetchUpstreamJwks up metadata (production config) = Inr jwks \<and>
    tokenRequest up (upstreamOidc config) upstreamCode codeVerifier = Inr tokens \<and>
    signed_by_provider up jwks (pm_idTokenAlgorithms metadata) (ut_idToken tokens) alg payload \<and>
    field payload ''iss'' = Some (JStr (uc_issuer (upstreamOidc config))) \<and>
    audienceIsOnlyClient (field payload ''aud'') (uc_clientId (upstreamOidc config)) \<and>
    field payload ''nonce'' = Some (JStr upstreamNonce) \<and>
    seconds (field payload ''exp'') = Inr expiry \<and> now - 60 < expiry \<and>
    (field payload ''at_hash'' = None \<or> field payload ''at_hash'' = Some (JStr (accessTokenHash up (ut_accessToken tokens) alg))) \<and>
    field payload ''sub'' = Some (JStr s) \<and> up_sub profile = trim s"
proof -
  obtain metadata jwks tokens alg payload s where
    m: "fetchUpstreamProviderMetadata up config = Inr metadata" "fetchUpstreamJwks up metadata (production config) = Inr jwks"
      "tokenRequest up (upstreamOidc config) upstreamCode codeVerifier = Inr tokens"
    and verified: "upstreamVerifyJwt up (ut_idToken tokens) jwks (pm_idTokenAlgorithms metadata) = Inr (alg, payload)"
    and claims: "validateUpstreamIdToken up config payload alg upstreamNonce (ut_accessToken tokens) now = Inr s"
    and info: "userinfoRequest up config metadata jwks (ut_accessToken tokens) s = Inr profile"
    using assms by (auto simp: exchangeUpstreamCode_def bindr_eq_Inr)
  have "up_sub profile = trim s"
    using info by (auto simp: userinfoRequest_def bindr_eq_Inr split: if_splits dest: validateUpstreamUserinfo_ok)
  with m validateUpstreamIdToken_ok [OF claims] upstreamVerifyJwt_ok [OF verified] show ?thesis by blast
qed

section \<open>A login\<close>

definition sample_upstream_config :: upstream_config where
  "sample_upstream_config = \<lparr> uc_issuer = ''https://up'', uc_discoveryUrl = ''https://up/d'', uc_authorizationUrl = ''https://up/a'',
     uc_tokenUrl = ''https://up/t'', uc_userinfoUrl = ''https://up/u'', uc_clientId = ''svc'', uc_clientSecret = ''x'',
     uc_redirectUri = ''https://svc/cb'', uc_scopes = [''openid''], uc_tokenEndpointAuthMethod = Upstream_post \<rparr>"

definition discovery_document :: js_object where
  "discovery_document = [(''issuer'', JStr ''https://up''), (''authorization_endpoint'', JStr ''https://up/a''),
     (''token_endpoint'', JStr ''https://up/t''), (''userinfo_endpoint'', JStr ''https://up/u''), (''jwks_uri'', JStr ''https://up/k''),
     (''id_token_signing_alg_values_supported'', JArr [JStr ''ES256''])]"

definition jwks_document :: js_object where
  "jwks_document = [(''keys'', JArr [JObj [(''kid'', JStr ''k''), (''kty'', JStr ''EC'')]])]"

definition id_token_header :: js_object where
  "id_token_header = [(''alg'', JStr ''ES256''), (''kid'', JStr ''k'')]"

definition id_token_payload :: js_object where
  "id_token_payload = [(''iss'', JStr ''https://up''), (''aud'', JStr ''svc''), (''exp'', JInt 100), (''iat'', JInt 1), (''nonce'', JStr ''n''),
     (''sub'', JStr ''u'')]"

definition sample_id_token :: string where
  "sample_id_token = encodeJsonBase64Url (JObj id_token_header) @ ''.'' @ encodeJsonBase64Url (JObj id_token_payload) @ ''.s''"

definition token_document :: js_object where
  "token_document = [(''access_token'', JStr ''at''), (''token_type'', JStr ''Bearer''), (''id_token'', JStr sample_id_token)]"

definition userinfo_document :: js_object where
  "userinfo_document = [(''sub'', JStr ''u''), (''email'', JStr ''a@b.c''), (''email_verified'', JBool True)]"

definition sample_documents :: "string \<Rightarrow> js_object" where
  "sample_documents url = (if url = ''https://up/d'' then discovery_document else if url = ''https://up/k'' then jwks_document
     else if url = ''https://up/t'' then token_document else userinfo_document)"

definition sample_upstream :: "string upstream" where
  "sample_upstream = \<lparr> up_fetch = (\<lambda>request. Inr \<lparr> ur_ok = True, ur_contentType = Some ''application/json'',
       ur_body = json_text (JObj (sample_documents (uq_url request))) \<rparr>),
     up_parseUrl = sample_url_parser, up_importKey = (\<lambda>key. Some ''key''), up_verify = (\<lambda>key sha scheme input signature. Some (signature = ''s'')),
     up_digest = (\<lambda>sha token. []) \<rparr>"

lemma split_token:
  "split_on CHR ''.'' (encodeJsonBase64Url h @ ''.'' @ encodeJsonBase64Url p @ ''.s'') = [encodeJsonBase64Url h, encodeJsonBase64Url p, ''s'']"
  using encoded_no_dot [of "json_text h"] encoded_no_dot [of "json_text p"]
  by (simp add: encodeJsonBase64Url_def split_on_append split_on_absent del: json_text.simps)

lemma sample_documents_printable: "printable (JObj (sample_documents url))"
  by (simp add: sample_documents_def discovery_document_def jwks_document_def token_document_def userinfo_document_def)

lemma sample_documents_read:
  "metadataObject \<lparr> ur_ok = True, ur_contentType = t, ur_body = json_text (JObj (sample_documents url)) \<rparr> m = Inr (sample_documents url)"
  using json_parse_text [OF sample_documents_printable] by (simp add: metadataObject_def del: json_text.simps)

lemma documents_at:
  "sample_documents ''https://up/t'' = token_document" "sample_documents ''https://up/u'' = userinfo_document"
  by (simp_all add: sample_documents_def)

lemmas documents_read = sample_documents_read [of _ "''https://up/t''", unfolded documents_at]
  sample_documents_read [of _ "''https://up/u''", unfolded documents_at]

definition login_config :: service_config where
  "login_config = \<lparr> issuer = ''https://id.example'', mcpResource = ''https://api/mcp'', actionsAudience = ''https://api/actions'',
     widgetDomain = [], oauthStoreBackend = Backend_file, oauthStorePath = [],
     oauthDynamoDb = \<lparr> dc_tableName = [], dc_region = [], dc_endpoint = None \<rparr>, allowedOrigins = [],
     accessTokenTtlSeconds = 300, idTokenTtlSeconds = 300, authorizationCodeTtlSeconds = 60, refreshTokenTtlSeconds = 1000,
     rateLimitWindowSeconds = 60, rateLimitMaxRequests = 10, rateLimitPolicies = [(''oauth-authorize'', \<lparr> windowSeconds = 60, maxRequests = 10 \<rparr>)], mcpListPageSize = 10, mcpSseMaxConnections = 5,
     upstreamOidc = sample_upstream_config, production = False \<rparr>"

definition sample_provider :: provider_metadata where
  "sample_provider = \<lparr> pm_issuer = ''https://up'', pm_jwksUri = ''https://up/k'', pm_idTokenAlgorithms = [ES256], pm_userinfoAlgorithms = [] \<rparr>"

lemma sample_fetch:
  "up_fetch sample_upstream request = Inr \<lparr> ur_ok = True, ur_contentType = Some ''application/json'',
     ur_body = json_text (JObj (sample_documents (uq_url request))) \<rparr>"
  "up_parseUrl sample_upstream = sample_url_parser"
  by (simp_all add: sample_upstream_def)

lemma sample_json: "fetchJsonObject sample_upstream url = Inr (sample_documents url)"
  by (simp add: fetchJsonObject_def sample_fetch sample_documents_read del: json_text.simps)

lemma sample_metadata_fetched: "fetchUpstreamProviderMetadata sample_upstream login_config = Inr sample_provider"
proof -
  have "upstreamRequiredString discovery_document ''issuer'' = Inr ''https://up''"
    "assertEndpoint discovery_document ''authorization_endpoint'' ''https://up/a'' = Inr ()"
    "assertEndpoint discovery_document ''token_endpoint'' ''https://up/t'' = Inr ()"
    "assertEndpoint discovery_document ''userinfo_endpoint'' ''https://up/u'' = Inr ()"
    "upstreamRequiredString discovery_document ''jwks_uri'' = Inr ''https://up/k''"
    "upstreamUrl sample_url_parser ''https://up/k'' ''jwks_uri'' False = Inr ''https://up/k''"
    "supportedAlgorithms (field discovery_document ''id_token_signing_alg_values_supported'') = Inr [ES256]"
    "optionalAlgorithms (field discovery_document ''userinfo_signing_alg_values_supported'') = Inr []"
    by code_simp+
  moreover have "upstreamOidc login_config = sample_upstream_config" "production login_config = False"
    "sample_documents ''https://up/d'' = discovery_document"
    by (simp_all add: login_config_def sample_documents_def)
  ultimately show ?thesis
    by (simp add: fetchUpstreamProviderMetadata_def sample_json sample_fetch Let_def sample_upstream_config_def sample_provider_def)
qed

lemma sample_keys_fetched:
  "fetchUpstreamJwks sample_upstream sample_provider False = Inr [[(''kid'', JStr ''k''), (''kty'', JStr ''EC'')]]"
proof -
  have "upstreamUrl sample_url_parser ''https://up/k'' ''jwks_uri'' False = Inr ''https://up/k''" by code_simp
  then show ?thesis
    by (simp add: fetchUpstreamJwks_def sample_json sample_fetch sample_provider_def sample_documents_def jwks_document_def
        List.map_filter_def)
qed

lemma sample_tokens_fetched:
  "tokenRequest sample_upstream sample_upstream_config c v = Inr \<lparr> ut_accessToken = ''at'', ut_tokenType = ''Bearer'', ut_idToken = sample_id_token \<rparr>"
proof -
  have "trim ''at'' \<noteq> []" "to_lower ''Bearer'' = ''bearer''" by code_simp+
  moreover have "trim sample_id_token \<noteq> []"
    by (rule trim_not_blank [of "CHR ''s''"]) (simp add: sample_id_token_def, code_simp)
  moreover have "sample_documents (uq_url (upstreamTokenRequest sample_upstream_config c v)) = token_document"
    by (simp add: upstreamTokenRequest_def sample_upstream_config_def sample_documents_def Let_def)
  moreover have "field token_document ''access_token'' = Some (JStr ''at'')" "field token_document ''token_type'' = Some (JStr ''Bearer'')"
    "field token_document ''id_token'' = Some (JStr sample_id_token)"
    by (simp_all add: token_document_def)
  ultimately show ?thesis
    by (simp add: tokenRequest_def sample_fetch documents_read nonBlankText_def del: json_text.simps)
qed

lemma sample_id_token_verified:
  "upstreamVerifyJwt sample_upstream sample_id_token [[(''kid'', JStr ''k''), (''kty'', JStr ''EC'')]] [ES256] = Inr (ES256, id_token_payload)"
proof -
  let ?h = "JObj id_token_header" and ?p = "JObj id_token_payload"
  have printable: "printable ?h" "printable ?p" by (simp_all add: id_token_header_def id_token_payload_def max_safe_integer_def)
  have "length (json_text ?h) < 100" "length (json_text ?p) < 1000" by code_simp+
  then have "length (encodeJsonBase64Url ?h) < 400" "length (encodeJsonBase64Url ?p) < 4000"
    using length_encoded [of ?h] length_encoded [of ?p] by linarith+
  then have "length sample_id_token \<le> 16384" by (simp add: sample_id_token_def del: json_text.simps)
  then have parts: "upstreamJwtParts sample_id_token = Inr (encodeJsonBase64Url ?h, encodeJsonBase64Url ?p, ''s'')"
    using split_token [of ?h ?p] encoded_json(2) [OF printable(1)] encoded_json(2) [OF printable(2)]
    by (simp add: upstreamJwtParts_def sample_id_token_def)
  have decoded: "upstreamDecodeJson (encodeJsonBase64Url ?h) = Inr ?h" "upstreamDecodeJson (encodeJsonBase64Url ?p) = Inr ?p"
    unfolding upstreamDecodeJson_def json_base64_round_trip [OF printable(1)] json_base64_round_trip [OF printable(2)] by simp_all
  have header: "upstreamJwtHeader ?h [ES256] = Inr (ES256, ''k'')" by code_simp
  have key: "key_candidates [[(''kid'', JStr ''k''), (''kty'', JStr ''EC'')]] ES256 ''k'' = [[(''kid'', JStr ''k''), (''kty'', JStr ''EC'')]]"
    by code_simp
  show ?thesis
    by (simp add: upstreamVerifyJwt_def parts decoded header selectKey_def key verifySignature_def sample_upstream_def)
qed

lemma sample_login:
  obtains p where "exchangeUpstreamCode sample_upstream login_config ''c'' ''v'' ''n'' 50 = Inr p"
    "validateUpstreamUserinfo login_config userinfo_document ''u'' False = Inr p"
proof -
  have config: "upstreamOidc login_config = sample_upstream_config" "production login_config = False"
    by (simp_all add: login_config_def)
  have claims: "validateUpstreamIdToken sample_upstream login_config id_token_payload ES256 ''n'' ''at'' 50 = Inr ''u''"
    by code_simp
  have "case validateUpstreamUserinfo login_config userinfo_document ''u'' False of Inr p \<Rightarrow> True | Inl e \<Rightarrow> False"
    by code_simp
  then obtain p where p: "validateUpstreamUserinfo login_config userinfo_document ''u'' False = Inr p" by (auto split: sum.splits)
  have "split_on CHR '';'' ''application/json'' = [''application/json'']" "to_lower (trim ''application/json'') \<noteq> ''application/jwt''"
    "sample_documents ''https://up/u'' = userinfo_document"
    by (code_simp, code_simp, simp add: sample_documents_def)
  moreover have "\<not> upstreamIsCompactJwt (trim (json_text (JObj userinfo_document)))" by code_simp
  ultimately have info: "userinfoRequest sample_upstream login_config sample_provider jwks ''at'' ''u'' = Inr p" for jwks
    using p by (simp add: userinfoRequest_def sample_fetch config sample_upstream_config_def
        documents_read documents_at del: json_text.simps)
  have "exchangeUpstreamCode sample_upstream login_config ''c'' ''v'' ''n'' 50 = Inr p"
    using sample_metadata_fetched sample_keys_fetched sample_tokens_fetched sample_id_token_verified claims info
    by (simp add: exchangeUpstreamCode_def config sample_provider_def)
  then show ?thesis using that p by blast
qed

theorem upstream_login_sound_witness:
  "\<exists>profile. exchangeUpstreamCode sample_upstream login_config ''c'' ''v'' ''n'' 50 = Inr profile \<and> up_sub profile = ''u''"
proof -
  obtain p where p: "validateUpstreamUserinfo login_config userinfo_document ''u'' False = Inr p"
    and exchanged: "exchangeUpstreamCode sample_upstream login_config ''c'' ''v'' ''n'' 50 = Inr p"
    using sample_login by blast
  obtain alg payload s where "field payload ''sub'' = Some (JStr s)" "up_sub p = trim s"
    using upstream_login_sound [OF exchanged] by blast
  moreover have "up_sub p = ''u''"
    using validateUpstreamUserinfo_ok [OF p] by (simp add: trim_no_ws is_ws_def)
  ultimately show ?thesis using exchanged by blast
qed

end
