(* ===== verification/Authorize.thy ===== *)
theory Authorize
  imports Http Grants Upstream_Oidc
begin

text \<open>
  The endpoints of the authorization server: rate limits (\<open>auth/rate-limit.ts\<close>), the authorization
  request (\<open>auth/authorize.ts\<close>, \<open>auth/upstream-authorization.ts\<close>), and the handlers
  \<open>auth/endpoints.*.ts\<close>, \<open>auth/handler.ts\<close>, \<open>auth/startup.ts\<close>, \<open>auth/discovery.ts\<close>.  A handler maps a
  request and the state to a response and a state; \<open>new URL\<close> followed by \<open>searchParams.set\<close> is the
  parameter \<open>with_params\<close>.
\<close>

section \<open>Rate limits\<close>

definition rateLimitKey :: "(string \<Rightarrow> string) \<Rightarrow> string \<Rightarrow> string \<Rightarrow> string" where
  "rateLimitKey sha bucket subj =
    (let normalized = (if trim subj = [] then ''anonymous'' else trim subj) in bucket @ '':'' @ sha normalized)"

definition enforceRateLimit ::
  "(string \<Rightarrow> string) \<Rightarrow> 's oauth_store \<Rightarrow> service_config \<Rightarrow> string \<Rightarrow> string \<Rightarrow> int \<Rightarrow> 's \<Rightarrow> unit outcome \<times> 's" where
  "enforceRateLimit sha store config bucket subj now st =
    (case map_of (rateLimitPolicies config) bucket of
       None \<Rightarrow> (Inl (PlainError ''unknown bucket''), st)
     | Some limits \<Rightarrow> (case store (Hit (rateLimitKey sha bucket subj) limits) now st of
         (Done, st') \<Rightarrow> (Inr (), st') | (Threw e, st') \<Rightarrow> (Inl e, st') | (_, st') \<Rightarrow> (Inl unexpected_result, st')))"

definition clientRateSubject :: "string option \<Rightarrow> string \<Rightarrow> string" where
  "clientRateSubject cid fallback = (case cid of
     None \<Rightarrow> ''remote:'' @ fallback
   | Some c \<Rightarrow> if trim c = [] then ''remote:'' @ fallback else ''client:'' @ c)"

definition basicClientId :: "string option \<Rightarrow> string option" where
  "basicClientId authorization = (case authorizationCredentials authorization ''Basic'' of
     None \<Rightarrow> None
   | Some credentials \<Rightarrow> map_option bc_clientId (decodeBasicCredentials credentials))"

definition tokenRateSubject :: "params \<Rightarrow> string option \<Rightarrow> string \<Rightarrow> string" where
  "tokenRateSubject form authorization fallback = (case get_param form ''client_id'' of
     Some c \<Rightarrow> if trim c = [] then clientRateSubject (basicClientId authorization) fallback else clientRateSubject (Some c) fallback
   | None \<Rightarrow> clientRateSubject (basicClientId authorization) fallback)"

section \<open>The authorization request\<close>

record authorization_request =
  aq_responseType :: string
  aq_clientId :: string
  aq_redirectUri :: string
  aq_scope :: "string option"
  aq_state :: "string option"
  aq_resource :: "string option"
  aq_codeChallenge :: "string option"
  aq_codeChallengeMethod :: "string option"
  aq_nonce :: "string option"
  aq_idTokenHint :: "string option"

record validated_authorization =
  va_clientId :: string
  va_redirectUri :: string
  va_resource :: string
  va_scopes :: "string list"
  va_clientState :: string
  va_nonce :: "string option"
  va_codeChallenge :: "string option"
  va_methodS256 :: bool

record login_draws =
  ld_codeVerifier :: string
  ld_upstreamNonce :: string
  ld_state :: string
  ld_storeAt :: int
  ld_instants :: "int \<times> int"

type_synonym param_setter = "string \<Rightarrow> params \<Rightarrow> string outcome"

definition createLoginRedirect ::
  "(string \<Rightarrow> string) \<Rightarrow> param_setter \<Rightarrow> 's oauth_store \<Rightarrow> service_config \<Rightarrow> validated_authorization \<Rightarrow> login_draws \<Rightarrow> 's \<Rightarrow>
     string outcome \<times> 's" where
  "createLoginRedirect sha with_params store config request draws st =
    andThen (storeCreate store (CreateState (ld_state draws)
        \<lparr> ui_clientId = va_clientId request, ui_redirectUri = va_redirectUri request, ui_resource = va_resource request,
          ui_scopes = va_scopes request, ui_clientState = va_clientState request, ui_codeVerifier = ld_codeVerifier draws,
          ui_upstreamNonce = ld_upstreamNonce draws, ui_nonce = va_nonce request, ui_codeChallenge = va_codeChallenge request,
          ui_methodS256 = va_methodS256 request, ui_ttlSeconds = authorizationCodeTtlSeconds config \<rparr>)
        (ld_state draws) (ld_storeAt draws) st) (\<lambda>state st'.
      (with_params (uc_authorizationUrl (upstreamOidc config))
        [(''response_type'', ''code''), (''client_id'', uc_clientId (upstreamOidc config)),
         (''redirect_uri'', uc_redirectUri (upstreamOidc config)), (''scope'', join_with '' '' (uc_scopes (upstreamOidc config))),
         (''state'', state), (''nonce'', ld_upstreamNonce draws), (''code_challenge'', sha (ld_codeVerifier draws)),
         (''code_challenge_method'', ''S256'')], st')) id"

text \<open>The checks of \<open>createAuthorizationRedirect\<close> that follow the look-up of the client.\<close>

definition validateAuthorization :: "url_parser \<Rightarrow> oauth_client \<Rightarrow> authorization_request \<Rightarrow> string \<Rightarrow> validated_authorization outcome" where
  "validateAuthorization parse_url client request state =
    bindr (assertRedirectUri client (aq_redirectUri request)) (\<lambda>_.
    bindr (resolveOAuthAuthorizationResource parse_url client (aq_resource request)) (\<lambda>resource.
    bindr (parseScopes (aq_scope request)) (\<lambda>scopes.
    bindr (assertAllowedScopes scopes (allowedScopes client)) (\<lambda>_.
    bindr (pkceInput (pkcePolicy client) (aq_codeChallenge request) (aq_codeChallengeMethod request)) (\<lambda>challenge.
    bindr (oidcNonce (aq_nonce request)) (\<lambda>nonce.
      Inr \<lparr> va_clientId = clientId client, va_redirectUri = aq_redirectUri request, va_resource = resource, va_scopes = scopes,
            va_clientState = state, va_nonce = nonempty_text nonce, va_codeChallenge = challenge,
            va_methodS256 = (challenge \<noteq> None) \<rparr>))))))"

definition unsupported_response_error :: js_error where
  "unsupported_response_error = ServiceError Unsupported_response_type ''unsupported response_type'' 400"

definition createAuthorizationRedirect ::
  "('k, 'p) crypto \<Rightarrow> 'p outside \<Rightarrow> param_setter \<Rightarrow> 's oauth_store \<Rightarrow> service_config \<Rightarrow> oauth_client list \<Rightarrow> authorization_request \<Rightarrow>
     login_draws \<Rightarrow> ('s, 'p) auth_state \<Rightarrow> string outcome \<times> ('s, 'p) auth_state" where
  "createAuthorizationRedirect cr xo with_params store config clients request draws s =
    (case (if aq_responseType request \<noteq> ''code'' then Inl unsupported_response_error
        else bindr (oauthState (aq_state request)) (\<lambda>state. bindr (idTokenHint (aq_idTokenHint request)) (\<lambda>_. Inr state))) of
       Inl e \<Rightarrow> (Inl e, s)
     | Inr state \<Rightarrow>
         andThen (resolveClient xo config clients (aq_clientId request) (fst (ld_instants draws)) (snd (ld_instants draws)) (au_metadata s))
           (\<lambda>client metadata.
             case validateAuthorization (xo_parseUrl xo) client request state of
               Inl e \<Rightarrow> (Inl e, s \<lparr> au_metadata := metadata \<rparr>)
             | Inr validated \<Rightarrow>
                 (case createLoginRedirect (cr_sha256 cr) with_params store config validated draws (au_store s) of
                    (r, st) \<Rightarrow> (r, s \<lparr> au_metadata := metadata, au_store := st \<rparr>)))
           (\<lambda>metadata. s \<lparr> au_metadata := metadata \<rparr>))"

definition createServiceAuthorizationCode ::
  "param_setter \<Rightarrow> 's oauth_store \<Rightarrow> service_config \<Rightarrow> upstream_state_record \<Rightarrow> user_profile \<Rightarrow> string \<Rightarrow> int \<Rightarrow> 's \<Rightarrow>
     string outcome \<times> 's" where
  "createServiceAuthorizationCode with_params store config request user newCode now st =
    andThen (storeCreate store (CreateCode newCode
        \<lparr> ci_clientId = us_clientId request, ci_redirectUri = us_redirectUri request, ci_resource = us_resource request,
          ci_scopes = us_scopes request, ci_nonce = nonempty_text (us_nonce request),
          ci_codeChallenge = nonempty_text (us_codeChallenge request), ci_methodS256 = us_methodS256 request, ci_user = user,
          ci_ttlSeconds = authorizationCodeTtlSeconds config \<rparr>) newCode now st) (\<lambda>authCode st'.
      (with_params (us_redirectUri request) [(''code'', authCode), (''state'', us_clientState request)], st')) id"

section \<open>The handlers\<close>

text \<open>What the handlers find outside: the configuration, the clients, the keys, and the platform's parsers.\<close>

record ('k, 'p, 's, 'u) service =
  sv_config :: "service_config outcome"
  sv_clients :: "service_config \<Rightarrow> oauth_client list outcome"
  sv_store :: "'s oauth_store"
  sv_crypto :: "('k, 'p) crypto"
  sv_outside :: "'p outside"
  sv_upstream :: "'u upstream"
  sv_keySet :: "service_config \<Rightarrow> ('k, 'p) key_set outcome"
  sv_parseQuery :: "string \<Rightarrow> params"
  sv_withParams :: param_setter
  sv_exportJwk :: "'p \<Rightarrow> js_object"

definition limited ::
  "('k, 'p, 's, 'u) service \<Rightarrow> service_config \<Rightarrow> string \<Rightarrow> string \<Rightarrow> int \<Rightarrow> ('s, 'p) auth_state \<Rightarrow> unit outcome \<times> ('s, 'p) auth_state" where
  "limited sv config bucket subj now s =
    (case enforceRateLimit (cr_sha256 (sv_crypto sv)) (sv_store sv) config bucket subj now (au_store s) of
       (r, st) \<Rightarrow> (r, s \<lparr> au_store := st \<rparr>))"

text \<open>The \<open>catch\<close> of a handler.\<close>

definition answer :: "(js_error \<Rightarrow> http_response) \<Rightarrow> http_response outcome \<times> 's \<Rightarrow> http_response \<times> 's" where
  "answer on_error r = (case r of (Inl e, s) \<Rightarrow> (on_error e, s) | (Inr response, s) \<Rightarrow> (response, s))"

definition token_response_json :: "token_response \<Rightarrow> json" where
  "token_response_json r = JObj ([(''access_token'', JStr (tr_access_token r)), (''token_type'', JStr ''bearer''),
     (''expires_in'', JInt (tr_expires_in r)), (''refresh_token'', JStr (tr_refresh_token r)), (''scope'', JStr (tr_scope r))] @
     (case tr_id_token r of None \<Rightarrow> [] | Some t \<Rightarrow> [(''id_token'', JStr t)]))"

definition usesBasicAuthorization :: "string option \<Rightarrow> bool" where
  "usesBasicAuthorization value = (case value of
     None \<Rightarrow> False
   | Some h \<Rightarrow> to_lower (take 5 h) = ''basic'' \<and> (case drop 5 h of [] \<Rightarrow> False | c # cs \<Rightarrow> c = CHR '' '' \<or> code c = 9))"

definition tokenError :: "http_request \<Rightarrow> js_error \<Rightarrow> http_response" where
  "tokenError req error = oauthErrorResponse error
    (if usesBasicAuthorization (header req ''authorization'') \<and>
        (case as_service_error error of Some (c, m, status) \<Rightarrow> c = Invalid_client | None \<Rightarrow> False)
     then [(''www-authenticate'', ''Basic realm='' @ [dquote] @ ''oauth'' @ [dquote])] else [])"

definition tokenEndpoint ::
  "('k, 'p, 's, 'u) service \<Rightarrow> http_request \<Rightarrow> int \<Rightarrow> token_draws \<Rightarrow> ('s, 'p) auth_state \<Rightarrow> http_response \<times> ('s, 'p) auth_state" where
  "tokenEndpoint sv req now draws s = answer (tokenError req)
    (case bindr (sv_config sv) (\<lambda>config. bindr (rejectAccessTokenQuery req) (\<lambda>_.
        bindr (validateSingleAuthorizationHeader (hr_rawHeaders req)) (\<lambda>_.
        bindr (readForm (sv_parseQuery sv) req) (\<lambda>form. Inr (config, form))))) of
       Inl e \<Rightarrow> (Inl e, s)
     | Inr (config, form) \<Rightarrow>
         let authorization = Some (header_text req ''authorization'') in
         andThen (limited sv config ''oauth-token'' (tokenRateSubject form authorization (requestSubject req)) now s) (\<lambda>_ s1.
           case sv_clients sv config of
             Inl e \<Rightarrow> (Inl e, s1)
           | Inr clients \<Rightarrow>
               andThen (handleTokenGrant (sv_crypto sv) (sv_outside sv) (sv_store sv) config clients form authorization
                   (bindr (sv_keySet sv config) (\<lambda>ks. Inr (ks_active ks))) draws s1) (\<lambda>body s2.
                 (Inr (writeJson 200 (token_response_json body) noStore), s2)) id) id)"

definition authorizeParameters :: "string list" where
  "authorizeParameters = [''response_type'', ''client_id'', ''redirect_uri'', ''scope'', ''state'', ''resource'', ''code_challenge'',
     ''code_challenge_method'', ''nonce'', ''id_token_hint'', ''ui_locales'']"

definition readAuthorizationRequest :: "params \<Rightarrow> authorization_request outcome" where
  "readAuthorizationRequest query =
    bindr (assertAllowedParameters query authorizeParameters) (\<lambda>_.
    bindr (requiredParameter query ''response_type'') (\<lambda>responseType.
    bindr (requiredParameter query ''client_id'') (\<lambda>cid.
    bindr (requiredParameter query ''redirect_uri'') (\<lambda>redirectUri.
    bindr (optionalParameter query ''scope'') (\<lambda>scope.
    bindr (optionalParameter query ''state'') (\<lambda>state.
    bindr (optionalParameter query ''resource'') (\<lambda>resource.
    bindr (optionalParameter query ''code_challenge'') (\<lambda>challenge.
    bindr (optionalParameter query ''code_challenge_method'') (\<lambda>challengeMethod.
    bindr (optionalParameter query ''nonce'') (\<lambda>nonce.
    bindr (optionalParameter query ''id_token_hint'') (\<lambda>hint.
      Inr \<lparr> aq_responseType = responseType, aq_clientId = cid, aq_redirectUri = redirectUri, aq_scope = scope, aq_state = state,
            aq_resource = resource, aq_codeChallenge = challenge, aq_codeChallengeMethod = challengeMethod, aq_nonce = nonce,
            aq_idTokenHint = hint \<rparr>)))))))))))"

definition authorizeEndpoint ::
  "('k, 'p, 's, 'u) service \<Rightarrow> http_request \<Rightarrow> int \<Rightarrow> login_draws \<Rightarrow> ('s, 'p) auth_state \<Rightarrow> http_response \<times> ('s, 'p) auth_state" where
  "authorizeEndpoint sv req now draws s = answer (\<lambda>e. oauthErrorResponse e [])
    (case bindr (rejectAccessTokenQuery req) (\<lambda>_. bindr (sv_config sv) (\<lambda>config.
        bindr (requestQuery req) (\<lambda>query. Inr (config, query)))) of
       Inl e \<Rightarrow> (Inl e, s)
     | Inr (config, query) \<Rightarrow>
         andThen (limited sv config ''oauth-authorize'' (clientRateSubject (get_param query ''client_id'') (requestSubject req)) now s) (\<lambda>_ s1.
           case bindr (readAuthorizationRequest query) (\<lambda>request. bindr (sv_clients sv config) (\<lambda>clients. Inr (request, clients))) of
             Inl e \<Rightarrow> (Inl e, s1)
           | Inr (request, clients) \<Rightarrow>
               andThen (createAuthorizationRedirect (sv_crypto sv) (sv_outside sv) (sv_withParams sv) (sv_store sv) config clients request draws s1)
                 (\<lambda>location s2. (Inr (writeRedirect location), s2)) id) id)"

definition storeConsumeState :: "'s oauth_store \<Rightarrow> string \<Rightarrow> int \<Rightarrow> 's \<Rightarrow> upstream_state_record outcome \<times> 's" where
  "storeConsumeState store state now st = (case store (ConsumeState state) now st of
     (State r, st') \<Rightarrow> (Inr r, st') | (Threw e, st') \<Rightarrow> (Inl e, st') | (_, st') \<Rightarrow> (Inl unexpected_result, st'))"

text \<open>The part of the callback that follows the consumption of the state.\<close>

definition finishLogin ::
  "('k, 'p, 's, 'u) service \<Rightarrow> service_config \<Rightarrow> params \<Rightarrow> upstream_state_record \<Rightarrow> string \<Rightarrow> int \<Rightarrow> int \<Rightarrow> 's \<Rightarrow> http_response outcome \<times> 's" where
  "finishLogin sv config query authorization newCode loginAt now st =
    (case optionalParameter query ''error'' of
       Inl e \<Rightarrow> (Inl e, st)
     | Inr upstreamError \<Rightarrow>
         if \<not> blank_text upstreamError then
           (bindr (sv_withParams sv (us_redirectUri authorization) [(''error'', ''access_denied''), (''state'', us_clientState authorization)])
             (\<lambda>location. Inr (writeRedirect location)), st)
         else (case bindr (requiredParameter query ''code'') (\<lambda>upstreamCode.
             exchangeUpstreamCode (sv_upstream sv) config upstreamCode (us_codeVerifier authorization) (us_upstreamNonce authorization) loginAt) of
           Inl e \<Rightarrow> (Inl e, st)
         | Inr user \<Rightarrow>
             andThen (createServiceAuthorizationCode (sv_withParams sv) (sv_store sv) config authorization user newCode now st)
               (\<lambda>location st'. (Inr (writeRedirect location), st')) id))"

definition callbackEndpoint ::
  "('k, 'p, 's, 'u) service \<Rightarrow> http_request \<Rightarrow> int \<times> int \<times> int \<times> int \<Rightarrow> string \<Rightarrow> ('s, 'p) auth_state \<Rightarrow>
     http_response \<times> ('s, 'p) auth_state" where
  "callbackEndpoint sv req instants newCode s =
    (let (hitAt, consumeAt, loginAt, createAt) = instants in answer (\<lambda>e. oauthErrorResponse e [])
    (case bindr (rejectAccessTokenQuery req) (\<lambda>_. bindr (sv_config sv) (\<lambda>config.
        bindr (requestQuery req) (\<lambda>query. Inr (config, query)))) of
       Inl e \<Rightarrow> (Inl e, s)
     | Inr (config, query) \<Rightarrow>
         andThen (limited sv config ''oauth-authorize'' (requestSubject req) hitAt s) (\<lambda>_ s1.
           case bindr (assertAllowedParameters query [''code'', ''state'', ''error'', ''error_description'']) (\<lambda>_.
               requiredParameter query ''state'') of
             Inl e \<Rightarrow> (Inl e, s1)
           | Inr state \<Rightarrow>
               andThen (storeConsumeState (sv_store sv) state consumeAt (au_store s1)) (\<lambda>authorization st.
                 case finishLogin sv config query authorization newCode loginAt createAt st of
                   (r, st') \<Rightarrow> (r, s1 \<lparr> au_store := st' \<rparr>))
                 (\<lambda>st. s1 \<lparr> au_store := st \<rparr>)) id))"

definition claims_profile :: "access_token_claims \<Rightarrow> user_profile" where
  "claims_profile c = \<lparr> up_sub = cl_sub c, up_given_name = cl_given_name c, up_family_name = cl_family_name c, up_name = cl_name c,
     up_preferred_username = cl_preferred_username c, up_email = cl_email c, up_email_verified = cl_email_verified c \<rparr>"

definition userinfoEndpoint ::
  "('k, 'p, 's, 'u) service \<Rightarrow> http_request \<Rightarrow> int \<times> int \<Rightarrow> ('s, 'p) auth_state \<Rightarrow> http_response \<times> ('s, 'p) auth_state" where
  "userinfoEndpoint sv req instants s = answer (\<lambda>e. oauthErrorResponse e [])
    (case bindr (sv_config sv) (\<lambda>config. bindr (rejectAccessTokenQuery req) (\<lambda>_.
        bindr (validateSingleAuthorizationHeader (hr_rawHeaders req)) (\<lambda>_. Inr config))) of
       Inl e \<Rightarrow> (Inl e, s)
     | Inr config \<Rightarrow>
         andThen (limited sv config ''oauth-userinfo'' (requestSubject req) (fst instants) s) (\<lambda>_ s1.
           (bindr (sv_keySet sv config) (\<lambda>ks.
            bindr (verifyBearerAnyAudience (sv_crypto sv) config (ks_verificationKeys ks) (snd instants) (Some (header_text req ''authorization''))
               [actionsAudience config, mcpResource config] [''openid'']) (\<lambda>claims.
            bindr (userProfileFromClaims (claims_profile claims)) (\<lambda>profile. Inr (writeJson 200 (profile_json profile) noStore)))), s1)) id)"

section \<open>Discovery\<close>

definition JStrs :: "string list \<Rightarrow> json" where "JStrs ss = JArr (map JStr ss)"

definition supportedTokenAuthMethods :: "string list" where
  "supportedTokenAuthMethods = [''client_secret_post'', ''client_secret_basic'', ''none'', ''private_key_jwt'']"

definition supportedClaims :: "string list" where
  "supportedClaims = [''iss'', ''sub'', ''aud'', ''exp'', ''iat'', ''auth_time'', ''nonce'', ''name'', ''given_name'', ''family_name'',
     ''preferred_username'', ''email'', ''email_verified'']"

text \<open>Both callers leave the resource out.\<close>

definition supportedScopes :: "oauth_client list \<Rightarrow> string list" where
  "supportedScopes clients = distinct_set (concat (map allowedScopes clients))"

definition openidConfiguration :: "service_config \<Rightarrow> oauth_client list \<Rightarrow> json" where
  "openidConfiguration config clients = JObj [
     (''issuer'', JStr (issuer config)),
     (''authorization_endpoint'', JStr (issuer config @ ''/oauth/authorize'')),
     (''token_endpoint'', JStr (issuer config @ ''/oauth/token'')),
     (''jwks_uri'', JStr (issuer config @ ''/oauth/jwks'')),
     (''userinfo_endpoint'', JStr (issuer config @ ''/oauth/userinfo'')),
     (''response_types_supported'', JStrs [''code'']),
     (''grant_types_supported'', JStrs [''authorization_code'', ''refresh_token'']),
     (''subject_types_supported'', JStrs [''public'']),
     (''id_token_signing_alg_values_supported'', JStrs [''RS256'']),
     (''token_endpoint_auth_methods_supported'', JStrs supportedTokenAuthMethods),
     (''code_challenge_methods_supported'', JStrs [''S256'']),
     (''client_id_metadata_document_supported'', JBool True),
     (''scopes_supported'', JStrs (supportedScopes clients)),
     (''claims_supported'', JStrs supportedClaims)]"

definition authorizationServerMetadata :: "service_config \<Rightarrow> oauth_client list \<Rightarrow> json" where
  "authorizationServerMetadata config clients = JObj [
     (''issuer'', JStr (issuer config)),
     (''authorization_endpoint'', JStr (issuer config @ ''/oauth/authorize'')),
     (''token_endpoint'', JStr (issuer config @ ''/oauth/token'')),
     (''jwks_uri'', JStr (issuer config @ ''/oauth/jwks'')),
     (''response_types_supported'', JStrs [''code'']),
     (''grant_types_supported'', JStrs [''authorization_code'', ''refresh_token'']),
     (''token_endpoint_auth_methods_supported'', JStrs supportedTokenAuthMethods),
     (''code_challenge_methods_supported'', JStrs [''S256'']),
     (''client_id_metadata_document_supported'', JBool True),
     (''scopes_supported'', JStrs (supportedScopes clients))]"

definition protectedResourceMetadata :: "string \<Rightarrow> service_config \<Rightarrow> json" where
  "protectedResourceMetadata serviceTitle config = JObj [
     (''resource'', JStr (mcpResource config)),
     (''resource_name'', JStr serviceTitle),
     (''authorization_servers'', JStrs [issuer config]),
     (''scopes_supported'', JStrs mcpProtectedResourceScopes),
     (''bearer_methods_supported'', JStrs [''header''])]"

text \<open>A handler without state: its response.\<close>

definition discoveryAnswer :: "http_request \<Rightarrow> json outcome \<Rightarrow> http_response" where
  "discoveryAnswer req body = (case bindr (rejectAccessTokenQuery req) (\<lambda>_. body) of
     Inl e \<Rightarrow> oauthErrorResponse e [] | Inr v \<Rightarrow> writeJson 200 v [])"

definition openidEndpoint :: "('k, 'p, 's, 'u) service \<Rightarrow> http_request \<Rightarrow> http_response" where
  "openidEndpoint sv req = discoveryAnswer req (bindr (sv_config sv) (\<lambda>config.
     bindr (sv_clients sv config) (\<lambda>clients. Inr (openidConfiguration config clients))))"

definition oauthServerEndpoint :: "('k, 'p, 's, 'u) service \<Rightarrow> http_request \<Rightarrow> http_response" where
  "oauthServerEndpoint sv req = discoveryAnswer req (bindr (sv_config sv) (\<lambda>config.
     bindr (sv_clients sv config) (\<lambda>clients. Inr (authorizationServerMetadata config clients))))"

definition writeProtectedResource :: "('k, 'p, 's, 'u) service \<Rightarrow> string \<Rightarrow> http_request \<Rightarrow> http_response" where
  "writeProtectedResource sv serviceTitle req =
     discoveryAnswer req (bindr (sv_config sv) (\<lambda>config. Inr (protectedResourceMetadata serviceTitle config)))"

definition jwksDocument :: "('p \<Rightarrow> js_object) \<Rightarrow> 'p verification_key list \<Rightarrow> json" where
  "jwksDocument exportJwk keys = JObj [(''keys'', JArr (map (\<lambda>key. JObj (AList.update ''use'' (JStr ''sig'')
     (AList.update ''alg'' (JStr ''RS256'') (AList.update ''kid'' (JStr (vk_kid key)) (exportJwk (vk_publicKey key)))))) keys))]"

definition jwksEndpoint :: "('k, 'p, 's, 'u) service \<Rightarrow> http_request \<Rightarrow> http_response" where
  "jwksEndpoint sv req = discoveryAnswer req (bindr (sv_config sv) (\<lambda>config. bindr (sv_keySet sv config) (\<lambda>ks.
     Inr (jwksDocument (sv_exportJwk sv) (ks_verificationKeys ks)))))"

section \<open>Startup and the gateway\<close>

definition validateStartup ::
  "(string \<Rightarrow> string outcome) \<Rightarrow> ('k, 'p, 's, 'u) service \<Rightarrow> unit outcome" where
  "validateStartup resolvePath sv = bindr (sv_config sv) (\<lambda>config.
     bindr (if oauthStoreBackend config = Backend_file then bindr (resolvePath (oauthStorePath config)) (\<lambda>_. Inr ()) else Inr ()) (\<lambda>_.
     bindr (sv_clients sv config) (\<lambda>_. bindr (sv_keySet sv config) (\<lambda>_. Inr ()))))"

record auth_data =
  ad_userID :: string
  ad_clientID :: string
  ad_scopes :: "string list"

text \<open>\<open>None\<close> is the \<open>unauthenticated\<close> error of the gateway, whatever went wrong.\<close>

definition gatewayAuth :: "('k, 'p, 's, 'u) service \<Rightarrow> string option \<Rightarrow> int \<Rightarrow> auth_data option" where
  "gatewayAuth sv authorization now =
    (case bindr (sv_config sv) (\<lambda>config. bindr (sv_keySet sv config) (\<lambda>ks.
        verifyBearer (sv_crypto sv) config (ks_verificationKeys ks) now authorization (actionsAudience config) [])) of
       Inl e \<Rightarrow> None
     | Inr claims \<Rightarrow> Some \<lparr> ad_userID = cl_sub claims, ad_clientID = cl_client_id claims, ad_scopes = words_acc [] (cl_scope claims) \<rparr>)"

end
