(* ===== verification/Client_Properties.thy ===== *)
theory Client_Properties
  imports Client_Assertion Token_Properties
begin

text \<open>
  What the look-up and the authentication of clients guarantee: a resolved client is a registered one
  or is confined by its own metadata document, whatever the caches hold; an accepted assertion is
  signed by a key of the client and is current; and no assertion is accepted twice.
\<close>

section \<open>Separators\<close>

lemma separator_inject:
  assumes "a @ c # x = b @ c # y" "c \<notin> set a" "c \<notin> set b" shows "a = b \<and> x = y"
  using assms by (induction a arbitrary: b) (case_tac b, auto)+

lemma last_separator_inject:
  assumes "x @ c # a = y @ c # b" "c \<notin> set a" "c \<notin> set b" shows "x = y \<and> a = b"
proof -
  have "rev a @ c # rev x = rev b @ c # rev y"
    using arg_cong [OF assms(1), of rev] by simp
  from separator_inject [OF this] assms(2,3) show ?thesis by simp
qed

lemma metadataCacheKey_inject:
  assumes "metadataCacheKey config cid = metadataCacheKey config' cid'" "nul \<notin> set (mcpResource config)" "nul \<notin> set (mcpResource config')"
  shows "mcpResource config = mcpResource config' \<and> production config = production config' \<and> cid = cid'"
proof -
  have bools: "nul \<notin> set (bool_text b)" "bool_text b = bool_text b' \<longleftrightarrow> b = b'" for b b'
    by (auto simp: nul_def bool_text_def)
  have eq: "mcpResource config @ nul # (bool_text (production config) @ nul # cid) =
      mcpResource config' @ nul # (bool_text (production config') @ nul # cid')"
    using assms(1) by (simp add: metadataCacheKey_def)
  from separator_inject [OF eq assms(2,3)] have "mcpResource config = mcpResource config'"
    and rest: "bool_text (production config) @ nul # cid = bool_text (production config') @ nul # cid'" by auto
  with separator_inject [OF rest bools(1) bools(1)] show ?thesis by (simp add: bools(2))
qed

section \<open>Resolved clients\<close>

text \<open>A client as its metadata document describes it.\<close>

definition document_client :: "url_parser \<Rightarrow> service_config \<Rightarrow> string \<Rightarrow> oauth_client \<Rightarrow> bool" where
  "document_client parse_url config cid client = (\<exists>body. parseMetadataClient parse_url config cid (Some body) = Inr client)"

lemma parseMetadataClient_cong:
  assumes "mcpResource config = mcpResource config'" "production config = production config'"
  shows "parseMetadataClient parse_url config = parseMetadataClient parse_url config'"
proof -
  have jwks: "validatedJwksUri parse_url config = validatedJwksUri parse_url config'"
    using assms(2) by (intro ext) (simp add: validatedJwksUri_def)
  have auth: "tokenEndpointAuth parse_url config = tokenEndpointAuth parse_url config'"
    unfolding tokenEndpointAuth_def [abs_def] jwks by (rule refl)
  show ?thesis
    unfolding parseMetadataClient_def assms auth by (rule refl)
qed

lemma document_client_confined:
  assumes "document_client parse_url config cid client"
  shows "clientId client = cid \<and> pkcePolicy client = Pkce_required \<and> clientSecretHash client = None \<and>
    allowedResources client = [mcpResource config] \<and> allowedScopes client = defaultScopes"
  using assms by (auto simp: document_client_def parseMetadataClient_def bindr_eq_Inr split: option.splits if_splits)

definition metadata_cache_sound :: "url_parser \<Rightarrow> oauth_client cache \<Rightarrow> bool" where
  "metadata_cache_sound parse_url cache = (keys_distinct cache \<and> (\<forall>key e. map_of cache key = Some e \<longrightarrow>
     (\<exists>config cid. nul \<notin> set (mcpResource config) \<and> key = metadataCacheKey config cid \<and>
        document_client parse_url config cid (en_value e))))"

lemma sound_entry:
  assumes "metadata_cache_sound parse_url cache" "map_of cache (metadataCacheKey config cid) = Some e" "nul \<notin> set (mcpResource config)"
  shows "document_client parse_url config cid (en_value e)"
proof -
  obtain config' cid' where c: "nul \<notin> set (mcpResource config')" "metadataCacheKey config cid = metadataCacheKey config' cid'"
    "document_client parse_url config' cid' (en_value e)"
    using assms(1,2) unfolding metadata_cache_sound_def by blast
  with metadataCacheKey_inject [OF c(2) assms(3) c(1)] parseMetadataClient_cong [of config config' parse_url]
  show ?thesis by (simp add: document_client_def)
qed

lemma sound_prune: "metadata_cache_sound parse_url cache \<Longrightarrow> metadata_cache_sound parse_url (pruneExpiredCacheEntries cache now)"
  by (auto simp: metadata_cache_sound_def prune_distinct prune_lookup split: option.splits if_splits)

lemma sound_write:
  assumes "metadata_cache_sound parse_url cache" "document_client parse_url config cid client" "nul \<notin> set (mcpResource config)"
  shows "metadata_cache_sound parse_url (writeExpiringCache cache (metadataCacheKey config cid) client secs n now)"
proof -
  let ?w = "writeExpiringCache cache (metadataCacheKey config cid) client secs n now"
  have d: "keys_distinct cache" using assms(1) by (simp add: metadata_cache_sound_def)
  have "\<exists>config cid. nul \<notin> set (mcpResource config) \<and> key = metadataCacheKey config cid \<and> document_client parse_url config cid (en_value e)"
    if e: "map_of ?w key = Some e" for key e
  proof (cases "key = metadataCacheKey config cid")
    case True
    then have "en_value e = client" using e write_lookup(1) [OF d, of "metadataCacheKey config cid" client secs n now]
      by (auto split: if_splits)
    then show ?thesis using True assms(2,3) by blast
  next
    case False
    then have "map_of cache key = Some e" using write_lookup(2) [OF d False e] by simp
    then show ?thesis using assms(1) unfolding metadata_cache_sound_def by blast
  qed
  then show ?thesis
    using d by (simp add: metadata_cache_sound_def write_distinct)
qed

lemma resolved_document_sound:
  assumes "metadata_cache_sound (xo_parseUrl xo) cache" "nul \<notin> set (mcpResource config)"
    "resolveClientIdMetadataDocument xo config cid now later cache = (r, cache')"
  shows "metadata_cache_sound (xo_parseUrl xo) cache'" "r = Inr client \<Longrightarrow> document_client (xo_parseUrl xo) config cid client"
proof -
  let ?pu = "xo_parseUrl xo" and ?k = "metadataCacheKey config cid"
  let ?pruned = "pruneExpiredCacheEntries cache now"
  note prune = sound_prune [OF assms(1), of now]
  note entry = sound_entry [OF prune _ assms(2)]
  have doc: "parseMetadataClient ?pu config cid (Some body) = Inr c \<Longrightarrow> document_client ?pu config cid c" for body c
    by (auto simp: document_client_def)
  note defs = resolveClientIdMetadataDocument_def readExpiringCache_def Let_def cachedMetadataClient_def
  show "metadata_cache_sound ?pu cache'"
    using assms(1,3) prune
    by (auto simp: defs bindr_eq_Inr split: sum.splits option.splits intro!: sound_write [OF _ doc assms(2)])
  show "document_client ?pu config cid client" if "r = Inr client"
    using assms(3) that by (auto simp: defs bindr_eq_Inr split: sum.splits option.splits) (blast intro: entry doc)+
qed

text \<open>Look-ups one after another, each with its own clock, clients, settings and answers of the outside; the cache is the
  only thing they share.\<close>

type_synonym 'p look_up = "'p outside \<times> service_config \<times> oauth_client list \<times> string \<times> int \<times> int"

fun look_up_step :: "'p look_up \<Rightarrow> oauth_client cache \<Rightarrow> oauth_client cache" where
  "look_up_step (xo, config, clients, cid, now, later) cache = snd (resolveClient xo config clients cid now later cache)"

fun look_up_uses :: "url_parser \<Rightarrow> 'p look_up \<Rightarrow> bool" where
  "look_up_uses pu (xo, config, clients, cid, now, later) = (xo_parseUrl xo = pu \<and> nul \<notin> set (mcpResource config))"

lemma resolved_sound:
  assumes "metadata_cache_sound (xo_parseUrl xo) cache" "nul \<notin> set (mcpResource config)"
  shows "metadata_cache_sound (xo_parseUrl xo) (snd (resolveClient xo config clients cid now later cache))"
proof -
  obtain r cache' where "resolveClientIdMetadataDocument xo config cid now later cache = (r, cache')" by fastforce
  with resolved_document_sound(1) [OF assms this] assms(1) show ?thesis by (simp add: resolveClient_def split: option.split)
qed

lemma look_ups_sound:
  "metadata_cache_sound pu cache \<Longrightarrow> list_all (look_up_uses pu) ls \<Longrightarrow> metadata_cache_sound pu (fold look_up_step ls cache)"
proof (induction ls arbitrary: cache)
  case (Cons l ls)
  obtain xo config clients cid now later where l: "l = (xo, config, clients, cid, now, later)" by (cases l)
  then have "metadata_cache_sound pu (look_up_step l cache)" using Cons.prems resolved_sound [of xo cache config] by simp
  then show ?case using Cons by simp
qed simp

lemma empty_cache_sound: "metadata_cache_sound pu []"
  by (simp add: metadata_cache_sound_def keys_distinct_def)

text \<open>C29: however many look-ups filled the cache since the process began with an empty one, a resolved client is
  the first registered one of that identifier, or none is registered, the identifier is a URL and the client is what
  the parser of metadata documents makes of some document for this identifier under the present settings, so that it
  has that identifier, must use PKCE, has no shared secret and reaches the MCP resource only.  The condition is that
  the MCP resource contains no NUL character, which separates the parts of a cache key.\<close>

theorem resolved_client_ok:
  assumes "list_all (look_up_uses (xo_parseUrl xo)) ls" "nul \<notin> set (mcpResource config)"
    and "fst (resolveClient xo config clients cid now later (fold look_up_step ls [])) = Inr client"
  shows "clientId client = cid \<and>
    (find (\<lambda>c. clientId c = cid) clients = Some client \<or>
     find (\<lambda>c. clientId c = cid) clients = None \<and> isUrlClientId (xo_parseUrl xo) cid \<and>
     (\<exists>body. parseMetadataClient (xo_parseUrl xo) config cid (Some body) = Inr client) \<and>
     pkcePolicy client = Pkce_required \<and> clientSecretHash client = None \<and>
     allowedResources client = [mcpResource config] \<and> allowedScopes client = defaultScopes)"
proof (cases "find (\<lambda>c. clientId c = cid) clients")
  case None
  let ?cache = "fold look_up_step ls []"
  have url: "isUrlClientId (xo_parseUrl xo) cid"
    using None assms(3) by (auto simp: resolveClient_def split: if_splits)
  obtain r cache' where call: "resolveClientIdMetadataDocument xo config cid now later ?cache = (r, cache')" by fastforce
  then have r: "r = Inr client" using None url assms(3) by (simp add: resolveClient_def)
  have "document_client (xo_parseUrl xo) config cid client"
    by (rule resolved_document_sound(2) [OF look_ups_sound [OF empty_cache_sound assms(1)] assms(2) call r])
  then show ?thesis using None url document_client_confined by (auto simp: document_client_def)
next
  case (Some c)
  then have "client = c" using assms(3) by (simp add: resolveClient_def)
  moreover have "clientId c = cid" using Some by (auto simp: find_Some_iff)
  ultimately show ?thesis using Some by simp
qed

section \<open>Accepted assertions\<close>

definition jwks_strong :: "('s, 'p) crypto \<Rightarrow> 'p jwks \<Rightarrow> bool" where
  "jwks_strong cr keys = (\<forall>kid key. map_of keys kid = Some key \<longrightarrow> strongClientJwksRsaKey cr key)"

definition jwks_cache_sound :: "('s, 'p) crypto \<Rightarrow> 'p jwks cache \<Rightarrow> bool" where
  "jwks_cache_sound cr cache = (keys_distinct cache \<and> (\<forall>key e. map_of cache key = Some e \<longrightarrow> jwks_strong cr (en_value e)))"

lemma parseJwk_strong: "parseJwk cr xo v = Inr (kid, key) \<Longrightarrow> strongClientJwksRsaKey cr key"
  unfolding parseJwk_def bindr_eq_Inr if_Inl_eq_Inr
  by (elim exE conjE) (auto simp: if_Inl_eq_Inr split: option.splits)

lemma parseJwkList_strong:
  "parseJwkList cr xo keys vs = Inr ks \<Longrightarrow> jwks_strong cr keys \<Longrightarrow> jwks_strong cr ks"
proof (induction vs arbitrary: keys)
  case (Cons v vs)
  then obtain kid key where k: "parseJwk cr xo v = Inr (kid, key)" "parseJwkList cr xo (AList.update kid key keys) vs = Inr ks"
    by (auto simp: bindr_eq_Inr split: if_splits prod.splits)
  then have "strongClientJwksRsaKey cr key" by (blast intro: parseJwk_strong)
  then have "jwks_strong cr (AList.update kid key keys)"
    using Cons.prems(2) by (simp add: jwks_strong_def)
  then show ?case using Cons.IH k(2) by blast
qed simp

lemma parseJwks_strong: "parseJwks cr xo body = Inr ks \<Longrightarrow> jwks_strong cr ks"
proof -
  assume "parseJwks cr xo body = Inr ks"
  then obtain kvs where kvs: "(case field kvs ''keys'' of
       Some (JArr vs) \<Rightarrow> if vs = [] then Inl invalid_client_error else parseJwkList cr xo [] vs
     | _ \<Rightarrow> Inl invalid_client_error) = Inr ks"
    unfolding parseJwks_def bindr_eq_Inr by blast
  obtain vs where "parseJwkList cr xo [] vs = Inr ks"
  proof (cases "field kvs ''keys''")
    case (Some v)
    then show ?thesis using kvs that by (cases v) (auto split: if_splits)
  qed (use kvs in simp)
  then show ?thesis by (rule parseJwkList_strong) (simp add: jwks_strong_def)
qed

lemma jwks_sound_prune: "jwks_cache_sound cr cache \<Longrightarrow> jwks_cache_sound cr (pruneExpiredCacheEntries cache now)"
  by (auto simp: jwks_cache_sound_def prune_distinct prune_lookup split: option.splits if_splits)

lemma jwks_sound_write:
  assumes "jwks_cache_sound cr cache" "jwks_strong cr keys"
  shows "jwks_cache_sound cr (writeExpiringCache cache key keys secs n now)"
proof -
  have d: "keys_distinct cache" using assms(1) by (simp add: jwks_cache_sound_def)
  have "jwks_strong cr (en_value e)" if "map_of (writeExpiringCache cache key keys secs n now) k = Some e" for k e
    using that write_lookup(1) [OF d, of key keys secs n now] write_lookup(2) [OF d, of k key keys secs n now e] assms
    by (cases "k = key") (auto simp: jwks_cache_sound_def split: if_splits)
  then show ?thesis using d by (simp add: jwks_cache_sound_def write_distinct)
qed

lemma clientJwks_sound:
  assumes "jwks_cache_sound cr cache" "clientJwks cr xo config uri now later cache = (r, cache')"
  shows "jwks_cache_sound cr cache'" "r = Inr keys \<Longrightarrow> jwks_strong cr keys"
proof -
  note prune = jwks_sound_prune [OF assms(1), of now]
  note defs = clientJwks_def readExpiringCache_def Let_def cachedJwks_def
  show "jwks_cache_sound cr cache'"
    using assms(2) prune
    by (auto simp: defs bindr_eq_Inr split: sum.splits option.splits intro!: jwks_sound_write dest: parseJwks_strong parseJwks_strong [OF sym])
  show "jwks_strong cr keys" if "r = Inr keys"
    using assms(2) that prune
    by (auto simp: defs bindr_eq_Inr jwks_cache_sound_def split: sum.splits option.splits dest: parseJwks_strong parseJwks_strong [OF sym])
qed

text \<open>The checks of an accepted assertion, and what they leave in the replay cache.\<close>

lemma checkAssertion_accepted:
  assumes "checkAssertion cr config client assertion key now cache = (Inr (), cache')"
  obtains claims jti expiry where
    "verifyJwt cr assertion key = Inr claims"
    "field claims ''iss'' = Some (JStr (clientId client))" "field claims ''sub'' = Some (JStr (clientId client))"
    "audienceMatches config (field claims ''aud'')"
    "numericDate (field claims ''exp'') = Inr expiry" "now - 60 < expiry" "expiry \<le> now + 360"
    "safeString (field claims ''jti'') = Inr jti"
    "map_of (filter (\<lambda>(k, expiresAt). \<not> expiresAt \<le> now) cache) (replayKey (clientId client) jti) = None"
    "cache' = AList.update (replayKey (clientId client) jti) (expiry + 60) (filter (\<lambda>(k, expiresAt). \<not> expiresAt \<le> now) cache)"
  using assms
  by (auto simp: checkAssertion_def validateAssertionClaims_def rejectReplay_def bindr_eq_Inr Let_def
      split: sum.splits if_splits prod.splits intro: that)


section \<open>Replayed assertions\<close>

text \<open>The payload of a text does not depend on the key; it names the slot in the replay cache.\<close>

definition assertion_slot :: "string \<Rightarrow> (string \<times> int) option" where
  "assertion_slot assertion = (case jwtParts assertion of
     Inl e \<Rightarrow> None
   | Inr (h, p, s) \<Rightarrow> (case decodeJwtJson p Jwt_invalid_payload of
       Inr (JObj claims) \<Rightarrow> (case (json_string (field claims ''iss''), json_string (field claims ''jti''), numericDate (field claims ''exp'')) of
           (Some cid, Some jti, Inr expiry) \<Rightarrow> Some (replayKey cid jti, expiry) | _ \<Rightarrow> None)
     | _ \<Rightarrow> None))"

record 'p assertion_event =
  av_config :: service_config
  av_client :: oauth_client
  av_assertion :: string
  av_key :: 'p
  av_accepted :: bool

definition assertion_fire ::
  "('s, 'p) crypto \<Rightarrow> 'p assertion_event \<times> int \<Rightarrow> int \<times> replay_cache \<Rightarrow> int \<times> replay_cache \<Rightarrow> bool" where
  "assertion_fire cr e s t = (fst s \<le> snd e \<and> fst t = snd e \<and>
     (case checkAssertion cr (av_config (fst e)) (av_client (fst e)) (av_assertion (fst e)) (av_key (fst e)) (snd e) (snd s) of
        (r, cache) \<Rightarrow> snd t = cache \<and> av_accepted (fst e) = (r = Inr ())))"

definition replay_good :: "int \<times> replay_cache \<Rightarrow> bool" where
  "replay_good s = distinct (map fst (snd s))"

definition assertion_won :: "string \<Rightarrow> 'p assertion_event \<times> int \<Rightarrow> bool" where
  "assertion_won a e = (av_accepted (fst e) \<and> av_assertion (fst e) = a)"

definition assertion_spent :: "string \<Rightarrow> int \<times> replay_cache \<Rightarrow> bool" where
  "assertion_spent a s = (case assertion_slot a of
     None \<Rightarrow> False
   | Some (key, expiry) \<Rightarrow> map_of (snd s) key = Some (expiry + 60) \<or> expiry + 60 \<le> fst s)"

lemma slot_of_accepted:
  assumes "verifyJwt cr a key = Inr claims" "field claims ''iss'' = Some (JStr cid)" "safeString (field claims ''jti'') = Inr jti"
    "numericDate (field claims ''exp'') = Inr expiry"
  shows "assertion_slot a = Some (replayKey cid jti, expiry)"
proof -
  obtain h p s where parts: "jwtParts a = Inr (h, p, s)" "decodeJwtJson p Jwt_invalid_payload = Inr (JObj claims)"
    using assms(1) by (auto simp: verifyJwt_def bindr_eq_Inr split: if_splits option.splits)
  moreover have "json_string (field claims ''jti'') = Some jti"
    using assms(3) by (auto simp: safeString_def split: option.splits if_splits)
  ultimately show ?thesis
    using assms(2,4) by (simp add: assertion_slot_def)
qed

lemma prune_replay:
  "distinct (map fst cache) \<Longrightarrow> map_of (filter (\<lambda>(k, expiresAt). \<not> expiresAt \<le> now) cache) key =
     (case map_of cache key of Some v \<Rightarrow> if v \<le> now then None else Some v | None \<Rightarrow> None)"
  for cache :: replay_cache
  using map_of_filter_snd [of cache "\<lambda>v. \<not> v \<le> now" key] by (auto simp: split_def split: option.splits)

lemma checkAssertion_cache:
  fixes cache :: replay_cache
  assumes "checkAssertion cr config client a key now cache = (r, cache')" "distinct (map fst cache)"
  shows "distinct (map fst cache')"
    and "map_of cache k = Some v \<Longrightarrow> now < v \<Longrightarrow> map_of cache' k = Some v"
proof -
  let ?live = "filter (\<lambda>(k, expiresAt). \<not> expiresAt \<le> now) cache"
  have c: "cache' = cache \<or> cache' = ?live \<or> (\<exists>key v. map_of ?live key = None \<and> cache' = AList.update key v ?live)"
    using assms(1)
    by (auto simp: checkAssertion_def validateAssertionClaims_def rejectReplay_def Let_def split: sum.splits if_splits prod.splits)
  then show "distinct (map fst cache')" using assms(2) by (auto simp: distinct_update)
  show "map_of cache' k = Some v" if "map_of cache k = Some v" "now < v"
    using c that prune_replay [OF assms(2), of now k] by auto
qed

interpretation assertions: one_shot "assertion_fire cr" replay_good assertion_won assertion_spent for cr
proof unfold_locales
  fix e s t a
  assume fire: "assertion_fire cr e s t" and good: "replay_good s"
  let ?e = "fst e"
  obtain r where r: "checkAssertion cr (av_config ?e) (av_client ?e) (av_assertion ?e) (av_key ?e) (snd e) (snd s) = (r, snd t)"
    and acc: "av_accepted ?e = (r = Inr ())" and clock: "fst s \<le> snd e" "fst t = snd e"
    using fire by (auto simp: assertion_fire_def split: prod.splits)
  note d = good [unfolded replay_good_def]
  note cache = checkAssertion_cache [OF r d]
  show "replay_good t" using cache(1) by (simp add: replay_good_def)
  show "assertion_spent a t" if "assertion_spent a s"
  proof (cases "assertion_slot a")
    case (Some p)
    then obtain key expiry where slot: "assertion_slot a = Some (key, expiry)" by (cases p) auto
    then have "map_of (snd s) key = Some (expiry + 60) \<or> expiry + 60 \<le> fst s" using that by (simp add: assertion_spent_def)
    then have "map_of (snd t) key = Some (expiry + 60) \<or> expiry + 60 \<le> snd e"
      using cache(2) [of key "expiry + 60"] clock by fastforce
    then show ?thesis using slot clock by (simp add: assertion_spent_def)
  qed (use that in \<open>simp add: assertion_spent_def\<close>)
  show "\<not> assertion_spent a s" "assertion_spent a t" if "assertion_won a e"
  proof -
    have won: "checkAssertion cr (av_config ?e) (av_client ?e) a (av_key ?e) (snd e) (snd s) = (Inr (), snd t)"
      using that r acc by (simp add: assertion_won_def)
    obtain claims jti expiry where v: "verifyJwt cr a (av_key ?e) = Inr claims"
      "field claims ''iss'' = Some (JStr (clientId (av_client ?e)))" "numericDate (field claims ''exp'') = Inr expiry"
      "snd e - 60 < expiry" "safeString (field claims ''jti'') = Inr jti"
      and free: "map_of (filter (\<lambda>(k, expiresAt). \<not> expiresAt \<le> snd e) (snd s)) (replayKey (clientId (av_client ?e)) jti) = None"
      and t: "snd t = AList.update (replayKey (clientId (av_client ?e)) jti) (expiry + 60) (filter (\<lambda>(k, expiresAt). \<not> expiresAt \<le> snd e) (snd s))"
      by (rule checkAssertion_accepted [OF won])
    have slot: "assertion_slot a = Some (replayKey (clientId (av_client ?e)) jti, expiry)"
      using slot_of_accepted [OF v(1,2,5,3)] .
    show "\<not> assertion_spent a s"
      using free v(4) clock prune_replay [OF d, of "snd e" "replayKey (clientId (av_client ?e)) jti"]
      by (auto simp: assertion_spent_def slot)
    show "assertion_spent a t" by (simp add: assertion_spent_def slot t)
  qed
qed

text \<open>C13: while the clock does not go back, no assertion is accepted twice, by whatever client and with
  whatever keys it is presented.\<close>

theorem assertion_accepted_once:
  assumes "machine_run (assertion_fire cr) (clock, []) es t"
  shows "length (filter (\<lambda>e. av_accepted (fst e) \<and> av_assertion (fst e) = a) es) \<le> 1"
proof -
  have "length (filter (assertion_won a) es) \<le> 1"
    by (rule assertions.at_most_one_win [OF assms]) (simp add: replay_good_def)
  moreover have "filter (assertion_won a) es = filter (\<lambda>e. av_accepted (fst e) \<and> av_assertion (fst e) = a) es"
    by (rule filter_cong) (simp_all add: assertion_won_def)
  ultimately show ?thesis by simp
qed

section \<open>Witnesses\<close>

definition sample_jwks :: json where
  "sample_jwks = JObj [(''keys'', JArr [JObj [(''kty'', JStr ''RSA''), (''kid'', JStr ''k1''), (''n'', JStr ''key''), (''e'', JStr ''AQAB'')]])]"

definition sample_document :: json where
  "sample_document = JObj [(''client_id'', JStr ''https://app.example/mcp''), (''client_name'', JStr ''App''),
     (''redirect_uris'', JArr [JStr ''https://app.example/cb''])]"

definition sample_durable :: durable_cache where
  "sample_durable = \<lparr> dc_read = (\<lambda>namespace key. Inr (Some (if namespace = ''client-jwks'' then sample_jwks else sample_document, 400))),
     dc_write = (\<lambda>namespace key body secs. Inr ()) \<rparr>"

definition sample_outside :: "string outside" where
  "sample_outside = \<lparr> xo_parseUrl = sample_url_parser, xo_lookup = (\<lambda>host. None), xo_fetch = (\<lambda>url address. Inl invalid_client_error),
     xo_decodeUtf8 = Some, xo_durable = Some sample_durable, xo_importJwk = (\<lambda>n e. Some n) \<rparr>"

lemma sample_resolved:
  "case fst (resolveClient sample_outside token_config [sample_client] ''https://app.example/mcp'' 1 1 (fold look_up_step
     [(sample_outside, token_config, [sample_client], ''https://app.example/mcp'', 0, 0)] [])) of Inr client \<Rightarrow> True | _ \<Rightarrow> False"
  by code_simp

text \<open>The second look-up of a client finds it in the cache the first one filled.\<close>

theorem resolved_client_ok_witness:
  "\<exists>client. fst (resolveClient sample_outside token_config [sample_client] ''https://app.example/mcp'' 1 1 (fold look_up_step
        [(sample_outside, token_config, [sample_client], ''https://app.example/mcp'', 0, 0)] [])) = Inr client \<and>
     pkcePolicy client = Pkce_required"
proof -
  let ?ls = "[(sample_outside, token_config, [sample_client], ''https://app.example/mcp'', 0, 0)]"
  obtain client where r: "fst (resolveClient sample_outside token_config [sample_client] ''https://app.example/mcp'' 1 1 (fold look_up_step ?ls [])) = Inr client"
    using sample_resolved by (auto split: sum.splits)
  have "nul \<notin> set (mcpResource token_config)" by code_simp
  moreover have "list_all (look_up_uses (xo_parseUrl sample_outside)) ?ls" using calculation by simp
  moreover have "clientId sample_client \<noteq> ''https://app.example/mcp''" by code_simp
  ultimately have "pkcePolicy client = Pkce_required"
    using resolved_client_ok [OF _ _ r] by auto
  with r show ?thesis by blast
qed

definition assertion_client :: oauth_client where
  "assertion_client = sample_client \<lparr> clientId := ''https://app.example/mcp'', tokenEndpointAuthMethod := Private_key_jwt,
     jwksUri := Some ''https://app.example/jwks'' \<rparr>"

definition assertion_claims :: js_object where
  "assertion_claims = [(''iss'', JStr ''https://app.example/mcp''), (''sub'', JStr ''https://app.example/mcp''),
     (''aud'', JStr ''https://id.example/oauth/token''), (''exp'', JInt 300), (''jti'', JStr ''j1'')]"

definition sample_assertion :: string where
  "sample_assertion = signJwt sample_crypto (JObj assertion_claims) ''k1'' ''key''"

lemma sample_assertion_verifies:
  "jwtKid sample_assertion = Inr ''k1''" "verifyJwt sample_crypto sample_assertion ''key'' = Inr assertion_claims"
proof -
  let ?h = "jwt_header ''k1''" and ?p = "JObj assertion_claims"
  have "length (json_text ?h) < 100" "length (json_text ?p) < 1000" by code_simp+
  then have "length (encodeJsonBase64Url ?h) < 400" "length (encodeJsonBase64Url ?p) < 4000"
    using length_encoded [of ?h] length_encoded [of ?p] by linarith+
  moreover have "length sample_assertion = length (encodeJsonBase64Url ?h) + length (encodeJsonBase64Url ?p) + 5"
    by (simp add: sample_assertion_def signJwt_def Let_def sample_crypto_def)
  ultimately have len: "length sample_assertion \<le> maxJwtLength" by (simp add: maxJwtLength_def)
  have "printable (JObj assertion_claims)" by (simp add: assertion_claims_def max_safe_integer_def)
  from verify_signed [OF token_sample(1,2) this] len
  have "readKid sample_assertion = Inr ''k1''" "readPayload sample_crypto sample_assertion ''key'' = Inr assertion_claims"
    by (simp_all add: token_key_def sample_assertion_def)
  then show "jwtKid sample_assertion = Inr ''k1''" "verifyJwt sample_crypto sample_assertion ''key'' = Inr assertion_claims"
    by (auto simp: readKid_def readPayload_def try_catch_def split: sum.splits)
qed

lemma sample_assertion_checked:
  "checkAssertion sample_crypto token_config assertion_client sample_assertion ''key'' 0 [] =
     (Inr (), [(replayKey ''https://app.example/mcp'' ''j1'', 360)])"
  "fst (checkAssertion sample_crypto token_config assertion_client sample_assertion ''key'' 359
     [(replayKey ''https://app.example/mcp'' ''j1'', 360)]) = Inl invalid_client_error"
proof -
  have "300 \<le> max_safe_integer" by (simp add: max_safe_integer_def)
  moreover have "safeString (Some (JStr ''j1'')) = Inr ''j1''" by code_simp
  ultimately show "checkAssertion sample_crypto token_config assertion_client sample_assertion ''key'' 0 [] =
     (Inr (), [(replayKey ''https://app.example/mcp'' ''j1'', 360)])"
    "fst (checkAssertion sample_crypto token_config assertion_client sample_assertion ''key'' 359
     [(replayKey ''https://app.example/mcp'' ''j1'', 360)]) = Inl invalid_client_error"
    by (simp_all add: checkAssertion_def sample_assertion_verifies validateAssertionClaims_def assertion_claims_def assertion_client_def
        audienceMatches_def numericDate_def token_config_def rejectReplay_def Let_def)
qed


definition assertion_events :: "(string assertion_event \<times> int) list" where
  "assertion_events = [(\<lparr> av_config = token_config, av_client = assertion_client, av_assertion = sample_assertion, av_key = ''key'',
       av_accepted = True \<rparr>, 0),
     (\<lparr> av_config = token_config, av_client = assertion_client, av_assertion = sample_assertion, av_key = ''key'',
       av_accepted = False \<rparr>, 359)]"

theorem assertion_accepted_once_witness:
  "\<exists>t. machine_run (assertion_fire sample_crypto) (0, []) assertion_events t \<and>
     length (filter (\<lambda>e. av_accepted (fst e) \<and> av_assertion (fst e) = sample_assertion) assertion_events) \<le> 1"
proof -
  let ?s = "(0, [(replayKey ''https://app.example/mcp'' ''j1'', 360)]) :: int \<times> replay_cache"
  obtain r cache where second: "checkAssertion sample_crypto token_config assertion_client sample_assertion ''key'' 359 (snd ?s) = (r, cache)"
    by force
  then have "r = Inl invalid_client_error" using sample_assertion_checked(2) by simp
  then have "machine_run (assertion_fire sample_crypto) (0, []) assertion_events (359, cache)"
    using second unfolding assertion_events_def
    by (intro next_event [of _ _ _ ?s] next_event [of _ _ _ "(359, cache)"] stop)
      (simp_all add: assertion_fire_def sample_assertion_checked(1))
  then show ?thesis using assertion_accepted_once by blast
qed

end
