(* ===== verification/Grant_Properties.thy ===== *)
theory Grant_Properties
  imports Grants Client_Properties Disk_Properties
begin

text \<open>
  What the token endpoint guarantees over the file store: every token response goes to a client that
  authenticated by its own method and presented a code or a refresh token bound to it, and carries what
  was granted; and however token requests and other uses of the store follow each other, a code is
  redeemed at most once.
\<close>

section \<open>A token response\<close>

definition client_authenticated ::
  "('k, 'p) crypto \<Rightarrow> 'p outside \<Rightarrow> service_config \<Rightarrow> oauth_client \<Rightarrow> client_credentials \<Rightarrow> int \<times> int \<times> int \<Rightarrow> 'p assertion_caches \<Rightarrow> bool" where
  "client_authenticated cr xo config client credentials instants caches =
    (tokenEndpointAuthMethod client = cc_method credentials \<and>
     (case cc_method credentials of
        Private_key_jwt \<Rightarrow> fst (assertPrivateKeyJwtClientAssertion cr xo config client (cc_clientAssertion credentials) instants caches) = Inr ()
      | No_client_auth \<Rightarrow> True
      | _ \<Rightarrow> (\<exists>secret. cc_clientSecret credentials = Some secret \<and> secret \<noteq> [] \<and> clientSecretHash client = Some (cr_sha256 cr secret))))"

lemma authenticateClient_ok:
  assumes "authenticateClient cr xo config client credentials instants caches = (Inr u, caches')"
  shows "client_authenticated cr xo config client credentials instants caches"
proof -
  have m: "tokenEndpointAuthMethod client = cc_method credentials"
    using assms by (auto simp: authenticateClient_def assertClientAuthMethod_def bindr_eq_Inr split: sum.splits if_splits)
  have secret: "\<exists>secret. cc_clientSecret credentials = Some secret \<and> secret \<noteq> [] \<and> clientSecretHash client = Some (cr_sha256 cr secret)"
    if "assertClientSecret (cr_sha256 cr) client (cc_clientSecret credentials) = Inr v" for v
    using that by (auto simp: assertClientSecret_def split: if_splits)
  show ?thesis
    using assms m
    by (cases "cc_method credentials")
      (auto simp: client_authenticated_def authenticateClient_def assertClientAuthMethod_def bindr_eq_Inr split: sum.splits intro: secret)
qed

lemma handleTokenGrant_Inr:
  assumes "handleTokenGrant cr xo store config clients form authorization signing draws s = (Inr response, s')"
  obtains grant credentials client metadata where "optionalParameter form ''grant_type'' = Inr grant"
    "readClientCredentials form authorization = Inr credentials"
    "resolveClient xo config clients (cc_clientId credentials) (fst (td_instants draws)) (fst (snd (td_instants draws))) (au_metadata s)
      = (Inr client, metadata)"
    "client_authenticated cr xo config client credentials (td_instants draws) (au_assertions s)"
    "dispatchGrant (xo_parseUrl xo) cr store config client grant form signing draws (au_store s) = (Inr response, au_store s')"
proof -
  obtain grant credentials where p: "optionalParameter form ''grant_type'' = Inr grant" "readClientCredentials form authorization = Inr credentials"
      "assertAllowedParameters form tokenParameters = Inr ()" "assertAllowedParameters form (tokenGrantParameters grant) = Inr ()"
    using assms by (auto simp: handleTokenGrant_def bindr_eq_Inr split: sum.splits prod.splits)
  obtain client metadata assertions u st where
      resolved: "resolveClient xo config clients (cc_clientId credentials) (fst (td_instants draws)) (fst (snd (td_instants draws))) (au_metadata s)
        = (Inr client, metadata)"
    and auth: "authenticateClient cr xo config client credentials (td_instants draws) (au_assertions s) = (Inr u, assertions)"
    and dispatch: "dispatchGrant (xo_parseUrl xo) cr store config client grant form signing draws (au_store s) = (Inr response, st)"
    and s': "au_store s' = st"
    using assms by (auto simp: handleTokenGrant_def p andThen_eq_Inr Let_def split: prod.splits)
  show ?thesis
    using that [OF p(1,2) resolved authenticateClient_ok [OF auth]] dispatch s' by simp
qed

text \<open>The token response of a client for what a grant holds.\<close>

definition response_for ::
  "('k, 'p) crypto \<Rightarrow> service_config \<Rightarrow> ('k, 'p) signing_key \<Rightarrow> token_draws \<Rightarrow> oauth_client \<Rightarrow> string \<Rightarrow> string list \<Rightarrow> user_profile \<Rightarrow> int \<Rightarrow>
     string option \<Rightarrow> token_response" where
  "response_for cr config key draws client resource scopes user authTime nonce =
     issueTokenResponse cr config key (td_issueAt draws) (td_jti draws)
       \<lparr> ti_clientId = clientId client, ti_resource = resource, ti_scopes = scopes, ti_refreshToken = td_refreshToken draws,
         ti_authTime = authTime, ti_user = user, ti_nonce = nonce \<rparr>"

text \<open>C3: a token response is issued only to a resolved client that authenticated with the method it is
  registered for, and only for an unspent, unexpired code that was issued to this client, redirect URI
  and verifier, with a resource and scopes the client may have, or for a live refresh token of this client
  and a resource it may have; the response carries exactly the resource, scopes, user and
  authentication time of that grant, and the code is spent.\<close>

theorem token_grant_sound:
  assumes "handleTokenGrant cr xo (disk_apply (cr_sha256 cr)) config clients form authorization signing draws s = (Inr response, s')"
  shows "\<exists>credentials client key. readClientCredentials form authorization = Inr credentials \<and>
    fst (resolveClient xo config clients (cc_clientId credentials) (fst (td_instants draws)) (fst (snd (td_instants draws))) (au_metadata s)) = Inr client \<and>
    client_authenticated cr xo config client credentials (td_instants draws) (au_assertions s) \<and> signing = Inr key \<and>
    ((\<exists>authCode r. get_param form ''grant_type'' = Some ''authorization_code'' \<and> get_param form ''code'' = Some authCode \<and>
        map_of (authorizationCodes (au_store s)) (cr_sha256 cr authCode) = Some r \<and>
        code_grant_ok (cr_sha256 cr) client form (td_storeAt draws) r \<and>
        response = response_for cr config key draws client (ac_resource r) (ac_scopes r) (ac_user r) (ac_authTime r) (ac_nonce r) \<and>
        map_of (authorizationCodes (au_store s')) (cr_sha256 cr authCode) = Some (r \<lparr> ac_consumedAt := Some (td_storeAt draws) \<rparr>)) \<or>
     (\<exists>token r. get_param form ''grant_type'' = Some ''refresh_token'' \<and> get_param form ''refresh_token'' = Some token \<and>
        map_of (refreshTokens (au_store s)) (cr_sha256 cr token) = Some r \<and>
        refresh_grant_ok client (td_storeAt draws) r \<and>
        response = response_for cr config key draws client (rt_resource r) (rt_scopes r) (rt_user r) (rt_authTime r) None))"
proof -
  obtain grant credentials client metadata where p: "optionalParameter form ''grant_type'' = Inr grant"
      "readClientCredentials form authorization = Inr credentials"
    and resolved: "resolveClient xo config clients (cc_clientId credentials) (fst (td_instants draws)) (fst (snd (td_instants draws))) (au_metadata s)
        = (Inr client, metadata)"
    and authenticated: "client_authenticated cr xo config client credentials (td_instants draws) (au_assertions s)"
    and dispatch: "dispatchGrant (xo_parseUrl xo) cr (disk_apply (cr_sha256 cr)) config client grant form signing draws (au_store s)
        = (Inr response, au_store s')"
    by (rule handleTokenGrant_Inr [OF assms])
  have grant: "get_param form ''grant_type'' = grant" by (rule optionalParameter_get [OF p(1)])
  consider (authorization_code) "grant = Some ''authorization_code''"
      "authorizationCodeGrant (xo_parseUrl xo) cr (disk_apply (cr_sha256 cr)) config client form signing draws (au_store s) = (Inr response, au_store s')"
    | (refresh_token) "grant = Some ''refresh_token''"
      "refreshTokenGrant (xo_parseUrl xo) cr (disk_apply (cr_sha256 cr)) config client form signing draws (au_store s) = (Inr response, au_store s')"
    using dispatch by (auto simp: dispatchGrant_def split: if_splits)
  then show ?thesis
  proof cases
    case authorization_code
    show ?thesis
      using disk_grants.code_grant [OF authorization_code(2)] p(2) resolved authenticated grant authorization_code(1)
      by (auto simp: response_for_def)
  next
    case refresh_token
    show ?thesis
      using disk_grants.refresh_grant [OF refresh_token(2)] p(2) resolved authenticated grant refresh_token(1)
      by (auto simp: response_for_def)
  qed
qed

section \<open>Token requests as uses of the store\<close>

context one_shot begin

lemma spent_stays: "machine_run fire s es u \<Longrightarrow> good s \<Longrightarrow> spent k s \<Longrightarrow> spent k u"
  by (induction s es u rule: machine_run.induct) (auto intro: inv_fire spent_final)

lemma spent_after_win:
  "machine_run fire s es u \<Longrightarrow> good s \<Longrightarrow> e \<in> set es \<Longrightarrow> wins k e \<Longrightarrow> spent k u"
proof (induction s es u rule: machine_run.induct)
  case (next_event x s t es u)
  show ?case
  proof (cases "e = x")
    case True
    then show ?thesis using next_event win_spends spent_stays inv_fire by blast
  next
    case False
    then show ?thesis using next_event inv_fire by auto
  qed
qed simp

end

definition fresh_draws :: "(string \<Rightarrow> string) \<Rightarrow> token_draws \<Rightarrow> disk_world \<Rightarrow> bool" where
  "fresh_draws sha draws w = (dw_clock w \<le> td_storeAt draws \<and> 0 < td_storeAt draws \<and> td_storeAt draws \<le> td_createAt draws \<and>
     sha (td_refreshToken draws) \<notin> set (dw_issued w) \<and> td_family draws \<notin> set (dw_families w))"

text \<open>The world after a token request: the drawn values count as issued.\<close>

definition after_request :: "(string \<Rightarrow> string) \<Rightarrow> token_draws \<Rightarrow> store_state \<Rightarrow> disk_world \<Rightarrow> disk_world" where
  "after_request sha draws st w = w \<lparr> dw_store := st, dw_issued := sha (td_refreshToken draws) # dw_issued w,
     dw_families := td_family draws # dw_families w, dw_clock := td_createAt draws \<rparr>"

definition leads_to :: "(string \<Rightarrow> string) \<Rightarrow> token_draws \<Rightarrow> disk_world \<Rightarrow> (disk_event \<times> disk_result) list \<Rightarrow> disk_world \<Rightarrow> bool" where
  "leads_to sha draws w xs w' = (machine_run (disk_step sha) w xs w' \<and>
     set (dw_issued w') \<subseteq> insert (sha (td_refreshToken draws)) (set (dw_issued w)) \<and>
     set (dw_families w') \<subseteq> insert (td_family draws) (set (dw_families w)) \<and> dw_clock w' \<le> td_createAt draws)"

lemma one_operation:
  assumes "disk_apply sha e now (dw_store w) = (res, st)" "dw_clock w \<le> now" "0 < now" "event_ok e"
    "set (new_keys sha e) \<inter> set (dw_issued w) = {}" "set (new_families e) \<inter> set (dw_families w) = {}"
  obtains w' where "disk_step sha (e, res) w w'" "dw_store w' = st" "dw_issued w' = new_keys sha e @ dw_issued w"
    "dw_families w' = new_families e @ dw_families w" "dw_clock w' = now"
  using disk_step.operation [OF assms(2,3,4,5,6,1)] by simp

lemma run_one: "fire e s t \<Longrightarrow> machine_run fire s [e] t"
  by (blast intro: machine_run.intros)

lemma run_two: "fire e s t \<Longrightarrow> fire f t u \<Longrightarrow> machine_run fire s [e, f] u"
  by (blast intro: machine_run.intros)

lemma code_grant_run:
  assumes "authorizationCodeGrant parse_url cr (disk_apply sha) config client form signing draws (dw_store w) = (r, st)" "fresh_draws sha draws w"
  shows "\<exists>xs w'. leads_to sha draws w xs w' \<and> dw_store w' = st \<and>
    (\<forall>response. r = Inr response \<longrightarrow> (\<exists>authCode e. get_param form ''code'' = Some authCode \<and> e \<in> set xs \<and> code_won sha (sha authCode) e))"
proof (cases "bindr (requiredParameter form ''code'') (\<lambda>authCode.
        bindr (requiredParameter form ''redirect_uri'') (\<lambda>redirectUri.
        bindr (requestedResource parse_url client form) (\<lambda>resource.
        bindr (optionalParameter form ''code_verifier'') (\<lambda>verifier. Inr (authCode, redirectUri, resource, verifier)))))")
  case (Inl e)
  then have "r = Inl e" "st = dw_store w" using assms(1) by (simp_all add: authorizationCodeGrant_def)
  then show ?thesis
    using assms(2) by (intro exI [of _ "[]"] exI [of _ w]) (auto simp: leads_to_def fresh_draws_def intro: machine_run.stop)
next
  case (Inr params)
  obtain authCode uri resource verifier where params: "params = (authCode, uri, resource, verifier)" by (cases params) auto
  have authCode: "get_param form ''code'' = Some authCode"
    using Inr by (auto simp: params bindr_eq_Inr dest: requiredParameter_get)
  define x where "x = \<lparr> ce_clientId = clientId client, ce_redirectUri = uri, ce_resource = Some resource,
    ce_allowedResources = Some (allowedResources client), ce_allowedScopes = Some (allowedScopes client) \<rparr>"
  obtain res1 st1 where ap1: "disk_apply sha (ConsumeCode authCode verifier x) (td_storeAt draws) (dw_store w) = (res1, st1)" by force
  obtain w1 where w1: "disk_step sha (ConsumeCode authCode verifier x, res1) w w1" "dw_store w1 = st1" "dw_issued w1 = dw_issued w"
      "dw_families w1 = dw_families w" "dw_clock w1 = td_storeAt draws"
    by (rule one_operation [OF ap1]) (use assms(2) in \<open>auto simp: fresh_draws_def\<close>)
  have fresh: "td_storeAt draws \<le> td_createAt draws" "0 < td_storeAt draws" "sha (td_refreshToken draws) \<notin> set (dw_issued w)"
      "td_family draws \<notin> set (dw_families w)" using assms(2) by (auto simp: fresh_draws_def)
  show ?thesis
  proof (cases "fst (storeConsumeCode (disk_apply sha) authCode verifier x (td_storeAt draws) (dw_store w))")
    case (Inl e)
    then have "r = Inl e" "st = st1"
      using assms(1) Inr ap1 unfolding x_def
      by (auto simp: authorizationCodeGrant_def params andThen_def storeConsumeCode_def split: prod.splits disk_result.splits sum.splits)
    then show ?thesis
      using run_one [of "disk_step sha", OF w1(1)] w1 fresh by (intro exI exI [of _ w1]) (auto simp: leads_to_def)
  next
    case consumed: (Inr r1)
    then have res1: "res1 = Code r1" using ap1 by (auto simp: storeConsumeCode_def split: prod.splits disk_result.splits)
    define i where "i = \<lparr> ri_clientId = clientId client, ri_user = ac_user r1, ri_resource = resource, ri_scopes = ac_scopes r1,
       ri_authTime = ac_authTime r1, ri_ttlSeconds = refreshTokenTtlSeconds config \<rparr>"
    let ?e = "CreateRefresh (td_refreshToken draws) (td_family draws) i"
    obtain st2 where ap2: "disk_apply sha ?e (td_createAt draws) (dw_store w1) = (Done, st2)" by simp
    obtain w2 where w2: "disk_step sha (?e, Done) w1 w2" "dw_store w2 = st2" "dw_issued w2 = sha (td_refreshToken draws) # dw_issued w1"
        "dw_families w2 = td_family draws # dw_families w1" "dw_clock w2 = td_createAt draws"
      by (rule one_operation [OF ap2]) (use fresh w1 in auto)
    have "st = st2"
      using assms(1) Inr ap1 ap2 w1(2) unfolding x_def i_def res1
      by (auto simp: authorizationCodeGrant_def params andThen_def storeConsumeCode_def storeCreate_def split: sum.splits)
    moreover have "code_won sha (sha authCode) (ConsumeCode authCode verifier x, res1)" by (simp add: res1)
    ultimately show ?thesis
      using run_two [of "disk_step sha", OF w1(1) w2(1)] w1 w2 authCode
      by (intro exI [of _ "[(ConsumeCode authCode verifier x, res1), (?e, Done)]"] exI [of _ w2]) (auto simp: leads_to_def)
  qed
qed

lemma refresh_grant_run:
  assumes "refreshTokenGrant parse_url cr (disk_apply sha) config client form signing draws (dw_store w) = (r, st)" "fresh_draws sha draws w"
  shows "\<exists>xs w'. leads_to sha draws w xs w' \<and> dw_store w' = st"
proof (cases "bindr (requiredParameter form ''refresh_token'') (\<lambda>token.
        bindr (requestedResource parse_url client form) (\<lambda>resource. Inr (token, resource)))")
  case (Inl e)
  then have "st = dw_store w" using assms(1) by (simp add: refreshTokenGrant_def)
  then show ?thesis
    using assms(2) by (intro exI [of _ "[]"] exI [of _ w]) (auto simp: leads_to_def fresh_draws_def intro: machine_run.stop)
next
  case (Inr params)
  obtain token resource where params: "params = (token, resource)" by (cases params) auto
  let ?e = "Rotate token (clientId client) (refreshTokenTtlSeconds config) (Some resource) (Some (allowedResources client)) (td_refreshToken draws)"
  obtain res1 st1 where ap1: "disk_apply sha ?e (td_storeAt draws) (dw_store w) = (res1, st1)" by force
  obtain w1 where w1: "disk_step sha (?e, res1) w w1" "dw_store w1 = st1" "dw_issued w1 = sha (td_refreshToken draws) # dw_issued w"
      "dw_families w1 = dw_families w" "dw_clock w1 = td_storeAt draws"
    by (rule one_operation [OF ap1]) (use assms(2) in \<open>auto simp: fresh_draws_def\<close>)
  have "st = st1"
    using assms(1) Inr ap1
    by (auto simp: refreshTokenGrant_def params andThen_def rotateRefreshToken_def split: prod.splits disk_result.splits sum.splits rotation.splits)
  then show ?thesis
    using run_one [of "disk_step sha", OF w1(1)] w1 assms(2) by (intro exI exI [of _ w1]) (auto simp: leads_to_def fresh_draws_def)
qed

section \<open>Runs of the service\<close>

datatype service_event = TokenRequest params "token_response outcome" | StoreUse disk_event disk_result

type_synonym 'p service_world = "disk_world \<times> oauth_client cache \<times> 'p assertion_caches"

text \<open>
  A step is a token request, with whatever configuration and clients, or any other operation on the
  store (the authorization endpoint, the callback, the protocol sessions, the rate limiter).
\<close>

inductive service_step :: "('k, 'p) crypto \<Rightarrow> service_event \<Rightarrow> 'p service_world \<Rightarrow> 'p service_world \<Rightarrow> bool" for cr where
  token_request: "fresh_draws (cr_sha256 cr) draws w \<Longrightarrow>
    handleTokenGrant cr xo (disk_apply (cr_sha256 cr)) config clients form authorization signing draws
      \<lparr> au_store = dw_store w, au_metadata = m, au_assertions = a \<rparr> = (r, s') \<Longrightarrow>
    service_step cr (TokenRequest form r) (w, m, a) (after_request (cr_sha256 cr) draws (au_store s') w, au_metadata s', au_assertions s')"
| store_use: "disk_step (cr_sha256 cr) (e, res) w w' \<Longrightarrow> service_step cr (StoreUse e res) (w, m, a) (w', m, a)"

inductive_cases service_stepE: "service_step cr e s t"

fun redeemed :: "(string \<Rightarrow> string) \<Rightarrow> string \<Rightarrow> service_event \<Rightarrow> bool" where
  "redeemed sha h (TokenRequest form (Inr response)) = (get_param form ''grant_type'' = Some ''authorization_code'' \<and>
     (case get_param form ''code'' of None \<Rightarrow> False | Some authCode \<Rightarrow> sha authCode = h))"
| "redeemed sha h (TokenRequest form (Inl e)) = False"
| "redeemed sha h (StoreUse e res) = code_won sha h (e, res)"

text \<open>A token request ends in an error before it touches the store, or with the dispatch on its grant.\<close>

lemma handleTokenGrant_cases:
  assumes "handleTokenGrant cr xo store config clients form authorization signing draws s = (r, s')"
  shows "(\<exists>e. r = Inl e) \<and> au_store s' = au_store s \<or>
    (\<exists>grant client. dispatchGrant (xo_parseUrl xo) cr store config client grant form signing draws (au_store s) = (r, au_store s') \<and>
       optionalParameter form ''grant_type'' = Inr grant)"
proof (cases "bindr (assertAllowedParameters form tokenParameters) (\<lambda>_.
        bindr (optionalParameter form ''grant_type'') (\<lambda>grant.
        bindr (assertAllowedParameters form (tokenGrantParameters grant)) (\<lambda>_.
        bindr (readClientCredentials form authorization) (\<lambda>credentials. Inr (grant, credentials)))))")
  case (Inl e)
  then show ?thesis using assms by (auto simp: handleTokenGrant_def)
next
  case (Inr p)
  obtain grant credentials where p: "p = (grant, credentials)" by (cases p)
  have grant: "optionalParameter form ''grant_type'' = Inr grant" using Inr p by (auto simp: bindr_eq_Inr)
  obtain now later check where instants: "td_instants draws = (now, later, check)" by (cases "td_instants draws")
  obtain c metadata where resolved: "resolveClient xo config clients (cc_clientId credentials) now later (au_metadata s) = (c, metadata)" by force
  show ?thesis
  proof (cases c)
    case (Inl e)
    then show ?thesis
      using assms Inr p instants resolved by (auto simp: handleTokenGrant_def andThen_def Let_def)
  next
    case client: (Inr client)
    obtain u assertions where auth: "authenticateClient cr xo config client credentials (now, later, check) (au_assertions s) = (u, assertions)" by force
    obtain d st where dispatch: "dispatchGrant (xo_parseUrl xo) cr store config client grant form signing draws (au_store s) = (d, st)" by force
    show ?thesis
    proof (cases u)
      case (Inl e)
      then show ?thesis
        using assms Inr p instants resolved client auth by (auto simp: handleTokenGrant_def andThen_def Let_def)
    next
      case (Inr v)
      then have "r = d \<and> au_store s' = st"
        using assms \<open>_ = Inr p\<close> p instants resolved client auth dispatch
        by (cases d) (auto simp: handleTokenGrant_def andThen_def Let_def)
      then show ?thesis using dispatch grant by auto
    qed
  qed
qed

lemma token_request_run:
  fixes s' :: "(store_state, 'p) auth_state"
  assumes "fresh_draws (cr_sha256 cr) draws w"
    and "handleTokenGrant cr xo (disk_apply (cr_sha256 cr)) config clients form authorization signing draws
      \<lparr> au_store = dw_store w, au_metadata = m, au_assertions = a \<rparr> = (r, s')"
  shows "\<exists>xs w'. leads_to (cr_sha256 cr) draws w xs w' \<and> dw_store w' = au_store s' \<and>
    (redeemed (cr_sha256 cr) h (TokenRequest form r) \<longrightarrow> (\<exists>e\<in>set xs. code_won (cr_sha256 cr) h e))"
proof -
  have idle: "leads_to (cr_sha256 cr) draws w [] w"
    using assms(1) by (auto simp: leads_to_def fresh_draws_def intro: machine_run.stop)
  let ?s = "\<lparr> au_store = dw_store w, au_metadata = m, au_assertions = a \<rparr>"
  show ?thesis
  proof (cases "\<exists>grant client. dispatchGrant (xo_parseUrl xo) cr (disk_apply (cr_sha256 cr)) config client grant form signing draws (dw_store w)
      = (r, au_store s') \<and> optionalParameter form ''grant_type'' = Inr grant")
    case True
    then obtain grant client where d: "dispatchGrant (xo_parseUrl xo) cr (disk_apply (cr_sha256 cr)) config client grant form signing draws (dw_store w)
        = (r, au_store s')" and g: "get_param form ''grant_type'' = grant"
      using optionalParameter_get by blast
    show ?thesis
    proof (cases "grant = Some ''authorization_code''")
      case True
      then have call: "authorizationCodeGrant (xo_parseUrl xo) cr (disk_apply (cr_sha256 cr)) config client form signing draws (dw_store w)
          = (r, au_store s')"
        using d by (simp add: dispatchGrant_def)
      obtain xs w' where x: "leads_to (cr_sha256 cr) draws w xs w'" "dw_store w' = au_store s'"
          "\<forall>response. r = Inr response \<longrightarrow> (\<exists>authCode e. get_param form ''code'' = Some authCode \<and> e \<in> set xs \<and>
             code_won (cr_sha256 cr) (cr_sha256 cr authCode) e)"
        using code_grant_run [OF call assms(1)] by blast
      have "\<exists>e\<in>set xs. code_won (cr_sha256 cr) h e" if red: "redeemed (cr_sha256 cr) h (TokenRequest form r)"
      proof -
        obtain response where "r = Inr response" using red by (cases r) auto
        with x(3) obtain authCode e where e: "get_param form ''code'' = Some authCode" "e \<in> set xs"
            "code_won (cr_sha256 cr) (cr_sha256 cr authCode) e" by blast
        moreover have "cr_sha256 cr authCode = h" using red \<open>r = Inr response\<close> e(1) by simp
        ultimately show ?thesis by blast
      qed
      with x(1,2) show ?thesis by blast
    next
      case other: False
      show ?thesis
      proof (cases "grant = Some ''refresh_token''")
        case True
        then have "refreshTokenGrant (xo_parseUrl xo) cr (disk_apply (cr_sha256 cr)) config client form signing draws (dw_store w)
            = (r, au_store s')"
          using d by (simp add: dispatchGrant_def)
        from refresh_grant_run [OF this assms(1)] show ?thesis
          using other g by (cases r) auto
      next
        case False
        then have "r = Inl unsupported_grant_error" "au_store s' = dw_store w"
          using d other by (simp_all add: dispatchGrant_def)
        then show ?thesis using idle by auto
      qed
    qed
  next
    case False
    then have "(\<exists>e. r = Inl e) \<and> au_store s' = dw_store w"
      using handleTokenGrant_cases [OF assms(2)] by auto
    then show ?thesis using idle by (intro exI [of _ "[]"] exI [of _ w]) auto
  qed
qed

lemma keys_in_mono: "keys_in table ks \<Longrightarrow> set ks \<subseteq> set ks' \<Longrightarrow> keys_in table ks'"
  unfolding keys_in_def by blast

lemma good_after_request:
  assumes "disk_good w'" "leads_to sha draws w xs w'" shows "disk_good (after_request sha draws (dw_store w') w)"
proof -
  let ?a = "after_request sha draws (dw_store w') w"
  have issued: "set (dw_issued w') \<subseteq> set (dw_issued ?a)" and families: "set (dw_families w') \<subseteq> set (dw_families ?a)"
    and same: "dw_store ?a = dw_store w'"
    using assms(2) by (auto simp: leads_to_def after_request_def)
  note mono = keys_in_mono [OF _ issued]
  show ?thesis
    using assms(1) families unfolding disk_good_def same by (blast intro: mono)
qed

definition world_good :: "'p service_world \<Rightarrow> bool" where "world_good s = disk_good (fst s)"

definition world_spent :: "string \<Rightarrow> 'p service_world \<Rightarrow> bool" where "world_spent h s = code_spent h (fst s)"

lemma service_step_run:
  assumes "service_step cr e s t"
  obtains xs w' where "machine_run (disk_step (cr_sha256 cr)) (fst s) xs w'" "dw_store w' = dw_store (fst t)"
    "disk_good w' \<Longrightarrow> disk_good (fst t)" "redeemed (cr_sha256 cr) h e \<Longrightarrow> \<exists>x\<in>set xs. code_won (cr_sha256 cr) h x"
  using assms
proof (cases rule: service_step.cases)
  case (token_request draws w xo config clients form authorization signing m a r s')
  from token_request_run [OF token_request(4,5), of h] obtain xs w' where
    x: "leads_to (cr_sha256 cr) draws w xs w'" "dw_store w' = au_store s'"
      "redeemed (cr_sha256 cr) h (TokenRequest form r) \<longrightarrow> (\<exists>e\<in>set xs. code_won (cr_sha256 cr) h e)" by blast
  show ?thesis
  proof (rule that)
    show "machine_run (disk_step (cr_sha256 cr)) (fst s) xs w'" using x(1) token_request(2) by (simp add: leads_to_def)
    show "dw_store w' = dw_store (fst t)" using x(2) token_request(3) by (simp add: after_request_def)
    show "disk_good (fst t)" if "disk_good w'" using good_after_request [OF that x(1)] x(2) token_request(3) by simp
    show "\<exists>x\<in>set xs. code_won (cr_sha256 cr) h x" if "redeemed (cr_sha256 cr) h e" using that x(3) token_request(1) by simp
  qed
next
  case (store_use d res w w' m a)
  then have "machine_run (disk_step (cr_sha256 cr)) (fst s) [(d, res)] w'" by (auto intro: machine_run.intros)
  then show ?thesis using store_use by (intro that) auto
qed

interpretation redemptions: one_shot "service_step cr" world_good "redeemed (cr_sha256 cr)" world_spent for cr
proof unfold_locales
  fix e and s t :: "'b service_world" and h
  assume step: "service_step cr e s t" and good: "world_good s"
  obtain xs w' where x: "machine_run (disk_step (cr_sha256 cr)) (fst s) xs w'" "dw_store w' = dw_store (fst t)"
      "disk_good w' \<Longrightarrow> disk_good (fst t)" "redeemed (cr_sha256 cr) h e \<Longrightarrow> \<exists>x\<in>set xs. code_won (cr_sha256 cr) h x"
    by (rule service_step_run [OF step]) blast
  have g: "disk_good (fst s)" using good by (simp add: world_good_def)
  show "world_good t"
    using machine_run_invariant [of "disk_step (cr_sha256 cr)" _ _ _ disk_good, OF x(1) g disk_good_step] x(3) by (auto simp: world_good_def)
  have same: "code_spent h w' = code_spent h (fst t)" by (simp add: code_spent_def x(2))
  show "world_spent h t" if "world_spent h s"
    using disk_codes.spent_stays [OF x(1) g] that same by (simp add: world_spent_def)
  show "\<not> world_spent h s" "world_spent h t" if won: "redeemed (cr_sha256 cr) h e"
  proof -
    obtain y where y: "y \<in> set xs" "code_won (cr_sha256 cr) h y" using x(4) [OF won] by blast
    show "world_spent h t"
      using disk_codes.spent_after_win [OF x(1) g y] same by (simp add: world_spent_def)
    show "\<not> world_spent h s"
    proof
      assume "world_spent h s"
      then have "filter (code_won (cr_sha256 cr) h) xs = []"
        using disk_codes.spent_never_wins [OF x(1) g] by (simp add: world_spent_def)
      with y show False by (simp add: filter_empty_conv)
    qed
  qed
qed

text \<open>C4: however token requests, with whatever clients, configurations and caches, and other operations
  on the store follow each other, at most one of them redeems an authorization code: there is no second
  token response for it.\<close>

theorem code_redeemed_once:
  assumes "machine_run (service_step cr) (initial_disk_world, m, a) es t"
  shows "length (filter (redeemed (cr_sha256 cr) h) es) \<le> 1"
  by (rule redemptions.at_most_one_win [OF assms]) (simp add: world_good_def disk_good_initial)

section \<open>Witnesses\<close>

text \<open>Hashes of the samples are the texts themselves.\<close>

definition plain_crypto :: "(string, string) crypto" where
  "plain_crypto = sample_crypto \<lparr> cr_sha256 := (\<lambda>s. s) \<rparr>"

definition grant_client :: oauth_client where
  "grant_client = sample_client \<lparr> clientSecretHash := Some ''s3cret'' \<rparr>"

definition grant_code_input :: auth_code_input where
  "grant_code_input = \<lparr> ci_clientId = ''gpt'', ci_redirectUri = ''https://chatgpt.com/cb'', ci_resource = ''https://api.example/mcp'',
     ci_scopes = [''openid''], ci_nonce = None, ci_codeChallenge = Some (replicate 43 CHR ''v''), ci_methodS256 = True,
     ci_user = sample_profile, ci_ttlSeconds = 60 \<rparr>"

definition grant_form :: params where
  "grant_form = [(''grant_type'', ''authorization_code''), (''client_id'', ''gpt''), (''client_secret'', ''s3cret''), (''code'', ''c1''),
     (''redirect_uri'', ''https://chatgpt.com/cb''), (''code_verifier'', replicate 43 CHR ''v''), (''resource'', ''https://api.example/mcp'')]"

definition draws_at :: "int \<Rightarrow> string \<Rightarrow> token_draws" where
  "draws_at now token = \<lparr> td_refreshToken = token, td_family = ''f'' @ token, td_jti = ''j'' @ token, td_storeAt = now, td_createAt = now,
     td_issueAt = now, td_instants = (0, 0, 0) \<rparr>"

definition created_store :: store_state where
  "created_store = createAuthorizationCode (\<lambda>s. s) ''c1'' 1000 grant_code_input emptyStoreState"

definition no_assertions :: "string assertion_caches" where
  "no_assertions = \<lparr> replayCache = [], jwksCache = [] \<rparr>"

definition grant_state :: "store_state \<Rightarrow> (store_state, string) auth_state" where
  "grant_state st = \<lparr> au_store = st, au_metadata = [], au_assertions = no_assertions \<rparr>"

abbreviation sample_grant :: "int \<Rightarrow> string \<Rightarrow> store_state \<Rightarrow> token_response outcome \<times> (store_state, string) auth_state" where
  "sample_grant now token st \<equiv> handleTokenGrant plain_crypto sample_outside (disk_apply (\<lambda>s. s)) token_config [grant_client] grant_form None
     (Inr token_key) (draws_at now token) (grant_state st)"

lemma grant_client_fields:
  "clientId grant_client = ''gpt''" "allowedResources grant_client = [''https://api.example/mcp'']"
  "allowedScopes grant_client = [''openid'', ''email'']"
  by (simp_all add: grant_client_def sample_client_def)

lemma grant_prefix:
  "bindr (assertAllowedParameters grant_form tokenParameters) (\<lambda>_.
   bindr (optionalParameter grant_form ''grant_type'') (\<lambda>grant.
   bindr (assertAllowedParameters grant_form (tokenGrantParameters grant)) (\<lambda>_.
   bindr (readClientCredentials grant_form None) (\<lambda>credentials. Inr (grant, credentials))))) =
   Inr (Some ''authorization_code'', \<lparr> cc_clientId = ''gpt'', cc_clientSecret = Some ''s3cret'', cc_clientAssertion = None,
     cc_method = Client_secret_post \<rparr>)"
  by code_simp

lemma grant_client_resolved:
  "resolveClient sample_outside token_config [grant_client] ''gpt'' 0 0 [] = (Inr grant_client, [])"
  by (simp add: resolveClient_def grant_client_def sample_client_def)

lemma grant_client_authenticated:
  "authenticateClient plain_crypto sample_outside token_config grant_client \<lparr> cc_clientId = ''gpt'', cc_clientSecret = Some ''s3cret'',
     cc_clientAssertion = None, cc_method = Client_secret_post \<rparr> (0, 0, 0) no_assertions = (Inr (), no_assertions)"
  by (simp add: authenticateClient_def assertClientAuthMethod_def assertClientSecret_def grant_client_def sample_client_def plain_crypto_def)

lemma code_parameters:
  "bindr (requiredParameter grant_form ''code'') (\<lambda>authCode.
   bindr (requiredParameter grant_form ''redirect_uri'') (\<lambda>redirectUri.
   bindr (requestedResource sample_url_parser grant_client grant_form) (\<lambda>resource.
   bindr (optionalParameter grant_form ''code_verifier'') (\<lambda>verifier. Inr (authCode, redirectUri, resource, verifier))))) =
   Inr (''c1'', ''https://chatgpt.com/cb'', ''https://api.example/mcp'', Some (replicate 43 CHR ''v''))"
  by code_simp

definition grant_expectation :: auth_code_expectation where
  "grant_expectation = \<lparr> ce_clientId = ''gpt'', ce_redirectUri = ''https://chatgpt.com/cb'', ce_resource = Some ''https://api.example/mcp'',
     ce_allowedResources = Some [''https://api.example/mcp''], ce_allowedScopes = Some [''openid'', ''email''] \<rparr>"

lemma sample_code_consumed:
  "case storeConsumeCode (disk_apply (\<lambda>s. s)) ''c1'' (Some (replicate 43 CHR ''v'')) grant_expectation 1001 created_store of
     (Inr r, st) \<Rightarrow> fst (storeConsumeCode (disk_apply (\<lambda>s. s)) ''c1'' (Some (replicate 43 CHR ''v'')) grant_expectation 1002 st) = Inl invalid_grant_error
   | _ \<Rightarrow> False"
  by code_simp

lemma sample_grant_answer:
  obtains response s' where "sample_grant 1001 ''r1'' created_store = (Inr response, s')"
proof -
  obtain r st where consumed: "storeConsumeCode (disk_apply (\<lambda>s. s)) ''c1'' (Some (replicate 43 CHR ''v'')) grant_expectation 1001 created_store = (Inr r, st)"
    using sample_code_consumed by (auto split: prod.splits sum.splits)
  have "\<exists>response st. dispatchGrant sample_url_parser plain_crypto (disk_apply (\<lambda>s. s)) token_config grant_client (Some ''authorization_code'')
      grant_form (Inr token_key) (draws_at 1001 ''r1'') created_store = (Inr response, st)"
    using consumed
    by (simp add: dispatchGrant_def authorizationCodeGrant_def code_parameters andThen_def grant_expectation_def grant_client_fields
        draws_at_def storeCreate_def)
  then show ?thesis
    using that grant_client_authenticated grant_client_resolved
    by (auto simp: handleTokenGrant_def grant_prefix andThen_def draws_at_def grant_state_def sample_outside_def)
qed

theorem token_grant_sound_witness:
  "\<exists>response s'. sample_grant 1001 ''r1'' created_store = (Inr response, s') \<and>
     (\<exists>r. map_of (authorizationCodes created_store) ''c1'' = Some r \<and> \<not> truthy_time (ac_consumedAt r))"
proof -
  obtain response s' where call: "sample_grant 1001 ''r1'' created_store = (Inr response, s')"
    by (rule sample_grant_answer)
  have sha: "cr_sha256 plain_crypto = (\<lambda>s. s)" by (simp add: plain_crypto_def)
  have "get_param grant_form ''grant_type'' = Some ''authorization_code''" "get_param grant_form ''code'' = Some ''c1''" by code_simp+
  with token_grant_sound [of plain_crypto, unfolded sha, OF call] call show ?thesis
    by (auto simp: code_grant_ok_def grant_state_def)
qed

definition created_world :: disk_world where
  "created_world = \<lparr> dw_store = created_store, dw_issued = [''c1''], dw_families = [], dw_clock = 1000 \<rparr>"

lemma created_world_step: "disk_step (\<lambda>s. s) (CreateCode ''c1'' grant_code_input, Done) initial_disk_world created_world"
proof -
  have "disk_apply (\<lambda>s. s) (CreateCode ''c1'' grant_code_input) 1000 (dw_store initial_disk_world) = (Done, created_store)"
    by (simp add: created_store_def initial_disk_world_def)
  from disk_step.operation [OF _ _ _ _ _ this] show ?thesis
    by (simp add: initial_disk_world_def created_world_def)
qed

theorem code_redeemed_once_witness:
  "\<exists>response r t. machine_run (service_step plain_crypto) (initial_disk_world, [], no_assertions)
       [StoreUse (CreateCode ''c1'' grant_code_input) Done, TokenRequest grant_form (Inr response), TokenRequest grant_form r] t \<and>
     redeemed (\<lambda>s. s) ''c1'' (TokenRequest grant_form (Inr response)) \<and>
     \<not> redeemed (\<lambda>s. s) ''c1'' (TokenRequest grant_form r)"
proof -
  have sha: "cr_sha256 plain_crypto = (\<lambda>s. s)" by (simp add: plain_crypto_def)
  obtain response s1 where first: "sample_grant 1001 ''r1'' created_store = (Inr response, s1)"
    by (rule sample_grant_answer)
  let ?w1 = "after_request (\<lambda>s. s) (draws_at 1001 ''r1'') (au_store s1) created_world"
  obtain r s2 where second: "handleTokenGrant plain_crypto sample_outside (disk_apply (\<lambda>s. s)) token_config [grant_client] grant_form None
     (Inr token_key) (draws_at 1002 ''r2'') \<lparr> au_store = dw_store ?w1, au_metadata = au_metadata s1, au_assertions = au_assertions s1 \<rparr> = (r, s2)"
    by force
  let ?t = "(after_request (\<lambda>s. s) (draws_at 1002 ''r2'') (au_store s2) ?w1, au_metadata s2, au_assertions s2)"
  have "service_step plain_crypto (StoreUse (CreateCode ''c1'' grant_code_input) Done) (initial_disk_world, [], no_assertions)
      (created_world, [], no_assertions)"
    using created_world_step by (intro service_step.store_use) (simp add: sha)
  moreover have "service_step plain_crypto (TokenRequest grant_form (Inr response)) (created_world, [], no_assertions)
      (?w1, au_metadata s1, au_assertions s1)"
    using service_step.token_request [of plain_crypto "draws_at 1001 ''r1''" created_world, unfolded sha] first
    by (simp add: fresh_draws_def draws_at_def created_world_def grant_state_def)
  moreover have "service_step plain_crypto (TokenRequest grant_form r) (?w1, au_metadata s1, au_assertions s1) ?t"
    using service_step.token_request [of plain_crypto "draws_at 1002 ''r2''" ?w1, unfolded sha] second
    by (simp add: fresh_draws_def draws_at_def created_world_def after_request_def)
  ultimately have run: "machine_run (service_step plain_crypto) (initial_disk_world, [], no_assertions)
       [StoreUse (CreateCode ''c1'' grant_code_input) Done, TokenRequest grant_form (Inr response), TokenRequest grant_form r] ?t"
    by (blast intro: machine_run.intros)
  have won: "redeemed (\<lambda>s. s) ''c1'' (TokenRequest grant_form (Inr response))" by code_simp
  have "\<not> redeemed (\<lambda>s. s) ''c1'' (TokenRequest grant_form r)"
    using code_redeemed_once [OF run, of "''c1''"] won unfolding sha by auto
  with run won show ?thesis by blast
qed

end
