(* ===== verification/Recorded_Store.thy ===== *)
theory Recorded_Store
  imports Authorize Grant_Properties
begin

text \<open>
  What the records of a store stand for.  An upstream state, a code and a refresh token each stand for an
  authorization that a client was entitled to ask for, and from the code on for a user who logged in at
  the upstream provider; every request to the server preserves this, over any store with the laws of
  the locale \<open>recorded_store\<close>, which the file store satisfies.
\<close>

section \<open>What the records of a store stand for\<close>

definition known_client :: "url_parser \<Rightarrow> service_config \<Rightarrow> oauth_client list \<Rightarrow> oauth_client \<Rightarrow> bool" where
  "known_client parse_url config clients client = (client \<in> set clients \<or>
     isUrlClientId parse_url (clientId client) \<and> document_client parse_url config (clientId client) client)"

text \<open>A client may ask for this redirect address, resource and scopes, with this code challenge.\<close>

definition entitled :: "oauth_client \<Rightarrow> string \<Rightarrow> string \<Rightarrow> string list \<Rightarrow> string option \<Rightarrow> bool" where
  "entitled client uri resource scopes challenge =
    (uri \<in> set (redirectUris client) \<and> resource \<in> set (allowedResources client) \<and> set scopes \<subseteq> set (allowedScopes client) \<and>
     (case challenge of None \<Rightarrow> pkcePolicy client \<noteq> Pkce_required | Some ch \<Rightarrow> is_pkce_value ch))"

definition authorized ::
  "url_parser \<Rightarrow> service_config \<Rightarrow> oauth_client list \<Rightarrow> string \<Rightarrow> string \<Rightarrow> string \<Rightarrow> string list \<Rightarrow> string option \<Rightarrow> bool" where
  "authorized parse_url config clients cid uri resource scopes challenge =
    (\<exists>client. clientId client = cid \<and> known_client parse_url config clients client \<and> entitled client uri resource scopes challenge)"

definition logged_in :: "'u upstream \<Rightarrow> service_config \<Rightarrow> user_profile \<Rightarrow> bool" where
  "logged_in up config user = (\<exists>upstreamCode verifier nonce now. exchangeUpstreamCode up config upstreamCode verifier nonce now = Inr user)"

definition state_of :: "upstream_state_input \<Rightarrow> upstream_state_record \<Rightarrow> bool" where
  "state_of i r = (us_clientId r = ui_clientId i \<and> us_redirectUri r = ui_redirectUri i \<and> us_resource r = ui_resource i \<and>
     us_scopes r = ui_scopes i \<and> us_clientState r = ui_clientState i \<and> us_codeVerifier r = ui_codeVerifier i \<and>
     us_upstreamNonce r = ui_upstreamNonce i \<and> us_nonce r = nonempty_text (ui_nonce i) \<and>
     us_codeChallenge r = nonempty_text (ui_codeChallenge i) \<and> us_methodS256 r = ui_methodS256 i)"

definition same_refresh :: "refresh_token_record \<Rightarrow> refresh_token_record \<Rightarrow> bool" where
  "same_refresh r r' = (rt_clientId r' = rt_clientId r \<and> rt_user r' = rt_user r \<and> rt_resource r' = rt_resource r \<and>
     rt_scopes r' = rt_scopes r \<and> rt_authTime r' = rt_authTime r)"

definition state_ok where
  "state_ok pu config clients r = authorized pu config clients (us_clientId r) (us_redirectUri r) (us_resource r) (us_scopes r) (us_codeChallenge r)"

definition code_ok where
  "code_ok pu up config clients r =
    (authorized pu config clients (ac_clientId r) (ac_redirectUri r) (ac_resource r) (ac_scopes r) (ac_codeChallenge r) \<and>
     logged_in up config (ac_user r))"

definition refresh_ok where
  "refresh_ok pu up config clients r =
    ((\<exists>uri challenge. authorized pu config clients (rt_clientId r) uri (rt_resource r) (rt_scopes r) challenge) \<and>
     logged_in up config (rt_user r))"

lemma nonempty_pkce: "nonempty_text (Some ch) = Some ch" if "is_pkce_value ch"
  using that pkce_value_not_Nil by (auto simp: nonempty_text_def)

lemma nonempty_text_idem [simp]: "nonempty_text (nonempty_text v) = nonempty_text v"
  by (auto simp: nonempty_text_def split: option.splits if_splits)

lemma entitled_nonempty: "entitled client uri resource scopes challenge \<Longrightarrow> entitled client uri resource scopes (nonempty_text challenge)"
  by (cases challenge) (auto simp: entitled_def nonempty_pkce nonempty_text_def pkce_value_not_Nil)

lemma authorized_nonempty:
  "authorized pu config clients cid uri resource scopes challenge \<Longrightarrow>
    authorized pu config clients cid uri resource scopes (nonempty_text challenge)"
  unfolding authorized_def using entitled_nonempty by blast

text \<open>What a creation may be given.\<close>

fun event_fine :: "url_parser \<Rightarrow> 'u upstream \<Rightarrow> service_config \<Rightarrow> oauth_client list \<Rightarrow> disk_event \<Rightarrow> bool" where
  "event_fine pu up config clients (CreateCode t i) =
    (authorized pu config clients (ci_clientId i) (ci_redirectUri i) (ci_resource i) (ci_scopes i) (ci_codeChallenge i) \<and>
     logged_in up config (ci_user i))"
| "event_fine pu up config clients (CreateState t i) =
    authorized pu config clients (ui_clientId i) (ui_redirectUri i) (ui_resource i) (ui_scopes i) (ui_codeChallenge i)"
| "event_fine pu up config clients (CreateRefresh t f i) =
    ((\<exists>uri challenge. authorized pu config clients (ri_clientId i) uri (ri_resource i) (ri_scopes i) challenge) \<and>
     logged_in up config (ri_user i))"
| "event_fine pu up config clients _ = True"

section \<open>Calls and their states\<close>

lemma andThen_snd:
  assumes "\<And>e s. r = (Inl e, s) \<Longrightarrow> J (up s)" "\<And>x s. r = (Inr x, s) \<Longrightarrow> J (snd (f x s))"
  shows "J (snd (andThen r f up))"
  using assms by (cases r) (auto simp: andThen_def split: sum.splits)

lemma snd_answer [simp]: "snd (answer on_error r) = snd r"
  by (auto simp: answer_def split: prod.splits sum.splits)

lemma storeCreate_event: "storeCreate store e token now st = (r, st') \<Longrightarrow> \<exists>res. store e now st = (res, st')"
  by (auto simp: storeCreate_def split: prod.splits disk_result.splits)

lemma storeConsumeState_event:
  "storeConsumeState store state now st = (r, st') \<Longrightarrow>
    \<exists>res. store (ConsumeState state) now st = (res, st') \<and> (\<forall>x. r = Inr x \<longrightarrow> res = State x)"
  by (auto simp: storeConsumeState_def split: prod.splits disk_result.splits)

lemma storeConsumeCode_event:
  "storeConsumeCode store c v x now st = (r, st') \<Longrightarrow>
    \<exists>res. store (ConsumeCode c v x) now st = (res, st') \<and> (\<forall>y. r = Inr y \<longrightarrow> res = Code y)"
  by (auto simp: storeConsumeCode_def split: prod.splits disk_result.splits)

lemma rotateRefreshToken_event:
  "rotateRefreshToken store t cid ttl er ar n now st = (r, st') \<Longrightarrow> \<exists>res. store (Rotate t cid ttl er ar n) now st = (res, st')"
  by (auto simp: rotateRefreshToken_def split: prod.splits disk_result.splits rotation.splits)

lemma enforceRateLimit_event:
  "enforceRateLimit sha store config bucket subj now st = (r, st') \<Longrightarrow>
    st' = st \<or> (\<exists>key limits res. store (Hit key limits) now st = (res, st'))"
  by (auto simp: enforceRateLimit_def split: prod.splits disk_result.splits option.splits)

lemma validateAuthorization_ok:
  assumes "validateAuthorization pu client request state = Inr v"
  shows "entitled client (va_redirectUri v) (va_resource v) (va_scopes v) (va_codeChallenge v) \<and> va_clientId v = clientId client \<and>
    va_redirectUri v = aq_redirectUri request \<and> va_clientState v = state"
proof -
  obtain resource scopes challenge nonce where
      p: "assertRedirectUri client (aq_redirectUri request) = Inr ()" "resolveOAuthAuthorizationResource pu client (aq_resource request) = Inr resource"
        "assertAllowedScopes scopes (allowedScopes client) = Inr ()"
        "pkceInput (pkcePolicy client) (aq_codeChallenge request) (aq_codeChallengeMethod request) = Inr challenge"
    and v: "va_redirectUri v = aq_redirectUri request" "va_resource v = resource" "va_scopes v = scopes" "va_codeChallenge v = challenge"
        "va_clientId v = clientId client" "va_clientState v = state"
    using assms by (auto simp: validateAuthorization_def bindr_eq_Inr)
  have found: "findAllowedResource pu c rs = Inr (Some x) \<Longrightarrow> x \<in> set rs" for c rs x
    by (induction rs) (auto simp: bindr_eq_Inr split: if_splits)
  have "resource \<in> set (allowedResources client)"
    using p(2) by (auto simp: resolveOAuthAuthorizationResource_def resolveAllowedResource_def bindr_eq_Inr split: if_splits intro: found)
  moreover have "aq_redirectUri request \<in> set (redirectUris client)"
    using p(1) by (auto simp: assertRedirectUri_def split: if_splits)
  moreover have "set scopes \<subseteq> set (allowedScopes client)"
    using p(3) by (auto simp: assertAllowedScopes_def Let_def filter_empty_conv split: if_splits)
  moreover have "case challenge of None \<Rightarrow> pkcePolicy client \<noteq> Pkce_required | Some ch \<Rightarrow> is_pkce_value ch"
    using p(4) by (cases "aq_codeChallenge request") (auto simp: pkceInput_def split: if_splits option.splits)
  ultimately show ?thesis
    using v by (simp add: entitled_def)
qed

lemma resolved_known:
  assumes "metadata_cache_sound (xo_parseUrl xo) cache" "nul \<notin> set (mcpResource config)"
    and "resolveClient xo config clients cid now later cache = (r, cache')"
  shows "metadata_cache_sound (xo_parseUrl xo) cache'"
    "r = Inr client \<Longrightarrow> clientId client = cid \<and> known_client (xo_parseUrl xo) config clients client"
proof -
  show "metadata_cache_sound (xo_parseUrl xo) cache'"
    using assms resolved_document_sound(1) [OF assms(1,2)]
    by (auto simp: resolveClient_def split: option.splits if_splits)
  assume r: "r = Inr client"
  show "clientId client = cid \<and> known_client (xo_parseUrl xo) config clients client"
  proof (cases "find (\<lambda>c. clientId c = cid) clients")
    case None
    then have "isUrlClientId (xo_parseUrl xo) cid" "document_client (xo_parseUrl xo) config cid client"
      using assms r resolved_document_sound(2) [OF assms(1,2)] by (auto simp: resolveClient_def split: if_splits)
    then show ?thesis using document_client_confined by (auto simp: known_client_def)
  next
    case (Some c)
    then have "c \<in> set clients" "clientId c = cid" by (auto simp: find_Some_iff)
    moreover have "client = c" using Some assms(3) r by (auto simp: resolveClient_def)
    ultimately show ?thesis by (simp add: known_client_def)
  qed
qed

section \<open>Runs of the server\<close>

text \<open>Requests to the three endpoints, with whatever draws and clock readings, and the other uses of the
  store, which create no state, code or token.\<close>

fun creates_grant :: "disk_event \<Rightarrow> bool" where
  "creates_grant (CreateCode t i) = True"
| "creates_grant (CreateState t i) = True"
| "creates_grant (CreateRefresh t f i) = True"
| "creates_grant _ = False"

inductive server_step :: "('k, 'p, 's, 'u) service \<Rightarrow> ('s, 'p) auth_state \<Rightarrow> ('s, 'p) auth_state \<Rightarrow> bool" for sv where
  authorization: "authorizeEndpoint sv req now draws s = (response, s') \<Longrightarrow> server_step sv s s'"
| login_callback: "callbackEndpoint sv req instants newCode s = (response, s') \<Longrightarrow> server_step sv s s'"
| token_request: "tokenEndpoint sv req now tokens s = (response, s') \<Longrightarrow> server_step sv s s'"
| other_use: "\<not> creates_grant e \<Longrightarrow> sv_store sv e now (au_store s) = (res, st) \<Longrightarrow> server_step sv s (s \<lparr> au_store := st \<rparr>)"

inductive_cases server_stepE: "server_step sv s t"

text \<open>A store that loses nothing of what a record was created with, and gives out what it holds.\<close>

locale recorded_store = grant_store +
  fixes codes :: "'a \<Rightarrow> auth_code_record set" and tokens :: "'a \<Rightarrow> refresh_token_record set"
    and states :: "'a \<Rightarrow> upstream_state_record set"
  assumes code_at_recorded: "code_at st h = Some r \<Longrightarrow> r \<in> codes st"
    and refresh_at_recorded: "refresh_at st h = Some r' \<Longrightarrow> r' \<in> tokens st"
    and codes_law: "store e now st = (res, st') \<Longrightarrow> r \<in> codes st' \<Longrightarrow>
      (\<exists>r0 \<in> codes st. \<exists>c. r = r0 \<lparr> ac_consumedAt := c \<rparr>) \<or> (\<exists>t i h. e = CreateCode t i \<and> code_of h i r)"
    and tokens_law: "store e now st = (res, st') \<Longrightarrow> r' \<in> tokens st' \<Longrightarrow>
      (\<exists>r0 \<in> tokens st. same_refresh r0 r') \<or> (\<exists>t f i. e = CreateRefresh t f i \<and> refresh_of i r')"
    and states_law: "store e now st = (res, st') \<Longrightarrow> r'' \<in> states st' \<Longrightarrow> r'' \<in> states st \<or> (\<exists>t i. e = CreateState t i \<and> state_of i r'')"
    and consume_state_law: "store (ConsumeState t) now st = (State r'', st') \<Longrightarrow> r'' \<in> states st"
begin

text \<open>Every record stands for what it should, and the cache for client documents is sound.\<close>

definition store_ok where
  "store_ok pu up config clients st \<longleftrightarrow> (\<forall>r \<in> codes st. code_ok pu up config clients r) \<and>
    (\<forall>r \<in> tokens st. refresh_ok pu up config clients r) \<and> (\<forall>r \<in> states st. state_ok pu config clients r)"

lemma store_event_ok:
  assumes "store_ok pu up config clients st" "store e now st = (res, st')" "event_fine pu up config clients e"
  shows "store_ok pu up config clients st'"
proof -
  have "code_ok pu up config clients r" if r: "r \<in> codes st'" for r
    using codes_law [OF assms(2) r]
  proof (elim disjE exE bexE conjE)
    fix r0 c assume "r0 \<in> codes st" "r = r0 \<lparr> ac_consumedAt := c \<rparr>"
    then show ?thesis using assms(1) by (auto simp: store_ok_def code_ok_def)
  next
    fix t i h assume "e = CreateCode t i" "code_of h i r"
    then show ?thesis using assms(3) by (simp add: code_ok_def code_of_def authorized_nonempty)
  qed
  moreover have "refresh_ok pu up config clients r" if r: "r \<in> tokens st'" for r
    using tokens_law [OF assms(2) r]
  proof (elim disjE exE bexE conjE)
    fix r0 assume "r0 \<in> tokens st" "same_refresh r0 r"
    then show ?thesis using assms(1) by (auto simp: store_ok_def refresh_ok_def same_refresh_def)
  next
    fix t f i assume "e = CreateRefresh t f i" "refresh_of i r"
    then show ?thesis using assms(3) by (simp add: refresh_ok_def refresh_of_def)
  qed
  moreover have "state_ok pu config clients r" if r: "r \<in> states st'" for r
    using states_law [OF assms(2) r]
  proof (elim disjE exE conjE)
    assume "r \<in> states st"
    then show ?thesis using assms(1) by (simp add: store_ok_def)
  next
    fix t i assume "e = CreateState t i" "state_of i r"
    then show ?thesis using assms(3) by (simp add: state_ok_def state_of_def authorized_nonempty)
  qed
  ultimately show ?thesis by (simp add: store_ok_def)
qed

lemma consumed_code_ok:
  assumes "store_ok pu up config clients st" "store (ConsumeCode c v x) now st = (Code r, st')"
  shows "code_ok pu up config clients r"
proof -
  obtain r0 where "r0 \<in> codes st" "r = r0 \<lparr> ac_consumedAt := Some now \<rparr>"
    using consume_law [OF assms(2)] code_at_recorded by blast
  then show ?thesis using assms(1) by (auto simp: store_ok_def code_ok_def)
qed

text \<open>The invariant of the server.\<close>

definition server_ok where
  "server_ok pu up config clients s \<longleftrightarrow> store_ok pu up config clients (au_store s) \<and> metadata_cache_sound pu (au_metadata s)"

lemma create_ok:
  assumes "storeCreate store e token now st = (r, st')" "store_ok pu up config clients st" "event_fine pu up config clients e"
  shows "store_ok pu up config clients st'"
  using storeCreate_event [OF assms(1)] store_event_ok [OF assms(2) _ assms(3)] by blast

lemma limited_ok:
  assumes "sv_store sv = store" "server_ok pu up config clients s"
  shows "server_ok pu up config clients (snd (limited sv config bucket subj now s))"
proof -
  obtain r st where l: "enforceRateLimit (cr_sha256 (sv_crypto sv)) store config bucket subj now (au_store s) = (r, st)" by force
  have "store_ok pu up config clients st"
    using enforceRateLimit_event [OF l] assms(2) store_event_ok [of pu up config clients "au_store s"] by (auto simp: server_ok_def)
  then show ?thesis using l assms by (simp add: limited_def server_ok_def)
qed

lemma authorize_ok:
  assumes "nul \<notin> set (mcpResource config)" "server_ok (xo_parseUrl xo) up config clients s"
  shows "server_ok (xo_parseUrl xo) up config clients
    (snd (createAuthorizationRedirect cr xo with_params store config clients request draws s))"
proof (cases "if aq_responseType request \<noteq> ''code'' then Inl unsupported_response_error
        else bindr (oauthState (aq_state request)) (\<lambda>state. bindr (idTokenHint (aq_idTokenHint request)) (\<lambda>_. Inr state))")
  case (Inl e)
  then show ?thesis using assms by (simp add: createAuthorizationRedirect_def)
next
  case (Inr state)
  obtain c metadata where resolved: "resolveClient xo config clients (aq_clientId request) (fst (ld_instants draws)) (snd (ld_instants draws))
      (au_metadata s) = (c, metadata)" by force
  have sound: "metadata_cache_sound (xo_parseUrl xo) (au_metadata s)" using assms(2) by (simp add: server_ok_def)
  note known = resolved_known [OF sound assms(1) resolved]
  show ?thesis
  proof (cases c)
    case (Inl e)
    then show ?thesis
      using Inr resolved known(1) assms(2) by (simp add: createAuthorizationRedirect_def andThen_def server_ok_def)
  next
    case client: (Inr client)
    show ?thesis
    proof (cases "validateAuthorization (xo_parseUrl xo) client request state")
      case (Inl e)
      then show ?thesis
        using Inr client resolved known(1) assms(2) by (simp add: createAuthorizationRedirect_def andThen_def server_ok_def)
    next
      case v: (Inr v)
      obtain r st where login: "createLoginRedirect (cr_sha256 cr) with_params store config v draws (au_store s) = (r, st)" by force
      note ok = validateAuthorization_ok [OF v]
      have "authorized (xo_parseUrl xo) config clients (va_clientId v) (va_redirectUri v) (va_resource v) (va_scopes v) (va_codeChallenge v)"
        using known(2) [OF client] ok unfolding authorized_def by auto
      moreover have "store_ok (xo_parseUrl xo) up config clients (au_store s)" using assms(2) by (simp add: server_ok_def)
      ultimately have "store_ok (xo_parseUrl xo) up config clients (snd (createLoginRedirect (cr_sha256 cr) with_params store config v draws (au_store s)))"
        unfolding createLoginRedirect_def by - (rule andThen_snd; simp; erule create_ok; simp)
      then show ?thesis
        using Inr client v login resolved known(1) by (simp add: createAuthorizationRedirect_def andThen_def server_ok_def)
    qed
  qed
qed

lemma finishLogin_ok:
  assumes "sv_store sv = store" "state_ok pu config clients r" "store_ok pu (sv_upstream sv) config clients st"
  shows "store_ok pu (sv_upstream sv) config clients (snd (finishLogin sv config query r newCode loginAt now st))"
proof (cases "optionalParameter query ''error''")
  case (Inl e)
  then show ?thesis using assms by (simp add: finishLogin_def)
next
  case (Inr upstreamError)
  show ?thesis
  proof (cases "blank_text upstreamError")
    case False
    then show ?thesis using assms Inr by (simp add: finishLogin_def)
  next
    case True
    show ?thesis
    proof (cases "bindr (requiredParameter query ''code'') (\<lambda>upstreamCode.
             exchangeUpstreamCode (sv_upstream sv) config upstreamCode (us_codeVerifier r) (us_upstreamNonce r) loginAt)")
      case (Inl e)
      then show ?thesis using assms \<open>_ = Inr upstreamError\<close> True by (simp add: finishLogin_def)
    next
      case user: (Inr user)
      then have "logged_in (sv_upstream sv) config user" by (auto simp: bindr_eq_Inr logged_in_def)
      moreover have "authorized pu config clients (us_clientId r) (us_redirectUri r) (us_resource r) (us_scopes r) (nonempty_text (us_codeChallenge r))"
        using assms(2) by (simp add: state_ok_def authorized_nonempty)
      ultimately have "store_ok pu (sv_upstream sv) config clients
          (snd (createServiceAuthorizationCode (sv_withParams sv) store config r user newCode now st))"
        unfolding createServiceAuthorizationCode_def using assms(3) by - (rule andThen_snd; simp; erule create_ok; simp)
      then show ?thesis
        using assms(1) user Inr True unfolding finishLogin_def
        by simp (rule andThen_snd; auto)
    qed
  qed
qed

lemma code_grant_ok_store:
  assumes "store_ok pu up config clients st"
  shows "store_ok pu up config clients (snd (authorizationCodeGrant parse_url cr store config client form signing draws st))"
proof (cases "bindr (requiredParameter form ''code'') (\<lambda>authCode.
        bindr (requiredParameter form ''redirect_uri'') (\<lambda>redirectUri.
        bindr (requestedResource parse_url client form) (\<lambda>resource.
        bindr (optionalParameter form ''code_verifier'') (\<lambda>verifier. Inr (authCode, redirectUri, resource, verifier)))))")
  case (Inl e)
  then show ?thesis using assms by (simp add: authorizationCodeGrant_def)
next
  case (Inr p)
  obtain c uri resource verifier where p: "p = (c, uri, resource, verifier)" by (cases p) auto
  define x where "x = \<lparr> ce_clientId = clientId client, ce_redirectUri = uri, ce_resource = Some resource,
    ce_allowedResources = Some (allowedResources client), ce_allowedScopes = Some (allowedScopes client) \<rparr>"
  have kept: "store_ok pu up config clients st'" if consume: "storeConsumeCode store c verifier x now st = (r, st')" for r st' now
    using storeConsumeCode_event [OF consume] store_event_ok [OF assms] by fastforce
  have created: "store_ok pu up config clients st''"
    if consume: "storeConsumeCode store c verifier x (td_storeAt draws) st = (Inr r, st')"
      and create: "storeCreate store (CreateRefresh (td_refreshToken draws) (td_family draws)
             \<lparr> ri_clientId = clientId client, ri_user = ac_user r, ri_resource = resource, ri_scopes = ac_scopes r,
               ri_authTime = ac_authTime r, ri_ttlSeconds = refreshTokenTtlSeconds config \<rparr>)
             (td_refreshToken draws) (td_createAt draws) st' = (t, st'')" for r st' t st''
  proof -
    have ev: "store (ConsumeCode c verifier x) (td_storeAt draws) st = (Code r, st')" using storeConsumeCode_event [OF consume] by auto
    obtain r0 where "consumable sha verifier x (td_storeAt draws) r0" "r = r0 \<lparr> ac_consumedAt := Some (td_storeAt draws) \<rparr>"
      using consume_law [OF ev] by blast
    then have "ac_clientId r = clientId client" "ac_resource r = resource" by (simp_all add: consumable_def x_def)
    with consumed_code_ok [OF assms ev] show ?thesis
      by (intro create_ok [OF create kept [OF consume]]) (auto simp: code_ok_def)
  qed
  show ?thesis
    using Inr unfolding authorizationCodeGrant_def p
    by simp (rule andThen_snd, simp, erule kept [unfolded x_def], rule andThen_snd; simp; erule (1) created [unfolded x_def])
qed

lemma refresh_grant_ok_store:
  assumes "store_ok pu up config clients st"
  shows "store_ok pu up config clients (snd (refreshTokenGrant parse_url cr store config client form signing draws st))"
proof -
  have kept: "store_ok pu up config clients st'"
    if rotated: "rotateRefreshToken store t cid ttl er ar n now st = (r, st')" for t cid ttl er ar n now r st'
    using rotateRefreshToken_event [OF rotated] store_event_ok [OF assms] by fastforce
  show ?thesis
    unfolding refreshTokenGrant_def
    by (split sum.split, intro conjI allI impI; (simp add: assms)?)
      (clarsimp, rule andThen_snd; auto simp: kept split: prod.splits)
qed

lemma dispatchGrant_ok:
  assumes "store_ok pu up config clients st"
  shows "store_ok pu up config clients (snd (dispatchGrant parse_url cr store config client grant form signing draws st))"
  using assms by (simp add: dispatchGrant_def code_grant_ok_store refresh_grant_ok_store)

lemma handleTokenGrant_ok:
  assumes "nul \<notin> set (mcpResource config)" "server_ok (xo_parseUrl xo) up config clients s"
  shows "server_ok (xo_parseUrl xo) up config clients
    (snd (handleTokenGrant cr xo store config clients form authorization signing draws s))"
proof (cases "bindr (assertAllowedParameters form tokenParameters) (\<lambda>_.
        bindr (optionalParameter form ''grant_type'') (\<lambda>grant.
        bindr (assertAllowedParameters form (tokenGrantParameters grant)) (\<lambda>_.
        bindr (readClientCredentials form authorization) (\<lambda>credentials. Inr (grant, credentials)))))")
  case (Inl e)
  then show ?thesis using assms by (simp add: handleTokenGrant_def)
next
  case (Inr p)
  obtain grant credentials where p: "p = (grant, credentials)" by (cases p)
  obtain now later check where instants: "td_instants draws = (now, later, check)" by (cases "td_instants draws")
  have s: "metadata_cache_sound (xo_parseUrl xo) (au_metadata s)" "store_ok (xo_parseUrl xo) up config clients (au_store s)"
    using assms(2) by (simp_all add: server_ok_def)
  note sound = resolved_known(1) [OF s(1) assms(1)]
  have ok: "store_ok (xo_parseUrl xo) up config clients st'"
    if "dispatchGrant (xo_parseUrl xo) cr store config client grant form signing draws (au_store s) = (r, st')" for client r st'
    using dispatchGrant_ok [OF s(2)] that by (metis snd_conv)
  show ?thesis
    using Inr unfolding handleTokenGrant_def p instants
    by (simp add: Let_def)
      (rule andThen_snd; (rule andThen_snd)?; (rule andThen_snd)?; auto simp: server_ok_def s dest: sound ok)
qed

text \<open>Every endpoint preserves the invariant.\<close>

lemma authorizeEndpoint_ok:
  assumes "sv_store sv = store" "sv_config sv = Inr config" "sv_clients sv config = Inr clients" "nul \<notin> set (mcpResource config)"
    "server_ok (xo_parseUrl (sv_outside sv)) up config clients s"
  shows "server_ok (xo_parseUrl (sv_outside sv)) up config clients (snd (authorizeEndpoint sv req now draws s))"
proof -
  have hit: "server_ok (xo_parseUrl (sv_outside sv)) up config clients s1" if "limited sv config bucket subj now s = (r, s1)" for bucket subj r s1
    using limited_ok [OF assms(1,5), of bucket subj now] that by simp
  have redirected: "server_ok (xo_parseUrl (sv_outside sv)) up config clients s2"
    if "limited sv config bucket subj now s = (r, s1)"
      "createAuthorizationRedirect (sv_crypto sv) (sv_outside sv) (sv_withParams sv) store config clients request draws s1 = (q, s2)"
    for bucket subj r s1 request q s2
    using authorize_ok [OF assms(4) hit [OF that(1)], of "sv_crypto sv" "sv_withParams sv" request draws] that(2) by simp
  show ?thesis
    unfolding authorizeEndpoint_def snd_answer
    by (split sum.split, intro conjI allI impI; clarsimp simp: assms bindr_eq_Inr)
      (rule andThen_snd; (simp add: hit)?; split sum.split; intro conjI allI impI; clarsimp simp: assms bindr_eq_Inr hit;
        rule andThen_snd; simp add: redirected)
qed

lemma callbackEndpoint_ok:
  assumes "sv_store sv = store" "sv_config sv = Inr config"
    "server_ok pu (sv_upstream sv) config clients s"
  shows "server_ok pu (sv_upstream sv) config clients (snd (callbackEndpoint sv req instants newCode s))"
proof -
  have hit: "server_ok pu (sv_upstream sv) config clients s1" if "limited sv config bucket subj now s = (r, s1)" for bucket subj now r s1
    using limited_ok [OF assms(1,3), of bucket subj now] that by simp
  have consumed: "store_ok pu (sv_upstream sv) config clients st \<and> (\<forall>x. q = Inr x \<longrightarrow> state_ok pu config clients x)"
    if l: "limited sv config bucket subj now s = (r, s1)" and c: "storeConsumeState store state now' (au_store s1) = (q, st)"
    for bucket subj now r s1 state now' q st
  proof -
    have ok: "store_ok pu (sv_upstream sv) config clients (au_store s1)" using hit [OF l] by (simp add: server_ok_def)
    obtain res where ev: "store (ConsumeState state) now' (au_store s1) = (res, st)" "\<forall>x. q = Inr x \<longrightarrow> res = State x"
      using storeConsumeState_event [OF c] by blast
    have "state_ok pu config clients x" if "q = Inr x" for x
      using ev that consume_state_law [of state now' "au_store s1" x st] ok by (auto simp: store_ok_def)
    then show ?thesis using store_event_ok [OF ok ev(1)] by simp
  qed
  have finished: "server_ok pu (sv_upstream sv) config clients (s1 \<lparr> au_store := st' \<rparr>)"
    if "limited sv config bucket subj now s = (r, s1)" "storeConsumeState store state now' (au_store s1) = (Inr x, st)"
      "finishLogin sv config query x newCode loginAt createAt st = (z, st')"
    for bucket subj now r s1 state now' x st query loginAt createAt z st'
    using finishLogin_ok [OF assms(1), of pu config clients x st query newCode loginAt createAt] consumed [OF that(1,2)] hit [OF that(1)] that(3)
    by (simp add: server_ok_def)
  obtain hitAt consumeAt loginAt createAt where instants: "instants = (hitAt, consumeAt, loginAt, createAt)" by (cases instants) auto
  show ?thesis
    unfolding callbackEndpoint_def instants Let_def prod.case snd_answer
    apply (split sum.split, intro conjI allI impI; clarsimp simp: assms bindr_eq_Inr)
    apply (rule andThen_snd; (simp add: hit)?; split sum.split; intro conjI allI impI; clarsimp simp: assms bindr_eq_Inr hit)
    apply (rule andThen_snd)
     apply (frule (1) consumed, frule hit, simp add: server_ok_def)
    apply (clarsimp split: prod.splits)
    apply (erule (2) finished)
    done
qed

lemma tokenEndpoint_ok:
  assumes "sv_store sv = store" "sv_config sv = Inr config" "sv_clients sv config = Inr clients" "nul \<notin> set (mcpResource config)"
    "server_ok (xo_parseUrl (sv_outside sv)) up config clients s"
  shows "server_ok (xo_parseUrl (sv_outside sv)) up config clients (snd (tokenEndpoint sv req now draws s))"
proof -
  have hit: "server_ok (xo_parseUrl (sv_outside sv)) up config clients s1" if "limited sv config bucket subj now s = (r, s1)" for bucket subj r s1
    using limited_ok [OF assms(1,5), of bucket subj now] that by simp
  have granted: "server_ok (xo_parseUrl (sv_outside sv)) up config clients s2"
    if "limited sv config bucket subj now s = (r, s1)"
      "handleTokenGrant (sv_crypto sv) (sv_outside sv) store config clients form authorization signing draws s1 = (q, s2)"
    for bucket subj r s1 form authorization signing q s2
    using handleTokenGrant_ok [OF assms(4) hit [OF that(1)], of "sv_crypto sv" form authorization signing draws] that(2) by simp
  show ?thesis
    unfolding tokenEndpoint_def snd_answer
    by (split sum.split, intro conjI allI impI; clarsimp simp: assms bindr_eq_Inr Let_def)
      (rule andThen_snd; (simp add: hit)?; rule andThen_snd; simp add: granted)
qed

lemma server_step_ok:
  assumes "server_step sv s t" "sv_store sv = store" "sv_config sv = Inr config" "sv_clients sv config = Inr clients"
    "nul \<notin> set (mcpResource config)" "server_ok (xo_parseUrl (sv_outside sv)) (sv_upstream sv) config clients s"
  shows "server_ok (xo_parseUrl (sv_outside sv)) (sv_upstream sv) config clients t"
  using assms(1)
proof cases
  case (authorization req now draws response)
  then show ?thesis using authorizeEndpoint_ok [OF assms(2-6), of req now draws] by simp
next
  case (login_callback req instants newCode response)
  then show ?thesis using callbackEndpoint_ok [OF assms(2,3,6), of req instants newCode] by simp
next
  case (token_request req now draws response)
  then show ?thesis using tokenEndpoint_ok [OF assms(2-6), of req now draws] by simp
next
  case (other_use e now res st)
  have "event_fine (xo_parseUrl (sv_outside sv)) (sv_upstream sv) config clients e" using other_use(2) by (cases e) auto
  then show ?thesis using other_use assms(2,6) store_event_ok by (auto simp: server_ok_def)
qed

lemma server_run_ok:
  assumes "(server_step sv)\<^sup>*\<^sup>* s t" "sv_store sv = store" "sv_config sv = Inr config" "sv_clients sv config = Inr clients"
    "nul \<notin> set (mcpResource config)" "server_ok (xo_parseUrl (sv_outside sv)) (sv_upstream sv) config clients s"
  shows "server_ok (xo_parseUrl (sv_outside sv)) (sv_upstream sv) config clients t"
  using assms(1) by (induction rule: rtranclp_induct) (use assms in \<open>auto intro: server_step_ok\<close>)

end

section \<open>The file store records\<close>

lemma in_update: "x \<in> snd ` set (AList.update k v xs) \<Longrightarrow> x = v \<or> x \<in> snd ` set xs"
proof (induction xs)
  case (Cons y ys)
  then show ?case by (cases y) (auto split: if_splits)
qed simp

lemma in_delete: "x \<in> snd ` set (AList.delete k xs) \<Longrightarrow> x \<in> snd ` set xs"
  by (auto simp: AList.delete_eq)

lemma apply_kept_codes:
  assumes "disk_apply sha e now st = (res, st')"
  shows "authorizationCodes st' = authorizationCodes st \<or> (\<exists>t i. e = CreateCode t i) \<or> (\<exists>c v x. e = ConsumeCode c v x)"
  using assms
  by (cases e) (auto simp: rotate_eq createRefreshToken_def createUpstreamAuthorizationState_def consumeUpstreamAuthorizationState_def
      saveMcpSession_def touchMcpSession_def reserveMcpRequestId_def terminateMcpSession_def hitInStore_def with_result_def
      without_result_def bindr_def Let_def split: if_splits sum.splits option.splits)

lemma apply_kept_tokens:
  assumes "disk_apply sha e now st = (res, st')"
  shows "refreshTokens st' = refreshTokens st \<or> (\<exists>t f i. e = CreateRefresh t f i) \<or> (\<exists>t c ttl er ar n. e = Rotate t c ttl er ar n)"
  using assms
  by (cases e) (auto simp: consume_eq createAuthorizationCode_def createUpstreamAuthorizationState_def
      consumeUpstreamAuthorizationState_def saveMcpSession_def touchMcpSession_def reserveMcpRequestId_def terminateMcpSession_def
      hitInStore_def with_result_def without_result_def bindr_def Let_def split: if_splits sum.splits option.splits)

lemma apply_kept_states:
  assumes "disk_apply sha e now st = (res, st')"
  shows "upstreamStates st' = upstreamStates st \<or> (\<exists>t i. e = CreateState t i) \<or> (\<exists>t. e = ConsumeState t)"
  using assms
  by (cases e) (auto simp: consume_eq rotate_eq createAuthorizationCode_def createRefreshToken_def
      saveMcpSession_def touchMcpSession_def reserveMcpRequestId_def terminateMcpSession_def
      hitInStore_def with_result_def without_result_def bindr_def Let_def split: if_splits sum.splits option.splits)

lemma disk_codes_law:
  assumes "disk_apply sha e now st = (res, st')" "r \<in> snd ` set (authorizationCodes st')"
  shows "(\<exists>r0 \<in> snd ` set (authorizationCodes st). \<exists>c. r = r0 \<lparr> ac_consumedAt := c \<rparr>) \<or> (\<exists>t i h. e = CreateCode t i \<and> code_of h i r)"
proof -
  let ?goal = "(\<exists>r0 \<in> snd ` set (authorizationCodes st). \<exists>c. r = r0 \<lparr> ac_consumedAt := c \<rparr>) \<or> (\<exists>t i h. e = CreateCode t i \<and> code_of h i r)"
  have self: "\<exists>c. r = r \<lparr> ac_consumedAt := c \<rparr>" by (rule exI [of _ "ac_consumedAt r"]) simp
  have kept: ?goal if "r \<in> snd ` set (authorizationCodes st)" using that self by blast
  show ?goal
    using apply_kept_codes [OF assms(1)]
  proof (elim disjE exE)
    assume "authorizationCodes st' = authorizationCodes st"
    then show ?goal using assms(2) kept by simp
  next
    fix t i assume e: "e = CreateCode t i"
    define new where "new = the (map_of (authorizationCodes (createAuthorizationCode sha t now i st)) (sha t))"
    have "authorizationCodes st' = AList.update (sha t) new (authorizationCodes st)" "code_of (sha t) i new"
      using assms(1) by (auto simp: e new_def createAuthorizationCode_def code_of_def Let_def)
    then show ?goal using in_update assms(2) kept e by metis
  next
    fix c v x assume e: "e = ConsumeCode c v x"
    show ?goal
    proof (cases "map_of (authorizationCodes st) (sha c)")
      case None
      then have "st' = st" using assms(1) by (simp add: e consume_eq with_result_def)
      then show ?goal using assms(2) kept by simp
    next
      case (Some old)
      then have old: "old \<in> snd ` set (authorizationCodes st)" using map_of_SomeD [OF Some] by force
      show ?goal
      proof (cases "consumable sha v x now old")
        case True
        then have "authorizationCodes st' = AList.update (sha c) (old \<lparr> ac_consumedAt := Some now \<rparr>) (authorizationCodes st)"
          using assms(1) Some by (auto simp: e consume_eq with_result_def)
        then show ?goal using in_update assms(2) kept old by metis
      next
        case False
        then have "st' = st" using assms(1) Some by (simp add: e consume_eq with_result_def)
        then show ?goal using assms(2) kept by simp
      qed
    qed
  qed
qed

lemma disk_tokens_law:
  assumes "disk_apply sha e now st = (res, st')" "r \<in> snd ` set (refreshTokens st')"
  shows "(\<exists>r0 \<in> snd ` set (refreshTokens st). same_refresh r0 r) \<or> (\<exists>t f i. e = CreateRefresh t f i \<and> refresh_of i r)"
proof -
  let ?goal = "(\<exists>r0 \<in> snd ` set (refreshTokens st). same_refresh r0 r) \<or> (\<exists>t f i. e = CreateRefresh t f i \<and> refresh_of i r)"
  have kept: ?goal if "r \<in> snd ` set (refreshTokens st)" using that by (auto simp: same_refresh_def)
  show ?goal
    using apply_kept_tokens [OF assms(1)]
  proof (elim disjE exE)
    assume "refreshTokens st' = refreshTokens st"
    then show ?goal using assms(2) kept by simp
  next
    fix t f i assume e: "e = CreateRefresh t f i"
    define new where "new = the (map_of (refreshTokens (createRefreshToken sha t now f i st)) (sha t))"
    have "refreshTokens st' = AList.update (sha t) new (refreshTokens st)" "refresh_of i new"
      using assms(1) by (auto simp: e new_def createRefreshToken_def refresh_of_def Let_def)
    then show ?goal using in_update assms(2) kept e by metis
  next
    fix t cid ttl er ar n assume e: "e = Rotate t cid ttl er ar n"
    consider "refreshTokens st' = refreshTokens st"
      | f where "refreshTokens st' = revokeFamily f now (refreshTokens st)"
      | old where "map_of (refreshTokens st) (sha t) = Some old"
          "refreshTokens st' = AList.update (sha n) (successor sha t ttl now n old)
             (AList.update (sha t) (old \<lparr> rt_lastUsedAt := Some now \<rparr>) (refreshTokens st))"
      using assms(1) by (auto simp: e rotate_eq with_result_def split: option.splits if_splits)
    then show ?goal
    proof cases
      case 1
      then show ?goal using assms(2) kept by simp
    next
      case 2
      then show ?goal using assms(2) by (auto simp: revokeFamily_def same_refresh_def image_iff split: if_splits) force+
    next
      case 3
      have old: "old \<in> snd ` set (refreshTokens st)" using map_of_SomeD [OF 3(1)] by force
      have "same_refresh old (successor sha t ttl now n old)" "same_refresh old (old \<lparr> rt_lastUsedAt := Some now \<rparr>)"
        by (simp_all add: same_refresh_def successor_def)
      moreover have "r = successor sha t ttl now n old \<or> r = old \<lparr> rt_lastUsedAt := Some now \<rparr> \<or> r \<in> snd ` set (refreshTokens st)"
        using assms(2) in_update unfolding 3(2) by metis
      ultimately show ?goal using old kept by blast
    qed
  qed
qed

lemma disk_states_law:
  assumes "disk_apply sha e now st = (res, st')" "r \<in> snd ` set (upstreamStates st')"
  shows "r \<in> snd ` set (upstreamStates st) \<or> (\<exists>t i. e = CreateState t i \<and> state_of i r)"
proof -
  have pruned: "x \<in> snd ` set (pruneExpiredUpstreamStates xs now) \<Longrightarrow> x \<in> snd ` set xs" for x xs
    by (auto simp: pruneExpiredUpstreamStates_def)
  show ?thesis
    using apply_kept_states [OF assms(1)]
  proof (elim disjE exE)
    fix t i assume e: "e = CreateState t i"
    define new where "new = the (map_of (upstreamStates (createUpstreamAuthorizationState sha t now i st)) (sha t))"
    have "upstreamStates st' = AList.update (sha t) new (pruneExpiredUpstreamStates (upstreamStates st) now)" "state_of i new"
      using assms(1) by (auto simp: e new_def createUpstreamAuthorizationState_def state_of_def Let_def)
    then show ?thesis using in_update assms(2) pruned e by metis
  next
    fix t assume e: "e = ConsumeState t"
    have "upstreamStates st' = upstreamStates st \<or> upstreamStates st' = AList.delete (sha t) (pruneExpiredUpstreamStates (upstreamStates st) now)"
      using assms(1) by (auto simp: e consumeUpstreamAuthorizationState_def with_result_def Let_def split: option.splits if_splits)
    then show ?thesis using assms(2) in_delete pruned by metis
  qed (use assms(2) in simp)
qed

interpretation disk_server: recorded_store "disk_apply sha" sha
  "\<lambda>st h. map_of (authorizationCodes st) h" "\<lambda>st h. map_of (refreshTokens st) h"
  "\<lambda>st. snd ` set (authorizationCodes st)" "\<lambda>st. snd ` set (refreshTokens st)" "\<lambda>st. snd ` set (upstreamStates st)" for sha
proof unfold_locales
  fix t now st r st'
  assume "disk_apply sha (ConsumeState t) now st = (State r, st')"
  then have "map_of (pruneExpiredUpstreamStates (upstreamStates st) now) (sha t) = Some r"
    by (auto simp: consumeUpstreamAuthorizationState_def with_result_def Let_def split: option.splits if_splits)
  then show "r \<in> snd ` set (upstreamStates st)"
    by (force simp: pruneExpiredUpstreamStates_def dest!: map_of_SomeD)
qed (fact disk_codes_law disk_tokens_law disk_states_law | force dest: map_of_SomeD)+

end
