(* ===== verification/Server_Properties.thy ===== *)
theory Server_Properties
  imports Recorded_Store
begin

text \<open>
  What the endpoints of the authorization server guarantee together, over the file store: where the
  records come from, what a token response stands for and what the callback binds a code to; and a
  complete login, from the authorization request to the token, as the instance.
\<close>

section \<open>What a run guarantees\<close>

definition empty_server :: "(store_state, 'p) auth_state" where
  "empty_server = \<lparr> au_store = emptyStoreState, au_metadata = [], au_assertions = \<lparr> replayCache = [], jwksCache = [] \<rparr> \<rparr>"

lemma empty_server_ok: "disk_server.server_ok pu up config clients empty_server"
  by (simp add: disk_server.server_ok_def disk_server.store_ok_def empty_server_def emptyStoreState_def metadata_cache_sound_def
      keys_distinct_def)

text \<open>C2: in any run of the server from an empty store, with any requests to its endpoints, any random
  values and any other use of the store in between, every pending login, code and refresh token was
  asked for by a registered client, or by one that its metadata document describes, with a redirect
  address, resource, scopes and code challenge that this client may use; and the user of a code or
  token has logged in at the upstream provider.\<close>

theorem records_are_authorized:
  assumes "sv_store sv = disk_apply (cr_sha256 (sv_crypto sv))" "sv_config sv = Inr config" "sv_clients sv config = Inr clients"
    "nul \<notin> set (mcpResource config)" "(server_step sv)\<^sup>*\<^sup>* empty_server s"
  shows "(\<forall>(h, r) \<in> set (upstreamStates (au_store s)). state_ok (xo_parseUrl (sv_outside sv)) config clients r) \<and>
    (\<forall>(h, r) \<in> set (authorizationCodes (au_store s)). code_ok (xo_parseUrl (sv_outside sv)) (sv_upstream sv) config clients r) \<and>
    (\<forall>(h, r) \<in> set (refreshTokens (au_store s)). refresh_ok (xo_parseUrl (sv_outside sv)) (sv_upstream sv) config clients r)"
  using disk_server.server_run_ok [OF assms(5,1-4) empty_server_ok]
  by (auto simp: disk_server.server_ok_def disk_server.store_ok_def)

text \<open>C1: whatever happened before, an access token goes to an authenticated client, and there is an
  authorization of this client for its resource and scopes, and a login at the upstream provider of its
  user.\<close>

theorem token_traces_to_login:
  assumes "sv_store sv = disk_apply (cr_sha256 (sv_crypto sv))" "sv_config sv = Inr config" "sv_clients sv config = Inr clients"
    "nul \<notin> set (mcpResource config)" "(server_step sv)\<^sup>*\<^sup>* empty_server s"
    and "handleTokenGrant (sv_crypto sv) (sv_outside sv) (sv_store sv) config clients form authorization signing draws s = (Inr response, s')"
  shows "\<exists>client key resource scopes user authTime nonce uri challenge credentials.
    response = response_for (sv_crypto sv) config key draws client resource scopes user authTime nonce \<and>
    readClientCredentials form authorization = Inr credentials \<and> clientId client = cc_clientId credentials \<and>
    known_client (xo_parseUrl (sv_outside sv)) config clients client \<and>
    client_authenticated (sv_crypto sv) (sv_outside sv) config client credentials (td_instants draws) (au_assertions s) \<and>
    authorized (xo_parseUrl (sv_outside sv)) config clients (clientId client) uri resource scopes challenge \<and>
    logged_in (sv_upstream sv) config user"
proof -
  have store: "sv_store sv = disk_apply (cr_sha256 (sv_crypto sv))" by (rule assms(1))
  have ok: "disk_server.server_ok (xo_parseUrl (sv_outside sv)) (sv_upstream sv) config clients s"
    by (rule disk_server.server_run_ok [OF assms(5,1-4) empty_server_ok])
  then have sound: "metadata_cache_sound (xo_parseUrl (sv_outside sv)) (au_metadata s)"
    and records: "disk_server.store_ok (xo_parseUrl (sv_outside sv)) (sv_upstream sv) config clients (au_store s)"
    by (simp_all add: disk_server.server_ok_def)
  obtain grant credentials client metadata where g: "readClientCredentials form authorization = Inr credentials"
      "resolveClient (sv_outside sv) config clients (cc_clientId credentials) (fst (td_instants draws)) (fst (snd (td_instants draws)))
         (au_metadata s) = (Inr client, metadata)"
      "client_authenticated (sv_crypto sv) (sv_outside sv) config client credentials (td_instants draws) (au_assertions s)"
      "dispatchGrant (xo_parseUrl (sv_outside sv)) (sv_crypto sv) (disk_apply (cr_sha256 (sv_crypto sv))) config client grant form signing draws
         (au_store s) = (Inr response, au_store s')"
    using handleTokenGrant_Inr [OF assms(6)] unfolding store by metis
  note known = resolved_known(2) [OF sound assms(4) g(2) refl]
  have "\<exists>key resource scopes user authTime nonce uri challenge.
      response = response_for (sv_crypto sv) config key draws client resource scopes user authTime nonce \<and>
      authorized (xo_parseUrl (sv_outside sv)) config clients (clientId client) uri resource scopes challenge \<and>
      logged_in (sv_upstream sv) config user"
  proof -
    let ?pu = "xo_parseUrl (sv_outside sv)" and ?store = "disk_apply (cr_sha256 (sv_crypto sv))"
    consider (authorization_code)
        "authorizationCodeGrant ?pu (sv_crypto sv) ?store config client form signing draws (au_store s) = (Inr response, au_store s')"
      | (refresh_token)
        "refreshTokenGrant ?pu (sv_crypto sv) ?store config client form signing draws (au_store s) = (Inr response, au_store s')"
      using g(4) by (auto simp: dispatchGrant_def split: if_splits)
    then show ?thesis
    proof cases
      case authorization_code
      from disk_grants.code_grant [OF this] obtain h r key where
        r: "map_of (authorizationCodes (au_store s)) h = Some r" "ac_clientId r = clientId client"
          "response = response_for (sv_crypto sv) config key draws client (ac_resource r) (ac_scopes r) (ac_user r) (ac_authTime r) (ac_nonce r)"
        unfolding response_for_def code_grant_ok_def by blast
      then have "r \<in> snd ` set (authorizationCodes (au_store s))" by (force dest: map_of_SomeD)
      then have "code_ok ?pu (sv_upstream sv) config clients r"
        using records unfolding disk_server.store_ok_def by blast
      then show ?thesis using r unfolding code_ok_def by metis
    next
      case refresh_token
      from disk_grants.refresh_grant [OF this] obtain h r key where
        r: "map_of (refreshTokens (au_store s)) h = Some r" "rt_clientId r = clientId client"
          "response = response_for (sv_crypto sv) config key draws client (rt_resource r) (rt_scopes r) (rt_user r) (rt_authTime r) None"
        unfolding response_for_def refresh_grant_ok_def by blast
      then have "r \<in> snd ` set (refreshTokens (au_store s))" by (force dest: map_of_SomeD)
      then have "refresh_ok ?pu (sv_upstream sv) config clients r"
        using records unfolding disk_server.store_ok_def by blast
      then show ?thesis using r unfolding refresh_ok_def by metis
    qed
  qed
  with g(1,3) known show ?thesis by blast
qed

text \<open>What a login leaves in the store.\<close>

lemma limited_tables:
  assumes "sv_store sv = disk_apply sha" "limited sv config bucket subj now s = (r, s1)"
  shows "authorizationCodes (au_store s1) = authorizationCodes (au_store s)" "upstreamStates (au_store s1) = upstreamStates (au_store s)"
proof -
  obtain st where l: "enforceRateLimit (cr_sha256 (sv_crypto sv)) (disk_apply sha) config bucket subj now (au_store s) = (r, st)" "au_store s1 = st"
    using assms by (auto simp: limited_def split: prod.splits)
  have "authorizationCodes st = authorizationCodes (au_store s) \<and> upstreamStates st = upstreamStates (au_store s)"
    using enforceRateLimit_event [OF l(1)]
  proof (elim disjE exE)
    fix key limits res assume ev: "disk_apply sha (Hit key limits) now (au_store s) = (res, st)"
    then show ?thesis using apply_kept_codes [OF ev] apply_kept_states [OF ev] by simp
  qed simp
  then show "authorizationCodes (au_store s1) = authorizationCodes (au_store s)" "upstreamStates (au_store s1) = upstreamStates (au_store s)"
    using l(2) by simp_all
qed

lemma finishLogin_codes:
  assumes "sv_store sv = disk_apply sha" "finishLogin sv config query r newCode loginAt now st = (q, st')"
    "authorizationCodes st' \<noteq> authorizationCodes st"
  obtains upstreamCode user where "get_param query ''code'' = Some upstreamCode"
    "exchangeUpstreamCode (sv_upstream sv) config upstreamCode (us_codeVerifier r) (us_upstreamNonce r) loginAt = Inr user"
    "st' = createAuthorizationCode sha newCode now
        \<lparr> ci_clientId = us_clientId r, ci_redirectUri = us_redirectUri r, ci_resource = us_resource r,
          ci_scopes = us_scopes r, ci_nonce = nonempty_text (us_nonce r),
          ci_codeChallenge = nonempty_text (us_codeChallenge r), ci_methodS256 = us_methodS256 r, ci_user = user,
          ci_ttlSeconds = authorizationCodeTtlSeconds config \<rparr> st"
    "q = bindr (sv_withParams sv (us_redirectUri r) [(''code'', newCode), (''state'', us_clientState r)]) (\<lambda>l. Inr (writeRedirect l))"
proof -
  obtain upstreamError where "optionalParameter query ''error'' = Inr upstreamError" "blank_text upstreamError"
    using assms(2,3) by (auto simp: finishLogin_def split: sum.splits if_splits)
  moreover obtain user where user: "bindr (requiredParameter query ''code'') (\<lambda>upstreamCode.
             exchangeUpstreamCode (sv_upstream sv) config upstreamCode (us_codeVerifier r) (us_upstreamNonce r) loginAt) = Inr user"
    using calculation assms(2,3) by (auto simp: finishLogin_def split: sum.splits)
  moreover obtain upstreamCode where code: "requiredParameter query ''code'' = Inr upstreamCode"
      "exchangeUpstreamCode (sv_upstream sv) config upstreamCode (us_codeVerifier r) (us_upstreamNonce r) loginAt = Inr user"
    using user by (auto simp: bindr_eq_Inr)
  ultimately show ?thesis
    using assms(1,2) that [OF _ code(2)] requiredParameter_get [OF code(1)]
    by (cases "sv_withParams sv (us_redirectUri r) [(''code'', newCode), (''state'', us_clientState r)]")
      (auto simp: finishLogin_def createServiceAuthorizationCode_def storeCreate_def andThen_def)
qed

lemma callbackEndpoint_codes:
  assumes "sv_store sv = disk_apply sha" "callbackEndpoint sv req (hitAt, consumeAt, loginAt, createAt) newCode s = (response, s')"
    "authorizationCodes (au_store s') \<noteq> authorizationCodes (au_store s)"
  obtains config query state st1 st2 r q where "sv_config sv = Inr config" "requestQuery req = Inr query"
    "get_param query ''state'' = Some state"
    "authorizationCodes st1 = authorizationCodes (au_store s)" "upstreamStates st1 = upstreamStates (au_store s)"
    "disk_apply sha (ConsumeState state) consumeAt st1 = (State r, st2)"
    "finishLogin sv config query r newCode loginAt createAt st2 = (q, au_store s')"
    "response = (case q of Inl e \<Rightarrow> oauthErrorResponse e [] | Inr resp \<Rightarrow> resp)"
proof -
  obtain config query where p: "sv_config sv = Inr config" "requestQuery req = Inr query" "rejectAccessTokenQuery req = Inr ()"
    using assms(2,3) by (cases "bindr (rejectAccessTokenQuery req) (\<lambda>_. bindr (sv_config sv) (\<lambda>config.
        bindr (requestQuery req) (\<lambda>query. Inr (config, query))))") (auto simp: callbackEndpoint_def answer_def bindr_eq_Inr)
  obtain h s1 where hit: "limited sv config ''oauth-authorize'' (requestSubject req) hitAt s = (h, s1)" by force
  note tables = limited_tables [OF assms(1) hit]
  have h: "h = Inr ()" using assms(2,3) p hit tables by (cases h) (auto simp: callbackEndpoint_def answer_def andThen_def)
  obtain state where state: "bindr (assertAllowedParameters query [''code'', ''state'', ''error'', ''error_description'']) (\<lambda>_.
      requiredParameter query ''state'') = Inr state"
    using assms(2,3) p hit tables h
    by (cases "bindr (assertAllowedParameters query [''code'', ''state'', ''error'', ''error_description'']) (\<lambda>_.
      requiredParameter query ''state'')") (auto simp: callbackEndpoint_def answer_def andThen_def)
  obtain c st2 where consume: "storeConsumeState (disk_apply sha) state consumeAt (au_store s1) = (c, st2)" by force
  obtain res where ev: "disk_apply sha (ConsumeState state) consumeAt (au_store s1) = (res, st2)" "\<forall>x. c = Inr x \<longrightarrow> res = State x"
    using storeConsumeState_event [OF consume] by blast
  have codes: "authorizationCodes st2 = authorizationCodes (au_store s1)" using apply_kept_codes [OF ev(1)] by blast
  obtain r where r: "c = Inr r"
    using assms(2,3) p hit tables h state consume codes assms(1)
    by (cases c) (auto simp: callbackEndpoint_def answer_def andThen_def)
  obtain q st3 where q: "finishLogin sv config query r newCode loginAt createAt st2 = (q, st3)" by force
  have "response = (case q of Inl e \<Rightarrow> oauthErrorResponse e [] | Inr resp \<Rightarrow> resp)" "au_store s' = st3"
    using assms(1,2) p hit h state consume r q by (auto simp: callbackEndpoint_def answer_def andThen_def split: sum.splits)
  moreover have "get_param query ''state'' = Some state" using state requiredParameter_get by (auto simp: bindr_eq_Inr)
  ultimately show ?thesis
    using that [OF p(1,2) _ tables, of state] ev r q by blast
qed

text \<open>C11: the callback issues a code only for a pending login: its state is the one the request names, was
  unexpired and is gone afterwards; the upstream provider has confirmed the user with the verifier and
  the nonce of that login; the code is bound to what was authorized then and to that user, and is sent
  to the redirect address of that authorization with the state of the client.\<close>

theorem callback_issues_bound_code:
  assumes "sv_store sv = disk_apply sha"
    and "callbackEndpoint sv req (hitAt, consumeAt, loginAt, createAt) newCode s = (response, s')"
    and "authorizationCodes (au_store s') \<noteq> authorizationCodes (au_store s)"
  shows "\<exists>config query state r upstreamCode user issued. sv_config sv = Inr config \<and> requestQuery req = Inr query \<and>
    get_param query ''state'' = Some state \<and> (sha state, r) \<in> set (upstreamStates (au_store s)) \<and> consumeAt < us_expiresAt r \<and>
    sha state \<notin> fst ` set (upstreamStates (au_store s')) \<and>
    get_param query ''code'' = Some upstreamCode \<and>
    exchangeUpstreamCode (sv_upstream sv) config upstreamCode (us_codeVerifier r) (us_upstreamNonce r) loginAt = Inr user \<and>
    authorizationCodes (au_store s') = AList.update (sha newCode) issued (authorizationCodes (au_store s)) \<and>
    ac_clientId issued = us_clientId r \<and> ac_redirectUri issued = us_redirectUri r \<and> ac_resource issued = us_resource r \<and>
    ac_scopes issued = us_scopes r \<and> ac_user issued = user \<and> ac_nonce issued = nonempty_text (us_nonce r) \<and>
    ac_codeChallenge issued = nonempty_text (us_codeChallenge r) \<and> ac_consumedAt issued = None \<and>
    ac_expiresAt issued = createAt + authorizationCodeTtlSeconds config \<and>
    (\<forall>location. sv_withParams sv (us_redirectUri r) [(''code'', newCode), (''state'', us_clientState r)] = Inr location \<longrightarrow>
       response = Redirect location)"
proof -
  obtain config query state st1 st2 r q where c: "sv_config sv = Inr config" "requestQuery req = Inr query"
    "get_param query ''state'' = Some state"
    "authorizationCodes st1 = authorizationCodes (au_store s)" "upstreamStates st1 = upstreamStates (au_store s)"
    and consumed: "disk_apply sha (ConsumeState state) consumeAt st1 = (State r, st2)"
    and login: "finishLogin sv config query r newCode loginAt createAt st2 = (q, au_store s')"
    and response: "response = (case q of Inl e \<Rightarrow> oauthErrorResponse e [] | Inr resp \<Rightarrow> resp)"
    by (rule callbackEndpoint_codes [OF assms])
  have codes: "authorizationCodes st2 = authorizationCodes (au_store s)" using apply_kept_codes [OF consumed] c(4) by simp
  have st2: "map_of (pruneExpiredUpstreamStates (upstreamStates st1) consumeAt) (sha state) = Some r"
    "upstreamStates st2 = AList.delete (sha state) (pruneExpiredUpstreamStates (upstreamStates st1) consumeAt)"
    using consumed by (auto simp: consumeUpstreamAuthorizationState_def with_result_def Let_def split: option.splits if_splits)
  have state: "(sha state, r) \<in> set (upstreamStates (au_store s)) \<and> consumeAt < us_expiresAt r"
    using map_of_SomeD [OF st2(1)] c(5) by (auto simp: pruneExpiredUpstreamStates_def isExpired_def)
  obtain upstreamCode user where l: "get_param query ''code'' = Some upstreamCode"
    "exchangeUpstreamCode (sv_upstream sv) config upstreamCode (us_codeVerifier r) (us_upstreamNonce r) loginAt = Inr user"
    "au_store s' = createAuthorizationCode sha newCode createAt
        \<lparr> ci_clientId = us_clientId r, ci_redirectUri = us_redirectUri r, ci_resource = us_resource r,
          ci_scopes = us_scopes r, ci_nonce = nonempty_text (us_nonce r),
          ci_codeChallenge = nonempty_text (us_codeChallenge r), ci_methodS256 = us_methodS256 r, ci_user = user,
          ci_ttlSeconds = authorizationCodeTtlSeconds config \<rparr> st2"
    "q = bindr (sv_withParams sv (us_redirectUri r) [(''code'', newCode), (''state'', us_clientState r)]) (\<lambda>l. Inr (writeRedirect l))"
    by (rule finishLogin_codes [OF assms(1) login]) (use assms(3) codes in auto)
  have "sha state \<notin> fst ` set (upstreamStates (au_store s'))"
    using l(3) st2(2) by (auto simp: createAuthorizationCode_def Let_def AList.delete_eq)
  note gone = this
  define issued where "issued = the (map_of (authorizationCodes (au_store s')) (sha newCode))"
  have issued: "authorizationCodes (au_store s') = AList.update (sha newCode) issued (authorizationCodes (au_store s))"
    "ac_clientId issued = us_clientId r" "ac_redirectUri issued = us_redirectUri r" "ac_resource issued = us_resource r"
    "ac_scopes issued = us_scopes r" "ac_user issued = user" "ac_nonce issued = nonempty_text (us_nonce r)"
    "ac_codeChallenge issued = nonempty_text (us_codeChallenge r)" "ac_consumedAt issued = None"
    "ac_expiresAt issued = createAt + authorizationCodeTtlSeconds config"
    using codes by (simp_all add: issued_def l(3) createAuthorizationCode_def Let_def)
  have "\<forall>location. sv_withParams sv (us_redirectUri r) [(''code'', newCode), (''state'', us_clientState r)] = Inr location \<longrightarrow>
      response = Redirect location"
    using response l(4) by (simp add: writeRedirect_def)
  then show ?thesis
    using c(1-3) conjunct1 [OF state] conjunct2 [OF state] gone l(1,2) issued by (intro exI conjI) (fact | simp)+
qed

section \<open>A login and its token\<close>

definition sample_service :: "(string, string, store_state, string) service" where
  "sample_service = \<lparr> sv_config = Inr login_config, sv_clients = (\<lambda>config. Inr [grant_client]), sv_store = disk_apply (\<lambda>s. s),
     sv_crypto = plain_crypto, sv_outside = sample_outside, sv_upstream = sample_upstream,
     sv_keySet = (\<lambda>config. Inr \<lparr> ks_active = token_key, ks_verificationKeys = [] \<rparr>), sv_parseQuery = (\<lambda>body. grant_form),
     sv_withParams = (\<lambda>uri params. Inr uri), sv_exportJwk = (\<lambda>key. []) \<rparr>"

definition authorization_query :: params where
  "authorization_query = [(''response_type'', ''code''), (''client_id'', ''gpt''), (''redirect_uri'', ''https://chatgpt.com/cb''),
     (''scope'', ''openid''), (''state'', ''xyz''), (''resource'', ''https://api.example/mcp''),
     (''code_challenge'', replicate 43 CHR ''v''), (''code_challenge_method'', ''S256'')]"

definition sample_request :: "params \<Rightarrow> http_request" where
  "sample_request query = \<lparr> hr_query = Some query, hr_rawHeaders = [], hr_headers = [], hr_body = [], hr_remoteAddress = Some ''10.0.0.1'' \<rparr>"

definition sample_login_draws :: login_draws where
  "sample_login_draws = \<lparr> ld_codeVerifier = ''v'', ld_upstreamNonce = ''n'', ld_state = ''s1'', ld_storeAt = 1000, ld_instants = (0, 0) \<rparr>"

definition sample_authorization :: authorization_request where
  "sample_authorization = \<lparr> aq_responseType = ''code'', aq_clientId = ''gpt'', aq_redirectUri = ''https://chatgpt.com/cb'',
     aq_scope = Some ''openid'', aq_state = Some ''xyz'', aq_resource = Some ''https://api.example/mcp'',
     aq_codeChallenge = Some (replicate 43 CHR ''v''), aq_codeChallengeMethod = Some ''S256'', aq_nonce = None, aq_idTokenHint = None \<rparr>"

definition sample_validated :: validated_authorization where
  "sample_validated = \<lparr> va_clientId = ''gpt'', va_redirectUri = ''https://chatgpt.com/cb'', va_resource = ''https://api.example/mcp'',
     va_scopes = [''openid''], va_clientState = ''xyz'', va_nonce = None, va_codeChallenge = Some (replicate 43 CHR ''v''), va_methodS256 = True \<rparr>"

lemma sample_authorization_steps:
  "rejectAccessTokenQuery (sample_request authorization_query) = Inr ()"
  "requestQuery (sample_request authorization_query) = Inr authorization_query"
  "clientRateSubject (get_param authorization_query ''client_id'') (requestSubject (sample_request authorization_query)) = ''client:gpt''"
  "readAuthorizationRequest authorization_query = Inr sample_authorization"
  "bindr (oauthState (aq_state sample_authorization)) (\<lambda>state. bindr (idTokenHint (aq_idTokenHint sample_authorization)) (\<lambda>_. Inr state)) = Inr ''xyz''"
  "aq_responseType sample_authorization = ''code''" "aq_clientId sample_authorization = ''gpt''"
  "validateAuthorization sample_url_parser grant_client sample_authorization ''xyz'' = Inr sample_validated"
  by code_simp+

lemma sample_login_steps:
  "rejectAccessTokenQuery (sample_request [(''code'', ''c''), (''state'', ''s1'')]) = Inr ()"
  "requestQuery (sample_request [(''code'', ''c''), (''state'', ''s1'')]) = Inr [(''code'', ''c''), (''state'', ''s1'')]"
  "requestSubject (sample_request [(''code'', ''c''), (''state'', ''s1'')]) = ''10.0.0.1''"
  "bindr (assertAllowedParameters [(''code'', ''c''), (''state'', ''s1'')] [''code'', ''state'', ''error'', ''error_description''])
     (\<lambda>_. requiredParameter [(''code'', ''c''), (''state'', ''s1'')] ''state'') = Inr ''s1''"
  "optionalParameter [(''code'', ''c''), (''state'', ''s1'')] ''error'' = Inr None"
  "requiredParameter [(''code'', ''c''), (''state'', ''s1'')] ''code'' = Inr ''c''"
  by code_simp+

lemma dom_update_subset: "fst ` set (AList.update k v xs) \<subseteq> insert k (fst ` set xs)"
  by (induction xs) auto

lemma dom_prune_subset: "fst ` set (pruneExpiredRateLimits table now) \<subseteq> fst ` set table"
  by (auto simp: pruneExpiredRateLimits_def)

text \<open>A request whose subject has no counter passes the limit.\<close>

lemma sample_limited:
  assumes "map_of (rateLimits (au_store s)) (''oauth-authorize:'' @ trim subj) = None" "trim subj \<noteq> []" "0 \<le> now" "now < 100000"
  obtains table where "limited sample_service login_config ''oauth-authorize'' subj now s = (Inr (), s \<lparr> au_store := au_store s \<lparr> rateLimits := table \<rparr> \<rparr>)"
    "set (map fst table) \<subseteq> insert (''oauth-authorize:'' @ trim subj) (set (map fst (rateLimits (au_store s))))"
proof -
  let ?p = "\<lparr> windowSeconds = 60, maxRequests = 10 \<rparr>" and ?k = "''oauth-authorize:'' @ trim subj"
  have "policy_ok ?p" "time_ok now" using assms(3,4) by (simp_all add: policy_ok_def time_ok_def max_safe_integer_def)
  moreover have "?k \<notin> fst ` set (pruneExpiredRateLimits (rateLimits (au_store s)) now)"
    using assms(1) by (auto simp: pruneExpiredRateLimits_def map_of_eq_None_iff image_iff)
  ultimately obtain r where hit: "hit ?k ?p now (rateLimits (au_store s)) = Inr (AList.update ?k r (pruneExpiredRateLimits (rateLimits (au_store s)) now))"
    using fresh_hit map_of_eq_None_iff by metis
  define table where "table = AList.update ?k r (pruneExpiredRateLimits (rateLimits (au_store s)) now)"
  have "rateLimitKey (\<lambda>s. s) ''oauth-authorize'' subj = ?k" using assms(2) by (simp add: rateLimitKey_def)
  moreover have "map_of (rateLimitPolicies login_config) ''oauth-authorize'' = Some ?p" by (simp add: login_config_def)
  moreover have "hitInStore (\<lambda>s. s) ?k ?p now (au_store s) = Inr ((au_store s) \<lparr> rateLimits := table \<rparr>)"
    unfolding hitInStore_def hit table_def by simp
  ultimately have "enforceRateLimit (\<lambda>s. s) (disk_apply (\<lambda>s. s)) login_config ''oauth-authorize'' subj now (au_store s) =
      (Inr (), (au_store s) \<lparr> rateLimits := table \<rparr>)"
    by (simp add: enforceRateLimit_def without_result_def)
  moreover have "fst ` set table \<subseteq> insert ?k (fst ` set (rateLimits (au_store s)))"
    unfolding table_def by (rule order_trans [OF dom_update_subset insert_mono [OF dom_prune_subset]])
  ultimately show ?thesis
    using that [of table] by (simp add: limited_def sample_service_def plain_crypto_def)
qed

lemma sample_service_fields:
  "sv_config sample_service = Inr login_config" "sv_clients sample_service config = Inr [grant_client]"
  "sv_store sample_service = disk_apply (\<lambda>s. s)" "sv_crypto sample_service = plain_crypto" "sv_outside sample_service = sample_outside"
  "sv_upstream sample_service = sample_upstream" "sv_withParams sample_service = (\<lambda>uri params. Inr uri)"
  "cr_sha256 plain_crypto = (\<lambda>s. s)" "xo_parseUrl sample_outside = sample_url_parser" "authorizationCodeTtlSeconds login_config = 60"
  by (simp_all add: sample_service_def plain_crypto_def sample_outside_def login_config_def)

definition sample_pending :: upstream_state_record where
  "sample_pending = \<lparr> us_stateHash = ''s1'', us_clientId = ''gpt'', us_redirectUri = ''https://chatgpt.com/cb'',
     us_resource = ''https://api.example/mcp'', us_scopes = [''openid''], us_clientState = ''xyz'', us_codeVerifier = ''v'',
     us_upstreamNonce = ''n'', us_nonce = None, us_codeChallenge = Some (replicate 43 CHR ''v''), us_methodS256 = True,
     us_expiresAt = 1060, us_createdAt = 1000 \<rparr>"

text \<open>The authorization request leaves a pending login.\<close>

lemma sample_pending_login:
  obtains response s where "authorizeEndpoint sample_service (sample_request authorization_query) 1000 sample_login_draws empty_server = (response, s)"
    "upstreamStates (au_store s) = [(''s1'', sample_pending)]" "authorizationCodes (au_store s) = []" "au_metadata s = []"
    "au_assertions s = no_assertions" "refreshTokens (au_store s) = []"
    "fst ` set (rateLimits (au_store s)) \<subseteq> {''oauth-authorize:client:gpt''}"
proof -
  have trimmed: "trim ''client:gpt'' = ''client:gpt''" by code_simp
  obtain table where limited: "limited sample_service login_config ''oauth-authorize'' ''client:gpt'' 1000 empty_server =
      (Inr (), empty_server \<lparr> au_store := au_store empty_server \<lparr> rateLimits := table \<rparr> \<rparr>)"
    and table: "set (map fst table) \<subseteq> insert (''oauth-authorize:'' @ trim ''client:gpt'') (set (map fst (rateLimits (au_store empty_server))))"
    by (rule sample_limited [of empty_server "''client:gpt''" 1000]) (use trimmed in \<open>simp_all add: empty_server_def emptyStoreState_def\<close>)
  have resolved: "resolveClient sample_outside login_config [grant_client] ''gpt'' 0 0 [] = (Inr grant_client, [])"
    by (simp add: resolveClient_def grant_client_def sample_client_def)
  let ?store = "createUpstreamAuthorizationState (\<lambda>s. s) ''s1'' 1000
      \<lparr> ui_clientId = ''gpt'', ui_redirectUri = ''https://chatgpt.com/cb'', ui_resource = ''https://api.example/mcp'', ui_scopes = [''openid''],
        ui_clientState = ''xyz'', ui_codeVerifier = ''v'', ui_upstreamNonce = ''n'', ui_nonce = None,
        ui_codeChallenge = Some (replicate 43 CHR ''v''), ui_methodS256 = True, ui_ttlSeconds = 60 \<rparr> (emptyStoreState \<lparr> rateLimits := table \<rparr>)"
  have "createLoginRedirect (\<lambda>s. s) (\<lambda>uri params. Inr uri) (disk_apply (\<lambda>s. s)) login_config sample_validated sample_login_draws
      (emptyStoreState \<lparr> rateLimits := table \<rparr>) = (Inr (uc_authorizationUrl (upstreamOidc login_config)), ?store)"
    by (simp add: createLoginRedirect_def storeCreate_def andThen_def sample_validated_def sample_login_draws_def sample_service_fields)
  then have "createAuthorizationRedirect plain_crypto sample_outside (\<lambda>uri params. Inr uri) (disk_apply (\<lambda>s. s)) login_config [grant_client]
      sample_authorization sample_login_draws (empty_server \<lparr> au_store := emptyStoreState \<lparr> rateLimits := table \<rparr> \<rparr>) =
      (Inr (uc_authorizationUrl (upstreamOidc login_config)), empty_server \<lparr> au_store := ?store \<rparr>)"
    using sample_authorization_steps(5-8) resolved
    by (simp add: createAuthorizationRedirect_def andThen_def sample_login_draws_def sample_service_fields empty_server_def)
  then have "authorizeEndpoint sample_service (sample_request authorization_query) 1000 sample_login_draws empty_server =
      (Redirect (uc_authorizationUrl (upstreamOidc login_config)), empty_server \<lparr> au_store := ?store \<rparr>)"
    using limited sample_authorization_steps(1-4)
    by (simp add: authorizeEndpoint_def andThen_def sample_service_fields answer_def writeRedirect_def empty_server_def)
  then show ?thesis
    by (rule that) (use table trimmed in \<open>simp_all add: createUpstreamAuthorizationState_def sample_pending_def emptyStoreState_def
        pruneExpiredUpstreamStates_def empty_server_def no_assertions_def nonempty_text_def Let_def\<close>)
qed

definition issued_code :: "user_profile \<Rightarrow> auth_code_record" where
  "issued_code user = \<lparr> ac_codeHash = ''c1'', ac_clientId = ''gpt'', ac_redirectUri = ''https://chatgpt.com/cb'',
     ac_resource = ''https://api.example/mcp'', ac_scopes = [''openid''], ac_nonce = None,
     ac_codeChallenge = Some (replicate 43 CHR ''v''), ac_methodS256 = True, ac_user = user, ac_expiresAt = 1062, ac_consumedAt = None,
     ac_authTime = 1002, ac_createdAt = 1002 \<rparr>"

text \<open>The callback of the upstream provider turns the pending login into a code.\<close>

lemma sample_callback:
  assumes "upstreamStates (au_store s) = [(''s1'', sample_pending)]" "authorizationCodes (au_store s) = []"
    "fst ` set (rateLimits (au_store s)) \<subseteq> {''oauth-authorize:client:gpt''}"
  obtains response user t where
    "callbackEndpoint sample_service (sample_request [(''code'', ''c''), (''state'', ''s1'')]) (1001, 1001, 50, 1002) ''c1'' s = (response, t)"
    "authorizationCodes (au_store t) = [(''c1'', issued_code user)]" "au_metadata t = au_metadata s" "au_assertions t = au_assertions s"
    "refreshTokens (au_store t) = refreshTokens (au_store s)"
proof -
  let ?query = "[(''code'', ''c''), (''state'', ''s1'')] :: params" and ?pu = "\<lambda>s. s :: string"
  have trimmed: "trim ''10.0.0.1'' = ''10.0.0.1''" by code_simp
  have "map_of (rateLimits (au_store s)) (''oauth-authorize:'' @ trim ''10.0.0.1'') = None"
    using assms(3) by (auto simp: map_of_eq_None_iff trimmed)
  note no_counter = this
  obtain table where limited: "limited sample_service login_config ''oauth-authorize'' ''10.0.0.1'' 1001 s =
      (Inr (), s \<lparr> au_store := au_store s \<lparr> rateLimits := table \<rparr> \<rparr>)"
    by (rule sample_limited [of s "''10.0.0.1''" 1001]) (use no_counter trimmed in simp_all)
  define st where "st = (au_store s) \<lparr> rateLimits := table, upstreamStates := [] \<rparr>"
  have consumed: "storeConsumeState (disk_apply (\<lambda>s. s)) ''s1'' 1001 ((au_store s) \<lparr> rateLimits := table \<rparr>) = (Inr sample_pending, st)"
    using assms(1) by (simp add: storeConsumeState_def consumeUpstreamAuthorizationState_def with_result_def Let_def st_def
        pruneExpiredUpstreamStates_def isExpired_def sample_pending_def)
  obtain user where user: "exchangeUpstreamCode sample_upstream login_config ''c'' ''v'' ''n'' 50 = Inr user"
    by (rule sample_login)
  let ?code = "\<lparr> ci_clientId = ''gpt'', ci_redirectUri = ''https://chatgpt.com/cb'', ci_resource = ''https://api.example/mcp'',
      ci_scopes = [''openid''], ci_nonce = None, ci_codeChallenge = Some (replicate 43 CHR ''v''), ci_methodS256 = True, ci_user = user,
      ci_ttlSeconds = 60 \<rparr>"
  have "finishLogin sample_service login_config ?query sample_pending ''c1'' 50 1002 st =
      (Inr (Redirect ''https://chatgpt.com/cb''), createAuthorizationCode (\<lambda>s. s) ''c1'' 1002 ?code st)"
    using sample_login_steps(5,6) user
    by (simp add: finishLogin_def createServiceAuthorizationCode_def storeCreate_def andThen_def sample_service_fields sample_pending_def
        writeRedirect_def nonempty_text_def)
  then have "callbackEndpoint sample_service (sample_request ?query) (1001, 1001, 50, 1002) ''c1'' s =
      (Redirect ''https://chatgpt.com/cb'', s \<lparr> au_store := createAuthorizationCode (\<lambda>s. s) ''c1'' 1002 ?code st \<rparr>)"
    using limited consumed sample_login_steps(1-4)
    by (simp add: callbackEndpoint_def andThen_def sample_service_fields answer_def)
  then show ?thesis
    by (rule that) (use assms(2) in \<open>simp_all add: createAuthorizationCode_def issued_code_def st_def nonempty_text_def\<close>)
qed

lemma sample_run:
  obtains s user where "(server_step sample_service)\<^sup>*\<^sup>* empty_server s" "authorizationCodes (au_store s) = [(''c1'', issued_code user)]"
    "au_metadata s = []" "au_assertions s = no_assertions" "refreshTokens (au_store s) = []"
proof -
  obtain r s1 where a: "authorizeEndpoint sample_service (sample_request authorization_query) 1000 sample_login_draws empty_server = (r, s1)"
    and s1: "upstreamStates (au_store s1) = [(''s1'', sample_pending)]" "authorizationCodes (au_store s1) = []" "au_metadata s1 = []"
      "au_assertions s1 = no_assertions" "refreshTokens (au_store s1) = []"
      "fst ` set (rateLimits (au_store s1)) \<subseteq> {''oauth-authorize:client:gpt''}"
    by (rule sample_pending_login)
  obtain r' user s2 where c: "callbackEndpoint sample_service (sample_request [(''code'', ''c''), (''state'', ''s1'')]) (1001, 1001, 50, 1002) ''c1'' s1
      = (r', s2)"
    and s2: "authorizationCodes (au_store s2) = [(''c1'', issued_code user)]" "au_metadata s2 = au_metadata s1" "au_assertions s2 = au_assertions s1"
      "refreshTokens (au_store s2) = refreshTokens (au_store s1)"
    by (rule sample_callback [OF s1(1,2,6)])
  have "(server_step sample_service)\<^sup>*\<^sup>* empty_server s2"
    using server_step.authorization [OF a] server_step.login_callback [OF c] by (meson converse_rtranclp_into_rtranclp r_into_rtranclp)
  then show ?thesis using that s2 s1 by simp
qed

theorem records_are_authorized_witness:
  "\<exists>s user. (server_step sample_service)\<^sup>*\<^sup>* empty_server s \<and> authorizationCodes (au_store s) = [(''c1'', issued_code user)] \<and>
     logged_in sample_upstream login_config user"
proof -
  obtain s user where run: "(server_step sample_service)\<^sup>*\<^sup>* empty_server s" "authorizationCodes (au_store s) = [(''c1'', issued_code user)]"
    by (rule sample_run)
  have "nul \<notin> set (mcpResource login_config)" by code_simp
  from records_are_authorized [OF _ _ _ this run(1), of "[grant_client]"] run show ?thesis
    by (auto simp: sample_service_fields code_ok_def issued_code_def)
qed

theorem callback_issues_bound_code_witness:
  "\<exists>s response s'. callbackEndpoint sample_service (sample_request [(''code'', ''c''), (''state'', ''s1'')]) (1001, 1001, 50, 1002) ''c1'' s
     = (response, s') \<and> map_of (upstreamStates (au_store s)) ''s1'' = Some sample_pending \<and> ''s1'' \<notin> fst ` set (upstreamStates (au_store s')) \<and>
     response = Redirect ''https://chatgpt.com/cb''"
proof -
  obtain r s1 where "authorizeEndpoint sample_service (sample_request authorization_query) 1000 sample_login_draws empty_server = (r, s1)"
    and s1: "upstreamStates (au_store s1) = [(''s1'', sample_pending)]" "authorizationCodes (au_store s1) = []"
    and "au_metadata s1 = []" "au_assertions s1 = no_assertions" "refreshTokens (au_store s1) = []"
    and counters: "fst ` set (rateLimits (au_store s1)) \<subseteq> {''oauth-authorize:client:gpt''}"
    by (rule sample_pending_login)
  obtain response user s2 where c: "callbackEndpoint sample_service (sample_request [(''code'', ''c''), (''state'', ''s1'')]) (1001, 1001, 50, 1002) ''c1'' s1
      = (response, s2)" and s2: "authorizationCodes (au_store s2) = [(''c1'', issued_code user)]"
    by (rule sample_callback [OF s1 counters])
  have query: "get_param [(''code'', ''c''), (''state'', ''s1'')] ''state'' = Some ''s1''" by code_simp
  have "requestQuery (sample_request [(''code'', ''c''), (''state'', ''s1'')]) = Inr [(''code'', ''c''), (''state'', ''s1'')]"
    by (rule sample_login_steps)
  note query' = this
  have changed: "authorizationCodes (au_store s2) \<noteq> authorizationCodes (au_store s1)" using s1 s2 by simp
  have "''s1'' \<notin> fst ` set (upstreamStates (au_store s2)) \<and> response = Redirect ''https://chatgpt.com/cb''"
    using callback_issues_bound_code [OF sample_service_fields(3) c changed] query query' s1(1)
    by (clarsimp simp: sample_service_fields sample_pending_def)
  moreover have "map_of (upstreamStates (au_store s1)) ''s1'' = Some sample_pending" using s1(1) by simp
  ultimately show ?thesis using c by blast
qed

theorem token_traces_to_login_witness:
  "\<exists>s response s' user. (server_step sample_service)\<^sup>*\<^sup>* empty_server s \<and>
     handleTokenGrant plain_crypto sample_outside (disk_apply (\<lambda>s. s)) login_config [grant_client] grant_form None (Inr token_key)
       (draws_at 1003 ''r1'') s = (Inr response, s') \<and> logged_in sample_upstream login_config user"
proof -
  obtain s user where run: "(server_step sample_service)\<^sup>*\<^sup>* empty_server s" "authorizationCodes (au_store s) = [(''c1'', issued_code user)]"
    "au_metadata s = []" "au_assertions s = no_assertions" "refreshTokens (au_store s) = []"
    by (rule sample_run)
  have pkce: "is_pkce_value (replicate 43 CHR ''v'')" by code_simp
  have "consumable (\<lambda>s. s) (Some (replicate 43 CHR ''v'')) grant_expectation 1003 (issued_code user)"
    by (simp add: consumable_def issued_code_def grant_expectation_def truthy_time_def pkce del: replicate.simps)
  then obtain r st where consumed: "storeConsumeCode (disk_apply (\<lambda>s. s)) ''c1'' (Some (replicate 43 CHR ''v'')) grant_expectation 1003 (au_store s) = (Inr r, st)"
    by (simp add: storeConsumeCode_def consume_eq run(2) with_result_def del: replicate.simps)
  have resolved: "resolveClient sample_outside login_config [grant_client] ''gpt'' 0 0 [] = (Inr grant_client, [])"
    by (simp add: resolveClient_def grant_client_def sample_client_def)
  have authenticated: "authenticateClient plain_crypto sample_outside login_config grant_client \<lparr> cc_clientId = ''gpt'', cc_clientSecret = Some ''s3cret'',
     cc_clientAssertion = None, cc_method = Client_secret_post \<rparr> (0, 0, 0) no_assertions = (Inr (), no_assertions)"
    by (simp add: authenticateClient_def assertClientAuthMethod_def assertClientSecret_def grant_client_def sample_client_def plain_crypto_def)
  have "\<exists>response st'. dispatchGrant sample_url_parser plain_crypto (disk_apply (\<lambda>s. s)) login_config grant_client (Some ''authorization_code'')
      grant_form (Inr token_key) (draws_at 1003 ''r1'') (au_store s) = (Inr response, st')"
    using consumed
    by (simp add: dispatchGrant_def authorizationCodeGrant_def code_parameters andThen_def grant_expectation_def grant_client_fields
        draws_at_def storeCreate_def del: replicate.simps)
  then obtain response s' where call: "handleTokenGrant plain_crypto sample_outside (disk_apply (\<lambda>s. s)) login_config [grant_client] grant_form None
      (Inr token_key) (draws_at 1003 ''r1'') s = (Inr response, s')"
    using authenticated resolved run(3,4)
    by (auto simp: handleTokenGrant_def grant_prefix andThen_def draws_at_def sample_outside_def)
  have "nul \<notin> set (mcpResource login_config)" by code_simp
  from token_traces_to_login [OF _ _ _ this run(1), of "[grant_client]" grant_form None "Inr token_key" "draws_at 1003 ''r1''" response s'] call
  have "\<exists>user. logged_in sample_upstream login_config user"
    by (simp add: sample_service_fields) blast
  then show ?thesis using run(1) call by blast
qed

end
