(* ===== verification/Dynamo_Items.thy ===== *)
theory Dynamo_Items
  imports Disk_Runs Json_Text
begin

text \<open>
  \<open>auth/storage/dynamodb\<close>: what the store on a DynamoDB table reads and writes.  Items and their typed
  attributes (\<open>attribute-value.ts\<close>), keys (\<open>keys.ts\<close>), stored records (\<open>item-codec.ts\<close>) and the requests
  of \<open>client.ts\<close>.  Unlike the file store, whose operations are updates under a lock, an operation here is
  a sequence of requests, and the requests of different operations interleave.  An operation is
  therefore a \<open>program\<close>: a tree whose nodes are the requests it sends and the clock readings it takes.
  Condition and update expressions are written with their attribute names and values filled in; a
  number attribute is the integer its decimal text denotes.
\<close>

section \<open>Attributes and items\<close>

datatype attribute_value = S_attr string | N_attr int | Bool_attr bool | SS_attr "string list"

type_synonym dynamo_item = "(string \<times> attribute_value) list"

definition stringAttr :: "string \<Rightarrow> attribute_value" where "stringAttr s = S_attr s"
definition numberAttr :: "int \<Rightarrow> attribute_value" where "numberAttr n = N_attr n"
definition booleanAttr :: "bool \<Rightarrow> attribute_value" where "booleanAttr b = Bool_attr b"
definition stringSetAttr :: "string list \<Rightarrow> attribute_value" where "stringSetAttr ss = SS_attr ss"

lemmas attr_defs = stringAttr_def numberAttr_def booleanAttr_def stringSetAttr_def

definition itemString :: "dynamo_item \<Rightarrow> string \<Rightarrow> string outcome" where
  "itemString it name = (case map_of it name of
     Some (S_attr s) \<Rightarrow> Inr s | _ \<Rightarrow> Inl (PlainError (''DynamoDB item missing string '' @ name)))"

definition itemNumber :: "dynamo_item \<Rightarrow> string \<Rightarrow> int outcome" where
  "itemNumber it name = (case map_of it name of
     Some (N_attr n) \<Rightarrow> if \<bar>n\<bar> \<le> max_safe_integer then Inr n else Inl (PlainError (''DynamoDB item has invalid number '' @ name))
   | _ \<Rightarrow> Inl (PlainError (''DynamoDB item missing number '' @ name)))"

definition itemOptionalNumber :: "dynamo_item \<Rightarrow> string \<Rightarrow> int option outcome" where
  "itemOptionalNumber it name = (case map_of it name of
     None \<Rightarrow> Inr None
   | Some (N_attr n) \<Rightarrow> if \<bar>n\<bar> \<le> max_safe_integer then Inr (Some n) else Inl (PlainError (''DynamoDB item has invalid number '' @ name))
   | Some _ \<Rightarrow> Inl (PlainError (''DynamoDB item has invalid number '' @ name)))"

definition readStringSet :: "dynamo_item \<Rightarrow> string \<Rightarrow> string list outcome" where
  "readStringSet it name = (case map_of it name of
     None \<Rightarrow> Inr []
   | Some (SS_attr ss) \<Rightarrow> Inr ss
   | Some _ \<Rightarrow> Inl (PlainError (''DynamoDB item has invalid string set '' @ name)))"

text \<open>The primary key of an item is what its attributes \<open>pk\<close> and \<open>sk\<close> hold.\<close>

definition dynamoKey :: "string \<Rightarrow> string \<Rightarrow> dynamo_item" where
  "dynamoKey pk sk = [(''pk'', stringAttr pk), (''sk'', stringAttr sk)]"

definition item_key :: "dynamo_item \<Rightarrow> dynamo_item" where
  "item_key it = filter (\<lambda>(name, v). name = ''pk'' \<or> name = ''sk'') it"

definition authorizationCodeKey :: "string \<Rightarrow> dynamo_item" where
  "authorizationCodeKey h = dynamoKey (''AUTH_CODE#'' @ h) ''STATE''"
definition upstreamStateKey :: "string \<Rightarrow> dynamo_item" where
  "upstreamStateKey h = dynamoKey (''UPSTREAM_STATE#'' @ h) ''STATE''"
definition refreshTokenKey :: "string \<Rightarrow> dynamo_item" where
  "refreshTokenKey h = dynamoKey (''REFRESH#'' @ h) ''TOKEN''"
definition refreshFamilyKey :: "string \<Rightarrow> dynamo_item" where
  "refreshFamilyKey f = dynamoKey (''REFRESH_FAMILY#'' @ f) ''META''"
definition refreshRotationKey :: "string \<Rightarrow> dynamo_item" where
  "refreshRotationKey h = dynamoKey (''REFRESH_ROTATED#'' @ h) ''MARKER''"
definition mcpSessionKey :: "string \<Rightarrow> dynamo_item" where
  "mcpSessionKey h = dynamoKey (''MCP_SESSION#'' @ h) ''SESSION''"
definition rateBucketKey :: "string \<Rightarrow> dynamo_item" where
  "rateBucketKey h = dynamoKey (''RATE2#'' @ h) ''BUCKET''"
definition metadataEntryKey :: "string \<Rightarrow> string \<Rightarrow> dynamo_item" where
  "metadataEntryKey namespace h = dynamoKey (''CACHE#'' @ namespace @ ''#'' @ h) ''ENTRY''"

lemmas key_defs = dynamoKey_def authorizationCodeKey_def upstreamStateKey_def refreshTokenKey_def refreshFamilyKey_def
  refreshRotationKey_def mcpSessionKey_def rateBucketKey_def metadataEntryKey_def

definition storedRecordItem :: "dynamo_item \<Rightarrow> string \<Rightarrow> json \<Rightarrow> int \<Rightarrow> dynamo_item \<Rightarrow> dynamo_item" where
  "storedRecordItem key type record expiresAt extra =
     key @ [(''recordType'', stringAttr type), (''record'', stringAttr (json_text record)), (''expiresAt'', numberAttr expiresAt),
            (''ttl'', numberAttr expiresAt)] @ extra"

definition metaItem :: "dynamo_item \<Rightarrow> string \<Rightarrow> int \<Rightarrow> dynamo_item \<Rightarrow> dynamo_item" where
  "metaItem key type expiresAt extra =
     key @ [(''recordType'', stringAttr type), (''expiresAt'', numberAttr expiresAt), (''ttl'', numberAttr expiresAt)] @ extra"

definition markerItem :: "dynamo_item \<Rightarrow> string \<Rightarrow> int \<Rightarrow> int \<Rightarrow> dynamo_item" where
  "markerItem key family createdAt expiresAt = metaItem key ''refresh_rotation'' expiresAt
     [(''familyId'', stringAttr family), (''createdAt'', numberAttr createdAt), (''rotated'', booleanAttr True)]"

section \<open>Requests and programs\<close>

datatype condition =
    Exists string | Not_exists string | Equals string attribute_value | Greater string attribute_value
  | At_most string attribute_value | Both condition condition | Either condition condition

type_synonym assignments = "(string \<times> attribute_value) list"

datatype dynamo_write =
    Put dynamo_item "condition option"
  | Update dynamo_item assignments condition

datatype dynamo_request =
    Get_item dynamo_item
  | Write_items "dynamo_write list"
  | Delete_item dynamo_item "condition option"

datatype dynamo_response = Found "dynamo_item option" | Accepted | Condition_failed | Request_failed string

datatype 'a program =
    Return 'a
  | Throw js_error
  | Clock "int \<Rightarrow> 'a program"
  | Call dynamo_request "dynamo_response \<Rightarrow> 'a program"

primrec bindp :: "'a program \<Rightarrow> ('a \<Rightarrow> 'b program) \<Rightarrow> 'b program" where
  "bindp (Return x) f = f x"
| "bindp (Throw e) f = Throw e"
| "bindp (Clock k) f = Clock (\<lambda>n. bindp (k n) f)"
| "bindp (Call q k) f = Call q (\<lambda>r. bindp (k r) f)"

definition from_outcome :: "'a outcome \<Rightarrow> 'a program" where
  "from_outcome r = (case r of Inl e \<Rightarrow> Throw e | Inr x \<Rightarrow> Return x)"

text \<open>\<open>DynamoDbConditionalCheckFailed\<close>, and every other failure of a request.\<close>

definition condition_error :: js_error where
  "condition_error = PlainError ''DynamoDB conditional check failed''"

definition request_error :: "string \<Rightarrow> js_error" where
  "request_error message = PlainError (''DynamoDB request failed: '' @ message)"

primrec catch_condition :: "'a program \<Rightarrow> 'a program \<Rightarrow> 'a program" where
  "catch_condition (Return x) h = Return x"
| "catch_condition (Throw e) h = (if e = condition_error then h else Throw e)"
| "catch_condition (Clock k) h = Clock (\<lambda>n. catch_condition (k n) h)"
| "catch_condition (Call q k) h = Call q (\<lambda>r. catch_condition (k r) h)"

definition answered :: "dynamo_response \<Rightarrow> dynamo_item option program" where
  "answered r = (case r of
     Found it \<Rightarrow> Return it | Accepted \<Rightarrow> Return None | Condition_failed \<Rightarrow> Throw condition_error | Request_failed m \<Rightarrow> Throw (request_error m))"

definition getItem :: "dynamo_item \<Rightarrow> dynamo_item option program" where
  "getItem key = Call (Get_item key) answered"

definition putItem :: "dynamo_item \<Rightarrow> condition option \<Rightarrow> unit program" where
  "putItem it cond = Call (Write_items [Put it cond]) (\<lambda>r. bindp (answered r) (\<lambda>_. Return ()))"

definition updateItem :: "dynamo_item \<Rightarrow> assignments \<Rightarrow> condition \<Rightarrow> unit program" where
  "updateItem key sets cond = Call (Write_items [Update key sets cond]) (\<lambda>r. bindp (answered r) (\<lambda>_. Return ()))"

definition deleteItem :: "dynamo_item \<Rightarrow> condition option \<Rightarrow> dynamo_item option program" where
  "deleteItem key cond = Call (Delete_item key cond) answered"

definition transactWriteItems :: "dynamo_write list \<Rightarrow> unit program" where
  "transactWriteItems ws = Call (Write_items ws) (\<lambda>r. bindp (answered r) (\<lambda>_. Return ()))"

section \<open>Stored records\<close>

definition member_text :: "string \<Rightarrow> string option \<Rightarrow> js_object" where
  "member_text key v = (case v of None \<Rightarrow> [] | Some s \<Rightarrow> [(key, JStr s)])"

definition member_int :: "string \<Rightarrow> int option \<Rightarrow> js_object" where
  "member_int key v = (case v of None \<Rightarrow> [] | Some n \<Rightarrow> [(key, JInt n)])"

definition member_s256 :: "bool \<Rightarrow> js_object" where
  "member_s256 b = (if b then [(''codeChallengeMethod'', JStr ''S256'')] else [])"

definition code_record_json :: "auth_code_record \<Rightarrow> json" where
  "code_record_json r = JObj ([(''codeHash'', JStr (ac_codeHash r)), (''clientId'', JStr (ac_clientId r)), (''redirectUri'', JStr (ac_redirectUri r)),
     (''resource'', JStr (ac_resource r)), (''scopes'', JArr (map JStr (ac_scopes r))), (''user'', profile_json (ac_user r)),
     (''expiresAt'', JInt (ac_expiresAt r)), (''authTime'', JInt (ac_authTime r)), (''createdAt'', JInt (ac_createdAt r))] @
     member_text ''nonce'' (ac_nonce r) @ member_text ''codeChallenge'' (ac_codeChallenge r) @ member_s256 (ac_methodS256 r) @
     member_int ''consumedAt'' (ac_consumedAt r))"

definition refresh_record_json :: "refresh_token_record \<Rightarrow> json" where
  "refresh_record_json r = JObj ([(''tokenHash'', JStr (rt_tokenHash r)), (''familyId'', JStr (rt_familyId r)), (''clientId'', JStr (rt_clientId r)),
     (''user'', profile_json (rt_user r)), (''resource'', JStr (rt_resource r)), (''scopes'', JArr (map JStr (rt_scopes r))),
     (''expiresAt'', JInt (rt_expiresAt r)), (''authTime'', JInt (rt_authTime r)), (''createdAt'', JInt (rt_createdAt r))] @
     member_text ''rotatedFromHash'' (rt_rotatedFromHash r) @ member_int ''revokedAt'' (rt_revokedAt r) @ member_int ''lastUsedAt'' (rt_lastUsedAt r))"

definition state_record_json :: "upstream_state_record \<Rightarrow> json" where
  "state_record_json r = JObj ([(''stateHash'', JStr (us_stateHash r)), (''clientId'', JStr (us_clientId r)), (''redirectUri'', JStr (us_redirectUri r)),
     (''resource'', JStr (us_resource r)), (''scopes'', JArr (map JStr (us_scopes r))), (''clientState'', JStr (us_clientState r)),
     (''codeVerifier'', JStr (us_codeVerifier r)), (''upstreamNonce'', JStr (us_upstreamNonce r)), (''expiresAt'', JInt (us_expiresAt r)),
     (''createdAt'', JInt (us_createdAt r))] @
     member_text ''nonce'' (us_nonce r) @ member_text ''codeChallenge'' (us_codeChallenge r) @ member_s256 (us_methodS256 r))"

text \<open>The casts of \<open>parseStoredRecord\<close>: \<open>None\<close> is a value of another shape, which only another writer can
  have left in the table.\<close>

definition text_field :: "js_object \<Rightarrow> string \<Rightarrow> string option" where
  "text_field fs key = json_string (field fs key)"

definition int_field :: "js_object \<Rightarrow> string \<Rightarrow> int option" where
  "int_field fs key = (case field fs key of Some (JNum n) \<Rightarrow> if is_safe_integer n then Some (integer_value n) else None | _ \<Rightarrow> None)"

definition opt_text_field :: "js_object \<Rightarrow> string \<Rightarrow> string option option" where
  "opt_text_field fs key = (case field fs key of None \<Rightarrow> Some None | Some (JStr s) \<Rightarrow> Some (Some s) | Some _ \<Rightarrow> None)"

definition opt_int_field :: "js_object \<Rightarrow> string \<Rightarrow> int option option" where
  "opt_int_field fs key = (case field fs key of None \<Rightarrow> Some None | Some v \<Rightarrow> map_option Some (int_field fs key))"

definition texts_field :: "js_object \<Rightarrow> string \<Rightarrow> string list option" where
  "texts_field fs key = (case field fs key of
     Some (JArr vs) \<Rightarrow> those (map (\<lambda>v. json_string (Some v)) vs) | _ \<Rightarrow> None)"

definition profile_field :: "js_object \<Rightarrow> string \<Rightarrow> user_profile option" where
  "profile_field fs key = (case field fs key of
     Some (JObj us) \<Rightarrow>
       Option.bind (text_field us ''sub'') (\<lambda>sub. Option.bind (text_field us ''given_name'') (\<lambda>given.
       Option.bind (text_field us ''family_name'') (\<lambda>family. Option.bind (text_field us ''name'') (\<lambda>name.
       Option.bind (text_field us ''preferred_username'') (\<lambda>preferred. Option.bind (text_field us ''email'') (\<lambda>email.
         (case field us ''email_verified'' of Some (JBool verified) \<Rightarrow>
           Some \<lparr> up_sub = sub, up_given_name = given, up_family_name = family, up_name = name, up_preferred_username = preferred,
                  up_email = email, up_email_verified = verified \<rparr> | _ \<Rightarrow> None)))))))
   | _ \<Rightarrow> None)"

definition as_code_record :: "json \<Rightarrow> auth_code_record option" where
  "as_code_record v = Option.bind (json_object (Some v)) (\<lambda>fs.
     Option.bind (text_field fs ''codeHash'') (\<lambda>h. Option.bind (text_field fs ''clientId'') (\<lambda>cid.
     Option.bind (text_field fs ''redirectUri'') (\<lambda>uri. Option.bind (text_field fs ''resource'') (\<lambda>resource.
     Option.bind (texts_field fs ''scopes'') (\<lambda>scopes. Option.bind (opt_text_field fs ''nonce'') (\<lambda>nonce.
     Option.bind (opt_text_field fs ''codeChallenge'') (\<lambda>challenge. Option.bind (profile_field fs ''user'') (\<lambda>user.
     Option.bind (int_field fs ''expiresAt'') (\<lambda>expiresAt. Option.bind (opt_int_field fs ''consumedAt'') (\<lambda>consumedAt.
     Option.bind (int_field fs ''authTime'') (\<lambda>authTime. Option.bind (int_field fs ''createdAt'') (\<lambda>createdAt.
       Some \<lparr> ac_codeHash = h, ac_clientId = cid, ac_redirectUri = uri, ac_resource = resource, ac_scopes = scopes, ac_nonce = nonce,
              ac_codeChallenge = challenge, ac_methodS256 = (field fs ''codeChallengeMethod'' \<noteq> None), ac_user = user,
              ac_expiresAt = expiresAt, ac_consumedAt = consumedAt, ac_authTime = authTime, ac_createdAt = createdAt \<rparr>)))))))))))))"

definition as_refresh_record :: "json \<Rightarrow> refresh_token_record option" where
  "as_refresh_record v = Option.bind (json_object (Some v)) (\<lambda>fs.
     Option.bind (text_field fs ''tokenHash'') (\<lambda>h. Option.bind (text_field fs ''familyId'') (\<lambda>family.
     Option.bind (text_field fs ''clientId'') (\<lambda>cid. Option.bind (profile_field fs ''user'') (\<lambda>user.
     Option.bind (text_field fs ''resource'') (\<lambda>resource. Option.bind (texts_field fs ''scopes'') (\<lambda>scopes.
     Option.bind (int_field fs ''expiresAt'') (\<lambda>expiresAt. Option.bind (int_field fs ''authTime'') (\<lambda>authTime.
     Option.bind (opt_text_field fs ''rotatedFromHash'') (\<lambda>rotatedFrom. Option.bind (opt_int_field fs ''revokedAt'') (\<lambda>revokedAt.
     Option.bind (int_field fs ''createdAt'') (\<lambda>createdAt. Option.bind (opt_int_field fs ''lastUsedAt'') (\<lambda>lastUsedAt.
       Some \<lparr> rt_tokenHash = h, rt_familyId = family, rt_clientId = cid, rt_user = user, rt_resource = resource, rt_scopes = scopes,
              rt_expiresAt = expiresAt, rt_authTime = authTime, rt_rotatedFromHash = rotatedFrom, rt_revokedAt = revokedAt,
              rt_createdAt = createdAt, rt_lastUsedAt = lastUsedAt \<rparr>)))))))))))))"

definition as_state_record :: "json \<Rightarrow> upstream_state_record option" where
  "as_state_record v = Option.bind (json_object (Some v)) (\<lambda>fs.
     Option.bind (text_field fs ''stateHash'') (\<lambda>h. Option.bind (text_field fs ''clientId'') (\<lambda>cid.
     Option.bind (text_field fs ''redirectUri'') (\<lambda>uri. Option.bind (text_field fs ''resource'') (\<lambda>resource.
     Option.bind (texts_field fs ''scopes'') (\<lambda>scopes. Option.bind (text_field fs ''clientState'') (\<lambda>clientState.
     Option.bind (text_field fs ''codeVerifier'') (\<lambda>verifier. Option.bind (text_field fs ''upstreamNonce'') (\<lambda>upstreamNonce.
     Option.bind (opt_text_field fs ''nonce'') (\<lambda>nonce. Option.bind (opt_text_field fs ''codeChallenge'') (\<lambda>challenge.
     Option.bind (int_field fs ''expiresAt'') (\<lambda>expiresAt. Option.bind (int_field fs ''createdAt'') (\<lambda>createdAt.
       Some \<lparr> us_stateHash = h, us_clientId = cid, us_redirectUri = uri, us_resource = resource, us_scopes = scopes,
              us_clientState = clientState, us_codeVerifier = verifier, us_upstreamNonce = upstreamNonce, us_nonce = nonce,
              us_codeChallenge = challenge, us_methodS256 = (field fs ''codeChallengeMethod'' \<noteq> None), us_expiresAt = expiresAt,
              us_createdAt = createdAt \<rparr>)))))))))))))"

definition parseStoredRecord :: "(json \<Rightarrow> 'a option) \<Rightarrow> dynamo_item option \<Rightarrow> string \<Rightarrow> 'a option outcome" where
  "parseStoredRecord cast it expectedType = (case it of
     None \<Rightarrow> Inr None
   | Some fs \<Rightarrow> bindr (itemString fs ''recordType'') (\<lambda>recordType.
       if recordType \<noteq> expectedType then Inl (PlainError (''DynamoDB item has unexpected type '' @ recordType))
       else bindr (itemString fs ''record'') (\<lambda>s. case json_parse s of
         None \<Rightarrow> Inl (PlainError ''record is not json'')
       | Some v \<Rightarrow> (case cast v of None \<Rightarrow> Inl (PlainError ''record of another shape'') | Some r \<Rightarrow> Inr (Some r)))))"

section \<open>What is written is read back\<close>

definition safe_time :: "int \<Rightarrow> bool" where "safe_time n = (\<bar>n\<bar> \<le> max_safe_integer)"

lemma record_fields [simp]:
  "text_field fs key = Some s" if "field fs key = Some (JStr s)" for s
  using that by (simp add: text_field_def)

lemma int_record_field [simp]: "field fs key = Some (JInt n) \<Longrightarrow> safe_time n \<Longrightarrow> int_field fs key = Some n"
  by (simp add: int_field_def safe_time_def)

lemma opt_record_fields:
  "field fs key = map_option JStr x \<Longrightarrow> opt_text_field fs key = Some x"
  "field fs key = map_option JInt y \<Longrightarrow> pred_option safe_time y \<Longrightarrow> opt_int_field fs key = Some y"
  by (cases x; cases y; simp add: opt_text_field_def opt_int_field_def)+

lemma those_texts: "those (map (\<lambda>v. json_string (Some v)) (map JStr ss)) = Some ss"
  by (induction ss) simp_all

lemma texts_record_field [simp]: "field fs key = Some (JArr (map JStr ss)) \<Longrightarrow> texts_field fs key = Some ss"
  using those_texts [of ss] by (simp add: texts_field_def comp_def)

lemma profile_record_field [simp]: "field fs key = Some (profile_json u) \<Longrightarrow> profile_field fs key = Some u"
  by (simp add: profile_field_def profile_json_def text_field_def)

locale record_codec =
  fixes to_json :: "'a \<Rightarrow> json" and cast :: "json \<Rightarrow> 'a option" and ok :: "'a \<Rightarrow> bool"
  assumes written: "ok r \<Longrightarrow> printable (to_json r) \<and> cast (to_json r) = Some r"
begin

lemma stored_read:
  assumes "ok r" "map_of it ''recordType'' = Some (S_attr type)" "map_of it ''record'' = Some (S_attr (json_text (to_json r)))"
  shows "parseStoredRecord cast (Some it) type = Inr (Some r)"
  using assms written [OF assms(1)] by (simp add: parseStoredRecord_def itemString_def)

end

definition code_times_ok :: "auth_code_record \<Rightarrow> bool" where
  "code_times_ok r = (safe_time (ac_expiresAt r) \<and> safe_time (ac_authTime r) \<and> safe_time (ac_createdAt r) \<and> pred_option safe_time (ac_consumedAt r))"

definition refresh_times_ok :: "refresh_token_record \<Rightarrow> bool" where
  "refresh_times_ok r = (safe_time (rt_expiresAt r) \<and> safe_time (rt_authTime r) \<and> safe_time (rt_createdAt r) \<and>
     pred_option safe_time (rt_revokedAt r) \<and> pred_option safe_time (rt_lastUsedAt r))"

definition state_times_ok :: "upstream_state_record \<Rightarrow> bool" where
  "state_times_ok r = (safe_time (us_expiresAt r) \<and> safe_time (us_createdAt r))"

lemma text_printable: "\<forall>v \<in> set (map JStr ss). printable v" by simp

lemma time_printable: "safe_time n \<Longrightarrow> printable (JInt n)" by (simp add: safe_time_def)

interpretation stored_codes: record_codec code_record_json as_code_record code_times_ok
proof (rule record_codec.intro, rule conjI)
  fix r assume ok: "code_times_ok r"
  show "printable (code_record_json r)"
    using ok by (cases "ac_nonce r"; cases "ac_codeChallenge r"; cases "ac_methodS256 r"; cases "ac_consumedAt r")
      (simp_all add: code_record_json_def code_times_ok_def safe_time_def member_text_def member_int_def member_s256_def)
  show "as_code_record (code_record_json r) = Some r"
    using ok by (cases "ac_nonce r"; cases "ac_codeChallenge r"; cases "ac_methodS256 r"; cases "ac_consumedAt r")
      (simp_all add: code_record_json_def as_code_record_def code_times_ok_def member_text_def member_int_def member_s256_def opt_text_field_def opt_int_field_def)
qed

interpretation stored_refresh: record_codec refresh_record_json as_refresh_record refresh_times_ok
proof (rule record_codec.intro, rule conjI)
  fix r assume ok: "refresh_times_ok r"
  show "printable (refresh_record_json r)"
    using ok by (cases "rt_rotatedFromHash r"; cases "rt_revokedAt r"; cases "rt_lastUsedAt r")
      (simp_all add: refresh_record_json_def refresh_times_ok_def safe_time_def member_text_def member_int_def)
  show "as_refresh_record (refresh_record_json r) = Some r"
    using ok by (cases "rt_rotatedFromHash r"; cases "rt_revokedAt r"; cases "rt_lastUsedAt r")
      (simp_all add: refresh_record_json_def as_refresh_record_def refresh_times_ok_def member_text_def member_int_def opt_text_field_def opt_int_field_def)
qed

interpretation stored_states: record_codec state_record_json as_state_record state_times_ok
proof (rule record_codec.intro, rule conjI)
  fix r assume ok: "state_times_ok r"
  show "printable (state_record_json r)"
    using ok by (cases "us_nonce r"; cases "us_codeChallenge r"; cases "us_methodS256 r")
      (simp_all add: state_record_json_def state_times_ok_def safe_time_def member_text_def member_s256_def)
  show "as_state_record (state_record_json r) = Some r"
    using ok by (cases "us_nonce r"; cases "us_codeChallenge r"; cases "us_methodS256 r")
      (simp_all add: state_record_json_def as_state_record_def state_times_ok_def member_text_def member_s256_def opt_text_field_def)
qed

end
