(* ===== verification/Dynamo_Store.thy ===== *)
theory Dynamo_Store
  imports Dynamo_Items
begin

text \<open>
  The operations of the store on a DynamoDB table (\<open>auth/storage/dynamodb/oauth-store.ts\<close> and the files
  it calls, \<open>rate-limit-store.ts\<close>, \<open>metadata-cache-store.ts\<close>), one program each.  Random tokens are
  arguments of the operation that draws them, \<open>sha\<close> is SHA-256 in base64url.  \<open>dynamo_program\<close> gives
  the program of each operation of the file store, with the same result type.
\<close>

section \<open>Authorization codes\<close>

definition new_code_record :: "(string \<Rightarrow> string) \<Rightarrow> string \<Rightarrow> auth_code_input \<Rightarrow> int \<Rightarrow> auth_code_record" where
  "new_code_record sha token input createdAt =
     \<lparr> ac_codeHash = sha token, ac_clientId = ci_clientId input, ac_redirectUri = ci_redirectUri input,
       ac_resource = ci_resource input, ac_scopes = ci_scopes input, ac_nonce = nonempty_text (ci_nonce input),
       ac_codeChallenge = nonempty_text (ci_codeChallenge input), ac_methodS256 = ci_methodS256 input,
       ac_user = ci_user input, ac_expiresAt = createdAt + ci_ttlSeconds input, ac_consumedAt = None,
       ac_authTime = createdAt, ac_createdAt = createdAt \<rparr>"

definition code_item :: "auth_code_record \<Rightarrow> dynamo_item" where
  "code_item r = storedRecordItem (authorizationCodeKey (ac_codeHash r)) ''authorization_code'' (code_record_json r)
     (ac_expiresAt r) [(''clientId'', stringAttr (ac_clientId r))]"

definition dynamoCreateAuthorizationCode :: "(string \<Rightarrow> string) \<Rightarrow> string \<Rightarrow> auth_code_input \<Rightarrow> string program" where
  "dynamoCreateAuthorizationCode sha token input = Clock (\<lambda>createdAt.
     bindp (putItem (code_item (new_code_record sha token input createdAt)) (Some (Not_exists ''pk''))) (\<lambda>_. Return token))"

definition validateAuthorizationCode ::
  "(string \<Rightarrow> string) \<Rightarrow> auth_code_record option \<Rightarrow> string option \<Rightarrow> auth_code_expectation \<Rightarrow> int \<Rightarrow> auth_code_record outcome" where
  "validateAuthorizationCode sha found verifier expected now = (case found of
     None \<Rightarrow> Inl invalid_grant_error
   | Some r \<Rightarrow>
       if truthy_time (ac_consumedAt r) \<or> ac_expiresAt r \<le> now then Inl invalid_grant_error
       else if ac_clientId r \<noteq> ce_clientId expected \<or> ac_redirectUri r \<noteq> ce_redirectUri expected then Inl invalid_grant_error
       else if ce_resource expected \<noteq> None \<and> ac_resource r \<noteq> the (ce_resource expected) then Inl invalid_grant_error
       else if ce_allowedResources expected \<noteq> None \<and> \<not> List.member (the (ce_allowedResources expected)) (ac_resource r)
         then Inl invalid_grant_error
       else if ce_allowedScopes expected \<noteq> None \<and>
           list_ex (\<lambda>scope. \<not> List.member (the (ce_allowedScopes expected)) scope) (ac_scopes r)
         then Inl invalid_grant_error
       else bindr (codeChallengeMet sha (ac_codeChallenge r) verifier) (\<lambda>_. Inr r))"

definition dynamoConsumeAuthorizationCode ::
  "(string \<Rightarrow> string) \<Rightarrow> string \<Rightarrow> string option \<Rightarrow> auth_code_expectation \<Rightarrow> auth_code_record program" where
  "dynamoConsumeAuthorizationCode sha token verifier expected =
     (let key = authorizationCodeKey (sha token) in
      bindp (getItem key) (\<lambda>it. bindp (from_outcome (parseStoredRecord as_code_record it ''authorization_code'')) (\<lambda>found.
      Clock (\<lambda>now. bindp (from_outcome (validateAuthorizationCode sha found verifier expected now)) (\<lambda>r.
        let consumed = r \<lparr> ac_consumedAt := Some now \<rparr> in
        bindp (catch_condition
          (updateItem key [(''record'', stringAttr (json_text (code_record_json consumed))), (''consumedAt'', numberAttr now)]
             (Both (Not_exists ''consumedAt'') (Greater ''expiresAt'' (numberAttr now))))
          (Throw invalid_grant_error)) (\<lambda>_. Return consumed))))))"

section \<open>Upstream authorization states\<close>

definition new_state_record :: "(string \<Rightarrow> string) \<Rightarrow> string \<Rightarrow> upstream_state_input \<Rightarrow> int \<Rightarrow> upstream_state_record" where
  "new_state_record sha token input createdAt =
     \<lparr> us_stateHash = sha token, us_clientId = ui_clientId input, us_redirectUri = ui_redirectUri input,
       us_resource = ui_resource input, us_scopes = ui_scopes input, us_clientState = ui_clientState input,
       us_codeVerifier = ui_codeVerifier input, us_upstreamNonce = ui_upstreamNonce input,
       us_nonce = nonempty_text (ui_nonce input), us_codeChallenge = nonempty_text (ui_codeChallenge input),
       us_methodS256 = ui_methodS256 input, us_expiresAt = createdAt + ui_ttlSeconds input, us_createdAt = createdAt \<rparr>"

definition state_item :: "upstream_state_record \<Rightarrow> dynamo_item" where
  "state_item r = storedRecordItem (upstreamStateKey (us_stateHash r)) ''upstream_state'' (state_record_json r)
     (us_expiresAt r) [(''clientId'', stringAttr (us_clientId r))]"

definition dynamoCreateUpstreamState :: "(string \<Rightarrow> string) \<Rightarrow> string \<Rightarrow> upstream_state_input \<Rightarrow> string program" where
  "dynamoCreateUpstreamState sha token input = Clock (\<lambda>createdAt.
     bindp (putItem (state_item (new_state_record sha token input createdAt)) (Some (Not_exists ''pk''))) (\<lambda>_. Return token))"

definition dynamoConsumeUpstreamState :: "(string \<Rightarrow> string) \<Rightarrow> string \<Rightarrow> upstream_state_record program" where
  "dynamoConsumeUpstreamState sha token = Clock (\<lambda>now. catch_condition
     (bindp (deleteItem (upstreamStateKey (sha token)) (Some (Greater ''expiresAt'' (numberAttr now)))) (\<lambda>it.
      bindp (from_outcome (parseStoredRecord as_state_record it ''upstream_state'')) (\<lambda>found.
        case found of None \<Rightarrow> Throw invalid_grant_error | Some r \<Rightarrow> Return r)))
     (Throw invalid_grant_error))"

section \<open>Refresh tokens\<close>

definition refreshRecord :: "(string \<Rightarrow> string) \<Rightarrow> string \<Rightarrow> string \<Rightarrow> refresh_token_input \<Rightarrow> int \<Rightarrow> int \<Rightarrow> refresh_token_record" where
  "refreshRecord sha token family input createdAt expiresAt =
     \<lparr> rt_tokenHash = sha token, rt_familyId = family, rt_clientId = ri_clientId input, rt_user = ri_user input,
       rt_resource = ri_resource input, rt_scopes = ri_scopes input, rt_expiresAt = expiresAt, rt_authTime = ri_authTime input,
       rt_rotatedFromHash = None, rt_revokedAt = None, rt_createdAt = createdAt, rt_lastUsedAt = None \<rparr>"

definition refreshTokenItem :: "refresh_token_record \<Rightarrow> dynamo_item" where
  "refreshTokenItem r = storedRecordItem (refreshTokenKey (rt_tokenHash r)) ''refresh_token'' (refresh_record_json r) (rt_expiresAt r)
     [(''familyId'', stringAttr (rt_familyId r)), (''clientId'', stringAttr (rt_clientId r)), (''resource'', stringAttr (rt_resource r))]"

definition refreshFamilyItem :: "refresh_token_record \<Rightarrow> dynamo_item" where
  "refreshFamilyItem r = metaItem (refreshFamilyKey (rt_familyId r)) ''refresh_family'' (rt_expiresAt r)
     [(''familyId'', stringAttr (rt_familyId r)), (''clientId'', stringAttr (rt_clientId r))]"

definition dynamoCreateRefreshToken :: "(string \<Rightarrow> string) \<Rightarrow> string \<Rightarrow> string \<Rightarrow> refresh_token_input \<Rightarrow> string program" where
  "dynamoCreateRefreshToken sha token family input = Clock (\<lambda>createdAt.
     let r = refreshRecord sha token family input createdAt (createdAt + ri_ttlSeconds input) in
     bindp (transactWriteItems [Put (refreshTokenItem r) (Some (Not_exists ''pk'')), Put (refreshFamilyItem r) (Some (Not_exists ''pk''))])
       (\<lambda>_. Return token))"

definition validateRefreshToken ::
  "refresh_token_record option \<Rightarrow> string \<Rightarrow> string option \<Rightarrow> string list option \<Rightarrow> int \<Rightarrow> refresh_token_record outcome" where
  "validateRefreshToken found cid expectedResource allowedResources now = (case found of
     None \<Rightarrow> Inl invalid_grant_error
   | Some r \<Rightarrow>
       if truthy_time (rt_revokedAt r) \<or> rt_expiresAt r \<le> now then Inl invalid_grant_error
       else if rt_clientId r \<noteq> cid then Inl invalid_grant_error
       else if expectedResource \<noteq> None \<and> rt_resource r \<noteq> the expectedResource then Inl invalid_grant_error
       else if allowedResources \<noteq> None \<and> \<not> List.member (the allowedResources) (rt_resource r) then Inl invalid_grant_error
       else Inr r)"

definition updateOldToken :: "dynamo_item \<Rightarrow> refresh_token_record \<Rightarrow> int \<Rightarrow> dynamo_write" where
  "updateOldToken key r now = Update key [(''record'', stringAttr (json_text (refresh_record_json r))), (''lastUsedAt'', numberAttr now)]
     (Both (Not_exists ''revokedAt'') (Greater ''expiresAt'' (numberAttr now)))"

definition updateFamilyTtl :: "string \<Rightarrow> int \<Rightarrow> int \<Rightarrow> dynamo_write" where
  "updateFamilyTtl family expiresAt now = Update (refreshFamilyKey family) [(''expiresAt'', numberAttr expiresAt), (''ttl'', numberAttr expiresAt)]
     (Both (Not_exists ''revokedAt'') (Greater ''expiresAt'' (numberAttr now)))"

definition revokeRefreshFamily :: "string \<Rightarrow> int \<Rightarrow> unit program" where
  "revokeRefreshFamily family now = catch_condition
     (updateItem (refreshFamilyKey family) [(''revokedAt'', numberAttr now)] (Both (Exists ''pk'') (Not_exists ''revokedAt'')))
     (Return ())"

definition rotateValidRefreshToken ::
  "(string \<Rightarrow> string) \<Rightarrow> refresh_token_record \<Rightarrow> string \<Rightarrow> int \<Rightarrow> int \<Rightarrow> string \<Rightarrow> (refresh_token_record \<times> string) program" where
  "rotateValidRefreshToken sha old oldHash ttlSeconds now newToken =
     (let new = old \<lparr> rt_tokenHash := sha newToken, rt_expiresAt := now + ttlSeconds, rt_rotatedFromHash := Some oldHash,
                      rt_createdAt := now, rt_lastUsedAt := None, rt_revokedAt := None \<rparr>;
          used = old \<lparr> rt_lastUsedAt := Some now \<rparr> in
      bindp (catch_condition
        (transactWriteItems
          [Put (refreshTokenItem new) (Some (Not_exists ''pk'')),
           Put (markerItem (refreshRotationKey oldHash) (rt_familyId old) now (rt_expiresAt new)) (Some (Not_exists ''pk'')),
           updateOldToken (refreshTokenKey oldHash) used now,
           updateFamilyTtl (rt_familyId old) (rt_expiresAt new) now])
        (bindp (revokeRefreshFamily (rt_familyId old) now) (\<lambda>_. Throw invalid_grant_error)))
        (\<lambda>_. Return (used, newToken)))"

definition familyUsable :: "dynamo_item option \<Rightarrow> int \<Rightarrow> unit outcome" where
  "familyUsable family now = (case family of
     None \<Rightarrow> Inl invalid_grant_error
   | Some it \<Rightarrow> bindr (itemOptionalNumber it ''revokedAt'') (\<lambda>revokedAt.
       if revokedAt \<noteq> None then Inl invalid_grant_error
       else bindr (itemNumber it ''expiresAt'') (\<lambda>expiresAt. if expiresAt \<le> now then Inl invalid_grant_error else Inr ())))"

definition dynamoRotateRefreshToken ::
  "(string \<Rightarrow> string) \<Rightarrow> string \<Rightarrow> string \<Rightarrow> int \<Rightarrow> string option \<Rightarrow> string list option \<Rightarrow> string \<Rightarrow> (refresh_token_record \<times> string) program" where
  "dynamoRotateRefreshToken sha token cid ttlSeconds expectedResource allowedResources newToken =
     (let oldHash = sha token in
      bindp (getItem (refreshTokenKey oldHash)) (\<lambda>it.
      bindp (from_outcome (parseStoredRecord as_refresh_record it ''refresh_token'')) (\<lambda>found.
      Clock (\<lambda>now.
      bindp (from_outcome (validateRefreshToken found cid expectedResource allowedResources now)) (\<lambda>old.
      bindp (getItem (refreshFamilyKey (rt_familyId old))) (\<lambda>family.
      bindp (from_outcome (familyUsable family now)) (\<lambda>_.
      bindp (getItem (refreshRotationKey oldHash)) (\<lambda>marker.
        if marker \<noteq> None then bindp (revokeRefreshFamily (rt_familyId old) now) (\<lambda>_. Throw invalid_grant_error)
        else rotateValidRefreshToken sha old oldHash ttlSeconds now newToken))))))))"

section \<open>MCP sessions\<close>

definition session_item :: "mcp_session_record \<Rightarrow> dynamo_item" where
  "session_item r = metaItem (mcpSessionKey (ms_sessionIdHash r)) ''mcp_session'' (ms_expiresAt r)
     [(''sessionIdHash'', stringAttr (ms_sessionIdHash r)), (''clientId'', stringAttr (ms_clientId r)),
      (''protocolVersion'', stringAttr (ms_protocolVersion r)), (''createdAt'', numberAttr (ms_createdAt r)),
      (''lastSeenAt'', numberAttr (ms_lastSeenAt r)), (''requestIdCount'', numberAttr 0)]"

definition dynamoSaveMcpSession :: "mcp_session_record \<Rightarrow> unit program" where
  "dynamoSaveMcpSession r = putItem (session_item r) (Some (Not_exists ''pk''))"

definition validateMcpSession :: "dynamo_item option \<Rightarrow> string option \<Rightarrow> int \<Rightarrow> dynamo_item outcome" where
  "validateMcpSession found protocolVersion now = (case found of
     None \<Rightarrow> Inl session_not_found
   | Some it \<Rightarrow> bindr (itemOptionalNumber it ''terminatedAt'') (\<lambda>terminatedAt.
       if terminatedAt \<noteq> None then Inl session_not_found
       else bindr (itemNumber it ''expiresAt'') (\<lambda>expiresAt.
       if expiresAt \<le> now then Inl session_not_found
       else (case protocolVersion of
           None \<Rightarrow> Inr it
         | Some version \<Rightarrow> bindr (itemString it ''protocolVersion'') (\<lambda>stored.
             if stored \<noteq> version then Inl (ServiceError Bad_request ''unsupported protocol version'' 400) else Inr it)))))"

definition session_live_condition :: "int \<Rightarrow> condition" where
  "session_live_condition now = Both (Not_exists ''terminatedAt'') (Greater ''expiresAt'' (numberAttr now))"

definition dynamoTouchMcpSession :: "string \<Rightarrow> string option \<Rightarrow> bool \<Rightarrow> bool program" where
  "dynamoTouchMcpSession sid protocolVersion markInitialized = Clock (\<lambda>now.
     let key = mcpSessionKey sid in
     bindp (getItem key) (\<lambda>found. bindp (from_outcome (validateMcpSession found protocolVersion now)) (\<lambda>it.
     bindp (from_outcome (itemOptionalNumber it ''initializedAt'')) (\<lambda>initializedAt.
       let shouldInitialize = (markInitialized \<and> initializedAt = None) in
       bindp (catch_condition
         (updateItem key
            (if shouldInitialize then [(''lastSeenAt'', numberAttr now), (''initializedAt'', numberAttr now)] else [(''lastSeenAt'', numberAttr now)])
            (session_live_condition now))
         (Throw session_not_found)) (\<lambda>_. Return (initializedAt \<noteq> None \<or> shouldInitialize))))))"

definition tryReserveMcpRequestId :: "string \<Rightarrow> string \<Rightarrow> bool option program" where
  "tryReserveMcpRequestId sid rid = Clock (\<lambda>now.
     let key = mcpSessionKey sid in
     bindp (getItem key) (\<lambda>found. bindp (from_outcome (validateMcpSession found None now)) (\<lambda>it.
     bindp (from_outcome (readStringSet it ''requestIds'')) (\<lambda>existingIds.
       if List.member existingIds rid then Return (Some False)
       else if maxMcpRequestIds \<le> length existingIds then Throw (ServiceError Rate_limited ''too many mcp request ids'' 429)
       else catch_condition
         (bindp (updateItem key
            [(''lastSeenAt'', numberAttr now), (''requestIds'', stringSetAttr (existingIds @ [rid])),
             (''requestIdCount'', numberAttr (int (length existingIds) + 1))]
            (Both (session_live_condition now) (Equals ''requestIdCount'' (numberAttr (int (length existingIds))))))
           (\<lambda>_. Return (Some True)))
         (Return None)))))"

text \<open>The loop of at most five attempts; its argument is what is left of them.\<close>

fun reserve_attempts :: "nat \<Rightarrow> string \<Rightarrow> string \<Rightarrow> bool program" where
  "reserve_attempts 0 sid rid = Throw (ServiceError Server_error ''mcp session update conflict'' 500)"
| "reserve_attempts (Suc n) sid rid = bindp (tryReserveMcpRequestId sid rid) (\<lambda>reserved.
     case reserved of Some b \<Rightarrow> Return b | None \<Rightarrow> reserve_attempts n sid rid)"

definition dynamoReserveMcpRequestId :: "string \<Rightarrow> string \<Rightarrow> bool program" where
  "dynamoReserveMcpRequestId sid rid = reserve_attempts 5 sid rid"

definition dynamoTerminateMcpSession :: "string \<Rightarrow> unit program" where
  "dynamoTerminateMcpSession sid = Clock (\<lambda>now. catch_condition
     (updateItem (mcpSessionKey sid) [(''terminatedAt'', numberAttr now), (''lastSeenAt'', numberAttr now)] (session_live_condition now))
     (Throw session_not_found))"

section \<open>Rate limits\<close>

definition readRateLimitRecord :: "dynamo_item option \<Rightarrow> int \<Rightarrow> rate_limit_record option outcome" where
  "readRateLimitRecord found now = (case found of
     None \<Rightarrow> Inr None
   | Some it \<Rightarrow> bindr (itemNumber it ''expiresAt'') (\<lambda>expiresAt.
       if expiresAt \<le> now then Inr None
       else bindr (itemString it ''recordType'') (\<lambda>type.
       if type \<noteq> ''rate_limit_v2'' then Inl (PlainError ''DynamoDB rate-limit item has unexpected type'')
       else bindr (itemNumber it ''windowStart'') (\<lambda>windowStart.
       bindr (itemNumber it ''previousCount'') (\<lambda>previousCount.
       bindr (itemNumber it ''currentCount'') (\<lambda>currentCount.
         Inr (Some \<lparr> rl_windowStart = windowStart, rl_previousCount = previousCount, rl_currentCount = currentCount,
                     rl_expiresAt = expiresAt \<rparr>)))))))"

definition rateLimitItem :: "dynamo_item \<Rightarrow> rate_limit_record \<Rightarrow> dynamo_item" where
  "rateLimitItem key r = metaItem key ''rate_limit_v2'' (rl_expiresAt r)
     [(''windowStart'', numberAttr (rl_windowStart r)), (''previousCount'', numberAttr (rl_previousCount r)),
      (''currentCount'', numberAttr (rl_currentCount r))]"

definition putCondition :: "rate_limit_record option \<Rightarrow> int \<Rightarrow> condition" where
  "putCondition existing now = (case existing of
     None \<Rightarrow> Either (Not_exists ''pk'') (At_most ''expiresAt'' (numberAttr now))
   | Some r \<Rightarrow> Both (Equals ''windowStart'' (numberAttr (rl_windowStart r)))
       (Both (Equals ''previousCount'' (numberAttr (rl_previousCount r))) (Equals ''currentCount'' (numberAttr (rl_currentCount r)))))"

definition tryHit :: "(string \<Rightarrow> string) \<Rightarrow> string \<Rightarrow> rate_limit_policy \<Rightarrow> bool program" where
  "tryHit sha key policy = Clock (\<lambda>now.
     let itemKey = rateBucketKey (sha key) in
     bindp (getItem itemKey) (\<lambda>existing.
     bindp (from_outcome (readRateLimitRecord existing now)) (\<lambda>existingRecord.
     bindp (from_outcome (nextRateLimitRecord existingRecord policy now)) (\<lambda>nextRecord.
       catch_condition
         (bindp (putItem (rateLimitItem itemKey nextRecord) (Some (putCondition existingRecord now))) (\<lambda>_. Return True))
         (Return False)))))"

fun hit_attempts :: "nat \<Rightarrow> (string \<Rightarrow> string) \<Rightarrow> string \<Rightarrow> rate_limit_policy \<Rightarrow> unit program" where
  "hit_attempts 0 sha key policy = Throw (ServiceError Server_error ''rate limit update conflict'' 500)"
| "hit_attempts (Suc n) sha key policy = bindp (tryHit sha key policy) (\<lambda>done.
     if done then Return () else hit_attempts n sha key policy)"

definition dynamoHit :: "(string \<Rightarrow> string) \<Rightarrow> string \<Rightarrow> rate_limit_policy \<Rightarrow> unit program" where
  "dynamoHit sha key policy = hit_attempts 5 sha key policy"

section \<open>The metadata cache\<close>

definition metadataRecordType :: "string \<Rightarrow> string" where
  "metadataRecordType namespace = ''metadata_cache:'' @ namespace"

text \<open>A cached body is absent when the stored record has no \<open>body\<close>.\<close>

definition as_body :: "json \<Rightarrow> json option option" where
  "as_body v = (case v of JObj fs \<Rightarrow> Some (field fs ''body'') | _ \<Rightarrow> None)"

definition dynamoReadMetadata :: "(string \<Rightarrow> string) \<Rightarrow> string \<Rightarrow> string \<Rightarrow> (json option \<times> int) option program" where
  "dynamoReadMetadata sha namespace key =
     bindp (getItem (metadataEntryKey namespace (sha key))) (\<lambda>found. case found of
       None \<Rightarrow> Return None
     | Some it \<Rightarrow> bindp (from_outcome (itemNumber it ''expiresAt'')) (\<lambda>expiresAt. Clock (\<lambda>now.
         if expiresAt \<le> now then Return None
         else bindp (from_outcome (parseStoredRecord as_body (Some it) (metadataRecordType namespace))) (\<lambda>record.
           Return (map_option (\<lambda>body. (body, expiresAt)) record)))))"

definition dynamoWriteMetadata :: "(string \<Rightarrow> string) \<Rightarrow> string \<Rightarrow> string \<Rightarrow> json \<Rightarrow> int \<Rightarrow> unit program" where
  "dynamoWriteMetadata sha namespace key body secs =
     (let itemKey = metadataEntryKey namespace (sha key) in
      if secs \<le> 0 then bindp (deleteItem itemKey None) (\<lambda>_. Return ())
      else Clock (\<lambda>now. putItem (storedRecordItem itemKey (metadataRecordType namespace) (JObj [(''body'', body)]) (now + secs) []) None))"

section \<open>The store\<close>

fun dynamo_program :: "(string \<Rightarrow> string) \<Rightarrow> disk_event \<Rightarrow> disk_result program" where
  "dynamo_program sha (CreateCode t i) = bindp (dynamoCreateAuthorizationCode sha t i) (\<lambda>_. Return Done)"
| "dynamo_program sha (ConsumeCode t v x) = bindp (dynamoConsumeAuthorizationCode sha t v x) (\<lambda>r. Return (Code r))"
| "dynamo_program sha (CreateRefresh t f i) = bindp (dynamoCreateRefreshToken sha t f i) (\<lambda>_. Return Done)"
| "dynamo_program sha (Rotate t c ttl er ar n) =
     bindp (dynamoRotateRefreshToken sha t c ttl er ar n) (\<lambda>(used, m). Return (Rotation (Rotated used m)))"
| "dynamo_program sha (CreateState t i) = bindp (dynamoCreateUpstreamState sha t i) (\<lambda>_. Return Done)"
| "dynamo_program sha (ConsumeState t) = bindp (dynamoConsumeUpstreamState sha t) (\<lambda>r. Return (State r))"
| "dynamo_program sha (SaveSession r) = bindp (dynamoSaveMcpSession r) (\<lambda>_. Return Done)"
| "dynamo_program sha (Touch sid v m) = bindp (dynamoTouchMcpSession sid v m) (\<lambda>b. Return (Flag b))"
| "dynamo_program sha (Reserve sid rid) = bindp (dynamoReserveMcpRequestId sid rid) (\<lambda>b. Return (Flag b))"
| "dynamo_program sha (Terminate sid) = bindp (dynamoTerminateMcpSession sid) (\<lambda>_. Return Done)"
| "dynamo_program sha (Hit key p) = bindp (dynamoHit sha key p) (\<lambda>_. Return Done)"

end
