(* ===== verification/Dynamo_Runs.thy ===== *)
theory Dynamo_Runs
  imports Dynamo_Store
begin

text \<open>
  Runs of many operations on one DynamoDB table.  The operations of all servers interleave request by
  request, clocks are arbitrary, a request may fail before or after it took effect, and items disappear
  (the table's time to live).  The table is outside; the locale \<open>dynamo_table\<close> states its documented
  behaviour (consistent reads, conditional writes, transactions), and is interpreted on a table in
  memory.  Single use is an argument about credit: an operation that spends a credit needs the table
  to give it up, and only the operation that creates the record puts one there.
\<close>

section \<open>What the table does\<close>

type_synonym contents = "dynamo_item \<Rightarrow> dynamo_item option"

definition attribute :: "dynamo_item option \<Rightarrow> string \<Rightarrow> attribute_value option" where
  "attribute it name = Option.bind it (\<lambda>fs. map_of fs name)"

definition compare_attribute :: "(int \<Rightarrow> int \<Rightarrow> bool) \<Rightarrow> attribute_value option \<Rightarrow> attribute_value \<Rightarrow> bool" where
  "compare_attribute le a v = (case (a, v) of (Some (N_attr x), N_attr y) \<Rightarrow> le x y | _ \<Rightarrow> False)"

primrec satisfies :: "condition \<Rightarrow> dynamo_item option \<Rightarrow> bool" where
  "satisfies (Exists name) it = (attribute it name \<noteq> None)"
| "satisfies (Not_exists name) it = (attribute it name = None)"
| "satisfies (Equals name v) it = (attribute it name = Some v)"
| "satisfies (Greater name v) it = compare_attribute (>) (attribute it name) v"
| "satisfies (At_most name v) it = compare_attribute (\<le>) (attribute it name) v"
| "satisfies (Both c c') it = (satisfies c it \<and> satisfies c' it)"
| "satisfies (Either c c') it = (satisfies c it \<or> satisfies c' it)"

definition permitted :: "condition option \<Rightarrow> dynamo_item option \<Rightarrow> bool" where
  "permitted c it = (case c of None \<Rightarrow> True | Some c' \<Rightarrow> satisfies c' it)"

fun write_key :: "dynamo_write \<Rightarrow> dynamo_item" where
  "write_key (Put it c) = item_key it"
| "write_key (Update key sets c) = key"

fun write_permitted :: "contents \<Rightarrow> dynamo_write \<Rightarrow> bool" where
  "write_permitted T (Put it c) = permitted c (T (item_key it))"
| "write_permitted T (Update key sets c) = satisfies c (T key)"

text \<open>An update of an item that is not there creates it with the attributes of its key.\<close>

fun write_effect :: "dynamo_write \<Rightarrow> contents \<Rightarrow> contents" where
  "write_effect (Put it c) T = T(item_key it := Some it)"
| "write_effect (Update key sets c) T =
     T(key := Some (fold (\<lambda>(name, v). AList.update name v) sets (case T key of None \<Rightarrow> key | Some it \<Rightarrow> it)))"

definition same_value :: "attribute_value \<Rightarrow> attribute_value \<Rightarrow> bool" where
  "same_value v w = (case (v, w) of (SS_attr xs, SS_attr ys) \<Rightarrow> set xs = set ys \<and> length xs = length ys | _ \<Rightarrow> v = w)"

text \<open>A read gives the item, the elements of a string set in any order.\<close>

definition same_item :: "dynamo_item \<Rightarrow> dynamo_item \<Rightarrow> bool" where
  "same_item a b = list_all2 (\<lambda>(n, v) (m, w). n = m \<and> same_value v w) a b"

definition answer_of :: "dynamo_response \<Rightarrow> bool \<Rightarrow> (dynamo_response \<Rightarrow> bool) \<Rightarrow> contents \<Rightarrow> contents \<Rightarrow> contents \<Rightarrow> bool" where
  "answer_of r permit success T after T' = (case r of
     Condition_failed \<Rightarrow> \<not> permit \<and> T' = T
   | Request_failed m \<Rightarrow> T' = T \<or> permit \<and> T' = after
   | _ \<Rightarrow> success r \<and> permit \<and> T' = after)"

fun answers :: "dynamo_request \<Rightarrow> dynamo_response \<Rightarrow> contents \<Rightarrow> contents \<Rightarrow> bool" where
  "answers (Get_item key) r T T' = (T' = T \<and> (case r of
     Found it \<Rightarrow> rel_option same_item it (T key) | Request_failed m \<Rightarrow> True | _ \<Rightarrow> False))"
| "answers (Write_items ws) r T T' =
     answer_of r (list_all (write_permitted T) ws) (\<lambda>r. r = Accepted) T (fold write_effect ws T) T'"
| "answers (Delete_item key c) r T T' =
     answer_of r (permitted c (T key)) (\<lambda>r. case r of Found it \<Rightarrow> rel_option same_item it (T key) | _ \<Rightarrow> False) T (T(key := None)) T'"

locale dynamo_table =
  fixes exec :: "'db \<Rightarrow> dynamo_request \<Rightarrow> dynamo_response \<Rightarrow> 'db \<Rightarrow> bool"
    and item :: "'db \<Rightarrow> contents"
  assumes documented: "exec d q r d' \<Longrightarrow> answers q r (item d) (item d')"

section \<open>The requests of a program\<close>

primrec all_calls :: "(dynamo_request \<Rightarrow> bool) \<Rightarrow> 'a program \<Rightarrow> bool" where
  "all_calls P (Return x) = True"
| "all_calls P (Throw e) = True"
| "all_calls P (Clock k) = (\<forall>n. all_calls P (k n))"
| "all_calls P (Call q k) = (P q \<and> (\<forall>r. all_calls P (k r)))"

named_theorems calls

lemma bind_calls [calls]: "all_calls P p \<Longrightarrow> (\<And>x. all_calls P (f x)) \<Longrightarrow> all_calls P (bindp p f)"
  by (induction p) simp_all

lemma catch_calls [calls]: "all_calls P p \<Longrightarrow> all_calls P h \<Longrightarrow> all_calls P (catch_condition p h)"
  by (induction p) simp_all

lemma outcome_calls [calls]: "all_calls P (from_outcome r)"
  by (cases r) (simp_all add: from_outcome_def)

lemma answered_calls [calls]: "all_calls P (answered a)"
  by (cases a) (simp_all add: answered_def)

lemma request_calls [calls]:
  "P (Get_item key) \<Longrightarrow> all_calls P (getItem key)"
  "P (Write_items [Put it (c :: condition option)]) \<Longrightarrow> all_calls P (putItem it c)"
  "P (Write_items [Update key sets c']) \<Longrightarrow> all_calls P (updateItem key sets c')"
  "P (Delete_item key c) \<Longrightarrow> all_calls P (deleteItem key c)"
  "P (Write_items ws) \<Longrightarrow> all_calls P (transactWriteItems ws)"
  by (simp_all add: getItem_def putItem_def updateItem_def deleteItem_def transactWriteItems_def calls)

lemma item_keys [simp]:
  "item_key (code_item r1) = authorizationCodeKey (ac_codeHash r1)"
  "item_key (state_item r2) = upstreamStateKey (us_stateHash r2)"
  "item_key (refreshTokenItem r3) = refreshTokenKey (rt_tokenHash r3)"
  "item_key (refreshFamilyItem r3) = refreshFamilyKey (rt_familyId r3)"
  "item_key (markerItem (refreshRotationKey h) f a b) = refreshRotationKey h"
  "item_key (session_item r4) = mcpSessionKey (ms_sessionIdHash r4)"
  "item_key (rateLimitItem (rateBucketKey h) r5) = rateBucketKey h"
  by (simp_all add: item_key_def code_item_def state_item_def refreshTokenItem_def refreshFamilyItem_def markerItem_def
      session_item_def rateLimitItem_def storedRecordItem_def metaItem_def key_defs)

lemma record_keys [simp]:
  "ac_codeHash (new_code_record sha t i n) = sha t"
  "us_stateHash (new_state_record sha t j n) = sha t"
  "rt_tokenHash (refreshRecord sha t f k n m) = sha t"
  "rt_familyId (refreshRecord sha t f k n m) = f"
  by (simp_all add: new_code_record_def new_state_record_def refreshRecord_def)

text \<open>Every item carries its partition key, and the requests of the store keep it so.\<close>

definition has_pk :: "dynamo_item \<Rightarrow> bool" where
  "has_pk fs = (map_of fs ''pk'' \<noteq> None)"

definition keyed :: "contents \<Rightarrow> bool" where
  "keyed T = (\<forall>key fs. T key = Some fs \<longrightarrow> has_pk fs)"

fun keyed_write :: "dynamo_write \<Rightarrow> bool" where
  "keyed_write (Put it c) = (has_pk it)"
| "keyed_write (Update key sets c) = (has_pk key)"

fun keyed_request :: "dynamo_request \<Rightarrow> bool" where
  "keyed_request (Write_items ws) = list_all keyed_write ws"
| "keyed_request q = True"

lemma has_pk_updates: "has_pk fs \<Longrightarrow> has_pk (fold (\<lambda>(name, v). AList.update name v) sets fs)"
  by (induction sets arbitrary: fs) (auto simp: has_pk_def update_conv')

lemma keyed_effect: "keyed T \<Longrightarrow> list_all keyed_write ws \<Longrightarrow> keyed (fold write_effect ws T)"
proof (induction ws arbitrary: T)
  case (Cons w ws)
  have "keyed (write_effect w T)"
    using Cons.prems has_pk_updates unfolding keyed_def
    by (cases w) (auto split: option.splits if_splits)
  then show ?case using Cons by simp
qed simp

lemma keyed_vanishes: "keyed T \<Longrightarrow> keyed (T(key := None))"
  unfolding keyed_def by simp

lemma keyed_answers: "answers q r T T' \<Longrightarrow> keyed_request q \<Longrightarrow> keyed T \<Longrightarrow> keyed T'"
  by (cases q) (auto simp: answer_of_def keyed_effect keyed_vanishes split: dynamo_response.splits)

lemma keyed_keys [simp]:
  "has_pk (authorizationCodeKey h)" "has_pk (upstreamStateKey h)"
  "has_pk (refreshTokenKey h)" "has_pk (refreshFamilyKey h)"
  "has_pk (refreshRotationKey h)" "has_pk (mcpSessionKey h)" "has_pk (rateBucketKey h)"
  "has_pk (code_item r1)" "has_pk (state_item r2)"
  "has_pk (refreshTokenItem r3)" "has_pk (refreshFamilyItem r3)"
  "has_pk (markerItem (refreshRotationKey h) f a b)" "has_pk (session_item r4)"
  "has_pk (rateLimitItem (rateBucketKey h) r5)"
  by (simp_all add: code_item_def state_item_def refreshTokenItem_def refreshFamilyItem_def markerItem_def
      session_item_def rateLimitItem_def storedRecordItem_def metaItem_def key_defs has_pk_def)

lemma reserve_keyed: "all_calls keyed_request (reserve_attempts n sid rid)"
  by (induction n) (auto simp: tryReserveMcpRequestId_def Let_def split: option.splits intro!: calls)

lemma hit_keyed: "all_calls keyed_request (hit_attempts n sha k p)"
  by (induction n) (auto simp: tryHit_def Let_def intro!: calls)

lemma revoke_keyed: "all_calls keyed_request (revokeRefreshFamily f now)"
  by (auto simp: revokeRefreshFamily_def intro!: calls)

lemma rotate_keyed: "all_calls keyed_request (dynamoRotateRefreshToken sha t c ttl er ar n)"
  by (auto simp: dynamoRotateRefreshToken_def rotateValidRefreshToken_def updateOldToken_def updateFamilyTtl_def Let_def
      intro!: calls revoke_keyed)

lemma program_keyed: "all_calls keyed_request (dynamo_program sha e)"
  by (cases e) (auto simp: dynamoCreateAuthorizationCode_def dynamoConsumeAuthorizationCode_def dynamoCreateRefreshToken_def
      dynamoCreateUpstreamState_def dynamoConsumeUpstreamState_def dynamoSaveMcpSession_def dynamoTouchMcpSession_def
      dynamoReserveMcpRequestId_def dynamoTerminateMcpSession_def dynamoHit_def Let_def split: option.splits prod.splits
      intro!: calls rotate_keyed reserve_keyed hit_keyed)

section \<open>Interleaved operations\<close>

type_synonym threads = "(disk_event \<times> disk_result program) list"

text \<open>An item whose key is not \<open>kept\<close> may disappear at any time.\<close>

inductive cluster_step ::
  "('db \<Rightarrow> dynamo_request \<Rightarrow> dynamo_response \<Rightarrow> 'db \<Rightarrow> bool) \<Rightarrow> ('db \<Rightarrow> contents) \<Rightarrow> (dynamo_item \<Rightarrow> bool) \<Rightarrow> (string \<Rightarrow> string) \<Rightarrow>
     'db \<times> threads \<Rightarrow> 'db \<times> threads \<Rightarrow> bool" for exec item kept sha where
  begins: "cluster_step exec item kept sha (d, ths) (d, ths @ [(e, dynamo_program sha e)])"
| reads_clock: "i < length ths \<Longrightarrow> ths ! i = (e, Clock k) \<Longrightarrow> cluster_step exec item kept sha (d, ths) (d, ths[i := (e, k n)])"
| sends: "i < length ths \<Longrightarrow> ths ! i = (e, Call q k) \<Longrightarrow> exec d q r d' \<Longrightarrow>
    cluster_step exec item kept sha (d, ths) (d', ths[i := (e, k r)])"
| vanishes: "\<not> kept key \<Longrightarrow> item d' = (item d)(key := None) \<Longrightarrow> cluster_step exec item kept sha (d, ths) (d', ths)"

section \<open>Credit\<close>

text \<open>What a thread is worth: one when it has spent, or may still issue, a credit.\<close>

definition worth :: "(disk_event \<Rightarrow> bool) \<Rightarrow> (disk_event \<Rightarrow> disk_result \<Rightarrow> bool) \<Rightarrow> disk_event \<Rightarrow> disk_result program \<Rightarrow> nat" where
  "worth issues spends e p = (case p of
     Return x \<Rightarrow> of_bool (spends e x) | Throw err \<Rightarrow> 0 | _ \<Rightarrow> of_bool (issues e))"

lemma worth_simps [simp]:
  "worth issues spends e (Return x) = of_bool (spends e x)"
  "worth issues spends e (Throw err) = 0"
  "worth issues spends e (Clock k) = of_bool (issues e)"
  "worth issues spends e (Call q f) = of_bool (issues e)"
  by (simp_all add: worth_def)

primrec accounted :: "(contents \<Rightarrow> nat) \<Rightarrow> ('a program \<Rightarrow> nat) \<Rightarrow> 'a program \<Rightarrow> bool" where
  "accounted credit value_of (Return x) = True"
| "accounted credit value_of (Throw err) = True"
| "accounted credit value_of (Clock k) = (\<forall>n. value_of (k n) \<le> value_of (Clock k) \<and> accounted credit value_of (k n))"
| "accounted credit value_of (Call q k) = (\<forall>r. accounted credit value_of (k r) \<and>
     (\<forall>T T'. keyed T \<longrightarrow> answers q r T T' \<longrightarrow> value_of (k r) + credit T' \<le> value_of (Call q k) + credit T))"

locale credit_scheme =
  fixes sha :: "string \<Rightarrow> string" and kept :: "dynamo_item \<Rightarrow> bool" and credit :: "contents \<Rightarrow> nat"
    and issues :: "disk_event \<Rightarrow> bool" and spends :: "disk_event \<Rightarrow> disk_result \<Rightarrow> bool"
  assumes programs_accounted: "accounted credit (worth issues spends e) (dynamo_program sha e)"
    and worth_begins: "worth issues spends e (dynamo_program sha e) \<le> of_bool (issues e)"
    and credit_vanishes: "\<not> kept key \<Longrightarrow> credit (T(key := None)) \<le> credit T"
begin

definition spent :: "threads \<Rightarrow> nat" where
  "spent ths = (\<Sum>(e, p)\<leftarrow>ths. worth issues spends e p)"

definition issued :: "threads \<Rightarrow> nat" where
  "issued ths = (\<Sum>(e, p)\<leftarrow>ths. of_bool (issues e))"

lemma spent_update:
  assumes "i < length ths" "ths ! i = (e, p)"
  shows "spent (ths[i := (e, p')]) + worth issues spends e p = spent ths + worth issues spends e p'"
proof -
  have split: "ths = take i ths @ (e, p) # drop (Suc i) ths" using assms id_take_nth_drop by metis
  have "spent (ths[i := (e, p')]) = spent (take i ths) + worth issues spends e p' + spent (drop (Suc i) ths)"
    using assms(1) by (simp add: upd_conv_take_nth_drop spent_def)
  moreover have "spent ths = spent (take i ths) + worth issues spends e p + spent (drop (Suc i) ths)"
    by (subst split) (simp add: spent_def)
  ultimately show ?thesis by simp
qed

lemma issued_update: "i < length ths \<Longrightarrow> ths ! i = (e, p) \<Longrightarrow> issued (ths[i := (e, p')]) = issued ths"
proof -
  assume a: "i < length ths" "ths ! i = (e, p)"
  have "map fst (ths[i := (e, p')]) = map fst ths"
    using a by (metis fst_conv list_update_id map_update)
  moreover have "issued xs = (\<Sum>e\<leftarrow>map fst xs. of_bool (issues e))" for xs
    unfolding issued_def by (simp add: comp_def case_prod_beta')
  ultimately show ?thesis by presburger
qed

end

locale credited_table = dynamo_table exec item + credit_scheme sha kept credit issues spends
  for exec :: "'db \<Rightarrow> dynamo_request \<Rightarrow> dynamo_response \<Rightarrow> 'db \<Rightarrow> bool" and item sha kept credit issues spends
begin

definition balanced :: "nat \<Rightarrow> 'db \<times> threads \<Rightarrow> bool" where
  "balanced start w = (keyed (item (fst w)) \<and> spent (snd w) + credit (item (fst w)) \<le> issued (snd w) + start \<and>
     (\<forall>(e, p) \<in> set (snd w). accounted credit (worth issues spends e) p \<and> all_calls keyed_request p))"

lemma thread_steps:
  assumes "balanced start (d, ths)" "i < length ths" "ths ! i = (e, p)"
    and "worth issues spends e p' + credit (item d') \<le> worth issues spends e p + credit (item d)"
    and "accounted credit (worth issues spends e) p'" "all_calls keyed_request p'" "keyed (item d')"
  shows "balanced start (d', ths[i := (e, p')])"
proof -
  have "spent (ths[i := (e, p')]) + credit (item d') \<le> issued (ths[i := (e, p')]) + start"
    using assms(1,4) spent_update [OF assms(2,3), of p'] issued_update [OF assms(2,3), of p'] unfolding balanced_def by simp
  moreover have "\<forall>(e, p) \<in> set (ths[i := (e, p')]). accounted credit (worth issues spends e) p \<and> all_calls keyed_request p"
    using assms(1,5,6) set_update_subset_insert [of ths i "(e, p')"] unfolding balanced_def by auto
  ultimately show ?thesis using assms(7) unfolding balanced_def by simp
qed

lemma thread_accounted:
  "balanced start (d, ths) \<Longrightarrow> i < length ths \<Longrightarrow> ths ! i = (e, p) \<Longrightarrow>
     accounted credit (worth issues spends e) p \<and> all_calls keyed_request p \<and> keyed (item d)"
  unfolding balanced_def by (metis (mono_tags, lifting) case_prodD fst_conv nth_mem snd_conv)

lemma balanced_step:
  assumes step: "cluster_step exec item kept sha w w'" and bal: "balanced start w"
  shows "balanced start w'"
  using step
proof (cases rule: cluster_step.cases)
  case (begins d ths e)
  then show ?thesis using bal worth_begins [of e] programs_accounted [of e] program_keyed [of sha e]
    unfolding balanced_def spent_def issued_def by simp
next
  case (reads_clock i ths e k d n)
  have bal': "balanced start (d, ths)" using bal reads_clock(1) by simp
  note acc = thread_accounted [OF bal' reads_clock(3,4)]
  show ?thesis unfolding reads_clock(2)
    by (rule thread_steps [OF bal' reads_clock(3,4)]) (use acc in simp_all)
next
  case (sends i ths e q k d r d')
  have bal': "balanced start (d, ths)" using bal sends(1) by simp
  note acc = thread_accounted [OF bal' sends(3,4)]
  have ans: "answers q r (item d) (item d')" by (rule documented [OF sends(5)])
  moreover have "keyed (item d')" using keyed_answers [OF ans] acc by simp
  ultimately show ?thesis unfolding sends(2)
    by - (rule thread_steps [OF bal' sends(3,4)], use acc in auto)
next
  case (vanishes key d' d ths)
  then show ?thesis using bal credit_vanishes [of key "item d"] keyed_vanishes [of "item d" key] unfolding balanced_def by simp
qed

lemma spent_bounded:
  assumes "(cluster_step exec item kept sha)\<^sup>*\<^sup>* (d, []) (d', ths)" "keyed (item d)"
  shows "spent ths \<le> issued ths + credit (item d)"
proof -
  have "balanced (credit (item d)) (d', ths)"
    using assms
    by (induction rule: rtranclp_induct) (simp_all add: balanced_step, simp add: balanced_def assms(2) spent_def issued_def)
  then show ?thesis by (simp add: balanced_def)
qed

end

end
