(* ===== verification/Dynamo_Properties.thy ===== *)
theory Dynamo_Properties
  imports Dynamo_Runs Disk_Properties
begin

text \<open>
  Single use on the shared table: however the operations of all servers interleave, a code, an upstream
  state and a refresh token are each used at most once.  Every operation but the few that are about the
  key leaves it alone (\<open>writes_key\<close>); the others are followed request by request.
\<close>

section \<open>Which keys an operation writes\<close>

fun avoids :: "dynamo_item \<Rightarrow> dynamo_request \<Rightarrow> bool" where
  "avoids key (Get_item k) = True"
| "avoids key (Write_items ws) = (\<forall>w \<in> set ws. write_key w \<noteq> key)"
| "avoids key (Delete_item k c) = (k \<noteq> key)"

fun writes_key :: "(string \<Rightarrow> string) \<Rightarrow> disk_event \<Rightarrow> dynamo_item \<Rightarrow> bool" where
  "writes_key sha (CreateCode t i) key = (key = authorizationCodeKey (sha t))"
| "writes_key sha (ConsumeCode t v x) key = (key = authorizationCodeKey (sha t))"
| "writes_key sha (CreateRefresh t f i) key = (key = refreshTokenKey (sha t) \<or> key = refreshFamilyKey f)"
| "writes_key sha (Rotate t c ttl er ar n) key = (key = refreshTokenKey (sha t) \<or> key = refreshTokenKey (sha n) \<or>
     key = refreshRotationKey (sha t) \<or> (\<exists>f. key = refreshFamilyKey f))"
| "writes_key sha (CreateState t i) key = (key = upstreamStateKey (sha t))"
| "writes_key sha (ConsumeState t) key = (key = upstreamStateKey (sha t))"
| "writes_key sha (SaveSession r) key = (key = mcpSessionKey (ms_sessionIdHash r))"
| "writes_key sha (Touch sid v m) key = (key = mcpSessionKey sid)"
| "writes_key sha (Reserve sid rid) key = (key = mcpSessionKey sid)"
| "writes_key sha (Terminate sid) key = (key = mcpSessionKey sid)"
| "writes_key sha (Hit k p) key = (key = rateBucketKey (sha k))"

lemma reserve_calls: "mcpSessionKey sid \<noteq> key \<Longrightarrow> all_calls (avoids key) (reserve_attempts n sid rid)"
  by (induction n) (auto simp: tryReserveMcpRequestId_def Let_def split: option.splits intro!: calls)

lemma hit_calls: "rateBucketKey (sha k) \<noteq> key \<Longrightarrow> all_calls (avoids key) (hit_attempts n sha k p)"
  by (induction n) (auto simp: tryHit_def Let_def intro!: calls)

lemma revoke_calls: "refreshFamilyKey f \<noteq> key \<Longrightarrow> all_calls (avoids key) (revokeRefreshFamily f now)"
  by (auto simp: revokeRefreshFamily_def intro!: calls)

lemma rotate_calls:
  "refreshTokenKey (sha t) \<noteq> key \<Longrightarrow> refreshTokenKey (sha n) \<noteq> key \<Longrightarrow> refreshRotationKey (sha t) \<noteq> key \<Longrightarrow>
   \<forall>f. refreshFamilyKey f \<noteq> key \<Longrightarrow> all_calls (avoids key) (dynamoRotateRefreshToken sha t c ttl er ar n)"
  by (auto simp: dynamoRotateRefreshToken_def rotateValidRefreshToken_def updateOldToken_def updateFamilyTtl_def Let_def
      intro!: calls revoke_calls) blast+

lemma program_avoids: "\<not> writes_key sha e key \<Longrightarrow> all_calls (avoids key) (dynamo_program sha e)"
  by (cases e) (auto simp: dynamoCreateAuthorizationCode_def dynamoConsumeAuthorizationCode_def dynamoCreateRefreshToken_def
      dynamoCreateUpstreamState_def dynamoConsumeUpstreamState_def dynamoSaveMcpSession_def dynamoTouchMcpSession_def
      dynamoReserveMcpRequestId_def dynamoTerminateMcpSession_def dynamoHit_def Let_def split: option.splits prod.splits
      intro!: calls rotate_calls reserve_calls hit_calls)

section \<open>Operations that leave a key alone\<close>

lemma writes_avoid: "\<forall>w \<in> set ws. write_key w \<noteq> key \<Longrightarrow> fold write_effect ws T key = T key"
proof (induction ws arbitrary: T)
  case (Cons w ws)
  then show ?case by (cases w) auto
qed simp

lemma avoids_keeps: "answers q r T T' \<Longrightarrow> avoids key q \<Longrightarrow> T' key = T key"
  by (cases q) (auto simp: answer_of_def writes_avoid split: dynamo_response.splits)

lemma worth_zero: "\<not> issues e \<Longrightarrow> (\<And>x. \<not> spends e x) \<Longrightarrow> worth issues spends e p = 0"
  by (cases p) simp_all

lemma idle_accounted:
  assumes "all_calls (avoids key) p" "\<And>T T'. T key = T' key \<Longrightarrow> credit T = credit T'" "\<And>p. value_of p = 0"
  shows "accounted credit value_of p"
  using assms(1)
proof (induction p)
  case (Call q k)
  have "credit T' \<le> credit T" if "answers q r T T'" for r T T'
    using assms(2) avoids_keeps [OF that, of key] Call.prems by (metis all_calls.simps(4) order_refl)
  then show ?case using Call assms(3) by simp
qed (simp_all add: assms(3))

text \<open>A program whose last request is a write: what is left of it only returns or throws.\<close>

lemma accounted_last:
  assumes "\<And>r. \<exists>x. k r = Return x \<or> (\<exists>err. k r = Throw err)"
    and "\<And>r T T'. answers q r T T' \<Longrightarrow> value_of (k r) + credit T' \<le> value_of (Call q k) + credit T"
  shows "accounted credit value_of (Call q k)"
proof -
  have "accounted credit value_of (k r)" for r using assms(1) [of r] by auto
  then show ?thesis using assms(2) by simp
qed

lemma attribute_simps [simp]:
  "attribute None name = None"
  "attribute (Some fs) name = map_of fs name"
  "compare_attribute le None v = False"
  by (simp_all add: attribute_def compare_attribute_def)

section \<open>Authorization codes\<close>

definition code_credit :: "string \<Rightarrow> contents \<Rightarrow> nat" where
  "code_credit h T = of_bool (T (authorizationCodeKey h) \<noteq> None \<and> attribute (T (authorizationCodeKey h)) ''consumedAt'' = None)"

fun creates_code :: "(string \<Rightarrow> string) \<Rightarrow> string \<Rightarrow> disk_event \<Rightarrow> bool" where
  "creates_code sha h (CreateCode t i) = (sha t = h)"
| "creates_code sha h e = False"

fun uses_code :: "(string \<Rightarrow> string) \<Rightarrow> string \<Rightarrow> disk_event \<Rightarrow> disk_result \<Rightarrow> bool" where
  "uses_code sha h (ConsumeCode t v x) (Code r) = (sha t = h)"
| "uses_code sha h e res = False"

lemma create_code_accounted:
  "accounted (code_credit h) (worth (creates_code sha h) (uses_code sha h) (CreateCode t i)) (dynamo_program sha (CreateCode t i))"
  if "sha t = h"
  using that
  by (auto simp: dynamoCreateAuthorizationCode_def putItem_def answered_def answer_of_def code_credit_def
      split: dynamo_response.splits)

lemma consume_code_accounted:
  "accounted (code_credit h) (worth (creates_code sha h) (uses_code sha h) (ConsumeCode t v x)) (dynamo_program sha (ConsumeCode t v x))"
  if "sha t = h"
  using that
  by (auto simp: dynamoConsumeAuthorizationCode_def getItem_def updateItem_def Let_def answered_def from_outcome_def answer_of_def
      code_credit_def update_conv' split: dynamo_response.splits sum.splits)

section \<open>Upstream states\<close>

definition state_credit :: "string \<Rightarrow> contents \<Rightarrow> nat" where
  "state_credit h T = of_bool (T (upstreamStateKey h) \<noteq> None)"

fun creates_state :: "(string \<Rightarrow> string) \<Rightarrow> string \<Rightarrow> disk_event \<Rightarrow> bool" where
  "creates_state sha h (CreateState t i) = (sha t = h)"
| "creates_state sha h e = False"

fun uses_state :: "(string \<Rightarrow> string) \<Rightarrow> string \<Rightarrow> disk_event \<Rightarrow> disk_result \<Rightarrow> bool" where
  "uses_state sha h (ConsumeState t) (State r) = (sha t = h)"
| "uses_state sha h e res = False"

lemma create_state_accounted:
  "accounted (state_credit h) (worth (creates_state sha h) (uses_state sha h) (CreateState t i)) (dynamo_program sha (CreateState t i))"
  if "sha t = h"
  using that
  by (auto simp: dynamoCreateUpstreamState_def putItem_def answered_def answer_of_def state_credit_def
      split: dynamo_response.splits)

lemma consume_state_accounted:
  "accounted (state_credit h) (worth (creates_state sha h) (uses_state sha h) (ConsumeState t)) (dynamo_program sha (ConsumeState t))"
  if "sha t = h"
  using that
  by (auto simp: dynamoConsumeUpstreamState_def deleteItem_def answered_def from_outcome_def answer_of_def state_credit_def permitted_def
      split: dynamo_response.splits sum.splits option.splits)

section \<open>Refresh tokens\<close>

definition rotation_credit :: "string \<Rightarrow> contents \<Rightarrow> nat" where
  "rotation_credit h T = of_bool (T (refreshRotationKey h) = None)"

fun rotates_token :: "(string \<Rightarrow> string) \<Rightarrow> string \<Rightarrow> disk_event \<Rightarrow> disk_result \<Rightarrow> bool" where
  "rotates_token sha h (Rotate t c ttl er ar n) (Rotation (Rotated used m)) = (sha t = h)"
| "rotates_token sha h e res = False"

lemma bindp_assoc: "bindp (bindp p f) g = bindp p (\<lambda>x. bindp (f x) g)"
  by (induction p) simp_all

text \<open>A prefix of requests that leave the key alone, before anything is spent.\<close>

lemma worth_bind: "(\<And>x. worth (\<lambda>e. False) spends e (f x) = 0) \<Longrightarrow> worth (\<lambda>e. False) spends e (bindp p f) = 0"
  by (cases p) simp_all

lemma accounted_prefix:
  assumes "all_calls (avoids key) p" "\<And>T T'. T key = T' key \<Longrightarrow> credit T = credit T'"
    and "\<And>x. accounted credit (worth (\<lambda>e. False) spends e) (f x)" "\<And>x. worth (\<lambda>e. False) spends e (f x) = 0"
  shows "accounted credit (worth (\<lambda>e. False) spends e) (bindp p f)"
  using assms(1)
proof (induction p)
  case (Call q k)
  have "credit T' \<le> credit T" if "answers q r T T'" for r T T'
    using assms(2) avoids_keeps [OF that, of key] Call.prems by (metis all_calls.simps(4) order_refl)
  moreover have "worth (\<lambda>e. False) spends e (bindp (k r) f) = 0" for r by (rule worth_bind) (rule assms(4))
  ultimately show ?case using Call by simp
qed (simp_all add: assms(3) worth_bind assms(4))

lemma other_rotation_keys [simp]:
  "refreshTokenKey a \<noteq> refreshRotationKey b" "refreshFamilyKey f \<noteq> refreshRotationKey b"
  "refreshRotationKey b \<noteq> refreshTokenKey a" "refreshRotationKey b \<noteq> refreshFamilyKey f"
  by (simp_all add: key_defs attr_defs)

lemma rotation_credit_cong: "T (refreshRotationKey h) = T' (refreshRotationKey h) \<Longrightarrow> rotation_credit h T = rotation_credit h T'"
  by (simp add: rotation_credit_def)

text \<open>A program that has not spent the rotation of \<open>h\<close> yet, and keeps the account.\<close>

definition unspent :: "(string \<Rightarrow> string) \<Rightarrow> string \<Rightarrow> disk_event \<Rightarrow> disk_result program \<Rightarrow> bool" where
  "unspent sha h e p = (accounted (rotation_credit h) (worth (\<lambda>e. False) (rotates_token sha h) e) p \<and>
     worth (\<lambda>e. False) (rotates_token sha h) e p = 0)"

named_theorems unspent_intros

lemma unspent_prefix [unspent_intros]:
  "all_calls (avoids (refreshRotationKey h)) p \<Longrightarrow> (\<And>x. unspent sha h e (f x)) \<Longrightarrow> unspent sha h e (bindp p f)"
  unfolding unspent_def
  by (rule conjI, rule accounted_prefix [of "refreshRotationKey h"]; (assumption | erule rotation_credit_cong | rule worth_bind | blast)+)

lemma unspent_simple [unspent_intros]:
  "(\<And>n. unspent sha h e (k n)) \<Longrightarrow> unspent sha h e (Clock k)"
  "unspent sha h e (Throw err)"
  "unspent sha h e p \<Longrightarrow> unspent sha h e p' \<Longrightarrow> unspent sha h e (if b then p else p')"
  by (simp_all add: unspent_def)

lemma bindp_if: "bindp (if b then p else p') f = (if b then bindp p f else bindp p' f)"
  by simp

lemma rotate_valid_unspent:
  "unspent sha (sha t) (Rotate t c ttl er ar n)
     (bindp (rotateValidRefreshToken sha old (sha t) ttl now n) (\<lambda>(used, m). Return (Rotation (Rotated used m))))"
  (is "unspent sha ?h ?e ?rest")
proof -
  define finished where "finished = Rotation (Rotated (old\<lparr>rt_lastUsedAt := Some now\<rparr>) n)"
  define new where "new = old \<lparr> rt_tokenHash := sha n, rt_expiresAt := now + ttl, rt_rotatedFromHash := Some ?h,
                      rt_createdAt := now, rt_lastUsedAt := None, rt_revokedAt := None \<rparr>"
  define ws where "ws = [Put (refreshTokenItem new) (Some (Not_exists ''pk'')),
           Put (markerItem (refreshRotationKey ?h) (rt_familyId old) now (rt_expiresAt new)) (Some (Not_exists ''pk'')),
           updateOldToken (refreshTokenKey ?h) (old \<lparr> rt_lastUsedAt := Some now \<rparr>) now,
           updateFamilyTtl (rt_familyId old) (rt_expiresAt new) now]"
  define revoke :: "disk_result program" where "revoke = bindp (revokeRefreshFamily (rt_familyId old) now) (\<lambda>_. Throw invalid_grant_error)"
  have rest: "?rest = Call (Write_items ws) (\<lambda>r. case r of
       Condition_failed \<Rightarrow> revoke | Request_failed m \<Rightarrow> Throw (request_error m) | _ \<Rightarrow> Return finished)"
    unfolding rotateValidRefreshToken_def Let_def transactWriteItems_def finished_def revoke_def ws_def new_def
    by (auto simp: answered_def fun_eq_iff condition_error_def request_error_def bindp_assoc split: dynamo_response.splits)
  have revoke: "unspent sha ?h ?e revoke"
    unfolding revoke_def by (intro unspent_intros revoke_calls other_rotation_keys)
  have marker: "rotation_credit ?h (fold write_effect ws T) = 0" for T
    unfolding ws_def updateOldToken_def updateFamilyTtl_def rotation_credit_def by simp
  have absent: "rotation_credit ?h T = 1" if "list_all (write_permitted T) ws" "keyed T" for T
    using that unfolding ws_def rotation_credit_def keyed_def has_pk_def by (cases "T (refreshRotationKey ?h)") (auto simp: permitted_def)
  have "worth (\<lambda>e. False) (rotates_token sha ?h) ?e (case r of Condition_failed \<Rightarrow> revoke | Request_failed m \<Rightarrow> Throw (request_error m) | _ \<Rightarrow> Return finished) +
      rotation_credit ?h T' \<le> rotation_credit ?h T" if "answers (Write_items ws) r T T'" "keyed T" for r T T'
    using that revoke marker [of T] absent [of T] unfolding unspent_def finished_def
    by (cases r) (auto simp: answer_of_def)
  moreover have "accounted (rotation_credit ?h) (worth (\<lambda>e. False) (rotates_token sha ?h) ?e)
      (case r of Condition_failed \<Rightarrow> revoke | Request_failed m \<Rightarrow> Throw (request_error m) | _ \<Rightarrow> Return finished)" for r
    using revoke by (cases r) (simp_all add: unspent_def)
  ultimately show ?thesis unfolding rest unspent_def by simp
qed

lemma rotate_unspent: "unspent sha (sha t) (Rotate t c ttl er ar n) (dynamo_program sha (Rotate t c ttl er ar n))"
  unfolding dynamo_program.simps dynamoRotateRefreshToken_def Let_def bindp_assoc [of "getItem x" for x]
    bindp_assoc [of "from_outcome x" for x] bindp_assoc [of "revokeRefreshFamily x y" for x y] bindp.simps bindp_if
  by (intro unspent_intros rotate_valid_unspent revoke_calls calls avoids.simps(1) [THEN iffD2] TrueI other_rotation_keys)

section \<open>Single use\<close>

lemma other_code_keys:
  "writes_key sha e (authorizationCodeKey h) \<Longrightarrow> (\<exists>t i. e = CreateCode t i \<and> sha t = h) \<or> (\<exists>t v x. e = ConsumeCode t v x \<and> sha t = h)"
  by (cases e) (auto simp: key_defs attr_defs)

lemma other_state_keys:
  "writes_key sha e (upstreamStateKey h) \<Longrightarrow> (\<exists>t i. e = CreateState t i \<and> sha t = h) \<or> (\<exists>t. e = ConsumeState t \<and> sha t = h)"
  by (cases e) (auto simp: key_defs attr_defs)

lemma other_rotations:
  "writes_key sha e (refreshRotationKey h) \<Longrightarrow> \<exists>t c ttl er ar n. e = Rotate t c ttl er ar n \<and> sha t = h"
  by (cases e) (auto simp: key_defs attr_defs)

lemma untouched_accounted:
  assumes "\<not> writes_key sha e key" "\<And>T T'. T key = T' key \<Longrightarrow> credit T = credit T'" "\<not> issues e" "\<And>x. \<not> spends e x"
  shows "accounted credit (worth issues spends e) (dynamo_program sha e)"
proof (rule idle_accounted [OF program_avoids [OF assms(1)]])
  show "credit T = credit T'" if "T key = T' key" for T T' by (rule assms(2)) (rule that)
  show "worth issues spends e p = 0" for p by (rule worth_zero) (use assms(3,4) in auto)
qed

text \<open>No operation returns before its first request or reading of the clock.\<close>

lemma program_starts: "dynamo_program sha e \<noteq> Return x"
proof -
  have loops: "bindp (reserve_attempts 5 sid rid) f \<noteq> Return x" "bindp (hit_attempts 5 sha k p) g \<noteq> Return x" for sid rid f k p g
    by (simp_all add: numeral_eq_Suc tryReserveMcpRequestId_def tryHit_def)
  show ?thesis
    by (cases e) (simp_all add: loops dynamoCreateAuthorizationCode_def dynamoConsumeAuthorizationCode_def dynamoCreateRefreshToken_def
      dynamoRotateRefreshToken_def dynamoCreateUpstreamState_def dynamoConsumeUpstreamState_def dynamoSaveMcpSession_def
      dynamoTouchMcpSession_def dynamoReserveMcpRequestId_def dynamoTerminateMcpSession_def dynamoHit_def Let_def getItem_def putItem_def)
qed

lemma worth_starts: "worth issues spends e (dynamo_program sha e) \<le> of_bool (issues e)"
  using program_starts [of sha e] by (cases "dynamo_program sha e") (simp_all, blast)

lemma creates_uses:
  "creates_code sha h e \<Longrightarrow> writes_key sha e (authorizationCodeKey h)" "uses_code sha h e x \<Longrightarrow> writes_key sha e (authorizationCodeKey h)"
  "creates_state sha h e \<Longrightarrow> writes_key sha e (upstreamStateKey h)" "uses_state sha h e x \<Longrightarrow> writes_key sha e (upstreamStateKey h)"
  "rotates_token sha h e x \<Longrightarrow> writes_key sha e (refreshRotationKey h)"
proof -
  show "creates_code sha h e \<Longrightarrow> writes_key sha e (authorizationCodeKey h)" by (induction sha h e rule: creates_code.induct) simp_all
  show "uses_code sha h e x \<Longrightarrow> writes_key sha e (authorizationCodeKey h)" by (induction sha h e x rule: uses_code.induct) simp_all
  show "creates_state sha h e \<Longrightarrow> writes_key sha e (upstreamStateKey h)" by (induction sha h e rule: creates_state.induct) simp_all
  show "uses_state sha h e x \<Longrightarrow> writes_key sha e (upstreamStateKey h)" by (induction sha h e x rule: uses_state.induct) simp_all
  show "rotates_token sha h e x \<Longrightarrow> writes_key sha e (refreshRotationKey h)" by (induction sha h e x rule: rotates_token.induct) simp_all
qed

interpretation code_scheme: credit_scheme sha kept "code_credit h" "creates_code sha h" "uses_code sha h" for sha kept h
proof (rule credit_scheme.intro)
  fix e key and T :: contents
  show "accounted (code_credit h) (worth (creates_code sha h) (uses_code sha h) e) (dynamo_program sha e)"
  proof (cases "writes_key sha e (authorizationCodeKey h)")
    case True
    then show ?thesis using other_code_keys create_code_accounted consume_code_accounted by blast
  next
    case False
    then have "\<not> creates_code sha h e" "\<not> uses_code sha h e x" for x
      using creates_uses by blast+
    then show ?thesis by (intro untouched_accounted [OF False]) (auto simp: code_credit_def)
  qed
  show "worth (creates_code sha h) (uses_code sha h) e (dynamo_program sha e) \<le> of_bool (creates_code sha h e)"
    by (rule worth_starts)
  show "code_credit h (T(key := None)) \<le> code_credit h T"
    by (simp add: code_credit_def)
qed

interpretation state_scheme: credit_scheme sha kept "state_credit h" "creates_state sha h" "uses_state sha h" for sha kept h
proof (rule credit_scheme.intro)
  fix e key and T :: contents
  show "accounted (state_credit h) (worth (creates_state sha h) (uses_state sha h) e) (dynamo_program sha e)"
  proof (cases "writes_key sha e (upstreamStateKey h)")
    case True
    then show ?thesis using other_state_keys create_state_accounted consume_state_accounted by blast
  next
    case False
    then have "\<not> creates_state sha h e" "\<not> uses_state sha h e x" for x
      using creates_uses by blast+
    then show ?thesis by (intro untouched_accounted [OF False]) (auto simp: state_credit_def)
  qed
  show "worth (creates_state sha h) (uses_state sha h) e (dynamo_program sha e) \<le> of_bool (creates_state sha h e)"
    by (rule worth_starts)
  show "state_credit h (T(key := None)) \<le> state_credit h T"
    by (simp add: state_credit_def)
qed

interpretation rotation_scheme: credit_scheme sha "\<lambda>key. kept key \<or> key = refreshRotationKey h" "rotation_credit h" "\<lambda>e. False" "rotates_token sha h"
  for sha kept h
proof (rule credit_scheme.intro)
  fix e key and T :: contents
  show "accounted (rotation_credit h) (worth (\<lambda>e. False) (rotates_token sha h) e) (dynamo_program sha e)"
  proof (cases "writes_key sha e (refreshRotationKey h)")
    case True
    then show ?thesis using other_rotations rotate_unspent unfolding unspent_def by blast
  next
    case False
    then have "\<not> rotates_token sha h e x" for x
      using creates_uses by blast
    then show ?thesis by (intro untouched_accounted [OF False]) (auto simp: rotation_credit_def)
  qed
  show "worth (\<lambda>e. False) (rotates_token sha h) e (dynamo_program sha e) \<le> of_bool False"
    using worth_starts [of "\<lambda>e. False"] by simp
  show "\<not> (kept key \<or> key = refreshRotationKey h) \<Longrightarrow> rotation_credit h (T(key := None)) \<le> rotation_credit h T"
    by (auto simp: rotation_credit_def)
qed

section \<open>A table in memory\<close>

fun memory_answer :: "dynamo_request \<Rightarrow> contents \<Rightarrow> dynamo_response \<times> contents" where
  "memory_answer (Get_item key) T = (Found (T key), T)"
| "memory_answer (Write_items ws) T =
     (if list_all (write_permitted T) ws then (Accepted, fold write_effect ws T) else (Condition_failed, T))"
| "memory_answer (Delete_item key c) T = (if permitted c (T key) then (Found (T key), T(key := None)) else (Condition_failed, T))"

definition memory_exec :: "contents \<Rightarrow> dynamo_request \<Rightarrow> dynamo_response \<Rightarrow> contents \<Rightarrow> bool" where
  "memory_exec T q r T' = (memory_answer q T = (r, T'))"

lemma same_item_refl: "rel_option same_item it it"
proof -
  have "same_value v v" for v by (cases v) (simp_all add: same_value_def)
  then show ?thesis by (cases it) (auto simp: same_item_def list_all2_same)
qed

interpretation memory: dynamo_table memory_exec "\<lambda>T. T"
  by unfold_locales (erule memory_answer.elims [OF memory_exec_def [THEN iffD1]]; auto simp: answer_of_def same_item_refl split: if_splits)

interpretation memory_codes: credited_table memory_exec "\<lambda>T. T" sha kept "code_credit h" "creates_code sha h" "uses_code sha h" for sha kept h
  by (rule credited_table.intro) (rule memory.dynamo_table_axioms, rule code_scheme.credit_scheme_axioms)

section \<open>Properties\<close>

definition uses :: "(disk_event \<Rightarrow> disk_result \<Rightarrow> bool) \<Rightarrow> threads \<Rightarrow> nat" where
  "uses spends ths = length (filter (\<lambda>(e, p). case p of Return x \<Rightarrow> spends e x | _ \<Rightarrow> False) ths)"

definition begun :: "(disk_event \<Rightarrow> bool) \<Rightarrow> threads \<Rightarrow> nat" where
  "begun issues ths = length (filter (\<lambda>(e, p). issues e) ths)"

lemma uses_spent: "uses spends ths \<le> (\<Sum>(e, p)\<leftarrow>ths. worth issues spends e p)"
  unfolding uses_def
proof (induction ths)
  case (Cons th ths)
  obtain e p where "th = (e, p)" by (cases th)
  then show ?case using Cons by (cases p) auto
qed simp

lemma begun_issued: "begun issues ths = (\<Sum>(e, p)\<leftarrow>ths. of_bool (issues e))"
  unfolding begun_def by (induction ths) auto

lemma uses_bounded:
  assumes "dynamo_table exec item" "credit_scheme sha kept credit issues spends"
    and "(cluster_step exec item kept sha)\<^sup>*\<^sup>* (d, []) (d', ths)" "keyed (item d)"
  shows "uses spends ths \<le> begun issues ths + credit (item d)"
proof -
  have table: "credited_table exec item sha kept credit issues spends" by (rule credited_table.intro [OF assms(1,2)])
  show ?thesis
    using credited_table.spent_bounded [OF table assms(3,4)] uses_spent [of spends ths issues]
    unfolding credit_scheme.spent_def [OF assms(2)] credit_scheme.issued_def [OF assms(2)] begun_issued by simp
qed

text \<open>C6: On a DynamoDB table shared by any number of servers, however their requests interleave, fail or
  are lost after they took effect, and whatever items expire: the operations that return a code are at
  most as many as those that created it, and the same holds for an upstream state.  A refresh token is
  exchanged at most once provided that the table keeps the marker of its rotation; the other items may
  expire here too.  (The marker has a time to live, so this condition is one on the lifetimes that are
  configured, and without it a token can be exchanged again.)\<close>

theorem dynamo_grants_used_once:
  assumes "dynamo_table exec item" "(cluster_step exec item kept sha)\<^sup>*\<^sup>* (d, []) (d', ths)" "item d = Map.empty"
  shows "uses (uses_code sha h) ths \<le> begun (creates_code sha h) ths \<and>
    uses (uses_state sha h) ths \<le> begun (creates_state sha h) ths \<and>
    (kept (refreshRotationKey h) \<longrightarrow> uses (rotates_token sha h) ths \<le> 1)"
proof -
  have empty: "keyed (item d)" "code_credit h (item d) = 0" "state_credit h (item d) = 0" "rotation_credit h (item d) = 1"
    using assms(3) by (simp_all add: keyed_def code_credit_def state_credit_def rotation_credit_def)
  have "uses (rotates_token sha h) ths \<le> 1" if "kept (refreshRotationKey h)"
  proof -
    have "(\<lambda>key. kept key \<or> key = refreshRotationKey h) = kept" using that by auto
    note bound = uses_bounded [OF assms(1) rotation_scheme.credit_scheme_axioms [of sha kept h], unfolded this, OF assms(2) empty(1)]
    then show ?thesis unfolding empty(4) by (simp add: begun_def)
  qed
  then show ?thesis
    using uses_bounded [OF assms(1) code_scheme.credit_scheme_axioms assms(2) empty(1), of h]
      uses_bounded [OF assms(1) state_scheme.credit_scheme_axioms assms(2) empty(1), of h] empty by simp
qed

text \<open>Two requests race for one code: both read it before either marks it.\<close>

datatype move = Begins disk_event | Reads nat int | Sends nat

fun memory_move :: "(string \<Rightarrow> string) \<Rightarrow> move \<Rightarrow> contents \<times> threads \<Rightarrow> contents \<times> threads" where
  "memory_move sha (Begins e) (T, ths) = (T, ths @ [(e, dynamo_program sha e)])"
| "memory_move sha (Reads i n) (T, ths) =
     (if i < length ths then (case ths ! i of (e, Clock k) \<Rightarrow> (T, ths[i := (e, k n)]) | _ \<Rightarrow> (T, ths)) else (T, ths))"
| "memory_move sha (Sends i) (T, ths) =
     (if i < length ths then (case ths ! i of (e, Call q k) \<Rightarrow> (case memory_answer q T of (r, T') \<Rightarrow> (T', ths[i := (e, k r)])) | _ \<Rightarrow> (T, ths))
      else (T, ths))"

lemma memory_moves: "(cluster_step memory_exec (\<lambda>T. T) kept sha)\<^sup>*\<^sup>* w (fold (memory_move sha) mvs w)"
proof (induction mvs arbitrary: w)
  case (Cons mv mvs)
  obtain T ths where w: "w = (T, ths)" by (cases w)
  have "(cluster_step memory_exec (\<lambda>T. T) kept sha)\<^sup>*\<^sup>* w (memory_move sha mv w)"
    unfolding w
    by (cases mv) (auto simp: memory_exec_def intro!: r_into_rtranclp cluster_step.intros split: prod.splits program.splits)
  then show ?case using Cons.IH [of "memory_move sha mv w"] by simp
qed simp

definition racing_moves :: "move list" where
  "racing_moves = [Begins (CreateCode ''c'' sample_code_input), Reads 0 1, Sends 0, Begins sample_attempt, Begins sample_attempt,
     Sends 1, Sends 2, Reads 1 8, Reads 2 8, Sends 1, Sends 2]"

definition racing_threads :: threads where
  "racing_threads = [(CreateCode ''c'' sample_code_input, Return Done), (sample_attempt, Return (Code sample_consumed)),
     (sample_attempt, Throw invalid_grant_error)]"

lemma racing_run: "\<exists>T. fold (memory_move (\<lambda>t. t)) racing_moves (Map.empty, []) = (T, racing_threads)"
proof -
  define r where "r = new_code_record (\<lambda>t. t) ''c'' sample_code_input 1"
  define key where "key = authorizationCodeKey ''c''"
  have r: "code_times_ok r" "ac_codeHash r = ''c''" "r \<lparr> ac_consumedAt := Some 8 \<rparr> = sample_consumed"
    by (simp_all add: r_def new_code_record_def sample_code_input_def code_times_ok_def safe_time_def max_safe_integer_def
        sample_consumed_def nonempty_text_def)
  have ok: "validateAuthorizationCode (\<lambda>t. t) (Some r) (Some (replicate 43 CHR ''v'')) sample_expectation 8 = Inr r"
    unfolding r_def by code_simp
  have item: "map_of (code_item r) ''recordType'' = Some (S_attr ''authorization_code'')"
    "map_of (code_item r) ''record'' = Some (S_attr (json_text (code_record_json r)))"
    "map_of (code_item r) ''expiresAt'' = Some (N_attr 61)" "map_of (code_item r) ''consumedAt'' = None"
    by (simp_all add: code_item_def storedRecordItem_def key_defs attr_defs r_def new_code_record_def sample_code_input_def)
  note read = stored_codes.stored_read [OF r(1) item(1,2)]
  have key: "authorizationCodeKey (ac_codeHash r) = key" using r(2) by (simp add: key_def)
  show ?thesis
    unfolding racing_moves_def racing_threads_def
    by (simp add: sample_attempt_def dynamoCreateAuthorizationCode_def putItem_def answered_def permitted_def key
        dynamoConsumeAuthorizationCode_def getItem_def Let_def read from_outcome_def ok updateItem_def item compare_attribute_def numberAttr_def
        r(3) update_conv' flip: r_def key_def)
qed

text \<open>Two requests race with one refresh token: both find it not yet rotated.\<close>

abbreviation rotates :: "string \<Rightarrow> disk_event" where
  "rotates n \<equiv> Rotate ''r'' ''app'' 100 None None n"

definition rotating_moves :: "move list" where
  "rotating_moves = [Begins (CreateRefresh ''r'' ''family'' sample_refresh_input), Reads 0 1, Sends 0, Begins (rotates ''r1''), Begins (rotates ''r2''),
     Sends 1, Sends 2, Reads 1 3, Reads 2 3, Sends 1, Sends 2, Sends 1, Sends 2, Sends 1, Sends 2, Sends 2]"

definition rotated_record :: refresh_token_record where
  "rotated_record = (refreshRecord (\<lambda>t. t) ''r'' ''family'' sample_refresh_input 1 (1 + ri_ttlSeconds sample_refresh_input)) \<lparr> rt_lastUsedAt := Some 3 \<rparr>"

definition rotating_threads :: threads where
  "rotating_threads = [(CreateRefresh ''r'' ''family'' sample_refresh_input, Return Done), (rotates ''r1'', Return (Rotation (Rotated rotated_record ''r1''))),
     (rotates ''r2'', Throw invalid_grant_error)]"

lemma rotating_run: "\<exists>T. fold (memory_move (\<lambda>t. t)) rotating_moves (Map.empty, []) = (T, rotating_threads)"
proof -
  define r where "r = refreshRecord (\<lambda>t. t) ''r'' ''family'' sample_refresh_input 1 (1 + ri_ttlSeconds sample_refresh_input)"
  have r: "refresh_times_ok r" "rt_tokenHash r = ''r''" "rt_familyId r = ''family''" "r \<lparr> rt_lastUsedAt := Some 3 \<rparr> = rotated_record"
    "rt_clientId r = ''app''" "rt_revokedAt r = None" "3 < rt_expiresAt r"
    by (simp_all add: r_def refreshRecord_def sample_refresh_input_def refresh_times_ok_def safe_time_def max_safe_integer_def
        rotated_record_def)
  have ok: "validateRefreshToken (Some r) ''app'' None None 3 = Inr r"
    using r by (simp add: validateRefreshToken_def truthy_time_def)
  have item: "map_of (refreshTokenItem r) ''recordType'' = Some (S_attr ''refresh_token'')"
    "map_of (refreshTokenItem r) ''record'' = Some (S_attr (json_text (refresh_record_json r)))"
    "map_of (refreshTokenItem r) ''expiresAt'' = Some (N_attr (rt_expiresAt r))" "map_of (refreshTokenItem r) ''revokedAt'' = None"
    by (simp_all add: refreshTokenItem_def storedRecordItem_def key_defs attr_defs)
  have family: "map_of (refreshFamilyItem r) ''expiresAt'' = Some (N_attr (rt_expiresAt r))" "map_of (refreshFamilyItem r) ''revokedAt'' = None"
    by (simp_all add: refreshFamilyItem_def metaItem_def key_defs attr_defs)
  have usable: "familyUsable (Some (refreshFamilyItem r)) 3 = Inr ()"
    using r family by (simp add: familyUsable_def itemOptionalNumber_def itemNumber_def refresh_times_ok_def safe_time_def)
  note read = stored_refresh.stored_read [OF r(1) item(1,2)]
  have keys: "refreshTokenKey a = refreshTokenKey b \<longleftrightarrow> a = b" "refreshTokenKey a \<noteq> refreshFamilyKey b" "refreshFamilyKey a \<noteq> refreshTokenKey b" for a b
    by (simp_all add: key_defs attr_defs)
  have pk: "map_of (markerItem (refreshRotationKey a) b c d) ''pk'' \<noteq> None" "map_of (refreshFamilyItem r) ''pk'' \<noteq> None" for a b c d
    by (simp_all add: markerItem_def refreshFamilyItem_def metaItem_def key_defs attr_defs)
  show ?thesis
    unfolding rotating_moves_def rotating_threads_def
    by (simp add: dynamoCreateRefreshToken_def transactWriteItems_def answered_def permitted_def Let_def keys r(2,3)
        dynamoRotateRefreshToken_def getItem_def read from_outcome_def ok usable rotateValidRefreshToken_def
        updateOldToken_def updateFamilyTtl_def item family compare_attribute_def numberAttr_def r
        revokeRefreshFamily_def updateItem_def update_conv' condition_error_def pk
        flip: r_def)
qed
lemma dynamo_grants_used_once_witness:
  "uses (uses_code (\<lambda>t. t) ''c'') racing_threads = 1 \<and> begun (creates_code (\<lambda>t. t) ''c'') racing_threads = 1 \<and>
   length (filter (\<lambda>(e, p). \<exists>n. e = rotates n) rotating_threads) = 2 \<and> uses (rotates_token (\<lambda>t. t) ''r'') rotating_threads = 1"
proof -
  obtain T where "fold (memory_move (\<lambda>t. t)) racing_moves (Map.empty, []) = (T, racing_threads)" using racing_run by blast
  then have "(cluster_step memory_exec (\<lambda>T. T) (\<lambda>key. False) (\<lambda>t. t))\<^sup>*\<^sup>* (Map.empty, []) (T, racing_threads)"
    using memory_moves [of "\<lambda>key. False" "\<lambda>t. t" "(Map.empty, [])" racing_moves] by simp
  then have bound: "uses (uses_code (\<lambda>t. t) ''c'') racing_threads \<le> begun (creates_code (\<lambda>t. t) ''c'') racing_threads"
    by (rule dynamo_grants_used_once [OF memory.dynamo_table_axioms, THEN conjunct1]) simp
  have begun: "begun (creates_code (\<lambda>t. t) ''c'') racing_threads = 1"
    by (simp add: begun_def racing_threads_def sample_attempt_def)
  have "0 < uses (uses_code (\<lambda>t. t) ''c'') racing_threads"
    by (simp add: uses_def racing_threads_def sample_attempt_def)
  then have codes: "uses (uses_code (\<lambda>t. t) ''c'') racing_threads = 1" using bound begun by linarith
  obtain T' where "fold (memory_move (\<lambda>t. t)) rotating_moves (Map.empty, []) = (T', rotating_threads)" using rotating_run by blast
  then have "(cluster_step memory_exec (\<lambda>T. T) (\<lambda>key. key = refreshRotationKey ''r'') (\<lambda>t. t))\<^sup>*\<^sup>* (Map.empty, []) (T', rotating_threads)"
    using memory_moves [of "\<lambda>key. key = refreshRotationKey ''r''" "\<lambda>t. t" "(Map.empty, [])" rotating_moves] by simp
  from dynamo_grants_used_once [OF memory.dynamo_table_axioms this]
  have "uses (rotates_token (\<lambda>t. t) ''r'') rotating_threads \<le> 1" by simp
  moreover have "0 < uses (rotates_token (\<lambda>t. t) ''r'') rotating_threads"
    by (simp add: uses_def rotating_threads_def)
  ultimately have "uses (rotates_token (\<lambda>t. t) ''r'') rotating_threads = 1" by linarith
  moreover have "length (filter (\<lambda>(e, p). \<exists>n. e = rotates n) rotating_threads) = 2" by (simp add: rotating_threads_def)
  ultimately show ?thesis using codes begun by simp
qed

end
