(* ===== verification/Dynamo_Refinement.thy ===== *)
theory Dynamo_Refinement
  imports Dynamo_Properties
begin

text \<open>
  The two stores agree on authorization codes, upstream states and protocol sessions: an operation of the
  DynamoDB store on one of these that runs alone gives the result of the same operation of the file store,
  and leaves the table representing the file store's new state.  The file store drops expired upstream
  states, so these are compared while they live.  Refresh tokens are not compared, since the two stores
  differ in how a reused token is reported and in when a family ends, and neither are rate limits.
\<close>

section \<open>Running alone\<close>

primrec run_alone :: "int \<Rightarrow> 'a program \<Rightarrow> contents \<Rightarrow> 'a outcome \<times> contents" where
  "run_alone now (Return x) T = (Inr x, T)"
| "run_alone now (Throw e) T = (Inl e, T)"
| "run_alone now (Clock k) T = run_alone now (k now) T"
| "run_alone now (Call q k) T = run_alone now (k (fst (memory_answer q T))) (snd (memory_answer q T))"

definition result_of :: "disk_result outcome \<Rightarrow> disk_result" where
  "result_of r = (case r of Inl e \<Rightarrow> Threw e | Inr x \<Rightarrow> x)"

lemma result_of_simps [simp]: "result_of (Inl e) = Threw e" "result_of (Inr x) = x"
  by (simp_all add: result_of_def)

lemma run_alone_bind:
  "run_alone now (bindp p f) T = (case run_alone now p T of (Inl e, T') \<Rightarrow> (Inl e, T') | (Inr x, T') \<Rightarrow> run_alone now (f x) T')"
  by (induction p arbitrary: T) simp_all

lemma run_alone_outcome [simp]: "run_alone now (from_outcome r) T = (r, T)"
  by (cases r) (simp_all add: from_outcome_def)

lemma run_alone_get [simp]: "run_alone now (getItem key) T = (Inr (T key), T)"
  by (simp add: getItem_def answered_def)

lemma run_alone_put: "run_alone now (putItem it c) T =
    (if permitted c (T (item_key it)) then (Inr (), T(item_key it := Some it)) else (Inl condition_error, T))"
  by (simp add: putItem_def answered_def)

lemma run_alone_update: "run_alone now (updateItem key sets c) T =
    (if satisfies c (T key) then (Inr (), write_effect (Update key sets c) T) else (Inl condition_error, T))"
  by (simp add: updateItem_def answered_def)

lemma run_alone_delete: "run_alone now (deleteItem key c) T =
    (if permitted c (T key) then (Inr (T key), T(key := None)) else (Inl condition_error, T))"
  by (simp add: deleteItem_def answered_def)

lemma run_alone_catch:
  "run_alone now (catch_condition p h) T = (case run_alone now p T of
     (Inl e, T') \<Rightarrow> if e = condition_error then run_alone now h T' else (Inl e, T') | r \<Rightarrow> r)"
  by (induction p arbitrary: T) simp_all

lemmas run_alone_simps = run_alone_bind run_alone_put run_alone_update run_alone_delete run_alone_catch

section \<open>What the table represents\<close>

definition stored_code :: "auth_code_record \<Rightarrow> dynamo_item" where
  "stored_code r = code_item r @ (case ac_consumedAt r of None \<Rightarrow> [] | Some n \<Rightarrow> [(''consumedAt'', numberAttr n)])"

definition same_codes :: "contents \<Rightarrow> (string \<times> auth_code_record) list \<Rightarrow> bool" where
  "same_codes T codes = (\<forall>h. T (authorizationCodeKey h) = map_option stored_code (map_of codes h) \<and>
     (\<forall>r. map_of codes h = Some r \<longrightarrow> ac_codeHash r = h \<and> code_times_ok r \<and> ac_consumedAt r \<noteq> Some 0))"

definition same_state :: "int \<Rightarrow> string \<Rightarrow> dynamo_item option \<Rightarrow> upstream_state_record option \<Rightarrow> bool" where
  "same_state now h it found = (case it of
     None \<Rightarrow> pred_option (\<lambda>r. us_expiresAt r \<le> now) found
   | Some fs \<Rightarrow> (\<exists>r. fs = state_item r \<and> us_stateHash r = h \<and> state_times_ok r \<and>
       (found = Some r \<or> us_expiresAt r \<le> now \<and> found = None)))"

definition same_states :: "int \<Rightarrow> contents \<Rightarrow> (string \<times> upstream_state_record) list \<Rightarrow> bool" where
  "same_states now T states = (distinct (map fst states) \<and> (\<forall>h. same_state now h (T (upstreamStateKey h)) (map_of states h)))"

definition same_session :: "dynamo_item option \<Rightarrow> mcp_session_record option \<Rightarrow> bool" where
  "same_session it found = (case (it, found) of
     (None, None) \<Rightarrow> True
   | (Some fs, Some r) \<Rightarrow>
       map_of fs ''expiresAt'' = Some (N_attr (ms_expiresAt r)) \<and> safe_time (ms_expiresAt r) \<and>
       map_of fs ''protocolVersion'' = Some (S_attr (ms_protocolVersion r)) \<and>
       map_of fs ''terminatedAt'' = map_option N_attr (ms_terminatedAt r) \<and> pred_option (\<lambda>n. safe_time n \<and> 0 < n) (ms_terminatedAt r) \<and>
       map_of fs ''initializedAt'' = map_option N_attr (ms_initializedAt r) \<and> pred_option (\<lambda>n. safe_time n \<and> 0 < n) (ms_initializedAt r) \<and>
       map_of fs ''requestIds'' = (if ms_requestIdHashes r = [] then None else Some (SS_attr (ms_requestIdHashes r))) \<and>
       map_of fs ''requestIdCount'' = Some (N_attr (int (length (ms_requestIdHashes r))))
   | _ \<Rightarrow> False)"

definition same_sessions :: "contents \<Rightarrow> (string \<times> mcp_session_record) list \<Rightarrow> bool" where
  "same_sessions T sessions = (\<forall>sid. same_session (T (mcpSessionKey sid)) (map_of sessions sid))"

definition same_store :: "int \<Rightarrow> contents \<Rightarrow> store_state \<Rightarrow> bool" where
  "same_store now T st = (same_codes T (authorizationCodes st) \<and> same_states now T (upstreamStates st) \<and> same_sessions T (mcpSessions st))"

lemma same_store_empty: "same_store now Map.empty emptyStoreState"
  by (simp add: same_store_def same_codes_def same_states_def same_state_def same_sessions_def same_session_def emptyStoreState_def)

lemma same_state_later: "same_state now h it found \<Longrightarrow> now \<le> later \<Longrightarrow> same_state later h it found"
  by (cases it; cases found) (auto simp: same_state_def)

lemma same_store_later: "same_store now T st \<Longrightarrow> now \<le> later \<Longrightarrow> same_store later T st"
  unfolding same_store_def same_states_def using same_state_later by blast

lemma key_inject [simp]:
  "authorizationCodeKey h = authorizationCodeKey h' \<longleftrightarrow> h = h'" "upstreamStateKey h = upstreamStateKey h' \<longleftrightarrow> h = h'"
  "mcpSessionKey h = mcpSessionKey h' \<longleftrightarrow> h = h'"
  by (auto simp: key_defs attr_defs)

lemma key_distinct [simp]:
  "authorizationCodeKey h \<noteq> upstreamStateKey h'" "upstreamStateKey h \<noteq> authorizationCodeKey h'"
  "authorizationCodeKey h \<noteq> mcpSessionKey h'" "mcpSessionKey h \<noteq> authorizationCodeKey h'"
  "mcpSessionKey h \<noteq> upstreamStateKey h'" "upstreamStateKey h \<noteq> mcpSessionKey h'"
  by (auto simp: key_defs attr_defs)

lemma same_other [simp]:
  "same_codes (T(upstreamStateKey h := x)) codes = same_codes T codes" "same_codes (T(mcpSessionKey h := x)) codes = same_codes T codes"
  "same_states now (T(authorizationCodeKey h := x)) states = same_states now T states"
  "same_states now (T(mcpSessionKey h := x)) states = same_states now T states"
  "same_sessions (T(authorizationCodeKey h := x)) sessions = same_sessions T sessions"
  "same_sessions (T(upstreamStateKey h := x)) sessions = same_sessions T sessions"
  by (simp_all add: same_codes_def same_states_def same_sessions_def)

lemma same_codes_update:
  "same_codes T codes \<Longrightarrow> ac_codeHash r = h \<Longrightarrow> code_times_ok r \<Longrightarrow> ac_consumedAt r \<noteq> Some 0 \<Longrightarrow>
     same_codes (T(authorizationCodeKey h := Some (stored_code r))) (AList.update h r codes)"
  by (simp add: same_codes_def update_conv')

lemma compare_number [simp]: "compare_attribute le (Some (N_attr a)) (numberAttr b) = le a b"
  by (simp add: compare_attribute_def numberAttr_def)

section \<open>Codes\<close>

lemma stored_code_items:
  "map_of (stored_code r) ''recordType'' = Some (S_attr ''authorization_code'')"
  "map_of (stored_code r) ''record'' = Some (S_attr (json_text (code_record_json r)))"
  "map_of (stored_code r) ''expiresAt'' = Some (N_attr (ac_expiresAt r))"
  "map_of (stored_code r) ''consumedAt'' = map_option N_attr (ac_consumedAt r)"
  by (cases "ac_consumedAt r"; simp add: stored_code_def code_item_def storedRecordItem_def key_defs attr_defs)+

lemma stored_code_update:
  assumes "ac_consumedAt r = None"
  shows "AList.update ''consumedAt'' (numberAttr now) (AList.update ''record'' (stringAttr (json_text (code_record_json (r\<lparr>ac_consumedAt := Some now\<rparr>)))) (stored_code r)) =
    stored_code (r\<lparr>ac_consumedAt := Some now\<rparr>)"
  using assms by (simp add: stored_code_def code_item_def storedRecordItem_def key_defs)

lemma consume_validate:
  "consumeAuthorizationCode sha t v x now st = bindr (validateAuthorizationCode sha (map_of (authorizationCodes st) (sha t)) v x now) (\<lambda>r.
     Inr (r \<lparr> ac_consumedAt := Some now \<rparr>, st \<lparr> authorizationCodes := AList.update (sha t) (r \<lparr> ac_consumedAt := Some now \<rparr>) (authorizationCodes st) \<rparr>))"
  unfolding consumeAuthorizationCode_def validateAuthorizationCode_def isExpired_def
  by (cases "map_of (authorizationCodes st) (sha t)")
    (simp_all add: Let_def, cases "codeChallengeMet sha (ac_codeChallenge (the (map_of (authorizationCodes st) (sha t)))) v", simp_all)

lemma validate_code_eq:
  "validateAuthorizationCode sha (Some r) v x now = (if consumable sha v x now r then Inr r else Inl invalid_grant_error)"
proof -
  let ?st = "emptyStoreState \<lparr> authorizationCodes := [(sha t, r)] \<rparr>"
  let ?f = "\<lambda>r. Inr (r \<lparr> ac_consumedAt := Some now \<rparr>,
      ?st \<lparr> authorizationCodes := AList.update (sha t) (r \<lparr> ac_consumedAt := Some now \<rparr>) (authorizationCodes ?st) \<rparr>) :: (auth_code_record \<times> store_state) outcome"
  have look: "map_of (authorizationCodes ?st) (sha t) = Some r" by simp
  have eq: "bindr (validateAuthorizationCode sha (Some r) v x now) ?f = (if consumable sha v x now r then ?f r else Inl invalid_grant_error)"
    using consume_validate [of sha t v x now ?st] consume_eq [of sha t v x now ?st] unfolding look option.case by (rule subst)
  have same: "validateAuthorizationCode sha (Some r) v x now = Inr r' \<Longrightarrow> r' = r" for r'
    unfolding validateAuthorizationCode_def by (auto simp: bindr_eq_Inr split: if_splits)
  show ?thesis
  proof (cases "validateAuthorizationCode sha (Some r) v x now")
    case (Inl e)
    then show ?thesis using eq by (simp split: if_splits)
  next
    case (Inr r')
    then show ?thesis using eq same [OF Inr] by (simp split: if_splits)
  qed
qed

text \<open>Results agree, and the table represents the new state.\<close>

definition agrees :: "int \<Rightarrow> (string \<Rightarrow> string) \<Rightarrow> disk_event \<Rightarrow> contents \<Rightarrow> store_state \<Rightarrow> bool" where
  "agrees now sha e T st = (case (run_alone now (dynamo_program sha e) T, disk_apply sha e now st) of
     ((r, T'), (res, st')) \<Rightarrow> result_of r = res \<and> same_store now T' st')"

lemma consume_code_agrees:
  assumes "same_store now T st" "safe_time now" "0 < now"
  shows "agrees now sha (ConsumeCode t v x) T st"
proof (cases "map_of (authorizationCodes st) (sha t)")
  case None
  then have "T (authorizationCodeKey (sha t)) = None" using assms by (simp add: same_store_def same_codes_def)
  then show ?thesis
    using None assms(1) by (simp add: agrees_def dynamoConsumeAuthorizationCode_def Let_def run_alone_simps parseStoredRecord_def
        validateAuthorizationCode_def consume_eq with_result_def)
next
  case (Some r)
  have T: "T (authorizationCodeKey (sha t)) = Some (stored_code r)" and r: "code_times_ok r" "ac_codeHash r = sha t" "ac_consumedAt r \<noteq> Some 0"
    using Some assms(1) by (simp_all add: same_store_def same_codes_def)
  note read = stored_codes.stored_read [OF r(1) stored_code_items(1,2)]
  show ?thesis
  proof (cases "consumable sha v x now r")
    case False
    then show ?thesis
      using Some T assms(1) by (simp add: agrees_def dynamoConsumeAuthorizationCode_def Let_def run_alone_simps read
        validate_code_eq consume_eq with_result_def)
  next
    case True
    then have fresh: "ac_consumedAt r = None" "now < ac_expiresAt r"
      using r(3) by (auto simp: consumable_def truthy_time_def split: option.splits)
    let ?T = "T(authorizationCodeKey (sha t) := Some (stored_code (r\<lparr>ac_consumedAt := Some now\<rparr>)))"
    let ?st = "st \<lparr> authorizationCodes := AList.update (sha t) (r\<lparr>ac_consumedAt := Some now\<rparr>) (authorizationCodes st) \<rparr>"
    have "same_store now ?T ?st"
      using assms r by (simp add: same_store_def same_codes_update code_times_ok_def)
    moreover have "run_alone now (dynamo_program sha (ConsumeCode t v x)) T = (Inr (Code (r\<lparr>ac_consumedAt := Some now\<rparr>)), ?T)"
      using True fresh by (simp add: dynamoConsumeAuthorizationCode_def Let_def run_alone_simps read T validate_code_eq
          stored_code_items stored_code_update)
    ultimately show ?thesis using Some True by (simp add: agrees_def consume_eq with_result_def)
  qed
qed

lemma create_code_agrees:
  assumes "same_store now T st" "safe_time now" "safe_time (now + ci_ttlSeconds i)" "T (authorizationCodeKey (sha t)) = None"
  shows "agrees now sha (CreateCode t i) T st"
proof -
  let ?r = "new_code_record sha t i now"
  have r: "code_times_ok ?r" "ac_codeHash ?r = sha t" "ac_consumedAt ?r = None" "code_item ?r = stored_code ?r"
    using assms(2,3) by (simp_all add: new_code_record_def code_times_ok_def stored_code_def)
  have disk: "createAuthorizationCode sha t now i st = st \<lparr> authorizationCodes := AList.update (sha t) ?r (authorizationCodes st) \<rparr>"
    by (simp add: createAuthorizationCode_def new_code_record_def Let_def)
  have "same_store now (T(authorizationCodeKey (sha t) := Some (code_item ?r))) (createAuthorizationCode sha t now i st)"
    using assms(1) r(1-3) unfolding disk r(4) by (simp add: same_store_def same_codes_update)
  then show ?thesis using assms(4)
    by (simp add: agrees_def dynamoCreateAuthorizationCode_def run_alone_simps permitted_def)
qed

section \<open>Upstream states\<close>

lemma same_states_D: "same_states now T states \<Longrightarrow> same_state now h (T (upstreamStateKey h)) (map_of states h)"
  by (simp add: same_states_def)

lemma dynamo_prune_lookup:
  "distinct (map fst states) \<Longrightarrow> map_of (pruneExpiredUpstreamStates states now) h =
    Option.bind (map_of states h) (\<lambda>r. if us_expiresAt r \<le> now then None else Some r)"
  using lookup_pruned_states [of states now h] by (simp split: option.splits)

lemma prune_same:
  assumes "same_states now T states"
  shows "same_states now T (pruneExpiredUpstreamStates states now)"
proof -
  have "distinct (map fst states)" using assms by (simp add: same_states_def)
  moreover have "distinct (map fst (pruneExpiredUpstreamStates states now))"
    using calculation by (simp add: pruneExpiredUpstreamStates_def)
  moreover have "same_state now h (T (upstreamStateKey h)) (map_of (pruneExpiredUpstreamStates states now) h)" for h
    using same_states_D [OF assms, of h] unfolding dynamo_prune_lookup [OF calculation(1)]
    by (cases "T (upstreamStateKey h)"; cases "map_of states h") (auto simp: same_state_def)
  ultimately show ?thesis by (simp add: same_states_def)
qed

lemma same_states_update:
  "same_states now T states \<Longrightarrow> us_stateHash r = h \<Longrightarrow> state_times_ok r \<Longrightarrow>
     same_states now (T(upstreamStateKey h := Some (state_item r))) (AList.update h r states)"
  by (auto simp: same_states_def distinct_update update_conv' same_state_def)

lemma same_states_delete:
  "same_states now T states \<Longrightarrow> same_states now (T(upstreamStateKey h := None)) (AList.delete h states)"
  by (auto simp: same_states_def distinct_delete delete_conv' same_state_def)

lemma create_state_agrees:
  assumes "same_store now T st" "safe_time now" "safe_time (now + ui_ttlSeconds i)" "T (upstreamStateKey (sha t)) = None"
  shows "agrees now sha (CreateState t i) T st"
proof -
  let ?r = "new_state_record sha t i now"
  have r: "state_times_ok ?r" "us_stateHash ?r = sha t"
    using assms(2,3) by (simp_all add: new_state_record_def state_times_ok_def)
  have disk: "createUpstreamAuthorizationState sha t now i st =
      st \<lparr> upstreamStates := AList.update (sha t) ?r (pruneExpiredUpstreamStates (upstreamStates st) now) \<rparr>"
    by (simp add: createUpstreamAuthorizationState_def new_state_record_def Let_def)
  have "same_store now (T(upstreamStateKey (sha t) := Some (state_item ?r))) (createUpstreamAuthorizationState sha t now i st)"
    using assms(1) r unfolding disk by (simp add: same_store_def same_states_update prune_same)
  then show ?thesis using assms(4)
    by (simp add: agrees_def dynamoCreateUpstreamState_def run_alone_simps permitted_def)
qed

lemma state_items:
  "map_of (state_item r) ''recordType'' = Some (S_attr ''upstream_state'')"
  "map_of (state_item r) ''record'' = Some (S_attr (json_text (state_record_json r)))"
  "map_of (state_item r) ''expiresAt'' = Some (N_attr (us_expiresAt r))"
  by (simp_all add: state_item_def storedRecordItem_def key_defs attr_defs)

lemma invalid_not_condition [simp]: "invalid_grant_error \<noteq> condition_error"
  by (simp add: invalid_grant_error_def condition_error_def)

lemma consume_state_agrees:
  assumes "same_store now T st"
  shows "agrees now sha (ConsumeState t) T st"
proof -
  have states: "same_states now T (upstreamStates st)" using assms by (simp add: same_store_def)
  then have keys: "distinct (map fst (upstreamStates st))" by (simp add: same_states_def)
  let ?T = "T(upstreamStateKey (sha t) := None)"
  let ?pruned = "pruneExpiredUpstreamStates (upstreamStates st) now"
  note here = same_states_D [OF states, of "sha t"]
  show ?thesis
  proof (cases "\<exists>r. map_of (upstreamStates st) (sha t) = Some r \<and> now < us_expiresAt r")
    case True
    then obtain r where r: "map_of (upstreamStates st) (sha t) = Some r" "now < us_expiresAt r" by blast
    then have T: "T (upstreamStateKey (sha t)) = Some (state_item r)" "state_times_ok r"
      using here by (auto simp: same_state_def split: option.splits)
    note read = stored_states.stored_read [OF T(2) state_items(1,2)]
    have "same_store now ?T (st \<lparr> upstreamStates := AList.delete (sha t) ?pruned \<rparr>)"
      using assms by (simp add: same_store_def same_states_delete prune_same)
    then show ?thesis
      using r T by (simp add: agrees_def dynamoConsumeUpstreamState_def run_alone_simps permitted_def state_items read
        consumeUpstreamAuthorizationState_def dynamo_prune_lookup [OF keys] isExpired_def with_result_def)
  next
    case False
    then have none: "map_of ?pruned (sha t) = None"
      unfolding dynamo_prune_lookup [OF keys] by (cases "map_of (upstreamStates st) (sha t)") auto
    have "\<not> satisfies (Greater ''expiresAt'' (numberAttr now)) (T (upstreamStateKey (sha t)))"
      using here False by (auto simp: same_state_def state_items split: option.splits)
    then show ?thesis
      using none assms by (simp add: agrees_def dynamoConsumeUpstreamState_def run_alone_simps permitted_def
        consumeUpstreamAuthorizationState_def with_result_def)
  qed
qed

section \<open>Protocol sessions\<close>

lemma same_sessions_update:
  "same_sessions T sessions \<Longrightarrow> same_session (Some fs) (Some r) \<Longrightarrow>
     same_sessions (T(mcpSessionKey sid := Some fs)) (AList.update sid r sessions)"
  by (simp add: same_sessions_def update_conv')

lemma save_session_agrees:
  assumes "same_store now T st" "T (mcpSessionKey (ms_sessionIdHash r)) = None" "safe_time (ms_expiresAt r)"
    "ms_requestIdHashes r = []" "ms_initializedAt r = None" "ms_terminatedAt r = None"
  shows "agrees now sha (SaveSession r) T st"
proof -
  have "same_session (Some (session_item r)) (Some r)"
    using assms by (simp add: same_session_def session_item_def metaItem_def key_defs attr_defs)
  then have "same_store now (T(mcpSessionKey (ms_sessionIdHash r) := Some (session_item r))) (saveMcpSession r st)"
    using assms(1) by (simp add: same_store_def saveMcpSession_def same_sessions_update)
  then show ?thesis using assms(2)
    by (simp add: agrees_def dynamoSaveMcpSession_def run_alone_simps permitted_def)
qed

text \<open>A session that both stores accept, or both do not.\<close>

lemma session_validated:
  assumes "same_sessions T (mcpSessions st)" "safe_time now"
  shows "(case live_session sid now st of
     Inl e \<Rightarrow> e = session_not_found \<and> validateMcpSession (T (mcpSessionKey sid)) None now = Inl e \<and>
       validateMcpSession (T (mcpSessionKey sid)) (Some v) now = Inl e
   | Inr r \<Rightarrow> map_of (mcpSessions st) sid = Some r \<and> now < ms_expiresAt r \<and> ms_terminatedAt r = None \<and>
       (\<exists>fs. T (mcpSessionKey sid) = Some fs \<and> same_session (Some fs) (Some r) \<and> validateMcpSession (Some fs) None now = Inr fs \<and>
         validateMcpSession (Some fs) (Some v) now =
           (if ms_protocolVersion r \<noteq> v then Inl (ServiceError Bad_request ''unsupported protocol version'' 400) else Inr fs)))"
proof -
  have same: "same_session (T (mcpSessionKey sid)) (map_of (mcpSessions st) sid)" using assms(1) by (simp add: same_sessions_def)
  show ?thesis
  proof (cases "map_of (mcpSessions st) sid")
    case None
    then show ?thesis using same by (auto simp: live_session_def same_session_def validateMcpSession_def split: option.splits)
  next
    case (Some r)
    then obtain fs where fs: "T (mcpSessionKey sid) = Some fs" "same_session (Some fs) (Some r)"
      using same by (cases "T (mcpSessionKey sid)") (auto simp: same_session_def)
    then show ?thesis
      using Some by (cases "ms_terminatedAt r") (auto simp: live_session_def validateMcpSession_def same_session_def itemOptionalNumber_def
        itemNumber_def itemString_def safe_time_def isExpired_def truthy_time_def)
  qed
qed

lemma session_live_satisfied:
  "same_session (Some fs) (Some r) \<Longrightarrow> now < ms_expiresAt r \<Longrightarrow> ms_terminatedAt r = None \<Longrightarrow> satisfies (session_live_condition now) (Some fs)"
  by (simp add: session_live_condition_def same_session_def)

lemma not_found_not_condition [simp]: "session_not_found \<noteq> condition_error" "ServiceError k m n \<noteq> condition_error"
  by (simp_all add: session_not_found_def condition_error_def)

lemma touch_agrees:
  assumes "same_store now T st" "safe_time now" "0 < now"
  shows "agrees now sha (Touch sid v mark) T st"
proof -
  have sessions: "same_sessions T (mcpSessions st)" using assms(1) by (simp add: same_store_def)
  note both = session_validated [OF sessions assms(2), of sid]
  show ?thesis
  proof (cases "live_session sid now st")
    case (Inl e)
    then show ?thesis using both [of "the v"] assms(1)
      by (cases v) (simp_all add: agrees_def dynamoTouchMcpSession_def Let_def run_alone_simps touchMcpSession_def with_result_def)
  next
    case (Inr r)
    then obtain fs where fs: "T (mcpSessionKey sid) = Some fs" "same_session (Some fs) (Some r)"
      and r: "map_of (mcpSessions st) sid = Some r" "now < ms_expiresAt r" "ms_terminatedAt r = None"
      and valid: "validateMcpSession (Some fs) None now = Inr fs"
      using both [of undefined] by auto
    have valid': "validateMcpSession (Some fs) v now =
        (if v \<noteq> None \<and> ms_protocolVersion r \<noteq> the v then Inl (ServiceError Bad_request ''unsupported protocol version'' 400) else Inr fs)"
      using both [of "the v"] Inr fs(1) valid by (cases v) auto
    have init: "itemOptionalNumber fs ''initializedAt'' = Inr (ms_initializedAt r)"
      using fs(2) by (cases "ms_initializedAt r") (auto simp: same_session_def itemOptionalNumber_def safe_time_def)
    have truthy: "truthy_time (ms_initializedAt r) \<longleftrightarrow> ms_initializedAt r \<noteq> None"
      using fs(2) by (cases "ms_initializedAt r") (simp_all add: same_session_def truthy_time_def)
    let ?sets = "if mark \<and> ms_initializedAt r = None then [(''lastSeenAt'', numberAttr now), (''initializedAt'', numberAttr now)] else [(''lastSeenAt'', numberAttr now)]"
    let ?r = "if mark \<and> ms_initializedAt r = None then r \<lparr> ms_lastSeenAt := now, ms_initializedAt := Some now \<rparr> else r \<lparr> ms_lastSeenAt := now \<rparr>"
    have new: "same_session (Some (fold (\<lambda>(name, v). AList.update name v) ?sets fs)) (Some ?r)"
      using fs(2) assms(2,3) by (cases "mark \<and> ms_initializedAt r = None") (auto simp: same_session_def update_conv' numberAttr_def)
    note live = session_live_satisfied [OF fs(2) r(2,3)]
    show ?thesis
    proof (cases "v \<noteq> None \<and> ms_protocolVersion r \<noteq> the v")
      case True
      then show ?thesis using Inr fs(1) valid' assms(1)
        by (simp add: agrees_def dynamoTouchMcpSession_def Let_def run_alone_simps touchMcpSession_def with_result_def)
    next
      case False
      have "same_store now (T(mcpSessionKey sid := Some (fold (\<lambda>(name, v). AList.update name v) ?sets fs)))
          (st \<lparr> mcpSessions := AList.update sid ?r (mcpSessions st) \<rparr>)"
        using assms(1) same_sessions_update [OF sessions new] by (simp add: same_store_def)
      then show ?thesis using Inr fs(1) valid' False live init truthy
        by (cases "mark \<and> ms_initializedAt r = None")
          (auto simp add: agrees_def dynamoTouchMcpSession_def Let_def run_alone_simps touchMcpSession_def with_result_def)
    qed
  qed
qed

lemma terminate_agrees:
  assumes "same_store now T st" "safe_time now" "0 < now"
  shows "agrees now sha (Terminate sid) T st"
proof -
  have sessions: "same_sessions T (mcpSessions st)" using assms(1) by (simp add: same_store_def)
  note both = session_validated [OF sessions assms(2), of sid]
  let ?sets = "[(''terminatedAt'', numberAttr now), (''lastSeenAt'', numberAttr now)]"
  show ?thesis
  proof (cases "live_session sid now st")
    case (Inl e)
    have "\<not> satisfies (session_live_condition now) (T (mcpSessionKey sid))"
      using Inl sessions [unfolded same_sessions_def, THEN spec, of sid]
      by (auto simp: live_session_def session_live_condition_def same_session_def truthy_time_def isExpired_def split: option.splits if_splits)
    then show ?thesis using Inl both assms(1)
      by (simp add: agrees_def dynamoTerminateMcpSession_def run_alone_simps terminateMcpSession_def without_result_def)
  next
    case (Inr r)
    then obtain fs where fs: "T (mcpSessionKey sid) = Some fs" "same_session (Some fs) (Some r)"
      and r: "now < ms_expiresAt r" "ms_terminatedAt r = None"
      using both [of undefined] by auto
    let ?r = "r \<lparr> ms_terminatedAt := Some now, ms_lastSeenAt := now \<rparr>"
    have new: "same_session (Some (fold (\<lambda>(name, v). AList.update name v) ?sets fs)) (Some ?r)"
      using fs(2) assms(2,3) by (auto simp: same_session_def update_conv' numberAttr_def)
    have "same_store now (T(mcpSessionKey sid := Some (fold (\<lambda>(name, v). AList.update name v) ?sets fs)))
          (st \<lparr> mcpSessions := AList.update sid ?r (mcpSessions st) \<rparr>)"
      using assms(1) same_sessions_update [OF sessions new] by (simp add: same_store_def)
    then show ?thesis using Inr fs(1) session_live_satisfied [OF fs(2) r]
      by (simp add: agrees_def dynamoTerminateMcpSession_def run_alone_simps terminateMcpSession_def without_result_def)
  qed
qed

lemma reserve_agrees:
  assumes "same_store now T st" "safe_time now"
  shows "agrees now sha (Reserve sid rid) T st"
proof -
  have sessions: "same_sessions T (mcpSessions st)" using assms(1) by (simp add: same_store_def)
  note both = session_validated [OF sessions assms(2), of sid]
  have "(5 :: nat) = Suc 4" by simp
  then have program: "dynamo_program sha (Reserve sid rid) = bindp (bindp (tryReserveMcpRequestId sid rid) (\<lambda>reserved.
      case reserved of Some b \<Rightarrow> Return b | None \<Rightarrow> reserve_attempts 4 sid rid)) (\<lambda>b. Return (Flag b))"
    unfolding dynamo_program.simps dynamoReserveMcpRequestId_def by (simp only: reserve_attempts.simps)
  show ?thesis
  proof (cases "live_session sid now st")
    case (Inl e)
    then show ?thesis using both assms(1)
      unfolding agrees_def program
      by (simp add: tryReserveMcpRequestId_def Let_def run_alone_simps reserveMcpRequestId_def with_result_def)
  next
    case (Inr r)
    then obtain fs where fs: "T (mcpSessionKey sid) = Some fs" "same_session (Some fs) (Some r)"
      and r: "now < ms_expiresAt r" "ms_terminatedAt r = None"
      and valid: "validateMcpSession (Some fs) None now = Inr fs"
      using both [of undefined] by auto
    have ids: "readStringSet fs ''requestIds'' = Inr (ms_requestIdHashes r)"
      using fs(2) by (simp add: same_session_def readStringSet_def split: if_splits)
    let ?ids = "ms_requestIdHashes r"
    let ?sets = "[(''lastSeenAt'', numberAttr now), (''requestIds'', stringSetAttr (?ids @ [rid])), (''requestIdCount'', numberAttr (int (length ?ids) + 1))]"
    have count: "satisfies (Equals ''requestIdCount'' (numberAttr (int (length ?ids)))) (Some fs)"
      using fs(2) by (simp add: same_session_def numberAttr_def)
    let ?seen = "r \<lparr> ms_lastSeenAt := now \<rparr>"
    let ?r = "?seen \<lparr> ms_requestIdHashes := ?ids @ [rid] \<rparr>"
    have new: "same_session (Some (fold (\<lambda>(name, v). AList.update name v) ?sets fs)) (Some ?r)" "same_session (Some fs) (Some ?seen)"
      using fs(2) by (auto simp: same_session_def update_conv' attr_defs)
    have "same_store now (T(mcpSessionKey sid := Some (fold (\<lambda>(name, v). AList.update name v) ?sets fs)))
          (st \<lparr> mcpSessions := AList.update sid ?r (mcpSessions st) \<rparr>)"
      using assms(1) same_sessions_update [OF sessions new(1)] by (simp add: same_store_def)
    moreover have "same_store now T (st \<lparr> mcpSessions := AList.update sid ?seen (mcpSessions st) \<rparr>)"
      using assms(1) same_sessions_update [OF sessions new(2), of sid] fs(1) by (simp add: same_store_def fun_upd_idem)
    ultimately show ?thesis using Inr fs(1) valid ids count session_live_satisfied [OF fs(2) r] assms(1)
      unfolding agrees_def program
      by (simp add: tryReserveMcpRequestId_def Let_def run_alone_simps reserveMcpRequestId_def with_result_def)
  qed
qed

section \<open>The stores agree\<close>

text \<open>What an operation alone needs: a new key for what it creates, a new session without a past, and
  times that are safe integers.\<close>

fun sequential_ok :: "(string \<Rightarrow> string) \<Rightarrow> int \<Rightarrow> contents \<Rightarrow> disk_event \<Rightarrow> bool" where
  "sequential_ok sha now T (CreateCode t i) = (T (authorizationCodeKey (sha t)) = None \<and> safe_time (now + ci_ttlSeconds i))"
| "sequential_ok sha now T (ConsumeCode t v x) = True"
| "sequential_ok sha now T (CreateState t i) = (T (upstreamStateKey (sha t)) = None \<and> safe_time (now + ui_ttlSeconds i))"
| "sequential_ok sha now T (ConsumeState t) = True"
| "sequential_ok sha now T (SaveSession r) = (T (mcpSessionKey (ms_sessionIdHash r)) = None \<and> safe_time (ms_expiresAt r) \<and>
     ms_requestIdHashes r = [] \<and> ms_initializedAt r = None \<and> ms_terminatedAt r = None)"
| "sequential_ok sha now T (Touch sid v m) = True"
| "sequential_ok sha now T (Reserve sid rid) = True"
| "sequential_ok sha now T (Terminate sid) = True"
| "sequential_ok sha now T e = False"

text \<open>C7: On authorization codes, upstream states and protocol sessions the DynamoDB store implements the
  file store: started from a table that represents the file store's state, each operation on one of them
  that runs alone gives the result of the file store's operation, errors included, and leaves a table that
  represents its new state, now and at any later time.  The conditions are \<open>sequential_ok\<close>: the key of a
  created record is new in the table, a saved session has no past, and the times are safe integers; the
  clock is positive.  Refresh tokens and rate limits are not covered.\<close>

theorem dynamo_store_refines_file_store:
  assumes "same_store now T st" "sequential_ok sha now T e" "safe_time now" "0 < now" "now \<le> later"
    and "run_alone now (dynamo_program sha e) T = (r, T')" "disk_apply sha e now st = (res, st')"
  shows "result_of r = res \<and> same_store later T' st'"
proof -
  have "agrees now sha e T st"
    using assms(2) create_code_agrees [OF assms(1,3)] consume_code_agrees [OF assms(1,3,4)] create_state_agrees [OF assms(1,3)]
      consume_state_agrees [OF assms(1)] save_session_agrees [OF assms(1)] touch_agrees [OF assms(1,3,4)]
      reserve_agrees [OF assms(1,3)] terminate_agrees [OF assms(1,3,4)]
    by (cases e) simp_all
  then show ?thesis using assms(5-7) same_store_later unfolding agrees_def by auto
qed

definition alone_create :: disk_event where "alone_create = CreateCode ''c'' sample_code_input"

definition alone_table :: contents where
  "alone_table = snd (run_alone 1 (dynamo_program (\<lambda>t. t) alone_create) Map.empty)"

definition alone_state :: store_state where
  "alone_state = snd (disk_apply (\<lambda>t. t) alone_create 1 emptyStoreState)"

lemma dynamo_store_refines_file_store_witness:
  "result_of (fst (run_alone 8 (dynamo_program (\<lambda>t. t) sample_attempt) alone_table)) = Code sample_consumed"
proof -
  have safe: "safe_time 1" "safe_time 8" "safe_time (1 + ci_ttlSeconds sample_code_input)"
    by (simp_all add: safe_time_def max_safe_integer_def sample_code_input_def)
  have create: "sequential_ok (\<lambda>t. t) 1 Map.empty alone_create" using safe(3) by (simp add: alone_create_def)
  have "same_store 8 alone_table alone_state"
    using dynamo_store_refines_file_store [OF same_store_empty create safe(1), of 8
        "fst (run_alone 1 (dynamo_program (\<lambda>t. t) alone_create) Map.empty)" alone_table
        "fst (disk_apply (\<lambda>t. t) alone_create 1 emptyStoreState)" alone_state]
    unfolding alone_table_def alone_state_def by simp
  moreover have "sequential_ok (\<lambda>t. t) 8 alone_table sample_attempt" by (simp add: sample_attempt_def)
  ultimately have "result_of (fst (run_alone 8 (dynamo_program (\<lambda>t. t) sample_attempt) alone_table)) =
      fst (disk_apply (\<lambda>t. t) sample_attempt 8 alone_state)"
    using dynamo_store_refines_file_store [of 8 alone_table alone_state "\<lambda>t. t" sample_attempt 8
        "fst (run_alone 8 (dynamo_program (\<lambda>t. t) sample_attempt) alone_table)"
        "snd (run_alone 8 (dynamo_program (\<lambda>t. t) sample_attempt) alone_table)"
        "fst (disk_apply (\<lambda>t. t) sample_attempt 8 alone_state)" "snd (disk_apply (\<lambda>t. t) sample_attempt 8 alone_state)"] safe(2) by simp
  also have "fst (disk_apply (\<lambda>t. t) sample_attempt 8 alone_state) = Code sample_consumed"
    unfolding alone_state_def by code_simp
  finally show ?thesis .
qed

end
