(* ===== verification/Mcp_Rpc.thy ===== *)
theory Mcp_Rpc
  imports Tokens
begin

text \<open>
  The JSON-RPC layer of the MCP server: messages (\<open>mcp/json-rpc.ts\<close>), parameters and their \<open>_meta\<close>
  (\<open>request-params.ts\<close>, \<open>client-meta.ts\<close>), notifications (\<open>notifications.ts\<close>), lists in pages
  (\<open>pagination.ts\<close>) and the request identifiers that must not repeat (\<open>request-id.ts\<close>).  A message is
  what \<open>JSON.parse\<close> gave; the keys of an object are distinct.  A cursor whose octets are no UTF-8 is no JSON here.
\<close>

section \<open>Messages\<close>

datatype rpc_id = Text_id string | Number_id int

record rpc_request =
  rq_id :: "rpc_id option"
  rq_method :: string
  rq_params :: "js_object option"

fun id_json :: "rpc_id \<Rightarrow> json" where
  "id_json (Text_id s) = JStr s"
| "id_json (Number_id n) = JInt n"

definition only_keys :: "js_object \<Rightarrow> string list \<Rightarrow> bool" where
  "only_keys record allowed = list_all (\<lambda>(k, v). List.member allowed k) record"

definition bad_message :: "string \<Rightarrow> js_error" where
  "bad_message message = ServiceError Bad_request message 400"

definition assertOnlyKeys :: "js_object \<Rightarrow> string list \<Rightarrow> string \<Rightarrow> unit outcome" where
  "assertOnlyKeys record allowed message = (if \<not> only_keys record allowed then Inl (bad_message message) else Inr ())"

definition validateJsonRpcId :: "json \<Rightarrow> rpc_id outcome" where
  "validateJsonRpcId value = (case value of
     JStr s \<Rightarrow> Inr (Text_id s)
   | JNum n \<Rightarrow> if is_safe_integer n then Inr (Number_id (integer_value n)) else Inl (bad_message ''invalid json-rpc id'')
   | _ \<Rightarrow> Inl (bad_message ''invalid json-rpc id''))"

definition validateJsonRpcError :: "json \<Rightarrow> unit outcome" where
  "validateJsonRpcError value = bindr (asRecord (Some value) ''error'') (\<lambda>record.
     bindr (assertOnlyKeys record [''code'', ''message'', ''data''] ''invalid json-rpc error'') (\<lambda>_.
     case (field record ''code'', field record ''message'') of
       (Some (JNum n), Some (JStr s)) \<Rightarrow> if is_integer n then Inr () else Inl (bad_message ''invalid json-rpc error'')
     | _ \<Rightarrow> Inl (bad_message ''invalid json-rpc error'')))"

definition validateJsonRpcResult :: "json \<Rightarrow> unit outcome" where
  "validateJsonRpcResult value = (case value of JObj kvs \<Rightarrow> Inr () | _ \<Rightarrow> Inl (bad_message ''invalid json-rpc response''))"

definition isJsonRpcResponse :: "json \<Rightarrow> bool outcome" where
  "isJsonRpcResponse value = (case value of
     JObj record \<Rightarrow>
       if field record ''method'' \<noteq> None \<or> field record ''jsonrpc'' \<noteq> Some (JStr ''2.0'') then Inr False
       else (let hasResult = (field record ''result'' \<noteq> None); hasError = (field record ''error'' \<noteq> None) in
         if \<not> hasResult \<and> \<not> hasError then Inr False
         else bindr (assertOnlyKeys record (if hasResult then [''jsonrpc'', ''id'', ''result''] else [''jsonrpc'', ''id'', ''error''])
             ''invalid json-rpc response'') (\<lambda>_.
           if hasResult = hasError then Inl (bad_message ''invalid json-rpc response'')
           else (case field record ''id'' of
               None \<Rightarrow> Inl (bad_message ''invalid json-rpc response'')
             | Some i \<Rightarrow> bindr (validateJsonRpcId i) (\<lambda>_.
                 bindr (case field record ''result'' of None \<Rightarrow> Inr () | Some r \<Rightarrow> validateJsonRpcResult r) (\<lambda>_.
                 bindr (case field record ''error'' of None \<Rightarrow> Inr () | Some e \<Rightarrow> validateJsonRpcError e) (\<lambda>_. Inr True))))))
   | _ \<Rightarrow> Inr False)"

definition jsonRpcParams :: "json \<Rightarrow> js_object outcome" where
  "jsonRpcParams value = (case value of JObj kvs \<Rightarrow> Inr kvs | _ \<Rightarrow> Inl (bad_message ''invalid json-rpc params''))"

definition parseJsonRpc :: "json \<Rightarrow> rpc_request outcome" where
  "parseJsonRpc value = bindr (asRecord (Some value) ''json-rpc'') (\<lambda>record.
     bindr (assertOnlyKeys record [''jsonrpc'', ''id'', ''method'', ''params''] ''invalid json-rpc message'') (\<lambda>_.
     if field record ''jsonrpc'' \<noteq> Some (JStr ''2.0'') then Inl (bad_message ''invalid json-rpc version'')
     else if field record ''result'' \<noteq> None \<or> field record ''error'' \<noteq> None then Inl (bad_message ''invalid json-rpc message'')
     else bindr (requiredString record ''method'') (\<lambda>name.
       bindr (case field record ''id'' of None \<Rightarrow> Inr None | Some i \<Rightarrow> bindr (validateJsonRpcId i) (\<lambda>r. Inr (Some r))) (\<lambda>i.
       bindr (case field record ''params'' of None \<Rightarrow> Inr None | Some p \<Rightarrow> bindr (jsonRpcParams p) (\<lambda>ps. Inr (Some ps))) (\<lambda>ps.
         Inr \<lparr> rq_id = i, rq_method = name, rq_params = ps \<rparr>)))))"

definition jsonRpcSuccess :: "rpc_id \<Rightarrow> json \<Rightarrow> json" where
  "jsonRpcSuccess i result = JObj [(''jsonrpc'', JStr ''2.0''), (''id'', id_json i), (''result'', result)]"

definition jsonRpcError :: "rpc_id option \<Rightarrow> int \<Rightarrow> string \<Rightarrow> json" where
  "jsonRpcError i rpcCode message = JObj ([(''jsonrpc'', JStr ''2.0'')] @ (case i of None \<Rightarrow> [] | Some i' \<Rightarrow> [(''id'', id_json i')]) @
     [(''error'', JObj [(''code'', JInt rpcCode), (''message'', JStr message)])])"

section \<open>The \<open>_meta\<close> of a message\<close>

text \<open>\<open>labelPattern\<close> and \<open>namePattern\<close>.\<close>

definition is_meta_label :: "string \<Rightarrow> bool" where
  "is_meta_label s = (s \<noteq> [] \<and> (is_upper (hd s) \<or> is_lower (hd s)) \<and> is_alnum (last s) \<and> list_all (\<lambda>c. is_alnum c \<or> c = CHR ''-'') s)"

definition is_meta_name :: "string \<Rightarrow> bool" where
  "is_meta_name s = (s = [] \<or> is_alnum (hd s) \<and> is_alnum (last s) \<and>
     list_all (\<lambda>c. is_alnum c \<or> c = CHR ''.'' \<or> c = CHR ''_'' \<or> c = CHR ''-'') s)"

definition validMetaKey :: "string \<Rightarrow> bool" where
  "validMetaKey key = (case index_of (CHR ''/'') key of
     None \<Rightarrow> is_meta_name key
   | Some slash \<Rightarrow> take slash key \<noteq> [] \<and> list_all is_meta_label (split_on (CHR ''.'') (take slash key)) \<and> is_meta_name (drop (Suc slash) key))"

definition reservedMcpPrefix :: "string \<Rightarrow> bool" where
  "reservedMcpPrefix key = (case index_of (CHR ''/'') key of
     None \<Rightarrow> False
   | Some slash \<Rightarrow> (case split_on (CHR ''.'') (to_lower (take slash key)) of
       a # b # ls \<Rightarrow> b = ''modelcontextprotocol'' \<or> b = ''mcp'' | _ \<Rightarrow> False))"

definition ignoredTaskMetadataKey :: "string \<Rightarrow> bool" where
  "ignoredTaskMetadataKey key = (key = ''io.modelcontextprotocol/related-task'')"

fun meta_key_error :: "string \<Rightarrow> js_object \<Rightarrow> string option" where
  "meta_key_error context_name [] = None"
| "meta_key_error context_name ((key, v) # kvs) =
    (if \<not> validMetaKey key then Some (context_name @ '' _meta key has invalid format'')
     else if reservedMcpPrefix key \<and> \<not> ignoredTaskMetadataKey key then Some (context_name @ '' _meta key uses reserved MCP prefix'')
     else meta_key_error context_name kvs)"

text \<open>\<open>Inl\<close> is the message the source returns as a string.\<close>

definition validateClientMeta :: "json option \<Rightarrow> string \<Rightarrow> string + js_object option" where
  "validateClientMeta value context_name = (case value of
     None \<Rightarrow> Inr None
   | Some (JObj record) \<Rightarrow> (case meta_key_error context_name record of None \<Rightarrow> Inr (Some record) | Some message \<Rightarrow> Inl message)
   | Some _ \<Rightarrow> Inl (context_name @ '' _meta must be an object''))"

definition requestMetaError :: "json option \<Rightarrow> string \<Rightarrow> string option" where
  "requestMetaError value context_name = (case validateClientMeta value context_name of
     Inl message \<Rightarrow> Some message
   | Inr None \<Rightarrow> None
   | Inr (Some meta) \<Rightarrow> (case field meta ''progressToken'' of
       None \<Rightarrow> None | Some (JStr s) \<Rightarrow> None | Some (JNum (Finite r)) \<Rightarrow> None
     | Some _ \<Rightarrow> Some (context_name @ '' progressToken must be a string or finite number'')))"

definition notificationMetaError :: "json option \<Rightarrow> string \<Rightarrow> string option" where
  "notificationMetaError value context_name = (case validateClientMeta value context_name of Inl message \<Rightarrow> Some message | Inr m \<Rightarrow> None)"

section \<open>Parameters\<close>

definition validateMethodParams :: "js_object \<Rightarrow> string \<Rightarrow> string list \<Rightarrow> js_object outcome" where
  "validateMethodParams record name allowedKeys =
    (if \<not> only_keys record allowedKeys then Inl (McpProtocolError (- 32602) (name @ '' params contain unsupported fields''))
     else (case requestMetaError (field record ''_meta'') name of
       Some message \<Rightarrow> Inl (McpProtocolError (- 32602) message)
     | None \<Rightarrow> Inr record))"

definition optionalMethodParams :: "js_object option \<Rightarrow> string \<Rightarrow> string list \<Rightarrow> js_object option outcome" where
  "optionalMethodParams ps name allowedKeys = (case ps of
     None \<Rightarrow> Inr None | Some record \<Rightarrow> bindr (validateMethodParams record name allowedKeys) (\<lambda>r. Inr (Some r)))"

definition requiredMethodParams :: "js_object option \<Rightarrow> string \<Rightarrow> string list \<Rightarrow> js_object outcome" where
  "requiredMethodParams ps name allowedKeys = (case ps of
     None \<Rightarrow> Inl (McpProtocolError (- 32602) (name @ '' params must be an object''))
   | Some record \<Rightarrow> validateMethodParams record name allowedKeys)"

section \<open>Request identifiers\<close>

definition mcpRequestIdLimit :: nat where "mcpRequestIdLimit = 4096"

definition mcpRequestIdHash :: "(string \<Rightarrow> string) \<Rightarrow> rpc_id \<Rightarrow> string" where
  "mcpRequestIdHash sha i = sha (case i of Text_id s \<Rightarrow> ''string:'' @ s | Number_id n \<Rightarrow> ''number:'' @ int_text n)"

definition duplicateRequestIdError :: js_error where
  "duplicateRequestIdError = McpProtocolError (- 32600) ''duplicate json-rpc request id''"

section \<open>Lists in pages\<close>

definition invalidCursor :: js_error where "invalidCursor = McpProtocolError (- 32602) ''invalid cursor''"

definition encodeCursor :: "string \<Rightarrow> nat \<Rightarrow> string" where
  "encodeCursor name offset = encodeJsonBase64Url (JObj [(''v'', JInt 1), (''m'', JStr name), (''o'', JInt (int offset))])"

definition decodeCursor :: "string \<Rightarrow> string \<Rightarrow> nat outcome" where
  "decodeCursor cursor name =
    (if cursor = [] \<or> length cursor > 256 \<or> \<not> list_all is_base64url_char cursor then Inl invalidCursor
     else (case decodeJsonBase64Url cursor of
       Inr (JObj record) \<Rightarrow> (case field record ''o'' of
           Some (JNum n) \<Rightarrow>
             if field record ''v'' = Some (JInt 1) \<and> field record ''m'' = Some (JStr name) \<and> is_safe_integer n \<and> integer_value n > 0
             then Inr (nat (integer_value n)) else Inl invalidCursor
         | _ \<Rightarrow> Inl invalidCursor)
     | _ \<Rightarrow> Inl invalidCursor))"

definition cursorOffset :: "json option \<Rightarrow> string \<Rightarrow> nat \<Rightarrow> nat outcome" where
  "cursorOffset cursor name itemCount = (case cursor of
     None \<Rightarrow> Inr 0
   | Some (JStr s) \<Rightarrow> bindr (decodeCursor s name) (\<lambda>offset. if offset \<ge> itemCount then Inl invalidCursor else Inr offset)
   | Some _ \<Rightarrow> Inl (McpProtocolError (- 32602) (name @ '' cursor must be a string'')))"

definition paginatedList :: "js_object option \<Rightarrow> string \<Rightarrow> string \<Rightarrow> json list \<Rightarrow> nat \<Rightarrow> json outcome" where
  "paginatedList ps name resultKey items pageSize =
    bindr (optionalMethodParams ps name [''_meta'', ''cursor'']) (\<lambda>record.
    bindr (cursorOffset (case record of None \<Rightarrow> None | Some r \<Rightarrow> field r ''cursor'') name (length items)) (\<lambda>offset.
      let nextOffset = offset + pageSize in
      Inr (JObj ([(resultKey, JArr (take pageSize (drop offset items)))] @
        (if nextOffset < length items then [(''nextCursor'', JStr (encodeCursor name nextOffset))] else [])))))"

section \<open>Notifications\<close>

type_synonym notification_result = "nat \<times> json option"

definition invalidNotification :: "string \<Rightarrow> notification_result" where
  "invalidNotification message = (400, Some (jsonRpcError None (- 32600) message))"

text \<open>The checks give the message of the \<open>InvalidNotification\<close> they throw.\<close>

definition notificationKeys :: "js_object \<Rightarrow> string list \<Rightarrow> string \<Rightarrow> string + unit" where
  "notificationKeys record allowed name = (if \<not> only_keys record allowed then Inl (name @ '' contains unsupported fields'') else Inr ())"

definition notificationMeta :: "js_object \<Rightarrow> string + unit" where
  "notificationMeta record = (case notificationMetaError (field record ''_meta'') ''notification'' of Some message \<Rightarrow> Inl message | None \<Rightarrow> Inr ())"

definition validateNotificationParams :: "js_object option \<Rightarrow> string + unit" where
  "validateNotificationParams ps = (case ps of
     None \<Rightarrow> Inr ()
   | Some record \<Rightarrow> bindr (notificationKeys record [''_meta''] ''notification params'') (\<lambda>_. notificationMeta record))"

definition isRequestId :: "json option \<Rightarrow> bool" where
  "isRequestId value = (case value of Some (JStr s) \<Rightarrow> True | Some (JNum n) \<Rightarrow> is_safe_integer n | _ \<Rightarrow> False)"

definition validateCancelledParams :: "js_object option \<Rightarrow> string + unit" where
  "validateCancelledParams ps = (case ps of
     None \<Rightarrow> Inl ''cancelled notification params are required''
   | Some record \<Rightarrow> bindr (notificationKeys record [''_meta'', ''requestId'', ''reason''] ''cancelled notification params'') (\<lambda>_.
       bindr (notificationMeta record) (\<lambda>_.
       if \<not> isRequestId (field record ''requestId'') then Inl ''cancelled notification requestId is required''
       else (case field record ''reason'' of
           None \<Rightarrow> Inr () | Some (JStr s) \<Rightarrow> Inr () | Some _ \<Rightarrow> Inl ''cancelled notification reason must be a string''))))"

definition handleNotification :: "rpc_request \<Rightarrow> notification_result" where
  "handleNotification request =
    (let accept = (\<lambda>checked. case checked of Inl message \<Rightarrow> invalidNotification message | Inr u \<Rightarrow> (202, None)) in
     if \<not> starts_with ''notifications/'' (rq_method request) then invalidNotification ''request method requires id''
     else if rq_method request = ''notifications/initialized'' then accept (validateNotificationParams (rq_params request))
     else if rq_method request = ''notifications/cancelled'' then accept (validateCancelledParams (rq_params request))
     else if rq_method request = ''notifications/roots/list_changed'' then accept (validateNotificationParams (rq_params request))
     else invalidNotification ''unsupported notification method'')"

end
