(* ===== verification/Mcp_Lifecycle.thy ===== *)
theory Mcp_Lifecycle
  imports Mcp_Rpc
begin

text \<open>
  What an MCP client sends about itself and what the server answers: media types, icons and resource
  URIs (\<open>mcp/media-validation.ts\<close>), the client's implementation and capabilities
  (\<open>implementation.ts\<close>, \<open>client-capabilities.ts\<close>), \<open>initialize\<close> (\<open>lifecycle.ts\<close>,
  \<open>protocol-version.ts\<close>, \<open>shared/service-info.ts\<close>) and the challenge of an unauthorized request
  (\<open>auth-challenge.ts\<close>).  Regular expressions are predicates on the parts between their separators.
\<close>

section \<open>Media\<close>

definition is_base64_symbol :: "char \<Rightarrow> bool" where
  "is_base64_symbol c = (is_alnum c \<or> c = CHR ''+'' \<or> c = CHR ''/'')"

definition base64_padding :: "string \<Rightarrow> nat" where
  "base64_padding s = length (takeWhile (\<lambda>c. c = CHR ''='') (rev s))"

text \<open>\<open>base64Pattern\<close>, with the length a multiple of four.\<close>

definition isBase64 :: "json option \<Rightarrow> bool" where
  "isBase64 value = (case value of
     Some (JStr s) \<Rightarrow> length s mod 4 = 0 \<and> base64_padding s \<le> 2 \<and> list_all is_base64_symbol (take (length s - base64_padding s) s)
   | _ \<Rightarrow> False)"

definition is_subtype_char :: "char \<Rightarrow> bool" where
  "is_subtype_char c = (is_alnum c \<or> c = CHR ''.'' \<or> c = CHR ''+'' \<or> c = CHR ''-'')"

definition is_parameter_char :: "char \<Rightarrow> bool" where
  "is_parameter_char c = (is_alnum c \<or> List.member ''!#$&^_.+-'' c)"

definition is_word :: "(char \<Rightarrow> bool) \<Rightarrow> string \<Rightarrow> bool" where
  "is_word ok s = (s \<noteq> [] \<and> list_all ok s)"

definition is_media_parameter :: "string \<Rightarrow> bool" where
  "is_media_parameter s = (case split_on (CHR ''='') s of [a, b] \<Rightarrow> is_word is_parameter_char a \<and> is_word is_parameter_char b | _ \<Rightarrow> False)"

definition blank_start :: "string \<Rightarrow> string" where
  "blank_start s = dropWhile (\<lambda>c. c = CHR '' '' \<or> code c = 9) s"

text \<open>\<open>imageMimeTypePattern\<close> and \<open>audioMimeTypePattern\<close>: a family, a subtype and parameters.\<close>

definition is_mime_of :: "string \<Rightarrow> string \<Rightarrow> bool" where
  "is_mime_of family s = (case split_on (CHR '';'') s of
     [] \<Rightarrow> False
   | t # ps \<Rightarrow> starts_with family (to_lower t) \<and> is_word is_subtype_char (drop (length family) t) \<and>
       list_all (\<lambda>p. is_media_parameter (blank_start p)) ps)"

definition isImageMimeType :: "json option \<Rightarrow> bool" where
  "isImageMimeType value = (case value of Some (JStr s) \<Rightarrow> is_mime_of ''image/'' s | _ \<Rightarrow> False)"

definition isAudioMimeType :: "json option \<Rightarrow> bool" where
  "isAudioMimeType value = (case value of Some (JStr s) \<Rightarrow> is_mime_of ''audio/'' s | _ \<Rightarrow> False)"

definition isOptionalIconMimeType :: "json option \<Rightarrow> bool" where
  "isOptionalIconMimeType value = (value = None \<or> isImageMimeType value)"

definition isBinaryContentMimeType :: "string \<Rightarrow> json option \<Rightarrow> bool" where
  "isBinaryContentMimeType type value =
    (if type = ''image'' then isImageMimeType value else if type = ''audio'' then isAudioMimeType value else False)"

text \<open>\<open>dataUrlPattern\<close>: the media type and the data of \<open>data:<type>;base64,<data>\<close>; the parameters of the
  type are not preceded by white space.\<close>

definition data_url_parts :: "string \<Rightarrow> (string \<times> string) option" where
  "data_url_parts s = (case split_on (CHR '','') s of
     [head, data] \<Rightarrow>
       let mime = drop 5 (take (length head - 7) head) in
       if 12 \<le> length head \<and> to_lower (take 5 head) = ''data:'' \<and> to_lower (drop (length head - 7) head) = '';base64'' \<and>
          is_mime_of ''image/'' mime \<and> list_all is_media_parameter (tl (split_on (CHR '';'') mime)) \<and>
          base64_padding data \<le> 2 \<and> list_all is_base64_symbol (take (length data - base64_padding data) data)
       then Some (mime, data) else None
   | _ \<Rightarrow> None)"

definition protocol_in :: "url_parser \<Rightarrow> string list \<Rightarrow> string \<Rightarrow> bool" where
  "protocol_in parse_url allowed s = (case newURL parse_url s of Inl e \<Rightarrow> False | Inr url \<Rightarrow> List.member allowed (url_protocol url))"

definition isResourceUri :: "url_parser \<Rightarrow> json option \<Rightarrow> bool" where
  "isResourceUri parse_url value = (case value of Some (JStr s) \<Rightarrow> protocol_in parse_url [''https:'', ''http:'', ''ui:''] s | _ \<Rightarrow> False)"

definition isIconSource :: "url_parser \<Rightarrow> json option \<Rightarrow> bool" where
  "isIconSource parse_url value = (case value of
     Some (JStr s) \<Rightarrow> (case data_url_parts s of
         Some (mime, data) \<Rightarrow> isImageMimeType (Some (JStr mime)) \<and> isBase64 (Some (JStr data))
       | None \<Rightarrow> protocol_in parse_url [''http:'', ''https:''] s)
   | _ \<Rightarrow> False)"

definition is_positive_numeral :: "string \<Rightarrow> bool" where
  "is_positive_numeral s = (s \<noteq> [] \<and> hd s \<noteq> CHR ''0'' \<and> list_all is_digit s)"

definition is_icon_size :: "string \<Rightarrow> bool" where
  "is_icon_size s = (s = ''any'' \<or> (case split_on (CHR ''x'') s of [w, h] \<Rightarrow> is_positive_numeral w \<and> is_positive_numeral h | _ \<Rightarrow> False))"

definition isIconSizes :: "json option \<Rightarrow> bool" where
  "isIconSizes value = (case value of
     Some (JArr vs) \<Rightarrow> list_all (\<lambda>v. case v of JStr s \<Rightarrow> is_icon_size s | _ \<Rightarrow> False) vs | _ \<Rightarrow> False)"

section \<open>Implementation information\<close>

definition assertKeys :: "js_object \<Rightarrow> string list \<Rightarrow> string \<Rightarrow> unit outcome" where
  "assertKeys record allowed name = (if \<not> only_keys record allowed then Inl (badRequest (name @ '' contains unsupported fields'')) else Inr ())"

definition implementationName :: "js_object \<Rightarrow> string outcome" where
  "implementationName record = bindr (requiredString record ''name'') (\<lambda>name.
     if length name \<le> 128 \<and> list_all (\<lambda>c. is_alnum c \<or> List.member ''._:/ -'' c) name then Inr name
     else Inl (badRequest ''clientInfo.name is invalid''))"

definition implementationVersion :: "js_object \<Rightarrow> unit outcome" where
  "implementationVersion record = bindr (requiredString record ''version'') (\<lambda>version.
     if length version \<le> 128 \<and> list_all (\<lambda>c. 32 \<le> code c \<and> code c \<le> 126) version then Inr ()
     else Inl (badRequest ''clientInfo.version is invalid''))"

definition validateWebsiteUrl :: "url_parser \<Rightarrow> json option \<Rightarrow> unit outcome" where
  "validateWebsiteUrl parse_url value = (case value of
     None \<Rightarrow> Inr ()
   | Some (JStr s) \<Rightarrow> if protocol_in parse_url [''http:'', ''https:''] s then Inr () else Inl (badRequest ''websiteUrl must be a valid URL'')
   | Some _ \<Rightarrow> Inl (badRequest ''websiteUrl must be a string''))"

definition validTheme :: "json option \<Rightarrow> bool" where
  "validTheme value = (value = None \<or> value = Some (JStr ''light'') \<or> value = Some (JStr ''dark''))"

definition validateIcon :: "url_parser \<Rightarrow> json \<Rightarrow> unit outcome" where
  "validateIcon parse_url value = bindr (asRecord (Some value) ''icon'') (\<lambda>record.
     bindr (assertKeys record [''src'', ''mimeType'', ''sizes'', ''theme''] ''icon'') (\<lambda>_.
     bindr (requiredString record ''src'') (\<lambda>src.
     if \<not> isIconSource parse_url (Some (JStr src)) then Inl (badRequest ''src must be a valid icon URL'')
     else if \<not> isOptionalIconMimeType (field record ''mimeType'') then Inl (badRequest ''mimeType must be an image MIME type'')
     else if field record ''sizes'' \<noteq> None \<and> \<not> isIconSizes (field record ''sizes'') then Inl (badRequest ''sizes must be valid icon sizes'')
     else if \<not> validTheme (field record ''theme'') then Inl (badRequest ''theme must be light or dark'')
     else Inr ())))"

definition validateIcons :: "url_parser \<Rightarrow> json option \<Rightarrow> unit outcome" where
  "validateIcons parse_url value = (case value of
     None \<Rightarrow> Inr ()
   | Some (JArr vs) \<Rightarrow> bindr (mapr (validateIcon parse_url) vs) (\<lambda>_. Inr ())
   | Some _ \<Rightarrow> Inl (badRequest ''icons must be an array''))"

definition validateImplementation :: "url_parser \<Rightarrow> json option \<Rightarrow> string \<Rightarrow> js_object outcome" where
  "validateImplementation parse_url value fld = bindr (asRecord value fld) (\<lambda>record.
     bindr (assertKeys record [''icons'', ''name'', ''title'', ''version'', ''description'', ''websiteUrl''] fld) (\<lambda>_.
     bindr (implementationName record) (\<lambda>_. bindr (implementationVersion record) (\<lambda>_.
     bindr (optionalString record ''title'') (\<lambda>_. bindr (optionalString record ''description'') (\<lambda>_.
     bindr (validateWebsiteUrl parse_url (field record ''websiteUrl'')) (\<lambda>_.
     bindr (validateIcons parse_url (field record ''icons'')) (\<lambda>_. Inr record))))))))"

section \<open>Capabilities\<close>

definition requireObject :: "json \<Rightarrow> string \<Rightarrow> unit outcome" where
  "requireObject value name = bindr (asRecord (Some value) name) (\<lambda>_. Inr ())"

definition optionalObject :: "js_object \<Rightarrow> string \<Rightarrow> string \<Rightarrow> unit outcome" where
  "optionalObject record key name = (case field record key of None \<Rightarrow> Inr () | Some v \<Rightarrow> requireObject v name)"

definition optionalBoolean :: "js_object \<Rightarrow> string \<Rightarrow> string \<Rightarrow> unit outcome" where
  "optionalBoolean record key name = (case field record key of
     None \<Rightarrow> Inr () | Some (JBool b) \<Rightarrow> Inr () | Some _ \<Rightarrow> Inl (badRequest (name @ '' must be a boolean'')))"

definition objects_under :: "string \<Rightarrow> js_object \<Rightarrow> unit outcome" where
  "objects_under prefix_text record = bindr (mapr (\<lambda>(key, v). requireObject v (prefix_text @ ''.'' @ key)) record) (\<lambda>_. Inr ())"

definition when_present :: "json option \<Rightarrow> (json \<Rightarrow> unit outcome) \<Rightarrow> unit outcome" where
  "when_present value check = (case value of None \<Rightarrow> Inr () | Some v \<Rightarrow> check v)"

definition checked_record :: "json \<Rightarrow> string \<Rightarrow> string list \<Rightarrow> (js_object \<Rightarrow> unit outcome) \<Rightarrow> unit outcome" where
  "checked_record value name allowed check = bindr (asRecord (Some value) name) (\<lambda>record.
     bindr (assertKeys record allowed name) (\<lambda>_. check record))"

definition validateExperimental :: "json option \<Rightarrow> unit outcome" where
  "validateExperimental value = when_present value (\<lambda>v.
     bindr (asRecord (Some v) ''capabilities.experimental'') (objects_under ''capabilities.experimental''))"

definition validateRoots :: "json option \<Rightarrow> unit outcome" where
  "validateRoots value = when_present value (\<lambda>v. checked_record v ''capabilities.roots'' [''listChanged'']
     (\<lambda>r. optionalBoolean r ''listChanged'' ''capabilities.roots.listChanged''))"

definition validateSampling :: "json option \<Rightarrow> unit outcome" where
  "validateSampling value = when_present value (\<lambda>v. checked_record v ''capabilities.sampling'' [''context'', ''tools'']
     (\<lambda>r. bindr (optionalObject r ''context'' ''capabilities.sampling.context'') (\<lambda>_. optionalObject r ''tools'' ''capabilities.sampling.tools'')))"

definition validateElicitation :: "json option \<Rightarrow> unit outcome" where
  "validateElicitation value = when_present value (\<lambda>v. checked_record v ''capabilities.elicitation'' [''form'', ''url'']
     (\<lambda>r. bindr (optionalObject r ''form'' ''capabilities.elicitation.form'') (\<lambda>_. optionalObject r ''url'' ''capabilities.elicitation.url'')))"

definition validateSamplingTaskRequests :: "json \<Rightarrow> unit outcome" where
  "validateSamplingTaskRequests v = checked_record v ''capabilities.tasks.requests.sampling'' [''createMessage'']
     (\<lambda>r. optionalObject r ''createMessage'' ''capabilities.tasks.requests.sampling.createMessage'')"

definition validateElicitationTaskRequests :: "json \<Rightarrow> unit outcome" where
  "validateElicitationTaskRequests v = checked_record v ''capabilities.tasks.requests.elicitation'' [''create'']
     (\<lambda>r. optionalObject r ''create'' ''capabilities.tasks.requests.elicitation.create'')"

definition validateTaskRequests :: "json \<Rightarrow> unit outcome" where
  "validateTaskRequests v = checked_record v ''capabilities.tasks.requests'' [''sampling'', ''elicitation'']
     (\<lambda>r. bindr (when_present (field r ''sampling'') validateSamplingTaskRequests) (\<lambda>_.
        when_present (field r ''elicitation'') validateElicitationTaskRequests))"

definition validateTasks :: "json option \<Rightarrow> unit outcome" where
  "validateTasks value = when_present value (\<lambda>v. checked_record v ''capabilities.tasks'' [''list'', ''cancel'', ''requests'']
     (\<lambda>r. bindr (optionalObject r ''list'' ''capabilities.tasks.list'') (\<lambda>_.
        bindr (optionalObject r ''cancel'' ''capabilities.tasks.cancel'') (\<lambda>_.
        when_present (field r ''requests'') validateTaskRequests))))"

definition validateClientCapabilities :: "js_object \<Rightarrow> unit outcome" where
  "validateClientCapabilities capabilities =
    bindr (objects_under ''capabilities'' capabilities) (\<lambda>_.
    bindr (validateExperimental (field capabilities ''experimental'')) (\<lambda>_.
    bindr (validateRoots (field capabilities ''roots'')) (\<lambda>_.
    bindr (validateSampling (field capabilities ''sampling'')) (\<lambda>_.
    bindr (validateElicitation (field capabilities ''elicitation'')) (\<lambda>_.
    validateTasks (field capabilities ''tasks''))))))"

section \<open>initialize\<close>

definition supportedProtocolVersion :: string where "supportedProtocolVersion = ''2025-11-25''"

definition negotiateProtocolVersion :: "string option \<Rightarrow> string outcome" where
  "negotiateProtocolVersion version =
    (if version = None \<or> version = Some [] \<or> version = Some supportedProtocolVersion then Inr supportedProtocolVersion
     else Inl (ServiceError Bad_request ''unsupported protocol version'' 400))"

definition serviceIcon :: json where
  "serviceIcon = JObj [(''src'', JStr ''data:image/svg+xml;base64,PHN2ZyB4bWxucz0iaHR0cDovL3d3dy53My5vcmcvMjAwMC9zdmciIHZpZXdCb3g9IjAgMCA2NCA2NCI+PHJlY3Qgd2lkdGg9IjY0IiBoZWlnaHQ9IjY0IiByeD0iMTQiIGZpbGw9IiMwZjE3MmEiLz48cGF0aCBkPSJNMTggMzJjMC03LjczMiA2LjI2OC0xNCAxNC0xNHMxNCA2LjI2OCAxNCAxNGMwIDcuNzMyLTYuMjY4IDE0LTE0IDE0cy0xNC02LjI2OC0xNC0xNHoiIGZpbGw9IiM1ZWU3YjciLz48cGF0aCBkPSJNMzIgMjR2MTZtLTgtOGgxNiIgc3Ryb2tlPSIjMGYxNzJhIiBzdHJva2Utd2lkdGg9IjQiIHN0cm9rZS1saW5lY2FwPSJyb3VuZCIvPjwvc3ZnPg==''),
     (''mimeType'', JStr ''image/svg+xml''), (''sizes'', JArr [JStr ''any''])]"

definition serverImplementationInfo :: "string \<Rightarrow> json" where
  "serverImplementationInfo websiteUrl = JObj [(''name'', JStr ''gpt-mcp-service''), (''title'', JStr ''GPT MCP Service''),
     (''version'', JStr ''0.1.0''), (''description'', JStr ''OAuth-backed MCP service for ChatGPT Apps and Actions.''),
     (''icons'', JArr [serviceIcon]), (''websiteUrl'', JStr websiteUrl)]"

definition serverInstructions :: string where
  "serverInstructions = ''Use health.check for service reachability. Use health.status_card when the user needs an inline health UI card. Use auth.session to inspect the current OAuth token session. Use identity.profile when the user needs their authenticated profile. Use identity.profile_card when the user needs an inline profile UI card. Protected tools require MCP audience tokens with the listed scopes.''"

definition initializeParams :: "url_parser \<Rightarrow> js_object option \<Rightarrow> js_object outcome" where
  "initializeParams parse_url ps =
    (case bindr (requiredMethodParams ps ''initialize'' [''_meta'', ''protocolVersion'', ''capabilities'', ''clientInfo'']) (\<lambda>record.
        bindr (requiredString record ''protocolVersion'') (\<lambda>_.
        bindr (asRecord (field record ''capabilities'') ''capabilities'') (\<lambda>capabilities.
        bindr (validateClientCapabilities capabilities) (\<lambda>_.
        bindr (validateImplementation parse_url (field record ''clientInfo'') ''clientInfo'') (\<lambda>_. Inr record))))) of
       Inr record \<Rightarrow> Inr record
     | Inl (McpProtocolError n m) \<Rightarrow> Inl (McpProtocolError n m)
     | Inl e \<Rightarrow> (case as_service_error e of Some (c, message, status) \<Rightarrow> Inl (McpProtocolError (- 32602) message) | None \<Rightarrow> Inl e))"

definition initializeResult :: "url_parser \<Rightarrow> service_config \<Rightarrow> js_object option \<Rightarrow> json outcome" where
  "initializeResult parse_url config ps = bindr (initializeParams parse_url ps) (\<lambda>record.
     bindr (requiredString record ''protocolVersion'') (\<lambda>requested.
       Inr (JObj [(''protocolVersion'', JStr (if requested = supportedProtocolVersion then requested else supportedProtocolVersion)),
         (''capabilities'', JObj [(''tools'', JObj [(''listChanged'', JBool False)]), (''resources'', JObj [])]),
         (''serverInfo'', serverImplementationInfo (issuer config)), (''instructions'', JStr serverInstructions)])))"

definition initializeClientId :: "url_parser \<Rightarrow> js_object option \<Rightarrow> string outcome" where
  "initializeClientId parse_url ps = bindr (initializeParams parse_url ps) (\<lambda>record.
     bindr (validateImplementation parse_url (field record ''clientInfo'') ''clientInfo'') implementationName)"

section \<open>The challenge of an unauthorized request\<close>

definition quoteAuthValue :: "string \<Rightarrow> string" where
  "quoteAuthValue s = dquote # concat (map (\<lambda>c. if c = backslash \<or> c = dquote then [backslash, c] else [c]) s) @ [dquote]"

definition authParameter :: "string \<Rightarrow> string \<Rightarrow> string" where
  "authParameter name v = name @ ''='' @ quoteAuthValue v"

text \<open>The argument is the status of the error, if there is one.\<close>

definition challengeParameters :: "nat option \<Rightarrow> string \<times> string" where
  "challengeParameters status = (if status = Some 403 then (''insufficient_scope'', ''Additional authorization scopes required.'')
     else (''invalid_token'', ''Authentication required.''))"

definition wwwAuthenticate :: "url_parser \<Rightarrow> service_config \<Rightarrow> string list \<Rightarrow> nat option \<Rightarrow> string outcome" where
  "wwwAuthenticate parse_url config scopes status = bindr (protectedResourceMetadataUrl parse_url (mcpResource config)) (\<lambda>metadata.
     let scope = join_with '' '' scopes; challenge = challengeParameters status in
     Inr (''Bearer '' @ join_with '', '' ([authParameter ''error'' (fst challenge), authParameter ''error_description'' (snd challenge),
       authParameter ''resource_metadata'' metadata] @ (if scope \<noteq> [] then [authParameter ''scope'' scope] else []))))"

definition text_content :: "string \<Rightarrow> json" where
  "text_content s = JObj [(''type'', JStr ''text''), (''text'', JStr s)]"

definition authChallengeResult :: "url_parser \<Rightarrow> service_config \<Rightarrow> string list \<Rightarrow> nat option \<Rightarrow> js_object outcome" where
  "authChallengeResult parse_url config scopes status = bindr (wwwAuthenticate parse_url config scopes status) (\<lambda>challenge.
     Inr [(''content'', JArr [text_content (if status = Some 403 then ''Additional authorization scopes required.'' else ''Authentication required.'')]),
       (''isError'', JBool True), (''_meta'', JObj [(''mcp/www_authenticate'', JArr [JStr challenge])])])"

definition extractWwwAuthenticate :: "json \<Rightarrow> string list option" where
  "extractWwwAuthenticate value = (case value of
     JObj fs \<Rightarrow> (case field fs ''_meta'' of
         Some (JObj meta) \<Rightarrow> (case field meta ''mcp/www_authenticate'' of
             Some (JArr vs) \<Rightarrow> those (map (\<lambda>v. json_string (Some v)) vs) | _ \<Rightarrow> None)
       | _ \<Rightarrow> None)
   | _ \<Rightarrow> None)"

end
