(* ===== verification/Mcp_Schema.thy ===== *)
theory Mcp_Schema
  imports Mcp_Lifecycle
begin

text \<open>
  The JSON schemas that tools declare and the values checked against them
  (\<open>mcp/schema-validation.ts\<close>, the schema part of \<open>tool-registry.ts\<close>, \<open>tool-schemas.ts\<close>) and the
  shape of a tool's result (\<open>tool-result.ts\<close>).  Objects of requests have the members of
  \<open>Object.prototype\<close> besides their own; schemas do not use those names.
\<close>

section \<open>Schemas\<close>

definition prototype_members :: "string list" where
  "prototype_members = [''constructor'', ''__defineGetter__'', ''__defineSetter__'', ''hasOwnProperty'', ''__lookupGetter__'',
     ''__lookupSetter__'', ''isPrototypeOf'', ''propertyIsEnumerable'', ''toString'', ''valueOf'', ''__proto__'', ''toLocaleString'']"

text \<open>\<open>Object.is\<close> of two parsed values: objects are never the same.\<close>

definition same_primitive :: "json \<Rightarrow> json \<Rightarrow> bool" where
  "same_primitive a b = (case a of JArr vs \<Rightarrow> False | JObj kvs \<Rightarrow> False | _ \<Rightarrow> a = b)"

definition enum_allows :: "js_object \<Rightarrow> json \<Rightarrow> bool" where
  "enum_allows schema value = (case field schema ''enum'' of Some (JArr entries) \<Rightarrow> list_ex (\<lambda>e. same_primitive e value) entries | _ \<Rightarrow> True)"

definition schemaProperties :: "js_object \<Rightarrow> js_object option" where
  "schemaProperties schema = (case field schema ''properties'' of
     None \<Rightarrow> Some []
   | Some (JObj ps) \<Rightarrow> if list_all (\<lambda>(k, p). json_object (Some p) \<noteq> None) ps then Some ps else None
   | Some _ \<Rightarrow> None)"

definition schemaRequired :: "js_object \<Rightarrow> string list option" where
  "schemaRequired schema = (case field schema ''required'' of
     None \<Rightarrow> Some []
   | Some (JArr vs) \<Rightarrow> those (map (\<lambda>v. json_string (Some v)) vs)
   | Some _ \<Rightarrow> None)"

definition known_property :: "js_object \<Rightarrow> string \<Rightarrow> bool" where
  "known_property properties key = (field properties key \<noteq> None \<or> List.member prototype_members key)"

lemma member_size: "(k, v) \<in> set kvs \<Longrightarrow> size v < size (JObj kvs)"
  by (induction kvs) auto

lemma field_size: "field kvs k = Some v \<Longrightarrow> size v < size (JObj kvs)"
  by (drule map_of_SomeD) (rule member_size)

lemma schemaProperties_size:
  assumes "schemaProperties schema = Some ps" "(k, p) \<in> set ps"
  shows "size p < size (JObj schema)"
proof -
  obtain qs where "ps = [] \<or> field schema ''properties'' = Some (JObj qs) \<and> ps = qs"
    using assms(1) by (auto simp: schemaProperties_def split: option.splits json.splits if_splits)
  then show ?thesis using assms(2) field_size [of schema "''properties''"] member_size [of k p ps] by fastforce
qed

function (sequential) matchesSchema :: "json \<Rightarrow> json \<Rightarrow> bool" where
  "matchesSchema (JObj schema) value = (enum_allows schema value \<and> (case field schema ''type'' of
     Some (JStr type) \<Rightarrow>
       if type = ''object'' then (case value of
           JObj fs \<Rightarrow> (case (schemaProperties schema, schemaRequired schema) of
               (Some properties, Some required) \<Rightarrow>
                 list_all (\<lambda>key. field fs key \<noteq> None) required \<and>
                 (field schema ''additionalProperties'' = Some (JBool False) \<longrightarrow> list_all (\<lambda>(key, v). known_property properties key) fs) \<and>
                 (\<forall>(key, p) \<in> set properties. case field fs key of None \<Rightarrow> True | Some v \<Rightarrow> matchesSchema p v)
             | _ \<Rightarrow> False)
         | _ \<Rightarrow> False)
       else if type = ''array'' then (case value of
           JArr vs \<Rightarrow> (case field schema ''items'' of
               Some items \<Rightarrow> json_object (Some items) \<noteq> None \<and> (\<forall>v \<in> set vs. matchesSchema items v)
             | None \<Rightarrow> False)
         | _ \<Rightarrow> False)
       else if type = ''string'' then json_string (Some value) \<noteq> None
       else if type = ''boolean'' then (case value of JBool b \<Rightarrow> True | _ \<Rightarrow> False)
       else if type = ''number'' then (case value of JNum (Finite r) \<Rightarrow> True | _ \<Rightarrow> False)
       else if type = ''integer'' then (case value of JNum n \<Rightarrow> is_safe_integer n | _ \<Rightarrow> False)
       else False
   | _ \<Rightarrow> False))"
| "matchesSchema schema value = False"
  by pat_completeness auto
termination
  by (relation "measure (\<lambda>(s, v). size s)")
    (auto simp del: json.size dest: schemaProperties_size [OF sym] field_size)

definition matches_optional :: "json \<Rightarrow> json option \<Rightarrow> bool" where
  "matches_optional schema value = (case value of None \<Rightarrow> False | Some v \<Rightarrow> matchesSchema schema v)"

definition invalid_output :: js_error where "invalid_output = ServiceError Server_error ''invalid tool output'' 500"

definition assertMatchesSchema :: "json \<Rightarrow> json option \<Rightarrow> unit outcome" where
  "assertMatchesSchema schema value = (if \<not> matches_optional schema value then Inl invalid_output else Inr ())"

section \<open>Schemas of the registry\<close>

definition stringSchema :: "string \<Rightarrow> json" where
  "stringSchema description = JObj [(''type'', JStr ''string''), (''description'', JStr description)]"

definition booleanSchema :: "string \<Rightarrow> json" where
  "booleanSchema description = JObj [(''type'', JStr ''boolean''), (''description'', JStr description)]"

definition stringArraySchema :: "string \<Rightarrow> string \<Rightarrow> json" where
  "stringArraySchema description itemDescription =
    JObj [(''type'', JStr ''array''), (''description'', JStr description), (''items'', stringSchema itemDescription)]"

text \<open>Every caller leaves \<open>required\<close> out, so that all properties are.\<close>

definition objectSchema :: "string \<Rightarrow> js_object \<Rightarrow> json" where
  "objectSchema description properties = JObj [(''type'', JStr ''object''), (''description'', JStr description),
     (''required'', JArr (map (\<lambda>(k, p). JStr k) properties)), (''properties'', JObj properties), (''additionalProperties'', JBool False)]"

definition emptyInputSchema :: json where "emptyInputSchema = objectSchema ''No input arguments.'' []"

text \<open>\<open>String(record.type)\<close>, as far as it can be the name of a type: arrays of one element are its text.\<close>

fun schema_word :: "json \<Rightarrow> string" where
  "schema_word (JStr s) = s"
| "schema_word (JArr [v]) = schema_word v"
| "schema_word _ = []"

definition optional_texts :: "json option \<Rightarrow> bool" where
  "optional_texts value = (case value of
     None \<Rightarrow> True | Some (JArr vs) \<Rightarrow> list_all (\<lambda>v. json_string (Some v) \<noteq> None) vs | Some _ \<Rightarrow> False)"

definition optional_text :: "json option \<Rightarrow> bool" where
  "optional_text value = (value = None \<or> json_string value \<noteq> None)"

definition optional_flag :: "json option \<Rightarrow> bool" where
  "optional_flag value = (case value of None \<Rightarrow> True | Some (JBool b) \<Rightarrow> True | Some _ \<Rightarrow> False)"

lemma member_of_field_size: "field rec f = Some (JObj ps) \<Longrightarrow> (k, p) \<in> set ps \<Longrightarrow> size p < size (JObj rec)"
  using field_size [of rec f "JObj ps"] member_size [of k p ps] by linarith

function (sequential) isDescribedSchema :: "json \<Rightarrow> bool" where
  "isDescribedSchema (JObj record) =
    (optional_text (field record ''$schema'') \<and>
     (case field record ''description'' of Some (JStr s) \<Rightarrow> s \<noteq> [] | _ \<Rightarrow> False) \<and>
     (if field record ''type'' = Some (JStr ''object'') then
        (case field record ''properties'' of
           None \<Rightarrow> True | Some (JObj ps) \<Rightarrow> (\<forall>(k, p) \<in> set ps. isDescribedSchema p) | Some _ \<Rightarrow> False) \<and>
        optional_texts (field record ''required'') \<and> optional_flag (field record ''additionalProperties'')
      else if field record ''type'' = Some (JStr ''array'') then
        (case field record ''items'' of None \<Rightarrow> False | Some items \<Rightarrow> isDescribedSchema items)
      else (case field record ''type'' of None \<Rightarrow> False
          | Some t \<Rightarrow> List.member [''string'', ''boolean'', ''number'', ''integer''] (schema_word t)) \<and>
        optional_texts (field record ''required'')))"
| "isDescribedSchema schema = False"
  by pat_completeness auto

termination
  by (relation "measure size") (auto simp del: json.size dest: member_of_field_size field_size)

definition isObjectSchema :: "json \<Rightarrow> bool" where
  "isObjectSchema schema = (isDescribedSchema schema \<and>
     (case schema of JObj record \<Rightarrow> field record ''type'' = Some (JStr ''object'') | _ \<Rightarrow> False))"

section \<open>The result of a tool\<close>

definition optionalRecord :: "json option \<Rightarrow> bool" where
  "optionalRecord value = (value = None \<or> json_object value \<noteq> None)"

definition is_audience :: "json \<Rightarrow> bool" where
  "is_audience v = (v = JStr ''user'' \<or> v = JStr ''assistant'')"

definition optionalAnnotations :: "json option \<Rightarrow> bool" where
  "optionalAnnotations value = (case value of
     None \<Rightarrow> True
   | Some (JObj record) \<Rightarrow> only_keys record [''audience'', ''priority'', ''lastModified''] \<and>
       (case field record ''audience'' of None \<Rightarrow> True | Some (JArr vs) \<Rightarrow> list_all is_audience vs | Some _ \<Rightarrow> False) \<and>
       (case field record ''priority'' of None \<Rightarrow> True | Some (JNum (Finite r)) \<Rightarrow> 0 \<le> r \<and> r \<le> 1 | Some _ \<Rightarrow> False) \<and>
       optional_text (field record ''lastModified'')
   | Some _ \<Rightarrow> False)"

definition isTextContent :: "js_object \<Rightarrow> bool" where
  "isTextContent value = (only_keys value [''type'', ''text'', ''annotations'', ''_meta''] \<and>
     json_string (field value ''text'') \<noteq> None \<and> optionalAnnotations (field value ''annotations'') \<and> optionalRecord (field value ''_meta''))"

definition isBinaryContent :: "string \<Rightarrow> js_object \<Rightarrow> bool" where
  "isBinaryContent type value = (only_keys value [''type'', ''data'', ''mimeType'', ''annotations'', ''_meta''] \<and>
     isBase64 (field value ''data'') \<and> isBinaryContentMimeType type (field value ''mimeType'') \<and>
     optionalAnnotations (field value ''annotations'') \<and> optionalRecord (field value ''_meta''))"

definition isIcon :: "url_parser \<Rightarrow> json \<Rightarrow> bool" where
  "isIcon parse_url value = (case value of
     JObj record \<Rightarrow> only_keys record [''src'', ''mimeType'', ''sizes'', ''theme''] \<and>
       isIconSource parse_url (field record ''src'') \<and> isOptionalIconMimeType (field record ''mimeType'') \<and>
       (field record ''sizes'' = None \<or> isIconSizes (field record ''sizes'')) \<and> validTheme (field record ''theme'')
   | _ \<Rightarrow> False)"

definition optionalIcons :: "url_parser \<Rightarrow> json option \<Rightarrow> bool" where
  "optionalIcons parse_url value = (case value of None \<Rightarrow> True | Some (JArr vs) \<Rightarrow> list_all (isIcon parse_url) vs | Some _ \<Rightarrow> False)"

definition optionalSize :: "json option \<Rightarrow> bool" where
  "optionalSize value = (case value of None \<Rightarrow> True | Some (JNum n) \<Rightarrow> is_safe_integer n \<and> 0 \<le> integer_value n | Some _ \<Rightarrow> False)"

definition isResourceLink :: "url_parser \<Rightarrow> js_object \<Rightarrow> bool" where
  "isResourceLink parse_url value =
    (only_keys value [''type'', ''icons'', ''name'', ''title'', ''uri'', ''description'', ''mimeType'', ''annotations'', ''size'', ''_meta''] \<and>
     optionalIcons parse_url (field value ''icons'') \<and> json_string (field value ''name'') \<noteq> None \<and>
     isResourceUri parse_url (field value ''uri'') \<and> optional_text (field value ''title'') \<and> optional_text (field value ''description'') \<and>
     optional_text (field value ''mimeType'') \<and> optionalSize (field value ''size'') \<and>
     optionalAnnotations (field value ''annotations'') \<and> optionalRecord (field value ''_meta''))"

definition isEmbeddedResource :: "url_parser \<Rightarrow> js_object \<Rightarrow> bool" where
  "isEmbeddedResource parse_url value = (only_keys value [''type'', ''resource'', ''annotations'', ''_meta''] \<and>
     (case field value ''resource'' of
        Some (JObj resource) \<Rightarrow>
          let hasText = (json_string (field resource ''text'') \<noteq> None); hasBlob = (json_string (field resource ''blob'') \<noteq> None) in
          hasText \<noteq> hasBlob \<and>
          only_keys resource ([''uri'', ''mimeType'', ''_meta''] @ [if hasText then ''text'' else ''blob'']) \<and>
          isResourceUri parse_url (field resource ''uri'') \<and> optional_text (field resource ''mimeType'') \<and>
          optionalRecord (field resource ''_meta'') \<and> (hasText \<or> isBase64 (field resource ''blob'')) \<and>
          optionalAnnotations (field value ''annotations'') \<and> optionalRecord (field value ''_meta'')
      | _ \<Rightarrow> False))"

definition isContentBlock :: "url_parser \<Rightarrow> json \<Rightarrow> bool" where
  "isContentBlock parse_url value = (case value of
     JObj record \<Rightarrow> (case field record ''type'' of
         Some (JStr type) \<Rightarrow>
           if type = ''text'' then isTextContent record
           else if type = ''image'' \<or> type = ''audio'' then isBinaryContent type record
           else if type = ''resource_link'' then isResourceLink parse_url record
           else if type = ''resource'' then isEmbeddedResource parse_url record
           else False
       | _ \<Rightarrow> False)
   | _ \<Rightarrow> False)"

definition call_tool_result_ok :: "url_parser \<Rightarrow> js_object \<Rightarrow> bool" where
  "call_tool_result_ok parse_url result =
    ((case field result ''content'' of Some (JArr vs) \<Rightarrow> list_all (isContentBlock parse_url) vs | _ \<Rightarrow> False) \<and>
     optionalRecord (field result ''structuredContent'') \<and> optional_flag (field result ''isError'') \<and> optionalRecord (field result ''_meta''))"

definition assertCallToolResult :: "url_parser \<Rightarrow> js_object \<Rightarrow> unit outcome" where
  "assertCallToolResult parse_url result =
    (if \<not> call_tool_result_ok parse_url result then Inl (ServiceError Server_error ''invalid tool result'' 500) else Inr ())"

end
