(* ===== verification/Mcp_Tools.thy ===== *)
theory Mcp_Tools
  imports Mcp_Schema Authorize
begin

text \<open>
  The tools of the MCP server: the record and the five tools of \<open>mcp/tools\<close> (\<open>tool-types.ts\<close>,
  \<open>tool-annotations.ts\<close>, \<open>shared/service-health.ts\<close>), the user interface a tool names (the tool part of
  \<open>app-ui.ts\<close>), and the registry that lists and calls them (\<open>tool-registry.ts\<close>, \<open>tool-security.ts\<close>,
  \<open>tool-execution.ts\<close>).  The registry is an argument; \<open>tools\<close> is the one the service has.
\<close>

section \<open>The user interface of a tool\<close>

datatype output_template = Template_off | Template string

record tool_ui =
  tu_resourceUri :: string
  tu_visibility :: "string list option"
  tu_openAiOutputTemplate :: "output_template option"
  tu_widgetAccessible :: "bool option"
  tu_meta :: "js_object option"

definition invalidUiMetadata :: js_error where "invalidUiMetadata = ServiceError Server_error ''invalid tool ui metadata'' 500"

definition isVisibility :: "string list \<Rightarrow> bool" where
  "isVisibility vs = (vs \<noteq> [] \<and> length vs \<le> 2 \<and> distinct vs \<and> list_all (\<lambda>v. v = ''model'' \<or> v = ''app'') vs)"

definition assertToolUiMetadata :: "url_parser \<Rightarrow> tool_ui option \<Rightarrow> unit outcome" where
  "assertToolUiMetadata parse_url value = (case value of
     None \<Rightarrow> Inr ()
   | Some ui \<Rightarrow>
       if \<not> isResourceUri parse_url (Some (JStr (tu_resourceUri ui))) then Inl invalidUiMetadata
       else if (case tu_visibility ui of None \<Rightarrow> False | Some vs \<Rightarrow> \<not> isVisibility vs) then Inl invalidUiMetadata
       else (case tu_openAiOutputTemplate ui of
           Some (Template s) \<Rightarrow> if isResourceUri parse_url (Some (JStr s)) then Inr () else Inl invalidUiMetadata
         | _ \<Rightarrow> Inr ()))"

definition toolUiResource ::
  "url_parser \<Rightarrow> string \<Rightarrow> string list option \<Rightarrow> output_template option \<Rightarrow> bool option \<Rightarrow> js_object option \<Rightarrow> tool_ui outcome" where
  "toolUiResource parse_url resourceUri visibility template widgetAccessible meta =
    (let ui = \<lparr> tu_resourceUri = resourceUri, tu_visibility = visibility, tu_openAiOutputTemplate = template,
       tu_widgetAccessible = widgetAccessible, tu_meta = meta \<rparr> in
     bindr (assertToolUiMetadata parse_url (Some ui)) (\<lambda>_. Inr ui))"

text \<open>\<open>{ ...base, ...extra }\<close>: a key of \<open>base\<close> keeps its place.\<close>

definition spread :: "js_object \<Rightarrow> js_object \<Rightarrow> js_object" where
  "spread base extra = fold (\<lambda>(k, v). AList.update k v) extra base"

definition uiRecord :: "json option \<Rightarrow> js_object" where
  "uiRecord value = (case json_object value of None \<Rightarrow> [] | Some r \<Rightarrow> r)"

definition toolUiDescriptorMeta :: "tool_ui option \<Rightarrow> js_object" where
  "toolUiDescriptorMeta ui =
    (let extra = (case ui of None \<Rightarrow> [] | Some u \<Rightarrow> (case tu_meta u of None \<Rightarrow> [] | Some m \<Rightarrow> m));
         visibility = (case ui of None \<Rightarrow> [''model''] | Some u \<Rightarrow> (case tu_visibility u of None \<Rightarrow> [''model'', ''app''] | Some vs \<Rightarrow> vs));
         uiMeta = spread (uiRecord (field extra ''ui'')) ([(''visibility'', JStrs visibility)] @
           (case ui of None \<Rightarrow> [] | Some u \<Rightarrow> [(''resourceUri'', JStr (tu_resourceUri u))]));
         outputTemplate = (case ui of None \<Rightarrow> None | Some u \<Rightarrow> (case tu_openAiOutputTemplate u of
             Some Template_off \<Rightarrow> None | Some (Template s) \<Rightarrow> Some s | None \<Rightarrow> Some (tu_resourceUri u)))
     in spread extra ([(''ui'', JObj uiMeta)] @
       (case outputTemplate of Some t \<Rightarrow> if t \<noteq> [] then [(''openai/outputTemplate'', JStr t)] else [] | None \<Rightarrow> []) @
       (case ui of None \<Rightarrow> [] | Some u \<Rightarrow> (case tu_widgetAccessible u of None \<Rightarrow> [] | Some b \<Rightarrow> [(''openai/widgetAccessible'', JBool b)]))))"

section \<open>Tools\<close>

text \<open>What a tool runs in: the configuration and header of the call, with the keys, the time and its text
  that \<open>verifyBearer\<close> and \<open>isoNow\<close> read.\<close>

record ('k, 'p) tool_context =
  tx_crypto :: "('k, 'p) crypto"
  tx_config :: service_config
  tx_keys :: "'p verification_key list outcome"
  tx_now :: int
  tx_timestamp :: string
  tx_authorization :: "string option"

record ('k, 'p) mcp_tool =
  mt_name :: string
  mt_title :: string
  mt_description :: string
  mt_icons :: "json list option"
  mt_inputSchema :: json
  mt_outputSchema :: json
  mt_annotations :: json
  mt_invoking :: string
  mt_invoked :: string
  mt_requiredScopes :: "string list"
  mt_ui :: "tool_ui option"
  mt_run :: "('k, 'p) tool_context \<Rightarrow> js_object \<Rightarrow> js_object outcome"

definition readOnlyToolAnnotations :: json where
  "readOnlyToolAnnotations = JObj [(''readOnlyHint'', JBool True), (''destructiveHint'', JBool False),
     (''idempotentHint'', JBool True), (''openWorldHint'', JBool False)]"

definition tool_bearer :: "('k, 'p) tool_context \<Rightarrow> string list \<Rightarrow> access_token_claims outcome" where
  "tool_bearer cx scopes = bindr (tx_keys cx) (\<lambda>keys.
     verifyBearer (tx_crypto cx) (tx_config cx) keys (tx_now cx) (tx_authorization cx) (mcpResource (tx_config cx)) scopes)"

definition tool_answer :: "string \<Rightarrow> json \<Rightarrow> js_object" where
  "tool_answer s structuredContent = [(''content'', JArr [text_content s]), (''structuredContent'', structuredContent)]"

definition serviceHealthSnapshot :: "string \<Rightarrow> json" where
  "serviceHealthSnapshot timestamp = JObj [(''status'', JStr ''ok''), (''timestamp'', JStr timestamp),
     (''service'', JObj [(''name'', JStr ''gpt-mcp-service''), (''version'', JStr ''0.1.0'')])]"

definition publicHealthSnapshot :: "string \<Rightarrow> json" where
  "publicHealthSnapshot timestamp =
    JObj [(''status'', JStr ''ok''), (''service'', JStr ''gpt-mcp-service''), (''time'', JStr timestamp)]"

definition healthCheckTool :: "('k, 'p) mcp_tool" where
  "healthCheckTool = \<lparr> mt_name = ''health.check'', mt_title = ''Health Check'',
     mt_description = ''Use this when ChatGPT needs to confirm the MCP service is reachable.'', mt_icons = None,
     mt_inputSchema = emptyInputSchema,
     mt_outputSchema = objectSchema ''Service health response.''
       [(''status'', stringSchema ''Fixed status value returned by a reachable service.''),
        (''timestamp'', stringSchema ''ISO timestamp when the health check was produced.''),
        (''service'', objectSchema ''Service identity returned by the health check.''
          [(''name'', stringSchema ''Service package name.''), (''version'', stringSchema ''Service package version.'')])],
     mt_annotations = readOnlyToolAnnotations, mt_invoking = ''Checking service health'', mt_invoked = ''Service health ready'',
     mt_requiredScopes = [], mt_ui = None,
     mt_run = (\<lambda>cx args. let structuredContent = serviceHealthSnapshot (tx_timestamp cx) in
       Inr (tool_answer (json_text structuredContent) structuredContent)) \<rparr>"

definition healthStatusCardUri :: string where "healthStatusCardUri = ''ui://widget/health-status-card-v1.html''"
definition profileSummaryCardUri :: string where "profileSummaryCardUri = ''ui://widget/profile-summary-card-v1.html''"

text \<open>The tools with a card, for what \<open>toolUiResource\<close> of its address gave.\<close>

definition healthStatusCardTool :: "tool_ui \<Rightarrow> ('k, 'p) mcp_tool" where
  "healthStatusCardTool ui =
   \<lparr> mt_name = ''health.status_card'', mt_title = ''Health Status Card'',
     mt_description = ''Use this when ChatGPT should render the service health status as an inline UI card.'', mt_icons = None,
     mt_inputSchema = emptyInputSchema,
     mt_outputSchema = objectSchema ''Service health UI response.''
       [(''status'', stringSchema ''Fixed status value returned by a reachable service.''),
        (''timestamp'', stringSchema ''ISO timestamp when the health status card was produced.''),
        (''service'', objectSchema ''Service identity returned by the health status card.''
          [(''name'', stringSchema ''Service package name.''), (''version'', stringSchema ''Service package version.'')])],
     mt_annotations = readOnlyToolAnnotations, mt_invoking = ''Rendering health status'', mt_invoked = ''Health status ready'',
     mt_requiredScopes = [], mt_ui = Some ui,
     mt_run = (\<lambda>cx args. Inr (tool_answer ''Showing the service health status card.'' (serviceHealthSnapshot (tx_timestamp cx)))) \<rparr>"

definition profile_schema :: "string \<Rightarrow> json" where
  "profile_schema description = objectSchema description
     [(''sub'', stringSchema ''Stable subject identifier for the authenticated user.''),
      (''given_name'', stringSchema ''Given name for the authenticated user.''),
      (''family_name'', stringSchema ''Family name for the authenticated user.''),
      (''name'', stringSchema ''Full display name for the authenticated user.''),
      (''preferred_username'', stringSchema ''Preferred username for the authenticated user.''),
      (''email'', stringSchema ''Verified email address for the authenticated user.''),
      (''email_verified'', booleanSchema ''Email verification status for the authenticated user.'')]"

definition identityProfile :: "('k, 'p) tool_context \<Rightarrow> js_object outcome" where
  "identityProfile cx = bindr (tool_bearer cx defaultScopes) (\<lambda>claims.
     bindr (userProfileFromClaims (claims_profile claims)) (\<lambda>user.
       Inr (tool_answer (json_text (profile_json user)) (profile_json user))))"

definition identityProfileTool :: "('k, 'p) mcp_tool" where
  "identityProfileTool = \<lparr> mt_name = ''identity.profile'', mt_title = ''Identity Profile'',
     mt_description = ''Use this when ChatGPT needs the authenticated user'' @ [char_of (39 :: nat)] @ ''s OpenID Connect profile.'', mt_icons = None,
     mt_inputSchema = emptyInputSchema, mt_outputSchema = profile_schema ''Authenticated OpenID Connect profile.'',
     mt_annotations = readOnlyToolAnnotations, mt_invoking = ''Reading identity profile'', mt_invoked = ''Identity profile ready'',
     mt_requiredScopes = defaultScopes, mt_ui = None, mt_run = (\<lambda>cx args. identityProfile cx) \<rparr>"

definition identityProfileCard :: "('k, 'p) tool_context \<Rightarrow> js_object outcome" where
  "identityProfileCard cx = bindr (tool_bearer cx defaultScopes) (\<lambda>claims.
     bindr (userProfileFromClaims (claims_profile claims)) (\<lambda>user.
       Inr (tool_answer ''Showing the authenticated profile card.'' (profile_json user))))"

definition identityProfileCardTool :: "tool_ui \<Rightarrow> ('k, 'p) mcp_tool" where
  "identityProfileCardTool ui =
   \<lparr> mt_name = ''identity.profile_card'', mt_title = ''Identity Profile Card'',
     mt_description = ''Use this when ChatGPT should render the authenticated user'' @ [char_of (39 :: nat)] @
       ''s OpenID Connect profile as an inline UI card.'', mt_icons = None,
     mt_inputSchema = emptyInputSchema, mt_outputSchema = profile_schema ''Authenticated OpenID Connect profile for UI rendering.'',
     mt_annotations = readOnlyToolAnnotations, mt_invoking = ''Rendering identity profile'', mt_invoked = ''Identity profile ready'',
     mt_requiredScopes = defaultScopes, mt_ui = Some ui, mt_run = (\<lambda>cx args. identityProfileCard cx) \<rparr>"

definition session_json :: "access_token_claims \<Rightarrow> json" where
  "session_json c = JObj [(''subject'', JStr (cl_sub c)), (''clientId'', JStr (cl_client_id c)), (''audience'', JStr (cl_aud c)),
     (''scopes'', JStrs (words_acc [] (cl_scope c)))]"

definition authSession :: "('k, 'p) tool_context \<Rightarrow> js_object outcome" where
  "authSession cx = bindr (tool_bearer cx authSessionScopes) (\<lambda>claims.
     Inr (tool_answer (json_text (session_json claims)) (session_json claims)))"

definition authSessionTool :: "('k, 'p) mcp_tool" where
  "authSessionTool = \<lparr> mt_name = ''auth.session'', mt_title = ''Auth Session'',
     mt_description = ''Use this when ChatGPT needs OAuth token session metadata.'', mt_icons = None,
     mt_inputSchema = emptyInputSchema,
     mt_outputSchema = objectSchema ''OAuth token session metadata.''
       [(''subject'', stringSchema ''Subject identifier bound to the access token.''),
        (''clientId'', stringSchema ''OAuth client identifier bound to the access token.''),
        (''audience'', stringSchema ''Audience accepted for the access token.''),
        (''scopes'', stringArraySchema ''OAuth scopes granted to the access token.'' ''Granted OAuth scope.'')],
     mt_annotations = readOnlyToolAnnotations, mt_invoking = ''Reading auth session'', mt_invoked = ''Auth session ready'',
     mt_requiredScopes = authSessionScopes, mt_ui = None, mt_run = (\<lambda>cx args. authSession cx) \<rparr>"

definition tools :: "url_parser \<Rightarrow> ('k, 'p) mcp_tool list outcome" where
  "tools parse_url = bindr (toolUiResource parse_url healthStatusCardUri None None None None) (\<lambda>healthUi.
     bindr (toolUiResource parse_url profileSummaryCardUri None None None None) (\<lambda>profileUi.
     Inr [healthCheckTool, healthStatusCardTool healthUi, identityProfileTool, identityProfileCardTool profileUi, authSessionTool]))"

section \<open>The registry\<close>

definition invalidToolDescriptor :: js_error where
  "invalidToolDescriptor = ServiceError Server_error ''invalid tool descriptor'' 500"

definition hintKeys :: "string list" where
  "hintKeys = [''readOnlyHint'', ''destructiveHint'', ''idempotentHint'', ''openWorldHint'']"

definition isToolAnnotations :: "json \<Rightarrow> bool" where
  "isToolAnnotations value = (case value of
     JObj record \<Rightarrow> only_keys record (''title'' # hintKeys) \<and> optional_text (field record ''title'') \<and>
       list_all (\<lambda>key. case field record key of Some (JBool b) \<Rightarrow> True | _ \<Rightarrow> False) hintKeys
   | _ \<Rightarrow> False)"

definition isStatusText :: "string \<Rightarrow> bool" where
  "isStatusText s = (s \<noteq> [] \<and> length s \<le> 64)"

definition isToolInvocationStatus :: "('k, 'p) mcp_tool \<Rightarrow> bool" where
  "isToolInvocationStatus tool = (isStatusText (mt_invoking tool) \<and> isStatusText (mt_invoked tool))"

definition assertToolDescriptor :: "url_parser \<Rightarrow> ('k, 'p) mcp_tool \<Rightarrow> unit outcome" where
  "assertToolDescriptor parse_url tool =
    (if mt_title tool = [] \<or> mt_description tool = [] then Inl invalidToolDescriptor
     else if (case mt_icons tool of None \<Rightarrow> False | Some icons \<Rightarrow> \<not> list_all (isIcon parse_url) icons) then Inl invalidToolDescriptor
     else if \<not> isObjectSchema (mt_inputSchema tool) \<or> \<not> isObjectSchema (mt_outputSchema tool) then Inl invalidToolDescriptor
     else if \<not> isToolAnnotations (mt_annotations tool) then Inl invalidToolDescriptor
     else if \<not> isToolInvocationStatus tool then Inl invalidToolDescriptor
     else if list_ex (\<lambda>scope. scope = [] \<or> \<not> list_all is_scope_char scope) (mt_requiredScopes tool) then Inl invalidToolDescriptor
     else if \<not> distinct (mt_requiredScopes tool) then Inl invalidToolDescriptor
     else (case assertToolUiMetadata parse_url (mt_ui tool) of Inl e \<Rightarrow> Inl invalidToolDescriptor | Inr u \<Rightarrow> Inr ()))"

definition is_tool_name :: "string \<Rightarrow> bool" where
  "is_tool_name s = (s \<noteq> [] \<and> length s \<le> 128 \<and> list_all (\<lambda>c. is_alnum c \<or> List.member ''_.-'' c) s)"

fun assert_definitions :: "url_parser \<Rightarrow> string list \<Rightarrow> ('k, 'p) mcp_tool list \<Rightarrow> unit outcome" where
  "assert_definitions parse_url names [] = Inr ()"
| "assert_definitions parse_url names (tool # ts) = bindr (assertToolDescriptor parse_url tool) (\<lambda>_.
     if \<not> is_tool_name (mt_name tool) then Inl (ServiceError Server_error ''invalid tool name'' 500)
     else if List.member names (mt_name tool) then Inl (ServiceError Server_error ''duplicate tool name'' 500)
     else assert_definitions parse_url (mt_name tool # names) ts)"

definition assertToolDefinitions :: "url_parser \<Rightarrow> ('k, 'p) mcp_tool list \<Rightarrow> unit outcome" where
  "assertToolDefinitions parse_url registry = assert_definitions parse_url [] registry"

definition toolSecuritySchemes :: "string list \<Rightarrow> json" where
  "toolSecuritySchemes scopes = (if scopes = [] then JArr [JObj [(''type'', JStr ''noauth'')]]
     else JArr [JObj [(''type'', JStr ''oauth2''), (''scopes'', JStrs scopes)]])"

definition toolExecution :: json where "toolExecution = JObj [(''taskSupport'', JStr ''forbidden'')]"

definition toolDescriptor :: "('k, 'p) mcp_tool \<Rightarrow> json" where
  "toolDescriptor tool = (let securitySchemes = toolSecuritySchemes (mt_requiredScopes tool) in
     JObj ([(''name'', JStr (mt_name tool)), (''title'', JStr (mt_title tool)), (''description'', JStr (mt_description tool))] @
       (case mt_icons tool of None \<Rightarrow> [] | Some icons \<Rightarrow> [(''icons'', JArr icons)]) @
       [(''inputSchema'', mt_inputSchema tool), (''execution'', toolExecution), (''outputSchema'', mt_outputSchema tool),
        (''annotations'', mt_annotations tool), (''securitySchemes'', securitySchemes),
        (''_meta'', JObj (spread (toolUiDescriptorMeta (mt_ui tool)) [(''securitySchemes'', securitySchemes),
          (''openai/toolInvocation/invoking'', JStr (mt_invoking tool)), (''openai/toolInvocation/invoked'', JStr (mt_invoked tool))]))]))"

definition listTools :: "url_parser \<Rightarrow> ('k, 'p) mcp_tool list \<Rightarrow> js_object option \<Rightarrow> nat \<Rightarrow> json outcome" where
  "listTools parse_url registry ps pageSize = bindr (assertToolDefinitions parse_url registry) (\<lambda>_.
     paginatedList ps ''tools/list'' ''tools'' (map toolDescriptor registry) pageSize)"

text \<open>The first argument that is no property; the name \<open>''''\<close> is falsy and left to \<open>matchesSchema\<close>.\<close>

definition toolArgumentError :: "('k, 'p) mcp_tool \<Rightarrow> js_object \<Rightarrow> string option outcome" where
  "toolArgumentError tool args =
    (let schema = uiRecord (Some (mt_inputSchema tool));
         mismatch = (if matchesSchema (mt_inputSchema tool) (JObj args) then None else Some ''Invalid tool arguments.'') in
     if field schema ''type'' \<noteq> Some (JStr ''object'') \<or> field schema ''additionalProperties'' \<noteq> Some (JBool False) then Inr mismatch
     else (case field schema ''properties'' of
         Some (JObj properties) \<Rightarrow> Inr (case List.find (\<lambda>(key, v). field properties key = None) args of
             Some (key, v) \<Rightarrow> if key \<noteq> [] then Some (''Invalid tool arguments: unsupported argument '' @ [dquote] @ key @ [dquote] @ ''.'') else mismatch
           | None \<Rightarrow> mismatch)
       | _ \<Rightarrow> Inl (ServiceError Server_error ''invalid tool schema'' 500)))"

definition toolExecutionError :: "string \<Rightarrow> js_object" where
  "toolExecutionError message = [(''content'', JArr [text_content message]), (''isError'', JBool True)]"

text \<open>The part of \<open>callTool\<close> after the rate limit: it changes no state.\<close>

definition run_tool :: "url_parser \<Rightarrow> ('k, 'p) tool_context \<Rightarrow> ('k, 'p) mcp_tool \<Rightarrow> js_object \<Rightarrow> js_object outcome" where
  "run_tool parse_url cx tool args =
    try_catch (bindr (mt_run tool cx args) (\<lambda>result. bindr (assertCallToolResult parse_url result) (\<lambda>_.
      if field result ''isError'' \<noteq> Some (JBool True)
      then bindr (assertMatchesSchema (mt_outputSchema tool) (field result ''structuredContent'')) (\<lambda>_. Inr result) else Inr result)))
    (\<lambda>e. case as_service_error e of
       Some (c, message, status) \<Rightarrow>
         if status = 401 \<or> status = 403 then
           bindr (authChallengeResult parse_url (tx_config cx) (mt_requiredScopes tool) (Some status)) (\<lambda>result.
           bindr (assertCallToolResult parse_url result) (\<lambda>_. Inr result))
         else Inl e
     | None \<Rightarrow> Inl e)"

definition called_tool ::
  "url_parser \<Rightarrow> ('k, 'p) mcp_tool list \<Rightarrow> ('k, 'p) tool_context \<Rightarrow> string \<Rightarrow> js_object \<Rightarrow> js_object outcome" where
  "called_tool parse_url registry cx name args = (case List.find (\<lambda>tool. mt_name tool = name) registry of
     None \<Rightarrow> Inl (McpProtocolError (- 32602) (''Unknown tool: '' @ name))
   | Some tool \<Rightarrow> bindr (toolArgumentError tool args) (\<lambda>problem.
       case problem of Some message \<Rightarrow> Inr (toolExecutionError message) | None \<Rightarrow> run_tool parse_url cx tool args))"

definition callTool ::
  "url_parser \<Rightarrow> ('k, 'p) mcp_tool list \<Rightarrow> 's oauth_store \<Rightarrow> ('k, 'p) tool_context \<Rightarrow> string option \<Rightarrow> string \<Rightarrow> js_object \<Rightarrow> 's \<Rightarrow>
     js_object outcome \<times> 's" where
  "callTool parse_url registry store cx rateLimitSubject name args st =
    (case assertToolDefinitions parse_url registry of
       Inl e \<Rightarrow> (Inl e, st)
     | Inr u \<Rightarrow> andThen (enforceRateLimit (cr_sha256 (tx_crypto cx)) store (tx_config cx) ''mcp-tool''
           (case rateLimitSubject of None \<Rightarrow> ''unknown'' | Some s \<Rightarrow> s) (tx_now cx) st)
         (\<lambda>_ st'. (called_tool parse_url registry cx name args, st')) id)"

end
