(* ===== verification/Mcp_Resources.thy ===== *)
theory Mcp_Resources
  imports Mcp_Tools
begin

text \<open>
  The resources of the MCP server: their definitions and contents with the checks on them
  (\<open>mcp/resource-types.ts\<close>, \<open>resource-validation.ts\<close>), the HTML resource of an app with its metadata
  (the resource part of \<open>app-ui.ts\<close>), the domain added at run time (\<open>widgets/runtime-metadata.ts\<close>) and
  the registry that lists and reads them (\<open>resource-registry.ts\<close>).  The registries are arguments.
\<close>

section \<open>Data\<close>

definition appUiResourceMimeType :: string where "appUiResourceMimeType = ''text/html;profile=mcp-app''"

datatype ('k, 'p) resource_contents =
    Contents "js_object list"
  | Computed "('k, 'p) tool_context \<Rightarrow> js_object list outcome"

record ('k, 'p) mcp_resource =
  rd_uri :: string
  rd_name :: string
  rd_title :: "string option"
  rd_description :: "string option"
  rd_icons :: "json list option"
  rd_mimeType :: "string option"
  rd_annotations :: "json option"
  rd_size :: "js_number option"
  rd_meta :: "js_object option"
  rd_requiredScopes :: "string list"
  rd_contents :: "('k, 'p) resource_contents"

record mcp_resource_template =
  rp_uriTemplate :: string
  rp_name :: string
  rp_title :: "string option"
  rp_description :: "string option"
  rp_icons :: "json list option"
  rp_mimeType :: "string option"
  rp_annotations :: "json option"
  rp_meta :: "js_object option"

section \<open>Checks\<close>

definition invalidResourceDescriptor :: js_error where
  "invalidResourceDescriptor = ServiceError Server_error ''invalid resource descriptor'' 500"

function (sequential) isJsonValue :: "json \<Rightarrow> nat \<Rightarrow> bool" where
  "isJsonValue (JNum n) depth = (depth \<le> 16 \<and> (case n of Finite r \<Rightarrow> True | _ \<Rightarrow> False))"
| "isJsonValue (JArr vs) depth = (depth \<le> 16 \<and> length vs \<le> 1024 \<and> (\<forall>v \<in> set vs. isJsonValue v (Suc depth)))"
| "isJsonValue (JObj kvs) depth = (depth \<le> 16 \<and> length kvs \<le> 128 \<and>
     (\<forall>(k, v) \<in> set kvs. k \<noteq> [] \<and> length k \<le> 128 \<and> isJsonValue v (Suc depth)))"
| "isJsonValue v depth = (depth \<le> 16)"
  by pat_completeness auto
termination
  by (relation "measure (\<lambda>(v, d). size v)") (auto simp del: json.size(5) dest: member_size simp: less_Suc_eq_le size_list_estimation')

definition optionalJsonRecord :: "js_object option \<Rightarrow> bool" where
  "optionalJsonRecord value = (case value of None \<Rightarrow> True | Some r \<Rightarrow> isJsonValue (JObj r) 0)"

definition is_mime_type :: "string \<Rightarrow> bool" where
  "is_mime_type s = (case split_on (CHR '';'') s of
     [] \<Rightarrow> False
   | t # ps \<Rightarrow> (case split_on (CHR ''/'') t of [a, b] \<Rightarrow> is_word is_parameter_char a \<and> is_word is_parameter_char b | _ \<Rightarrow> False) \<and>
       list_all (\<lambda>p. is_media_parameter (blank_start p)) ps)"

definition optionalMimeType :: "string option \<Rightarrow> bool" where
  "optionalMimeType value = (case value of None \<Rightarrow> True | Some s \<Rightarrow> length s \<le> 128 \<and> is_mime_type s)"

definition optionalLabel :: "string option \<Rightarrow> bool" where
  "optionalLabel value = (case value of None \<Rightarrow> True | Some s \<Rightarrow> s \<noteq> [] \<and> length s \<le> 512)"

definition isName :: "string \<Rightarrow> bool" where "isName s = (s \<noteq> [] \<and> length s \<le> 128)"

definition isScopes :: "string list \<Rightarrow> bool" where
  "isScopes scopes = (distinct scopes \<and> list_all (\<lambda>s. s \<noteq> [] \<and> list_all is_scope_char s) scopes)"

definition isResourceDefinition :: "url_parser \<Rightarrow> ('k, 'p) mcp_resource \<Rightarrow> bool" where
  "isResourceDefinition parse_url r = (isResourceUri parse_url (Some (JStr (rd_uri r))) \<and> isName (rd_name r) \<and>
     optionalLabel (rd_title r) \<and> optionalLabel (rd_description r) \<and> optionalIcons parse_url (map_option JArr (rd_icons r)) \<and>
     optionalMimeType (rd_mimeType r) \<and> optionalAnnotations (rd_annotations r) \<and> optionalSize (map_option JNum (rd_size r)) \<and>
     optionalJsonRecord (rd_meta r) \<and> isScopes (rd_requiredScopes r))"

definition isResourceTemplate :: "url_parser \<Rightarrow> mcp_resource_template \<Rightarrow> bool" where
  "isResourceTemplate parse_url t = (rp_uriTemplate t \<noteq> [] \<and> length (rp_uriTemplate t) \<le> 512 \<and> isName (rp_name t) \<and>
     optionalLabel (rp_title t) \<and> optionalLabel (rp_description t) \<and> optionalIcons parse_url (map_option JArr (rp_icons t)) \<and>
     optionalMimeType (rp_mimeType t) \<and> optionalAnnotations (rp_annotations t) \<and> optionalJsonRecord (rp_meta t))"

fun assert_all_distinct :: "('a \<Rightarrow> bool) \<Rightarrow> ('a \<Rightarrow> string) \<Rightarrow> js_error \<Rightarrow> string list \<Rightarrow> 'a list \<Rightarrow> unit outcome" where
  "assert_all_distinct ok key duplicate seen [] = Inr ()"
| "assert_all_distinct ok key duplicate seen (x # xs) =
    (if \<not> ok x then Inl invalidResourceDescriptor
     else if List.member seen (key x) then Inl duplicate
     else assert_all_distinct ok key duplicate (key x # seen) xs)"

definition assertResourceDefinitions ::
  "url_parser \<Rightarrow> ('k, 'p) mcp_resource list \<Rightarrow> mcp_resource_template list \<Rightarrow> unit outcome" where
  "assertResourceDefinitions parse_url resources templates =
    bindr (assert_all_distinct (isResourceDefinition parse_url) rd_uri (ServiceError Server_error ''duplicate resource uri'' 500) [] resources) (\<lambda>_.
      assert_all_distinct (isResourceTemplate parse_url) rp_uriTemplate (ServiceError Server_error ''duplicate resource template uri'' 500) [] templates)"

definition isResourceContent :: "url_parser \<Rightarrow> js_object \<Rightarrow> bool" where
  "isResourceContent parse_url content =
    (let hasText = (json_string (field content ''text'') \<noteq> None); hasBlob = (json_string (field content ''blob'') \<noteq> None) in
     only_keys content [''uri'', ''mimeType'', ''text'', ''blob'', ''_meta''] \<and> isResourceUri parse_url (field content ''uri'') \<and>
     (case field content ''mimeType'' of None \<Rightarrow> True | Some (JStr s) \<Rightarrow> optionalMimeType (Some s) | Some _ \<Rightarrow> False) \<and>
     hasText \<noteq> hasBlob \<and> (\<not> hasBlob \<or> isBase64 (field content ''blob'')) \<and>
     (case field content ''_meta'' of None \<Rightarrow> True | Some (JObj m) \<Rightarrow> optionalJsonRecord (Some m) | Some _ \<Rightarrow> False))"

definition assertResourceContents :: "url_parser \<Rightarrow> js_object list \<Rightarrow> unit outcome" where
  "assertResourceContents parse_url contents =
    (if contents = [] \<or> \<not> list_all (isResourceContent parse_url) contents then Inl (ServiceError Server_error ''invalid resource content'' 500)
     else Inr ())"

section \<open>Descriptors\<close>

text \<open>A member that is left out when its value is undefined, and one that is left out when it is falsy.\<close>

definition present :: "string \<Rightarrow> ('a \<Rightarrow> json) \<Rightarrow> 'a option \<Rightarrow> js_object" where
  "present key f value = (case value of None \<Rightarrow> [] | Some v \<Rightarrow> [(key, f v)])"

definition truthy_text :: "string \<Rightarrow> string option \<Rightarrow> js_object" where
  "truthy_text key value = (case value of Some s \<Rightarrow> if s \<noteq> [] then [(key, JStr s)] else [] | None \<Rightarrow> [])"

definition resourceDescriptor :: "('k, 'p) mcp_resource \<Rightarrow> json" where
  "resourceDescriptor r = JObj ([(''uri'', JStr (rd_uri r)), (''name'', JStr (rd_name r))] @
     truthy_text ''title'' (rd_title r) @ truthy_text ''description'' (rd_description r) @ present ''icons'' JArr (rd_icons r) @
     truthy_text ''mimeType'' (rd_mimeType r) @ present ''annotations'' id (rd_annotations r) @ present ''size'' JNum (rd_size r) @
     present ''_meta'' JObj (rd_meta r))"

definition resourceTemplateDescriptor :: "mcp_resource_template \<Rightarrow> json" where
  "resourceTemplateDescriptor t = JObj ([(''uriTemplate'', JStr (rp_uriTemplate t)), (''name'', JStr (rp_name t))] @
     truthy_text ''title'' (rp_title t) @ truthy_text ''description'' (rp_description t) @ present ''icons'' JArr (rp_icons t) @
     truthy_text ''mimeType'' (rp_mimeType t) @ present ''annotations'' id (rp_annotations t) @ present ''_meta'' JObj (rp_meta t))"

section \<open>Metadata at run time\<close>

definition strings_of :: "json option \<Rightarrow> string list" where
  "strings_of value = (case value of Some (JArr vs) \<Rightarrow> List.map_filter (\<lambda>v. json_string (Some v)) vs | _ \<Rightarrow> [])"

definition withResourceDomain :: "js_object \<Rightarrow> string \<Rightarrow> string \<Rightarrow> json" where
  "withResourceDomain csp key domain = JObj (AList.update key (JStrs (distinct_set (strings_of (field csp key) @ [domain]))) csp)"

definition withRuntimeMetadata :: "js_object \<Rightarrow> string \<Rightarrow> js_object" where
  "withRuntimeMetadata content domain =
    (let meta = uiRecord (field content ''_meta''); ui = uiRecord (field meta ''ui'');
         csp = uiRecord (field ui ''csp''); openAiCsp = uiRecord (field meta ''openai/widgetCSP'') in
     spread content [(''_meta'', JObj (spread meta (
       [(''ui'', JObj (spread ui ((if csp \<noteq> [] then [(''csp'', withResourceDomain csp ''resourceDomains'' domain)] else []) @
          [(''domain'', JStr domain)])))] @
       (if openAiCsp \<noteq> [] then [(''openai/widgetCSP'', withResourceDomain openAiCsp ''resource_domains'' domain)] else []) @
       [(''openai/widgetDomain'', JStr domain)])))])"

definition applyWidgetRuntimeMetadata :: "service_config \<Rightarrow> js_object list \<Rightarrow> js_object list" where
  "applyWidgetRuntimeMetadata config contents = map (\<lambda>content.
     if field content ''mimeType'' = Some (JStr appUiResourceMimeType) then withRuntimeMetadata content (widgetDomain config) else content) contents"

section \<open>The registry\<close>

definition listResources ::
  "url_parser \<Rightarrow> ('k, 'p) mcp_resource list \<Rightarrow> mcp_resource_template list \<Rightarrow> js_object option \<Rightarrow> nat \<Rightarrow> json outcome" where
  "listResources parse_url resources templates ps pageSize = bindr (assertResourceDefinitions parse_url resources templates) (\<lambda>_.
     paginatedList ps ''resources/list'' ''resources'' (map resourceDescriptor resources) pageSize)"

definition listResourceTemplates ::
  "url_parser \<Rightarrow> ('k, 'p) mcp_resource list \<Rightarrow> mcp_resource_template list \<Rightarrow> js_object option \<Rightarrow> nat \<Rightarrow> json outcome" where
  "listResourceTemplates parse_url resources templates ps pageSize = bindr (assertResourceDefinitions parse_url resources templates) (\<lambda>_.
     paginatedList ps ''resources/templates/list'' ''resourceTemplates'' (map resourceTemplateDescriptor templates) pageSize)"

definition enforceResourceScopes :: "('k, 'p) tool_context \<Rightarrow> ('k, 'p) mcp_resource \<Rightarrow> unit outcome" where
  "enforceResourceScopes cx r =
    (if rd_requiredScopes r = [] then Inr ()
     else (case tool_bearer cx (rd_requiredScopes r) of
         Inr claims \<Rightarrow> Inr ()
       | Inl e \<Rightarrow> (case as_service_error e of
           Some (c, message, status) \<Rightarrow>
             if status = 401 \<or> status = 403 then Inl (McpAuthChallengeError (rd_requiredScopes r) c message status) else Inl e
         | None \<Rightarrow> Inl e)))"

text \<open>The part of \<open>readResource\<close> after the rate limit.\<close>

definition read_resource :: "url_parser \<Rightarrow> ('k, 'p) mcp_resource list \<Rightarrow> ('k, 'p) tool_context \<Rightarrow> string \<Rightarrow> js_object outcome" where
  "read_resource parse_url resources cx uri = (case List.find (\<lambda>r. rd_uri r = uri) resources of
     None \<Rightarrow> Inl (McpProtocolError (- 32002) ''Resource not found'')
   | Some r \<Rightarrow> bindr (enforceResourceScopes cx r) (\<lambda>_.
       bindr (case rd_contents r of Contents cs \<Rightarrow> Inr cs | Computed f \<Rightarrow> f cx) (\<lambda>resourceContents.
       let contents = applyWidgetRuntimeMetadata (tx_config cx) resourceContents in
       bindr (assertResourceContents parse_url contents) (\<lambda>_. Inr [(''contents'', JArr (map JObj contents))]))))"

definition readResource ::
  "url_parser \<Rightarrow> ('k, 'p) mcp_resource list \<Rightarrow> mcp_resource_template list \<Rightarrow> 's oauth_store \<Rightarrow> ('k, 'p) tool_context \<Rightarrow> string option \<Rightarrow>
     string \<Rightarrow> 's \<Rightarrow> js_object outcome \<times> 's" where
  "readResource parse_url resources templates store cx rateLimitSubject uri st =
    (case assertResourceDefinitions parse_url resources templates of
       Inl e \<Rightarrow> (Inl e, st)
     | Inr u \<Rightarrow> andThen (enforceRateLimit (cr_sha256 (tx_crypto cx)) store (tx_config cx) ''mcp-resource''
           (case rateLimitSubject of None \<Rightarrow> ''unknown'' | Some s \<Rightarrow> s) (tx_now cx) st)
         (\<lambda>_ st'. (read_resource parse_url resources cx uri, st')) id)"

end
