(* ===== verification/Mcp_Protocol.thy ===== *)
theory Mcp_Protocol
  imports Mcp_Resources
begin

text \<open>
  What a JSON-RPC message does (\<open>mcp/protocol.ts\<close>): the dispatch on the method, and the errors that
  become responses.  The state is that of the store; the reservation of the request's identifier is a
  function of the context, as it is in the source, because the two transports keep identifiers differently.
\<close>

section \<open>Context and result\<close>

record ('k, 'p) mcp_registry =
  mg_parseUrl :: url_parser
  mg_tools :: "('k, 'p) mcp_tool list"
  mg_resources :: "('k, 'p) mcp_resource list"
  mg_templates :: "mcp_resource_template list"

record ('k, 'p, 's) mcp_context =
  mc_call :: "('k, 'p) tool_context"
  mc_rateLimitSubject :: "string option"
  mc_sessionInitialized :: "bool option"
  mc_reserveRequestId :: "(rpc_id \<Rightarrow> 's \<Rightarrow> unit outcome \<times> 's) option"

record mcp_result =
  mr_status :: nat
  mr_body :: "json option"
  mr_initialized :: bool
  mr_clientId :: "string option"
  mr_wwwAuthenticate :: "string list option"

definition plain_result :: "nat \<Rightarrow> json option \<Rightarrow> mcp_result" where
  "plain_result status body = \<lparr> mr_status = status, mr_body = body, mr_initialized = False, mr_clientId = None, mr_wwwAuthenticate = None \<rparr>"

section \<open>Methods\<close>

definition toolCallParams :: "js_object option \<Rightarrow> (string \<times> js_object) outcome" where
  "toolCallParams ps = bindr (requiredMethodParams ps ''tools/call'' [''_meta'', ''task'', ''name'', ''arguments'']) (\<lambda>record.
     case field record ''name'' of
       Some (JStr name) \<Rightarrow>
         if name = [] then Inl (McpProtocolError (- 32602) ''tools/call name must be a string'')
         else (case field record ''arguments'' of
             None \<Rightarrow> Inr (name, [])
           | Some (JObj args) \<Rightarrow> Inr (name, args)
           | Some _ \<Rightarrow> Inl (McpProtocolError (- 32602) ''tools/call arguments must be an object''))
     | _ \<Rightarrow> Inl (McpProtocolError (- 32602) ''tools/call name must be a string''))"

definition resourceReadParams :: "url_parser \<Rightarrow> js_object option \<Rightarrow> string outcome" where
  "resourceReadParams parse_url ps = bindr (requiredMethodParams ps ''resources/read'' [''_meta'', ''uri'']) (\<lambda>record.
     case field record ''uri'' of
       Some (JStr uri) \<Rightarrow> if isResourceUri parse_url (Some (JStr uri)) then Inr uri
         else Inl (McpProtocolError (- 32602) ''resources/read uri must be a valid resource URI'')
     | _ \<Rightarrow> Inl (McpProtocolError (- 32602) ''resources/read uri must be a valid resource URI''))"

definition page_size :: "service_config \<Rightarrow> nat" where "page_size config = nat (mcpListPageSize config)"

definition dispatch ::
  "('k, 'p) mcp_registry \<Rightarrow> 's oauth_store \<Rightarrow> ('k, 'p, 's) mcp_context \<Rightarrow> rpc_request \<Rightarrow> 's \<Rightarrow> json outcome \<times> 's" where
  "dispatch mg store cx request st =
    (let call = mc_call cx; config = tx_config call; ps = rq_params request; m = rq_method request in
     if m = ''initialize'' then (initializeResult (mg_parseUrl mg) config ps, st)
     else if m = ''ping'' then (bindr (optionalMethodParams ps ''ping'' [''_meta'']) (\<lambda>_. Inr (JObj [])), st)
     else if m = ''tools/list'' then (listTools (mg_parseUrl mg) (mg_tools mg) ps (page_size config), st)
     else if m = ''tools/call'' then (case toolCallParams ps of
         Inl e \<Rightarrow> (Inl e, st)
       | Inr (name, args) \<Rightarrow> andThen (callTool (mg_parseUrl mg) (mg_tools mg) store call (mc_rateLimitSubject cx) name args st)
           (\<lambda>result st'. (Inr (JObj result), st')) id)
     else if m = ''resources/list'' then (listResources (mg_parseUrl mg) (mg_resources mg) (mg_templates mg) ps (page_size config), st)
     else if m = ''resources/templates/list'' then (listResourceTemplates (mg_parseUrl mg) (mg_resources mg) (mg_templates mg) ps (page_size config), st)
     else if m = ''resources/read'' then (case resourceReadParams (mg_parseUrl mg) ps of
         Inl e \<Rightarrow> (Inl e, st)
       | Inr uri \<Rightarrow> andThen (readResource (mg_parseUrl mg) (mg_resources mg) (mg_templates mg) store call (mc_rateLimitSubject cx) uri st)
           (\<lambda>result st'. (Inr (JObj result), st')) id)
     else (Inl (McpProtocolError (- 32601) ''method not found''), st))"

section \<open>Messages\<close>

text \<open>The \<open>catch\<close> of a request; \<open>wwwAuthenticate\<close> may throw there.\<close>

definition failed_request :: "url_parser \<Rightarrow> service_config \<Rightarrow> rpc_id option \<Rightarrow> js_error \<Rightarrow> mcp_result outcome" where
  "failed_request parse_url config rid error = (case error of
     McpProtocolError rpcCode message \<Rightarrow> Inr (plain_result 200 (Some (jsonRpcError rid rpcCode message)))
   | McpAuthChallengeError scopes c message status \<Rightarrow> bindr (wwwAuthenticate parse_url config scopes (Some status)) (\<lambda>challenge.
       Inr ((plain_result 200 (Some (jsonRpcError rid (- 32000) message))) \<lparr> mr_wwwAuthenticate := Some [challenge] \<rparr>))
   | _ \<Rightarrow> (case as_service_error error of
       Some (c, message, status) \<Rightarrow> Inr (plain_result status (Some (jsonRpcError rid (- 32000) message)))
     | None \<Rightarrow> Inr (plain_result 500 (Some (jsonRpcError rid (- 32603) ''internal error'')))))"

definition reserved :: "('k, 'p, 's) mcp_context \<Rightarrow> rpc_id option \<Rightarrow> 's \<Rightarrow> unit outcome \<times> 's" where
  "reserved cx rid st = (case (rid, mc_reserveRequestId cx) of (Some i, Some reserve) \<Rightarrow> reserve i st | _ \<Rightarrow> (Inr (), st))"

definition methods_before_initialized :: "string list" where
  "methods_before_initialized = [''initialize'', ''ping'', ''notifications/initialized'']"

definition answered_request :: "url_parser \<Rightarrow> rpc_request \<Rightarrow> rpc_id \<Rightarrow> json \<Rightarrow> mcp_result outcome" where
  "answered_request parse_url request i result =
    bindr (if rq_method request = ''initialize'' then bindr (initializeClientId parse_url (rq_params request)) (\<lambda>c. Inr (Some c)) else Inr None) (\<lambda>client.
      Inr \<lparr> mr_status = 200, mr_body = Some (jsonRpcSuccess i result), mr_initialized = (rq_method request = ''initialize''),
            mr_clientId = client, mr_wwwAuthenticate = extractWwwAuthenticate result \<rparr>)"

definition run_request ::
  "('k, 'p) mcp_registry \<Rightarrow> 's oauth_store \<Rightarrow> ('k, 'p, 's) mcp_context \<Rightarrow> rpc_request \<Rightarrow> 's \<Rightarrow> mcp_result outcome \<times> 's" where
  "run_request mg store cx request st = andThen (reserved cx (rq_id request) st) (\<lambda>_ st1.
     if mc_sessionInitialized cx = Some False \<and> \<not> List.member methods_before_initialized (rq_method request)
     then (Inr (plain_result (if rq_id request = None then 400 else 200)
       (Some (jsonRpcError (rq_id request) (- 32002) ''session is not initialized''))), st1)
     else (case rq_id request of
         None \<Rightarrow> (let (status, body) = handleNotification request in (Inr (plain_result status body), st1))
       | Some i \<Rightarrow> andThen (dispatch mg store cx request st1) (\<lambda>result st2.
           (answered_request (mg_parseUrl mg) request i result, st2)) id)) id"

definition parsed_message :: "json \<Rightarrow> rpc_request option outcome" where
  "parsed_message input = bindr (isJsonRpcResponse input) (\<lambda>isResponse.
     if isResponse then Inr None else bindr (parseJsonRpc input) (\<lambda>request. Inr (Some request)))"

definition handleMcpJson ::
  "('k, 'p) mcp_registry \<Rightarrow> 's oauth_store \<Rightarrow> ('k, 'p, 's) mcp_context \<Rightarrow> json \<Rightarrow> 's \<Rightarrow> mcp_result outcome \<times> 's" where
  "handleMcpJson mg store cx input st = (case parsed_message input of
     Inl e \<Rightarrow> (case as_service_error e of
         Some (c, message, status) \<Rightarrow> (Inr (plain_result status (Some (jsonRpcError None (- 32600) message))), st)
       | None \<Rightarrow> (Inl e, st))
   | Inr None \<Rightarrow> (Inr (plain_result 202 None), st)
   | Inr (Some request) \<Rightarrow> (case run_request mg store cx request st of
         (Inl e, st') \<Rightarrow> (failed_request (mg_parseUrl mg) (tx_config (mc_call cx)) (rq_id request) e, st')
       | (Inr result, st') \<Rightarrow> (Inr result, st')))"

end
