(* ===== verification/Mcp_Server.thy ===== *)
theory Mcp_Server
  imports Mcp_Protocol
begin

text \<open>
  The streamable transport of the MCP server: the headers (\<open>mcp/transport-headers.ts\<close>), the body
  (\<open>request-body.ts\<close>), sessions (\<open>session-store.ts\<close>) and the handlers of \<open>endpoints.mcp.ts\<close> with
  \<open>transport-error.ts\<close>.  A handler gives \<open>Inl e\<close> when its own \<open>catch\<close> throws \<open>e\<close>.
\<close>

section \<open>Headers and body\<close>

definition validateOrigin :: "service_config \<Rightarrow> http_request \<Rightarrow> unit outcome" where
  "validateOrigin config req = (let origin = header_text req ''origin'' in
     if origin \<noteq> [] \<and> \<not> List.member (allowedOrigins config) origin then Inl (ServiceError Forbidden ''origin is not allowed'' 403)
     else Inr ())"

definition invalid_accept :: js_error where "invalid_accept = ServiceError Bad_request ''invalid accept header'' 400"

definition validateSseAccept :: "http_request \<Rightarrow> unit outcome" where
  "validateSseAccept req =
    (if \<not> acceptsMediaType (header_text req ''accept'') ''text/event-stream'' then Inl invalid_accept else Inr ())"

definition validatePostAccept :: "http_request \<Rightarrow> unit outcome" where
  "validatePostAccept req = (let accept = header_text req ''accept'' in
     if \<not> acceptsMediaType accept ''application/json'' \<or> \<not> acceptsMediaType accept ''text/event-stream'' then Inl invalid_accept else Inr ())"

definition validatePostContentType :: "http_request \<Rightarrow> unit outcome" where
  "validatePostContentType req = (let contentType = header_text req ''content-type'' in
     if mediaType contentType \<noteq> ''application/json'' \<or> \<not> contentTypeUsesUtf8 contentType
     then Inl (ServiceError Bad_request ''unsupported content type'' 415) else Inr ())"

definition is_session_id :: "string \<Rightarrow> bool" where
  "is_session_id s = (16 \<le> length s \<and> length s \<le> 256 \<and> list_all is_base64url_char s)"

definition readMcpSessionId :: "http_request \<Rightarrow> string outcome" where
  "readMcpSessionId req = (let s = header_text req ''mcp-session-id'' in
     if \<not> is_session_id s then Inl (ServiceError Bad_request ''invalid mcp session'' 400) else Inr s)"

definition validateNoMcpSessionId :: "http_request \<Rightarrow> unit outcome" where
  "validateNoMcpSessionId req = (if header req ''mcp-session-id'' \<noteq> None
     then Inl (ServiceError Bad_request ''initialize must not include mcp session'' 400) else Inr ())"

text \<open>Every caller passes \<open>required = false\<close>.\<close>

definition readMcpProtocolVersion :: "http_request \<Rightarrow> bool \<Rightarrow> string option outcome" where
  "readMcpProtocolVersion req required = (let s = header_text req ''mcp-protocol-version'' in
     if s = [] then (if required then Inl (ServiceError Bad_request ''missing mcp protocol version'' 400) else Inr None)
     else Inr (Some s))"

definition corsHeaders :: "service_config \<Rightarrow> http_request \<Rightarrow> (string \<times> string) list" where
  "corsHeaders config req = (let origin = header_text req ''origin'' in
     (if origin \<noteq> [] \<and> List.member (allowedOrigins config) origin
      then [(''access-control-allow-origin'', origin), (''vary'', ''origin'')] else []) @
     [(''access-control-allow-methods'', ''GET,POST,DELETE,OPTIONS''),
      (''access-control-allow-headers'', ''Authorization,Content-Type,Accept,MCP-Protocol-Version,MCP-Session-Id,Last-Event-ID'')])"

fun with_headers :: "(string \<times> string) list \<Rightarrow> http_response \<Rightarrow> http_response" where
  "with_headers hs (Json_response status headers body) = Json_response status (headers @ hs) body"
| "with_headers hs (No_content status headers) = No_content status (headers @ hs)"
| "with_headers hs (Redirect location) = Redirect location"

text \<open>\<open>Inl\<close> is the \<open>McpBodyResult\<close>.\<close>

definition readMcpJsonBody :: "http_request \<Rightarrow> (nat \<times> json) + json" where
  "readMcpJsonBody req = (case readBody req 32768 of
     Inl e \<Rightarrow> (case as_service_error e of
         Some (c, message, status) \<Rightarrow> Inl (status, jsonRpcError None (- 32600) message)
       | None \<Rightarrow> Inl (400, jsonRpcError None (- 32700) ''parse error''))
   | Inr s \<Rightarrow> (case json_parse s of None \<Rightarrow> Inl (400, jsonRpcError None (- 32700) ''parse error'') | Some v \<Rightarrow> Inr v))"

definition writeMcpTransportError :: "url_parser \<Rightarrow> service_config option \<Rightarrow> js_error \<Rightarrow> http_response outcome" where
  "writeMcpTransportError parse_url config error =
    (case (config, as_service_error error) of
       (Some cfg, Some (c, message, status)) \<Rightarrow>
         if status = 401 then bindr (wwwAuthenticate parse_url cfg mcpProtectedResourceScopes (Some status)) (\<lambda>challenge.
           Inr (with_headers [(''www-authenticate'', challenge)] (writeError error)))
         else Inr (writeError error)
     | _ \<Rightarrow> Inr (writeError error))"

section \<open>Sessions\<close>

definition store_flag :: "'s oauth_store \<Rightarrow> disk_event \<Rightarrow> int \<Rightarrow> 's \<Rightarrow> bool outcome \<times> 's" where
  "store_flag store event now st = (case store event now st of
     (Flag b, st') \<Rightarrow> (Inr b, st') | (Threw e, st') \<Rightarrow> (Inl e, st') | (_, st') \<Rightarrow> (Inl unexpected_result, st'))"

definition touchSession ::
  "(string \<Rightarrow> string) \<Rightarrow> 's oauth_store \<Rightarrow> string \<Rightarrow> string option \<Rightarrow> bool \<Rightarrow> int \<Rightarrow> 's \<Rightarrow> bool outcome \<times> 's" where
  "touchSession sha store sessionId protocolVersion markInitialized now st =
    store_flag store (Touch (sha sessionId) protocolVersion markInitialized) now st"

definition reserveRequest ::
  "(string \<Rightarrow> string) \<Rightarrow> 's oauth_store \<Rightarrow> string \<Rightarrow> int \<Rightarrow> rpc_id \<Rightarrow> 's \<Rightarrow> unit outcome \<times> 's" where
  "reserveRequest sha store sessionId now i st =
    andThen (store_flag store (Reserve (sha sessionId) (mcpRequestIdHash sha i)) now st) (\<lambda>isNew st'.
      (if isNew then Inr () else Inl duplicateRequestIdError, st')) id"

definition store_done :: "'s oauth_store \<Rightarrow> disk_event \<Rightarrow> int \<Rightarrow> 's \<Rightarrow> unit outcome \<times> 's" where
  "store_done store event now st = (case store event now st of
     (Done, st') \<Rightarrow> (Inr (), st') | (Threw e, st') \<Rightarrow> (Inl e, st') | (_, st') \<Rightarrow> (Inl unexpected_result, st'))"

definition createMcpSession ::
  "(string \<Rightarrow> string) \<Rightarrow> 's oauth_store \<Rightarrow> string \<Rightarrow> string \<Rightarrow> string \<Rightarrow> int \<Rightarrow> 's \<Rightarrow> string outcome \<times> 's" where
  "createMcpSession sha store sessionId protocolVersion client now st =
    andThen (store_done store (SaveSession
        \<lparr> ms_sessionIdHash = sha sessionId, ms_clientId = client, ms_protocolVersion = protocolVersion, ms_createdAt = now,
          ms_lastSeenAt = now, ms_expiresAt = now + 3600, ms_requestIdHashes = [], ms_initializedAt = None, ms_terminatedAt = None \<rparr>) now st)
      (\<lambda>_ st'. (Inr sessionId, st')) id"

definition terminateSession :: "(string \<Rightarrow> string) \<Rightarrow> 's oauth_store \<Rightarrow> string \<Rightarrow> int \<Rightarrow> 's \<Rightarrow> unit outcome \<times> 's" where
  "terminateSession sha store sessionId now st = store_done store (Terminate (sha sessionId)) now st"

section \<open>The streamable transport\<close>

text \<open>Clock readings, the text of the time and the random value of one request, in the order of their use.\<close>

record mcp_draws =
  md_verify :: int
  md_touch :: int
  md_reserve :: int
  md_call :: int
  md_timestamp :: string
  md_sessionId :: string
  md_after :: int

text \<open>The checks every handler makes first.  The keys are those that \<open>keySet\<close> has cached since the start of the
  service, so that reading them before the header makes no difference.\<close>

definition checked_request ::
  "('k, 'p, 's, 'u) service \<Rightarrow> service_config \<Rightarrow> http_request \<Rightarrow> int \<Rightarrow> 'p verification_key list outcome" where
  "checked_request sv config req now =
    bindr (validateOrigin config req) (\<lambda>_. bindr (rejectAccessTokenQuery req) (\<lambda>_.
    bindr (validateSingleAuthorizationHeader (hr_rawHeaders req)) (\<lambda>_. bindr (sv_keySet sv config) (\<lambda>ks.
    bindr (verifyBearer (sv_crypto sv) config (ks_verificationKeys ks) now (header req ''authorization'') (mcpResource config) []) (\<lambda>claims.
      Inr (ks_verificationKeys ks))))))"

definition call_context ::
  "('k, 'p, 's, 'u) service \<Rightarrow> service_config \<Rightarrow> http_request \<Rightarrow> mcp_draws \<Rightarrow> ('k, 'p) tool_context" where
  "call_context sv config req draws = \<lparr> tx_crypto = sv_crypto sv, tx_config = config,
     tx_keys = bindr (sv_keySet sv config) (\<lambda>ks. Inr (ks_verificationKeys ks)), tx_now = md_call draws, tx_timestamp = md_timestamp draws,
     tx_authorization = Some (header_text req ''authorization'') \<rparr>"

definition handler_result ::
  "url_parser \<Rightarrow> service_config \<Rightarrow> (string \<times> string) list \<Rightarrow> http_response outcome \<times> 's \<Rightarrow> http_response outcome \<times> 's" where
  "handler_result parse_url config headers r = (case r of
     (Inr response, st) \<Rightarrow> (Inr (with_headers headers response), st)
   | (Inl e, st) \<Rightarrow> (bindr (writeMcpTransportError parse_url (Some config) e) (\<lambda>response. Inr (with_headers headers response)), st))"

definition body_method :: "json \<Rightarrow> json option" where
  "body_method body = (case body of JObj kvs \<Rightarrow> field kvs ''method'' | _ \<Rightarrow> None)"

definition challenge_headers :: "string list option \<Rightarrow> (string \<times> string) list" where
  "challenge_headers challenges = (case challenges of None \<Rightarrow> [] | Some cs \<Rightarrow> map (\<lambda>c. (''www-authenticate'', c)) cs)"

definition written_result :: "mcp_result \<Rightarrow> (string \<times> string) list \<Rightarrow> http_response" where
  "written_result result headers = (case mr_body result of
     None \<Rightarrow> writeNoContent (mr_status result) headers | Some body \<Rightarrow> writeJson (mr_status result) body headers)"

definition handled_initialize ::
  "('k, 'p, 's, 'u) service \<Rightarrow> ('k, 'p) mcp_registry \<Rightarrow> service_config \<Rightarrow> http_request \<Rightarrow> mcp_draws \<Rightarrow> json \<Rightarrow> 's \<Rightarrow> http_response outcome \<times> 's" where
  "handled_initialize sv mg config req draws body st =
    (case bindr (validateNoMcpSessionId req) (\<lambda>_. bindr (readMcpProtocolVersion req False) negotiateProtocolVersion) of
       Inl e \<Rightarrow> (Inl e, st)
     | Inr version \<Rightarrow> andThen (handleMcpJson mg (sv_store sv) \<lparr> mc_call = call_context sv config req draws,
           mc_rateLimitSubject = Some (requestSubject req), mc_sessionInitialized = Some False, mc_reserveRequestId = None \<rparr> body st) (\<lambda>result st1.
         if mr_initialized result
         then andThen (createMcpSession (cr_sha256 (sv_crypto sv)) (sv_store sv) (md_sessionId draws) version
             (case mr_clientId result of None \<Rightarrow> ''unknown-mcp-client'' | Some c \<Rightarrow> c) (md_after draws) st1) (\<lambda>sid st2.
           (Inr (written_result result ((''MCP-Session-Id'', sid) # challenge_headers (mr_wwwAuthenticate result))), st2)) id
         else (Inr (written_result result (challenge_headers (mr_wwwAuthenticate result))), st1)) id)"

definition handled_in_session ::
  "('k, 'p, 's, 'u) service \<Rightarrow> ('k, 'p) mcp_registry \<Rightarrow> service_config \<Rightarrow> http_request \<Rightarrow> mcp_draws \<Rightarrow> json \<Rightarrow> 's \<Rightarrow> http_response outcome \<times> 's" where
  "handled_in_session sv mg config req draws body st =
    (case bindr (readMcpSessionId req) (\<lambda>sid. bindr (readMcpProtocolVersion req False) (\<lambda>version. Inr (sid, version))) of
       Inl e \<Rightarrow> (Inl e, st)
     | Inr (sid, version) \<Rightarrow> (let sha = cr_sha256 (sv_crypto sv); store = sv_store sv in
         andThen (touchSession sha store sid version False (md_touch draws) st) (\<lambda>isInitialized st1.
         andThen (handleMcpJson mg store \<lparr> mc_call = call_context sv config req draws, mc_rateLimitSubject = Some (requestSubject req),
             mc_sessionInitialized = Some isInitialized, mc_reserveRequestId = Some (reserveRequest sha store sid (md_reserve draws)) \<rparr> body st1)
           (\<lambda>result st2.
             andThen (if body_method body = Some (JStr ''notifications/initialized'') \<and> mr_status result = 202 \<and> mr_body result = None
               then touchSession sha store sid version True (md_after draws) st2 else (Inr False, st2)) (\<lambda>marked st3.
             (Inr (written_result result (challenge_headers (mr_wwwAuthenticate result))), st3)) id) id) id))"

definition mcpPost ::
  "('k, 'p, 's, 'u) service \<Rightarrow> ('k, 'p) mcp_registry \<Rightarrow> http_request \<Rightarrow> mcp_draws \<Rightarrow> 's \<Rightarrow> http_response outcome \<times> 's" where
  "mcpPost sv mg req draws st = (case sv_config sv of
     Inl e \<Rightarrow> (writeMcpTransportError (mg_parseUrl mg) None e, st)
   | Inr config \<Rightarrow> (case bindr (checked_request sv config req (md_verify draws)) (\<lambda>_.
         bindr (validatePostAccept req) (\<lambda>_. validatePostContentType req)) of
       Inl e \<Rightarrow> handler_result (mg_parseUrl mg) config [] (Inl e, st)
     | Inr u \<Rightarrow> handler_result (mg_parseUrl mg) config (corsHeaders config req)
         (case readMcpJsonBody req of
            Inl (status, body) \<Rightarrow> (Inr (writeJson status body []), st)
          | Inr body \<Rightarrow> if body_method body = Some (JStr ''initialize'') then handled_initialize sv mg config req draws body st
              else handled_in_session sv mg config req draws body st)))"

definition mcpDelete ::
  "('k, 'p, 's, 'u) service \<Rightarrow> url_parser \<Rightarrow> http_request \<Rightarrow> mcp_draws \<Rightarrow> 's \<Rightarrow> http_response outcome \<times> 's" where
  "mcpDelete sv parse_url req draws st = (case sv_config sv of
     Inl e \<Rightarrow> (writeMcpTransportError parse_url None e, st)
   | Inr config \<Rightarrow> (case bindr (checked_request sv config req (md_verify draws)) (\<lambda>_. bindr (readMcpProtocolVersion req False) (\<lambda>version.
         bindr (readMcpSessionId req) (\<lambda>sid. Inr (version, sid)))) of
       Inl e \<Rightarrow> handler_result parse_url config [] (Inl e, st)
     | Inr (version, sid) \<Rightarrow> (let sha = cr_sha256 (sv_crypto sv); store = sv_store sv in
         case andThen (touchSession sha store sid version False (md_touch draws) st) (\<lambda>b st1.
             terminateSession sha store sid (md_after draws) st1) id of
           (Inl e, st') \<Rightarrow> handler_result parse_url config [] (Inl e, st')
         | (Inr u, st') \<Rightarrow> (Inr (writeNoContent 204 (corsHeaders config req)), st'))))"

definition mcpOptions :: "('k, 'p, 's, 'u) service \<Rightarrow> http_request \<Rightarrow> http_response" where
  "mcpOptions sv req = (case bindr (sv_config sv) (\<lambda>config. bindr (validateOrigin config req) (\<lambda>_. bindr (rejectAccessTokenQuery req) (\<lambda>_.
       bindr (validateSingleAuthorizationHeader (hr_rawHeaders req)) (\<lambda>_. Inr (writeNoContent 204 (corsHeaders config req)))))) of
     Inl e \<Rightarrow> writeError e | Inr response \<Rightarrow> response)"

end
