(* ===== verification/Mcp_Sse.thy ===== *)
theory Mcp_Sse
  imports Mcp_Server
begin

text \<open>
  Open streams of the MCP server: their number (\<open>mcp/sse-connection-limit.ts\<close>), their frames
  (\<open>sse-event.ts\<close>), the stream of the current transport (\<open>streamable-get-stream.ts\<close>, \<open>mcpGet\<close>) and the
  sessions of the older one (\<open>legacy-sse-session.ts\<close>, \<open>endpoints.sse.ts\<close>).  What outlives a handler is the
  record \<open>mcp_process\<close>; the end of a stream is a step of its own.  A heartbeat only writes a comment.
\<close>

section \<open>Frames\<close>

definition line_feed :: char where "line_feed = char_of (10 :: nat)"
definition carriage_return :: char where "carriage_return = char_of (13 :: nat)"

text \<open>\<open>data.split(/\r?\n/)\<close>: a line feed ends a line, with a carriage return before it.\<close>

definition drop_cr :: "string \<Rightarrow> string" where
  "drop_cr s = (if s \<noteq> [] \<and> last s = carriage_return then butlast s else s)"

definition split_lines :: "string \<Rightarrow> string list" where
  "split_lines s = (let pieces = split_on line_feed s in map drop_cr (butlast pieces) @ [last pieces])"

definition sse_event :: "string \<Rightarrow> string \<Rightarrow> string option \<Rightarrow> string" where
  "sse_event event data eid = join_with [line_feed]
     ((case eid of Some i \<Rightarrow> if i \<noteq> [] then [''id: '' @ i] else [] | None \<Rightarrow> []) @ [''event: '' @ event] @
      map (\<lambda>line. ''data: '' @ line) (split_lines data) @ [[], []])"

definition sse_comment :: "string \<Rightarrow> string" where
  "sse_comment s = '': '' @ s @ [line_feed, line_feed]"

definition sseHeaders :: "(string \<times> string) list" where
  "sseHeaders = [(''content-type'', ''text/event-stream; charset=utf-8''), (''cache-control'', ''no-store, no-transform''),
     (''connection'', ''keep-alive''), (''x-accel-buffering'', ''no'')]"

section \<open>The number of streams\<close>

text \<open>\<open>activeConnections\<close>, and for every connection ever acquired whether its closure has released it.\<close>

record sse_connections =
  sc_active :: int
  sc_released :: "bool list"

definition acquireSseConnection :: "int \<Rightarrow> sse_connections \<Rightarrow> (nat \<times> sse_connections) outcome" where
  "acquireSseConnection maxConnections s =
    (if sc_active s \<ge> maxConnections then Inl (ServiceError Rate_limited ''sse connection limit exceeded'' 429)
     else Inr (length (sc_released s), \<lparr> sc_active = sc_active s + 1, sc_released = sc_released s @ [False] \<rparr>))"

definition releaseSseConnection :: "nat \<Rightarrow> sse_connections \<Rightarrow> sse_connections" where
  "releaseSseConnection i s = (if i < length (sc_released s) \<and> \<not> sc_released s ! i
     then \<lparr> sc_active = sc_active s - 1, sc_released = (sc_released s)[i := True] \<rparr> else s)"

section \<open>Sessions of the older transport\<close>

text \<open>A response is open until it is destroyed or ended; its frames are what was written.\<close>

record legacy_session =
  ls_requestIdHashes :: "string list"
  ls_sequence :: nat
  ls_open :: bool
  ls_frames :: "string list"

record 's mcp_process =
  mp_store :: 's
  mp_connections :: sse_connections
  mp_sessions :: "(string \<times> legacy_session) list"

definition sse_not_found :: js_error where "sse_not_found = ServiceError Not_found ''sse session not found'' 404"

definition closeLegacySseSession :: "string \<Rightarrow> 's mcp_process \<Rightarrow> 's mcp_process" where
  "closeLegacySseSession sid s = s \<lparr> mp_sessions := AList.delete sid (mp_sessions s) \<rparr>"

definition createLegacySseSession :: "string \<Rightarrow> 's mcp_process \<Rightarrow> 's mcp_process" where
  "createLegacySseSession sid s = s \<lparr> mp_sessions := AList.update sid
     \<lparr> ls_requestIdHashes = [], ls_sequence = 0, ls_open = True, ls_frames = [] \<rparr> (mp_sessions s) \<rparr>"

definition readLegacySseSessionId :: "http_request \<Rightarrow> string outcome" where
  "readLegacySseSessionId req = bindr (requestQuery req) (\<lambda>query.
     let sid = (case get_param query ''sessionId'' of None \<Rightarrow> [] | Some s \<Rightarrow> s) in
     if \<not> is_session_id sid then Inl (ServiceError Bad_request ''invalid sse session'' 400) else Inr sid)"

definition reserveLegacyRequestId ::
  "(string \<Rightarrow> string) \<Rightarrow> string \<Rightarrow> rpc_id \<Rightarrow> 's mcp_process \<Rightarrow> unit outcome \<times> 's mcp_process" where
  "reserveLegacyRequestId sha sid i s = (case map_of (mp_sessions s) sid of
     None \<Rightarrow> (Inl sse_not_found, s)
   | Some session \<Rightarrow>
       if \<not> ls_open session then (Inl sse_not_found, s)
       else let hash_text = mcpRequestIdHash sha i in
         if List.member (ls_requestIdHashes session) hash_text then (Inl duplicateRequestIdError, s)
         else if mcpRequestIdLimit \<le> length (ls_requestIdHashes session)
           then (Inl (ServiceError Rate_limited ''too many mcp request ids'' 429), s)
         else (Inr (), s \<lparr> mp_sessions := AList.update sid
           (session \<lparr> ls_requestIdHashes := ls_requestIdHashes session @ [hash_text] \<rparr>) (mp_sessions s) \<rparr>))"

definition sendLegacySseMessage :: "string \<Rightarrow> json \<Rightarrow> 's mcp_process \<Rightarrow> unit outcome \<times> 's mcp_process" where
  "sendLegacySseMessage sid body s = (case map_of (mp_sessions s) sid of
     None \<Rightarrow> (Inl sse_not_found, s)
   | Some session \<Rightarrow>
       if \<not> ls_open session then (Inl sse_not_found, closeLegacySseSession sid s)
       else let n = Suc (ls_sequence session); eid = sid @ ''.'' @ decimal n in
         (Inr (), s \<lparr> mp_sessions := AList.update sid (session \<lparr> ls_sequence := n,
           ls_frames := ls_frames session @ [sse_event ''message'' (json_text body) (Some eid)] \<rparr>) (mp_sessions s) \<rparr>))"

text \<open>The store of a process.\<close>

definition process_store :: "'s oauth_store \<Rightarrow> 's mcp_process oauth_store" where
  "process_store store event now s = (case store event now (mp_store s) of (r, st) \<Rightarrow> (r, s \<lparr> mp_store := st \<rparr>))"

section \<open>Handlers\<close>

datatype sse_answer =
    Answered "http_response outcome"
  | Streaming nat "(string \<times> string) list" "string list"

definition checked_stream ::
  "('k, 'p, 's, 'u) service \<Rightarrow> service_config \<Rightarrow> http_request \<Rightarrow> int \<Rightarrow> unit outcome" where
  "checked_stream sv config req now = bindr (checked_request sv config req now) (\<lambda>_. validateSseAccept req)"

text \<open>The stream of \<open>/mcp\<close>: the connection's number, its headers and the comment it starts with.\<close>

definition mcpGet ::
  "('k, 'p, 's, 'u) service \<Rightarrow> url_parser \<Rightarrow> http_request \<Rightarrow> mcp_draws \<Rightarrow> 's mcp_process \<Rightarrow> sse_answer \<times> 's mcp_process" where
  "mcpGet sv parse_url req draws s = (case sv_config sv of
     Inl e \<Rightarrow> (Answered (writeMcpTransportError parse_url None e), s)
   | Inr config \<Rightarrow> (case bindr (checked_stream sv config req (md_verify draws)) (\<lambda>_. bindr (readMcpProtocolVersion req False) (\<lambda>version.
         bindr (readMcpSessionId req) (\<lambda>sid. Inr (version, sid)))) of
       Inl e \<Rightarrow> (Answered (fst (handler_result parse_url config [] (Inl e, s))), s)
     | Inr (version, sid) \<Rightarrow>
         (case touchSession (cr_sha256 (sv_crypto sv)) (process_store (sv_store sv)) sid version False (md_touch draws) s of
           (Inl e, s1) \<Rightarrow> (Answered (fst (handler_result parse_url config [] (Inl e, s1))), s1)
         | (Inr b, s1) \<Rightarrow> (case acquireSseConnection (mcpSseMaxConnections config) (mp_connections s1) of
             Inl e \<Rightarrow> (Answered (fst (handler_result parse_url config (corsHeaders config req) (Inl e, s1))), s1)
           | Inr (i, connections) \<Rightarrow>
               (Streaming i (sseHeaders @ corsHeaders config req) [sse_comment ''ready''], s1 \<lparr> mp_connections := connections \<rparr>)))))"

text \<open>The stream of \<open>/sse\<close>: the random identifier of the session is made of base64url symbols, so that
  \<open>encodeURIComponent\<close> leaves it as it is.\<close>

definition sseEndpoint ::
  "('k, 'p, 's, 'u) service \<Rightarrow> url_parser \<Rightarrow> http_request \<Rightarrow> mcp_draws \<Rightarrow> 's mcp_process \<Rightarrow> sse_answer \<times> 's mcp_process" where
  "sseEndpoint sv parse_url req draws s = (case sv_config sv of
     Inl e \<Rightarrow> (Answered (writeMcpTransportError parse_url None e), s)
   | Inr config \<Rightarrow> (case checked_stream sv config req (md_verify draws) of
       Inl e \<Rightarrow> (Answered (fst (handler_result parse_url config [] (Inl e, s))), s)
     | Inr u \<Rightarrow> (case acquireSseConnection (mcpSseMaxConnections config) (mp_connections s) of
         Inl e \<Rightarrow> (Answered (fst (handler_result parse_url config (corsHeaders config req) (Inl e, s))), s)
       | Inr (i, connections) \<Rightarrow> (let sid = md_sessionId draws;
             frame = sse_event ''endpoint'' (''/messages?sessionId='' @ sid) None in
           (Streaming i (sseHeaders @ corsHeaders config req) [frame],
            createLegacySseSession sid (s \<lparr> mp_connections := connections \<rparr>))))))"

text \<open>The client goes away, and the \<open>finally\<close> of the handler that kept its stream runs: these are two moments,
  with messages possible between them.\<close>

definition disconnected :: "string \<Rightarrow> 's mcp_process \<Rightarrow> 's mcp_process" where
  "disconnected sid s = (case map_of (mp_sessions s) sid of
     None \<Rightarrow> s | Some session \<Rightarrow> s \<lparr> mp_sessions := AList.update sid (session \<lparr> ls_open := False \<rparr>) (mp_sessions s) \<rparr>)"

definition stream_ended :: "nat \<Rightarrow> string option \<Rightarrow> 's mcp_process \<Rightarrow> 's mcp_process" where
  "stream_ended i sid s = (let s1 = (case sid of None \<Rightarrow> s | Some x \<Rightarrow> closeLegacySseSession x s) in
     s1 \<lparr> mp_connections := releaseSseConnection i (mp_connections s1) \<rparr>)"

definition handled_message ::
  "('k, 'p, 's, 'u) service \<Rightarrow> ('k, 'p) mcp_registry \<Rightarrow> service_config \<Rightarrow> http_request \<Rightarrow> mcp_draws \<Rightarrow> 's mcp_process \<Rightarrow>
     http_response outcome \<times> 's mcp_process" where
  "handled_message sv mg config req draws s = (case readLegacySseSessionId req of
     Inl e \<Rightarrow> (Inl e, s)
   | Inr sid \<Rightarrow> (case readMcpJsonBody req of
       Inl (status, body) \<Rightarrow> (Inr (writeJson status body []), s)
     | Inr body \<Rightarrow> andThen (handleMcpJson mg (process_store (sv_store sv)) \<lparr> mc_call = call_context sv config req draws,
           mc_rateLimitSubject = Some (requestSubject req), mc_sessionInitialized = None,
           mc_reserveRequestId = Some (reserveLegacyRequestId (cr_sha256 (sv_crypto sv)) sid) \<rparr> body s) (\<lambda>result s1.
         case (case mr_body result of None \<Rightarrow> (Inr (), s1) | Some answer_body \<Rightarrow> sendLegacySseMessage sid answer_body s1) of
           (Inl e, s2) \<Rightarrow> handler_result (mg_parseUrl mg) config (challenge_headers (mr_wwwAuthenticate result)) (Inl e, s2)
         | (Inr u, s2) \<Rightarrow> (Inr (No_content 202 (challenge_headers (mr_wwwAuthenticate result))), s2)) id))"

definition messagesEndpoint ::
  "('k, 'p, 's, 'u) service \<Rightarrow> ('k, 'p) mcp_registry \<Rightarrow> http_request \<Rightarrow> mcp_draws \<Rightarrow> 's mcp_process \<Rightarrow> http_response outcome \<times> 's mcp_process" where
  "messagesEndpoint sv mg req draws s = (case sv_config sv of
     Inl e \<Rightarrow> (writeMcpTransportError (mg_parseUrl mg) None e, s)
   | Inr config \<Rightarrow> (case bindr (checked_request sv config req (md_verify draws)) (\<lambda>_. validatePostContentType req) of
       Inl e \<Rightarrow> handler_result (mg_parseUrl mg) config [] (Inl e, s)
     | Inr u \<Rightarrow> handler_result (mg_parseUrl mg) config (corsHeaders config req) (handled_message sv mg config req draws s)))"

end
