(* ===== verification/Mcp_Properties.thy ===== *)
theory Mcp_Properties
  imports Mcp_Sse
begin

text \<open>
  Properties of the MCP server as a whole: the responses it gives to messages, what a request needs before it
  has an effect, and the bounds on what the process keeps for open streams.
\<close>

section \<open>Responses\<close>

fun id_ok :: "rpc_id \<Rightarrow> bool" where
  "id_ok (Text_id s) = True"
| "id_ok (Number_id n) = is_safe_integer (Finite (of_int n))"

lemma validated_id:
  assumes "validateJsonRpcId v = Inr i"
  shows "id_ok i" "id_json i = v"
proof -
  have "Finite (of_int (integer_value n)) = n" if "is_safe_integer n" for n
    using that by (cases n) auto
  then show "id_ok i" "id_json i = v" using assms by (auto simp: validateJsonRpcId_def split: json.splits if_splits)
qed

lemma id_valid: "id_ok i \<Longrightarrow> validateJsonRpcId (id_json i) = Inr i"
  by (cases i) (auto simp: validateJsonRpcId_def)

lemma parsed_id:
  assumes "parseJsonRpc input = Inr request" "rq_id request = Some i"
  shows "id_ok i"
  using assms validated_id(1) by (auto simp: parseJsonRpc_def bindr_eq_Inr if_Inl_eq_Inr split: option.splits if_splits)

lemma success_response:
  "id_ok i \<Longrightarrow> isJsonRpcResponse (jsonRpcSuccess i (JObj kvs)) = Inr True"
  by (simp add: isJsonRpcResponse_def jsonRpcSuccess_def assertOnlyKeys_def only_keys_def id_valid validateJsonRpcResult_def)

lemma error_response:
  "id_ok i \<Longrightarrow> isJsonRpcResponse (jsonRpcError (Some i) n m) = Inr True"
  by (simp add: isJsonRpcResponse_def jsonRpcError_def assertOnlyKeys_def only_keys_def id_valid validateJsonRpcError_def asRecord_def)

definition response_for :: "rpc_id option \<Rightarrow> json \<Rightarrow> bool" where
  "response_for rid body = (\<exists>fs. body = JObj fs \<and> (field fs ''result'' = None) \<noteq> (field fs ''error'' = None) \<and>
     field fs ''id'' = map_option id_json rid \<and> (rid \<noteq> None \<longrightarrow> isJsonRpcResponse body = Inr True))"

lemma error_for: "(\<And>i. rid = Some i \<Longrightarrow> id_ok i) \<Longrightarrow> response_for rid (jsonRpcError rid n m)"
  using error_response unfolding response_for_def by (cases rid) (auto simp: jsonRpcError_def)

lemma success_for: "id_ok i \<Longrightarrow> response_for (Some i) (jsonRpcSuccess i (JObj kvs))"
  using success_response [of i kvs] unfolding response_for_def by (auto simp: jsonRpcSuccess_def)

text \<open>Every method gives an object.\<close>

lemma paginated_object: "paginatedList ps name key items psize = Inr r \<Longrightarrow> \<exists>kvs. r = JObj kvs"
  by (auto simp: paginatedList_def bindr_eq_Inr Let_def)

lemma dispatch_object:
  assumes "dispatch mg store cx request st = (Inr r, st')"
  shows "\<exists>kvs. r = JObj kvs"
  using assms paginated_object
  by (auto simp: dispatch_def Let_def initializeResult_def listTools_def listResources_def listResourceTemplates_def bindr_eq_Inr
      andThen_eq_Inr split: if_splits sum.splits)

lemma notification_for: "handleNotification request = (status, Some body) \<Longrightarrow> response_for None body"
  using error_for [of None] by (auto simp: handleNotification_def invalidNotification_def Let_def split: if_splits sum.splits)

text \<open>The body of a result: for the identifier of its request, and always there when the request has one.\<close>

definition answers_for :: "rpc_id option \<Rightarrow> mcp_result \<Rightarrow> bool" where
  "answers_for rid result = (case mr_body result of None \<Rightarrow> rid = None | Some body \<Rightarrow> response_for rid body)"

lemma failed_request_for:
  assumes "failed_request parse_url config rid e = Inr result" "\<And>i. rid = Some i \<Longrightarrow> id_ok i"
  shows "answers_for rid result"
  using assms error_for [OF assms(2)]
  by (auto simp: failed_request_def answers_for_def plain_result_def bindr_eq_Inr split: js_error.splits)

definition blocked :: "('k, 'p, 's) mcp_context \<Rightarrow> rpc_request \<Rightarrow> bool" where
  "blocked cx request = (mc_sessionInitialized cx = Some False \<and> \<not> List.member methods_before_initialized (rq_method request))"

lemma run_request_cases:
  assumes "run_request mg store cx request st = (Inr result, st')"
  obtains (not_ready) status where "reserved cx (rq_id request) st = (Inr (), st')" "blocked cx request"
      "result = plain_result status (Some (jsonRpcError (rq_id request) (- 32002) ''session is not initialized''))"
  | (notified) status body where "rq_id request = None" "handleNotification request = (status, body)" "result = plain_result status body"
  | (answered) i r st1 where "reserved cx (rq_id request) st = (Inr (), st1)" "\<not> blocked cx request" "rq_id request = Some i"
      "dispatch mg store cx request st1 = (Inr r, st')" "answered_request (mg_parseUrl mg) request i r = Inr result"
proof -
  obtain u st1 where run: "reserved cx (rq_id request) st = (Inr (), st1)"
    using assms by (auto simp: run_request_def andThen_eq_Inr)
  show ?thesis
  proof (cases "blocked cx request")
    case True
    then have "result = plain_result (if rq_id request = None then 400 else 200)
       (Some (jsonRpcError (rq_id request) (- 32002) ''session is not initialized'')) \<and> st1 = st'"
      using assms run by (simp add: run_request_def andThen_def blocked_def)
    then show ?thesis using not_ready True run by blast
  next
    case False
    then have rest: "(case rq_id request of
         None \<Rightarrow> (let (status, body) = handleNotification request in (Inr (plain_result status body), st1))
       | Some i \<Rightarrow> andThen (dispatch mg store cx request st1) (\<lambda>result st2.
           (answered_request (mg_parseUrl mg) request i result, st2)) id) = (Inr result, st')"
      using assms run by (simp only: run_request_def andThen_def prod.case sum.case blocked_def simp_thms if_False)
    show ?thesis
    proof (cases "rq_id request")
      case None
      then show ?thesis using rest notified by (auto split: prod.splits)
    next
      case (Some i)
      then show ?thesis using rest answered [OF run False Some] by (auto simp: andThen_eq_Inr)
    qed
  qed
qed

lemma answered_body:
  assumes "answered_request parse_url request i r = Inr result"
  shows "mr_body result = Some (jsonRpcSuccess i r)"
proof -
  obtain c where "Inr \<lparr> mr_status = 200, mr_body = Some (jsonRpcSuccess i r), mr_initialized = (rq_method request = ''initialize''),
      mr_clientId = c, mr_wwwAuthenticate = extractWwwAuthenticate r \<rparr> = (Inr result :: mcp_result outcome)"
    using assms unfolding answered_request_def bindr_eq_Inr by blast
  then have "\<lparr> mr_status = 200, mr_body = Some (jsonRpcSuccess i r), mr_initialized = (rq_method request = ''initialize''),
      mr_clientId = c, mr_wwwAuthenticate = extractWwwAuthenticate r \<rparr> = result" by (rule Inr_inject)
  then show ?thesis by (rule subst) simp
qed

lemma run_request_for:
  assumes "run_request mg store cx request st = (Inr result, st')" "\<And>i. rq_id request = Some i \<Longrightarrow> id_ok i"
  shows "answers_for (rq_id request) result"
  using assms(1)
proof (cases rule: run_request_cases)
  case (not_ready status)
  then show ?thesis using error_for [OF assms(2)] by (simp add: answers_for_def plain_result_def)
next
  case (notified status body)
  show ?thesis
  proof (cases body)
    case None
    then show ?thesis using notified by (simp add: answers_for_def plain_result_def)
  next
    case (Some b)
    then have "response_for None b" using notified(2) by (intro notification_for) simp
    then show ?thesis using notified Some by (simp add: answers_for_def plain_result_def)
  qed
next
  case (answered i r st1)
  from dispatch_object [OF answered(4)] obtain kvs where r: "r = JObj kvs" ..
  have "mr_body result = Some (jsonRpcSuccess i r)"
    using answered_body [OF answered(5)] .
  then show ?thesis
    using success_for [OF assms(2) [OF answered(3)], of kvs] by (simp add: answers_for_def r answered(3))
qed

text \<open>C17: whatever value a client sends, what comes back is a JSON-RPC response or nothing: a message with an
  identifier is always answered, the answer carries that identifier and either a result or an error, and it is
  accepted by the server's own reading of responses; a notification and a response are never answered with an
  identifier.\<close>

theorem responses_well_formed:
  assumes "handleMcpJson mg store cx input st = (Inr result, st')"
  shows "case parsed_message input of
     Inl e \<Rightarrow> \<exists>body. mr_body result = Some body \<and> response_for None body
   | Inr None \<Rightarrow> mr_body result = None
   | Inr (Some request) \<Rightarrow> answers_for (rq_id request) result"
proof (cases "parsed_message input")
  case (Inl e)
  then show ?thesis using assms error_for [of None] by (auto simp: handleMcpJson_def plain_result_def split: option.splits)
next
  case (Inr m)
  show ?thesis
  proof (cases m)
    case None
    then show ?thesis using assms Inr by (auto simp: handleMcpJson_def plain_result_def)
  next
    case (Some request)
    then have ok: "\<And>i. rq_id request = Some i \<Longrightarrow> id_ok i"
      using Inr parsed_id by (auto simp: parsed_message_def bindr_eq_Inr split: if_splits)
    obtain r st1 where run: "run_request mg store cx request st = (r, st1)" by fastforce
    have "answers_for (rq_id request) result"
    proof (cases r)
      case (Inl e)
      then have "failed_request (mg_parseUrl mg) (tx_config (mc_call cx)) (rq_id request) e = Inr result"
        using assms Inr Some run \<open>parsed_message input = Inr m\<close> by (simp add: handleMcpJson_def)
      then show ?thesis by (rule failed_request_for) (rule ok)
    next
      case (Inr x)
      then show ?thesis
        using assms Some run \<open>parsed_message input = Inr m\<close> run_request_for [OF _ ok] by (simp add: handleMcpJson_def)
    qed
    then show ?thesis using Inr Some by simp
  qed
qed

section \<open>Effects need a session\<close>

definition has_result :: "json \<Rightarrow> bool" where
  "has_result body = (case body of JObj fs \<Rightarrow> field fs ''result'' \<noteq> None | _ \<Rightarrow> False)"

lemma error_bodies [simp]:
  "\<not> has_result (error_body a b)" "\<not> has_result (jsonRpcError rid n m)"
  by (cases rid; simp add: has_result_def error_body_def jsonRpcError_def)+

lemma writeError_Json: "writeError e = Json_response status headers body \<Longrightarrow> \<not> has_result body"
  by (auto simp: writeError_def writeJson_def split: option.splits prod.splits)

lemma with_headers_Json: "with_headers hs r = Json_response status headers body \<Longrightarrow> \<exists>h. r = Json_response status h body"
  by (cases r) auto

lemma transport_error_Json:
  assumes "writeMcpTransportError parse_url config e = Inr (Json_response status headers body)"
  shows "\<not> has_result body"
proof -
  have "\<exists>h. writeError e = Json_response status h body"
    using assms with_headers_Json
    by (auto simp: writeMcpTransportError_def bindr_eq_Inr simp del: with_headers.simps split: option.splits prod.splits if_splits)
  then show ?thesis using writeError_Json by blast
qed

lemma handler_result_body:
  assumes "handler_result parse_url config hs r = (Inr (Json_response status headers body), st')" "has_result body"
  shows "\<exists>h. r = (Inr (Json_response status h body), st')"
proof (cases "fst r")
  case (Inl e)
  then obtain response where "writeMcpTransportError parse_url (Some config) e = Inr response"
      "with_headers hs response = Json_response status headers body"
    using assms(1) by (auto simp: handler_result_def bindr_eq_Inr split: prod.splits)
  then show ?thesis using assms(2) transport_error_Json with_headers_Json by blast
next
  case (Inr response)
  then show ?thesis using assms(1) with_headers_Json by (auto simp: handler_result_def simp del: with_headers.simps split: prod.splits)
qed

lemma written_body: "written_result result hs = Json_response status headers body \<Longrightarrow> mr_body result = Some body"
  by (auto simp: written_result_def writeNoContent_def writeJson_def split: option.splits)

text \<open>A result with a result member was dispatched, after its identifier had been reserved.\<close>

lemma dispatched_result:
  assumes "handleMcpJson mg store cx input st = (Inr result, st')" "mr_body result = Some body" "has_result body"
  obtains request i r st1 where "parseJsonRpc input = Inr request" "rq_id request = Some i" "\<not> blocked cx request"
    "reserved cx (Some i) st = (Inr (), st1)" "dispatch mg store cx request st1 = (Inr r, st')"
proof (cases "parsed_message input")
  case (Inl e)
  then show ?thesis using assms by (auto simp: handleMcpJson_def plain_result_def split: option.splits)
next
  case (Inr m)
  then obtain request where m: "m = Some request"
    using assms by (cases m) (auto simp: handleMcpJson_def plain_result_def)
  then have parsed: "parseJsonRpc input = Inr request"
    using Inr by (auto simp: parsed_message_def bindr_eq_Inr split: if_splits)
  obtain x st1 where run: "run_request mg store cx request st = (x, st1)" by fastforce
  show ?thesis
  proof (cases x)
    case (Inl e)
    then have "failed_request (mg_parseUrl mg) (tx_config (mc_call cx)) (rq_id request) e = Inr result"
      using assms(1) run m \<open>parsed_message input = Inr m\<close> by (simp add: handleMcpJson_def)
    then show ?thesis using assms(2,3)
      by (auto simp: failed_request_def plain_result_def bindr_eq_Inr split: js_error.splits)
  next
    case (Inr y)
    then have "run_request mg store cx request st = (Inr result, st')"
      using assms(1) run m \<open>parsed_message input = Inr m\<close> by (simp add: handleMcpJson_def)
    then show ?thesis
    proof (cases rule: run_request_cases)
      case (not_ready status)
      then show ?thesis using assms(2,3) by (auto simp: plain_result_def)
    next
      case (notified status b)
      then show ?thesis using assms(2,3)
        by (auto simp: handleNotification_def invalidNotification_def plain_result_def Let_def split: if_splits sum.splits)
    next
      case (answered i r st2)
      then show ?thesis using that [OF parsed answered(3)] by simp
    qed
  qed
qed

lemma dispatched_method:
  assumes "dispatch mg store cx request st = (Inr r, st')"
  shows "rq_method request \<noteq> ''notifications/initialized''"
  using assms by (auto simp: dispatch_def Let_def)

lemma touched_session:
  assumes "touchSession sha' (disk_apply sha) sid version False now st = (Inr b, st1)"
  obtains r where "live_session (sha' sid) now st = Inr r" "b = (ms_initializedAt r \<noteq> None)"
    "st1 = st \<lparr> mcpSessions := AList.update (sha' sid) (r \<lparr> ms_lastSeenAt := now \<rparr>) (mcpSessions st) \<rparr>"
  using assms by (auto simp: touchSession_def store_flag_def with_result_def touchMcpSession_def bindr_eq_Inr if_Inl_eq_Inr Let_def
      split: sum.splits if_splits)

lemma reserved_request:
  assumes "reserveRequest sha' (disk_apply sha) sid now i st = (Inr u, st1)" "map_of (mcpSessions st) (sha' sid) = Some r"
  shows "mcpRequestIdHash sha' i \<notin> set (ms_requestIdHashes r)"
    "map_of (mcpSessions st1) (sha' sid) =
       Some (r \<lparr> ms_lastSeenAt := now, ms_requestIdHashes := ms_requestIdHashes r @ [mcpRequestIdHash sha' i] \<rparr>)"
  using assms by (auto simp: reserveRequest_def andThen_eq_Inr store_flag_def with_result_def reserveMcpRequestId_def live_session_def
      Let_def update_conv' split: sum.splits if_splits option.splits)

text \<open>What is dispatched may count a request, but leaves the sessions alone.\<close>

lemma rate_limit_sessions:
  "enforceRateLimit h (disk_apply sha) config bucket subj now st = (res, st') \<Longrightarrow> mcpSessions st' = mcpSessions st"
  by (auto simp: enforceRateLimit_def without_result_def hitInStore_def bindr_def split: option.splits sum.splits)

lemma dispatch_sessions:
  assumes "dispatch mg (disk_apply sha) cx request st = (Inr r, st')"
  shows "mcpSessions st' = mcpSessions st"
  using assms
  by (auto simp: dispatch_def Let_def andThen_eq_Inr callTool_def readResource_def dest!: rate_limit_sessions split: if_splits sum.splits)

lemma parsed_request:
  assumes "parseJsonRpc input = Inr request" "rq_id request = Some i"
  obtains kvs where "input = JObj kvs" "field kvs ''method'' = Some (JStr (rq_method request))" "field kvs ''id'' = Some (id_json i)"
proof -
  obtain kvs where kvs: "input = JObj kvs" "requiredString kvs ''method'' = Inr (rq_method request)"
      "\<exists>v. field kvs ''id'' = Some v \<and> validateJsonRpcId v = Inr i"
    using assms by (auto simp: parseJsonRpc_def asRecord_def bindr_eq_Inr if_Inl_eq_Inr split: option.splits if_splits elim!: json_object.elims)
  moreover have "field kvs ''method'' = Some (JStr (rq_method request))"
    using kvs(2) by (auto simp: requiredString_def optionalString_def bindr_eq_Inr split: option.splits if_splits elim: json_string.elims)
  ultimately show ?thesis using that validated_id(2) by auto
qed

lemma body_error: "readMcpJsonBody req = Inl (status, body) \<Longrightarrow> \<not> has_result body"
  by (auto simp: readMcpJsonBody_def split: sum.splits option.splits)

lemma session_result:
  assumes "handled_in_session sv mg config req draws body st = (Inr (Json_response status headers answer_body), st')" "has_result answer_body"
    and "sv_store sv = disk_apply sha" "body_method body \<noteq> Some (JStr ''initialize'')"
  obtains kvs sid r i where "body = JObj kvs" "readMcpSessionId req = Inr sid"
    "live_session (cr_sha256 (sv_crypto sv) sid) (md_touch draws) st = Inr r"
    "ms_initializedAt r \<noteq> None \<or> field kvs ''method'' = Some (JStr ''ping'')" "field kvs ''id'' = Some (id_json i)"
    "mcpRequestIdHash (cr_sha256 (sv_crypto sv)) i \<notin> set (ms_requestIdHashes r)"
    "map_of (mcpSessions st') (cr_sha256 (sv_crypto sv) sid) = Some (r \<lparr> ms_lastSeenAt := md_reserve draws,
       ms_requestIdHashes := ms_requestIdHashes r @ [mcpRequestIdHash (cr_sha256 (sv_crypto sv)) i] \<rparr>)"
proof -
  let ?sha = "cr_sha256 (sv_crypto sv)"
  obtain sid version where sid: "readMcpSessionId req = Inr sid"
      "bindr (readMcpSessionId req) (\<lambda>sid. bindr (readMcpProtocolVersion req False) (\<lambda>version. Inr (sid, version))) = Inr (sid, version)"
    using assms(1) by (auto simp: handled_in_session_def bindr_eq_Inr split: sum.splits)
  obtain b st1 where touch: "touchSession ?sha (disk_apply sha) sid version False (md_touch draws) st = (Inr b, st1)"
    using assms(1,3) sid(2) by (auto simp: handled_in_session_def Let_def andThen_eq_Inr)
  define cx where "cx = \<lparr> mc_call = call_context sv config req draws, mc_rateLimitSubject = Some (requestSubject req),
      mc_sessionInitialized = Some b, mc_reserveRequestId = Some (reserveRequest ?sha (disk_apply sha) sid (md_reserve draws)) \<rparr>"
  obtain result st2 hs where handled: "handleMcpJson mg (disk_apply sha) cx body st1 = (Inr result, st2)"
      "written_result result hs = Json_response status headers answer_body" "mr_body result = None \<or> st' = st2"
    using assms(1,3) sid(2) touch unfolding cx_def
    by (auto simp: handled_in_session_def Let_def andThen_eq_Inr split: if_splits)
  have st': "st' = st2" using handled(3) written_body [OF handled(2)] by simp
  obtain request i r0 st3 where run: "parseJsonRpc body = Inr request" "rq_id request = Some i" "\<not> blocked cx request"
      "reserved cx (Some i) st1 = (Inr (), st3)" "dispatch mg (disk_apply sha) cx request st3 = (Inr r0, st2)"
    by (rule dispatched_result [OF handled(1) written_body [OF handled(2)] assms(2)])
  obtain kvs where kvs: "body = JObj kvs" "field kvs ''method'' = Some (JStr (rq_method request))" "field kvs ''id'' = Some (id_json i)"
    by (rule parsed_request [OF run(1,2)])
  obtain r where r: "live_session (?sha sid) (md_touch draws) st = Inr r" "b = (ms_initializedAt r \<noteq> None)"
      "st1 = st \<lparr> mcpSessions := AList.update (?sha sid) (r \<lparr> ms_lastSeenAt := md_touch draws \<rparr>) (mcpSessions st) \<rparr>"
    by (rule touched_session [OF touch])
  have reserve: "reserveRequest ?sha (disk_apply sha) sid (md_reserve draws) i st1 = (Inr (), st3)"
    "map_of (mcpSessions st1) (?sha sid) = Some (r \<lparr> ms_lastSeenAt := md_touch draws \<rparr>)"
    using run(4) by (simp_all add: reserved_def cx_def r(3) update_conv')
  have "mcpSessions st' = mcpSessions st3" using dispatch_sessions [OF run(5)] st' by simp
  moreover note reserved_request [OF reserve]
  moreover have "ms_initializedAt r \<noteq> None \<or> field kvs ''method'' = Some (JStr ''ping'')"
    using run(3) dispatched_method [OF run(5)] assms(4) kvs r(2)
    by (auto simp: blocked_def cx_def methods_before_initialized_def body_method_def)
  ultimately show ?thesis using that kvs sid(1) r(1) by simp
qed

text \<open>C10: a POST that brings a result back was made without an \<open>Origin\<close> or from an allowed one, and with an access
  token that the service accepts for the MCP resource at that moment; unless it is \<open>initialize\<close>, it names a session
  that is live, and initialized unless the request is a \<open>ping\<close>, its identifier had not been used in the session
  before, and afterwards the session in the store differs from what it was in two things: when it was last seen, and
  that its identifiers end with this one.\<close>

theorem result_needs_token_and_session:
  assumes "mcpPost sv mg req draws st = (Inr (Json_response status headers body), st')" "has_result body"
    and "sv_store sv = disk_apply sha"
  shows "\<exists>config keys claims kvs. sv_config sv = Inr config \<and> sv_keySet sv config = Inr keys \<and>
    verifyBearer (sv_crypto sv) config (ks_verificationKeys keys) (md_verify draws) (header req ''authorization'') (mcpResource config) [] = Inr claims \<and>
    (header_text req ''origin'' = [] \<or> header_text req ''origin'' \<in> set (allowedOrigins config)) \<and>
    readMcpJsonBody req = Inr (JObj kvs) \<and>
    (field kvs ''method'' = Some (JStr ''initialize'') \<or>
     (\<exists>sid r i. readMcpSessionId req = Inr sid \<and> live_session (cr_sha256 (sv_crypto sv) sid) (md_touch draws) st = Inr r \<and>
        (ms_initializedAt r \<noteq> None \<or> field kvs ''method'' = Some (JStr ''ping'')) \<and>
        field kvs ''id'' = Some (id_json i) \<and> mcpRequestIdHash (cr_sha256 (sv_crypto sv)) i \<notin> set (ms_requestIdHashes r) \<and>
        map_of (mcpSessions st') (cr_sha256 (sv_crypto sv) sid) = Some (r \<lparr> ms_lastSeenAt := md_reserve draws,
          ms_requestIdHashes := ms_requestIdHashes r @ [mcpRequestIdHash (cr_sha256 (sv_crypto sv)) i] \<rparr>)))"
proof -
  let ?sha = "cr_sha256 (sv_crypto sv)"
  obtain config where config: "sv_config sv = Inr config"
    using assms(1,2) transport_error_Json by (cases "sv_config sv") (auto simp: mcpPost_def)
  have "\<exists>u. bindr (checked_request sv config req (md_verify draws)) (\<lambda>_. bindr (validatePostAccept req) (\<lambda>_. validatePostContentType req)) = Inr u"
  proof (rule ccontr)
    assume "\<nexists>u. bindr (checked_request sv config req (md_verify draws)) (\<lambda>_. bindr (validatePostAccept req) (\<lambda>_. validatePostContentType req)) = Inr u"
    then obtain e where "bindr (checked_request sv config req (md_verify draws)) (\<lambda>_. bindr (validatePostAccept req) (\<lambda>_. validatePostContentType req)) = Inl e"
      by (metis sum.exhaust)
    then have "handler_result (mg_parseUrl mg) config [] (Inl e, st) = (Inr (Json_response status headers body), st')"
      using assms(1) config by (simp add: mcpPost_def)
    from handler_result_body [OF this assms(2)] show False by simp
  qed
  then obtain u where checks: "bindr (checked_request sv config req (md_verify draws)) (\<lambda>_. bindr (validatePostAccept req) (\<lambda>_. validatePostContentType req)) = Inr u" ..
  then obtain keys claims where token: "sv_keySet sv config = Inr keys"
      "verifyBearer (sv_crypto sv) config (ks_verificationKeys keys) (md_verify draws) (header req ''authorization'') (mcpResource config) [] = Inr claims"
    and origin: "header_text req ''origin'' = [] \<or> header_text req ''origin'' \<in> set (allowedOrigins config)"
    by (auto simp: checked_request_def bindr_eq_Inr validateOrigin_def Let_def split: if_splits)
  have outer: "handler_result (mg_parseUrl mg) config (corsHeaders config req)
      (case readMcpJsonBody req of
         Inl (status, body) \<Rightarrow> (Inr (writeJson status body []), st)
       | Inr body \<Rightarrow> if body_method body = Some (JStr ''initialize'') then handled_initialize sv mg config req draws body st
           else handled_in_session sv mg config req draws body st) = (Inr (Json_response status headers body), st')"
    using assms(1) config checks by (simp add: mcpPost_def)
  obtain h where inner: "(case readMcpJsonBody req of
         Inl (status, body) \<Rightarrow> (Inr (writeJson status body []), st)
       | Inr body \<Rightarrow> if body_method body = Some (JStr ''initialize'') then handled_initialize sv mg config req draws body st
           else handled_in_session sv mg config req draws body st) = (Inr (Json_response status h body), st')"
    using handler_result_body [OF outer assms(2)] by (elim exE)
  obtain message where message: "readMcpJsonBody req = Inr message"
    using inner body_error assms(2) by (cases "readMcpJsonBody req") (auto simp: writeJson_def)
  show ?thesis
  proof (cases "body_method message = Some (JStr ''initialize'')")
    case True
    then obtain kvs where "message = JObj kvs" "field kvs ''method'' = Some (JStr ''initialize'')"
      by (auto simp: body_method_def split: json.splits)
    then show ?thesis using config token origin message by blast
  next
    case False
    then have "handled_in_session sv mg config req draws message st = (Inr (Json_response status h body), st')"
      using inner message by simp
    from session_result [OF this assms(2,3) False] show ?thesis using config token origin message by metis
  qed
qed

end
