(* ===== verification/Mcp_Tool_Properties.thy ===== *)
theory Mcp_Tool_Properties
  imports Mcp_Tools Token_Properties
begin

text \<open>
  The five tools of the service against the registry that calls them: their descriptors pass its checks, their
  results pass the checks on results and match the schemas they declare, and what they tell about a user is
  what the accepted token of the caller says.
\<close>

section \<open>Descriptors\<close>

definition bare_ui :: "string \<Rightarrow> tool_ui" where
  "bare_ui uri = \<lparr> tu_resourceUri = uri, tu_visibility = None, tu_openAiOutputTemplate = None, tu_widgetAccessible = None, tu_meta = None \<rparr>"

lemma toolUiResource_bare: "toolUiResource parse_url uri None None None None =
   (if isResourceUri parse_url (Some (JStr uri)) then Inr (bare_ui uri) else Inl invalidUiMetadata)"
  by (simp add: toolUiResource_def assertToolUiMetadata_def bare_ui_def)

lemma described:
  "isObjectSchema emptyInputSchema" "isToolAnnotations readOnlyToolAnnotations"
  "isObjectSchema (mt_outputSchema healthCheckTool)" "isObjectSchema (mt_outputSchema (healthStatusCardTool ui))"
  "isObjectSchema (mt_outputSchema authSessionTool)"
  "isObjectSchema (profile_schema ''Authenticated OpenID Connect profile.'')"
  "isObjectSchema (profile_schema ''Authenticated OpenID Connect profile for UI rendering.'')"
  by code_simp+

lemma scopes_ok:
  "\<not> list_ex (\<lambda>scope. scope = [] \<or> \<not> list_all is_scope_char scope) defaultScopes" "distinct defaultScopes"
  "\<not> list_ex (\<lambda>scope. scope = [] \<or> \<not> list_all is_scope_char scope) authSessionScopes" "distinct authSessionScopes"
  by code_simp+

lemma descriptor_ok:
  assumes "mt_title tool \<noteq> []" "mt_description tool \<noteq> []" "mt_icons tool = None" "mt_inputSchema tool = emptyInputSchema"
    "isObjectSchema (mt_outputSchema tool)" "mt_annotations tool = readOnlyToolAnnotations" "isToolInvocationStatus tool"
    "mt_requiredScopes tool \<in> {[], defaultScopes, authSessionScopes}" "assertToolUiMetadata parse_url (mt_ui tool) = Inr ()"
  shows "assertToolDescriptor parse_url tool = Inr ()"
  using assms described(1,2) scopes_ok unfolding assertToolDescriptor_def by (elim insertE emptyE) simp_all

lemma plain_descriptors:
  "assertToolDescriptor parse_url healthCheckTool = Inr ()" "assertToolDescriptor parse_url identityProfileTool = Inr ()"
  "assertToolDescriptor parse_url authSessionTool = Inr ()"
proof -
  have "isObjectSchema (mt_outputSchema identityProfileTool)" using described(6) by (simp add: identityProfileTool_def)
  then show "assertToolDescriptor parse_url identityProfileTool = Inr ()"
    by (intro descriptor_ok) (simp_all add: identityProfileTool_def isToolInvocationStatus_def isStatusText_def assertToolUiMetadata_def)
  show "assertToolDescriptor parse_url healthCheckTool = Inr ()"
    by (rule descriptor_ok [OF _ _ _ _ described(3)])
      (simp_all add: healthCheckTool_def isToolInvocationStatus_def isStatusText_def assertToolUiMetadata_def)
  show "assertToolDescriptor parse_url authSessionTool = Inr ()"
    by (rule descriptor_ok [OF _ _ _ _ described(5)])
      (simp_all add: authSessionTool_def isToolInvocationStatus_def isStatusText_def assertToolUiMetadata_def)
qed

lemma card_descriptors:
  assumes "assertToolUiMetadata parse_url (Some ui) = Inr ()"
  shows "assertToolDescriptor parse_url (healthStatusCardTool ui) = Inr ()"
    "assertToolDescriptor parse_url (identityProfileCardTool ui) = Inr ()"
proof -
  have "isObjectSchema (mt_outputSchema (identityProfileCardTool ui))" using described(7) by (simp add: identityProfileCardTool_def)
  then show "assertToolDescriptor parse_url (identityProfileCardTool ui) = Inr ()"
    by (intro descriptor_ok) (simp_all add: identityProfileCardTool_def isToolInvocationStatus_def isStatusText_def assms)
  show "assertToolDescriptor parse_url (healthStatusCardTool ui) = Inr ()"
    by (rule descriptor_ok [OF _ _ _ _ described(4)])
      (simp_all add: healthStatusCardTool_def isToolInvocationStatus_def isStatusText_def assms)
qed

text \<open>The registry of a service that has started.\<close>

definition tool_set :: "('k, 'p) mcp_tool list" where
  "tool_set = [healthCheckTool, healthStatusCardTool (bare_ui healthStatusCardUri), identityProfileTool,
     identityProfileCardTool (bare_ui profileSummaryCardUri), authSessionTool]"

lemma tools_eq:
  assumes "tools parse_url = Inr ts"
  shows "ts = tool_set" "isResourceUri parse_url (Some (JStr healthStatusCardUri))" "isResourceUri parse_url (Some (JStr profileSummaryCardUri))"
  using assms by (auto simp: tools_def tool_set_def toolUiResource_bare bindr_eq_Inr split: if_splits)

lemma tool_names: "map mt_name tool_set =
    [''health.check'', ''health.status_card'', ''identity.profile'', ''identity.profile_card'', ''auth.session'']"
  unfolding tool_set_def list.map
  by (intro arg_cong2 [where f = Cons] refl) (simp_all only: healthCheckTool_def healthStatusCardTool_def identityProfileTool_def
    identityProfileCardTool_def authSessionTool_def mcp_tool.simps)

lemma names_ok: "list_all is_tool_name [''health.check'', ''health.status_card'', ''identity.profile'', ''identity.profile_card'', ''auth.session'']"
  by code_simp

lemma assert_definitions_ok:
  assumes "list_all (\<lambda>t. assertToolDescriptor parse_url t = Inr () \<and> is_tool_name (mt_name t)) ts"
    "distinct (map mt_name ts)" "set names \<inter> mt_name ` set ts = {}"
  shows "assert_definitions parse_url names ts = Inr ()"
  using assms by (induction ts arbitrary: names) auto

lemma service_descriptors_ok:
  assumes "tools parse_url = Inr ts"
  shows "assertToolDefinitions parse_url ts = Inr ()"
proof -
  have ui: "assertToolUiMetadata parse_url (Some (bare_ui healthStatusCardUri)) = Inr ()"
    "assertToolUiMetadata parse_url (Some (bare_ui profileSummaryCardUri)) = Inr ()"
    using tools_eq(2,3) [OF assms] by (simp_all add: assertToolUiMetadata_def bare_ui_def)
  have "list_all is_tool_name (map mt_name (tool_set :: ('a, 'b) mcp_tool list))" unfolding tool_names by (rule names_ok)
  moreover have "distinct (map mt_name (tool_set :: ('a, 'b) mcp_tool list))" unfolding tool_names by simp
  moreover have "list_all (\<lambda>t. assertToolDescriptor parse_url t = Inr ()) (tool_set :: ('a, 'b) mcp_tool list)"
    by (simp add: tool_set_def plain_descriptors card_descriptors ui)
  ultimately show ?thesis
    unfolding tools_eq(1) [OF assms] assertToolDefinitions_def by (intro assert_definitions_ok) (auto simp: list_all_iff)
qed

section \<open>Results\<close>

lemma text_answer_ok: "call_tool_result_ok parse_url (tool_answer s (JObj kvs))"
  by (simp add: call_tool_result_ok_def tool_answer_def text_content_def isContentBlock_def isTextContent_def only_keys_def
      optionalAnnotations_def optionalRecord_def optional_flag_def)

lemmas schema_simps = matches_optional_def objectSchema_def stringSchema_def booleanSchema_def stringArraySchema_def enum_allows_def
  schemaProperties_def schemaRequired_def known_property_def

lemma health_matches:
  "matchesSchema (mt_outputSchema healthCheckTool) (serviceHealthSnapshot t)"
  "matchesSchema (mt_outputSchema (healthStatusCardTool ui)) (serviceHealthSnapshot t)"
  by (simp_all add: healthCheckTool_def healthStatusCardTool_def serviceHealthSnapshot_def schema_simps)

lemma profile_matches: "matchesSchema (profile_schema d) (profile_json u)"
  by (simp add: profile_schema_def profile_json_def schema_simps)

lemma session_matches: "matchesSchema (mt_outputSchema authSessionTool) (session_json c)"
  by (simp add: authSessionTool_def schema_simps JStrs_def session_json_def)

text \<open>What a tool of the registry returns is a text with an object that its schema describes.\<close>

lemma service_tool_answers:
  assumes "tool \<in> set tool_set" "mt_run tool cx args = Inr result"
  obtains s kvs where "result = tool_answer s (JObj kvs)" "matchesSchema (mt_outputSchema tool) (JObj kvs)"
proof -
  have profile: "mt_outputSchema identityProfileTool = profile_schema ''Authenticated OpenID Connect profile.''"
    "mt_outputSchema (identityProfileCardTool ui) = profile_schema ''Authenticated OpenID Connect profile for UI rendering.''" for ui
    by (simp_all add: identityProfileTool_def identityProfileCardTool_def)
  have runs: "mt_run healthCheckTool cx args = Inr (tool_answer (json_text (serviceHealthSnapshot (tx_timestamp cx))) (serviceHealthSnapshot (tx_timestamp cx)))"
    "mt_run (healthStatusCardTool ui) cx args = Inr (tool_answer ''Showing the service health status card.'' (serviceHealthSnapshot (tx_timestamp cx)))"
    "mt_run identityProfileTool cx args = identityProfile cx" "mt_run (identityProfileCardTool ui) cx args = identityProfileCard cx"
    "mt_run authSessionTool cx args = authSession cx" for ui
    by (simp_all add: healthCheckTool_def healthStatusCardTool_def identityProfileTool_def identityProfileCardTool_def authSessionTool_def Let_def)
  have objects: "\<exists>kvs. serviceHealthSnapshot t = JObj kvs" "\<exists>kvs. profile_json u = JObj kvs" for t u
    by (simp_all add: serviceHealthSnapshot_def profile_json_def)
  consider "tool = healthCheckTool" | "tool = healthStatusCardTool (bare_ui healthStatusCardUri)" | "tool = identityProfileTool"
    | "tool = identityProfileCardTool (bare_ui profileSummaryCardUri)" | "tool = authSessionTool"
    using assms(1) unfolding tool_set_def by auto
  then show ?thesis
  proof cases
    case 1
    then show ?thesis using assms(2) health_matches(1) objects(1) that by (metis runs(1) Inr_inject)
  next
    case 2
    then show ?thesis using assms(2) health_matches(2) objects(1) that by (metis runs(2) Inr_inject)
  next
    case 3
    then obtain u where "result = tool_answer (json_text (profile_json u)) (profile_json u)"
      using assms(2) by (auto simp: runs identityProfile_def bindr_eq_Inr)
    then show ?thesis using 3 profile(1) profile_matches objects(2) that by metis
  next
    case 4
    then obtain u where "result = tool_answer ''Showing the authenticated profile card.'' (profile_json u)"
      using assms(2) by (auto simp: runs identityProfileCard_def bindr_eq_Inr)
    then show ?thesis using 4 profile(2) profile_matches objects(2) that by metis
  next
    case 5
    then obtain c where "result = tool_answer (json_text (session_json c)) (session_json c)"
      using assms(2) by (auto simp: runs authSession_def bindr_eq_Inr)
    then show ?thesis using 5 session_matches that by (metis session_json_def)
  qed
qed

lemma service_tool_inputs: "tool \<in> set tool_set \<Longrightarrow> mt_inputSchema tool = emptyInputSchema"
  unfolding tool_set_def
  by (auto simp: healthCheckTool_def healthStatusCardTool_def identityProfileTool_def identityProfileCardTool_def authSessionTool_def)

lemma service_tool_arguments:
  assumes "mt_inputSchema tool = emptyInputSchema"
  obtains p where "toolArgumentError tool args = Inr p"
  using assms by (auto simp: toolArgumentError_def emptyInputSchema_def objectSchema_def uiRecord_def Let_def)

lemma challenge_ok:
  assumes "authChallengeResult parse_url config scopes status = Inr result"
  shows "call_tool_result_ok parse_url result" "field result ''isError'' = Some (JBool True)" "field result ''structuredContent'' = None"
  using assms by (auto simp: authChallengeResult_def bindr_eq_Inr call_tool_result_ok_def text_content_def isContentBlock_def
      isTextContent_def only_keys_def optionalAnnotations_def optionalRecord_def optional_flag_def)

lemma error_ok:
  "call_tool_result_ok parse_url (toolExecutionError s)" "field (toolExecutionError s) ''isError'' = Some (JBool True)"
  "field (toolExecutionError s) ''structuredContent'' = None"
  by (simp_all add: toolExecutionError_def call_tool_result_ok_def text_content_def isContentBlock_def
      isTextContent_def only_keys_def optionalAnnotations_def optionalRecord_def optional_flag_def)

lemma run_service_tool:
  assumes "tool \<in> set tool_set"
  shows "run_tool parse_url cx tool args = (case mt_run tool cx args of
     Inr result \<Rightarrow> Inr result
   | Inl e \<Rightarrow> (case as_service_error e of
       Some (c, message, status) \<Rightarrow>
         if status = 401 \<or> status = 403 then authChallengeResult parse_url (tx_config cx) (mt_requiredScopes tool) (Some status) else Inl e
     | None \<Rightarrow> Inl e))"
proof (cases "mt_run tool cx args")
  case (Inr result)
  obtain s kvs where result: "result = tool_answer s (JObj kvs)" and matches: "matchesSchema (mt_outputSchema tool) (JObj kvs)"
    by (rule service_tool_answers [OF assms Inr])
  have "field result ''structuredContent'' = Some (JObj kvs)" by (simp add: result tool_answer_def)
  moreover have "assertCallToolResult parse_url result = Inr ()" by (simp add: result assertCallToolResult_def text_answer_ok)
  ultimately show ?thesis using matches by (simp add: run_tool_def Inr assertMatchesSchema_def matches_optional_def try_catch_def)
next
  case (Inl e)
  have "bindr (authChallengeResult parse_url config scopes status) (\<lambda>result. bindr (assertCallToolResult parse_url result) (\<lambda>_. Inr result))
      = authChallengeResult parse_url config scopes status" for config scopes status
    by (cases "authChallengeResult parse_url config scopes status") (auto simp: assertCallToolResult_def challenge_ok)
  then show ?thesis by (simp add: run_tool_def Inl try_catch_def cong: option.case_cong if_cong)
qed

text \<open>A call of a tool of the service: no such tool, arguments refused, or what the tool and the challenge give.\<close>

lemma called_service_tool:
  fixes cx :: "('k, 'p) tool_context"
  assumes "called_tool parse_url tool_set cx name args = r"
  obtains (unknown) "name \<notin> mt_name ` set (tool_set :: ('k, 'p) mcp_tool list)" "r = Inl (McpProtocolError (- 32602) (''Unknown tool: '' @ name))"
  | (refused) message where "r = Inr (toolExecutionError message)"
  | (run) tool where "tool \<in> set tool_set" "mt_name tool = name" "r = run_tool parse_url cx tool args"
proof (cases "List.find (\<lambda>tool. mt_name tool = name) (tool_set :: ('k, 'p) mcp_tool list)")
  case None
  then have "name \<notin> mt_name ` set (tool_set :: ('k, 'p) mcp_tool list)" by (auto simp: find_None_iff)
  with None show ?thesis using assms by (intro unknown) (simp_all add: called_tool_def)
next
  case (Some tool)
  then have tool: "tool \<in> set tool_set" "mt_name tool = name" by (auto simp: find_Some_iff)
  obtain p where "toolArgumentError tool args = Inr p"
    by (rule service_tool_arguments [OF service_tool_inputs [OF tool(1)]])
  then show ?thesis using assms Some refused run [OF tool] by (cases p) (auto simp: called_tool_def)
qed

section \<open>Properties\<close>

text \<open>C27: once the service has started, the registry's checks never stand in the way of its own tools: their
  descriptors are accepted, every result of a call is a well-formed tool result that is marked as an error or
  carries structured content of the type the tool declares, and an error is thrown by the tool itself (or by the
  challenge), never by the checks of results and schemas.\<close>

theorem service_tools_well_typed:
  assumes "tools parse_url = Inr ts"
  shows "assertToolDefinitions parse_url ts = Inr () \<and>
    (case called_tool parse_url ts cx name args of
       Inr result \<Rightarrow> call_tool_result_ok parse_url result \<and> (field result ''isError'' = Some (JBool True) \<or>
         (\<exists>tool\<in>set ts. mt_name tool = name \<and> matches_optional (mt_outputSchema tool) (field result ''structuredContent'')))
     | Inl e \<Rightarrow> name \<notin> mt_name ` set ts \<or> (\<exists>tool\<in>set ts. mt_name tool = name \<and>
         (mt_run tool cx args = Inl e \<or> (\<exists>status. wwwAuthenticate parse_url (tx_config cx) (mt_requiredScopes tool) status = Inl e))))"
proof (intro conjI service_descriptors_ok [OF assms])
  note ts = tools_eq(1) [OF assms]
  obtain r where r: "called_tool parse_url tool_set cx name args = r" by simp
  from r show "case called_tool parse_url ts cx name args of
       Inr result \<Rightarrow> call_tool_result_ok parse_url result \<and> (field result ''isError'' = Some (JBool True) \<or>
         (\<exists>tool\<in>set ts. mt_name tool = name \<and> matches_optional (mt_outputSchema tool) (field result ''structuredContent'')))
     | Inl e \<Rightarrow> name \<notin> mt_name ` set ts \<or> (\<exists>tool\<in>set ts. mt_name tool = name \<and>
         (mt_run tool cx args = Inl e \<or> (\<exists>status. wwwAuthenticate parse_url (tx_config cx) (mt_requiredScopes tool) status = Inl e)))"
  proof (cases rule: called_service_tool)
    case (run tool)
    show ?thesis
    proof (cases "mt_run tool cx args")
      case (Inr result)
      obtain s kvs where result: "result = tool_answer s (JObj kvs)" "matchesSchema (mt_outputSchema tool) (JObj kvs)"
        by (rule service_tool_answers [OF run(1) Inr])
      then have "field result ''structuredContent'' = Some (JObj kvs)" by (simp add: tool_answer_def)
      then show ?thesis
        using r run result Inr by (auto simp: ts run_service_tool text_answer_ok matches_optional_def)
    next
      case (Inl e)
      have "(\<exists>status. wwwAuthenticate parse_url config scopes status = Inl e')"
        if "authChallengeResult parse_url config scopes status = Inl e'" for config scopes status e'
        using that by (auto simp: authChallengeResult_def bindr_eq_Inl)
      then show ?thesis
        using r run Inl challenge_ok(1,2) [of parse_url "tx_config cx" "mt_requiredScopes tool"]
        by (auto simp: ts run_service_tool split: option.split sum.split)
    qed
  qed (use r error_ok in \<open>auto simp: ts\<close>)
qed

text \<open>C15: structured content of the protected tools comes only from an access token that the service accepts for
  the MCP resource at the time of the call and that carries the scopes of the tool: the session is the token's,
  the profile is the validated profile of its claims, whatever the arguments.\<close>

theorem protected_tools_tell_the_token:
  assumes "tools parse_url = Inr ts" "called_tool parse_url ts cx name args = Inr result"
    and "field result ''structuredContent'' = Some content" "name \<notin> {''health.check'', ''health.status_card''}"
  shows "\<exists>keys token c. tx_keys cx = Inr keys \<and> readBearer (tx_authorization cx) = Inr token \<and>
    verifyAccessToken (tx_crypto cx) (tx_config cx) keys (tx_now cx) token (mcpResource (tx_config cx))
      (if name = ''auth.session'' then authSessionScopes else defaultScopes) = Inr c \<and>
    cl_iss c = issuer (tx_config cx) \<and> cl_aud c = mcpResource (tx_config cx) \<and> tx_now cx < cl_exp c \<and>
    set (if name = ''auth.session'' then authSessionScopes else defaultScopes) \<subseteq> set (words_acc [] (cl_scope c)) \<and>
    (if name = ''auth.session'' then content = session_json c
     else \<exists>u. userProfileFromClaims (claims_profile c) = Inr u \<and> content = profile_json u)"
proof -
  note ts = tools_eq(1) [OF assms(1)]
  let ?scopes = "if name = ''auth.session'' then authSessionScopes else defaultScopes"
  obtain tool where tool: "tool \<in> set tool_set" "mt_name tool = name" "run_tool parse_url cx tool args = Inr result"
    using assms(2) error_ok(3) assms(3) unfolding ts by (cases rule: called_service_tool) auto
  have "mt_run tool cx args = Inr result"
    using tool(3) challenge_ok(3) assms(3)
    by (auto simp: run_service_tool [OF tool(1)] split: sum.splits option.splits if_splits)
  moreover have "tool \<in> {identityProfileTool, identityProfileCardTool (bare_ui profileSummaryCardUri), authSessionTool}"
    using tool(1,2) assms(4) unfolding tool_set_def by (auto simp: healthCheckTool_def healthStatusCardTool_def)
  ultimately obtain c where c: "tool_bearer cx ?scopes = Inr c" "if name = ''auth.session'' then content = session_json c
     else \<exists>u. userProfileFromClaims (claims_profile c) = Inr u \<and> content = profile_json u"
    using tool(2) assms(3)
    by (auto simp: identityProfileTool_def identityProfileCardTool_def authSessionTool_def identityProfile_def identityProfileCard_def
        authSession_def bindr_eq_Inr tool_answer_def)
  then obtain keys token where "tx_keys cx = Inr keys" "readBearer (tx_authorization cx) = Inr token"
    and token: "verifyAccessToken (tx_crypto cx) (tx_config cx) keys (tx_now cx) token (mcpResource (tx_config cx)) ?scopes = Inr c"
    by (auto simp: tool_bearer_def verifyBearer_def bindr_eq_Inr)
  moreover obtain "cl_iss c = issuer (tx_config cx)" "cl_aud c = mcpResource (tx_config cx)" "tx_now cx < cl_exp c"
      "set ?scopes \<subseteq> set (words_acc [] (cl_scope c))"
    by (rule accepted_token [OF token]) blast
  ultimately show ?thesis using c(2) by blast
qed

section \<open>Witnesses\<close>

text \<open>A parser of addresses that knows the scheme \<open>ui:\<close> only.\<close>

definition ui_parser :: url_parser where
  "ui_parser s = (if starts_with ''ui:'' s then Some \<lparr> url_protocol = ''ui:'', url_username = [], url_password = [], url_hostname = [],
     url_pathname = drop 3 s, url_search = [], url_hash = [], url_href = s, url_origin = ''null'' \<rparr> else None)"

lemma sample_tools: "tools ui_parser = Inr tool_set"
proof -
  have "isResourceUri ui_parser (Some (JStr healthStatusCardUri))" "isResourceUri ui_parser (Some (JStr profileSummaryCardUri))"
    by code_simp+
  then show ?thesis by (simp add: tools_def toolUiResource_bare tool_set_def)
qed

lemma bearer_header:
  assumes "t \<noteq> []" "\<forall>c\<in>set t. \<not> is_ws c \<and> code c \<noteq> 10 \<and> code c \<noteq> 13"
  shows "readBearer (Some (''Bearer '' @ t)) = Inr t"
proof -
  have word: "list_all is_token_char ''Bearer''" "\<not> is_token_char CHR '' ''" "is_ws CHR '' ''" by code_simp+
  have split: "takeWhile is_token_char (''Bearer'' @ CHR '' '' # t) = ''Bearer''" "dropWhile is_token_char (''Bearer'' @ CHR '' '' # t) = CHR '' '' # t"
    using word by simp_all
  have "trim (CHR '' '' # t) = trim t" using word(3) by (simp add: trim_def trim_start_def)
  also have "\<dots> = t" using assms(2) by (intro trim_no_ws) (auto simp: list_all_iff)
  finally have "trim (CHR '' '' # t) = t" .
  then have "authorizationCredentials (Some (''Bearer'' @ CHR '' '' # t)) ''Bearer'' = Some t"
    unfolding authorizationCredentials_def option.case Let_def split using assms by (auto simp: list_ex_iff)
  then show ?thesis by (simp add: readBearer_def)
qed

definition session_token :: string where
  "session_token = issueAccessToken sample_crypto token_config token_key 1000 ''j'' token_input"

definition sample_call :: "(string, string) tool_context" where
  "sample_call = \<lparr> tx_crypto = sample_crypto, tx_config = token_config, tx_keys = Inr [as_verification_key token_key], tx_now = 1299,
     tx_timestamp = ''2026-01-01T00:00:00.000Z'', tx_authorization = Some (''Bearer '' @ session_token) \<rparr>"

lemma session_token_header: "readBearer (tx_authorization sample_call) = Inr session_token"
proof -
  have "\<not> is_ws c \<and> code c \<noteq> 10 \<and> code c \<noteq> 13" if "is_base64url_char c \<or> c \<in> set ''.key''" for c
    using that by (auto simp: is_ws_def is_base64url_char_def is_alnum_def is_digit_def is_upper_def is_lower_def)
  moreover have "is_base64url_char c \<or> c \<in> set ''.key''" if "c \<in> set session_token" for c
    using that encoded_alphabet unfolding session_token_def issueAccessToken_def signJwt_def Let_def encodeJsonBase64Url_def
    by (auto simp: sample_crypto_def token_key_def list_all_iff)
  moreover have "session_token \<noteq> []" by (simp add: session_token_def issueAccessToken_def signJwt_def Let_def)
  ultimately show ?thesis unfolding sample_call_def tool_context.simps by (intro bearer_header) blast+
qed

lemma sample_session:
  "called_tool ui_parser tool_set sample_call ''auth.session'' [] =
     Inr (tool_answer (json_text (session_json (access_claims_of token_config 1000 ''j'' token_input)))
       (session_json (access_claims_of token_config 1000 ''j'' token_input)))"
proof -
  let ?claims = "access_claims_of token_config 1000 ''j'' token_input"
  have "verifyAccessToken sample_crypto token_config [as_verification_key token_key] 1299 session_token (ai_audience token_input) authSessionScopes =
      Inr ?claims"
    unfolding session_token_def using access_token_complete [OF token_sample(1-6) _ _ _ _ _ token_sample(7), of 1299 authSessionScopes]
    by (simp add: token_config_def token_input_def max_safe_integer_def authSessionScopes_def)
  then have "tool_bearer sample_call authSessionScopes = Inr ?claims"
    using session_token_header by (simp add: tool_bearer_def verifyBearer_def sample_call_def token_config_def token_input_def)
  then have "authSession sample_call = Inr (tool_answer (json_text (session_json ?claims)) (session_json ?claims))"
    by (simp add: authSession_def del: json_text.simps)
  moreover have tool: "authSessionTool \<in> set (tool_set :: (string, string) mcp_tool list)" by (simp add: tool_set_def)
  moreover have "mt_run authSessionTool sample_call [] = authSession sample_call" by (simp add: authSessionTool_def)
  ultimately have "run_tool ui_parser sample_call authSessionTool [] = Inr (tool_answer (json_text (session_json ?claims)) (session_json ?claims))"
    by (simp only: run_service_tool [OF tool]) simp
  moreover have "List.find (\<lambda>tool. mt_name tool = ''auth.session'') (tool_set :: (string, string) mcp_tool list) = Some authSessionTool"
    by (simp add: tool_set_def healthCheckTool_def healthStatusCardTool_def identityProfileTool_def identityProfileCardTool_def authSessionTool_def)
  moreover have "toolArgumentError (authSessionTool :: (string, string) mcp_tool) [] = Inr None"
    by (simp add: toolArgumentError_def authSessionTool_def emptyInputSchema_def objectSchema_def uiRecord_def schema_simps)
  ultimately show ?thesis by (simp add: called_tool_def del: json_text.simps)
qed

theorem service_tools_well_typed_witness:
  "call_tool_result_ok ui_parser (tool_answer (json_text (session_json (access_claims_of token_config 1000 ''j'' token_input)))
     (session_json (access_claims_of token_config 1000 ''j'' token_input)))"
  using service_tools_well_typed [OF sample_tools, where cx = sample_call and name = "''auth.session''" and args = "[]"] sample_session
  by (simp del: json_text.simps)

theorem protected_tools_tell_the_token_witness:
  "\<exists>token c. readBearer (tx_authorization sample_call) = Inr token \<and>
    session_json (access_claims_of token_config 1000 ''j'' token_input) = session_json c \<and> cl_aud c = ''https://api/mcp'' \<and> 1299 < cl_exp c"
proof -
  have "field (tool_answer (json_text (session_json (access_claims_of token_config 1000 ''j'' token_input)))
      (session_json (access_claims_of token_config 1000 ''j'' token_input))) ''structuredContent''
    = Some (session_json (access_claims_of token_config 1000 ''j'' token_input))"
    by (simp add: tool_answer_def)
  from protected_tools_tell_the_token [OF sample_tools sample_session this] show ?thesis
    by (auto simp: sample_call_def token_config_def)
qed

end
