(* ===== verification/Mcp_Process.thy ===== *)
theory Mcp_Process
  imports Mcp_Properties Mcp_Tool_Properties Server_Properties
begin

text \<open>
  The process of the MCP server under any interleaving of requests, messages, lost connections and ended
  streams: the steps, what they keep of the state, and the bounds that follow; with the witnesses of the
  properties of the server.
\<close>

section \<open>What a message keeps\<close>

definition store_keeps :: "'s set \<Rightarrow> 's oauth_store \<Rightarrow> bool" where
  "store_keeps S store \<longleftrightarrow> (\<forall>event now st. st \<in> S \<longrightarrow> snd (store event now st) \<in> S)"

definition reserve_keeps :: "'s set \<Rightarrow> ('k, 'p, 's) mcp_context \<Rightarrow> bool" where
  "reserve_keeps S cx \<longleftrightarrow> (\<forall>reserve i st. mc_reserveRequestId cx = Some reserve \<longrightarrow> st \<in> S \<longrightarrow> snd (reserve i st) \<in> S)"

lemma andThen_keeps:
  "snd r \<in> S \<Longrightarrow> (\<And>x s. s \<in> S \<Longrightarrow> snd (f x s) \<in> S) \<Longrightarrow> snd (andThen r f id) \<in> S"
  by (cases r) (auto simp: andThen_def split: sum.splits)

lemma enforceRateLimit_keeps:
  assumes "store_keeps S store" "st \<in> S"
  shows "snd (enforceRateLimit sha store config bucket subj now st) \<in> S"
proof (cases "map_of (rateLimitPolicies config) bucket")
  case (Some limits)
  have "snd (store (Hit (rateLimitKey sha bucket subj) limits) now st) \<in> S"
    using assms unfolding store_keeps_def by blast
  then show ?thesis using Some by (auto simp: enforceRateLimit_def split: prod.splits disk_result.splits)
qed (simp add: enforceRateLimit_def assms(2))

lemma callTool_keeps:
  assumes "store_keeps S store" "st \<in> S"
  shows "snd (callTool parse_url registry store call subj name args st) \<in> S"
  unfolding callTool_def by (auto split: sum.split simp: assms(2) intro!: andThen_keeps enforceRateLimit_keeps assms)

lemma readResource_keeps:
  assumes "store_keeps S store" "st \<in> S"
  shows "snd (readResource parse_url resources templates store call subj uri st) \<in> S"
  unfolding readResource_def by (auto split: sum.split simp: assms(2) intro!: andThen_keeps enforceRateLimit_keeps assms)

lemma dispatch_keeps:
  assumes "store_keeps S store" "st \<in> S"
  shows "snd (dispatch mg store cx request st) \<in> S"
  unfolding dispatch_def Let_def
  by (auto split: sum.split simp: assms(2) intro!: andThen_keeps callTool_keeps readResource_keeps assms)

lemma run_request_keeps:
  assumes "store_keeps S store" "reserve_keeps S cx" "st \<in> S"
  shows "snd (run_request mg store cx request st) \<in> S"
proof -
  have "snd (reserved cx (rq_id request) st) \<in> S"
    using assms(2,3) by (auto simp: reserved_def reserve_keeps_def split: option.split)
  then show ?thesis
    unfolding run_request_def
    by (rule andThen_keeps) (auto split: option.split prod.split intro!: andThen_keeps dispatch_keeps assms(1))
qed

lemma handleMcpJson_keeps:
  assumes "store_keeps S store" "reserve_keeps S cx" "st \<in> S"
  shows "snd (handleMcpJson mg store cx input st) \<in> S"
proof (cases "parsed_message input")
  case (Inl e)
  then show ?thesis using assms(3) by (simp add: handleMcpJson_def split: option.split)
next
  case (Inr m)
  then show ?thesis
  proof (cases m)
    case (Some request)
    then show ?thesis using Inr run_request_keeps [OF assms, of mg request]
      by (cases "run_request mg store cx request st") (auto simp: handleMcpJson_def split: sum.split)
  qed (simp add: handleMcpJson_def assms(3) Inr)
qed

section \<open>Steps of the process\<close>

inductive process_step ::
  "('k, 'p, 's, 'u) service \<Rightarrow> ('k, 'p) mcp_registry \<Rightarrow> 's mcp_process \<Rightarrow> 's mcp_process \<Rightarrow> bool"
  for sv mg where
  post: "mcpPost sv mg req draws (mp_store s) = (reply, st) \<Longrightarrow> process_step sv mg s (s \<lparr> mp_store := st \<rparr>)"
| delete: "mcpDelete sv (mg_parseUrl mg) req draws (mp_store s) = (reply, st) \<Longrightarrow> process_step sv mg s (s \<lparr> mp_store := st \<rparr>)"
| stream: "mcpGet sv (mg_parseUrl mg) req draws s = (reply, s') \<Longrightarrow> process_step sv mg s s'"
| legacy: "sseEndpoint sv (mg_parseUrl mg) req draws s = (reply, s') \<Longrightarrow> process_step sv mg s s'"
| message: "messagesEndpoint sv mg req draws s = (reply, s') \<Longrightarrow> process_step sv mg s s'"
| gone: "process_step sv mg s (disconnected sid s)"
| ended: "process_step sv mg s (stream_ended i sid s)"

inductive_cases process_step_cases: "process_step sv mg s s'"

definition new_process :: "'s \<Rightarrow> 's mcp_process" where
  "new_process st = \<lparr> mp_store = st, mp_connections = \<lparr> sc_active = 0, sc_released = [] \<rparr>, mp_sessions = [] \<rparr>"

definition connections_ok :: "int \<Rightarrow> sse_connections \<Rightarrow> bool" where
  "connections_ok limit s \<longleftrightarrow> sc_active s = int (length (filter Not (sc_released s))) \<and> sc_active s \<le> limit"

definition sessions_ok :: "(string \<times> legacy_session) list \<Rightarrow> bool" where
  "sessions_ok ss \<longleftrightarrow> (\<forall>sid session. map_of ss sid = Some session \<longrightarrow>
     distinct (ls_requestIdHashes session) \<and> length (ls_requestIdHashes session) \<le> mcpRequestIdLimit)"

definition process_ok :: "int \<Rightarrow> 's mcp_process \<Rightarrow> bool" where
  "process_ok limit s \<longleftrightarrow> connections_ok limit (mp_connections s) \<and> sessions_ok (mp_sessions s)"

lemma acquired_ok: "acquireSseConnection limit s = Inr (i, s') \<Longrightarrow> connections_ok limit s \<Longrightarrow> connections_ok limit s'"
  by (auto simp: acquireSseConnection_def connections_ok_def split: if_splits)

lemma filter_update:
  "i < length bs \<Longrightarrow> \<not> bs ! i \<Longrightarrow> int (length (filter Not (bs[i := True]))) = int (length (filter Not bs)) - 1"
proof (induction bs arbitrary: i)
  case (Cons b bs)
  show ?case
  proof (cases i)
    case (Suc j)
    then show ?thesis using Cons.IH [of j] Cons.prems by simp
  qed (use Cons.prems in simp)
qed simp

lemma released_ok: "connections_ok limit s \<Longrightarrow> connections_ok limit (releaseSseConnection i s)"
  by (auto simp: releaseSseConnection_def connections_ok_def filter_update)

lemma sessions_update:
  "sessions_ok ss \<Longrightarrow> distinct (ls_requestIdHashes x) \<Longrightarrow> length (ls_requestIdHashes x) \<le> mcpRequestIdLimit \<Longrightarrow>
   sessions_ok (AList.update sid x ss)"
  by (auto simp: sessions_ok_def)

lemma sessions_delete: "sessions_ok ss \<Longrightarrow> sessions_ok (AList.delete sid ss)"
  by (auto simp: sessions_ok_def)

lemma sessions_lookup: "sessions_ok ss \<Longrightarrow> map_of ss sid = Some x \<Longrightarrow>
    distinct (ls_requestIdHashes x) \<and> length (ls_requestIdHashes x) \<le> mcpRequestIdLimit"
  by (auto simp: sessions_ok_def)

lemma process_store_keeps: "store_keeps {s. process_ok limit s} (process_store store)"
  by (auto simp: store_keeps_def process_store_def process_ok_def split: prod.split)

lemma legacy_reserve_ok: "process_ok limit s \<Longrightarrow> process_ok limit (snd (reserveLegacyRequestId sha sid i s))"
  using sessions_lookup [of "mp_sessions s" sid]
  by (auto simp: reserveLegacyRequestId_def process_ok_def Let_def intro!: sessions_update split: option.split)

lemma legacy_send_ok: "process_ok limit s \<Longrightarrow> process_ok limit (snd (sendLegacySseMessage sid body s))"
  using sessions_lookup [of "mp_sessions s" sid]
  by (auto simp: sendLegacySseMessage_def process_ok_def closeLegacySseSession_def Let_def intro!: sessions_update sessions_delete
      split: option.split)

lemma snd_handler_result [simp]: "snd (handler_result parse_url config hs r) = snd r"
  by (auto simp: handler_result_def split: prod.split sum.split)

lemma handled_message_ok:
  fixes s :: "'s mcp_process"
  assumes "process_ok limit s"
  shows "process_ok limit (snd (handled_message sv mg config req draws s))"
proof (cases "readLegacySseSessionId req")
  case (Inr sid)
  let ?S = "{s :: 's mcp_process. process_ok limit s}"
  show ?thesis
  proof (cases "readMcpJsonBody req")
    case (Inl a)
    then show ?thesis using Inr assms by (cases a) (simp add: handled_message_def)
  next
    case body: (Inr body)
    let ?cx = "\<lparr> mc_call = call_context sv config req draws, mc_rateLimitSubject = Some (requestSubject req),
      mc_sessionInitialized = None, mc_reserveRequestId = Some (reserveLegacyRequestId (cr_sha256 (sv_crypto sv)) sid) \<rparr>"
    have "reserve_keeps ?S ?cx" by (simp add: reserve_keeps_def legacy_reserve_ok)
    then have kept: "snd (handleMcpJson mg (process_store (sv_store sv)) ?cx body s) \<in> ?S"
      using assms by (intro handleMcpJson_keeps process_store_keeps) simp_all
    have sent: "snd (case mr_body result of None \<Rightarrow> (Inr (), s1) | Some b \<Rightarrow> sendLegacySseMessage sid b s1) \<in> ?S"
      if "s1 \<in> ?S" for result and s1 :: "'s mcp_process"
      using that legacy_send_ok by (auto split: option.split)
    have written: "snd (case p of (Inl e, s2) \<Rightarrow> handler_result parse_url config hs (Inl e, s2) | (Inr u, s2) \<Rightarrow> (r, s2)) = snd p"
      for p :: "unit outcome \<times> 's mcp_process" and parse_url hs r
      by (auto split: prod.split sum.split)
    have "snd (handled_message sv mg config req draws s) \<in> ?S"
      unfolding handled_message_def using Inr body
      by (simp del: mem_Collect_eq) (rule andThen_keeps [OF kept], subst written, rule sent)
    then show ?thesis by simp
  qed
qed (simp add: handled_message_def assms)

lemma step_ok:
  assumes "process_step sv mg s s'" "sv_config sv = Inr config" "process_ok (mcpSseMaxConnections config) s"
  shows "process_ok (mcpSseMaxConnections config) s'"
  using assms(1)
proof (cases rule: process_step.cases)
  case (post req draws reply st)
  then show ?thesis using assms(3) by (simp add: process_ok_def)
next
  case (delete req draws reply st)
  then show ?thesis using assms(3) by (simp add: process_ok_def)
next
  case (stream req draws reply)
  have touched: "mp_connections s1 = mp_connections s \<and> mp_sessions s1 = mp_sessions s"
    if "touchSession sha (process_store store) sid v m now s = (r, s1)" for sha store sid v m now r s1
    using that by (auto simp: touchSession_def store_flag_def process_store_def split: prod.splits disk_result.splits)
  show ?thesis
    using stream assms(2,3) touched acquired_ok unfolding mcpGet_def
    by (fastforce simp: process_ok_def split: sum.splits prod.splits)
next
  case (legacy req draws reply)
  then show ?thesis
    using assms(2,3) acquired_ok unfolding sseEndpoint_def
    by (fastforce simp: process_ok_def createLegacySseSession_def Let_def intro!: sessions_update split: sum.splits prod.splits)
next
  case (message req draws reply)
  have "process_ok (mcpSseMaxConnections config) (snd (messagesEndpoint sv mg req draws s))"
    using assms(2,3) handled_message_ok [OF assms(3), of sv mg config req draws] by (simp add: messagesEndpoint_def split: sum.split)
  then show ?thesis using message by simp
next
  case (gone sid)
  then show ?thesis using assms(3) sessions_lookup [of "mp_sessions s" sid]
    by (auto simp: disconnected_def process_ok_def intro!: sessions_update split: option.split)
next
  case (ended i sid)
  then show ?thesis using assms(3)
    by (auto simp: stream_ended_def process_ok_def closeLegacySseSession_def Let_def intro!: released_ok sessions_delete split: option.split)
qed

text \<open>C16: however requests, messages, lost connections and ended streams interleave, the process never has more
  streams open than the configuration allows, its counter is exactly the number of streams not yet released, and no
  session of the older transport accepts an identifier twice or keeps more than the limit of them.\<close>

theorem process_bounded:
  assumes "(process_step sv mg)\<^sup>*\<^sup>* (new_process st) s" "sv_config sv = Inr config" "0 \<le> mcpSseMaxConnections config"
  shows "sc_active (mp_connections s) = int (length (filter Not (sc_released (mp_connections s)))) \<and>
    int (length (filter Not (sc_released (mp_connections s)))) \<le> mcpSseMaxConnections config \<and>
    (\<forall>sid session. map_of (mp_sessions s) sid = Some session \<longrightarrow>
       distinct (ls_requestIdHashes session) \<and> length (ls_requestIdHashes session) \<le> mcpRequestIdLimit)"
proof -
  have "process_ok (mcpSseMaxConnections config) s"
    using assms(1)
  proof induction
    case base
    then show ?case using assms(3) by (simp add: new_process_def process_ok_def connections_ok_def sessions_ok_def)
  next
    case (step t u)
    then show ?case using step_ok assms(2) by blast
  qed
  then show ?thesis by (auto simp: process_ok_def connections_ok_def sessions_ok_def)
qed

section \<open>Witnesses\<close>

definition mcp_service :: "(string, string, store_state, string) service" where
  "mcp_service = sample_service \<lparr> sv_config := Inr token_config, sv_crypto := sample_crypto,
     sv_keySet := (\<lambda>config. Inr \<lparr> ks_active = token_key, ks_verificationKeys = [as_verification_key token_key] \<rparr>) \<rparr>"

definition sample_registry :: "(string, string) mcp_registry" where
  "sample_registry = \<lparr> mg_parseUrl = ui_parser, mg_tools = tool_set, mg_resources = [], mg_templates = [] \<rparr>"

definition ping_message :: json where
  "ping_message = JObj [(''jsonrpc'', JStr ''2.0''), (''id'', JInt 7), (''method'', JStr ''ping'')]"

definition sample_session_id :: string where "sample_session_id = replicate 16 CHR ''A''"

definition mcp_request :: http_request where
  "mcp_request = \<lparr> hr_query = Some [], hr_rawHeaders = [], hr_headers = [(''authorization'', ''Bearer '' @ session_token),
     (''accept'', ''application/json, text/event-stream''), (''content-type'', ''application/json''), (''mcp-session-id'', sample_session_id)],
     hr_body = [utf8 (json_text ping_message)], hr_remoteAddress = None \<rparr>"

definition mcp_sample_draws :: mcp_draws where
  "mcp_sample_draws = \<lparr> md_verify = 1299, md_touch = 1299, md_reserve = 1299, md_call = 1299, md_timestamp = ''2026-01-01T00:00:00.000Z'',
     md_sessionId = sample_session_id, md_after = 1300 \<rparr>"

definition sample_session_record :: mcp_session_record where
  "sample_session_record = \<lparr> ms_sessionIdHash = encodeBase64Url sample_session_id, ms_clientId = ''c'', ms_protocolVersion = ''2025-11-25'',
     ms_createdAt = 1000, ms_lastSeenAt = 1000, ms_expiresAt = 4600, ms_requestIdHashes = [], ms_initializedAt = None, ms_terminatedAt = None \<rparr>"

definition session_store :: store_state where
  "session_store = emptyStoreState \<lparr> mcpSessions := [(encodeBase64Url sample_session_id, sample_session_record)] \<rparr>"

lemma mcp_headers:
  "header mcp_request ''authorization'' = Some (''Bearer '' @ session_token)" "header_text mcp_request ''origin'' = []"
  "header_text mcp_request ''accept'' = ''application/json, text/event-stream''" "header_text mcp_request ''content-type'' = ''application/json''"
  "header_text mcp_request ''mcp-session-id'' = sample_session_id" "header_text mcp_request ''mcp-protocol-version'' = []"
  by (simp_all add: mcp_request_def header_def header_text_def)

lemma header_values_ok:
  "acceptsMediaType ''application/json, text/event-stream'' ''application/json''"
  "acceptsMediaType ''application/json, text/event-stream'' ''text/event-stream''"
  "mediaType ''application/json'' = ''application/json''" "contentTypeUsesUtf8 ''application/json''"
  "is_session_id sample_session_id"
  by code_simp+

lemma mcp_checked: "\<exists>keys. checked_request mcp_service token_config mcp_request 1299 = Inr keys"
proof -
  have "verifyAccessToken sample_crypto token_config [as_verification_key token_key] 1299 session_token (ai_audience token_input) [] =
      Inr (access_claims_of token_config 1000 ''j'' token_input)"
    unfolding session_token_def using access_token_complete [OF token_sample(1-6) _ _ _ _ _ token_sample(7), of 1299 "[]"]
    by (simp add: token_config_def token_input_def max_safe_integer_def)
  moreover have bearer: "readBearer (Some (''Bearer '' @ session_token)) = Inr session_token"
    using session_token_header unfolding sample_call_def tool_context.simps .
  moreover have "ai_audience token_input = mcpResource token_config" by (simp add: token_config_def token_input_def)
  ultimately have "verifyBearer sample_crypto token_config [as_verification_key token_key] 1299 (header mcp_request ''authorization'')
      (mcpResource token_config) [] = Inr (access_claims_of token_config 1000 ''j'' token_input)"
    unfolding mcp_headers(1) verifyBearer_def bearer bindr_Inr by simp
  moreover have "validateSingleAuthorizationHeader [] = Inr ()" by code_simp
  moreover have "hr_rawHeaders mcp_request = []" by (simp add: mcp_request_def)
  moreover have "rejectAccessTokenQuery mcp_request = Inr ()"
    by (simp add: mcp_request_def rejectAccessTokenQuery_def requestQuery_def)
  ultimately show ?thesis
    by (simp add: checked_request_def mcp_service_def validateOrigin_def mcp_headers(2) Let_def)
qed

lemma ping_body: "readMcpJsonBody mcp_request = Inr ping_message"
proof -
  have printable: "printable ping_message" by (simp add: ping_message_def max_safe_integer_def)
  have "length (json_text ping_message) < 100" by code_simp
  then have "length (utf8 (json_text ping_message)) \<le> 32768" using utf8_length [of "json_text ping_message"] by linarith
  then have "readBody mcp_request 32768 = Inr (json_text ping_message)"
    by (simp add: readBody_def mcp_request_def del: json_text.simps)
  then show ?thesis by (simp add: readMcpJsonBody_def json_parse_text [OF printable] del: json_text.simps)
qed

lemma ping_parsed: "parsed_message ping_message = Inr (Some \<lparr> rq_id = Some (Number_id 7), rq_method = ''ping'', rq_params = None \<rparr>)"
  by (simp add: ping_message_def parsed_message_def isJsonRpcResponse_def parseJsonRpc_def asRecord_def assertOnlyKeys_def only_keys_def
      requiredString_def optionalString_def validateJsonRpcId_def max_safe_integer_def)

definition ping_draws_context :: "(string, string, store_state) mcp_context" where
  "ping_draws_context = \<lparr> mc_call = call_context mcp_service token_config mcp_request mcp_sample_draws, mc_rateLimitSubject = Some ''unknown'',
     mc_sessionInitialized = Some False,
     mc_reserveRequestId = Some (reserveRequest encodeBase64Url (disk_apply (\<lambda>s. s)) sample_session_id 1299) \<rparr>"

lemma ping_touch:
  "touchSession encodeBase64Url (disk_apply (\<lambda>s. s)) sample_session_id None False 1299 session_store = (Inr False,
     session_store \<lparr> mcpSessions := [(encodeBase64Url sample_session_id, sample_session_record \<lparr> ms_lastSeenAt := 1299 \<rparr>)] \<rparr>)"
  by (simp add: touchSession_def store_flag_def with_result_def touchMcpSession_def live_session_def session_store_def
      sample_session_record_def truthy_time_def isExpired_def Let_def)

lemma ping_reserved:
  "reserveRequest encodeBase64Url (disk_apply (\<lambda>s. s)) sample_session_id 1299 i
     (session_store \<lparr> mcpSessions := [(encodeBase64Url sample_session_id, sample_session_record \<lparr> ms_lastSeenAt := 1299 \<rparr>)] \<rparr>) =
   (Inr (), session_store \<lparr> mcpSessions := [(encodeBase64Url sample_session_id, sample_session_record
      \<lparr> ms_lastSeenAt := 1299, ms_requestIdHashes := [mcpRequestIdHash encodeBase64Url i] \<rparr>)] \<rparr>)"
  by (simp add: reserveRequest_def andThen_def store_flag_def with_result_def reserveMcpRequestId_def live_session_def session_store_def
      sample_session_record_def truthy_time_def isExpired_def Let_def maxMcpRequestIds_def)

definition session_used :: store_state where
  "session_used = session_store \<lparr> mcpSessions := [(encodeBase64Url sample_session_id, sample_session_record
      \<lparr> ms_lastSeenAt := 1299, ms_requestIdHashes := [mcpRequestIdHash encodeBase64Url (Number_id 7)] \<rparr>)] \<rparr>"

lemma ping_handled:
  assumes "mc_sessionInitialized cx = Some False"
    "mc_reserveRequestId cx = Some (reserveRequest encodeBase64Url (disk_apply (\<lambda>s. s)) sample_session_id 1299)"
  shows "handleMcpJson mg store cx ping_message
     (session_store \<lparr> mcpSessions := [(encodeBase64Url sample_session_id, sample_session_record \<lparr> ms_lastSeenAt := 1299 \<rparr>)] \<rparr>) =
     (Inr (plain_result 200 (Some (jsonRpcSuccess (Number_id 7) (JObj [])))), session_used)"
  by (simp add: handleMcpJson_def ping_parsed run_request_def reserved_def assms ping_reserved andThen_def methods_before_initialized_def
      dispatch_def optionalMethodParams_def answered_request_def plain_result_def extractWwwAuthenticate_def session_used_def)

theorem responses_well_formed_witness:
  "answers_for (Some (Number_id 7)) (plain_result 200 (Some (jsonRpcSuccess (Number_id 7) (JObj []))))"
  using responses_well_formed [OF ping_handled [of ping_draws_context sample_registry "disk_apply (\<lambda>s. s)"]]
  by (simp add: ping_parsed ping_draws_context_def)

lemma ping_post:
  "\<exists>headers. mcpPost mcp_service sample_registry mcp_request mcp_sample_draws session_store =
    (Inr (Json_response 200 headers (jsonRpcSuccess (Number_id 7) (JObj []))), session_used)"
proof -
  let ?cx = "\<lparr> mc_call = call_context mcp_service token_config mcp_request mcp_sample_draws, mc_rateLimitSubject = Some (requestSubject mcp_request),
      mc_sessionInitialized = Some False,
      mc_reserveRequestId = Some (reserveRequest encodeBase64Url (disk_apply (\<lambda>s. s)) sample_session_id 1299) \<rparr>"
  have "handleMcpJson sample_registry (disk_apply (\<lambda>s. s)) ?cx ping_message
     (session_store \<lparr> mcpSessions := [(encodeBase64Url sample_session_id, sample_session_record \<lparr> ms_lastSeenAt := 1299 \<rparr>)] \<rparr>) =
     (Inr (plain_result 200 (Some (jsonRpcSuccess (Number_id 7) (JObj [])))), session_used)"
    by (rule ping_handled) simp_all
  moreover have "cr_sha256 (sv_crypto mcp_service) = encodeBase64Url" "sv_store mcp_service = disk_apply (\<lambda>s. s)"
    by (simp_all add: mcp_service_def sample_crypto_def sample_service_def)
  moreover have "readMcpSessionId mcp_request = Inr sample_session_id" "readMcpProtocolVersion mcp_request False = Inr None"
    by (simp_all add: readMcpSessionId_def readMcpProtocolVersion_def mcp_headers header_values_ok Let_def)
  moreover have "body_method ping_message = Some (JStr ''ping'')" by (simp add: body_method_def ping_message_def)
  ultimately have "handled_in_session mcp_service sample_registry token_config mcp_request mcp_sample_draws ping_message session_store =
      (Inr (written_result (plain_result 200 (Some (jsonRpcSuccess (Number_id 7) (JObj [])))) []), session_used)"
    unfolding handled_in_session_def
    by (simp add: Let_def ping_touch andThen_def mcp_sample_draws_def plain_result_def challenge_headers_def)
  moreover have "validatePostAccept mcp_request = Inr ()" "validatePostContentType mcp_request = Inr ()"
    by (simp_all add: validatePostAccept_def validatePostContentType_def mcp_headers header_values_ok Let_def)
  moreover obtain keys where "checked_request mcp_service token_config mcp_request (md_verify mcp_sample_draws) = Inr keys"
    using mcp_checked by (auto simp: mcp_sample_draws_def)
  moreover have "sv_config mcp_service = Inr token_config" by (simp add: mcp_service_def)
  ultimately show ?thesis
    by (simp add: mcpPost_def ping_body handler_result_def written_result_def plain_result_def writeJson_def
        \<open>body_method ping_message = Some (JStr ''ping'')\<close>)
qed

theorem result_needs_token_and_session_witness:
  "\<exists>sid r i. readMcpSessionId mcp_request = Inr sid \<and> live_session (encodeBase64Url sid) 1299 session_store = Inr r \<and>
     ms_initializedAt r = None \<and> mcpRequestIdHash encodeBase64Url i \<notin> set (ms_requestIdHashes r) \<and>
     map_of (mcpSessions session_used) (encodeBase64Url sid) =
       Some (r \<lparr> ms_lastSeenAt := 1299, ms_requestIdHashes := ms_requestIdHashes r @ [mcpRequestIdHash encodeBase64Url i] \<rparr>)"
proof -
  obtain headers where post: "mcpPost mcp_service sample_registry mcp_request mcp_sample_draws session_store =
    (Inr (Json_response 200 headers (jsonRpcSuccess (Number_id 7) (JObj []))), session_used)"
    using ping_post by blast
  have result: "has_result (jsonRpcSuccess (Number_id 7) (JObj []))" by (simp add: has_result_def jsonRpcSuccess_def)
  have store: "sv_store mcp_service = disk_apply (\<lambda>s. s)" by (simp add: mcp_service_def sample_service_def)
  have "cr_sha256 (sv_crypto mcp_service) = encodeBase64Url" "md_touch mcp_sample_draws = 1299" "md_reserve mcp_sample_draws = 1299"
    by (simp_all add: mcp_service_def sample_crypto_def mcp_sample_draws_def)
  moreover have "ms_initializedAt r = None" if "live_session (encodeBase64Url sid) 1299 session_store = Inr r" for sid r
    using that by (auto simp: live_session_def session_store_def sample_session_record_def split: if_splits)
  ultimately show ?thesis
    using result_needs_token_and_session [OF post result store] ping_body by (fastforce simp: ping_message_def)
qed

lemma sample_stream:
  "\<exists>reply s'. sseEndpoint mcp_service ui_parser mcp_request mcp_sample_draws (new_process session_store) = (reply, s') \<and>
     sc_active (mp_connections s') = 1 \<and> sc_released (mp_connections s') = [False] \<and> map_of (mp_sessions s') sample_session_id \<noteq> None"
proof -
  obtain keys where "checked_request mcp_service token_config mcp_request 1299 = Inr keys" using mcp_checked by blast
  moreover have "validateSseAccept mcp_request = Inr ()" by (simp add: validateSseAccept_def mcp_headers header_values_ok)
  ultimately have "checked_stream mcp_service token_config mcp_request 1299 = Inr ()" by (simp add: checked_stream_def)
  moreover have "acquireSseConnection (mcpSseMaxConnections token_config) \<lparr> sc_active = 0, sc_released = [] \<rparr> =
      Inr (0, \<lparr> sc_active = 1, sc_released = [False] \<rparr>)"
    by (simp add: acquireSseConnection_def token_config_def)
  moreover have "sv_config mcp_service = Inr token_config" "md_verify mcp_sample_draws = 1299" "md_sessionId mcp_sample_draws = sample_session_id"
    by (simp_all add: mcp_service_def mcp_sample_draws_def)
  ultimately show ?thesis
    by (simp add: sseEndpoint_def new_process_def createLegacySseSession_def Let_def)
qed

theorem process_bounded_witness:
  "\<exists>s. (process_step mcp_service sample_registry)\<^sup>*\<^sup>* (new_process session_store) s \<and> sc_active (mp_connections s) = 1 \<and>
     int (length (filter Not (sc_released (mp_connections s)))) \<le> 5"
proof -
  obtain reply s' where stream: "sseEndpoint mcp_service ui_parser mcp_request mcp_sample_draws (new_process session_store) = (reply, s')"
      "sc_active (mp_connections s') = 1"
    using sample_stream by blast
  have "process_step mcp_service sample_registry (new_process session_store) s'"
    using stream(1) by (intro process_step.legacy) (simp add: sample_registry_def)
  then have run: "(process_step mcp_service sample_registry)\<^sup>*\<^sup>* (new_process session_store) s'" by (rule r_into_rtranclp)
  have "sv_config mcp_service = Inr token_config" "0 \<le> mcpSseMaxConnections token_config" "mcpSseMaxConnections token_config = 5"
    by (simp_all add: mcp_service_def token_config_def)
  from process_bounded [OF run this(1,2)] this(3) stream(2) run show ?thesis by metis
qed

end
