(* ===== verification/Mcp_Paging.thy ===== *)
theory Mcp_Paging
  imports Mcp_Rpc Token_Properties
begin

text \<open>
  A client that follows the cursors of a list (\<open>mcp/pagination.ts\<close>): the walk over the pages, with the
  number of calls as fuel, ends and gives every item exactly once.
\<close>

section \<open>The length of a cursor\<close>

lemma length_decimal: "n < 10 ^ Suc k \<Longrightarrow> length (decimal n) \<le> Suc k"
proof (induction k arbitrary: n)
  case 0
  then show ?case by (subst decimal.simps) simp
next
  case (Suc k)
  then have "n div 10 < 10 ^ Suc k" by auto
  from Suc.IH [OF this] show ?case by (subst decimal.simps) simp
qed

lemma length_offset_text:
  assumes "int n \<le> max_safe_integer"
  shows "length (int_text (int n)) \<le> 16"
proof -
  have "n < 10 ^ Suc 15" using assms by (simp add: max_safe_integer_def)
  from length_decimal [OF this] show ?thesis by (simp add: int_text_def)
qed

definition list_methods :: "string list" where
  "list_methods = [''tools/list'', ''resources/list'', ''resources/templates/list'']"

lemma list_method_text: "name \<in> set list_methods \<Longrightarrow> length (string_text name) \<le> 26"
proof -
  have "list_all (\<lambda>n. length (string_text n) \<le> 26) list_methods" by code_simp
  then show "name \<in> set list_methods \<Longrightarrow> length (string_text name) \<le> 26" by (simp add: list_all_iff)
qed

lemma keys_text: "length (string_text ''v'') = 3" "length (string_text ''m'') = 3" "length (string_text ''o'') = 3"
  by code_simp+

lemma cursor_text_length:
  assumes "name \<in> set list_methods" "int off \<le> max_safe_integer"
  shows "length (json_text (JObj [(''v'', JInt 1), (''m'', JStr name), (''o'', JInt (int off))])) \<le> 60"
proof -
  have one: "length (int_text 1) = 1" by code_simp
  show ?thesis
    using list_method_text [OF assms(1)] length_offset_text [OF assms(2)] one by (simp add: keys_text)
qed

lemma cursor_length:
  assumes "name \<in> set list_methods" "int off \<le> max_safe_integer"
  shows "length (encodeCursor name off) \<le> 256"
  using cursor_text_length [OF assms] length_encoded [of "JObj [(''v'', JInt 1), (''m'', JStr name), (''o'', JInt (int off))]"]
  unfolding encodeCursor_def by linarith

lemma cursor_round_trip:
  assumes "name \<in> set list_methods" "0 < off" "int off \<le> max_safe_integer"
  shows "decodeCursor (encodeCursor name off) name = Inr off"
proof -
  let ?v = "JObj [(''v'', JInt 1), (''m'', JStr name), (''o'', JInt (int off))]"
  have printable: "printable ?v" using assms(3) by (simp add: max_safe_integer_def)
  have "encodeCursor name off \<noteq> []"
    using json_text_not_Nil [OF printable] by (simp add: encodeCursor_def encodeJsonBase64Url_def del: json_text.simps)
  moreover have "list_all is_base64url_char (encodeCursor name off)"
    by (simp add: encodeCursor_def encodeJsonBase64Url_def encoded_alphabet)
  moreover have "decodeJsonBase64Url (encodeCursor name off) = Inr ?v"
    unfolding encodeCursor_def by (rule json_base64_round_trip [OF printable])
  ultimately show ?thesis
    using cursor_length [OF assms(1,3)] assms(2,3) by (simp add: decodeCursor_def max_safe_integer_def)
qed

section \<open>The walk\<close>

fun walk_pages :: "nat \<Rightarrow> (js_object \<Rightarrow> json outcome) \<Rightarrow> string \<Rightarrow> js_object \<Rightarrow> json list outcome option" where
  "walk_pages 0 page key ps = None"
| "walk_pages (Suc calls) page key ps = (case page ps of
     Inl e \<Rightarrow> Some (Inl e)
   | Inr (JObj fs) \<Rightarrow> (case field fs key of
       Some (JArr items) \<Rightarrow> (case field fs ''nextCursor'' of
           None \<Rightarrow> Some (Inr items)
         | Some c \<Rightarrow> map_option (\<lambda>r. bindr r (\<lambda>more. Inr (items @ more))) (walk_pages calls page key [(''cursor'', c)]))
     | _ \<Rightarrow> None)
   | Inr _ \<Rightarrow> None)"

lemma page_at:
  assumes "cursorOffset (field ps ''cursor'') name (length items) = Inr off" "only_keys ps [''_meta'', ''cursor'']" "field ps ''_meta'' = None"
  shows "paginatedList (Some ps) name key items pageSize = Inr (JObj ([(key, JArr (take pageSize (drop off items)))] @
    (if off + pageSize < length items then [(''nextCursor'', JStr (encodeCursor name (off + pageSize)))] else [])))"
  using assms by (simp add: paginatedList_def optionalMethodParams_def validateMethodParams_def requestMetaError_def validateClientMeta_def Let_def)

lemma walk_from:
  assumes "cursorOffset (field ps ''cursor'') name (length items) = Inr off" "only_keys ps [''_meta'', ''cursor'']" "field ps ''_meta'' = None"
    and "0 < pageSize" "int (length items) \<le> max_safe_integer" "name \<in> set list_methods" "key \<noteq> ''nextCursor''"
    and "length items - off \<le> Suc calls * pageSize"
  shows "walk_pages (Suc calls) (\<lambda>ps. paginatedList (Some ps) name key items pageSize) key ps = Some (Inr (drop off items))"
  using assms(1-3,8)
proof (induction calls arbitrary: ps off)
  case 0
  then show ?case using page_at [OF 0(1-3), of key pageSize] assms(7) by simp
next
  case (Suc calls)
  note page = page_at [OF Suc.prems(1-3), of key pageSize]
  show ?case
  proof (cases "off + pageSize < length items")
    case False
    then show ?thesis using page assms(7) by simp
  next
    case True
    let ?next = "[(''cursor'', JStr (encodeCursor name (off + pageSize)))]"
    have "cursorOffset (field ?next ''cursor'') name (length items) = Inr (off + pageSize)"
      using cursor_round_trip [OF assms(6), of "off + pageSize"] assms(4,5) True by (simp add: cursorOffset_def)
    moreover have "only_keys ?next [''_meta'', ''cursor'']" by (simp add: only_keys_def)
    moreover have "length items - (off + pageSize) \<le> Suc calls * pageSize"
      using Suc.prems(4) by simp
    ultimately have "walk_pages (Suc calls) (\<lambda>ps. paginatedList (Some ps) name key items pageSize) key ?next
        = Some (Inr (drop (off + pageSize) items))"
      using Suc.IH [of ?next "off + pageSize"] by simp
    moreover have "take pageSize (drop off items) @ drop (off + pageSize) items = drop off items"
      by (metis append_take_drop_id drop_drop add.commute)
    ultimately show ?thesis using page True assms(7) by simp
  qed
qed

text \<open>C28: a client that starts without a cursor and follows the cursors it is given ends after at most one
  call more than there are full pages, and has then received every item of the list exactly once and in order,
  for each of the three lists and any positive size of a page.\<close>

theorem list_walk_complete:
  assumes "0 < pageSize" "int (length items) \<le> max_safe_integer" "name \<in> set list_methods" "key \<noteq> ''nextCursor''"
    and "length items div pageSize < calls"
  shows "walk_pages calls (\<lambda>ps. paginatedList (Some ps) name key items pageSize) key [] = Some (Inr items)"
proof -
  obtain n where n: "calls = Suc n" using assms(5) by (cases calls) auto
  have "length items < Suc (length items div pageSize) * pageSize"
    using dividend_less_div_times [OF assms(1), of "length items"] by (simp add: add.commute)
  also have "\<dots> \<le> calls * pageSize" using assms(5) by (intro mult_le_mono1) simp
  finally have "length items - 0 \<le> Suc n * pageSize" using n by simp
  moreover have "cursorOffset (field [] ''cursor'') name (length items) = Inr 0" "only_keys [] [''_meta'', ''cursor'']"
    by (simp_all add: cursorOffset_def only_keys_def)
  ultimately show ?thesis using walk_from [of "[]" name items 0 pageSize key n] assms n by simp
qed

theorem list_walk_complete_witness:
  "walk_pages 3 (\<lambda>ps. paginatedList (Some ps) ''tools/list'' ''tools'' (map JStr [''a'', ''b'', ''c'', ''d'', ''e'']) 2) ''tools'' []
     = Some (Inr (map JStr [''a'', ''b'', ''c'', ''d'', ''e'']))"
  using list_walk_complete [of 2 "map JStr [''a'', ''b'', ''c'', ''d'', ''e'']" "''tools/list''" "''tools''" 3]
  by (simp add: list_methods_def max_safe_integer_def)

end
