(* ===== verification/Mcp_Widgets.thy ===== *)
theory Mcp_Widgets
  imports Mcp_Resources
begin

text \<open>
  The widgets: the HTML resource of an app (the resource part of \<open>mcp/app-ui.ts\<close>), a widget with its
  assets (\<open>widgets/widget-definition.ts\<close>, \<open>widgets/index.ts\<close>, \<open>widgets/asset-response.ts\<close>).
\<close>

section \<open>The HTML resource of an app\<close>

record app_csp =
  cs_connectDomains :: "string list"
  cs_resourceDomains :: "string list"
  cs_frameDomains :: "string list option"
  cs_redirectDomains :: "string list option"

record app_widget =
  aw_description :: "string option"
  aw_prefersBorder :: "bool option"
  aw_domain :: "string option"
  aw_csp :: "app_csp option"
  aw_ui :: "js_object option"

datatype ('k, 'p) app_html = Html string | Html_of "('k, 'p) tool_context \<Rightarrow> string"

record ('k, 'p) app_html_options =
  ah_uri :: string
  ah_name :: string
  ah_title :: "string option"
  ah_description :: "string option"
  ah_html :: "('k, 'p) app_html"
  ah_icons :: "json list option"
  ah_annotations :: "json option"
  ah_size :: "js_number option"
  ah_requiredScopes :: "string list option"
  ah_widget :: "app_widget option"
  ah_meta :: "js_object option"

definition invalidResourceOptions :: js_error where "invalidResourceOptions = ServiceError Server_error ''invalid app ui resource'' 500"

definition isOrigin :: "url_parser \<Rightarrow> string \<Rightarrow> bool" where
  "isOrigin parse_url s = (length s \<le> 255 \<and> (case newURL parse_url s of
     Inl e \<Rightarrow> False
   | Inr u \<Rightarrow> url_pathname u = ''/'' \<and> url_search u = [] \<and> url_hash u = [] \<and> url_hostname u \<noteq> [] \<and>
       (url_protocol u = ''https:'' \<or>
        url_protocol u = ''http:'' \<and> (url_hostname u = ''localhost'' \<or> url_hostname u = ''127.0.0.1'' \<or> url_hostname u = ''[::1]''))))"

definition is_port_suffix :: "string \<Rightarrow> bool" where
  "is_port_suffix s = (is_positive_numeral s \<and> length s \<le> 5)"

definition is_wildcard_origin :: "string \<Rightarrow> bool" where
  "is_wildcard_origin s = (starts_with ''https://*.'' s \<and> (case split_on (CHR '':'') (drop 10 s) of
     [host] \<Rightarrow> is_word (\<lambda>c. is_alnum c \<or> c = CHR ''.'' \<or> c = CHR ''-'') host
   | [host, port] \<Rightarrow> is_word (\<lambda>c. is_alnum c \<or> c = CHR ''.'' \<or> c = CHR ''-'') host \<and> is_port_suffix port
   | _ \<Rightarrow> False))"

definition isOriginPattern :: "url_parser \<Rightarrow> string \<Rightarrow> bool" where
  "isOriginPattern parse_url s = (length s \<le> 255 \<and> (is_wildcard_origin s \<or> isOrigin parse_url s))"

definition isCsp :: "url_parser \<Rightarrow> app_csp \<Rightarrow> bool" where
  "isCsp parse_url csp = (list_all (isOriginPattern parse_url) (cs_connectDomains csp) \<and> list_all (isOriginPattern parse_url) (cs_resourceDomains csp) \<and>
     (case cs_frameDomains csp of None \<Rightarrow> True | Some ds \<Rightarrow> list_all (isOriginPattern parse_url) ds) \<and>
     (case cs_redirectDomains csp of None \<Rightarrow> True | Some ds \<Rightarrow> list_all (isOriginPattern parse_url) ds))"

definition widget_part :: "('w \<Rightarrow> 'a option) \<Rightarrow> 'w option \<Rightarrow> 'a option" where
  "widget_part part widget = (case widget of None \<Rightarrow> None | Some w \<Rightarrow> part w)"

definition assertAppHtmlResourceOptions :: "url_parser \<Rightarrow> ('k, 'p) app_html_options \<Rightarrow> unit outcome" where
  "assertAppHtmlResourceOptions parse_url opts =
    (if \<not> isResourceUri parse_url (Some (JStr (ah_uri opts))) \<or> ah_name opts = [] \<or> ah_html opts = Html [] then Inl invalidResourceOptions
     else if (case widget_part aw_domain (ah_widget opts) of None \<Rightarrow> False | Some d \<Rightarrow> \<not> isOrigin parse_url d) then Inl invalidResourceOptions
     else if (case widget_part aw_csp (ah_widget opts) of None \<Rightarrow> False | Some csp \<Rightarrow> \<not> isCsp parse_url csp) then Inl invalidResourceOptions
     else Inr ())"

definition standardCsp :: "app_csp \<Rightarrow> json" where
  "standardCsp csp = JObj ([(''connectDomains'', JStrs (cs_connectDomains csp)), (''resourceDomains'', JStrs (cs_resourceDomains csp))] @
     present ''frameDomains'' JStrs (cs_frameDomains csp))"

definition openAiCsp :: "app_csp \<Rightarrow> json" where
  "openAiCsp csp = JObj ([(''connect_domains'', JStrs (cs_connectDomains csp)), (''resource_domains'', JStrs (cs_resourceDomains csp))] @
     present ''frame_domains'' JStrs (cs_frameDomains csp) @ present ''redirect_domains'' JStrs (cs_redirectDomains csp))"

definition appHtmlContent :: "string \<Rightarrow> string \<Rightarrow> js_object \<Rightarrow> js_object outcome" where
  "appHtmlContent uri html meta = (if html = [] then Inl invalidResourceOptions
     else Inr ([(''uri'', JStr uri), (''mimeType'', JStr appUiResourceMimeType), (''text'', JStr html)] @
       (if meta \<noteq> [] then [(''_meta'', JObj meta)] else [])))"

definition appHtmlContents :: "('k, 'p) app_html_options \<Rightarrow> js_object \<Rightarrow> ('k, 'p) resource_contents outcome" where
  "appHtmlContents opts meta = (case ah_html opts of
     Html html \<Rightarrow> bindr (appHtmlContent (ah_uri opts) html meta) (\<lambda>c. Inr (Contents [c]))
   | Html_of f \<Rightarrow> Inr (Computed (\<lambda>cx. bindr (appHtmlContent (ah_uri opts) (f cx) meta) (\<lambda>c. Inr [c]))))"

definition standard_ui :: "('k, 'p) app_html_options \<Rightarrow> js_object" where
  "standard_ui opts = (let widget = ah_widget opts; meta = (case ah_meta opts of None \<Rightarrow> [] | Some m \<Rightarrow> m) in
     spread (uiRecord (field meta ''ui'')) ((case widget_part aw_ui widget of None \<Rightarrow> [] | Some ui \<Rightarrow> ui) @
       present ''prefersBorder'' JBool (widget_part aw_prefersBorder widget) @ truthy_text ''domain'' (widget_part aw_domain widget) @
       present ''csp'' standardCsp (widget_part aw_csp widget)))"

definition app_html_meta :: "('k, 'p) app_html_options \<Rightarrow> js_object" where
  "app_html_meta opts = (let widget = ah_widget opts; standardUi = standard_ui opts in
     spread (case ah_meta opts of None \<Rightarrow> [] | Some m \<Rightarrow> m) ((if standardUi \<noteq> [] then [(''ui'', JObj standardUi)] else []) @
       truthy_text ''openai/widgetDescription'' (widget_part aw_description widget) @
       present ''openai/widgetPrefersBorder'' JBool (widget_part aw_prefersBorder widget) @
       truthy_text ''openai/widgetDomain'' (widget_part aw_domain widget) @
       present ''openai/widgetCSP'' openAiCsp (widget_part aw_csp widget)))"

definition truthy :: "string option \<Rightarrow> string option" where
  "truthy value = (if value = Some [] then None else value)"

definition appHtmlResource :: "url_parser \<Rightarrow> ('k, 'p) app_html_options \<Rightarrow> ('k, 'p) mcp_resource outcome" where
  "appHtmlResource parse_url opts = bindr (assertAppHtmlResourceOptions parse_url opts) (\<lambda>_.
     bindr (appHtmlContents opts (app_html_meta opts)) (\<lambda>contents. Inr
       \<lparr> rd_uri = ah_uri opts, rd_name = ah_name opts, rd_title = truthy (ah_title opts), rd_description = truthy (ah_description opts),
         rd_icons = ah_icons opts, rd_mimeType = Some appUiResourceMimeType, rd_annotations = ah_annotations opts, rd_size = ah_size opts,
         rd_meta = None, rd_requiredScopes = (case ah_requiredScopes opts of None \<Rightarrow> [] | Some ss \<Rightarrow> ss), rd_contents = contents \<rparr>))"

section \<open>Widgets and their assets\<close>

definition string_newline :: string where "string_newline = [char_of (10 :: nat)]"

datatype asset_kind = Script | Style

record widget_asset =
  wa_kind :: asset_kind
  wa_path :: string
  wa_contentType :: string
  wa_body :: string

record ('k, 'p) widget_definition =
  wd_resourceUri :: string
  wd_resource :: "('k, 'p) mcp_resource"
  wd_assets :: "widget_asset list"

record widget_base =
  wb_assets :: "widget_asset list"
  wb_widget :: "app_widget option"

record widget_options =
  wo_base :: "widget_base option"
  wo_resourceUri :: string
  wo_name :: string
  wo_title :: string
  wo_description :: string
  wo_markup :: string
  wo_assets :: "widget_asset list"
  wo_requiredScopes :: "string list option"
  wo_widget :: "app_widget option"

definition invalidWidget :: js_error where "invalidWidget = ServiceError Server_error ''invalid widget definition'' 500"

definition scriptAsset :: "string \<Rightarrow> string \<Rightarrow> widget_asset" where
  "scriptAsset path body = \<lparr> wa_kind = Script, wa_path = path, wa_contentType = ''application/javascript; charset=utf-8'', wa_body = body \<rparr>"

definition styleAsset :: "string \<Rightarrow> string \<Rightarrow> widget_asset" where
  "styleAsset path body = \<lparr> wa_kind = Style, wa_path = path, wa_contentType = ''text/css; charset=utf-8'', wa_body = body \<rparr>"

definition isAsset :: "widget_asset \<Rightarrow> bool" where
  "isAsset asset = (case wa_kind asset of
     Script \<Rightarrow> wa_contentType asset = ''application/javascript; charset=utf-8'' \<and> ends_with ''.js'' (wa_path asset)
   | Style \<Rightarrow> wa_contentType asset = ''text/css; charset=utf-8'' \<and> ends_with ''.css'' (wa_path asset))"

definition is_path_char :: "char \<Rightarrow> bool" where
  "is_path_char c = (is_alnum c \<or> List.member ''._/-'' c)"

text \<open>The name before the ending is not empty; \<open>.css\<close> and \<open>.js\<close> are made of the same symbols.\<close>

definition isAssetPath :: "string \<Rightarrow> bool" where
  "isAssetPath path = (starts_with ''/app-ui/'' path \<and> list_all is_path_char (drop 8 path) \<and>
     (ends_with ''.css'' path \<and> 12 < length path \<or> ends_with ''.js'' path \<and> 11 < length path) \<and>
     \<not> sublist ''//'' path \<and> \<not> sublist ''..'' path)"

definition anywhere :: "(string \<Rightarrow> bool) \<Rightarrow> string \<Rightarrow> bool" where
  "anywhere p s = list_ex p (suffixes s)"

definition is_word_char :: "char \<Rightarrow> bool" where "is_word_char c = (is_alnum c \<or> c = CHR ''_'')"

text \<open>\<open>/<script\b/i\<close>, \<open>/<style\b/i\<close> and the handlers \<open>/\son[a-z]+\s*=/i\<close>, at the start of a text.\<close>

definition opens_element :: "string \<Rightarrow> string \<Rightarrow> bool" where
  "opens_element tag s = (to_lower (take (length tag) s) = tag \<and>
     (case drop (length tag) s of [] \<Rightarrow> True | c # cs \<Rightarrow> \<not> is_word_char c))"

definition is_letter :: "char \<Rightarrow> bool" where "is_letter c = (is_lower c \<or> is_upper c)"

definition opens_handler :: "string \<Rightarrow> bool" where
  "opens_handler s = (case s of [] \<Rightarrow> False | c # cs \<Rightarrow> is_ws c \<and> to_lower (take 2 cs) = ''on'' \<and>
     (case drop 2 cs of [] \<Rightarrow> False | d # ds \<Rightarrow> is_letter d \<and>
       (case dropWhile is_ws (dropWhile is_letter ds) of [] \<Rightarrow> False | e # es \<Rightarrow> e = CHR ''='')))"

fun validate_assets :: "string list \<Rightarrow> widget_asset list \<Rightarrow> unit outcome" where
  "validate_assets paths [] = Inr ()"
| "validate_assets paths (a # as) =
    (if \<not> isAsset a \<or> \<not> isAssetPath (wa_path a) \<or> wa_body a = [] then Inl invalidWidget
     else if List.member paths (wa_path a) then Inl invalidWidget
     else validate_assets (wa_path a # paths) as)"

definition validateAssets :: "widget_asset list \<Rightarrow> unit outcome" where
  "validateAssets assets = validate_assets [] assets"

definition validateWidgetOptions :: "widget_options \<Rightarrow> unit outcome" where
  "validateWidgetOptions opts =
    (if anywhere (opens_element ''<script'') (wo_markup opts) \<or> anywhere (opens_element ''<style'') (wo_markup opts) \<or>
        anywhere opens_handler (wo_markup opts) then Inl invalidWidget
     else validateAssets (wo_assets opts))"

definition defineWidgetBase :: "widget_asset list option \<Rightarrow> app_widget option \<Rightarrow> widget_base outcome" where
  "defineWidgetBase assets widget = (let as = (case assets of None \<Rightarrow> [] | Some xs \<Rightarrow> xs) in
     bindr (validateAssets as) (\<lambda>_. Inr \<lparr> wb_assets = as, wb_widget = widget \<rparr>))"

fun merge_assets :: "js_error \<Rightarrow> (string \<times> widget_asset) list \<Rightarrow> widget_asset list \<Rightarrow> widget_asset list outcome" where
  "merge_assets conflict merged [] = Inr (map snd merged)"
| "merge_assets conflict merged (a # as) = (case map_of merged (wa_path a) of
     Some existing \<Rightarrow> if existing \<noteq> a then Inl conflict else merge_assets conflict (AList.update (wa_path a) a merged) as
   | None \<Rightarrow> merge_assets conflict (AList.update (wa_path a) a merged) as)"

definition mergeAssets :: "widget_asset list \<Rightarrow> widget_asset list \<Rightarrow> widget_asset list outcome" where
  "mergeAssets base assets = merge_assets invalidWidget [] (base @ assets)"

definition domains_of :: "('c \<Rightarrow> string list) \<Rightarrow> 'c option \<Rightarrow> string list" where
  "domains_of part csp = (case csp of None \<Rightarrow> [] | Some c \<Rightarrow> part c)"

definition optional_domains :: "(app_csp \<Rightarrow> string list option) \<Rightarrow> app_csp option \<Rightarrow> string list" where
  "optional_domains part csp = (case csp of None \<Rightarrow> [] | Some c \<Rightarrow> (case part c of None \<Rightarrow> [] | Some ds \<Rightarrow> ds))"

definition mergeOptionalCspList :: "(app_csp \<Rightarrow> string list option) \<Rightarrow> app_csp option \<Rightarrow> app_csp option \<Rightarrow> string list option" where
  "mergeOptionalCspList part base csp = (let ds = optional_domains part base @ optional_domains part csp in
     if ds \<noteq> [] then Some (distinct_set ds) else None)"

definition mergeCsp :: "app_csp option \<Rightarrow> app_csp option \<Rightarrow> app_csp" where
  "mergeCsp base csp = \<lparr>
     cs_connectDomains = distinct_set (domains_of cs_connectDomains base @ domains_of cs_connectDomains csp),
     cs_resourceDomains = distinct_set (domains_of cs_resourceDomains base @ domains_of cs_resourceDomains csp),
     cs_frameDomains = mergeOptionalCspList cs_frameDomains base csp,
     cs_redirectDomains = mergeOptionalCspList cs_redirectDomains base csp \<rparr>"

definition or_else :: "'a option \<Rightarrow> 'a option \<Rightarrow> 'a option" where
  "or_else a b = (case a of Some x \<Rightarrow> Some x | None \<Rightarrow> b)"

definition mergeWidget :: "app_widget option \<Rightarrow> app_widget option \<Rightarrow> app_widget option" where
  "mergeWidget base widget =
    (if base = None \<and> widget = None then None
     else let uis = (widget_part aw_ui base, widget_part aw_ui widget); csps = (widget_part aw_csp base, widget_part aw_csp widget) in
       Some \<lparr> aw_description = or_else (widget_part aw_description widget) (widget_part aw_description base),
         aw_prefersBorder = or_else (widget_part aw_prefersBorder widget) (widget_part aw_prefersBorder base),
         aw_domain = or_else (widget_part aw_domain widget) (widget_part aw_domain base),
         aw_csp = (if csps = (None, None) then None else Some (mergeCsp (fst csps) (snd csps))),
         aw_ui = (if uis = (None, None) then None
           else Some (spread (case fst uis of None \<Rightarrow> [] | Some u \<Rightarrow> u) (case snd uis of None \<Rightarrow> [] | Some u \<Rightarrow> u))) \<rparr>)"

definition assetTag :: "string \<Rightarrow> widget_asset \<Rightarrow> string" where
  "assetTag origin asset = (let url = [dquote] @ origin @ wa_path asset @ [dquote] in
     case wa_kind asset of
       Style \<Rightarrow> ''<link rel='' @ [dquote] @ ''stylesheet'' @ [dquote] @ '' href='' @ url @ ''>''
     | Script \<Rightarrow> ''<script src='' @ url @ ''></script>'')"

definition assetTags :: "widget_asset list \<Rightarrow> string \<Rightarrow> string" where
  "assetTags assets origin = join_with (string_newline) (map (assetTag origin) assets)"

definition defineWidget :: "url_parser \<Rightarrow> widget_options \<Rightarrow> ('k, 'p) widget_definition outcome" where
  "defineWidget parse_url opts = bindr (validateWidgetOptions opts) (\<lambda>_.
     bindr (mergeAssets (case wo_base opts of None \<Rightarrow> [] | Some b \<Rightarrow> wb_assets b) (wo_assets opts)) (\<lambda>assets.
     if assets = [] then Inl invalidWidget
     else bindr (appHtmlResource parse_url
         \<lparr> ah_uri = wo_resourceUri opts, ah_name = wo_name opts, ah_title = Some (wo_title opts), ah_description = Some (wo_description opts),
           ah_html = Html_of (\<lambda>cx. trim (wo_markup opts) @ string_newline @ assetTags assets (widgetDomain (tx_config cx))),
           ah_icons = None, ah_annotations = None, ah_size = None, ah_requiredScopes = wo_requiredScopes opts,
           ah_widget = mergeWidget (case wo_base opts of None \<Rightarrow> None | Some b \<Rightarrow> wb_widget b) (wo_widget opts), ah_meta = None \<rparr>) (\<lambda>r.
       Inr \<lparr> wd_resourceUri = wo_resourceUri opts, wd_resource = r, wd_assets = assets \<rparr>)))"

definition collectWidgetAssets :: "('k, 'p) widget_definition list \<Rightarrow> widget_asset list outcome" where
  "collectWidgetAssets definitions =
    merge_assets (ServiceError Server_error ''invalid widget asset registry'' 500) [] (concat (map wd_assets definitions))"

definition widgetAssetByPath :: "widget_asset list \<Rightarrow> string \<Rightarrow> widget_asset option" where
  "widgetAssetByPath assets path = List.find (\<lambda>asset. wa_path asset = path) assets"

text \<open>The status, headers and body written for an asset.\<close>

definition writeWidgetAsset :: "widget_asset list \<Rightarrow> string \<Rightarrow> (nat \<times> (string \<times> string) list \<times> string) outcome" where
  "writeWidgetAsset assets path = (case widgetAssetByPath assets path of
     None \<Rightarrow> Inl (ServiceError Not_found ''widget asset not found'' 404)
   | Some asset \<Rightarrow> Inr (200, [(''cache-control'', ''public, max-age=31536000, immutable''), (''content-type'', wa_contentType asset),
       (''cross-origin-resource-policy'', ''cross-origin''), (''referrer-policy'', ''no-referrer''), (''x-content-type-options'', ''nosniff'')],
       wa_body asset))"

section \<open>Facts\<close>

text \<open>Merging keeps every asset, and one for each path.\<close>

definition assets_by_path :: "(string \<times> widget_asset) list \<Rightarrow> bool" where
  "assets_by_path m = (distinct (map fst m) \<and> (\<forall>(k, a)\<in>set m. wa_path a = k))"

lemma set_update_new: "map_of m k = None \<Longrightarrow> AList.update k v m = m @ [(k, v)]"
  by (induction m) auto

lemma update_same: "distinct (map fst m) \<Longrightarrow> map_of m k = Some v \<Longrightarrow> AList.update k v m = m"
  by (induction m) (auto split: if_splits)

lemma merged_assets:
  assumes "merge_assets conflict m as = Inr out" "assets_by_path m"
  obtains m' where "out = map snd m'" "assets_by_path m'" "set out = snd ` set m \<union> set as"
  using assms
proof (induction as arbitrary: m thesis)
  case Nil
  then show ?case by auto
next
  case (Cons a as)
  show ?case
  proof (cases "map_of m (wa_path a)")
    case None
    let ?m = "m @ [(wa_path a, a)]"
    have "assets_by_path ?m" using Cons.prems(3) None by (auto simp: assets_by_path_def map_of_eq_None_iff)
    moreover have "merge_assets conflict ?m as = Inr out" using Cons.prems(2) None by (simp add: set_update_new)
    ultimately obtain m' where "out = map snd m'" "assets_by_path m'" "set out = snd ` set ?m \<union> set as"
      using Cons.IH [of ?m] by metis
    then show ?thesis using Cons.prems(1) by auto
  next
    case (Some b)
    then have b: "b = a" "merge_assets conflict m as = Inr out" "a \<in> snd ` set m"
      using Cons.prems(2,3) map_of_SomeD [OF Some] by (auto simp: update_same assets_by_path_def split: if_splits intro: rev_image_eqI)
    then obtain m' where "out = map snd m'" "assets_by_path m'" "set out = snd ` set m \<union> set as"
      using Cons.IH [of m] Cons.prems(3) by metis
    moreover have "snd ` set m \<union> set (a # as) = snd ` set m \<union> set as" using b(3) by auto
    ultimately show ?thesis using Cons.prems(1) by metis
  qed
qed

text \<open>Every asset of every registered widget is served under its path, and nothing else is.\<close>

lemma widget_assets_served:
  assumes "collectWidgetAssets definitions = Inr assets"
  shows "widgetAssetByPath assets path = Some a \<longleftrightarrow> (\<exists>w\<in>set definitions. a \<in> set (wd_assets w)) \<and> wa_path a = path"
proof -
  obtain m where m: "assets = map snd m" "assets_by_path m" "set assets = (\<Union>w\<in>set definitions. set (wd_assets w))"
    using merged_assets [OF assms [unfolded collectWidgetAssets_def]] by (auto simp: assets_by_path_def)
  have "map wa_path assets = map fst m" using m(1,2) by (auto simp: assets_by_path_def)
  then have distinct: "distinct (map wa_path assets)" using m(2) by (simp add: assets_by_path_def)
  have "List.find (\<lambda>x. wa_path x = path) assets = Some a \<longleftrightarrow> a \<in> set assets \<and> wa_path a = path"
    using distinct by (induction assets) (auto simp: image_iff)
  then show ?thesis by (simp add: widgetAssetByPath_def m(3))
qed

end
