(* ===== verification/Mcp_Cards.thy ===== *)
theory Mcp_Cards
  imports Mcp_Widgets
begin

text \<open>
  The card that shows the result of a tool (\<open>widgets/tool-result-card.ts\<close> with its types, validation,
  rendering and base), and the two cards of the service (\<open>widgets/health-status-card.ts\<close>,
  \<open>widgets/profile-summary-card.ts\<close>) with their registry (\<open>widgets/index.ts\<close>).  The facts show that no text of a card becomes markup: a
  text is harmless when nothing that follows it can make a script or style element of it.
\<close>

section \<open>Cards of tool results\<close>

datatype field_format = Format_text | Format_verified

record card_field =
  cf_label :: string
  cf_id :: string
  cf_path :: string
  cf_fallback :: string
  cf_format :: "field_format option"

record card_theme =
  th_pageBackground :: string
  th_cardBackground :: string
  th_borderColor :: string
  th_textColor :: string
  th_mutedColor :: string
  th_accentColor :: string
  th_accentTextColor :: string

record card_header =
  ch_eyebrow :: "string option"
  ch_title :: string
  ch_titlePath :: "string option"
  ch_titleFallback :: "string option"
  ch_subtitle :: "string option"
  ch_subtitlePath :: "string option"
  ch_subtitleFallback :: "string option"
  ch_avatarPath :: "string option"
  ch_avatarFallback :: "string option"

record card_status =
  ct_path :: string
  ct_fallback :: string
  ct_okValue :: string
  ct_okSummary :: string
  ct_waitingSummary :: string

record card_csp =
  cc_connectDomains :: "string list option"
  cc_resourceDomains :: "string list option"
  cc_frameDomains :: "string list option"
  cc_redirectDomains :: "string list option"

record card_options =
  co_resourceUri :: string
  co_name :: string
  co_title :: string
  co_description :: string
  co_widgetDescription :: string
  co_stylePath :: string
  co_scriptPath :: string
  co_requiredScopes :: "string list option"
  co_csp :: "card_csp option"
  co_theme :: card_theme
  co_header :: card_header
  co_status :: "card_status option"
  co_fields :: "card_field list"

definition isHtmlId :: "string \<Rightarrow> bool" where
  "isHtmlId s = (s \<noteq> [] \<and> length s \<le> 64 \<and> is_letter (hd s) \<and> list_all (\<lambda>c. is_word_char c \<or> c = CHR ''-'') (tl s))"

definition isDataPath :: "string \<Rightarrow> bool" where
  "isDataPath s = list_all (is_word is_word_char) (split_on (CHR ''.'') s)"

definition isText :: "string \<Rightarrow> bool" where "isText s = (s \<noteq> [] \<and> length s \<le> 240)"

definition opens_url :: "string \<Rightarrow> bool" where
  "opens_url s = (to_lower (take 3 s) = ''url'' \<and> (case dropWhile is_ws (drop 3 s) of [] \<Rightarrow> False | c # cs \<Rightarrow> c = CHR ''(''))"

definition isCssValue :: "string \<Rightarrow> bool" where
  "isCssValue s = (isText s \<and> list_all (\<lambda>c. is_alnum c \<or> List.member ''#(),.% /-'' c) s \<and> \<not> anywhere opens_url s)"

definition theme_values :: "card_theme \<Rightarrow> string list" where
  "theme_values t = [th_pageBackground t, th_cardBackground t, th_borderColor t, th_textColor t, th_mutedColor t, th_accentColor t, th_accentTextColor t]"

definition optional_path :: "string option \<Rightarrow> bool" where
  "optional_path value = (case value of None \<Rightarrow> True | Some s \<Rightarrow> isDataPath s)"

definition invalidToolResultCard :: js_error where
  "invalidToolResultCard = ServiceError Server_error ''invalid tool result card widget'' 500"

definition validateToolResultCardOptions :: "card_options \<Rightarrow> unit outcome" where
  "validateToolResultCardOptions opts = (let header = co_header opts in
     if co_fields opts = [] then Inl invalidToolResultCard
     else if \<not> list_all (\<lambda>f. isHtmlId (cf_id f) \<and> isDataPath (cf_path f) \<and> isText (cf_label f) \<and> isText (cf_fallback f)) (co_fields opts)
       \<or> \<not> distinct (map cf_id (co_fields opts)) then Inl invalidToolResultCard
     else if \<not> optional_path (ch_titlePath header) \<or> \<not> optional_path (ch_subtitlePath header) \<or> \<not> optional_path (ch_avatarPath header)
       then Inl invalidToolResultCard
     else if (case co_status opts of None \<Rightarrow> False | Some t \<Rightarrow> \<not> isDataPath (ct_path t) \<or> \<not> isText (ct_fallback t) \<or> \<not> isText (ct_okValue t) \<or>
         \<not> isText (ct_okSummary t) \<or> \<not> isText (ct_waitingSummary t)) then Inl invalidToolResultCard
     else if \<not> list_all isCssValue (theme_values (co_theme opts)) then Inl invalidToolResultCard
     else Inr ())"

definition escape_html_char :: "char \<Rightarrow> string" where
  "escape_html_char c = (if c = CHR ''&'' then ''&amp;'' else if c = CHR ''<'' then ''&lt;'' else if c = CHR ''>'' then ''&gt;''
     else if c = dquote then ''&quot;'' else [c])"

text \<open>The four replacements in their order are one, because the first is that of the ampersand.\<close>

definition escapeHtml :: "string \<Rightarrow> string" where
  "escapeHtml s = concat (map escape_html_char s)"

definition themeCss :: "card_theme \<Rightarrow> string" where
  "themeCss t = trim (join_with string_newline ([[], '':root {''] @
     map (\<lambda>(name, v). ''  --widget-'' @ name @ '': '' @ v @ '';'')
       (zip [''page-background'', ''card-background'', ''border-color'', ''text-color'', ''muted-color'', ''accent-color'', ''accent-text-color'']
         (theme_values t)) @ [''}'', []]))"


text \<open>A template literal over several lines.\<close>

definition template :: "string list \<Rightarrow> string" where
  "template ls = join_with string_newline ls"

definition otherwise :: "'a option \<Rightarrow> 'a \<Rightarrow> 'a" where
  "otherwise v d = (case v of None \<Rightarrow> d | Some x \<Rightarrow> x)"

definition is_truthy :: "string option \<Rightarrow> bool" where
  "is_truthy v = (v \<noteq> None \<and> v \<noteq> Some [])"

definition field_markup :: "card_field \<Rightarrow> string" where \<open>
  field_markup f = ''<dt>'' @ escapeHtml (cf_label f) @ ''</dt><dd id="'' @ escapeHtml (cf_id f) @ ''">'' @ escapeHtml (cf_fallback f) @ ''</dd>''\<close>

definition status_markup :: "card_status \<Rightarrow> string" where \<open>
  status_markup t = ''<p class="widget-status"><span class="widget-dot"></span><span id="status">'' @ escapeHtml (ct_fallback t) @
    ''</span></p><p class="widget-subtitle" id="summary">'' @ escapeHtml (ct_waitingSummary t) @ ''</p>''\<close>

definition cardMarkup :: "card_options \<Rightarrow> string" where \<open>
  cardMarkup opts = (let header = co_header opts in template [[], ''<main class="widget-page">'', ''  <section class="widget-card">'',
    ''    '' @ (if is_truthy (ch_avatarPath header)
      then ''<div class="widget-avatar" id="avatar">'' @ escapeHtml (otherwise (ch_avatarFallback header) ''?'') @ ''</div>'' else []),
    ''    '' @ (if is_truthy (ch_eyebrow header)
      then ''<p class="widget-eyebrow">'' @ escapeHtml (otherwise (ch_eyebrow header) []) @ ''</p>'' else []),
    ''    <h1 class="widget-title" id="title">'' @ escapeHtml (ch_title header) @ ''</h1>'',
    ''    <p class="widget-subtitle" id="subtitle">'' @
      escapeHtml (otherwise (ch_subtitle header) (otherwise (ch_subtitleFallback header) [])) @ ''</p>'',
    ''    '' @ (case co_status opts of None \<Rightarrow> [] | Some t \<Rightarrow> status_markup t),
    ''    <dl class="widget-fields">'',
    ''      '' @ join_with (string_newline @ ''      '') (map field_markup (co_fields opts)),
    ''    </dl>'', ''  </section>'', ''</main>'', []])\<close>

definition status_config :: "card_status \<Rightarrow> json" where
  "status_config t = JObj [(''path'', JStr (ct_path t)), (''fallback'', JStr (ct_fallback t)), (''okValue'', JStr (ct_okValue t)),
     (''okSummary'', JStr (ct_okSummary t)), (''waitingSummary'', JStr (ct_waitingSummary t))]"

definition format_name :: "field_format \<Rightarrow> string" where
  "format_name f = (case f of Format_text \<Rightarrow> ''text'' | Format_verified \<Rightarrow> ''verified'')"

definition field_config :: "card_field \<Rightarrow> json" where
  "field_config f = JObj ([(''label'', JStr (cf_label f)), (''id'', JStr (cf_id f)), (''path'', JStr (cf_path f)),
     (''fallback'', JStr (cf_fallback f))] @ present ''format'' (JStr \<circ> format_name) (cf_format f))"

definition rendererConfig :: "card_options \<Rightarrow> js_object" where
  "rendererConfig opts = (let header = co_header opts in
     [(''header'', JObj [(''title'', JStr (otherwise (ch_titleFallback header) (ch_title header))),
        (''titlePath'', JStr (otherwise (ch_titlePath header) [])),
        (''subtitle'', JStr (otherwise (ch_subtitleFallback header) (otherwise (ch_subtitle header) []))),
        (''subtitlePath'', JStr (otherwise (ch_subtitlePath header) [])),
        (''avatarPath'', JStr (otherwise (ch_avatarPath header) [])),
        (''avatarFallback'', JStr (otherwise (ch_avatarFallback header) ''?''))])] @
     present ''status'' status_config (co_status opts) @ [(''fields'', JArr (map field_config (co_fields opts)))])"

definition renderer_lines :: "string list" where \<open>
  renderer_lines = [
     ''  const widget = globalThis.mcpWidget;'',
     ''  function text(value, fallback) {'',
     ''    return typeof value === "string" && value.trim() ? value : fallback;'',
     ''  }'',
     ''  function formatted(value, field) {'',
     ''    if (field.format === "verified") return value === true ? "Verified" : field.fallback;'',
     ''    return text(value, field.fallback);'',
     ''  }'',
     ''  function render(data) {'',
     ''    const source = data && typeof data === "object" ? data : {};'',
     ''    if (config.header.avatarPath) {'',
     ''      const name = text(widget.valueAt(source, config.header.avatarPath), config.header.avatarFallback);'',
     ''      widget.setText("#avatar", name.trim().charAt(0).toUpperCase() || "?");'',
     ''    }'',
     ''    widget.setText("#title", text(widget.valueAt(source, config.header.titlePath), config.header.title));'',
     ''    widget.setText("#subtitle", text(widget.valueAt(source, config.header.subtitlePath), config.header.subtitle));'',
     ''    if (config.status) {'',
     ''      const status = text(widget.valueAt(source, config.status.path), config.status.fallback);'',
     ''      widget.setText("#status", status);'',
     ''      widget.setText("#summary", status === config.status.okValue ? config.status.okSummary : config.status.waitingSummary);'',
     ''    }'',
     ''    for (const field of config.fields) {'',
     ''      widget.setText("#" + field.id, formatted(widget.valueAt(source, field.path), field));'',
     ''    }'',
     ''  }'',
     ''  widget.onToolResult(render);'',
     ''}());'', []]\<close>

definition rendererScript :: "card_options \<Rightarrow> string" where
  "rendererScript opts = trim (template ([[], ''(function () {'',
     ''  const config = '' @ json_text (JObj (rendererConfig opts)) @ '';''] @ renderer_lines))"

section \<open>The base of the cards\<close>

definition widgetBridgeScriptPath :: string where "widgetBridgeScriptPath = ''/app-ui/mcp-widget-bridge-v2.js''"

definition toolResultCardBaseStylePath :: string where "toolResultCardBaseStylePath = ''/app-ui/tool-result-card-base-v1.css''"

definition base_style_lines :: "string list" where \<open>
  base_style_lines = [[], '':root { color-scheme: light; font-family: ui-sans-serif, system-ui, sans-serif; }'',
     ''body { margin: 0; background: var(--widget-page-background); color: var(--widget-text-color); }'',
     ''.widget-page { min-height: 100vh; box-sizing: border-box; padding: 24px; display: grid; place-items: center; }'',
     ''.widget-card { width: min(100%, 520px); border: 1px solid var(--widget-border-color); border-radius: 24px; background: var(--widget-card-background); box-shadow: 0 22px 60px rgb(21 34 47 / 14%); padding: 24px; }'',
     ''.widget-eyebrow { color: var(--widget-muted-color); font-size: 12px; font-weight: 700; letter-spacing: .12em; text-transform: uppercase; margin: 0; }'',
     ''.widget-avatar { width: 64px; height: 64px; border-radius: 22px; display: grid; place-items: center; background: var(--widget-accent-color); color: var(--widget-accent-text-color); font-size: 28px; font-weight: 800; margin-bottom: 18px; }'',
     ''.widget-title { margin: 12px 0 8px; font-size: clamp(28px, 7vw, 44px); line-height: .95; letter-spacing: -.05em; }'',
     ''.widget-subtitle { margin: 0; color: var(--widget-muted-color); }'',
     ''.widget-status { display: inline-flex; align-items: center; gap: 8px; margin-top: 18px; border-radius: 999px; background: var(--widget-accent-color); color: var(--widget-accent-text-color); padding: 10px 14px; font-weight: 700; }'',
     ''.widget-dot { width: 10px; height: 10px; border-radius: 999px; background: currentColor; box-shadow: 0 0 0 6px rgb(255 255 255 / 18%); }'',
     ''.widget-fields { display: grid; grid-template-columns: auto 1fr; gap: 10px 16px; margin: 24px 0 0; font-size: 14px; }'',
     ''.widget-fields dt { color: var(--widget-muted-color); }'',
     ''.widget-fields dd { margin: 0; font-weight: 700; overflow-wrap: anywhere; }'', []]\<close>

definition bridge_script_lines :: "string list" where \<open>
  bridge_script_lines = [[], ''(function () {'',
     ''  function valueAt(source, path) {'',
     ''    return path.split(".").reduce(function (value, key) {'',
     ''      return value && typeof value === "object" ? value[key] : undefined;'',
     ''    }, source);'',
     ''  }'',
     ''  function setText(selector, value) {'',
     ''    const element = document.querySelector(selector);'',
     ''    if (element) element.textContent = value;'',
     ''  }'',
     ''  function initialData() {'',
     ''    return dataFromBridge(globalThis.openai) ?? {};'',
     ''  }'',
     ''  function dataFromBridge(bridge) {'',
     ''    if (!bridge || typeof bridge !== "object") return undefined;'',
     ''    return objectData(bridge.toolOutput) ?? objectData(bridge.structuredContent) ?? objectData(bridge.toolResponseMetadata?.mcp_tool_result?.structuredContent) ?? objectData(bridge.toolResponseMetadata?.call_tool_result?.structuredContent);'',
     ''  }'',
     ''  function objectData(value) {'',
     ''    return value && typeof value === "object" && !Array.isArray(value) ? value : undefined;'',
     ''  }'',
     ''  function renderData(render, value) {'',
     ''    render(objectData(value) ?? {});'',
     ''  }'',
     ''  function onToolResult(render) {'',
     ''    renderData(render, initialData());'',
     ''    window.addEventListener("openai:set_globals", function (event) {'',
     ''      const data = dataFromBridge(event.detail?.globals);'',
     ''      if (data) render(data);'',
     ''    }, { passive: true });'',
     ''    window.addEventListener("message", function (event) {'',
     ''      if (event.source !== window.parent) return;'',
     ''      const message = event.data;'',
     ''      if (!message || message.jsonrpc !== "2.0") return;'',
     ''      if (message.method !== "ui/notifications/tool-result") return;'',
     ''      renderData(render, message.params?.structuredContent);'',
     ''    }, { passive: true });'',
     ''  }'',
     ''  globalThis.mcpWidget = { onToolResult, setText, valueAt };'',
     ''}());'', []]\<close>

definition toolResultCardBase :: "widget_base outcome" where
  "toolResultCardBase = defineWidgetBase
     (Some [styleAsset toolResultCardBaseStylePath (trim (template base_style_lines)),
        scriptAsset widgetBridgeScriptPath (trim (template bridge_script_lines))])
     (Some \<lparr> aw_description = None, aw_prefersBorder = Some True, aw_domain = None,
        aw_csp = Some \<lparr> cs_connectDomains = [], cs_resourceDomains = [], cs_frameDomains = None, cs_redirectDomains = None \<rparr>, aw_ui = None \<rparr>)"

section \<open>Definition of a card\<close>

definition csp_domains :: "(card_csp \<Rightarrow> string list option) \<Rightarrow> card_csp option \<Rightarrow> string list option" where
  "csp_domains part csp = (case csp of None \<Rightarrow> None | Some c \<Rightarrow> part c)"

definition card_widget :: "card_options \<Rightarrow> app_widget" where
  "card_widget opts = \<lparr> aw_description = Some (co_widgetDescription opts), aw_prefersBorder = None, aw_domain = None,
     aw_csp = Some \<lparr> cs_connectDomains = otherwise (csp_domains cc_connectDomains (co_csp opts)) [],
       cs_resourceDomains = otherwise (csp_domains cc_resourceDomains (co_csp opts)) [],
       cs_frameDomains = csp_domains cc_frameDomains (co_csp opts), cs_redirectDomains = csp_domains cc_redirectDomains (co_csp opts) \<rparr>,
     aw_ui = None \<rparr>"

definition defineToolResultCardWidget :: "url_parser \<Rightarrow> card_options \<Rightarrow> ('k, 'p) widget_definition outcome" where
  "defineToolResultCardWidget parse_url opts = bindr toolResultCardBase (\<lambda>base.
     bindr (validateToolResultCardOptions opts) (\<lambda>_.
     defineWidget parse_url \<lparr> wo_base = Some base, wo_resourceUri = co_resourceUri opts, wo_name = co_name opts, wo_title = co_title opts,
       wo_description = co_description opts, wo_markup = cardMarkup opts,
       wo_assets = [styleAsset (co_stylePath opts) (themeCss (co_theme opts)), scriptAsset (co_scriptPath opts) (rendererScript opts)],
       wo_requiredScopes = co_requiredScopes opts, wo_widget = Some (card_widget opts) \<rparr>))"

section \<open>The cards of the service\<close>

definition health_status_options :: card_options where
  "health_status_options = \<lparr> co_resourceUri = healthStatusCardUri, co_name = ''health-status-card'', co_title = ''Health Status Card'',
     co_description = ''Renderable UI resource for service health.'',
     co_widgetDescription = ''Shows the current MCP service health result.'',
     co_stylePath = ''/app-ui/health-status-card-v1.css'', co_scriptPath = ''/app-ui/health-status-card-v1.js'',
     co_requiredScopes = None, co_csp = None,
     co_theme = \<lparr> th_pageBackground = ''#f6f1e8'', th_cardBackground = ''linear-gradient(135deg, #fffaf0, #e8f3ed)'',
       th_borderColor = ''#d6c8b4'', th_textColor = ''#1f2933'', th_mutedColor = ''#6b7280'', th_accentColor = ''#173f35'',
       th_accentTextColor = ''#f8f3e8'' \<rparr>,
     co_header = \<lparr> ch_eyebrow = Some ''MCP Service'', ch_title = ''Health status'', ch_titlePath = None, ch_titleFallback = None,
       ch_subtitle = Some ''The service status card is ready.'', ch_subtitlePath = None, ch_subtitleFallback = None,
       ch_avatarPath = None, ch_avatarFallback = None \<rparr>,
     co_status = Some \<lparr> ct_path = ''status'', ct_fallback = ''ready'', ct_okValue = ''ok'',
       ct_okSummary = ''The MCP endpoint is reachable and returning live status data.'',
       ct_waitingSummary = ''The component is mounted and waiting for a live tool result.'' \<rparr>,
     co_fields = [
       \<lparr> cf_label = ''Service'', cf_id = ''service'', cf_path = ''service.name'', cf_fallback = ''gpt-mcp-service'', cf_format = None \<rparr>,
       \<lparr> cf_label = ''Timestamp'', cf_id = ''timestamp'', cf_path = ''timestamp'', cf_fallback = ''Waiting for tool data'', cf_format = None \<rparr>] \<rparr>"

definition profile_summary_options :: card_options where
  "profile_summary_options = \<lparr> co_resourceUri = profileSummaryCardUri, co_name = ''profile-summary-card'', co_title = ''Profile Summary Card'',
     co_description = ''Renderable UI resource for the authenticated identity profile.'',
     co_widgetDescription = ''Shows the authenticated OpenID Connect profile returned by the service.'',
     co_stylePath = ''/app-ui/profile-summary-card-v1.css'', co_scriptPath = ''/app-ui/profile-summary-card-v1.js'',
     co_requiredScopes = Some defaultScopes, co_csp = None,
     co_theme = \<lparr> th_pageBackground = ''#eef4f8'', th_cardBackground = ''linear-gradient(145deg, #ffffff, #dcecf4)'',
       th_borderColor = ''#bfd3e0'', th_textColor = ''#15222f'', th_mutedColor = ''#52616e'', th_accentColor = ''#0f766e'',
       th_accentTextColor = ''white'' \<rparr>,
     co_header = \<lparr> ch_eyebrow = None, ch_title = ''Authenticated user'', ch_titlePath = Some ''name'',
       ch_titleFallback = Some ''Authenticated user'', ch_subtitle = None, ch_subtitlePath = Some ''email'',
       ch_subtitleFallback = Some ''Waiting for profile data'', ch_avatarPath = Some ''name'', ch_avatarFallback = Some ''?'' \<rparr>,
     co_status = None,
     co_fields = [
       \<lparr> cf_label = ''Subject'', cf_id = ''subject'', cf_path = ''sub'', cf_fallback = ''Unavailable'', cf_format = None \<rparr>,
       \<lparr> cf_label = ''Username'', cf_id = ''username'', cf_path = ''preferred_username'', cf_fallback = ''Unavailable'', cf_format = None \<rparr>,
       \<lparr> cf_label = ''Email status'', cf_id = ''verified'', cf_path = ''email_verified'', cf_fallback = ''Unavailable'',
         cf_format = Some Format_verified \<rparr>] \<rparr>"

definition healthStatusCardWidget :: "url_parser \<Rightarrow> ('k, 'p) widget_definition outcome" where
  "healthStatusCardWidget parse_url = defineToolResultCardWidget parse_url health_status_options"

definition profileSummaryCardWidget :: "url_parser \<Rightarrow> ('k, 'p) widget_definition outcome" where
  "profileSummaryCardWidget parse_url = defineToolResultCardWidget parse_url profile_summary_options"

text \<open>What the module \<open>widgets/index.ts\<close> computes when it is loaded: the widgets, their resources and their assets.\<close>

definition service_widgets ::
  "url_parser \<Rightarrow> (('k, 'p) widget_definition list \<times> ('k, 'p) mcp_resource list \<times> widget_asset list) outcome" where
  "service_widgets parse_url = bindr (healthStatusCardWidget parse_url) (\<lambda>health. bindr (profileSummaryCardWidget parse_url) (\<lambda>profile.
     let widgets = [health, profile] in
     bindr (collectWidgetAssets widgets) (\<lambda>assets. Inr (widgets, map wd_resource widgets, assets))))"

section \<open>Facts\<close>

text \<open>An escaped text opens no element and ends no attribute.\<close>

lemma escaped_text_inert: "c \<in> set (escapeHtml s) \<Longrightarrow> c \<noteq> CHR ''<'' \<and> c \<noteq> CHR ''>'' \<and> c \<noteq> dquote"
proof -
  have quote: "dquote = CHR 0x22" by code_simp
  have "c \<noteq> CHR ''<'' \<and> c \<noteq> CHR ''>'' \<and> c \<noteq> dquote" if "c \<in> set (escape_html_char d)" for d
    using that unfolding escape_html_char_def quote by (auto split: if_splits)
  then show "c \<in> set (escapeHtml s) \<Longrightarrow> c \<noteq> CHR ''<'' \<and> c \<noteq> CHR ''>'' \<and> c \<noteq> dquote"
    by (auto simp: escapeHtml_def)
qed

text \<open>The symbols that make markup of a text.\<close>

definition markup_char :: "char \<Rightarrow> bool" where
  "markup_char c = (c = CHR ''<'' \<or> c = CHR ''>'' \<or> c = dquote)"

text \<open>Which parts a card has, and how many fields.\<close>

definition card_shape :: "card_options \<Rightarrow> bool \<times> bool \<times> bool \<times> nat" where
  "card_shape opts = (is_truthy (ch_avatarPath (co_header opts)), is_truthy (ch_eyebrow (co_header opts)),
     co_status opts \<noteq> None, length (co_fields opts))"

lemma dquote_eq: "dquote = CHR 0x22"
  by code_simp

lemma no_markup_escaped [simp]: "filter markup_char (escapeHtml s) = []"
  using escaped_text_inert [of _ s] by (auto simp: markup_char_def filter_empty_conv)

lemma filter_join [simp]: "filter p (join_with sep (w # ws)) = filter p w @ concat (map (\<lambda>v. filter p sep @ filter p v) ws)"
  by (induction ws arbitrary: w) auto

lemma concat_const: "concat (map (\<lambda>x. c) xs) = concat (replicate (length xs) c)"
  by (induction xs) auto

lemma markup_blank [simp]: "filter markup_char string_newline = []" "\<not> markup_char (CHR '' '')"
  by (code_simp, simp add: markup_char_def dquote_eq)

definition status_skeleton :: string where
  "status_skeleton = filter markup_char (status_markup \<lparr> ct_path = [], ct_fallback = [], ct_okValue = [], ct_okSummary = [], ct_waitingSummary = [] \<rparr>)"

definition field_skeleton :: string where
  "field_skeleton = filter markup_char (field_markup \<lparr> cf_label = [], cf_id = [], cf_path = [], cf_fallback = [], cf_format = None \<rparr>)"

lemma status_markup_skeleton [simp]: "filter markup_char (status_markup t) = status_skeleton"
  by (simp only: status_markup_def status_skeleton_def filter_append no_markup_escaped)

lemma field_markup_skeleton [simp]: "filter markup_char (field_markup f) = field_skeleton"
  by (simp only: field_markup_def field_skeleton_def filter_append no_markup_escaped)

lemma fields_skeleton:
  "filter markup_char (join_with (string_newline @ ''      '') (map field_markup fs)) = concat (replicate (length fs) field_skeleton)"
  by (cases fs) (simp_all add: comp_def concat_const)

lemma card_skeleton:
  assumes "card_shape a = card_shape b"
  shows "filter markup_char (cardMarkup a) = filter markup_char (cardMarkup b)"
proof -
  have shape: "is_truthy (ch_avatarPath (co_header a)) = is_truthy (ch_avatarPath (co_header b))"
    "is_truthy (ch_eyebrow (co_header a)) = is_truthy (ch_eyebrow (co_header b))"
    "co_status a = None \<longleftrightarrow> co_status b = None" "length (co_fields a) = length (co_fields b)"
    using assms by (auto simp: card_shape_def)
  have status: "filter markup_char (case co_status a of None \<Rightarrow> [] | Some t \<Rightarrow> status_markup t) =
      filter markup_char (case co_status b of None \<Rightarrow> [] | Some t \<Rightarrow> status_markup t)"
    using shape(3) by (auto split: option.splits)
  show ?thesis
    unfolding cardMarkup_def Let_def template_def filter_join list.map concat.simps filter_append no_markup_escaped
      status fields_skeleton shape(1,2,4) if_distrib [of "filter markup_char"]
    by (rule refl)
qed

text \<open>A text that opens no script or style element, however it goes on.\<close>

definition opens_active :: "string \<Rightarrow> bool" where
  "opens_active s = (\<exists>b c r. s = CHR ''<'' # b # c # r \<and> (b = CHR ''s'' \<or> b = CHR ''S'') \<and> (c = CHR ''c'' \<or> c = CHR ''C'' \<or> c = CHR ''t'' \<or> c = CHR ''T''))"

lemma opens_active_lt: "a \<noteq> CHR ''<'' \<Longrightarrow> \<not> opens_active (a # s)"
  by (simp add: opens_active_def)

definition harmless :: "string \<Rightarrow> bool" where
  "harmless s = (\<forall>t. anywhere opens_active (s @ t) \<longrightarrow> anywhere opens_active t)"

lemma anywhere_Cons: "anywhere p (c # s) \<longleftrightarrow> p (c # s) \<or> anywhere p s"
  by (auto simp: anywhere_def list_ex_iff)

lemma harmlessI: "(\<And>t. anywhere opens_active (s @ t) \<Longrightarrow> anywhere opens_active t) \<Longrightarrow> harmless s"
  unfolding harmless_def by blast

lemma harmlessD: "harmless s \<Longrightarrow> anywhere opens_active (s @ t) \<Longrightarrow> anywhere opens_active t"
  unfolding harmless_def by blast

lemma harmless_Nil: "harmless []"
  by (rule harmlessI) simp

lemma harmless_append: "harmless s \<Longrightarrow> harmless t \<Longrightarrow> harmless (s @ t)"
  by (rule harmlessI) (simp, blast dest: harmlessD)

lemma harmless_Cons: "c \<noteq> CHR ''<'' \<Longrightarrow> harmless s \<Longrightarrow> harmless (c # s)"
  by (rule harmlessI) (simp add: anywhere_Cons opens_active_lt, blast dest: harmlessD)

lemma harmless_tag:
  assumes "harmless (b # c # s)"
    "\<not> ((b = CHR ''s'' \<or> b = CHR ''S'') \<and> (c = CHR ''c'' \<or> c = CHR ''C'' \<or> c = CHR ''t'' \<or> c = CHR ''T''))"
  shows "harmless (CHR ''<'' # b # c # s)"
proof (rule harmlessI)
  fix t assume *: "anywhere opens_active ((CHR ''<'' # b # c # s) @ t)"
  have "\<not> opens_active (CHR ''<'' # b # c # s @ t)" using assms(2) by (auto simp: opens_active_def)
  then have "anywhere opens_active ((b # c # s) @ t)"
    using * anywhere_Cons [of opens_active "CHR ''<''" "(b # c # s) @ t"] by simp
  then show "anywhere opens_active t" by (rule harmlessD [OF assms(1)])
qed

text \<open>The same, computed.\<close>

fun quiet :: "string \<Rightarrow> bool" where
  "quiet [] = True"
| "quiet (a # s) = (quiet s \<and> (a = CHR ''<'' \<longrightarrow> (case s of
     b # c # r \<Rightarrow> \<not> ((b = CHR ''s'' \<or> b = CHR ''S'') \<and> (c = CHR ''c'' \<or> c = CHR ''C'' \<or> c = CHR ''t'' \<or> c = CHR ''T'')) | _ \<Rightarrow> False)))"

lemma quiet_harmless: "quiet s \<Longrightarrow> harmless s"
proof (induction s)
  case (Cons a s)
  then have s: "harmless s" by simp
  show ?case
  proof (cases "a = CHR ''<''")
    case True
    then obtain b c r where r: "s = b # c # r" using Cons.prems by (cases s; cases "tl s") auto
    show ?thesis using Cons.prems s unfolding True r by (intro harmless_tag) simp_all
  qed (rule harmless_Cons [OF _ s])
qed (rule harmless_Nil)

lemma harmless_plain: "CHR ''<'' \<notin> set s \<Longrightarrow> harmless s"
  by (induction s) (auto intro: harmless_Nil harmless_Cons)

lemma harmless_escaped: "harmless (escapeHtml s)"
  using escaped_text_inert by (intro harmless_plain) metis

lemma harmless_join: "harmless sep \<Longrightarrow> \<forall>w\<in>set ws. harmless w \<Longrightarrow> harmless (join_with sep ws)"
  by (induction sep ws rule: join_with.induct) (auto intro: harmless_Nil harmless_append)

lemmas harmless_text = harmless_Nil harmless_append harmless_Cons harmless_tag harmless_escaped

lemma lower_cases:
  assumes "to_lower_char c = d" "code d < 192"
  shows "c = d \<or> 65 \<le> code c \<and> c = char_of (code d - 32)"
proof (cases "c = d")
  case False
  then have c: "65 \<le> code c" "code c \<le> 222" "char_of (code c + 32) = d"
    using assms(1) by (auto simp: to_lower_char_def is_upper_def split: if_splits)
  have "code (char_of (code c + 32) :: char) = code c + 32" using c(2) by simp
  then have "code d = code c + 32" by (simp only: c(3))
  then have "code c = code d - 32" by simp
  then show ?thesis using c(1) by (metis char_of_char)
qed simp

lemma upper_letters:
  "char_of (code CHR ''s'' - 32) = CHR ''S''" "char_of (code CHR ''c'' - 32) = CHR ''C''" "char_of (code CHR ''t'' - 32) = CHR ''T''"
  "char_of (code CHR ''o'' - 32) = CHR ''O''" "char_of (code CHR ''<'' - 32) = CHR 0x1C"
  by code_simp+

lemma lower_letter:
  "to_lower_char c = CHR ''s'' \<Longrightarrow> c = CHR ''s'' \<or> c = CHR ''S''" "to_lower_char c = CHR ''c'' \<Longrightarrow> c = CHR ''c'' \<or> c = CHR ''C''"
  "to_lower_char c = CHR ''t'' \<Longrightarrow> c = CHR ''t'' \<or> c = CHR ''T''" "to_lower_char c = CHR ''o'' \<Longrightarrow> c = CHR ''o'' \<or> c = CHR ''O''"
  "to_lower_char c = CHR ''<'' \<Longrightarrow> c = CHR ''<''"
proof -
  show "c = CHR ''s'' \<or> c = CHR ''S''" if "to_lower_char c = CHR ''s''"
    using lower_cases [OF that] unfolding upper_letters by simp blast
  show "c = CHR ''c'' \<or> c = CHR ''C''" if "to_lower_char c = CHR ''c''"
    using lower_cases [OF that] unfolding upper_letters by simp blast
  show "c = CHR ''t'' \<or> c = CHR ''T''" if "to_lower_char c = CHR ''t''"
    using lower_cases [OF that] unfolding upper_letters by simp blast
  show "c = CHR ''o'' \<or> c = CHR ''O''" if "to_lower_char c = CHR ''o''"
    using lower_cases [OF that] unfolding upper_letters by simp blast
  assume "to_lower_char c = CHR ''<''"
  then have "c = CHR ''<'' \<or> 65 \<le> code c \<and> c = CHR 0x1C" using lower_cases [of c "CHR ''<''"] unfolding upper_letters by simp
  then show "c = CHR ''<''" by auto
qed

lemma active_element:
  assumes "opens_element tag s" "tag = CHR ''<'' # CHR ''s'' # d # tag'" "d = CHR ''c'' \<or> d = CHR ''t''"
  shows "opens_active s"
proof -
  have "to_lower (take (length tag) s) = tag" using assms(1) by (simp add: opens_element_def)
  then have "map to_lower_char (take (length tag) s) = CHR ''<'' # CHR ''s'' # d # tag'" by (simp only: to_lower_def assms(2))
  then obtain a b c r where s: "take (length tag) s = a # b # c # r" "to_lower_char a = CHR ''<''" "to_lower_char b = CHR ''s''" "to_lower_char c = d"
    by (auto simp: map_eq_Cons_conv)
  then have "s = a # b # c # r @ drop (length tag) s" by (metis append_Cons append_take_drop_id)
  then show ?thesis using s assms(3) lower_letter unfolding opens_active_def by metis
qed

lemma harmless_opens_none:
  assumes "harmless s" shows "\<not> anywhere (opens_element ''<script'') s" "\<not> anywhere (opens_element ''<style'') s"
proof -
  have "opens_active t" if "opens_element ''<script'' t \<or> opens_element ''<style'' t" for t
    using that active_element by blast
  moreover have "\<not> anywhere opens_active s" using harmlessD [OF assms, of "[]"] by (auto simp: anywhere_def opens_active_def)
  ultimately show "\<not> anywhere (opens_element ''<script'') s" "\<not> anywhere (opens_element ''<style'') s"
    by (auto simp: anywhere_def list_ex_iff)
qed

lemma harmless_newline: "harmless string_newline"
  by (rule quiet_harmless) code_simp

lemma harmless_status: "harmless (status_markup t)"
  unfolding status_markup_def
  by (intro harmless_append harmless_escaped; rule quiet_harmless; simp)

lemma harmless_field: "harmless (field_markup f)"
  unfolding field_markup_def
  by (intro harmless_append harmless_escaped; rule quiet_harmless; simp)

lemma card_markup_harmless: "harmless (cardMarkup opts)"
proof -
  have optional: "harmless (if b then s else [])" if "harmless s" for b s using that by (simp add: harmless_Nil)
  have status: "harmless (case co_status opts of None \<Rightarrow> [] | Some t \<Rightarrow> status_markup t)"
    by (simp add: harmless_Nil harmless_status split: option.split)
  have all: "list_all harmless ws \<Longrightarrow> harmless (template ws)" for ws
    unfolding template_def by (auto intro: harmless_join harmless_newline simp: list_all_iff)
  have fields: "harmless (join_with (string_newline @ ''      '') (map field_markup (co_fields opts)))"
    by (intro harmless_join harmless_append harmless_newline) (auto intro: harmless_field quiet_harmless)
  have nil: "list_all harmless []" by simp
  show ?thesis
    unfolding cardMarkup_def Let_def
    by (rule all, unfold list.pred_inject, intro nil conjI TrueI harmless_append harmless_escaped optional status fields)
      (rule quiet_harmless, simp)+
qed

text \<open>A text in which no white space is followed by an \<open>o\<close> has no handler.\<close>

fun calm :: "string \<Rightarrow> bool" where
  "calm [] = True"
| "calm (a # s) = (calm s \<and> (case s of [] \<Rightarrow> True | b # r \<Rightarrow> if b = CHR ''o'' \<or> b = CHR ''O'' then \<not> is_ws a else True))"

lemma calm_no_handler: "calm s \<Longrightarrow> \<not> anywhere opens_handler s"
proof (induction s)
  case (Cons a s)
  have "\<not> opens_handler (a # s)"
  proof
    assume "opens_handler (a # s)"
    then have "is_ws a" and two: "map to_lower_char (take 2 s) = ''on''" by (auto simp: opens_handler_def to_lower_def)
    from two obtain b r where "s = b # r" "to_lower_char b = CHR ''o''" by (cases s) auto
    then show False using Cons.prems \<open>is_ws a\<close> by (auto dest: lower_letter(4))
  qed
  then show ?case using Cons by (simp add: anywhere_Cons)
qed (simp add: anywhere_def opens_handler_def)

text \<open>Texts that can stand anywhere in such a text.\<close>

definition settled :: "string \<Rightarrow> bool" where
  "settled s = (calm s \<and> (s \<noteq> [] \<longrightarrow> hd s \<noteq> CHR ''o'' \<and> hd s \<noteq> CHR ''O''))"

lemma calm_append: "calm s \<Longrightarrow> settled t \<Longrightarrow> calm (s @ t)"
proof (induction s)
  case (Cons a s)
  then show ?case by (cases s; cases t) (auto simp: settled_def)
qed (simp add: settled_def)

lemma settled_append: "settled s \<Longrightarrow> settled t \<Longrightarrow> settled (s @ t)"
  using calm_append [of s t] by (cases s) (auto simp: settled_def)

lemma settled_Nil: "settled []"
  by (simp add: settled_def)

lemma settled_join: "settled sep \<Longrightarrow> \<forall>w\<in>set ws. settled w \<Longrightarrow> settled (join_with sep ws)"
  by (induction sep ws rule: join_with.induct) (auto intro: settled_Nil settled_append)

lemma settled_newline: "settled string_newline"
  by code_simp

lemma settled_status:
  assumes "settled (escapeHtml (ct_fallback t))" "settled (escapeHtml (ct_waitingSummary t))"
  shows "settled (status_markup t)"
  unfolding status_markup_def
  by (intro settled_append assms; simp add: settled_def is_ws_def)

lemma settled_field:
  assumes "settled (escapeHtml (cf_label f))" "settled (escapeHtml (cf_id f))" "settled (escapeHtml (cf_fallback f))"
  shows "settled (field_markup f)"
  unfolding field_markup_def
  by (intro settled_append assms; simp add: settled_def is_ws_def)

lemma card_markup_calm:
  assumes "settled (escapeHtml (otherwise (ch_avatarFallback (co_header opts)) ''?''))"
    "settled (escapeHtml (otherwise (ch_eyebrow (co_header opts)) []))" "settled (escapeHtml (ch_title (co_header opts)))"
    "settled (escapeHtml (otherwise (ch_subtitle (co_header opts)) (otherwise (ch_subtitleFallback (co_header opts)) [])))"
    "settled (case co_status opts of None \<Rightarrow> [] | Some t \<Rightarrow> status_markup t)" "\<forall>f\<in>set (co_fields opts). settled (field_markup f)"
  shows "calm (cardMarkup opts)"
proof -
  have optional: "settled (if b then s else [])" if "settled s" for b s using that by (simp add: settled_Nil)
  have all: "list_all settled ws \<Longrightarrow> settled (template ws)" for ws
    unfolding template_def by (auto intro: settled_join settled_newline simp: list_all_iff)
  have blanks: "settled ''      ''" by (simp add: settled_def)
  have fields: "settled (join_with (string_newline @ ''      '') (map field_markup (co_fields opts)))"
    using assms(6) by (intro settled_join settled_append settled_newline blanks) auto
  have nil: "list_all settled []" by simp
  have "settled (cardMarkup opts)"
    unfolding cardMarkup_def Let_def
    by (rule all, unfold list.pred_inject, intro nil conjI TrueI settled_append optional fields assms(1-5))
      (simp add: settled_def is_ws_def)+
  then show ?thesis by (simp add: settled_def)
qed

lemmas check_simps = validateToolResultCardOptions_def Let_def isHtmlId_def isDataPath_def is_word_def is_word_char_def isText_def optional_path_def
  theme_values_def isCssValue_def anywhere_def opens_url_def to_lower_def to_lower_char_def is_letter_def is_alnum_def is_digit_def is_upper_def is_lower_def

lemma health_card_valid: "validateToolResultCardOptions health_status_options = Inr ()"
  by (simp add: check_simps health_status_options_def)

lemma profile_card_valid: "validateToolResultCardOptions profile_summary_options = Inr ()"
  by (simp add: check_simps profile_summary_options_def)

lemmas service_cards_valid = health_card_valid profile_card_valid

lemmas escape_simps = escapeHtml_def escape_html_char_def dquote_eq settled_def is_ws_def otherwise_def

lemma health_card_calm: "calm (cardMarkup health_status_options)"
proof (rule card_markup_calm)
  let ?fields = "co_fields health_status_options"
  have "\<forall>f\<in>set ?fields. settled (escapeHtml (cf_label f)) \<and> settled (escapeHtml (cf_id f)) \<and> settled (escapeHtml (cf_fallback f))"
    by (simp add: health_status_options_def escape_simps)
  then show "\<forall>f\<in>set ?fields. settled (field_markup f)" by (blast intro: settled_field)
  have "settled (status_markup t)" if "co_status health_status_options = Some t" for t
    using that by (intro settled_status) (auto simp: health_status_options_def escape_simps)
  then show "settled (case co_status health_status_options of None \<Rightarrow> [] | Some t \<Rightarrow> status_markup t)"
    by (simp add: settled_Nil split: option.split)
qed (simp_all add: health_status_options_def escape_simps)

lemma profile_card_calm: "calm (cardMarkup profile_summary_options)"
proof (rule card_markup_calm)
  let ?fields = "co_fields profile_summary_options"
  have "\<forall>f\<in>set ?fields. settled (escapeHtml (cf_label f)) \<and> settled (escapeHtml (cf_id f)) \<and> settled (escapeHtml (cf_fallback f))"
    by (simp add: profile_summary_options_def escape_simps)
  then show "\<forall>f\<in>set ?fields. settled (field_markup f)" by (blast intro: settled_field)
qed (simp_all add: profile_summary_options_def escape_simps)

lemma set_join: "set (join_with sep ws) \<supseteq> \<Union> (set ` set ws)"
  by (induction sep ws rule: join_with.induct) auto

lemma template_not_blank: "w \<in> set ws \<Longrightarrow> c \<in> set w \<Longrightarrow> \<not> is_ws c \<Longrightarrow> trim (template ws) \<noteq> []"
  using set_join [of ws string_newline] by (intro trim_not_blank [of c]) (auto simp: template_def)

lemma brace_not_ws: "\<not> is_ws (CHR ''{'')" "\<not> is_ws (CHR ''}'')"
  by code_simp+

lemma card_texts_not_blank:
  "trim (template base_style_lines) \<noteq> []" "trim (template bridge_script_lines) \<noteq> []" "rendererScript opts \<noteq> []" "themeCss theme \<noteq> []"
proof -
  show "trim (template base_style_lines) \<noteq> []"
    by (rule template_not_blank [OF _ _ brace_not_ws(2), of "''.widget-fields dd { margin: 0; font-weight: 700; overflow-wrap: anywhere; }''"])
      (simp_all add: base_style_lines_def)
  show "trim (template bridge_script_lines) \<noteq> []"
    by (rule template_not_blank [OF _ _ brace_not_ws(2), of "''}());''"]) (simp_all add: bridge_script_lines_def)
  show "rendererScript opts \<noteq> []" unfolding rendererScript_def
    by (rule template_not_blank [OF _ _ brace_not_ws(2), of "''}());''"]) (simp_all add: renderer_lines_def)
  show "themeCss theme \<noteq> []" unfolding themeCss_def template_def [symmetric]
    by (rule template_not_blank [OF _ _ brace_not_ws(2), of "''}''"]) simp_all
qed

end
