(* ===== verification/Card_Properties.thy ===== *)
theory Card_Properties
  imports Mcp_Cards Mcp_Tool_Properties
begin

text \<open>
  What the cards guarantee: the texts of a card are data and never markup, and the two cards of the service
  are defined without error, accepted as resources, read as pages, and every asset of a page is served.
\<close>

section \<open>Definition of a card\<close>

definition card_base :: widget_base where
  "card_base = \<lparr> wb_assets = [styleAsset toolResultCardBaseStylePath (trim (template base_style_lines)),
        scriptAsset widgetBridgeScriptPath (trim (template bridge_script_lines))],
     wb_widget = Some \<lparr> aw_description = None, aw_prefersBorder = Some True, aw_domain = None,
        aw_csp = Some \<lparr> cs_connectDomains = [], cs_resourceDomains = [], cs_frameDomains = None, cs_redirectDomains = None \<rparr>, aw_ui = None \<rparr> \<rparr>"

lemma base_asset_paths:
  "isAssetPath toolResultCardBaseStylePath" "isAssetPath widgetBridgeScriptPath"
  "ends_with ''.css'' toolResultCardBaseStylePath" "ends_with ''.js'' widgetBridgeScriptPath" "toolResultCardBaseStylePath \<noteq> widgetBridgeScriptPath"
  by code_simp+

lemma base_defined: "toolResultCardBase = Inr card_base"
  by (simp add: toolResultCardBase_def defineWidgetBase_def validateAssets_def card_base_def isAsset_def styleAsset_def scriptAsset_def
    base_asset_paths base_asset_paths(5) [symmetric] card_texts_not_blank)

definition card_assets :: "card_options \<Rightarrow> widget_asset list" where
  "card_assets opts = [styleAsset (co_stylePath opts) (themeCss (co_theme opts)), scriptAsset (co_scriptPath opts) (rendererScript opts)]"

lemma merge_distinct:
  "distinct (map fst m @ map wa_path as) \<Longrightarrow> merge_assets conflict m as = Inr (map snd m @ as)"
proof (induction as arbitrary: m)
  case (Cons a as)
  then have "map_of m (wa_path a) = None" by (auto simp: map_of_eq_None_iff)
  then show ?case using Cons.prems Cons.IH [of "m @ [(wa_path a, a)]"] by (simp add: set_update_new) 
qed simp

text \<open>The page of a card.\<close>

definition card_page :: "card_options \<Rightarrow> string \<Rightarrow> string" where
  "card_page opts origin = trim (cardMarkup opts) @ string_newline @ assetTags (wb_assets card_base @ card_assets opts) origin"

definition card_html :: "card_options \<Rightarrow> ('k, 'p) app_html_options" where
  "card_html opts = \<lparr> ah_uri = co_resourceUri opts, ah_name = co_name opts, ah_title = Some (co_title opts), ah_description = Some (co_description opts),
     ah_html = Html_of (\<lambda>cx. card_page opts (widgetDomain (tx_config cx))),
     ah_icons = None, ah_annotations = None, ah_size = None, ah_requiredScopes = co_requiredScopes opts,
     ah_widget = mergeWidget (wb_widget card_base) (Some (card_widget opts)), ah_meta = None \<rparr>"

text \<open>What a card must be, beside its own checks, to be defined.\<close>

definition card_ok :: "url_parser \<Rightarrow> card_options \<Rightarrow> bool" where
  "card_ok parse_url opts = (validateToolResultCardOptions opts = Inr () \<and> calm (cardMarkup opts) \<and>
     isAssetPath (co_stylePath opts) \<and> isAssetPath (co_scriptPath opts) \<and> ends_with ''.css'' (co_stylePath opts) \<and> ends_with ''.js'' (co_scriptPath opts) \<and>
     distinct [toolResultCardBaseStylePath, widgetBridgeScriptPath, co_stylePath opts, co_scriptPath opts] \<and>
     isResourceUri parse_url (Some (JStr (co_resourceUri opts))) \<and> co_name opts \<noteq> [] \<and> co_widgetDescription opts \<noteq> [] \<and> co_csp opts = None)"

lemma card_defined:
  assumes "card_ok parse_url opts"
  shows "defineToolResultCardWidget parse_url opts = (Inr
    \<lparr> wd_resourceUri = co_resourceUri opts,
      wd_resource = \<lparr> rd_uri = co_resourceUri opts, rd_name = co_name opts, rd_title = truthy (Some (co_title opts)),
        rd_description = truthy (Some (co_description opts)), rd_icons = None, rd_mimeType = Some appUiResourceMimeType, rd_annotations = None,
        rd_size = None, rd_meta = None, rd_requiredScopes = otherwise (co_requiredScopes opts) [],
        rd_contents = Computed (\<lambda>cx. bindr (appHtmlContent (co_resourceUri opts) (card_page opts (widgetDomain (tx_config cx)))
          (app_html_meta (card_html opts :: ('k, 'p) app_html_options))) (\<lambda>c. Inr [c])) \<rparr>,
      wd_assets = wb_assets card_base @ card_assets opts \<rparr> :: ('k, 'p) widget_definition outcome)"
proof -
  have "validateAssets (card_assets opts) = Inr ()"
    using assms by (simp add: card_ok_def validateAssets_def card_assets_def isAsset_def styleAsset_def scriptAsset_def card_texts_not_blank eq_commute [of "co_scriptPath opts"])
  moreover have "mergeAssets (wb_assets card_base) (card_assets opts) = Inr (wb_assets card_base @ card_assets opts)"
    using assms unfolding mergeAssets_def
    by (subst merge_distinct) (auto simp: card_ok_def card_base_def card_assets_def styleAsset_def scriptAsset_def)
  moreover have "assertAppHtmlResourceOptions parse_url (card_html opts :: ('k, 'p) app_html_options) = Inr ()"
    using assms by (simp add: card_ok_def assertAppHtmlResourceOptions_def card_html_def mergeWidget_def card_base_def card_widget_def widget_part_def
      or_else_def mergeCsp_def isCsp_def domains_of_def optional_domains_def mergeOptionalCspList_def otherwise_def csp_domains_def)
  moreover have "card_assets opts \<noteq> []" by (simp add: card_assets_def)
  moreover have "validateWidgetOptions w = validateAssets (wo_assets w)" if "wo_markup w = cardMarkup opts" for w
    using assms that harmless_opens_none [OF card_markup_harmless] calm_no_handler by (simp add: validateWidgetOptions_def card_ok_def)
  ultimately show ?thesis
    using assms
    by (simp add: defineToolResultCardWidget_def base_defined defineWidget_def card_ok_def card_assets_def [symmetric] appHtmlResource_def
      appHtmlContents_def card_html_def card_page_def otherwise_def)
qed

lemma service_cards_ok:
  "isResourceUri parse_url (Some (JStr healthStatusCardUri)) \<Longrightarrow> card_ok parse_url health_status_options"
  "isResourceUri parse_url (Some (JStr profileSummaryCardUri)) \<Longrightarrow> card_ok parse_url profile_summary_options"
proof -
  have "isAssetPath (co_stylePath opts)" "isAssetPath (co_scriptPath opts)" "ends_with ''.css'' (co_stylePath opts)" "ends_with ''.js'' (co_scriptPath opts)"
    "distinct [toolResultCardBaseStylePath, widgetBridgeScriptPath, co_stylePath opts, co_scriptPath opts]" "co_name opts \<noteq> []" "co_widgetDescription opts \<noteq> []" "co_csp opts = None"
    if "opts = health_status_options \<or> opts = profile_summary_options" for opts
    using that by (elim disjE; hypsubst; code_simp)+
  note paths = this
  have uris: "co_resourceUri health_status_options = healthStatusCardUri" "co_resourceUri profile_summary_options = profileSummaryCardUri"
    by (simp_all add: health_status_options_def profile_summary_options_def)
  show "isResourceUri parse_url (Some (JStr healthStatusCardUri)) \<Longrightarrow> card_ok parse_url health_status_options"
    unfolding card_ok_def uris by (intro conjI service_cards_valid health_card_calm paths disjI1 refl)
  show "isResourceUri parse_url (Some (JStr profileSummaryCardUri)) \<Longrightarrow> card_ok parse_url profile_summary_options"
    unfolding card_ok_def uris by (intro conjI service_cards_valid profile_card_calm paths disjI2 refl)
qed

text \<open>The metadata of a card, at run time included, is JSON that the checks accept.\<close>

definition card_meta :: "string \<Rightarrow> js_object" where
  "card_meta d = [(''ui'', JObj [(''prefersBorder'', JBool True), (''csp'', JObj [(''connectDomains'', JArr []), (''resourceDomains'', JArr [])])]),
     (''openai/widgetDescription'', JStr d), (''openai/widgetPrefersBorder'', JBool True),
     (''openai/widgetCSP'', JObj [(''connect_domains'', JArr []), (''resource_domains'', JArr [])])]"

lemma card_html_meta:
  assumes "co_widgetDescription opts \<noteq> []" "co_csp opts = None"
  shows "app_html_meta (card_html opts :: ('k, 'p) app_html_options) = card_meta (co_widgetDescription opts)"
proof -
  have w: "ah_widget (card_html opts :: ('k, 'p) app_html_options) = Some \<lparr> aw_description = Some (co_widgetDescription opts), aw_prefersBorder = Some True,
      aw_domain = None, aw_csp = Some \<lparr> cs_connectDomains = [], cs_resourceDomains = [], cs_frameDomains = None, cs_redirectDomains = None \<rparr>,
      aw_ui = None \<rparr>"
    using assms(2) by (simp add: card_html_def mergeWidget_def card_base_def card_widget_def widget_part_def
      or_else_def mergeCsp_def domains_of_def optional_domains_def mergeOptionalCspList_def otherwise_def csp_domains_def)
  have m: "ah_meta (card_html opts :: ('k, 'p) app_html_options) = None" by (simp add: card_html_def)
  show ?thesis
    using assms(1) unfolding app_html_meta_def standard_ui_def w m
    by (simp add: card_meta_def widget_part_def present_def truthy_text_def spread_def standardCsp_def openAiCsp_def JStrs_def uiRecord_def)
qed

definition runtime_meta :: "string \<Rightarrow> string \<Rightarrow> js_object" where
  "runtime_meta d domain = [(''ui'', JObj [(''prefersBorder'', JBool True),
       (''csp'', JObj [(''connectDomains'', JArr []), (''resourceDomains'', JArr [JStr domain])]), (''domain'', JStr domain)]),
     (''openai/widgetDescription'', JStr d), (''openai/widgetPrefersBorder'', JBool True),
     (''openai/widgetCSP'', JObj [(''connect_domains'', JArr []), (''resource_domains'', JArr [JStr domain])]),
     (''openai/widgetDomain'', JStr domain)]"

lemma runtime_meta_set:
  "withRuntimeMetadata [(''uri'', u), (''mimeType'', m), (''text'', t), (''_meta'', JObj (card_meta d))] domain =
    [(''uri'', u), (''mimeType'', m), (''text'', t), (''_meta'', JObj (runtime_meta d domain))]"
  by (simp add: withRuntimeMetadata_def card_meta_def runtime_meta_def spread_def uiRecord_def withResourceDomain_def strings_of_def JStrs_def
    List.map_filter_def)

lemma runtime_meta_json: "isJsonValue (JObj (runtime_meta d domain)) 0"
  by (simp add: runtime_meta_def)

lemma card_content_accepted:
  assumes "isResourceUri parse_url (Some (JStr u))"
  shows "isResourceContent parse_url [(''uri'', JStr u), (''mimeType'', JStr appUiResourceMimeType), (''text'', JStr t), (''_meta'', JObj (runtime_meta d domain))]"
proof -
  have "optionalMimeType (Some appUiResourceMimeType)" by code_simp
  then show ?thesis using assms runtime_meta_json by (simp add: isResourceContent_def only_keys_def optionalJsonRecord_def)
qed

section \<open>The widgets of the service\<close>

definition card_resource :: "card_options \<Rightarrow> ('k, 'p) mcp_resource" where
  "card_resource opts = \<lparr> rd_uri = co_resourceUri opts, rd_name = co_name opts, rd_title = truthy (Some (co_title opts)),
     rd_description = truthy (Some (co_description opts)), rd_icons = None, rd_mimeType = Some appUiResourceMimeType, rd_annotations = None,
     rd_size = None, rd_meta = None, rd_requiredScopes = otherwise (co_requiredScopes opts) [],
     rd_contents = Computed (\<lambda>cx. bindr (appHtmlContent (co_resourceUri opts) (card_page opts (widgetDomain (tx_config cx)))
       (app_html_meta (card_html opts :: ('k, 'p) app_html_options))) (\<lambda>c. Inr [c])) \<rparr>"

lemma card_resource_uri: "rd_uri (card_resource opts) = co_resourceUri opts"
  by (simp add: card_resource_def)

definition service_assets :: "widget_asset list" where
  "service_assets = wb_assets card_base @ card_assets health_status_options @ card_assets profile_summary_options"

lemma service_asset_paths: "distinct (map wa_path service_assets)"
  unfolding service_assets_def card_base_def card_assets_def styleAsset_def scriptAsset_def by simp code_simp

lemma merge_new:
  "distinct (map fst m @ map wa_path as) \<Longrightarrow> merge_assets conflict m (as @ bs) = merge_assets conflict (m @ map (\<lambda>a. (wa_path a, a)) as) bs"
proof (induction as arbitrary: m)
  case (Cons a as)
  then have "map_of m (wa_path a) = None" by (auto simp: map_of_eq_None_iff)
  then show ?case using Cons.prems Cons.IH [of "m @ [(wa_path a, a)]"] by (simp add: set_update_new)
qed simp

lemma merge_old:
  "distinct (map fst m) \<Longrightarrow> \<forall>a\<in>set as. map_of m (wa_path a) = Some a \<Longrightarrow> merge_assets conflict m (as @ bs) = merge_assets conflict m bs"
  by (induction as) (auto simp: update_same)

lemma service_assets_collected:
  "merge_assets conflict [] (wb_assets card_base @ card_assets health_status_options @ wb_assets card_base @ card_assets profile_summary_options) = Inr service_assets"
proof -
  let ?a = "wb_assets card_base" and ?b = "card_assets health_status_options" and ?c = "card_assets profile_summary_options"
  let ?m = "map (\<lambda>a. (wa_path a, a)) (?a @ ?b)"
  have paths: "distinct (map wa_path (?a @ ?b @ ?c))" using service_asset_paths by (simp add: service_assets_def)
  then have ab: "distinct (map wa_path (?a @ ?b))" by auto
  have m: "distinct (map fst ?m)" "distinct (map fst ?m @ map wa_path ?c)" using paths by (auto simp: comp_def image_Un)
  have "map_of ?m (wa_path a) = Some a" if "a \<in> set ?a" for a using that m(1) by (intro map_of_is_SomeI) auto
  then have "merge_assets conflict ?m (?a @ ?c) = merge_assets conflict ?m ?c" using merge_old [OF m(1)] by blast
  moreover have "merge_assets conflict [] ((?a @ ?b) @ ?a @ ?c) = merge_assets conflict ?m (?a @ ?c)"
    using merge_new [of "[]" "?a @ ?b" conflict "?a @ ?c"] ab by simp
  ultimately show ?thesis using merge_distinct [OF m(2)] by (simp add: service_assets_def comp_def)
qed

lemma service_widgets_defined:
  assumes "isResourceUri parse_url (Some (JStr healthStatusCardUri))" "isResourceUri parse_url (Some (JStr profileSummaryCardUri))"
  shows "service_widgets parse_url = (Inr
    ([\<lparr> wd_resourceUri = healthStatusCardUri, wd_resource = card_resource health_status_options, wd_assets = wb_assets card_base @ card_assets health_status_options \<rparr>,
      \<lparr> wd_resourceUri = profileSummaryCardUri, wd_resource = card_resource profile_summary_options, wd_assets = wb_assets card_base @ card_assets profile_summary_options \<rparr>],
     [card_resource health_status_options, card_resource profile_summary_options], service_assets)
     :: (('k, 'p) widget_definition list \<times> ('k, 'p) mcp_resource list \<times> widget_asset list) outcome)"
proof -
  have uris: "co_resourceUri health_status_options = healthStatusCardUri" "co_resourceUri profile_summary_options = profileSummaryCardUri"
    by (simp_all add: health_status_options_def profile_summary_options_def)
  show ?thesis
    using service_assets_collected
    by (simp add: service_widgets_def healthStatusCardWidget_def profileSummaryCardWidget_def collectWidgetAssets_def
      card_defined service_cards_ok assms card_resource_def uris)
qed

lemma service_resources_accepted:
  assumes "isResourceUri parse_url (Some (JStr healthStatusCardUri))" "isResourceUri parse_url (Some (JStr profileSummaryCardUri))"
  shows "assertResourceDefinitions parse_url
    [card_resource health_status_options :: ('k, 'p) mcp_resource, card_resource profile_summary_options] [] = Inr ()"
proof -
  have ui: "isResourceDefinition parse_url (card_resource opts :: ('k, 'p) mcp_resource)"
    if "isResourceUri parse_url (Some (JStr (co_resourceUri opts)))" "opts = health_status_options \<or> opts = profile_summary_options" for opts
  proof -
    have "isName (co_name opts)" "optionalLabel (truthy (Some (co_title opts)))" "optionalLabel (truthy (Some (co_description opts)))"
      "optionalMimeType (Some appUiResourceMimeType)" "isScopes (otherwise (co_requiredScopes opts) [])"
      using that(2) by (elim disjE; hypsubst; code_simp)+
    then show ?thesis using that(1)
      by (simp add: isResourceDefinition_def card_resource_def optionalIcons_def optionalAnnotations_def optionalSize_def optionalJsonRecord_def)
  qed
  have uris: "co_resourceUri health_status_options = healthStatusCardUri" "co_resourceUri profile_summary_options = profileSummaryCardUri"
    "healthStatusCardUri \<noteq> profileSummaryCardUri"
    by (simp_all add: health_status_options_def profile_summary_options_def healthStatusCardUri_def profileSummaryCardUri_def)
  show ?thesis
    using assms ui [of health_status_options] ui [of profile_summary_options] uris(3)
    by (simp add: assertResourceDefinitions_def card_resource_uri uris(1,2) eq_commute [of profileSummaryCardUri])
qed

text \<open>Reading the page of a card.\<close>

definition card_answer :: "card_options \<Rightarrow> ('k, 'p) tool_context \<Rightarrow> js_object" where
  "card_answer opts cx = (let domain = widgetDomain (tx_config cx) in
    [(''contents'', JArr [JObj [(''uri'', JStr (co_resourceUri opts)), (''mimeType'', JStr appUiResourceMimeType),
      (''text'', JStr (card_page opts domain)), (''_meta'', JObj (runtime_meta (co_widgetDescription opts) domain))]])])"

lemma card_read:
  assumes "List.find (\<lambda>r. rd_uri r = co_resourceUri opts) resources = Some (card_resource opts)" "card_ok parse_url opts"
  shows "read_resource parse_url resources cx (co_resourceUri opts) =
    bindr (enforceResourceScopes cx (card_resource opts)) (\<lambda>_. Inr (card_answer opts cx))"
proof -
  have "card_page opts d \<noteq> []" for d by (simp add: card_page_def string_newline_def)
  moreover have "card_meta d \<noteq> []" for d by (simp add: card_meta_def)
  ultimately show ?thesis
    using assms card_content_accepted
    by (simp add: read_resource_def card_resource_def card_ok_def appHtmlContent_def card_html_meta applyWidgetRuntimeMetadata_def
      runtime_meta_set assertResourceContents_def card_answer_def Let_def)
qed

lemma assets_found: "distinct (map wa_path assets) \<Longrightarrow> a \<in> set assets \<Longrightarrow> widgetAssetByPath assets (wa_path a) = Some a"
  unfolding widgetAssetByPath_def by (induction assets) (auto simp: image_iff)

section \<open>Properties of the cards\<close>

text \<open>C26: The texts of a card are data: whatever they are, the page of a card with the same parts and as many fields has the same
  tags and quotes in the same order, and no card opens a script or a style element of its own.\<close>

theorem card_texts_inert:
  assumes "card_shape a = card_shape b"
  shows "filter markup_char (cardMarkup a) = filter markup_char (cardMarkup b) \<and>
    \<not> anywhere (opens_element ''<script'') (cardMarkup a) \<and> \<not> anywhere (opens_element ''<style'') (cardMarkup a)"
  using card_skeleton [OF assms] harmless_opens_none [OF card_markup_harmless] by blast

definition hostile_options :: card_options where
  "hostile_options = profile_summary_options
     \<lparr> co_header := co_header profile_summary_options \<lparr> ch_title := ''</h1><script>alert(1)</script>'', ch_avatarFallback := None \<rparr> \<rparr>"

theorem card_texts_inert_witness:
  "filter markup_char (cardMarkup hostile_options) = filter markup_char (cardMarkup profile_summary_options) \<and>
    \<not> anywhere (opens_element ''<script'') (cardMarkup hostile_options)"
  using card_texts_inert [of hostile_options profile_summary_options]
  by (simp add: card_shape_def hostile_options_def)

text \<open>C25: The service's own cards hold together: the module that defines the widgets loads without error, its resources are
  accepted by the registry, every tool with a card names one of them, every asset a page refers to is served with its body, the page
  of the health card is read by everyone, and that of the profile card by a caller whose token carries the identity scopes and by
  nobody else.\<close>

theorem service_widgets_served:
  fixes cx :: "('k, 'p) tool_context"
  assumes "isResourceUri parse_url (Some (JStr healthStatusCardUri))" "isResourceUri parse_url (Some (JStr profileSummaryCardUri))"
  shows "\<exists>widgets resources assets.
    service_widgets parse_url = Inr (widgets :: ('k, 'p) widget_definition list, resources, assets) \<and>
    assertResourceDefinitions parse_url resources [] = Inr () \<and>
    (\<forall>ts. tools parse_url = Inr (ts :: ('k, 'p) mcp_tool list) \<longrightarrow>
      (\<forall>t\<in>set ts. \<forall>ui. mt_ui t = Some ui \<longrightarrow> tu_resourceUri ui \<in> rd_uri ` set resources)) \<and>
    (\<forall>w\<in>set widgets. \<forall>a\<in>set (wd_assets w). \<exists>headers. writeWidgetAsset assets (wa_path a) = Inr (200, headers, wa_body a)) \<and>
    read_resource parse_url resources cx healthStatusCardUri = Inr (card_answer health_status_options cx) \<and>
    (case tool_bearer cx defaultScopes of
       Inr claims \<Rightarrow> read_resource parse_url resources cx profileSummaryCardUri = Inr (card_answer profile_summary_options cx)
     | Inl e \<Rightarrow> \<exists>e'. read_resource parse_url resources cx profileSummaryCardUri = Inl e')"
proof (rule exI, rule exI, rule exI, intro conjI allI impI ballI)
  let ?health = "card_resource health_status_options :: ('k, 'p) mcp_resource" and ?profile = "card_resource profile_summary_options :: ('k, 'p) mcp_resource"
  have uris: "co_resourceUri health_status_options = healthStatusCardUri" "co_resourceUri profile_summary_options = profileSummaryCardUri"
    by (simp_all add: health_status_options_def profile_summary_options_def)
  have differ: "healthStatusCardUri \<noteq> profileSummaryCardUri" by (simp add: healthStatusCardUri_def profileSummaryCardUri_def)
  let ?widgets = "[\<lparr> wd_resourceUri = healthStatusCardUri, wd_resource = ?health, wd_assets = wb_assets card_base @ card_assets health_status_options \<rparr>,
      \<lparr> wd_resourceUri = profileSummaryCardUri, wd_resource = ?profile, wd_assets = wb_assets card_base @ card_assets profile_summary_options \<rparr>]"
  show "service_widgets parse_url = Inr (?widgets, [?health, ?profile], service_assets)" by (rule service_widgets_defined [OF assms])
  show "assertResourceDefinitions parse_url [?health, ?profile] [] = Inr ()" by (rule service_resources_accepted [OF assms])
  show "tu_resourceUri ui \<in> rd_uri ` set [?health, ?profile]"
    if "tools parse_url = Inr (ts :: ('k, 'p) mcp_tool list)" "t \<in> set ts" "mt_ui t = Some ui" for ts t ui
    using that(2,3) unfolding tools_eq(1) [OF that(1)]
    by (auto simp: tool_set_def card_resource_uri uris bare_ui_def healthCheckTool_def healthStatusCardTool_def identityProfileTool_def
      identityProfileCardTool_def authSessionTool_def)
  show "\<exists>headers. writeWidgetAsset service_assets (wa_path a) = Inr (200, headers, wa_body a)"
    if "w \<in> set ?widgets"
      "a \<in> set (wd_assets w)" for w a
  proof -
    have "a \<in> set service_assets" using that by (auto simp: service_assets_def)
    then show ?thesis using assets_found [OF service_asset_paths] by (auto simp: writeWidgetAsset_def)
  qed
  have health: "List.find (\<lambda>r. rd_uri r = co_resourceUri health_status_options) [?health, ?profile] = Some ?health"
    "List.find (\<lambda>r. rd_uri r = co_resourceUri profile_summary_options) [?health, ?profile] = Some ?profile"
    using differ by (simp_all add: card_resource_uri uris)
  have scopes: "enforceResourceScopes cx ?health = Inr ()" "rd_requiredScopes ?profile = defaultScopes"
    by (simp_all add: enforceResourceScopes_def card_resource_def health_status_options_def profile_summary_options_def otherwise_def)
  show "read_resource parse_url [?health, ?profile] cx healthStatusCardUri = Inr (card_answer health_status_options cx)"
    using card_read [OF health(1) service_cards_ok(1) [OF assms(1)], of cx] scopes(1) by (simp add: uris)
  have "defaultScopes \<noteq> []" by (simp add: defaultScopes_def)
  then show "case tool_bearer cx defaultScopes of
       Inr claims \<Rightarrow> read_resource parse_url [?health, ?profile] cx profileSummaryCardUri = Inr (card_answer profile_summary_options cx)
     | Inl e \<Rightarrow> \<exists>e'. read_resource parse_url [?health, ?profile] cx profileSummaryCardUri = Inl e'"
    using card_read [OF health(2) service_cards_ok(2) [OF assms(2)], of cx] scopes(2)
    by (auto simp: uris enforceResourceScopes_def bindr_def split: sum.splits option.splits if_splits)
qed

theorem service_widgets_served_witness:
  "\<exists>widgets resources assets. service_widgets ui_parser = Inr (widgets :: (unit, unit) widget_definition list, resources, assets) \<and>
    assertResourceDefinitions ui_parser resources [] = Inr ()"
proof -
  have "isResourceUri ui_parser (Some (JStr healthStatusCardUri))" "isResourceUri ui_parser (Some (JStr profileSummaryCardUri))"
    by code_simp+
  then show ?thesis using service_widgets_served [where ?'k = unit and ?'p = unit and parse_url = ui_parser] by blast
qed

end
