(* ===== verification/Store_Lock.thy ===== *)
theory Store_Lock
  imports Store_File
begin

text \<open>
  \<open>auth/storage/store-lock.ts\<close> and its use in \<open>StoreFile.update\<close>: the lock file beside the store file,
  its metadata, and the concurrent updates of any number of processes.  A process is the sequence of its
  file-system calls; between two of them every other process may move, die, or let time pass.  A file is an
  inode: \<open>writeFile\<close> goes to the open inode, \<open>rm\<close> to whatever inode the path names.  The promise queue of
  \<open>StoreFile.update\<close> only orders the updates of one process and leaves fewer interleavings than are allowed here.
\<close>

section \<open>Metadata\<close>

definition lockPollMs :: int where "lockPollMs = 10"
definition lockTimeoutMs :: int where "lockTimeoutMs = 5000"
definition staleLockMs :: int where "staleLockMs = 300000"

record lock_metadata =
  lk_token :: string
  lk_pid :: int
  lk_hostname :: string
  lk_createdAtMs :: int
  lk_staleAtMs :: int

definition metadata_json :: "lock_metadata \<Rightarrow> json" where
  "metadata_json m = JObj [(''token'', JStr (lk_token m)), (''pid'', JInt (lk_pid m)), (''hostname'', JStr (lk_hostname m)),
     (''createdAtMs'', JInt (lk_createdAtMs m)), (''staleAtMs'', JInt (lk_staleAtMs m))]"

definition lock_text :: "lock_metadata \<Rightarrow> string" where
  "lock_text m = json_text (metadata_json m) @ [char_of (10 :: nat)]"

definition safe_number :: "json option \<Rightarrow> int option" where
  "safe_number v = (case v of Some (JNum n) \<Rightarrow> if is_safe_integer n then Some (integer_value n) else None | _ \<Rightarrow> None)"

definition nonempty_string :: "json option \<Rightarrow> string option" where
  "nonempty_string v = (case json_string v of Some s \<Rightarrow> if s = [] then None else Some s | None \<Rightarrow> None)"

definition parseLockMetadata :: "string \<Rightarrow> lock_metadata option" where
  "parseLockMetadata s = (case json_parse s of
     Some (JObj kvs) \<Rightarrow>
       Option.bind (nonempty_string (field kvs ''token'')) (\<lambda>token.
       Option.bind (safe_number (field kvs ''pid'')) (\<lambda>pid.
       Option.bind (nonempty_string (field kvs ''hostname'')) (\<lambda>host.
       Option.bind (safe_number (field kvs ''createdAtMs'')) (\<lambda>createdAt.
       Option.bind (safe_number (field kvs ''staleAtMs'')) (\<lambda>staleAt.
         Some \<lparr> lk_token = token, lk_pid = pid, lk_hostname = host, lk_createdAtMs = createdAt, lk_staleAtMs = staleAt \<rparr>)))))
   | _ \<Rightarrow> None)"

definition metadata_ok :: "lock_metadata \<Rightarrow> bool" where
  "metadata_ok m = (lk_token m \<noteq> [] \<and> lk_hostname m \<noteq> [] \<and> \<bar>lk_pid m\<bar> \<le> max_safe_integer \<and>
     \<bar>lk_createdAtMs m\<bar> \<le> max_safe_integer \<and> \<bar>lk_staleAtMs m\<bar> \<le> max_safe_integer)"

lemma json_parse_line:
  assumes "printable v" shows "json_parse (json_text v @ [char_of (10 :: nat)]) = Some v"
proof -
  let ?s = "json_text v @ [char_of (10 :: nat)]"
  have "number_boundary [char_of (10 :: nat)]" by code_simp
  then have p: "parse_value (2 * length ?s + 1) ?s = Some (v, [char_of (10 :: nat)])"
    by (intro parse_text(1) [OF assms]) simp_all
  have "skip_ws [char_of (10 :: nat)] = []" by code_simp
  then show ?thesis by (simp only: json_parse_def p option.case prod.case if_True refl)
qed

lemma metadata_round_trip [simp]: "metadata_ok m \<Longrightarrow> parseLockMetadata (lock_text m) = Some m"
  using json_parse_line [of "metadata_json m"]
  by (simp add: parseLockMetadata_def lock_text_def metadata_json_def metadata_ok_def nonempty_string_def safe_number_def
      del: is_safe_integer.simps integer_value.simps)

lemma parse_empty_lock [simp]: "parseLockMetadata [] = None"
  by (simp add: parseLockMetadata_def json_parse_def)

section \<open>The file system and the processes\<close>

text \<open>An inode, with the process that made it and the moment of its creation as ghost fields.\<close>

record lock_inode =
  li_mtime :: int
  li_text :: string
  li_owner :: nat
  li_born :: int

text \<open>
  Where a process stands between two calls.  \<open>Trying t\<close> to \<open>Waiting t u\<close> are the loop of \<open>acquireLock\<close> that
  started at \<open>t\<close>; \<open>Created\<close>, \<open>Stamped\<close> and \<open>Aborting\<close> are \<open>createLock\<close>; \<open>Looking\<close> to \<open>Removing\<close> are
  \<open>recoverStaleLock\<close>, with the moment of the look as a ghost; \<open>Renamed\<close> is the end of \<open>StoreFile.write\<close>, between the
  \<open>rename\<close> and \<open>syncDirectory\<close>; \<open>Releasing\<close> to \<open>Unlinking\<close> are \<open>releaseLock\<close>, with the way the update ended.  The first
  number is the inode of the process's own lock, but in \<open>Reading\<close>, as the last one in \<open>Checking\<close>, it is the inode that was
  opened to read it.  An update is \<open>Completed\<close> when it returns its result; it throws when it was \<open>Refused\<close>, before the
  \<open>rename\<close>, and when it was left \<open>Unsynced\<close>, because the directory could not be synced after it.
\<close>

datatype update_end = Completed | Refused | Unsynced

datatype 's lock_phase =
    Idle | Trying int | Created nat | Stamped nat int | Aborting nat | Holding nat | Loaded nat 's | Renamed nat
  | Releasing nat update_end | Checking nat update_end nat | Unlinking nat update_end
  | Looking int | Reading int nat int | Stating int | Comparing int int int | Removing int
  | Deciding int | Waiting int int | Ended update_end | Dead "nat option"

record ('s, 'r) lock_world =
  lw_now :: int
  lw_path :: "nat option"
  lw_inodes :: "lock_inode list"
  lw_phase :: "nat \<Rightarrow> 's lock_phase"
  lw_store :: 's
  lw_log :: "(nat \<times> 'r) list"

text \<open>What the processes bring along: the callback of each with the reading and serialising of the store, the random
  token of each lock, and what \<open>process.pid\<close> and \<open>hostname()\<close> are.\<close>

record ('s, 'r) lock_setup =
  su_update :: "nat \<Rightarrow> 's \<Rightarrow> ('r \<times> 's) outcome"
  su_token :: "nat \<Rightarrow> string"
  su_pid :: "nat \<Rightarrow> int"
  su_hostname :: "nat \<Rightarrow> string"

definition enter :: "nat \<Rightarrow> 's lock_phase \<Rightarrow> ('s, 'r) lock_world \<Rightarrow> ('s, 'r) lock_world" where
  "enter a p w = w \<lparr> lw_phase := (lw_phase w)(a := p) \<rparr>"

definition unlink_lock :: "('s, 'r) lock_world \<Rightarrow> ('s, 'r) lock_world" where
  "unlink_lock w = w \<lparr> lw_path := None \<rparr>"

text \<open>\<open>createLock\<close>: the exclusive creation, the clock, and the writing of the metadata.\<close>

definition new_lock :: "nat \<Rightarrow> ('s, 'r) lock_world \<Rightarrow> ('s, 'r) lock_world" where
  "new_lock a w = (let i = length (lw_inodes w) in
     enter a (Created i) (w \<lparr> lw_path := Some i, lw_inodes := lw_inodes w @
       [\<lparr> li_mtime = lw_now w, li_text = [], li_owner = a, li_born = lw_now w \<rparr>] \<rparr>))"

definition own_metadata :: "('s, 'r) lock_setup \<Rightarrow> nat \<Rightarrow> nat \<Rightarrow> int \<Rightarrow> lock_metadata" where
  "own_metadata su a i createdAt = \<lparr> lk_token = su_token su i, lk_pid = su_pid su a, lk_hostname = su_hostname su a,
     lk_createdAtMs = createdAt, lk_staleAtMs = createdAt + staleLockMs \<rparr>"

definition write_metadata :: "('s, 'r) lock_setup \<Rightarrow> nat \<Rightarrow> nat \<Rightarrow> int \<Rightarrow> ('s, 'r) lock_world \<Rightarrow> ('s, 'r) lock_world" where
  "write_metadata su a i createdAt w = enter a (Holding i) (w \<lparr> lw_inodes := (lw_inodes w)[i := (lw_inodes w ! i)
     \<lparr> li_mtime := lw_now w, li_text := lock_text (own_metadata su a i createdAt) \<rparr>] \<rparr>)"

text \<open>What the path leads to.\<close>

definition named_lock :: "('s, 'r) lock_world \<Rightarrow> lock_inode option" where
  "named_lock w = map_option ((!) (lw_inodes w)) (lw_path w)"

text \<open>\<open>readLockMetadata\<close>, once the file is open.\<close>

definition readLockMetadata :: "nat \<Rightarrow> ('s, 'r) lock_world \<Rightarrow> lock_metadata option" where
  "readLockMetadata i w = parseLockMetadata (li_text (lw_inodes w ! i))"

text \<open>\<open>StoreFile.update\<close> under the lock: the store is read, and replaced by \<open>rename\<close> unless something threw before; the
  directory is synced in the next move.\<close>

definition write_update :: "('s, 'r) lock_setup \<Rightarrow> nat \<Rightarrow> nat \<Rightarrow> 's \<Rightarrow> ('s, 'r) lock_world \<Rightarrow> ('s, 'r) lock_world" where
  "write_update su a i st w = (case su_update su a st of
     Inl e \<Rightarrow> enter a (Releasing i Refused) w
   | Inr (result, st') \<Rightarrow> enter a (Renamed i) (w \<lparr> lw_store := st', lw_log := lw_log w @ [(a, result)] \<rparr>))"

fun move_of :: "('s, 'r) lock_setup \<Rightarrow> nat \<Rightarrow> 's lock_phase \<Rightarrow> ('s, 'r) lock_world \<Rightarrow> ('s, 'r) lock_world" where
  "move_of su a Idle w = enter a (Trying (lw_now w)) w"
| "move_of su a (Trying t) w = (case lw_path w of None \<Rightarrow> new_lock a w | Some i \<Rightarrow> enter a (Looking t) w)"
| "move_of su a (Created i) w = enter a (Stamped i (lw_now w)) w"
| "move_of su a (Stamped i c) w = write_metadata su a i c w"
| "move_of su a (Aborting i) w = enter a (Ended Refused) (unlink_lock w)"
| "move_of su a (Holding i) w = enter a (Loaded i (lw_store w)) w"
| "move_of su a (Loaded i st) w = write_update su a i st w"
| "move_of su a (Renamed i) w = enter a (Releasing i Completed) w"
| "move_of su a (Releasing i e) w = (case lw_path w of None \<Rightarrow> enter a (Ended e) w | Some j \<Rightarrow> enter a (Checking i e j) w)"
| "move_of su a (Checking i e j) w =
    enter a (if map_option lk_token (readLockMetadata j w) = Some (su_token su i) then Unlinking i e else Ended e) w"
| "move_of su a (Unlinking i e) w = enter a (Ended e) (unlink_lock w)"
| "move_of su a (Looking t) w = (case lw_path w of None \<Rightarrow> enter a (Stating t) w | Some i \<Rightarrow> enter a (Reading t i (lw_now w)) w)"
| "move_of su a (Reading t i r) w = (case readLockMetadata i w of
     Some m \<Rightarrow> enter a (Comparing t (lk_staleAtMs m) r) w | None \<Rightarrow> enter a (Stating t) w)"
| "move_of su a (Stating t) w = (case named_lock w of
     Some ino \<Rightarrow> enter a (Comparing t (li_mtime ino + staleLockMs) (lw_now w)) w | None \<Rightarrow> enter a (Deciding t) w)"
| "move_of su a (Comparing t d r) w = enter a (if d \<le> lw_now w then Removing t else Deciding t) w"
| "move_of su a (Removing t) w = enter a (Deciding t) (unlink_lock w)"
| "move_of su a (Deciding t) w = enter a (if lw_now w - t \<ge> lockTimeoutMs then Ended Refused else Waiting t (lw_now w + lockPollMs)) w"
| "move_of su a (Waiting t u) w = (if u \<le> lw_now w then enter a (Trying t) w else w)"
| "move_of su a (Ended e) w = w"
| "move_of su a (Dead i) w = w"

text \<open>The inode whose presence at the path a process answers for, alive or dead.\<close>

fun held :: "'s lock_phase \<Rightarrow> nat option" where
  "held (Created i) = Some i"
| "held (Stamped i c) = Some i"
| "held (Aborting i) = Some i"
| "held (Holding i) = Some i"
| "held (Loaded i st) = Some i"
| "held (Renamed i) = Some i"
| "held (Releasing i e) = Some i"
| "held (Checking i e j) = Some i"
| "held (Unlinking i e) = Some i"
| "held (Dead i) = i"
| "held _ = None"

text \<open>A call fails: \<open>createLock\<close> removes the file again, the \<open>finally\<close> releases the lock, also when the store file has been
  replaced already, and a failure in one of these two leaves the lock behind, as the death of the process does.  A lock that cannot be
  opened or inspected counts as one without metadata, and as not expired.\<close>

fun failure_of :: "'s lock_phase \<Rightarrow> 's lock_phase" where
  "failure_of Idle = Ended Refused"
| "failure_of (Stamped i c) = Aborting i"
| "failure_of (Holding i) = Releasing i Refused"
| "failure_of (Loaded i st) = Releasing i Refused"
| "failure_of (Renamed i) = Releasing i Unsynced"
| "failure_of (Releasing i e) = Dead (Some i)"
| "failure_of (Checking i e j) = Dead (Some i)"
| "failure_of (Unlinking i e) = Dead (Some i)"
| "failure_of (Aborting i) = Dead (Some i)"
| "failure_of (Trying t) = Ended Refused"
| "failure_of (Looking t) = Stating t"
| "failure_of (Reading t i r) = Ended Refused"
| "failure_of (Stating t) = Deciding t"
| "failure_of (Removing t) = Ended Refused"
| "failure_of p = p"

datatype lock_event = Move nat | Fail nat | Crash nat | Tick nat

fun lock_step :: "('s, 'r) lock_setup \<Rightarrow> lock_event \<Rightarrow> ('s, 'r) lock_world \<Rightarrow> ('s, 'r) lock_world" where
  "lock_step su (Move a) w = move_of su a (lw_phase w a) w"
| "lock_step su (Fail a) w = enter a (failure_of (lw_phase w a)) w"
| "lock_step su (Crash a) w = enter a (Dead (held (lw_phase w a))) w"
| "lock_step su (Tick n) w = w \<lparr> lw_now := lw_now w + int n \<rparr>"

definition new_world :: "int \<Rightarrow> 's \<Rightarrow> ('s, 'r) lock_world" where
  "new_world now st = \<lparr> lw_now = now, lw_path = None, lw_inodes = [], lw_phase = (\<lambda>a. Idle), lw_store = st, lw_log = [] \<rparr>"

section \<open>Serial updates\<close>

text \<open>The updates of some processes one after another: their results and the store they leave; one that throws is none.\<close>

fun serial :: "('s, 'r) lock_setup \<Rightarrow> nat list \<Rightarrow> 's \<Rightarrow> (nat \<times> 'r) list \<times> 's" where
  "serial su [] st = ([], st)"
| "serial su (a # as) st = (case su_update su a st of
     Inl e \<Rightarrow> serial su as st
   | Inr (result, st') \<Rightarrow> (case serial su as st' of (rs, st'') \<Rightarrow> ((a, result) # rs, st'')))"

text \<open>
  A state is timely when no lock, also none of a dead process, is as old as \<open>D1\<close>, and no process that looks at a lock
  needs more than \<open>D2\<close> until it compares the clock; the clock stays in the range of safe integers.
\<close>

definition timely :: "int \<Rightarrow> int \<Rightarrow> ('s, 'r) lock_world \<Rightarrow> bool" where
  "timely D1 D2 w = (0 \<le> lw_now w \<and> lw_now w + staleLockMs \<le> max_safe_integer \<and>
     (\<forall>a i. held (lw_phase w a) = Some i \<longrightarrow> lw_now w < li_born (lw_inodes w ! i) + D1) \<and>
     (\<forall>a t d r. lw_phase w a = Comparing t d r \<longrightarrow> lw_now w \<le> r + D2))"

inductive lock_run :: "('s, 'r) lock_setup \<Rightarrow> int \<Rightarrow> int \<Rightarrow> ('s, 'r) lock_world \<Rightarrow> ('s, 'r) lock_world \<Rightarrow> bool"
  for su D1 D2 w0 where
  lock_start: "timely D1 D2 w0 \<Longrightarrow> lock_run su D1 D2 w0 w0"
| lock_more: "lock_run su D1 D2 w0 w \<Longrightarrow> timely D1 D2 (lock_step su ev w) \<Longrightarrow> lock_run su D1 D2 w0 (lock_step su ev w)"

definition setup_ok :: "('s, 'r) lock_setup \<Rightarrow> bool" where
  "setup_ok su = (\<forall>a. su_token su a \<noteq> [] \<and> su_hostname su a \<noteq> [] \<and> \<bar>su_pid su a\<bar> \<le> max_safe_integer)"

text \<open>The invariant, by the phase of a process.\<close>

definition owns :: "('s, 'r) lock_world \<Rightarrow> nat \<Rightarrow> nat \<Rightarrow> bool" where
  "owns w a i = (lw_path w = Some i \<and> i < length (lw_inodes w) \<and> li_owner (lw_inodes w ! i) = a)"

definition written :: "('s, 'r) lock_setup \<Rightarrow> ('s, 'r) lock_world \<Rightarrow> nat \<Rightarrow> bool" where
  "written su w i = (map_option lk_token (readLockMetadata i w) = Some (su_token su i))"

fun phase_ok :: "('s, 'r) lock_setup \<Rightarrow> int \<Rightarrow> ('s, 'r) lock_world \<Rightarrow> nat \<Rightarrow> 's lock_phase \<Rightarrow> bool" where
  "phase_ok su D1 w a (Created i) = (owns w a i \<and> li_born (lw_inodes w ! i) \<le> lw_now w \<and> a \<notin> fst ` set (lw_log w))"
| "phase_ok su D1 w a (Stamped i c) = (owns w a i \<and> li_born (lw_inodes w ! i) \<le> c \<and> c \<le> lw_now w \<and> 0 \<le> c \<and> a \<notin> fst ` set (lw_log w))"
| "phase_ok su D1 w a (Aborting i) = (owns w a i \<and> a \<notin> fst ` set (lw_log w))"
| "phase_ok su D1 w a (Holding i) = (owns w a i \<and> written su w i \<and> a \<notin> fst ` set (lw_log w))"
| "phase_ok su D1 w a (Loaded i st) = (owns w a i \<and> written su w i \<and> st = lw_store w \<and> a \<notin> fst ` set (lw_log w))"
| "phase_ok su D1 w a (Renamed i) = (owns w a i \<and> written su w i \<and> a \<in> fst ` set (lw_log w))"
| "phase_ok su D1 w a (Releasing i e) = (owns w a i \<and> written su w i \<and> (e = Refused) = (a \<notin> fst ` set (lw_log w)))"
| "phase_ok su D1 w a (Checking i e j) = (owns w a i \<and> written su w i \<and> (e = Refused) = (a \<notin> fst ` set (lw_log w)) \<and> j = i)"
| "phase_ok su D1 w a (Unlinking i e) = (owns w a i \<and> (e = Refused) = (a \<notin> fst ` set (lw_log w)))"
| "phase_ok su D1 w a (Reading t i r) = (i < length (lw_inodes w) \<and> r < li_born (lw_inodes w ! i) + D1 \<and> a \<notin> fst ` set (lw_log w))"
| "phase_ok su D1 w a (Comparing t d r) = (r + staleLockMs < d + D1 \<and> a \<notin> fst ` set (lw_log w))"
| "phase_ok su D1 w a (Removing t) = False"
| "phase_ok su D1 w a (Ended e) = ((e = Refused) = (a \<notin> fst ` set (lw_log w)))"
| "phase_ok su D1 w a (Dead i) = (\<forall>j. i = Some j \<longrightarrow> owns w a j)"
| "phase_ok su D1 w a p = (a \<notin> fst ` set (lw_log w))"

definition inode_ok :: "lock_inode \<Rightarrow> bool" where
  "inode_ok ino = (li_born ino \<le> li_mtime ino \<and>
     (\<forall>m. parseLockMetadata (li_text ino) = Some m \<longrightarrow> li_born ino + staleLockMs \<le> lk_staleAtMs m))"

definition world_ok :: "('s, 'r) lock_setup \<Rightarrow> int \<Rightarrow> 's \<Rightarrow> ('s, 'r) lock_world \<Rightarrow> bool" where
  "world_ok su D1 st0 w = ((\<forall>a. phase_ok su D1 w a (lw_phase w a)) \<and>
     (\<forall>i. lw_path w = Some i \<longrightarrow> (\<exists>a. held (lw_phase w a) = Some i)) \<and>
     (\<forall>i < length (lw_inodes w). inode_ok (lw_inodes w ! i)) \<and> distinct (map fst (lw_log w)) \<and>
     serial su (map fst (lw_log w)) st0 = (lw_log w, lw_store w))"

section \<open>Preservation\<close>

lemma own_metadata_parsed:
  assumes "setup_ok su" "0 \<le> c" "c + staleLockMs \<le> max_safe_integer"
  shows "parseLockMetadata (lock_text (own_metadata su a i c)) = Some (own_metadata su a i c)"
  using assms by (intro metadata_round_trip) (auto simp: metadata_ok_def own_metadata_def setup_ok_def staleLockMs_def)

lemma lock_world_simps [simp]:
  "lw_phase (enter a p w) = (lw_phase w)(a := p)" "lw_path (enter a p w) = lw_path w" "lw_inodes (enter a p w) = lw_inodes w"
  "lw_store (enter a p w) = lw_store w" "lw_log (enter a p w) = lw_log w" "lw_now (enter a p w) = lw_now w"
  "lw_phase (unlink_lock w) = lw_phase w" "lw_path (unlink_lock w) = None" "lw_inodes (unlink_lock w) = lw_inodes w"
  "lw_store (unlink_lock w) = lw_store w" "lw_log (unlink_lock w) = lw_log w" "lw_now (unlink_lock w) = lw_now w"
  by (simp_all add: enter_def unlink_lock_def)

lemma phase_ok_enter [simp]: "phase_ok su D1 (enter b q w) a p = phase_ok su D1 w a p"
  by (cases p) (auto simp: owns_def written_def readLockMetadata_def)

lemma phase_ok_owns: "phase_ok su D1 w a p \<Longrightarrow> held p = Some i \<Longrightarrow> owns w a i"
  by (cases p) auto

lemma phase_ok_frame:
  assumes "phase_ok su D1 w a p" "held p = None" "(a \<in> fst ` set (lw_log w')) = (a \<in> fst ` set (lw_log w))"
    and "\<And>i. i < length (lw_inodes w) \<Longrightarrow> i < length (lw_inodes w') \<and> li_born (lw_inodes w' ! i) = li_born (lw_inodes w ! i)"
  shows "phase_ok su D1 w' a p"
  using assms by (cases p) auto

lemma world_okD:
  assumes "world_ok su D1 st0 w"
  shows "phase_ok su D1 w a (lw_phase w a)" "lw_path w = Some i \<Longrightarrow> \<exists>a. held (lw_phase w a) = Some i"
    "i < length (lw_inodes w) \<Longrightarrow> inode_ok (lw_inodes w ! i)" "distinct (map fst (lw_log w))" "serial su (map fst (lw_log w)) st0 = (lw_log w, lw_store w)"
  using assms by (simp_all add: world_ok_def)

lemma only_holder:
  assumes "world_ok su D1 st0 w" "held (lw_phase w a) = Some i" "held (lw_phase w b) = Some j"
  shows "a = b"
  using phase_ok_owns [OF world_okD(1) [OF assms(1)] assms(2)] phase_ok_owns [OF world_okD(1) [OF assms(1)] assms(3)]
  by (auto simp: owns_def)

lemma other_phase:
  assumes "world_ok su D1 st0 w" "held (lw_phase w a) = Some i" "b \<noteq> a"
  shows "held (lw_phase w b) = None"
  using only_holder [OF assms(1,2)] assms(3) by (cases "held (lw_phase w b)") auto

lemma enter_ok:
  assumes "world_ok su D1 st0 w" "phase_ok su D1 w a p" "held p = held (lw_phase w a)"
  shows "world_ok su D1 st0 (enter a p w)"
  using assms unfolding world_ok_def by auto

lemma unlink_ok:
  assumes w: "world_ok su D1 st0 w" and h: "held (lw_phase w a) = Some i" and p: "phase_ok su D1 w a p" "held p = None"
  shows "world_ok su D1 st0 (enter a p (unlink_lock w))"
proof -
  have "phase_ok su D1 (unlink_lock w) b q" if "phase_ok su D1 w b q" "held q = None" for b q
    using that by (rule phase_ok_frame) simp_all
  with p world_okD(1) [OF w] other_phase [OF w h] have "phase_ok su D1 (unlink_lock w) b (((lw_phase w)(a := p)) b)" for b
    by simp
  then show ?thesis using world_okD [OF w] unfolding world_ok_def by simp
qed

lemma new_lock_ok:
  assumes w: "world_ok su D1 st0 w" and free: "lw_path w = None" and p: "lw_phase w a = Trying t"
  shows "world_ok su D1 st0 (new_lock a w)"
proof -
  let ?w = "new_lock a w"
  have none: "held (lw_phase w b) = None" for b
    using phase_ok_owns [OF world_okD(1) [OF w, of b]] free by (cases "held (lw_phase w b)") (auto simp: owns_def)
  have a: "a \<notin> fst ` set (lw_log w)" using world_okD(1) [OF w, of a] p by simp
  have frame: "phase_ok su D1 ?w b (lw_phase w b)" for b
    by (rule phase_ok_frame [OF world_okD(1) [OF w] none]) (auto simp: new_lock_def Let_def nth_append)
  have mine: "phase_ok su D1 ?w a (Created (length (lw_inodes w)))"
    using a by (simp add: new_lock_def Let_def owns_def)
  have phases: "lw_phase ?w = (lw_phase w)(a := Created (length (lw_inodes w)))" by (simp add: new_lock_def Let_def)
  have "\<forall>b. phase_ok su D1 ?w b (lw_phase ?w b)" unfolding phases using frame mine by simp
  moreover have "\<forall>i < length (lw_inodes ?w). inode_ok (lw_inodes ?w ! i)"
    using world_okD(3) [OF w] by (auto simp: new_lock_def Let_def nth_append inode_ok_def less_Suc_eq)
  moreover have "\<forall>i. lw_path ?w = Some i \<longrightarrow> (\<exists>b. held (lw_phase ?w b) = Some i)"
    by (auto simp: new_lock_def Let_def intro: exI [of _ a])
  ultimately show ?thesis using world_okD(4,5) [OF w] unfolding world_ok_def by (simp add: new_lock_def Let_def)
qed

lemma write_metadata_ok:
  assumes w: "world_ok su D1 st0 w" and p: "lw_phase w a = Stamped i c" and su: "setup_ok su" and now: "timely D1 D2 w"
  shows "world_ok su D1 st0 (write_metadata su a i c w)"
proof -
  let ?w = "write_metadata su a i c w"
  have ph: "owns w a i" "li_born (lw_inodes w ! i) \<le> c" "c \<le> lw_now w" "0 \<le> c" "a \<notin> fst ` set (lw_log w)"
    using world_okD(1) [OF w, of a] p by simp_all
  have parsed: "parseLockMetadata (lock_text (own_metadata su a i c)) = Some (own_metadata su a i c)"
    using su ph now by (intro own_metadata_parsed) (auto simp: timely_def)
  have i: "i < length (lw_inodes w)" using ph(1) by (simp add: owns_def)
  have frame: "phase_ok su D1 ?w b (lw_phase w b)" if "b \<noteq> a" for b
    by (rule phase_ok_frame [OF world_okD(1) [OF w] other_phase [OF w _ that]])
      (use i in \<open>auto simp: write_metadata_def p nth_list_update\<close>)
  have mine: "phase_ok su D1 ?w a (Holding i)"
    using ph i parsed by (auto simp: write_metadata_def owns_def written_def readLockMetadata_def own_metadata_def)
  have phases: "lw_phase ?w = (lw_phase w)(a := Holding i)" by (simp add: write_metadata_def)
  have "\<forall>b. phase_ok su D1 ?w b (lw_phase ?w b)" unfolding phases using frame mine by simp
  moreover have "\<forall>j < length (lw_inodes ?w). inode_ok (lw_inodes ?w ! j)"
    using world_okD(3) [OF w] ph parsed i by (auto simp: write_metadata_def nth_list_update inode_ok_def own_metadata_def)
  moreover have "\<forall>j. lw_path ?w = Some j \<longrightarrow> (\<exists>b. held (lw_phase ?w b) = Some j)"
    using ph(1) by (auto simp: write_metadata_def owns_def intro: exI [of _ a])
  ultimately show ?thesis using world_okD(4,5) [OF w] unfolding world_ok_def by (simp add: write_metadata_def)
qed

lemma serial_append:
  "serial su xs st = (rs, st1) \<Longrightarrow> su_update su a st1 = Inr (result, st2) \<Longrightarrow> serial su (xs @ [a]) st = (rs @ [(a, result)], st2)"
  by (induction xs arbitrary: st rs) (auto split: sum.splits prod.splits)

lemma write_update_ok:
  assumes w: "world_ok su D1 st0 w" and p: "lw_phase w a = Loaded i st"
  shows "world_ok su D1 st0 (write_update su a i st w)"
proof (cases "su_update su a st")
  case (Inl e)
  then show ?thesis using world_okD(1) [OF w, of a] p by (auto simp: write_update_def intro!: enter_ok [OF w])
next
  case (Inr y)
  obtain result st' where y: "y = (result, st')" by (cases y)
  define w' where "w' = enter a (Renamed i) (w \<lparr> lw_store := st', lw_log := lw_log w @ [(a, result)] \<rparr>)"
  let ?w = w'
  have ph: "owns w a i" "written su w i" "st = lw_store w" "a \<notin> fst ` set (lw_log w)"
    using world_okD(1) [OF w, of a] p by simp_all
  have frame: "phase_ok su D1 ?w b (lw_phase w b)" if "b \<noteq> a" for b
    by (rule phase_ok_frame [OF world_okD(1) [OF w] other_phase [OF w _ that]])
      (use that in \<open>auto simp: w'_def p\<close>)
  have mine: "phase_ok su D1 ?w a (Renamed i)"
    using ph by (auto simp: w'_def owns_def written_def readLockMetadata_def)
  have phases: "lw_phase ?w = (lw_phase w)(a := Renamed i)" by (simp add: w'_def)
  have "\<forall>b. phase_ok su D1 ?w b (lw_phase ?w b)" unfolding phases using frame mine by simp
  moreover have "\<forall>j. lw_path ?w = Some j \<longrightarrow> (\<exists>b. held (lw_phase ?w b) = Some j)"
    using ph(1) by (auto simp: w'_def owns_def intro: exI [of _ a])
  ultimately have "world_ok su D1 st0 w'" using world_okD(3,4) [OF w] serial_append [OF world_okD(5) [OF w]] ph(3,4) Inr
    unfolding world_ok_def by (simp add: w'_def y)
  then show ?thesis by (simp add: write_update_def Inr w'_def y)
qed

lemma named_inode:
  assumes w: "world_ok su D1 st0 w" and "timely D1 D2 w" "lw_path w = Some i"
  shows "i < length (lw_inodes w)" "inode_ok (lw_inodes w ! i)" "lw_now w < li_born (lw_inodes w ! i) + D1"
proof -
  obtain a where a: "held (lw_phase w a) = Some i" using world_okD(2) [OF w assms(3)] by blast
  from phase_ok_owns [OF world_okD(1) [OF w] this] show i: "i < length (lw_inodes w)" by (simp add: owns_def)
  from world_okD(3) [OF w i] show "inode_ok (lw_inodes w ! i)" .
  from a assms(2) show "lw_now w < li_born (lw_inodes w ! i) + D1" by (simp add: timely_def)
qed

lemma move_ok:
  assumes w: "world_ok su D1 st0 w" and t: "timely D1 D2 w" and su: "setup_ok su" and D: "D1 + D2 \<le> staleLockMs"
  shows "world_ok su D1 st0 (move_of su a (lw_phase w a) w)"
proof (cases "lw_phase w a")
  case (Trying t)
  then show ?thesis
    using world_okD(1) [OF w, of a] new_lock_ok [OF w] by (auto intro!: enter_ok [OF w] split: option.split)
next
  case (Created i)
  then show ?thesis using world_okD(1) [OF w, of a] t by (auto intro!: enter_ok [OF w] simp: timely_def)
next
  case (Stamped i c)
  then show ?thesis using write_metadata_ok [OF w _ su t] by simp
next
  case (Loaded i st)
  then show ?thesis using write_update_ok [OF w] by simp
next
  case (Aborting i)
  then show ?thesis using world_okD(1) [OF w, of a] by (auto intro!: unlink_ok [OF w])
next
  case (Unlinking i e)
  then show ?thesis using world_okD(1) [OF w, of a] by (auto intro!: unlink_ok [OF w] del: imageE)
next
  case (Looking t')
  then show ?thesis
    using world_okD(1) [OF w, of a] named_inode [OF w t] by (auto intro!: enter_ok [OF w] split: option.split)
next
  case (Reading t' i r)
  then show ?thesis
    using world_okD(1) [OF w, of a] world_okD(3) [OF w, of i]
    by (fastforce intro!: enter_ok [OF w] simp: readLockMetadata_def inode_ok_def split: option.split)
next
  case (Stating t')
  then show ?thesis
    using world_okD(1) [OF w, of a] named_inode [OF w t]
    by (fastforce intro!: enter_ok [OF w] simp: named_lock_def inode_ok_def split: option.split)
next
  case (Comparing t' d r)
  moreover from this have "\<not> d \<le> lw_now w"
    using world_okD(1) [OF w, of a] t D unfolding timely_def by fastforce
  ultimately show ?thesis using world_okD(1) [OF w, of a] by (auto intro!: enter_ok [OF w])
next
  case (Releasing i e)
  then show ?thesis
    using world_okD(1) [OF w, of a] by (auto intro!: enter_ok [OF w] simp: owns_def split: option.split del: imageE)
next
  case (Checking i e j)
  then show ?thesis
    using world_okD(1) [OF w, of a] by (auto intro!: enter_ok [OF w] simp: written_def del: imageE)
qed (use world_okD(1) [OF w, of a] in \<open>auto intro!: enter_ok [OF w] w simp: owns_def del: imageE\<close>)

lemma lock_step_ok:
  assumes w: "world_ok su D1 st0 w" and t: "timely D1 D2 w" and su: "setup_ok su" and D: "D1 + D2 \<le> staleLockMs"
  shows "world_ok su D1 st0 (lock_step su ev w)"
proof (cases ev)
  case (Move a)
  then show ?thesis using move_ok [OF w t su D] by simp
next
  case (Fail a)
  then show ?thesis
    using world_okD(1) [OF w, of a] by (cases "lw_phase w a") (auto intro!: enter_ok [OF w] simp: owns_def del: imageE)
next
  case (Crash a)
  have "phase_ok su D1 w a (Dead (held (lw_phase w a)))"
    using phase_ok_owns [OF world_okD(1) [OF w]] by simp
  then show ?thesis using Crash by (auto intro!: enter_ok [OF w])
next
  case (Tick n)
  have "phase_ok su D1 (w \<lparr> lw_now := lw_now w + int n \<rparr>) b p" if "phase_ok su D1 w b p" for b p
    using that by (cases p) (auto simp: owns_def written_def readLockMetadata_def)
  then show ?thesis using Tick world_okD [OF w] unfolding world_ok_def by simp
qed

lemma new_world_ok: "world_ok su D1 st0 (new_world now st0)"
  by (simp add: world_ok_def new_world_def)

lemma lock_run_ok:
  assumes "lock_run su D1 D2 (new_world now st0) w" "setup_ok su" "D1 + D2 \<le> staleLockMs"
  shows "world_ok su D1 st0 w" "timely D1 D2 w"
proof -
  have "world_ok su D1 st0 w \<and> timely D1 D2 w"
    using assms(1)
  proof (induction rule: lock_run.induct)
    case lock_start
    then show ?case by (simp add: new_world_ok)
  next
    case (lock_more w ev)
    then show ?case using lock_step_ok [OF _ _ assms(2,3)] by blast
  qed
  then show "world_ok su D1 st0 w" "timely D1 D2 w" by simp_all
qed

section \<open>The updates of the store file\<close>

text \<open>Process \<open>a\<close> runs the store operation \<open>op a\<close> at the time \<open>tm a\<close>.\<close>

definition file_setup ::
  "(string \<Rightarrow> string) \<Rightarrow> (nat \<Rightarrow> int \<times> disk_event) \<Rightarrow> (nat \<Rightarrow> string) \<Rightarrow> (nat \<Rightarrow> int) \<Rightarrow> (nat \<Rightarrow> string) \<Rightarrow> (path_entry, disk_result) lock_setup" where
  "file_setup sha op token pid host = \<lparr> su_update = (\<lambda>a f. case op a of (now, e) \<Rightarrow> (case file_apply sha e now f of
       (Threw err, f') \<Rightarrow> Inl err | r \<Rightarrow> Inr r)), su_token = token, su_pid = pid, su_hostname = host \<rparr>"

lemma serial_length: "serial su xs st = (rs, st') \<Longrightarrow> length rs \<le> length xs"
  by (induction xs arbitrary: st rs) (auto split: sum.splits prod.splits intro: le_SucI)

lemma serial_is_file_run:
  "serial (file_setup sha op token pid host) as f = (rs, f') \<Longrightarrow> map fst rs = as \<Longrightarrow> file_run sha (map op as) f = (map snd rs, f')"
proof (induction as arbitrary: f rs)
  case (Cons a as)
  obtain now e where op: "op a = (now, e)" by (cases "op a")
  obtain r f1 where ap: "file_apply sha e now f = (r, f1)" by (cases "file_apply sha e now f")
  obtain rs' where s: "serial (file_setup sha op token pid host) as f1 = (rs', f')" "rs = (a, r) # rs'"
  proof (cases r)
    case (Threw err)
    then have "serial (file_setup sha op token pid host) as f = (rs, f')" using Cons.prems(1) op ap by (simp add: file_setup_def)
    from serial_length [OF this] Cons.prems(2) show ?thesis by auto
  qed (use Cons.prems(1) op ap in \<open>auto simp: file_setup_def intro: that split: prod.splits\<close>)
  with Cons show ?case by (simp add: op ap)
qed simp


definition sample_lock_setup :: "(path_entry, disk_result) lock_setup" where
  "sample_lock_setup = file_setup sample_sha (\<lambda>a. (5, SaveSession file_session)) (\<lambda>i. ''token'') (\<lambda>a. 1) (\<lambda>a. ''host'')"

text \<open>One update, from its first call to the removal of its lock, with the given outcome of the syncing of the directory.\<close>

definition one_update :: "lock_event \<Rightarrow> (path_entry, disk_result) lock_world" where
  "one_update synced = fold (lock_step sample_lock_setup)
     [Move 0, Move 0, Move 0, Move 0, Move 0, Move 0, synced, Move 0, Move 0, Move 0] (new_world 0 Missing)"

lemma one_update_run:
    "lock_run sample_lock_setup 1000 1000 (new_world 0 Missing) (one_update (Move 0))"
    "lock_run sample_lock_setup 1000 1000 (new_world 0 Missing) (one_update (Fail 0))"
  and one_update_ended: "lw_phase (one_update (Move 0)) 0 = Ended Completed" "lw_phase (one_update (Fail 0)) 0 = Ended Unsynced"
proof -
  let ?su = "sample_lock_setup"
  define i0 where "i0 = \<lparr> li_mtime = 0, li_text = [], li_owner = 0, li_born = 0 \<rparr>"
  define i1 where "i1 = i0 \<lparr> li_text := lock_text (own_metadata ?su 0 0 0) \<rparr>"
  define W :: "nat option \<Rightarrow> lock_inode list \<Rightarrow> path_entry lock_phase \<Rightarrow> path_entry \<Rightarrow> (nat \<times> disk_result) list \<Rightarrow> (path_entry, disk_result) lock_world"
    where "W path inodes p st rs = \<lparr> lw_now = 0, lw_path = path, lw_inodes = inodes, lw_phase = (\<lambda>a. Idle)(0 := p), lw_store = st, lw_log = rs \<rparr>"
    for path inodes p st rs
  have "parseLockMetadata (lock_text (own_metadata ?su 0 0 0)) = Some (own_metadata ?su 0 0 0)"
    by (intro own_metadata_parsed) (auto simp: setup_ok_def sample_lock_setup_def file_setup_def max_safe_integer_def staleLockMs_def)
  then have token: "map_option lk_token (parseLockMetadata (lock_text (own_metadata ?su 0 0 0))) = Some (su_token ?su 0)"
    by (simp add: own_metadata_def)
  have "event_storable 5 (SaveSession file_session)" "seconds_ok 5" "readStore Missing = Inr emptyStoreState" by code_simp+
  then obtain f' where "file_apply sample_sha (SaveSession file_session) 5 Missing = (Done, f')"
    using file_apply_refines [OF _ empty_storable, of Missing 5 "SaveSession file_session" sample_sha Done] sample_sha_hash by auto
  then have update: "su_update ?su 0 Missing = Inr (Done, f')" by (simp add: sample_lock_setup_def file_setup_def)
  note steps = W_def enter_def new_lock_def write_metadata_def write_update_def readLockMetadata_def unlink_lock_def i0_def i1_def
    named_lock_def token Let_def update timely_def max_safe_integer_def staleLockMs_def
  let ?run = "lock_run ?su 1000 1000 (new_world 0 Missing)"
  have "new_world 0 Missing = W None [] Idle Missing []" by (simp add: new_world_def W_def fun_upd_idem)
  moreover have "timely 1000 1000 (W None [] Idle Missing [])" by (simp add: steps)
  ultimately have start: "?run (W None [] Idle Missing [])" using lock_start by metis
  have again: "?run w'" if "?run w" "lock_step ?su ev w = w'" "timely 1000 1000 w'" for ev w w'
    using lock_more [of ?su 1000 1000 "new_world 0 Missing" w ev] that by simp
  have s1: "lock_step ?su (Move 0) (W None [] Idle Missing []) = W None [] (Trying 0) Missing []" by (simp add: steps)
  have s2: "lock_step ?su (Move 0) (W None [] (Trying 0) Missing []) = W (Some 0) [i0] (Created 0) Missing []" by (simp add: steps)
  have s3: "lock_step ?su (Move 0) (W (Some 0) [i0] (Created 0) Missing []) = W (Some 0) [i0] (Stamped 0 0) Missing []" by (simp add: steps)
  have s4: "lock_step ?su (Move 0) (W (Some 0) [i0] (Stamped 0 0) Missing []) = W (Some 0) [i1] (Holding 0) Missing []" by (simp add: steps)
  have s5: "lock_step ?su (Move 0) (W (Some 0) [i1] (Holding 0) Missing []) = W (Some 0) [i1] (Loaded 0 Missing) Missing []" by (simp add: steps)
  have s6: "lock_step ?su (Move 0) (W (Some 0) [i1] (Loaded 0 Missing) Missing []) = W (Some 0) [i1] (Renamed 0) f' [(0, Done)]"
    by (simp add: steps)
  have s7: "lock_step ?su (Move 0) (W (Some 0) [i1] (Renamed 0) f' [(0, Done)]) = W (Some 0) [i1] (Releasing 0 Completed) f' [(0, Done)]"
    "lock_step ?su (Fail 0) (W (Some 0) [i1] (Renamed 0) f' [(0, Done)]) = W (Some 0) [i1] (Releasing 0 Unsynced) f' [(0, Done)]"
    by (simp_all add: steps)
  have s8: "lock_step ?su (Move 0) (W (Some 0) [i1] (Releasing 0 e) f' [(0, Done)]) = W (Some 0) [i1] (Checking 0 e 0) f' [(0, Done)]"
    and s9: "lock_step ?su (Move 0) (W (Some 0) [i1] (Checking 0 e 0) f' [(0, Done)]) = W (Some 0) [i1] (Unlinking 0 e) f' [(0, Done)]"
    and s10: "lock_step ?su (Move 0) (W (Some 0) [i1] (Unlinking 0 e) f' [(0, Done)]) = W None [i1] (Ended e) f' [(0, Done)]" for e
    by (simp_all add: steps)
  have timely: "timely 1000 1000 (W path [i0] p st rs)" "timely 1000 1000 (W path [i1] p st rs)"
    if "held p \<in> {None, Some 0}" "\<And>t d r. p \<noteq> Comparing t d r" for path p st rs
    using that by (auto simp: steps)
  have "timely 1000 1000 (W None [] (Trying 0) Missing [])" by (simp add: steps)
  note r1 = again [OF start s1 this]
  note r2 = again [OF r1 s2 timely(1)]
  note r3 = again [OF r2 s3 timely(1)]
  note r4 = again [OF r3 s4 timely(2)]
  note r5 = again [OF r4 s5 timely(2)]
  note r6 = again [OF r5 s6 timely(2)]
  note r7 = again [OF r6 s7(1) timely(2)] again [OF r6 s7(2) timely(2)]
  have ended: "?run (W None [i1] (Ended e) f' [(0, Done)])" if r: "?run (W (Some 0) [i1] (Releasing 0 e) f' [(0, Done)])" for e
    by (rule again [OF again [OF again [OF r s8 timely(2)] s9 timely(2)] s10 timely(2)]) simp_all
  have world: "one_update (Move 0) = W None [i1] (Ended Completed) f' [(0, Done)]" "one_update (Fail 0) = W None [i1] (Ended Unsynced) f' [(0, Done)]"
    unfolding one_update_def fold.simps comp_def id_def \<open>new_world 0 Missing = W None [] Idle Missing []\<close> s1 s2 s3 s4 s5 s6 s7 s8 s9 s10
    by (rule refl)+
  show "?run (one_update (Move 0))" "?run (one_update (Fail 0))"
    unfolding world by (rule ended, rule r7; simp)+
  show "lw_phase (one_update (Move 0)) 0 = Ended Completed" "lw_phase (one_update (Fail 0)) 0 = Ended Unsynced"
    unfolding world by (simp_all add: W_def)
qed


section \<open>Stale locks\<close>

text \<open>A counter as the store: every update adds one.\<close>

definition counter_setup :: "(int, unit) lock_setup" where
  "counter_setup = \<lparr> su_update = (\<lambda>a n. Inr ((), n + 1)), su_token = (\<lambda>i. ''token''), su_pid = (\<lambda>a. 1), su_hostname = (\<lambda>a. ''host'') \<rparr>"

text \<open>Process 0 dies with the lock; five minutes later 1 and 2 find it stale, and 2 removes the file only after 1 has replaced it.\<close>

definition stale_race :: "lock_event list" where
  "stale_race = replicate 4 (Move 0) @ [Crash 0, Tick 300000] @ replicate 5 (Move 1) @ replicate 5 (Move 2) @
     replicate 2 (Move 1) @ [Tick 10] @ replicate 5 (Move 1) @ replicate 2 (Move 2) @ [Tick 10] @ replicate 5 (Move 2) @ [Move 1, Move 2, Move 1, Move 2]"

text \<open>C37: The recovery of a stale lock removes whatever file is at the path by then: after the death of one process two others
  recover its lock, both work on the store at once, and one of the two updates that complete is lost.\<close>

theorem stale_lock_loses_update:
  "lw_log (fold (lock_step counter_setup) stale_race (new_world 0 0)) = [(1, ()), (2, ())] \<and>
   lw_store (fold (lock_step counter_setup) stale_race (new_world 0 0)) = 1"
proof -
  have parsed: "parseLockMetadata (lock_text (own_metadata counter_setup a i c)) = Some (own_metadata counter_setup a i c)"
    if "0 \<le> c" "c \<le> 1000000" for a i c
    using that by (intro own_metadata_parsed) (auto simp: setup_ok_def counter_setup_def max_safe_integer_def staleLockMs_def)
  have lists: "replicate 2 x = [x, x]" "replicate 4 x = [x, x, x, x]" "replicate 5 x = [x, x, x, x, x]" for x :: lock_event
    by (simp_all add: numeral_eq_Suc)
  have fields: "su_update counter_setup a n = Inr ((), n + 1)" "lk_staleAtMs (own_metadata counter_setup a i c) = c + 300000" for a n i c
    by (simp_all add: counter_setup_def own_metadata_def staleLockMs_def)
  show ?thesis
    by (simp add: stale_race_def lists fields new_world_def enter_def new_lock_def write_metadata_def write_update_def readLockMetadata_def
        unlink_lock_def named_lock_def parsed Let_def lockTimeoutMs_def lockPollMs_def)
qed

end
