(* ===== verification/Actions.thy ===== *)
theory Actions
  imports Mcp_Tool_Properties Server_Properties
begin

text \<open>
  The API for GPT Actions (\<open>src/actions\<close>): the contract of its three operations, the OpenAPI document built from
  it (\<open>action-contract.ts\<close>, \<open>openapi-document.ts\<close>), and the handlers with their middleware and bearer check
  (\<open>endpoints.*.ts\<close>, \<open>authorization-header-middleware.ts\<close>, \<open>action-bearer.ts\<close>).
\<close>

section \<open>The contract\<close>

datatype action_name = Health | Profile | Session

definition action_text :: "action_name \<Rightarrow> string" where
  "action_text n = (case n of Health \<Rightarrow> ''health'' | Profile \<Rightarrow> ''profile'' | Session \<Rightarrow> ''session'')"

text \<open>The method of a route is always \<open>GET\<close>.\<close>

record action_route =
  ro_name :: action_name
  ro_path :: string
  ro_auth :: bool

record action_operation =
  ao_name :: action_name
  ao_operationId :: string
  ao_summary :: string
  ao_description :: string
  ao_scopes :: "string list"
  ao_successDescription :: string
  ao_successSchema :: string

definition apostrophe :: string where "apostrophe = [char_of (39 :: nat)]"

definition schemaProperty :: "string \<Rightarrow> js_object \<Rightarrow> json" where
  "schemaProperty description schema = JObj (schema @ [(''description'', JStr description)])"

definition actionObjectSchema :: "string \<Rightarrow> string list \<Rightarrow> js_object \<Rightarrow> json" where
  "actionObjectSchema description required properties = JObj [(''type'', JStr ''object''), (''description'', JStr description),
     (''additionalProperties'', JBool False), (''required'', JStrs required), (''properties'', JObj properties)]"

definition typed :: "string \<Rightarrow> js_object" where "typed t = [(''type'', JStr t)]"

definition healthResponseSchema :: json where
  "healthResponseSchema = actionObjectSchema ''Service reachability response for GPT Actions.'' [''status'', ''time'', ''service'']
     [(''status'', schemaProperty ''Fixed health status value returned when the service is reachable.'' (typed ''string'' @ [(''enum'', JStrs [''ok''])])),
      (''time'', schemaProperty ''Server time when the health response was produced.'' (typed ''string'' @ [(''format'', JStr ''date-time'')])),
      (''service'', schemaProperty ''Service identifier that produced the health response.'' (typed ''string''))]"

definition userProfileSchema :: json where
  "userProfileSchema = actionObjectSchema ''OpenID Connect profile for the authenticated user.''
     [''sub'', ''given_name'', ''family_name'', ''name'', ''preferred_username'', ''email'', ''email_verified'']
     [(''sub'', schemaProperty ''Stable subject identifier for the authenticated user.'' (typed ''string'')),
      (''given_name'', schemaProperty ''Given name for the authenticated user.'' (typed ''string'')),
      (''family_name'', schemaProperty ''Family name for the authenticated user.'' (typed ''string'')),
      (''name'', schemaProperty ''Full display name for the authenticated user.'' (typed ''string'')),
      (''preferred_username'', schemaProperty ''Preferred username for the authenticated user.'' (typed ''string'')),
      (''email'', schemaProperty ''Verified email address for the authenticated user.'' (typed ''string'' @ [(''format'', JStr ''email'')])),
      (''email_verified'', schemaProperty ''Email verification status for the authenticated user.'' (typed ''boolean''))]"

definition sessionResponseSchema :: json where
  "sessionResponseSchema = actionObjectSchema ''OAuth token session metadata for the authenticated request.'' [''subject'', ''clientId'', ''audience'', ''scopes'']
     [(''subject'', schemaProperty ''Subject identifier bound to the access token.'' (typed ''string'')),
      (''clientId'', schemaProperty ''OAuth client identifier bound to the access token.'' (typed ''string'')),
      (''audience'', schemaProperty ''Audience value accepted for the access token.'' (typed ''string'')),
      (''scopes'', schemaProperty ''OAuth scopes granted to the access token.''
        (typed ''array'' @ [(''items'', JObj (typed ''string'' @ [(''description'', JStr ''Granted OAuth scope.'')]))]))]"

definition errorResponseSchema :: json where
  "errorResponseSchema = actionObjectSchema ''Standard Encore error response exposed to GPT Actions.'' [''code'', ''message'', ''details'', ''internal_message'']
     [(''code'', schemaProperty ''Stable error code returned by the service.'' (typed ''string'')),
      (''message'', schemaProperty ''Safe error message returned to the caller.'' (typed ''string'')),
      (''details'', schemaProperty ''Structured error details when available.'' []),
      (''internal_message'', schemaProperty ''Nullable field retained for the live error contract.'' [(''type'', JStrs [''string'', ''null''])])]"

definition actionSchemas :: js_object where
  "actionSchemas = [(''HealthResponse'', healthResponseSchema), (''UserProfile'', userProfileSchema),
     (''SessionResponse'', sessionResponseSchema), (''ErrorResponse'', errorResponseSchema)]"

definition actionOAuthScopes :: js_object where
  "actionOAuthScopes = [(''openid'', JStr ''Identify the signed-in user.''), (''profile'', JStr ''Read the user profile.''),
     (''email'', JStr ''Read the user email address.'')]"

definition actionOperationDefinitions :: "action_operation list" where
  "actionOperationDefinitions =
    [\<lparr> ao_name = Health, ao_operationId = ''getServiceHealth'', ao_summary = ''Check service health'',
       ao_description = ''Return service health status so ChatGPT can verify the service is reachable before protected calls.'',
       ao_scopes = [], ao_successDescription = ''Service health.'', ao_successSchema = ''HealthResponse'' \<rparr>,
     \<lparr> ao_name = Profile, ao_operationId = ''getAuthenticatedProfile'', ao_summary = ''Get authenticated profile'',
       ao_description = ''Return the signed-in user'' @ apostrophe @ ''s OpenID Connect profile fields for identity-aware GPT Actions.'',
       ao_scopes = [''openid'', ''profile'', ''email''], ao_successDescription = ''Authenticated user profile.'', ao_successSchema = ''UserProfile'' \<rparr>,
     \<lparr> ao_name = Session, ao_operationId = ''getAuthenticatedSession'', ao_summary = ''Get authenticated session'',
       ao_description = ''Return OAuth token session metadata, including subject, client ID, audience, and granted scopes.'',
       ao_scopes = [''openid''], ao_successDescription = ''Authenticated session metadata.'', ao_successSchema = ''SessionResponse'' \<rparr>]"

definition operationDefinition :: "action_name \<Rightarrow> action_operation outcome" where
  "operationDefinition name = (case List.find (\<lambda>d. ao_name d = name) actionOperationDefinitions of
     None \<Rightarrow> Inl (PlainError (''unknown Actions operation '' @ action_text name)) | Some d \<Rightarrow> Inr d)"

definition assertRouteMatchesOperation :: "action_route \<Rightarrow> action_operation \<Rightarrow> unit outcome" where
  "assertRouteMatchesOperation route d = (if ro_auth route \<noteq> (ao_scopes d \<noteq> [])
     then Inl (PlainError (''Actions route auth mismatch for '' @ action_text (ro_name route))) else Inr ())"

definition jsonResponse :: "string \<Rightarrow> string \<Rightarrow> json" where
  "jsonResponse description schema = JObj [(''description'', JStr description), (''content'', JObj [(''application/json'',
     JObj [(''schema'', JObj [(''$ref'', JStr (''#/components/schemas/'' @ schema))])])])]"

definition operation :: "action_operation \<Rightarrow> js_object" where
  "operation d = [(''operationId'', JStr (ao_operationId d)), (''summary'', JStr (ao_summary d)), (''description'', JStr (ao_description d)),
     (''tags'', JStrs [''Actions'']), (''x-openai-isConsequential'', JBool False),
     (''responses'', JObj ((''200'', jsonResponse (ao_successDescription d) (ao_successSchema d)) #
        (if ao_scopes d \<noteq> [] then [(''401'', jsonResponse ''Invalid bearer token.'' ''ErrorResponse''),
           (''403'', jsonResponse ''Missing required scope.'' ''ErrorResponse'')] else [])))] @
     (if ao_scopes d \<noteq> [] then [(''security'', JArr [JObj [(''OAuth2'', JStrs (ao_scopes d))]])] else [])"

fun action_paths :: "js_object \<Rightarrow> action_route list \<Rightarrow> js_object outcome" where
  "action_paths paths [] = Inr paths"
| "action_paths paths (route # routes) = bindr (operationDefinition (ro_name route)) (\<lambda>d.
     bindr (assertRouteMatchesOperation route d) (\<lambda>_.
       action_paths (AList.update (ro_path route) (JObj [(''get'', JObj (operation d))]) paths) routes))"

definition actionPaths :: "action_route list \<Rightarrow> js_object outcome" where "actionPaths routes = action_paths [] routes"

definition oauthScheme :: "string \<Rightarrow> json" where
  "oauthScheme baseUrl = JObj [(''type'', JStr ''oauth2''), (''flows'', JObj [(''authorizationCode'', JObj
     [(''authorizationUrl'', JStr (baseUrl @ ''/oauth/authorize'')), (''tokenUrl'', JStr (baseUrl @ ''/oauth/token'')),
      (''scopes'', JObj actionOAuthScopes)])])]"

definition actionComponents :: "string \<Rightarrow> json" where
  "actionComponents baseUrl = JObj [(''securitySchemes'', JObj [(''OAuth2'', oauthScheme baseUrl)]), (''schemas'', JObj actionSchemas)]"

fun assert_routes :: "action_name list \<Rightarrow> action_route list \<Rightarrow> unit outcome" where
  "assert_routes names [] = (case List.find (\<lambda>d. \<not> List.member names (ao_name d)) actionOperationDefinitions of
     None \<Rightarrow> Inr () | Some d \<Rightarrow> Inl (PlainError (''missing Actions route '' @ action_text (ao_name d))))"
| "assert_routes names (route # routes) =
    (if List.member names (ro_name route) then Inl (PlainError (''duplicate Actions route '' @ action_text (ro_name route)))
     else bindr (operationDefinition (ro_name route)) (\<lambda>d. bindr (assertRouteMatchesOperation route d) (\<lambda>_.
       assert_routes (ro_name route # names) routes)))"

definition assertActionRouteManifest :: "action_route list \<Rightarrow> unit outcome" where
  "assertActionRouteManifest routes = assert_routes [] routes"

definition actionRouteManifest :: "action_route list" where
  "actionRouteManifest = [\<lparr> ro_name = Health, ro_path = ''/health'', ro_auth = False \<rparr>,
     \<lparr> ro_name = Profile, ro_path = ''/actions/profile'', ro_auth = True \<rparr>,
     \<lparr> ro_name = Session, ro_path = ''/actions/session'', ro_auth = True \<rparr>]"

definition openApiDocument :: "string \<Rightarrow> action_route list \<Rightarrow> js_object outcome" where
  "openApiDocument baseUrl routes = bindr (actionPaths routes) (\<lambda>paths. Inr
     [(''openapi'', JStr ''3.1.0''),
      (''info'', JObj [(''title'', JStr ''GPT MCP Service Actions API''),
         (''description'', JStr ''OAuth-protected profile and session actions for the GPT MCP Service.''), (''version'', JStr ''0.1.0'')]),
      (''servers'', JArr [JObj [(''url'', JStr baseUrl)]]), (''x-source'', JStr ''actions-contract-registry''),
      (''x-route-graph-verification'', JStr ''encore-check''), (''paths'', JObj paths), (''components'', actionComponents baseUrl)])"

section \<open>Handlers\<close>

text \<open>The errors of Encore's \<open>APIError\<close> that the code throws, and any other exception, which it lets through.\<close>

datatype api_error = Permission_denied string | Unauthenticated string | Invalid_argument string | Uncaught js_error

type_synonym 'a api_outcome = "api_error + 'a"

datatype header_value = One string | Many "string list"

definition headerValue :: "(string \<times> header_value) list \<Rightarrow> string \<Rightarrow> header_value option" where
  "headerValue headers name = map_option snd (List.find (\<lambda>(key, v). to_lower key = to_lower name) headers)"

definition hasMultipleAuthorizationValues :: "(string \<times> header_value) list \<Rightarrow> bool" where
  "hasMultipleAuthorizationValues headers = (case headerValue headers ''authorization'' of
     Some (Many vs) \<Rightarrow> 1 < length vs | _ \<Rightarrow> False)"

text \<open>The middleware around a handler; \<open>None\<close> is a request that is no API call.\<close>

definition rejectDuplicateAuthorizationHeaders :: "(string \<times> header_value) list option \<Rightarrow> 'a api_outcome \<Rightarrow> 'a api_outcome" where
  "rejectDuplicateAuthorizationHeaders meta handled =
    (if case meta of Some headers \<Rightarrow> hasMultipleAuthorizationValues headers | None \<Rightarrow> False
     then Inl (Invalid_argument ''duplicate authorization header'') else handled)"

definition rejectActionAccessTokenQuery :: "string option \<Rightarrow> unit api_outcome" where
  "rejectActionAccessTokenQuery accessToken = (if accessToken \<noteq> None
     then Inl (Invalid_argument ''access tokens must use the authorization header'') else Inr ())"

definition verifyActionBearer ::
  "('k, 'p, 's, 'u) service \<Rightarrow> int \<Rightarrow> string \<Rightarrow> string list \<Rightarrow> access_token_claims api_outcome" where
  "verifyActionBearer sv now authorization scopes =
    try_catch (bindr (sv_config sv) (\<lambda>config. bindr (sv_keySet sv config) (\<lambda>ks.
        verifyBearer (sv_crypto sv) config (ks_verificationKeys ks) now (Some authorization) (actionsAudience config) scopes)))
      (\<lambda>e. case as_service_error e of
         Some (c, message, status) \<Rightarrow> if status = 403 then Inl (Permission_denied ''insufficient scope'') else Inl (Unauthenticated ''invalid bearer token'')
       | None \<Rightarrow> Inl (Unauthenticated ''invalid bearer token''))"

definition actionScopes :: "action_name \<Rightarrow> string list" where
  "actionScopes name = (case operationDefinition name of Inl e \<Rightarrow> [] | Inr d \<Rightarrow> ao_scopes d)"

definition healthAction :: "string \<Rightarrow> json api_outcome" where
  "healthAction timestamp = Inr (publicHealthSnapshot timestamp)"

definition profileAction :: "('k, 'p, 's, 'u) service \<Rightarrow> int \<Rightarrow> string \<Rightarrow> string option \<Rightarrow> json api_outcome" where
  "profileAction sv now authorization accessToken = bindr (rejectActionAccessTokenQuery accessToken) (\<lambda>_.
     bindr (verifyActionBearer sv now authorization (actionScopes Profile)) (\<lambda>claims.
       try_catch (bindr (userProfileFromClaims (claims_profile claims)) (\<lambda>user. Inr (profile_json user))) (\<lambda>e. Inl (Uncaught e))))"

definition sessionAction :: "('k, 'p, 's, 'u) service \<Rightarrow> int \<Rightarrow> string \<Rightarrow> string option \<Rightarrow> json api_outcome" where
  "sessionAction sv now authorization accessToken = bindr (rejectActionAccessTokenQuery accessToken) (\<lambda>_.
     bindr (verifyActionBearer sv now authorization (actionScopes Session)) (\<lambda>claims. Inr (session_json claims)))"

text \<open>The routes: those that need authentication run behind the middleware.\<close>

definition runAction ::
  "('k, 'p, 's, 'u) service \<Rightarrow> action_name \<Rightarrow> (string \<times> header_value) list option \<Rightarrow> int \<Rightarrow> string \<Rightarrow> string \<Rightarrow> string option \<Rightarrow> json api_outcome" where
  "runAction sv name meta now timestamp authorization accessToken = (case name of
     Health \<Rightarrow> healthAction timestamp
   | Profile \<Rightarrow> rejectDuplicateAuthorizationHeaders meta (profileAction sv now authorization accessToken)
   | Session \<Rightarrow> rejectDuplicateAuthorizationHeaders meta (sessionAction sv now authorization accessToken))"

section \<open>The answers keep the contract\<close>

lemma try_catch_Inl_eq_Inr: "try_catch r (\<lambda>e. Inl (f e)) = Inr x \<longleftrightarrow> r = Inr x"
  by (cases r) auto

definition definition_of :: "action_name \<Rightarrow> action_operation" where
  "definition_of name = (case operationDefinition name of Inr d \<Rightarrow> d | Inl e \<Rightarrow> hd actionOperationDefinitions)"

lemma operationDefinition_total: "operationDefinition name = Inr (definition_of name)" and definition_of_name: "ao_name (definition_of name) = name"
  by (cases name; simp add: definition_of_def operationDefinition_def actionOperationDefinitions_def)+

lemma definition_of_simps:
  "definition_of Health = actionOperationDefinitions ! 0" "definition_of Profile = actionOperationDefinitions ! 1"
  "definition_of Session = actionOperationDefinitions ! 2"
  by (simp_all add: definition_of_def operationDefinition_def actionOperationDefinitions_def)

text \<open>C24: What an action answers is described by the schema that the contract publishes for it; and an action with scopes answers
  only a request with one authorization value, without a token in its query, whose bearer token the service accepts for the
  Actions audience and with those scopes, and tells the claims of that token.\<close>

theorem action_answers_keep_contract:
  assumes "runAction sv name meta now timestamp authorization accessToken = Inr body" "operationDefinition name = Inr d"
  shows "(\<exists>schema. field actionSchemas (ao_successSchema d) = Some schema \<and> matchesSchema schema body) \<and>
    (ao_scopes d \<noteq> [] \<longrightarrow> accessToken = None \<and> (\<forall>headers. meta = Some headers \<longrightarrow> \<not> hasMultipleAuthorizationValues headers) \<and>
      (\<exists>config ks token c. sv_config sv = Inr config \<and> sv_keySet sv config = Inr ks \<and> readBearer (Some authorization) = Inr token \<and>
        verifyAccessToken (sv_crypto sv) config (ks_verificationKeys ks) now token (actionsAudience config) (ao_scopes d) = Inr c \<and>
        set (ao_scopes d) \<subseteq> set (words_acc [] (cl_scope c)) \<and> now < cl_exp c \<and>
        (body = session_json c \<or> (\<exists>u. userProfileFromClaims (claims_profile c) = Inr u \<and> body = profile_json u))))"
proof -
  have d: "d = definition_of name" using assms(2) by (simp add: operationDefinition_total)
  have schemas: "matchesSchema healthResponseSchema (publicHealthSnapshot timestamp)" "\<And>u. matchesSchema userProfileSchema (profile_json u)"
    "\<And>c. matchesSchema sessionResponseSchema (session_json c)"
    by (simp_all add: healthResponseSchema_def userProfileSchema_def sessionResponseSchema_def actionObjectSchema_def schemaProperty_def typed_def
        schema_simps JStrs_def publicHealthSnapshot_def profile_json_def session_json_def same_primitive_def)
  have bearer: "\<exists>config ks token. sv_config sv = Inr config \<and> sv_keySet sv config = Inr ks \<and> readBearer (Some authorization) = Inr token \<and>
      verifyAccessToken (sv_crypto sv) config (ks_verificationKeys ks) now token (actionsAudience config) (ao_scopes d) = Inr c \<and>
      set (ao_scopes d) \<subseteq> set (words_acc [] (cl_scope c)) \<and> now < cl_exp c"
    if "verifyActionBearer sv now authorization (actionScopes name) = Inr c" for c
  proof -
    define r where "r = bindr (sv_config sv) (\<lambda>config. bindr (sv_keySet sv config) (\<lambda>ks.
        verifyBearer (sv_crypto sv) config (ks_verificationKeys ks) now (Some authorization) (actionsAudience config) (actionScopes name)))"
    have "r = Inr c" using that by (cases r) (auto simp: verifyActionBearer_def r_def [symmetric] split: option.splits if_splits)
    moreover have "actionScopes name = ao_scopes d" by (simp add: actionScopes_def assms(2))
    ultimately obtain config ks token where t: "sv_config sv = Inr config" "sv_keySet sv config = Inr ks" "readBearer (Some authorization) = Inr token"
      "verifyAccessToken (sv_crypto sv) config (ks_verificationKeys ks) now token (actionsAudience config) (ao_scopes d) = Inr c"
      by (auto simp: r_def verifyBearer_def bindr_eq_Inr)
    show ?thesis using t by (rule_tac accepted_token [OF t(4)]) blast
  qed
  have fields: "field actionSchemas ''HealthResponse'' = Some healthResponseSchema" "field actionSchemas ''UserProfile'' = Some userProfileSchema"
    "field actionSchemas ''SessionResponse'' = Some sessionResponseSchema"
    by (simp_all add: actionSchemas_def)
  show ?thesis
  proof (cases name)
    case Health
    then show ?thesis using assms(1) schemas(1) fields(1)
      by (simp add: runAction_def healthAction_def d definition_of_simps actionOperationDefinitions_def)
  next
    case Profile
    with assms(1) obtain c u where c: "verifyActionBearer sv now authorization (actionScopes name) = Inr c"
      "userProfileFromClaims (claims_profile c) = Inr u" "body = profile_json u" "accessToken = None"
      "\<forall>headers. meta = Some headers \<longrightarrow> \<not> hasMultipleAuthorizationValues headers"
      by (auto simp: runAction_def rejectDuplicateAuthorizationHeaders_def profileAction_def rejectActionAccessTokenQuery_def try_catch_Inl_eq_Inr
          bindr_eq_Inr split: if_splits sum.splits option.splits)
    moreover have "ao_successSchema d = ''UserProfile''" using Profile by (simp add: d definition_of_simps actionOperationDefinitions_def)
    ultimately show ?thesis using bearer [OF c(1)] schemas(2) fields(2) by auto
  next
    case Session
    with assms(1) obtain c where c: "verifyActionBearer sv now authorization (actionScopes name) = Inr c"
      "body = session_json c" "accessToken = None" "\<forall>headers. meta = Some headers \<longrightarrow> \<not> hasMultipleAuthorizationValues headers"
      by (auto simp: runAction_def rejectDuplicateAuthorizationHeaders_def sessionAction_def rejectActionAccessTokenQuery_def
          bindr_eq_Inr split: if_splits sum.splits option.splits)
    moreover have "ao_successSchema d = ''SessionResponse''" using Session by (simp add: d definition_of_simps actionOperationDefinitions_def)
    ultimately show ?thesis using bearer [OF c(1)] schemas(3) fields(3) by auto
  qed
qed

definition actions_config :: service_config where "actions_config = token_config \<lparr> actionsAudience := ''https://api/mcp'' \<rparr>"

definition actions_service :: "(string, string, store_state, string) service" where
  "actions_service = sample_service \<lparr> sv_config := Inr actions_config, sv_crypto := sample_crypto,
     sv_keySet := (\<lambda>config. Inr \<lparr> ks_active = token_key, ks_verificationKeys = [as_verification_key token_key] \<rparr>) \<rparr>"

lemma action_answers_keep_contract_witness:
  "\<exists>token (c :: access_token_claims). readBearer (Some (''Bearer '' @ session_token)) = Inr token \<and> 1299 < cl_exp c \<and> set [''openid''] \<subseteq> set (words_acc [] (cl_scope c))"
proof -
  let ?c = "access_claims_of token_config 1000 ''j'' token_input"
  have same: "issueAccessToken sample_crypto actions_config token_key 1000 ''j'' token_input = session_token"
    "access_claims_of actions_config 1000 ''j'' token_input = ?c" "issuer actions_config = issuer token_config"
    by (simp_all add: session_token_def issueAccessToken_def access_claims_of_def actions_config_def)
  have "verifyAccessToken sample_crypto actions_config [as_verification_key token_key] 1299 session_token (ai_audience token_input) [''openid''] = Inr ?c"
    using access_token_complete [of sample_crypto token_key "[as_verification_key token_key]" token_input actions_config "''j''" 1000 1299 "[''openid'']"]
      token_sample same
    by (simp add: session_token_def actions_config_def token_config_def token_input_def max_safe_integer_def)
  then have "verifyActionBearer actions_service 1299 (''Bearer '' @ session_token) (actionScopes Session) = Inr ?c"
    using session_token_header
    by (simp add: verifyActionBearer_def verifyBearer_def actions_service_def actionScopes_def operationDefinition_total definition_of_simps
        actionOperationDefinitions_def sample_call_def actions_config_def token_input_def)
  then have "runAction actions_service Session None 1299 [] (''Bearer '' @ session_token) None = Inr (session_json ?c)"
    by (simp add: runAction_def rejectDuplicateAuthorizationHeaders_def sessionAction_def rejectActionAccessTokenQuery_def)
  from action_answers_keep_contract [OF this operationDefinition_total] show ?thesis
    by (simp add: definition_of_simps actionOperationDefinitions_def) blast
qed

end
