(* ===== verification/Openapi_Check.thy ===== *)
theory Openapi_Check
  imports Actions
begin

text \<open>
  The checker that the build runs on the OpenAPI document of the Actions
  (\<open>tools/openapi-actions-compatibility.ts\<close>), and the proof that it accepts every document of the contract.
\<close>

section \<open>The compatibility checker\<close>

definition operationDescriptionLimit :: nat where "operationDescriptionLimit = 300"
definition parameterDescriptionLimit :: nat where "parameterDescriptionLimit = 700"

definition must_be_object :: "json option \<Rightarrow> string \<Rightarrow> js_object outcome" where
  "must_be_object v name = (case v of Some (JObj kvs) \<Rightarrow> Inr kvs | _ \<Rightarrow> Inl (PlainError (name @ '' must be an object'')))"

definition must_be_array :: "json option \<Rightarrow> string \<Rightarrow> json list outcome" where
  "must_be_array v name = (case v of Some (JArr vs) \<Rightarrow> Inr vs | _ \<Rightarrow> Inl (PlainError (name @ '' must be an array'')))"

definition must_be_text :: "json option \<Rightarrow> string \<Rightarrow> string outcome" where
  "must_be_text v name = (case v of Some (JStr (c # s)) \<Rightarrow> Inr (c # s) | _ \<Rightarrow> Inl (PlainError (name @ '' must be a string'')))"

definition assertTextLimit :: "json option \<Rightarrow> nat \<Rightarrow> string \<Rightarrow> unit outcome" where
  "assertTextLimit v limit name = (case v of
     Some (JStr (c # s)) \<Rightarrow> if length (c # s) > limit
       then Inl (PlainError (name @ '' must be '' @ decimal limit @ '' characters or less'')) else Inr ()
   | _ \<Rightarrow> Inl (PlainError (name @ '' is required'')))"

text \<open>A loop whose body may throw.\<close>

definition each :: "('a \<Rightarrow> unit outcome) \<Rightarrow> 'a list \<Rightarrow> unit outcome" where
  "each f xs = bindr (mapr f xs) (\<lambda>_. Inr ())"

definition assertInfo :: "js_object \<Rightarrow> unit outcome" where
  "assertInfo document = bindr (must_be_object (field document ''info'') ''info'') (\<lambda>info.
     bindr (assertTextLimit (field info ''title'') operationDescriptionLimit ''info title'') (\<lambda>_.
     bindr (assertTextLimit (field info ''description'') operationDescriptionLimit ''info description'') (\<lambda>_.
     assertTextLimit (field info ''version'') operationDescriptionLimit ''info version'')))"

definition first_of :: "'a list \<Rightarrow> 'a option" where "first_of xs = (case xs of [] \<Rightarrow> None | x # ys \<Rightarrow> Some x)"

definition readServerOrigin :: "url_parser \<Rightarrow> js_object \<Rightarrow> string outcome" where
  "readServerOrigin parse_url document = bindr (must_be_array (field document ''servers'') ''servers'') (\<lambda>servers.
     bindr (must_be_object (first_of servers) ''servers[0]'') (\<lambda>server.
     bindr (must_be_text (field server ''url'') ''servers[0].url'') (\<lambda>s.
     bindr (newURL parse_url s) (\<lambda>url. Inr (url_origin url)))))"

definition assertSharedOrigin :: "url_parser \<Rightarrow> string \<Rightarrow> js_object \<Rightarrow> string \<Rightarrow> unit outcome" where
  "assertSharedOrigin parse_url serverOrigin flow key = bindr (must_be_text (field flow key) (''OAuth2 '' @ key)) (\<lambda>s.
     bindr (newURL parse_url s) (\<lambda>url. if url_origin url \<noteq> serverOrigin
       then Inl (PlainError (''OAuth2 '' @ key @ '' must share the server origin'')) else Inr ()))"

definition readDeclaredOAuthScopes :: "url_parser \<Rightarrow> js_object \<Rightarrow> string \<Rightarrow> string list outcome" where
  "readDeclaredOAuthScopes parse_url document serverOrigin =
    bindr (must_be_object (field document ''components'') ''components'') (\<lambda>components.
    bindr (must_be_object (field components ''securitySchemes'') ''components.securitySchemes'') (\<lambda>schemes.
    bindr (must_be_object (field schemes ''OAuth2'') ''components.securitySchemes.OAuth2'') (\<lambda>oauth2.
    bindr (must_be_object (field oauth2 ''flows'') ''components.securitySchemes.OAuth2.flows'') (\<lambda>flows.
    bindr (must_be_object (field flows ''authorizationCode'') ''components.securitySchemes.OAuth2.flows.authorizationCode'') (\<lambda>flow.
    bindr (each (assertSharedOrigin parse_url serverOrigin flow) [''authorizationUrl'', ''tokenUrl'']) (\<lambda>_.
    bindr (must_be_object (field flow ''scopes'') ''components.securitySchemes.OAuth2.flows.authorizationCode.scopes'') (\<lambda>scopes.
    bindr (each (\<lambda>(scope, description). if scope = [] then Inl (PlainError ''OAuth2 scope name is required'')
        else assertTextLimit (Some description) parameterDescriptionLimit (''OAuth2 scope '' @ scope @ '' description'')) scopes) (\<lambda>_.
    if scopes = [] then Inl (PlainError ''OAuth2 flow must declare scopes'') else Inr (map fst scopes)))))))))"

definition assertComponentSchema :: "string \<times> json \<Rightarrow> unit outcome" where
  "assertComponentSchema entry = (case entry of (name, v) \<Rightarrow>
     bindr (must_be_object (Some v) (''components.schemas.'' @ name)) (\<lambda>schema.
     bindr (assertTextLimit (field schema ''description'') parameterDescriptionLimit (name @ '' schema description'')) (\<lambda>_.
     if field schema ''properties'' = None then Inr ()
     else bindr (must_be_object (field schema ''properties'') (''components.schemas.'' @ name @ ''.properties'')) (\<lambda>properties.
       each (\<lambda>(key, p). bindr (must_be_object (Some p) (''components.schemas.'' @ name @ ''.properties.'' @ key)) (\<lambda>property.
         assertTextLimit (field property ''description'') parameterDescriptionLimit (name @ ''.'' @ key @ '' property description''))) properties))))"

definition assertComponentSchemas :: "js_object \<Rightarrow> unit outcome" where
  "assertComponentSchemas document = bindr (must_be_object (field document ''components'') ''components'') (\<lambda>components.
     bindr (must_be_object (field components ''schemas'') ''components.schemas'') (\<lambda>schemas. each assertComponentSchema schemas))"

record found_operation =
  fo_name :: string
  fo_path :: string
  fo_operation :: js_object

definition httpMethods :: "string list" where
  "httpMethods = [''get'', ''put'', ''post'', ''delete'', ''patch'', ''options'', ''head'', ''trace'']"

definition to_upper :: "string \<Rightarrow> string" where
  "to_upper s = map (\<lambda>c. if is_lower c then char_of (code c - 32) else c) s"

definition path_operations :: "string \<times> json \<Rightarrow> found_operation list outcome" where
  "path_operations entry = (case entry of (path, v) \<Rightarrow> bindr (must_be_object (Some v) (''paths.'' @ path)) (\<lambda>item.
     mapr (\<lambda>(key, op). let name = to_upper key @ '' '' @ path in
         bindr (must_be_object (Some op) name) (\<lambda>kvs. Inr \<lparr> fo_name = name, fo_path = path, fo_operation = kvs \<rparr>))
       (filter (\<lambda>(key, op). List.member httpMethods key) item)))"

definition operations :: "js_object \<Rightarrow> found_operation list outcome" where
  "operations document = bindr (must_be_object (field document ''paths'') ''paths'') (\<lambda>paths.
     bindr (mapr path_operations paths) (\<lambda>found. Inr (concat found)))"

definition is_operation_id :: "string \<Rightarrow> bool" where
  "is_operation_id s = (s \<noteq> [] \<and> length s \<le> 64 \<and> (is_lower (hd s) \<or> is_upper (hd s)) \<and> list_all (\<lambda>c. is_alnum c \<or> c = CHR ''_'') s)"

fun assert_ids :: "string list \<Rightarrow> found_operation list \<Rightarrow> unit outcome" where
  "assert_ids ids [] = Inr ()"
| "assert_ids ids (op # ops) = bindr (must_be_text (field (fo_operation op) ''operationId'') (fo_name op @ '' operationId'')) (\<lambda>i.
     if \<not> is_operation_id i then Inl (PlainError (fo_name op @ '' operationId is invalid''))
     else if List.member ids i then Inl (PlainError (''duplicate operationId '' @ i))
     else assert_ids (i # ids) ops)"

definition assertOperationIds :: "found_operation list \<Rightarrow> unit outcome" where "assertOperationIds ops = assert_ids [] ops"

text \<open>\<open>!value\<close> of a JSON value.\<close>

definition falsy :: "json option \<Rightarrow> bool" where
  "falsy v = (case v of
     None \<Rightarrow> True | Some JNull \<Rightarrow> True | Some (JBool b) \<Rightarrow> \<not> b | Some (JStr s) \<Rightarrow> s = [] | Some (JNum n) \<Rightarrow> n = Finite 0 | Some _ \<Rightarrow> False)"

text \<open>The scopes of one requirement; a list with an entry that is no scope is passed over.\<close>

definition requirement_scopes :: "found_operation \<Rightarrow> json \<Rightarrow> string list outcome" where
  "requirement_scopes op v = bindr (must_be_object (Some v) (fo_name op @ '' security'')) (\<lambda>requirement.
     Inr (case field requirement ''OAuth2'' of
       Some (JArr scopes) \<Rightarrow> if list_all (\<lambda>s. case s of JStr x \<Rightarrow> x \<noteq> [] | _ \<Rightarrow> False) scopes
         then map (\<lambda>s. case s of JStr x \<Rightarrow> x | _ \<Rightarrow> []) scopes else []
     | _ \<Rightarrow> []))"

definition oauth2Scopes :: "found_operation \<Rightarrow> string list outcome" where
  "oauth2Scopes op = (case field (fo_operation op) ''security'' of
     Some (JArr security) \<Rightarrow> bindr (mapr (requirement_scopes op) security) (\<lambda>found. Inr (distinct_set (concat found)))
   | _ \<Rightarrow> Inr [])"

definition assertOperationSecurity :: "string list \<Rightarrow> found_operation \<Rightarrow> unit outcome" where
  "assertOperationSecurity declared op =
    (if \<not> starts_with ''/actions/'' (fo_path op) then Inr ()
     else bindr (oauth2Scopes op) (\<lambda>scopes.
       if scopes = [] then Inl (PlainError (fo_name op @ '' must declare OAuth2 security''))
       else bindr (each (\<lambda>scope. if List.member declared scope then Inr ()
           else Inl (PlainError (fo_name op @ '' uses undeclared OAuth2 scope '' @ scope))) scopes) (\<lambda>_.
         bindr (must_be_object (field (fo_operation op) ''responses'') (fo_name op @ '' responses'')) (\<lambda>responses.
           if falsy (field responses ''401'') \<or> falsy (field responses ''403'')
           then Inl (PlainError (fo_name op @ '' must declare OAuth2 error responses'')) else Inr ()))))"

fun assert_parameters :: "found_operation \<Rightarrow> nat \<Rightarrow> json list \<Rightarrow> unit outcome" where
  "assert_parameters op i [] = Inr ()"
| "assert_parameters op i (v # vs) =
    bindr (must_be_object (Some v) (fo_name op @ '' parameters['' @ decimal i @ '']'')) (\<lambda>parameter.
    if field parameter ''in'' = Some (JStr ''header'') then Inl (PlainError (fo_name op @ '' must not require custom headers''))
    else bindr (if field parameter ''description'' \<noteq> None
        then assertTextLimit (field parameter ''description'') parameterDescriptionLimit (fo_name op @ '' parameter description'') else Inr ()) (\<lambda>_.
      assert_parameters op (Suc i) vs))"

definition assertParameters :: "found_operation \<Rightarrow> unit outcome" where
  "assertParameters op = (if field (fo_operation op) ''parameters'' = None then Inr ()
     else bindr (must_be_array (field (fo_operation op) ''parameters'') (fo_name op @ '' parameters'')) (assert_parameters op 0))"

definition assertContentTypes :: "json option \<Rightarrow> string \<Rightarrow> unit outcome" where
  "assertContentTypes v name = bindr (must_be_object v (name @ '' content'')) (\<lambda>content.
     each (\<lambda>(contentType, c). if contentType \<noteq> ''application/json''
       then Inl (PlainError (name @ '' must use application/json content'')) else Inr ()) content)"

definition assertJsonContent :: "found_operation \<Rightarrow> unit outcome" where
  "assertJsonContent op =
    bindr (if field (fo_operation op) ''requestBody'' = None then Inr ()
      else bindr (must_be_object (field (fo_operation op) ''requestBody'') (fo_name op @ '' requestBody'')) (\<lambda>body.
        assertContentTypes (field body ''content'') (fo_name op @ '' requestBody''))) (\<lambda>_.
    bindr (must_be_object (field (fo_operation op) ''responses'') (fo_name op @ '' responses'')) (\<lambda>responses.
      each (\<lambda>(status, v). bindr (must_be_object (Some v) (fo_name op @ '' response '' @ status)) (\<lambda>response.
        if field response ''content'' \<noteq> None then assertContentTypes (field response ''content'') (fo_name op @ '' response '' @ status)
        else Inr ())) responses))"

definition assertOperation :: "string list \<Rightarrow> found_operation \<Rightarrow> unit outcome" where
  "assertOperation declared op =
    bindr (assertTextLimit (field (fo_operation op) ''summary'') operationDescriptionLimit (fo_name op @ '' summary'')) (\<lambda>_.
    bindr (assertTextLimit (field (fo_operation op) ''description'') operationDescriptionLimit (fo_name op @ '' description'')) (\<lambda>_.
    if (case field (fo_operation op) ''x-openai-isConsequential'' of Some (JBool b) \<Rightarrow> False | _ \<Rightarrow> True)
    then Inl (PlainError (fo_name op @ '' must set x-openai-isConsequential''))
    else bindr (assertOperationSecurity declared op) (\<lambda>_. bindr (assertParameters op) (\<lambda>_. assertJsonContent op))))"

definition assertChatGptActionsOpenApi :: "url_parser \<Rightarrow> js_object \<Rightarrow> unit outcome" where
  "assertChatGptActionsOpenApi parse_url document =
    (if field document ''openapi'' \<noteq> Some (JStr ''3.1.0'') then Inl (PlainError ''OpenAPI document must use version 3.1.0'')
     else bindr (assertInfo document) (\<lambda>_. bindr (readServerOrigin parse_url document) (\<lambda>serverOrigin.
       bindr (readDeclaredOAuthScopes parse_url document serverOrigin) (\<lambda>declared.
       bindr (assertComponentSchemas document) (\<lambda>_. bindr (operations document) (\<lambda>found.
       bindr (assertOperationIds found) (\<lambda>_. each (assertOperation declared) found)))))))"

lemma each_simps [simp]: "each f [] = Inr ()" "each f (x # xs) = bindr (f x) (\<lambda>_. each f xs)"
  by (simp_all add: each_def bindr_assoc)

lemma each_ok: "\<forall>x \<in> set xs. f x = Inr () \<Longrightarrow> each f xs = Inr ()"
  by (induction xs) auto

lemma operation_id_inject [simp]: "ao_operationId (definition_of a) = ao_operationId (definition_of b) \<longleftrightarrow> a = b"
  by (cases a; cases b; simp add: definition_of_simps actionOperationDefinitions_def)

lemma operation_id_ok: "is_operation_id (ao_operationId (definition_of a))"
  by (cases a; simp only: definition_of_simps actionOperationDefinitions_def; code_simp)

definition route_item :: "action_route \<Rightarrow> string \<times> json" where
  "route_item r = (ro_path r, JObj [(''get'', JObj (operation (definition_of (ro_name r))))])"

definition route_operation :: "action_route \<Rightarrow> found_operation" where
  "route_operation r = \<lparr> fo_name = ''GET '' @ ro_path r, fo_path = ro_path r, fo_operation = operation (definition_of (ro_name r)) \<rparr>"

lemma action_paths_ok:
  "assert_routes names routes = Inr () \<Longrightarrow> distinct (map ro_path routes) \<Longrightarrow> fst ` set paths \<inter> ro_path ` set routes = {} \<Longrightarrow>
    action_paths paths routes = Inr (paths @ map route_item routes)"
proof (induction routes arbitrary: names paths)
  case (Cons r routes)
  have "AList.update (ro_path r) v paths = paths @ [(ro_path r, v)]" for v
    using Cons.prems(3) by (intro update_fresh) auto
  moreover have "assertRouteMatchesOperation r (definition_of (ro_name r)) = Inr ()" "assert_routes (ro_name r # names) routes = Inr ()"
    using Cons.prems(1) by (auto simp: operationDefinition_total bindr_eq_Inr split: if_splits)
  moreover have "fst ` set (paths @ [route_item r]) \<inter> ro_path ` set routes = {}"
    using Cons.prems(2,3) by (auto simp: route_item_def)
  ultimately show ?case
    using Cons.IH [of "ro_name r # names" "paths @ [route_item r]"] Cons.prems(2) by (simp add: operationDefinition_total route_item_def)
qed simp

lemma route_operations: "mapr path_operations (map route_item routes) = Inr (map (\<lambda>r. [route_operation r]) routes)"
proof -
  have "to_upper ''get'' = ''GET''" by code_simp
  then have "path_operations (route_item r) = Inr [route_operation r]" for r
    by (simp add: path_operations_def route_item_def must_be_object_def httpMethods_def route_operation_def)
  then show ?thesis by (induction routes) simp_all
qed

lemma route_ids:
  "assert_routes names routes = Inr () \<Longrightarrow> assert_ids (map (\<lambda>n. ao_operationId (definition_of n)) names) (map route_operation routes) = Inr ()"
proof (induction routes arbitrary: names)
  case (Cons r routes)
  let ?i = "ao_operationId (definition_of (ro_name r))"
  have "must_be_text (Some (JStr ?i)) n = Inr ?i" for n
    using operation_id_ok [of "ro_name r"] by (cases ?i) (simp_all add: must_be_text_def is_operation_id_def)
  moreover have "ro_name r \<notin> set names" "assert_routes (ro_name r # names) routes = Inr ()"
    using Cons.prems by (auto simp: operationDefinition_total bindr_eq_Inr split: if_splits)
  moreover have "field (operation (definition_of (ro_name r))) ''operationId'' = Some (JStr ?i)" by (simp add: operation_def)
  ultimately show ?case
    using Cons.IH [of "ro_name r # names"] operation_id_ok by (auto simp: route_operation_def)
qed simp

lemma definition_texts:
  "field (operation (definition_of n)) ''summary'' = Some (JStr (ao_summary (definition_of n)))"
  "field (operation (definition_of n)) ''description'' = Some (JStr (ao_description (definition_of n)))"
  "assertTextLimit (Some (JStr (ao_summary (definition_of n)))) operationDescriptionLimit s = Inr ()"
  "assertTextLimit (Some (JStr (ao_description (definition_of n)))) operationDescriptionLimit s = Inr ()"
  by (simp add: operation_def, simp add: operation_def) (cases n; simp add: definition_of_simps actionOperationDefinitions_def assertTextLimit_def
      operationDescriptionLimit_def apostrophe_def)+

lemma route_security:
  assumes "starts_with ''/actions/'' (ro_path r) \<Longrightarrow> ao_scopes (definition_of (ro_name r)) \<noteq> []"
  shows "assertOperationSecurity [''openid'', ''profile'', ''email''] (route_operation r) = Inr ()"
  using assms by (cases "ro_name r")
    (auto simp: assertOperationSecurity_def route_operation_def oauth2Scopes_def requirement_scopes_def must_be_object_def falsy_def
      operation_def definition_of_simps actionOperationDefinitions_def JStrs_def jsonResponse_def)

lemma route_content: "assertJsonContent (route_operation r) = Inr ()"
  by (auto simp: assertJsonContent_def route_operation_def operation_def must_be_object_def jsonResponse_def assertContentTypes_def)

lemma route_operation_ok:
  assumes "starts_with ''/actions/'' (ro_path r) \<Longrightarrow> ao_scopes (definition_of (ro_name r)) \<noteq> []"
  shows "assertOperation [''openid'', ''profile'', ''email''] (route_operation r) = Inr ()"
proof -
  have fields: "field (operation (definition_of n)) ''x-openai-isConsequential'' = Some (JBool False)"
    "field (operation (definition_of n)) ''parameters'' = None" for n
    by (simp_all add: operation_def)
  show ?thesis
    using route_security [OF assms] route_content [of r]
    by (simp add: assertOperation_def assertParameters_def fields definition_texts) (simp add: route_operation_def fields definition_texts)
qed

lemma schemas_ok: "each assertComponentSchema actionSchemas = Inr ()"
  by (simp add: actionSchemas_def assertComponentSchema_def must_be_object_def assertTextLimit_def parameterDescriptionLimit_def
      healthResponseSchema_def userProfileSchema_def sessionResponseSchema_def errorResponseSchema_def actionObjectSchema_def schemaProperty_def typed_def)

section \<open>The document of the contract\<close>

text \<open>C18: Whatever routes the contract accepts, with distinct paths and with authentication below \<open>/actions/\<close>, the document built from
  them is one that the compatibility checker accepts, if the addresses of the two endpoints have the origin of the base address.\<close>

theorem contract_document_accepted:
  assumes "assertActionRouteManifest routes = Inr ()" "distinct (map ro_path routes)"
    and "\<And>r. r \<in> set routes \<Longrightarrow> starts_with ''/actions/'' (ro_path r) \<Longrightarrow> ro_auth r"
    and "baseUrl \<noteq> []" "parse_url baseUrl = Some u"
    and "\<And>path. path \<in> {''/oauth/authorize'', ''/oauth/token''} \<Longrightarrow> \<exists>v. parse_url (baseUrl @ path) = Some v \<and> url_origin v = url_origin u"
  shows "\<exists>document. openApiDocument baseUrl routes = Inr document \<and> assertChatGptActionsOpenApi parse_url document = Inr ()"
proof -
  have routes: "assert_routes [] routes = Inr ()" using assms(1) by (simp add: assertActionRouteManifest_def)
  have matches: "\<forall>r \<in> set routes. ro_auth r = (ao_scopes (definition_of (ro_name r)) \<noteq> [])"
  proof -
    have "assert_routes names rs = Inr () \<Longrightarrow> \<forall>r \<in> set rs. ro_auth r = (ao_scopes (definition_of (ro_name r)) \<noteq> [])" for names rs
      by (induction rs arbitrary: names) (auto simp: operationDefinition_total assertRouteMatchesOperation_def bindr_eq_Inr split: if_splits)
    with routes show ?thesis by blast
  qed
  have paths: "actionPaths routes = Inr (map route_item routes)"
    using action_paths_ok [OF routes assms(2)] by (simp add: actionPaths_def)
  define document where "document = (case openApiDocument baseUrl routes of Inr d \<Rightarrow> d | Inl e \<Rightarrow> [])"
  have doc: "openApiDocument baseUrl routes = Inr document" by (simp add: document_def openApiDocument_def paths)
  have fields: "field document ''openapi'' = Some (JStr ''3.1.0'')" "field document ''paths'' = Some (JObj (map route_item routes))"
    "field document ''components'' = Some (actionComponents baseUrl)" "field document ''servers'' = Some (JArr [JObj [(''url'', JStr baseUrl)]])"
    by (simp_all add: document_def openApiDocument_def paths)
  have "assertInfo document = Inr ()"
    by (simp add: assertInfo_def document_def openApiDocument_def paths must_be_object_def assertTextLimit_def operationDescriptionLimit_def)
  moreover obtain c s where "baseUrl = c # s" using assms(4) by (cases baseUrl) auto
  moreover from this have "readServerOrigin parse_url document = Inr (url_origin u)"
    using assms(5) by (simp add: readServerOrigin_def fields must_be_array_def must_be_object_def must_be_text_def first_of_def newURL_def)
  moreover have "readDeclaredOAuthScopes parse_url document (url_origin u) = Inr [''openid'', ''profile'', ''email'']"
    using assms(6) [of "''/oauth/authorize''"] assms(6) [of "''/oauth/token''"] \<open>baseUrl = c # s\<close>
    by (auto simp: readDeclaredOAuthScopes_def fields actionComponents_def oauthScheme_def must_be_object_def assertSharedOrigin_def must_be_text_def
        newURL_def actionOAuthScopes_def assertTextLimit_def parameterDescriptionLimit_def)
  moreover have "assertComponentSchemas document = Inr ()"
    using schemas_ok by (simp add: assertComponentSchemas_def fields actionComponents_def must_be_object_def)
  moreover have "operations document = Inr (map route_operation routes)"
    by (simp add: operations_def fields must_be_object_def route_operations)
  moreover have "assertOperationIds (map route_operation routes) = Inr ()"
    using route_ids [OF routes] by (simp add: assertOperationIds_def)
  moreover have "each (assertOperation [''openid'', ''profile'', ''email'']) (map route_operation routes) = Inr ()"
    using assms(3) matches route_operation_ok by (intro each_ok) auto
  ultimately have "assertChatGptActionsOpenApi parse_url document = Inr ()"
    by (simp add: assertChatGptActionsOpenApi_def fields)
  with doc show ?thesis by blast
qed

text \<open>A parser of addresses for which the origin is the first eleven characters.\<close>

definition origin_parser :: url_parser where
  "origin_parser s = map_option (\<lambda>u. u \<lparr> url_origin := take 11 s \<rparr>) (sample_url_parser s)"

lemma contract_document_accepted_witness:
  "\<exists>document. openApiDocument ''https://api'' actionRouteManifest = Inr document \<and> assertChatGptActionsOpenApi origin_parser document = Inr ()"
proof (rule contract_document_accepted)
  show "assertActionRouteManifest actionRouteManifest = Inr ()" by code_simp
  show "origin_parser ''https://api'' = Some (the (origin_parser ''https://api''))" by (simp add: origin_parser_def sample_url_parser_def)
  show "\<exists>v. origin_parser (''https://api'' @ path) = Some v \<and> url_origin v = url_origin (the (origin_parser ''https://api''))" for path
    by (simp add: origin_parser_def sample_url_parser_def)
qed (auto simp: actionRouteManifest_def)

end
