(* ===== verification/Deployment.thy ===== *)
theory Deployment
  imports Config Mcp_Lifecycle
begin

text \<open>
  The deployment of the service (\<open>ci/cdk/src\<close>): the settings read from the environment (\<open>config.ts\<close>) and the
  commands a new machine runs (\<open>user-data.ts\<close>), which contain the settings.  The stack itself
  (\<open>mcp-service-stack.ts\<close>) is a call of the CDK for each resource and is not modelled.  The theorem shows
  that an accepted setting cannot leave its place in the commands: no line is added, no here-document ended.
\<close>

section \<open>The settings\<close>

record upstream_deployment =
  ud_issuerUrl :: string
  ud_discoveryUrl :: string
  ud_authorizationUrl :: string
  ud_tokenUrl :: string
  ud_userinfoUrl :: string
  ud_clientId :: string
  ud_scopes :: string
  ud_tokenAuthMethod :: string

datatype identity_provider = External upstream_deployment | Cognito string

record deployment_config =
  dc_appName :: string
  dc_environmentName :: string
  dc_awsResourceName :: string
  dc_serviceName :: string
  dc_stackName :: string
  dc_domainName :: string
  dc_hostedZoneId :: string
  dc_hostedZoneName :: string
  dc_identityProvider :: identity_provider
  dc_parameterPrefix :: string
  dc_instanceType :: string
  dc_allowedOrigins :: string
  dc_widgetDomain :: string

definition is_lower_alnum :: "char \<Rightarrow> bool" where
  "is_lower_alnum c = (is_lower c \<or> is_digit c)"

text \<open>\<open>/^[a-z][a-z0-9-]{0,62}$/\<close>, \<open>/^[a-z0-9](?:[a-z0-9-]{0,61}[a-z0-9])?$/\<close>, \<open>/^[A-Za-z][A-Za-z0-9-]{0,127}$/\<close>,
  \<open>/^\/[A-Za-z0-9_.\-/]+$/\<close> and \<open>/^[a-z0-9][a-z0-9.-]*$/\<close>.\<close>

definition is_resource_name :: "string \<Rightarrow> bool" where
  "is_resource_name s = (s \<noteq> [] \<and> is_lower (hd s) \<and> length s \<le> 63 \<and> list_all (\<lambda>c. is_lower_alnum c \<or> c = CHR ''-'') s)"

definition is_dns_label :: "string \<Rightarrow> bool" where
  "is_dns_label s = (s \<noteq> [] \<and> length s \<le> 63 \<and> is_lower_alnum (hd s) \<and> is_lower_alnum (last s) \<and>
     list_all (\<lambda>c. is_lower_alnum c \<or> c = CHR ''-'') s)"

definition is_stack_name :: "string \<Rightarrow> bool" where
  "is_stack_name s = (s \<noteq> [] \<and> (is_lower (hd s) \<or> is_upper (hd s)) \<and> length s \<le> 128 \<and> list_all (\<lambda>c. is_alnum c \<or> c = CHR ''-'') s)"

definition is_prefix_char :: "char \<Rightarrow> bool" where
  "is_prefix_char c = (is_alnum c \<or> c \<in> {CHR ''_'', CHR ''.'', CHR ''-'', CHR ''/''})"

definition is_instance_type :: "string \<Rightarrow> bool" where
  "is_instance_type s = (s \<noteq> [] \<and> is_lower_alnum (hd s) \<and> list_all (\<lambda>c. is_lower_alnum c \<or> c = CHR ''.'' \<or> c = CHR ''-'') s)"

definition line_feed :: char where "line_feed = char_of (10 :: nat)"

definition requiredTextValue :: "string option \<Rightarrow> string \<Rightarrow> string outcome" where
  "requiredTextValue rawValue key = (case rawValue of
     None \<Rightarrow> Inl (PlainError (key @ '' is required''))
   | Some raw \<Rightarrow>
       if trim raw = [] then Inl (PlainError (key @ '' is required''))
       else if trim raw \<noteq> raw then Inl (PlainError (key @ '' cannot include surrounding whitespace''))
       else if list_ex (\<lambda>c. c = line_feed \<or> c = char_of (13 :: nat)) raw then Inl (PlainError (key @ '' cannot include line breaks''))
       else Inr raw)"

definition requiredEnv :: "env \<Rightarrow> string \<Rightarrow> string outcome" where
  "requiredEnv env key = requiredTextValue (map_of env key) key"

text \<open>A required setting that must satisfy a pattern.\<close>

definition matchingEnv :: "env \<Rightarrow> string \<Rightarrow> (string \<Rightarrow> bool) \<Rightarrow> string outcome" where
  "matchingEnv env key ok = bindr (requiredEnv env key) (\<lambda>value.
     if ok value then Inr value else Inl (PlainError (key @ '' contains invalid characters'')))"

definition stackName :: "string option \<Rightarrow> string outcome" where
  "stackName value = bindr (requiredTextValue value ''CDK_STACK_NAME'') (\<lambda>name.
     if is_stack_name name then Inr name else Inl (PlainError ''CDK_STACK_NAME contains invalid characters''))"

definition resourceName :: "env \<Rightarrow> string \<Rightarrow> string outcome" where
  "resourceName env key = matchingEnv env key is_resource_name"

definition dnsName :: "env \<Rightarrow> string \<Rightarrow> string outcome" where
  "dnsName env key = bindr (requiredEnv env key) (\<lambda>value.
     if length value > 253 \<or> ends_with ''.'' value \<or> length (split_on CHR ''.'' value) < 2
     then Inl (PlainError (key @ '' must be a hostname''))
     else if list_all is_dns_label (split_on CHR ''.'' value) then Inr value
     else Inl (PlainError (key @ '' must be a lowercase hostname'')))"

definition hostedZoneId :: "env \<Rightarrow> string outcome" where
  "hostedZoneId env = matchingEnv env ''CDK_HOSTED_ZONE_ID'' (is_word (\<lambda>c. is_upper c \<or> is_digit c))"

definition cognitoDomainPrefix :: "env \<Rightarrow> string outcome" where
  "cognitoDomainPrefix env = matchingEnv env ''CDK_COGNITO_DOMAIN_PREFIX'' is_resource_name"

definition oidcScopes :: "string \<Rightarrow> string outcome" where
  "oidcScopes value = (let scopes = parseList value in
     if \<not> List.member scopes ''openid'' then Inl (PlainError ''CDK_UPSTREAM_OIDC_SCOPES must include openid'')
     else if list_all is_scope scopes then Inr (join_with '' '' scopes)
     else Inl (PlainError ''CDK_UPSTREAM_OIDC_SCOPES contains invalid scopes''))"

definition oidcTokenAuthMethod :: "string \<Rightarrow> string outcome" where
  "oidcTokenAuthMethod value = (if value = ''client_secret_post'' \<or> value = ''client_secret_basic'' then Inr value
     else Inl (PlainError ''CDK_UPSTREAM_OIDC_TOKEN_AUTH_METHOD must be client_secret_post or client_secret_basic''))"

definition without_slash :: "string \<Rightarrow> string" where
  "without_slash s = (if ends_with ''/'' s then butlast s else s)"

definition httpsUrlValue :: "url_parser \<Rightarrow> string \<Rightarrow> string \<Rightarrow> string outcome" where
  "httpsUrlValue parse_url value key = bindr (newURL parse_url value) (\<lambda>u.
     if url_protocol u \<noteq> ''https:'' then Inl (PlainError (key @ '' must use https''))
     else if url_username u \<noteq> [] \<or> url_password u \<noteq> [] \<or> url_search u \<noteq> [] \<or> url_hash u \<noteq> []
     then Inl (PlainError (key @ '' contains unsupported URL parts''))
     else if url_hostname u = ''localhost'' \<or> ends_with ''.localhost'' (url_hostname u)
     then Inl (PlainError (key @ '' must use a public host''))
     else Inr (without_slash (url_href u)))"

definition httpsUrl :: "url_parser \<Rightarrow> env \<Rightarrow> string \<Rightarrow> string outcome" where
  "httpsUrl parse_url env key = bindr (requiredEnv env key) (\<lambda>value. httpsUrlValue parse_url value key)"

definition default_to :: "string option \<Rightarrow> string \<Rightarrow> string" where
  "default_to v d = (case v of None \<Rightarrow> d | Some s \<Rightarrow> s)"

definition deploymentUpstreamOidc :: "url_parser \<Rightarrow> env \<Rightarrow> upstream_deployment outcome" where
  "deploymentUpstreamOidc parse_url env =
    bindr (oidcScopes (default_to (map_of env ''CDK_UPSTREAM_OIDC_SCOPES'') ''openid profile email'')) (\<lambda>scopes.
    bindr (httpsUrl parse_url env ''CDK_UPSTREAM_OIDC_ISSUER_URL'') (\<lambda>issuer.
    bindr (httpsUrlValue parse_url (default_to (map_of env ''CDK_UPSTREAM_OIDC_DISCOVERY_URL'') (issuer @ ''/.well-known/openid-configuration''))
      ''CDK_UPSTREAM_OIDC_DISCOVERY_URL'') (\<lambda>discovery.
    bindr (httpsUrl parse_url env ''CDK_UPSTREAM_OIDC_AUTHORIZATION_URL'') (\<lambda>authorization.
    bindr (httpsUrl parse_url env ''CDK_UPSTREAM_OIDC_TOKEN_URL'') (\<lambda>token.
    bindr (httpsUrl parse_url env ''CDK_UPSTREAM_OIDC_USERINFO_URL'') (\<lambda>userinfo.
    bindr (requiredEnv env ''CDK_UPSTREAM_OIDC_CLIENT_ID'') (\<lambda>client.
    bindr (oidcTokenAuthMethod (default_to (map_of env ''CDK_UPSTREAM_OIDC_TOKEN_AUTH_METHOD'') ''client_secret_post'')) (\<lambda>auth.
      Inr \<lparr> ud_issuerUrl = issuer, ud_discoveryUrl = discovery, ud_authorizationUrl = authorization, ud_tokenUrl = token,
            ud_userinfoUrl = userinfo, ud_clientId = client, ud_scopes = scopes, ud_tokenAuthMethod = auth \<rparr>))))))))"

definition identityProvider :: "url_parser \<Rightarrow> env \<Rightarrow> identity_provider outcome" where
  "identityProvider parse_url env = bindr (requiredEnv env ''CDK_IDENTITY_PROVIDER_MODE'') (\<lambda>mode.
     if mode = ''external'' then bindr (deploymentUpstreamOidc parse_url env) (\<lambda>u. Inr (External u))
     else if mode = ''cognito'' then bindr (cognitoDomainPrefix env) (\<lambda>p. Inr (Cognito p))
     else Inl (PlainError ''CDK_IDENTITY_PROVIDER_MODE must be external or cognito''))"

definition deploymentWidgetDomain :: "url_parser \<Rightarrow> env \<Rightarrow> string \<Rightarrow> string outcome" where
  "deploymentWidgetDomain parse_url env domainName =
    bindr (case map_of env ''CDK_WIDGET_DOMAIN'' of
        None \<Rightarrow> Inr (''https://'' @ domainName)
      | Some v \<Rightarrow> requiredTextValue (Some v) ''CDK_WIDGET_DOMAIN'') (\<lambda>value.
    bindr (httpsUrlValue parse_url value ''CDK_WIDGET_DOMAIN'') (\<lambda>origin.
    bindr (newURL parse_url origin) (\<lambda>u.
      if url_origin u \<noteq> origin then Inl (PlainError ''CDK_WIDGET_DOMAIN must be an origin'') else Inr (url_origin u))))"

definition parameterPrefix :: "env \<Rightarrow> string outcome" where
  "parameterPrefix env = bindr (requiredEnv env ''CDK_PARAMETER_PREFIX'') (\<lambda>value.
     if \<not> (starts_with ''/'' value \<and> 2 \<le> length value \<and> list_all is_prefix_char (tl value)) \<or> ends_with ''/'' value \<or> sublist ''//'' value
     then Inl (PlainError ''CDK_PARAMETER_PREFIX contains invalid characters'')
     else if list_ex (\<lambda>part. part = ''.'' \<or> part = ''..'') (split_on CHR ''/'' value)
     then Inl (PlainError ''CDK_PARAMETER_PREFIX contains invalid path segments'')
     else if starts_with ''/aws/'' (to_lower value) \<or> starts_with ''/ssm/'' (to_lower value)
     then Inl (PlainError ''CDK_PARAMETER_PREFIX uses a reserved prefix'')
     else Inr value)"

definition instanceType :: "env \<Rightarrow> string outcome" where
  "instanceType env = matchingEnv env ''CDK_INSTANCE_TYPE'' (\<lambda>v. is_instance_type v \<and> includes_char CHR ''.'' v)"

definition assertDomainInHostedZone :: "string \<Rightarrow> string \<Rightarrow> unit outcome" where
  "assertDomainInHostedZone domainName hostedZoneName =
    (if domainName \<noteq> hostedZoneName \<and> \<not> ends_with (''.'' @ hostedZoneName) domainName
     then Inl (PlainError ''CDK_DOMAIN_NAME must be within CDK_HOSTED_ZONE_NAME'') else Inr ())"

definition deploymentConfig :: "url_parser \<Rightarrow> env \<Rightarrow> deployment_config outcome" where
  "deploymentConfig parse_url env =
    bindr (resourceName env ''CDK_ENVIRONMENT_NAME'') (\<lambda>environmentName.
    bindr (resourceName env ''CDK_APP_NAME'') (\<lambda>appName.
    bindr (dnsName env ''CDK_DOMAIN_NAME'') (\<lambda>domainName.
    bindr (dnsName env ''CDK_HOSTED_ZONE_NAME'') (\<lambda>hostedZoneName.
    bindr (assertDomainInHostedZone domainName hostedZoneName) (\<lambda>_.
    bindr (resourceName env ''CDK_SERVICE_NAME'') (\<lambda>serviceName.
    bindr (stackName (map_of env ''CDK_STACK_NAME'')) (\<lambda>stack.
    bindr (hostedZoneId env) (\<lambda>zoneId.
    bindr (identityProvider parse_url env) (\<lambda>provider.
    bindr (parameterPrefix env) (\<lambda>prefix.
    bindr (instanceType env) (\<lambda>machine.
    bindr (deploymentWidgetDomain parse_url env domainName) (\<lambda>widgets.
      Inr \<lparr> dc_appName = appName, dc_environmentName = environmentName, dc_awsResourceName = appName @ ''-'' @ environmentName,
            dc_serviceName = serviceName, dc_stackName = stack, dc_domainName = domainName, dc_hostedZoneId = zoneId,
            dc_hostedZoneName = hostedZoneName, dc_identityProvider = provider, dc_parameterPrefix = prefix, dc_instanceType = machine,
            dc_allowedOrigins = default_to (map_of env ''CDK_ALLOWED_ORIGINS'') ''https://chatgpt.com https://chat.openai.com'',
            dc_widgetDomain = widgets \<rparr>))))))))))))"

section \<open>The commands\<close>

record user_data_input =
  ud_config :: deployment_config
  ud_region :: string
  ud_repositoryUri :: string

record runtime_paths =
  rp_optDir :: string
  rp_dataDir :: string
  rp_runDir :: string
  rp_runScript :: string
  rp_serviceUnit :: string
  rp_bootstrapLog :: string
  rp_parameterFile :: string
  rp_envFile :: string
  rp_privateKeyFile :: string

definition runtimePaths :: "string \<Rightarrow> runtime_paths" where
  "runtimePaths resource = (let optDir = ''/opt/'' @ resource; dataDir = ''/var/lib/'' @ resource; runDir = ''/run/'' @ resource in
     \<lparr> rp_optDir = optDir, rp_dataDir = dataDir, rp_runDir = runDir, rp_runScript = optDir @ ''/run.sh'',
       rp_serviceUnit = ''/etc/systemd/system/'' @ resource @ ''.service'', rp_bootstrapLog = ''/var/log/'' @ resource @ ''-bootstrap.log'',
       rp_parameterFile = runDir @ ''/parameters.json'', rp_envFile = runDir @ ''/service.env'',
       rp_privateKeyFile = runDir @ ''/oauth-private-key.pem'' \<rparr>)"

definition squote :: char where "squote = CHR 0x27"

definition backslash :: char where "backslash = CHR 0x5C"

text \<open>The lines of a text; those of a command are joined by line feeds, as they are in the source or by its escapes.\<close>

definition joined :: "string list \<Rightarrow> string" where
  "joined ls = join_with [line_feed] ls"

definition installCaddy_lines :: "string list" where \<open>
  installCaddy_lines = [
     ''CADDY_VERSION="2.10.2"'',
     ''CADDY_ARCHIVE="caddy_${CADDY_VERSION}_linux_arm64.tar.gz"'',
     ''curl -fsSLo "/tmp/${CADDY_ARCHIVE}" "https://github.com/caddyserver/caddy/releases/download/v${CADDY_VERSION}/${CADDY_ARCHIVE}"'',
     ''curl -fsSLo /tmp/caddy_checksums.txt "https://github.com/caddyserver/caddy/releases/download/v${CADDY_VERSION}/caddy_${CADDY_VERSION}_checksums.txt"'',
     ''cd /tmp'',
     ''grep " ${CADDY_ARCHIVE}$" caddy_checksums.txt > caddy.sha512'',
     ''sha512sum -c caddy.sha512'',
     ''tar -xzf "${CADDY_ARCHIVE}" caddy'',
     ''install -m 0755 caddy /usr/local/bin/caddy'']\<close>

definition caddyfile_lines :: "string \<Rightarrow> string list" where \<open>
  caddyfile_lines domainName = [
     ''cat > /etc/caddy/Caddyfile <<'CADDY'' @ [squote],
     domainName @ '' {'',
     ''  reverse_proxy 127.0.0.1:8080'',
     ''  header {'',
     ''    Strict-Transport-Security "max-age=31536000; includeSubDomains"'',
     ''    X-Content-Type-Options "nosniff"'',
     ''    Referrer-Policy "no-referrer"'',
     ''  }'',
     ''}'',
     ''CADDY'']\<close>

definition caddyServiceUnit_lines :: "string list" where \<open>
  caddyServiceUnit_lines = [
     ''cat > /etc/systemd/system/caddy.service <<'UNIT'' @ [squote],
     ''[Unit]'',
     ''Description=Caddy web server'',
     ''After=network-online.target'',
     ''Wants=network-online.target'',
     [],
     ''[Service]'',
     ''Type=simple'',
     ''Environment=XDG_DATA_HOME=/var/lib/caddy'',
     ''Environment=XDG_CONFIG_HOME=/var/lib/caddy'',
     ''ExecStart=/usr/local/bin/caddy run --environ --config /etc/caddy/Caddyfile'',
     ''ExecReload=/usr/local/bin/caddy reload --config /etc/caddy/Caddyfile --force'',
     ''Restart=on-failure'',
     ''RestartSec=5s'',
     ''LimitNOFILE=1048576'',
     [],
     ''[Install]'',
     ''WantedBy=multi-user.target'',
     ''UNIT'']\<close>

definition runScript_lines :: "user_data_input \<Rightarrow> runtime_paths \<Rightarrow> string list" where \<open>
  runScript_lines input paths = [
     ''cat > '' @ rp_runScript paths @ '' <<'SERVICE'' @ [squote],
     ''#!/bin/bash'',
     ''set -euo pipefail'',
     ''PARAMETER_PREFIX="'' @ dc_parameterPrefix (ud_config input) @ ''"'',
     ''AWS_REGION="'' @ ud_region input @ ''"'',
     ''IMAGE_REPOSITORY_URI="'' @ ud_repositoryUri input @ ''"'',
     ''PARAMETER_FILE="'' @ rp_parameterFile paths @ ''"'',
     ''ENV_FILE="'' @ rp_envFile paths @ ''"'',
     ''PRIVATE_KEY_FILE="'' @ rp_privateKeyFile paths @ ''"'',
     ''mkdir -p '' @ rp_runDir paths @ '' '' @ rp_dataDir paths,
     ''aws ssm get-parameters-by-path --path "$PARAMETER_PREFIX" --recursive --with-decryption --region "$AWS_REGION" --output json > "$PARAMETER_FILE"'',
     '': > "$ENV_FILE"'',
     ''printf 'NODE_ENV=production'' @ [backslash] @ ''n' >> "$ENV_FILE"'',
     ''printf 'PORT=8080'' @ [backslash] @ ''n' >> "$ENV_FILE"'',
     ''printf 'AWS_REGION=%s'' @ [backslash] @ ''n' "$AWS_REGION" >> "$ENV_FILE"'',
     ''printf 'AWS_DEFAULT_REGION=%s'' @ [backslash] @ ''n' "$AWS_REGION" >> "$ENV_FILE"'',
     ''jq -r '.Parameters[] | select(.Name | endswith("/OAUTH_PRIVATE_KEY_PEM")) | .Value' "$PARAMETER_FILE" > "$PRIVATE_KEY_FILE"'',
     ''chmod 0400 "$PRIVATE_KEY_FILE"'',
     ''printf 'OAUTH_PRIVATE_KEY_PEM_FILE=%s'' @ [backslash] @ ''n' "$PRIVATE_KEY_FILE" >> "$ENV_FILE"'',
     ''jq -r '.Parameters[] | select((.Name | endswith("/OAUTH_PRIVATE_KEY_PEM")) | not) | [.Name, .Value] | @tsv' "$PARAMETER_FILE" | while IFS=$'' @ [squote] @ [backslash] @ ''t' read -r name value; do'',
     ''  key="${name##*/}"'',
     ''  printf '%s=%s'' @ [backslash] @ ''n' "$key" "$value" >> "$ENV_FILE"'',
     ''done'',
     ''chmod 0400 "$ENV_FILE"'',
     ''IMAGE_TAG="$(awk -F= '$1 == "IMAGE_TAG" { print $2 }' "$ENV_FILE" | tail -1)"'',
     ''if [ -z "$IMAGE_TAG" ]; then'',
     ''  IMAGE_TAG="latest"'',
     ''fi'',
     ''aws ecr get-login-password --region "$AWS_REGION" | docker login --username AWS --password-stdin "$IMAGE_REPOSITORY_URI"'',
     ''docker pull "$IMAGE_REPOSITORY_URI:$IMAGE_TAG"'',
     ''docker rm -f '' @ dc_serviceName (ud_config input) @ '' 2>/dev/null || true'',
     ''docker run -d --name '' @ dc_serviceName (ud_config input) @ '' --restart unless-stopped --env-file "$ENV_FILE" -v '' @ rp_dataDir paths @ '':'' @ rp_dataDir paths @ '' -v '' @ rp_runDir paths @ '':'' @ rp_runDir paths @ '':ro -p 127.0.0.1:8080:8080 "$IMAGE_REPOSITORY_URI:$IMAGE_TAG"'',
     ''SERVICE'']\<close>

definition serviceUnit_lines :: "runtime_paths \<Rightarrow> string list" where \<open>
  serviceUnit_lines paths = [
     ''cat > '' @ rp_serviceUnit paths @ '' <<'UNIT'' @ [squote],
     ''[Unit]'',
     ''Description=GPT MCP Service container'',
     ''After=docker.service network-online.target'',
     ''Wants=network-online.target'',
     [],
     ''[Service]'',
     ''Type=oneshot'',
     ''RemainAfterExit=yes'',
     ''ExecStart='' @ rp_runScript paths,
     [],
     ''[Install]'',
     ''WantedBy=multi-user.target'',
     ''UNIT'']\<close>

definition userDataCommands :: "user_data_input \<Rightarrow> string list" where
  "userDataCommands input = (let paths = runtimePaths (dc_serviceName (ud_config input)) in [
     ''set -euo pipefail'',
     ''exec > >(tee -a '' @ rp_bootstrapLog paths @ '') 2>&1'',
     ''dnf update -y'',
     ''dnf install -y docker jq awscli tar gzip'',
     ''systemctl enable --now docker'',
     joined installCaddy_lines,
     ''mkdir -p /etc/caddy '' @ rp_optDir paths @ '' '' @ rp_dataDir paths @ '' /var/lib/caddy '' @ rp_runDir paths,
     joined (caddyfile_lines (dc_domainName (ud_config input))),
     joined caddyServiceUnit_lines,
     joined (runScript_lines input paths),
     ''chmod 0500 '' @ rp_runScript paths,
     joined (serviceUnit_lines paths),
     ''systemctl daemon-reload'',
     ''systemctl enable --now caddy.service'',
     ''systemctl enable --now '' @ dc_serviceName (ud_config input) @ ''.service''])"

section \<open>The settings in the commands\<close>

definition shell_safe :: "char \<Rightarrow> bool" where
  "shell_safe c = (is_alnum c \<or> c \<in> {CHR ''-'', CHR ''_'', CHR ''.'', CHR ''/''})"

lemma line_feed_eq: "line_feed = CHR 0x0A"
  by code_simp

lemma line_feed_unsafe: "\<not> shell_safe line_feed"
  by code_simp

lemma safe_no_line: "list_all shell_safe s \<Longrightarrow> line_feed \<notin> set s"
  using line_feed_unsafe by (auto simp: list_all_iff)

lemma matchingEnvD: "matchingEnv env key ok = Inr v \<Longrightarrow> ok v"
  by (auto simp: matchingEnv_def bindr_eq_Inr split: if_splits)

lemma resource_name_safe: "is_resource_name s \<Longrightarrow> list_all shell_safe s"
  by (auto simp: is_resource_name_def list_all_iff shell_safe_def is_lower_alnum_def is_alnum_def)

lemma split_parts: "\<forall>w\<in>set (split_on c s). list_all p w \<Longrightarrow> p c \<Longrightarrow> list_all p s"
proof (induction s)
  case (Cons x s)
  then show ?case by (cases "split_on c s") (auto split: if_splits)
qed simp

lemma dns_name_safe: "dnsName env key = Inr v \<Longrightarrow> list_all shell_safe v"
proof -
  assume "dnsName env key = Inr v"
  then have "list_all is_dns_label (split_on CHR ''.'' v)" by (auto simp: dnsName_def bindr_eq_Inr split: if_splits)
  then have "\<forall>w\<in>set (split_on CHR ''.'' v). list_all shell_safe w"
    by (auto simp: list_all_iff is_dns_label_def shell_safe_def is_lower_alnum_def is_alnum_def)
  moreover have "shell_safe CHR ''.''" by code_simp
  ultimately show ?thesis by (rule split_parts)
qed

lemma prefix_safe: "parameterPrefix env = Inr v \<Longrightarrow> list_all shell_safe v"
proof -
  assume "parameterPrefix env = Inr v"
  then have "starts_with ''/'' v" "list_all is_prefix_char (tl v)" by (auto simp: parameterPrefix_def bindr_eq_Inr split: if_splits)
  moreover have "shell_safe CHR ''/''" by code_simp
  ultimately show ?thesis by (cases v) (auto simp: list_all_iff is_prefix_char_def shell_safe_def)
qed

lemma settings_safe:
  assumes "deploymentConfig parse_url env = Inr c"
  shows "list_all shell_safe (dc_serviceName c)" "list_all shell_safe (dc_domainName c)" "list_all shell_safe (dc_parameterPrefix c)"
proof -
  obtain service domain prefix where *: "resourceName env ''CDK_SERVICE_NAME'' = Inr service" "dnsName env ''CDK_DOMAIN_NAME'' = Inr domain"
    "parameterPrefix env = Inr prefix" "dc_serviceName c = service" "dc_domainName c = domain" "dc_parameterPrefix c = prefix"
    using assms unfolding deploymentConfig_def bindr_eq_Inr by (elim exE conjE) auto
  show "list_all shell_safe (dc_serviceName c)" using * matchingEnvD resource_name_safe unfolding resourceName_def by metis
  show "list_all shell_safe (dc_domainName c)" "list_all shell_safe (dc_parameterPrefix c)" using * dns_name_safe prefix_safe by simp_all
qed

lemma split_joined: "ls \<noteq> [] \<Longrightarrow> \<forall>w\<in>set ls. line_feed \<notin> set w \<Longrightarrow> split_on line_feed (joined ls) = ls"
  unfolding joined_def by (rule split_join) (auto simp: list_all_iff)

definition closed_document :: "string \<Rightarrow> string list \<Rightarrow> bool" where
  "closed_document tag ls = (ends_with (''<<'' @ [squote] @ tag @ [squote]) (hd ls) \<and> last ls = tag \<and> tag \<notin> set (butlast ls))"

lemma paths_safe:
  assumes "list_all shell_safe s"
  shows "line_feed \<notin> set (rp_optDir (runtimePaths s))" "line_feed \<notin> set (rp_dataDir (runtimePaths s))" "line_feed \<notin> set (rp_runDir (runtimePaths s))"
    "line_feed \<notin> set (rp_runScript (runtimePaths s))" "line_feed \<notin> set (rp_serviceUnit (runtimePaths s))"
    "line_feed \<notin> set (rp_bootstrapLog (runtimePaths s))" "line_feed \<notin> set (rp_parameterFile (runtimePaths s))"
    "line_feed \<notin> set (rp_envFile (runtimePaths s))" "line_feed \<notin> set (rp_privateKeyFile (runtimePaths s))"
  using safe_no_line [OF assms] by (simp_all add: runtimePaths_def Let_def line_feed_eq)

lemma fixed_lines:
  "\<forall>w\<in>set installCaddy_lines. line_feed \<notin> set w" "\<forall>w\<in>set caddyServiceUnit_lines. line_feed \<notin> set w"
  by (simp_all add: installCaddy_lines_def caddyServiceUnit_lines_def line_feed_eq squote_def)

lemma caddyfile_no_feed: "line_feed \<notin> set domainName \<Longrightarrow> \<forall>w\<in>set (caddyfile_lines domainName). line_feed \<notin> set w"
  by (simp add: caddyfile_lines_def line_feed_eq squote_def)

lemma unit_lines: "list_all shell_safe s \<Longrightarrow> \<forall>w\<in>set (serviceUnit_lines (runtimePaths s)). line_feed \<notin> set w"
  using paths_safe [of s] by (simp add: serviceUnit_lines_def line_feed_eq squote_def)

lemma run_lines:
  assumes "list_all shell_safe (dc_serviceName (ud_config input))" "list_all shell_safe (dc_parameterPrefix (ud_config input))"
    "line_feed \<notin> set (ud_region input)" "line_feed \<notin> set (ud_repositoryUri input)"
  shows "\<forall>w\<in>set (runScript_lines input (runtimePaths (dc_serviceName (ud_config input)))). line_feed \<notin> set w"
  using paths_safe [OF assms(1)] safe_no_line [OF assms(1)] safe_no_line [OF assms(2)] assms(3,4)
  by (simp add: runScript_lines_def line_feed_eq squote_def backslash_def)

lemma line_counts:
  "length installCaddy_lines = 9" "length (caddyfile_lines d) = 10" "length caddyServiceUnit_lines = 19" "length (runScript_lines input paths) = 33"
  "length (serviceUnit_lines paths) = 14"
  by (simp_all add: installCaddy_lines_def caddyfile_lines_def caddyServiceUnit_lines_def runScript_lines_def serviceUnit_lines_def)

lemma lines_exist:
  "installCaddy_lines \<noteq> []" "caddyfile_lines d \<noteq> []" "caddyServiceUnit_lines \<noteq> []" "runScript_lines input paths \<noteq> []"
  "serviceUnit_lines paths \<noteq> []"
  by (simp_all add: installCaddy_lines_def caddyfile_lines_def caddyServiceUnit_lines_def runScript_lines_def serviceUnit_lines_def)

lemma last_differs: "last xs \<noteq> last ys \<Longrightarrow> xs \<noteq> ys"
  by auto

lemma documents_closed:
  "closed_document ''CADDY'' (caddyfile_lines d)" "closed_document ''UNIT'' caddyServiceUnit_lines"
  "closed_document ''UNIT'' (serviceUnit_lines paths)" "closed_document ''SERVICE'' (runScript_lines input paths)"
proof -
  have brace: "d @ '' {'' \<noteq> ''CADDY''" by (rule last_differs) simp
  show "closed_document ''CADDY'' (caddyfile_lines d)" using brace by (simp add: closed_document_def caddyfile_lines_def suffix_def squote_def)
  show "closed_document ''UNIT'' caddyServiceUnit_lines" by (simp add: closed_document_def caddyServiceUnit_lines_def suffix_def squote_def)
  show "closed_document ''UNIT'' (serviceUnit_lines paths)" by (simp add: closed_document_def serviceUnit_lines_def suffix_def squote_def)
  show "closed_document ''SERVICE'' (runScript_lines input paths)" by (simp add: closed_document_def runScript_lines_def suffix_def squote_def backslash_def)
qed

text \<open>C35: Whatever the environment, a setting that is accepted stays in its place in the commands of a new machine: the names and
  the prefix that are inserted are free of quotes, blanks and everything a shell interprets, the commands have the same lines as for
  every other setting, and each of the four files written by a here-document ends at its last line and not before.\<close>

theorem deployment_commands_confined:
  assumes "deploymentConfig parse_url env = Inr c" "line_feed \<notin> set region" "line_feed \<notin> set repositoryUri"
  shows "list_all shell_safe (dc_serviceName c) \<and> list_all shell_safe (dc_domainName c) \<and> list_all shell_safe (dc_parameterPrefix c) \<and>
    (let commands = map (split_on line_feed) (userDataCommands \<lparr> ud_config = c, ud_region = region, ud_repositoryUri = repositoryUri \<rparr>) in
      map length commands = [1, 1, 1, 1, 1, 9, 1, 10, 19, 33, 1, 14, 1, 1, 1] \<and>
      closed_document ''CADDY'' (commands ! 7) \<and> closed_document ''UNIT'' (commands ! 8) \<and>
      closed_document ''SERVICE'' (commands ! 9) \<and> closed_document ''UNIT'' (commands ! 11))"
proof -
  note safe = settings_safe [OF assms(1)]
  let ?input = "\<lparr> ud_config = c, ud_region = region, ud_repositoryUri = repositoryUri \<rparr>" and ?paths = "runtimePaths (dc_serviceName c)"
  have run: "\<forall>w\<in>set (runScript_lines ?input ?paths). line_feed \<notin> set w"
    using run_lines [of ?input] safe assms(2,3) unfolding user_data_input.simps by blast
  note documents = split_joined [OF lines_exist(1) fixed_lines(1)] split_joined [OF lines_exist(2) caddyfile_no_feed [OF safe_no_line [OF safe(2)]]]
    split_joined [OF lines_exist(3) fixed_lines(2)] split_joined [OF lines_exist(4) run] split_joined [OF lines_exist(5) unit_lines [OF safe(1)]]
  have commands: "map (split_on line_feed) (userDataCommands ?input) = [
      [''set -euo pipefail''], [''exec > >(tee -a '' @ rp_bootstrapLog ?paths @ '') 2>&1''], [''dnf update -y''],
      [''dnf install -y docker jq awscli tar gzip''], [''systemctl enable --now docker''], installCaddy_lines,
      [''mkdir -p /etc/caddy '' @ rp_optDir ?paths @ '' '' @ rp_dataDir ?paths @ '' /var/lib/caddy '' @ rp_runDir ?paths],
      caddyfile_lines (dc_domainName c), caddyServiceUnit_lines, runScript_lines ?input ?paths, [''chmod 0500 '' @ rp_runScript ?paths],
      serviceUnit_lines ?paths, [''systemctl daemon-reload''], [''systemctl enable --now caddy.service''],
      [''systemctl enable --now '' @ dc_serviceName c @ ''.service'']]"
    unfolding userDataCommands_def Let_def list.map user_data_input.simps documents
    using paths_safe [OF safe(1)] safe_no_line [OF safe(1)] by (simp add: split_on_absent line_feed_eq del: split_on.simps)
  show ?thesis unfolding Let_def commands
    using safe documents_closed by (simp add: line_counts)
qed

definition machine_parser :: url_parser where
  "machine_parser s = (if starts_with ''https://mcp.example.com'' s then Some \<lparr> url_protocol = ''https:'', url_username = [], url_password = [],
     url_hostname = ''mcp.example.com'', url_pathname = ''/'', url_search = [], url_hash = [], url_href = ''https://mcp.example.com/'',
     url_origin = ''https://mcp.example.com'' \<rparr> else None)"

definition machine_env :: env where
  "machine_env = [(''CDK_ENVIRONMENT_NAME'', ''prod''), (''CDK_APP_NAME'', ''gpt-mcp''), (''CDK_DOMAIN_NAME'', ''mcp.example.com''),
     (''CDK_HOSTED_ZONE_NAME'', ''example.com''), (''CDK_SERVICE_NAME'', ''mcp''), (''CDK_STACK_NAME'', ''McpStack''),
     (''CDK_HOSTED_ZONE_ID'', ''Z12''), (''CDK_IDENTITY_PROVIDER_MODE'', ''cognito''), (''CDK_COGNITO_DOMAIN_PREFIX'', ''login''),
     (''CDK_PARAMETER_PREFIX'', ''/mcp/prod''), (''CDK_INSTANCE_TYPE'', ''t4g.small'')]"

lemma machine_accepted: "case deploymentConfig machine_parser machine_env of Inr c \<Rightarrow> dc_serviceName c = ''mcp'' | Inl e \<Rightarrow> False"
  by code_simp

theorem deployment_commands_confined_witness:
  "\<exists>c. deploymentConfig machine_parser machine_env = Inr c \<and> dc_serviceName c = ''mcp'' \<and> list_all shell_safe (dc_parameterPrefix c)"
proof -
  obtain c where c: "deploymentConfig machine_parser machine_env = Inr c" "dc_serviceName c = ''mcp''"
    using machine_accepted by (auto split: sum.splits)
  have "line_feed \<notin> set ''eu-west-1''" "line_feed \<notin> set ''registry/mcp''" by (simp_all add: line_feed_eq)
  from deployment_commands_confined [OF c(1) this] c show ?thesis by blast
qed

end
