(* ===== verification/Spec2Isabelle.thy ===== *)
theory Spec2Isabelle
  imports Rate_Limit Network_Address Media_Type Disk_Properties Store_File Http Server_Properties Dynamo_Refinement Mcp_Process Mcp_Paging Card_Properties Store_Lock Openapi_Check Deployment
begin

text \<open>
  Verification development of the GPT MCP service: an OAuth 2.1 authorization server that delegates login to an
  upstream OpenID provider, an MCP server (JSON-RPC over HTTP, with server-sent events) whose tools and
  resources are protected by its tokens, and a small HTTP API for GPT Actions.

  The program and its parts.  Every request enters through a handler (\<open>endpoints.*.ts\<close>), is limited per subject,
  and works on one store of codes, refresh tokens, upstream logins, MCP sessions and counters.  The store has
  two implementations behind one interface (\<open>auth/storage/oauth-store.ts\<close>): a JSON file replaced under a lock
  file, and a DynamoDB table.  \<open>/oauth/authorize\<close> checks a request against the client and stores a pending login; the
  callback exchanges the provider's code for a profile and stores an authorization code; \<open>/oauth/token\<close>
  authenticates the client and exchanges a code or a refresh token for signed tokens; \<open>/mcp\<close> and the Actions
  accept those tokens.

  Conventions.  A function that may throw gives \<open>js_error + 'a\<close> (\<open>'a outcome\<close>); every exception, early return and
  default of the source is a branch.  Module state (caches, key set, open streams) and the store are passed and
  returned.  Random values and clock readings are arguments, one for each time the source draws one.  Strings
  are lists of code units up to U+00FF; JavaScript objects are association lists in insertion order; numbers are
  safe integers, or doubles where the source divides (\<open>Doubles\<close>).  What is not under \<open>src/\<close> or is a runtime
  service is a parameter: SHA-256, signatures and key import (\<open>crypto\<close>), \<open>new URL\<close> (\<open>url_parser\<close>),
  \<open>URLSearchParams\<close>, \<open>fetch\<close> and DNS (\<open>outside\<close>, \<open>upstream\<close>), the DynamoDB table (\<open>dynamo_table\<close>).

  Foundations.
  \<^item> \<open>Prelude\<close>: string methods, numerals, results, the lemma collections \<open>result_simps\<close>, \<open>string_simps\<close>.
  \<^item> \<open>Js_Values\<close> (\<open>shared/errors.ts\<close>, \<open>shared/json.ts\<close>), \<open>Json_Text\<close> (\<open>JSON.parse\<close>, \<open>JSON.stringify\<close>; parsing what was
    printed gives it back), \<open>Encoding\<close> (\<open>shared/base64url.ts\<close>, UTF-8, with their inverse laws), \<open>Doubles\<close>.

  Request checks, each a file of the source with its rules.
  \<^item> \<open>OAuth_Params\<close>, \<open>Http\<close> (with the redaction of diagnostics), \<open>Media_Type\<close>, \<open>Network_Address\<close>
    (proved equal to a table of CIDR blocks), \<open>User_Profile\<close> (round trip), \<open>Config\<close> (what every accepted
    configuration guarantees), \<open>Rate_Limit\<close> (sliding window: bound on the admitted requests, recovery).

  The store.
  \<^item> \<open>Store_Records\<close>, \<open>Disk_Store\<close>: the operations of \<open>disk-store.ts\<close> as a state machine, the abstract
    specification of the store.  \<open>Disk_Runs\<close>, \<open>Disk_Properties\<close>: its runs by any callers; single use of codes,
    refresh tokens, states and request identifiers, families of refresh tokens and their revocation.
  \<^item> \<open>Store_Codec\<close> (rows and the whole store as JSON), \<open>Store_File\<close> (on storable inputs the file implements the
    state machine, with link, mode and type checks; some inputs that the endpoints accept make it unreadable),
    \<open>Store_Lock\<close> (the updates of concurrent processes, one file-system call at a time, the rename and the syncing of
    the directory apart, are linearizable while no lock becomes stale, and are not when one does).
  \<^item> \<open>Dynamo_Items\<close>, \<open>Dynamo_Store\<close>: the DynamoDB store, every operation the program of requests it sends.
    \<open>Dynamo_Runs\<close>, \<open>Dynamo_Properties\<close>: single use under every interleaving, failed requests and lost answers
    included, of a refresh token while its rotation marker lasts.  \<open>Dynamo_Refinement\<close>: alone, an operation on a code, an upstream state or a
    session gives what the file store gives.

  The authorization server.
  \<^item> \<open>Clients\<close>, \<open>Expiring_Cache\<close>, \<open>Client_Auth\<close>, \<open>Client_Assertion\<close>, \<open>Client_Properties\<close>: registered clients,
    clients known by a metadata document and its fetching, Basic credentials, signed assertions; what a resolved
    client is confined to, and that no assertion is accepted twice.
  \<^item> \<open>Tokens\<close>, \<open>Token_Properties\<close>: signing and verification, access and identity tokens, the key set and its cache.
  \<^item> \<open>Grants\<close>, \<open>Grant_Properties\<close>: the token endpoint over the store interface.  \<open>Upstream_Oidc\<close>: the login.
  \<^item> \<open>Authorize\<close>: the handlers of the authorization server, discovery and startup.  \<open>Recorded_Store\<close>: every record
    stands for an authorization its client was entitled to and a login that took place.  \<open>Server_Properties\<close>: in any
    run of the server a token traces to both, with a complete login computed as the instance.

  The MCP server.
  \<^item> \<open>Mcp_Rpc\<close>, \<open>Mcp_Lifecycle\<close>, \<open>Mcp_Schema\<close>, \<open>Mcp_Tools\<close>, \<open>Mcp_Resources\<close>, \<open>Mcp_Widgets\<close>, \<open>Mcp_Cards\<close>,
    \<open>Mcp_Protocol\<close>: messages, \<open>initialize\<close>, schemas, the five tools, resources, widgets and cards, the dispatch.
  \<^item> \<open>Mcp_Server\<close>, \<open>Mcp_Sse\<close>: the two transports with sessions, request identifiers and open streams.
  \<^item> \<open>Mcp_Tool_Properties\<close> (tools are well typed and tell what the token says), \<open>Card_Properties\<close> (texts are never
    markup; the service's widgets are defined and served), \<open>Mcp_Paging\<close> (following cursors ends and
    loses nothing), \<open>Mcp_Properties\<close>, \<open>Mcp_Process\<close> (responses are well formed, a result needs an allowed
    origin, a token and a live session, whose request identifier it uses up, the process keeps its bounds under every interleaving).

  The Actions: \<open>Actions\<close> (contract, document, handlers, and that answers keep the contract), \<open>Openapi_Check\<close> (the
  build's checker, which accepts every document of the contract).

  The deployment: \<open>Deployment\<close> (the settings of \<open>ci/cdk\<close> and the commands of a new machine, in which no accepted setting
  can add a line or end a here-document).

  Interfaces.  \<open>rounding\<close> (doubles), \<open>one_shot\<close> (an operation that wins at most once per key; interpreted for codes,
  refresh tokens, states, request identifiers, assertions and token requests), \<open>row_codec\<close> and \<open>record_codec\<close>
  (rows of the file, records of the table; one interpretation per type), \<open>grant_store\<close> and its extension
  \<open>recorded_store\<close> (what the endpoints need of a store; interpreted on the file store), \<open>dynamo_table\<close>,
  \<open>credit_scheme\<close> and \<open>credited_table\<close> (single use on a shared table; interpreted per kind of grant and on a table
  in memory).

  Bounds and fuel.  The JSON parser runs on fuel \<open>2 * length + 1\<close>, which its round trip shows to be enough for
  every printed text.  The walk over pages has the number of calls as fuel; more calls than
  full pages are proved to be enough.  All other recursion terminates by measure or structure.

  Not modelled, and why.
  \<^item> \<open>encore.service.ts\<close>, the route declarations and \<open>store-provider.ts\<close>: wiring by the framework.
  \<^item> The exchange with DynamoDB (\<open>http-client.ts\<close>) and its credentials from the instance metadata service,
    the sink of diagnostics, the heartbeat of a stream, temporary files and their \<open>fsync\<close>: input and output only.
  \<^item> \<open>shared/crypto.ts\<close>, \<open>shared/time.ts\<close> and \<open>client-metadata-fetch.ts\<close> beyond its rules: calls of the runtime.
  \<^item> \<open>ci/cdk/src/mcp-service-stack.ts\<close> and \<open>tools\<close> other than the OpenAPI checker: declarations of cloud resources and
    checks of the repository, outside the service.
  \<^item> Scripts that run in the browser, tests and documents are text.
\<close>

end
